(* ===== verification/Prelude.thy ===== *)
theory Prelude
  imports Complex_Main "HOL-Library.List_Lexorder" "HOL-Library.Char_ord"
begin

text \<open>
  Shared vocabulary of the development: the exceptions of the code as values, the result type
  and its combinators, tables of rows with a primary key (the part of SQLite the store uses),
  and three interfaces stated as locales: keyed tables, machines with an invariant, and
  machines with an append-only log.
\<close>

section \<open>Exceptions and results\<close>

text \<open>
  One constructor per exception class the modelled code raises. The text is the constant part
  of the message in the source; interpolated values are left out.
\<close>

datatype err =
    ValueError string
  | KeyError string
  | TypeError string
  | StateConflictError string
  | CommandConflictError string
  | DeliveryAdmissionBusy string
  | IntegrityError string
  | AttributeErr string

type_synonym 'a res = "err + 'a"

named_theorems res_simps "rules that turn a successful result into its conditions"

definition bindR :: "'a res \<Rightarrow> ('a \<Rightarrow> 'b res) \<Rightarrow> 'b res" where
  "bindR m f = (case m of Inl e \<Rightarrow> Inl e | Inr x \<Rightarrow> f x)"

definition require :: "err \<Rightarrow> 'a option \<Rightarrow> 'a res" where
  "require e opt = (case opt of None \<Rightarrow> Inl e | Some x \<Rightarrow> Inr x)"

fun mapR :: "('a \<Rightarrow> 'b res) \<Rightarrow> 'a list \<Rightarrow> 'b list res" where
  "mapR f [] = Inr []"
| "mapR f (x # xs) = (case f x of Inl e \<Rightarrow> Inl e | Inr y \<Rightarrow>
      (case mapR f xs of Inl e \<Rightarrow> Inl e | Inr ys \<Rightarrow> Inr (y # ys)))"

lemma bindR_simps [simp]: "bindR (Inl e) f = Inl e" "bindR (Inr x) f = f x"
  by (simp_all add: bindR_def)

lemma require_simps [simp]: "require e None = Inl e" "require e (Some x) = Inr x"
  by (simp_all add: require_def)

lemma bindR_Inr [res_simps]: "bindR act k = Inr out \<longleftrightarrow> (\<exists>mid. act = Inr mid \<and> k mid = Inr out)"
  by (cases act) simp_all

lemma bindR_Inl [res_simps]:
  "bindR m f = Inl e \<longleftrightarrow> m = Inl e \<or> (\<exists>x. m = Inr x \<and> f x = Inl e)"
  by (cases m) auto

lemma require_Inr [res_simps]: "require e opt = Inr x \<longleftrightarrow> opt = Some x"
  by (cases opt) auto

lemma require_Inl [res_simps]: "require e opt = Inl e' \<longleftrightarrow> opt = None \<and> e' = e"
  by (cases opt) auto

lemma guard_Inr [res_simps]: "(if b then Inl e else m) = Inr x \<longleftrightarrow> \<not> b \<and> m = Inr x"
  by simp

lemma bindR_cong [fundef_cong]:
  "m = m' \<Longrightarrow> (\<And>x. m' = Inr x \<Longrightarrow> f x = g x) \<Longrightarrow> bindR m f = bindR m' g"
  by (cases m') auto

lemma mapR_length: "mapR f xs = Inr ys \<Longrightarrow> length ys = length xs"
  by (induction xs arbitrary: ys) (auto split: sum.splits)

lemma mapR_map: "(\<And>x. x \<in> set xs \<Longrightarrow> f x = Inr (g x)) \<Longrightarrow> mapR f xs = Inr (map g xs)"
  by (induction xs) auto

section \<open>Tables\<close>

text \<open>
  A table is the list of its rows in insertion (rowid) order. \<open>row_get\<close> is
  \<open>SELECT ... WHERE key = ?\<close> with \<open>fetchone\<close>, \<open>row_put\<close> is
  \<open>UPDATE ... WHERE key = ?\<close>, \<open>row_add\<close> is an \<open>INSERT\<close> under a unique key and
  \<open>row_del\<close> a \<open>DELETE\<close>.
\<close>

definition row_get :: "('r \<Rightarrow> 'k) \<Rightarrow> 'k \<Rightarrow> 'r list \<Rightarrow> 'r option" where
  "row_get key k t = find (\<lambda>r. key r = k) t"

definition row_put :: "('r \<Rightarrow> 'k) \<Rightarrow> 'k \<Rightarrow> ('r \<Rightarrow> 'r) \<Rightarrow> 'r list \<Rightarrow> 'r list" where
  "row_put key k f t = map (\<lambda>r. if key r = k then f r else r) t"

definition row_add :: "('r \<Rightarrow> 'k) \<Rightarrow> 'r \<Rightarrow> 'r list \<Rightarrow> 'r list res" where
  "row_add key r t = (if key r \<in> set (map key t) then Inl (IntegrityError ''UNIQUE'')
     else Inr (t @ [r]))"

text \<open>Several \<open>INSERT\<close>s in a row.\<close>

fun rows_add :: "('r \<Rightarrow> 'k) \<Rightarrow> 'r list \<Rightarrow> 'r list \<Rightarrow> 'r list res" where
  "rows_add key [] t = Inr t"
| "rows_add key (r # rs) t = bindR (row_add key r t) (rows_add key rs)"

definition unique_key :: "('r \<Rightarrow> 'k) \<Rightarrow> 'r list \<Rightarrow> bool" where
  "unique_key key t \<longleftrightarrow> distinct (map key t)"

locale keyed_table =
  fixes key :: "'r \<Rightarrow> 'k"
    and look :: "'k \<Rightarrow> 'r list \<Rightarrow> 'r option"
    and put :: "'k \<Rightarrow> ('r \<Rightarrow> 'r) \<Rightarrow> 'r list \<Rightarrow> 'r list"
    and add :: "'r \<Rightarrow> 'r list \<Rightarrow> 'r list res"
  assumes look_Some: "look k t = Some r \<Longrightarrow> key r = k \<and> r \<in> set t"
    and look_None: "look k t = None \<longleftrightarrow> k \<notin> key ` set t"
    and look_put: "(\<And>r. key r = k \<Longrightarrow> key (f r) = k) \<Longrightarrow>
      look k' (put k f t) = (if k' = k then map_option f (look k' t) else look k' t)"
    and put_other: "key r \<noteq> k \<Longrightarrow> r \<in> set t \<Longrightarrow> r \<in> set (put k f t)"
    and put_origin: "r \<in> set (put k f t) \<Longrightarrow>
      \<exists>r0 \<in> set t. r = (if key r0 = k then f r0 else r0)"
    and put_unique: "(\<And>r. key r = k \<Longrightarrow> key (f r) = k) \<Longrightarrow> unique_key key t \<Longrightarrow> unique_key key (put k f t)"
    and add_Inr: "add r t = Inr t' \<longleftrightarrow> look (key r) t = None \<and> t' = t @ [r]"
    and add_look: "look k (t @ [r]) = (case look k t of Some x \<Rightarrow> Some x
      | None \<Rightarrow> if key r = k then Some r else None)"
    and add_unique: "look (key r) t = None \<Longrightarrow> unique_key key t \<Longrightarrow> unique_key key (t @ [r])"
begin

lemma put_all:
  assumes "\<forall>r \<in> set t. P r" and "\<And>r. r \<in> set t \<Longrightarrow> key r = k \<Longrightarrow> P (f r)"
  shows "\<forall>r \<in> set (put k f t). P r"
proof
  fix r assume "r \<in> set (put k f t)"
  then obtain r0 where "r0 \<in> set t" and "r = (if key r0 = k then f r0 else r0)"
    using put_origin by blast
  then show "P r" using assms by (cases "key r0 = k") auto
qed

lemma add_all: "\<forall>r \<in> set t. P r \<Longrightarrow> P x \<Longrightarrow> add x t = Inr t' \<Longrightarrow> \<forall>r \<in> set t'. P r"
  by (auto simp: add_Inr)

lemma unique_row:
  assumes "unique_key key t" and "r \<in> set t"
  shows "look (key r) t = Some r"
proof -
  from assms(2) have "look (key r) t \<noteq> None"
    by (simp add: look_None)
  then obtain r' where r': "look (key r) t = Some r'" by blast
  then have "key r' = key r" and "r' \<in> set t" using look_Some by blast+
  with assms have "r' = r"
    unfolding unique_key_def by (metis distinct_map inj_onD)
  with r' show ?thesis by simp
qed

end

lemma unique_same:
  "unique_key key t \<Longrightarrow> r \<in> set t \<Longrightarrow> r' \<in> set t \<Longrightarrow> key r = key r' \<Longrightarrow> r = r'"
  unfolding unique_key_def distinct_map by (blast dest: inj_onD)

lemma find_append: "find P (xs @ ys) = (case find P xs of Some x \<Rightarrow> Some x | None \<Rightarrow> find P ys)"
  by (induction xs) auto

lemma row_get_map:
  "(\<And>r. key r = k \<Longrightarrow> key (f r) = k) \<Longrightarrow>
   row_get key k' (row_put key k f t)
     = (if k' = k then map_option f (row_get key k' t) else row_get key k' t)"
  unfolding row_get_def row_put_def by (induction t) auto

lemma keyed_rows: "keyed_table key (row_get key) (row_put key) (row_add key)"
proof
  fix k t and r
  assume "row_get key k t = Some r"
  then show "key r = k \<and> r \<in> set t"
    by (auto simp: row_get_def find_Some_iff)
next
  fix k t
  show "row_get key k t = None \<longleftrightarrow> k \<notin> key ` set t"
    by (auto simp: row_get_def find_None_iff)
next
  fix f k' k and t
  assume "\<And>r. key r = k \<Longrightarrow> key (f r) = k"
  then show "row_get key k' (row_put key k f t)
      = (if k' = k then map_option f (row_get key k' t) else row_get key k' t)"
    by (rule row_get_map)
next
  fix k t f and r
  show "key r \<noteq> k \<Longrightarrow> r \<in> set t \<Longrightarrow> r \<in> set (row_put key k f t)"
    by (force simp: row_put_def)
next
  fix k t f and r
  show "r \<in> set (row_put key k f t) \<Longrightarrow> \<exists>r0 \<in> set t. r = (if key r0 = k then f r0 else r0)"
    by (auto simp: row_put_def)
next
  fix f k t
  assume keep: "\<And>r. key r = k \<Longrightarrow> key (f r) = k" and "unique_key key t"
  moreover have "map key (row_put key k f t) = map key t"
    unfolding row_put_def using keep by simp
  ultimately show "unique_key key (row_put key k f t)"
    by (simp add: unique_key_def)
next
  fix r t t'
  show "row_add key r t = Inr t' \<longleftrightarrow> row_get key (key r) t = None \<and> t' = t @ [r]"
    by (auto simp: row_add_def row_get_def find_None_iff image_iff)
next
  fix k t r
  show "row_get key k (t @ [r]) = (case row_get key k t of Some x \<Rightarrow> Some x
      | None \<Rightarrow> if key r = k then Some r else None)"
    by (simp add: row_get_def find_append split: option.split)
next
  fix r t
  show "row_get key (key r) t = None \<Longrightarrow> unique_key key t \<Longrightarrow> unique_key key (t @ [r])"
    by (auto simp: row_get_def find_None_iff unique_key_def image_iff)
qed

lemma row_put_const:
  assumes "unique_key key t" and "row_get key k t = Some r" and "key r' = k"
  shows "row_put key k (\<lambda>_. r') t = row_put key k (\<lambda>x. if x = r then r' else x) t"
proof -
  have "x = r" if "x \<in> set t" "key x = k" for x
    using assms(1,2) that keyed_table.unique_row [OF keyed_rows assms(1) that(1)] by simp
  then show ?thesis unfolding row_put_def by (auto intro: map_cong)
qed

lemma append_unique:
  "find (\<lambda>x. key x = key r) t = None \<Longrightarrow> unique_key key t \<Longrightarrow> unique_key key (t @ [r])"
  by (auto simp: unique_key_def find_None_iff)

lemma row_put_at:
  assumes "unique_key key t" and "row_get key k t = Some r"
  shows "row_put key k f t = row_put key k (\<lambda>_. f r) t"
proof -
  have "x = r" if "x \<in> set t" "key x = k" for x
    using assms that keyed_table.unique_row [OF keyed_rows assms(1) that(1)] by simp
  then show ?thesis unfolding row_put_def by (auto intro: map_cong)
qed

lemma rows_add_Inr: "rows_add key rs t = Inr t' \<longleftrightarrow>
    distinct (map key rs) \<and> key ` set rs \<inter> key ` set t = {} \<and> t' = t @ rs"
proof (induction rs arbitrary: t)
  case (Cons r rs)
  have "rows_add key (r # rs) t = Inr t' \<longleftrightarrow> key r \<notin> key ` set t \<and> rows_add key rs (t @ [r]) = Inr t'"
    by (auto simp: row_add_def)
  also have "\<dots> \<longleftrightarrow> key r \<notin> key ` set t \<and> distinct (map key rs)
      \<and> key ` set rs \<inter> key ` set (t @ [r]) = {} \<and> t' = (t @ [r]) @ rs"
    unfolding Cons.IH by blast
  finally show ?case by (simp only: append_assoc append_Cons append_Nil) auto
qed auto

section \<open>Machines\<close>

text \<open>
  A component with state is a set of initial states and a step relation; what every step
  keeps holds in every reachable state.
\<close>

inductive reachable :: "('s \<Rightarrow> bool) \<Rightarrow> ('s \<Rightarrow> 's \<Rightarrow> bool) \<Rightarrow> 's \<Rightarrow> bool" for init step where
  reachable_start: "init s \<Longrightarrow> reachable init step s"
| reachable_step: "reachable init step s \<Longrightarrow> step s t \<Longrightarrow> reachable init step t"

locale invariant_machine =
  fixes init :: "'s \<Rightarrow> bool" and step :: "'s \<Rightarrow> 's \<Rightarrow> bool" and inv :: "'s \<Rightarrow> bool"
  assumes inv_start: "init s \<Longrightarrow> inv s"
    and inv_kept: "step s t \<Longrightarrow> inv s \<Longrightarrow> inv t"
begin

lemma inv_reachable: "reachable init step s \<Longrightarrow> inv s"
  by (induction rule: reachable.induct) (auto intro: inv_start inv_kept)

lemma inv_run: "step\<^sup>*\<^sup>* s t \<Longrightarrow> inv s \<Longrightarrow> inv t"
  by (induction rule: rtranclp_induct) (auto intro: inv_kept)

end

locale logged_machine =
  fixes step :: "'s \<Rightarrow> 's \<Rightarrow> bool" and log :: "'s \<Rightarrow> 'e list"
  assumes log_grows: "step s t \<Longrightarrow> \<exists>es. log t = log s @ es"
begin

lemma log_run: "step\<^sup>*\<^sup>* s t \<Longrightarrow> \<exists>es. log t = log s @ es"
proof (induction rule: rtranclp_induct)
  case base
  then show ?case by simp
next
  case (step u v)
  then show ?case using log_grows by fastforce
qed

lemma log_nth_run: "step\<^sup>*\<^sup>* s t \<Longrightarrow> i < length (log s) \<Longrightarrow> log t ! i = log s ! i"
  using log_run by (fastforce simp: nth_append)

end

locale fenced_machine =
  fixes step :: "'s \<Rightarrow> 's \<Rightarrow> bool" and fence :: "'s \<Rightarrow> int"
  assumes fence_mono: "step s t \<Longrightarrow> fence s \<le> fence t"
begin

lemma fence_run: "step\<^sup>*\<^sup>* s t \<Longrightarrow> fence s \<le> fence t"
  by (induction rule: rtranclp_induct) (auto dest: fence_mono intro: order_trans)

end

end
