(* ===== verification/Py_Values.thy ===== *)
theory Py_Values
  imports Prelude "HOL-Library.Multiset"
begin

text \<open>
  Python values as the modelled code meets them: the JSON documents it validates, stores and
  hashes, and the string methods it calls.

  A \<open>str\<close> is a \<open>string\<close> whose characters are the code points below 256; on these
  \<open>isspace\<close>, \<open>strip\<close> and \<open>lower\<close> are exact. A finite \<open>float\<close> is the rational it
  denotes (the rounding of float addition is not modelled); the three non-finite floats, which
  \<open>json.loads\<close> accepts and \<open>json.dumps(allow_nan=False)\<close> refuses, are values of
  their own. A \<open>dict\<close> is the list of its items in insertion order; documents come from
  \<open>json.loads\<close>, so keys are strings and sequences are lists.
\<close>

section \<open>Strings\<close>

definition code_point :: "char \<Rightarrow> nat" where
  "code_point c = of_char c"

definition is_space :: "char \<Rightarrow> bool" where
  "is_space c = (let n = code_point c in
     9 \<le> n \<and> n \<le> 13 \<or> 28 \<le> n \<and> n \<le> 32 \<or> n = 133 \<or> n = 160)"

definition strip :: "string \<Rightarrow> string" where
  "strip s = rev (dropWhile is_space (rev (dropWhile is_space s)))"

definition lower_char :: "char \<Rightarrow> char" where
  "lower_char c = (let n = code_point c in
     if 65 \<le> n \<and> n \<le> 90 \<or> 192 \<le> n \<and> n \<le> 222 \<and> n \<noteq> 215 then char_of (n + 32) else c)"

definition lower :: "string \<Rightarrow> string" where
  "lower s = map lower_char s"

definition replace_char :: "char \<Rightarrow> char \<Rightarrow> string \<Rightarrow> string" where
  "replace_char a b s = map (\<lambda>c. if c = a then b else c) s"

definition starts_with :: "string \<Rightarrow> string \<Rightarrow> bool" where
  "starts_with p s = (take (length p) s = p)"

definition ends_with :: "string \<Rightarrow> string \<Rightarrow> bool" where
  "ends_with p s = starts_with (rev p) (rev s)"

fun contains_str :: "string \<Rightarrow> string \<Rightarrow> bool" where
  "contains_str p [] = (p = [])"
| "contains_str p (c # s) = (starts_with p (c # s) \<or> contains_str p s)"

fun split_on :: "char \<Rightarrow> string \<Rightarrow> string list" where
  "split_on d [] = [[]]"
| "split_on d (c # s) = (if c = d then [] # split_on d s
     else (case split_on d s of [] \<Rightarrow> [[c]] | w # ws \<Rightarrow> (c # w) # ws))"

fun join :: "string \<Rightarrow> string list \<Rightarrow> string" where
  "join sep [] = []"
| "join sep [w] = w"
| "join sep (w # ws) = w @ sep @ join sep ws"

definition blank :: "string \<Rightarrow> bool" where
  "blank s = (strip s = [])"

lemma dropWhile_set: "(\<forall>x \<in> set (dropWhile P s). P x) \<longleftrightarrow> (\<forall>x \<in> set s. P x)"
  by (induction s) auto

lemma blank_iff: "blank s \<longleftrightarrow> (\<forall>c \<in> set s. is_space c)"
  by (simp add: blank_def strip_def dropWhile_eq_Nil_conv dropWhile_set)

lemma strip_blank: "blank (strip s) \<longleftrightarrow> blank s"
proof -
  have "strip s = [] \<longleftrightarrow> (\<forall>c \<in> set (strip s). is_space c)"
  proof
    assume all: "\<forall>c \<in> set (strip s). is_space c"
    show "strip s = []"
    proof (rule ccontr)
      assume "strip s \<noteq> []"
      then have "dropWhile is_space (rev (dropWhile is_space s)) \<noteq> []"
        by (simp add: strip_def)
      then have "\<not> is_space (hd (dropWhile is_space (rev (dropWhile is_space s))))"
        using hd_dropWhile by blast
      moreover have "hd (dropWhile is_space (rev (dropWhile is_space s))) \<in> set (strip s)"
        using \<open>dropWhile is_space (rev (dropWhile is_space s)) \<noteq> []\<close> by (simp add: strip_def)
      ultimately show False using all by blast
    qed
  qed simp
  then show ?thesis by (simp add: blank_iff) (simp add: blank_iff [symmetric] blank_def)
qed

lemma starts_with_append [simp]: "starts_with p (p @ s)"
  by (simp add: starts_with_def)

lemma starts_with_iff: "starts_with p s \<longleftrightarrow> (\<exists>t. s = p @ t)"
  by (metis append_take_drop_id append_eq_conv_conj starts_with_def)

lemma split_on_ne [simp]: "split_on d s \<noteq> []"
  by (induction s) (auto split: list.split)

section \<open>Evaluation\<close>

text \<open>
  Code equations under which the simplifier compares strings up to the first difference only.
\<close>

lemma equal_list_lazy [code]:
  "HOL.equal [] ([] :: 'a::equal list) = True"
  "HOL.equal [] (y # ys) = False"
  "HOL.equal (x # xs) [] = False"
  "HOL.equal (x # xs) (y # ys) = (if HOL.equal x y then HOL.equal xs ys else False)"
  by (simp_all add: equal_eq)

lemma equal_char_lazy [code]:
  "HOL.equal (Char a0 a1 a2 a3 a4 a5 a6 a7) (Char b0 b1 b2 b3 b4 b5 b6 b7) =
    (if a0 = b0 then if a1 = b1 then if a2 = b2 then if a3 = b3 then if a4 = b4 then
     if a5 = b5 then if a6 = b6 then a7 = b7 else False else False else False else False
     else False else False else False)"
  by (simp add: equal_eq)

lemma list_less_lazy [code]:
  "xs < ([] :: 'a::{equal, order} list) \<longleftrightarrow> False"
  "[] < (y # ys) \<longleftrightarrow> True"
  "(x # xs) < (y # ys) \<longleftrightarrow> (if x = y then xs < ys else x < y)"
  by simp_all

lemma list_less_eq_lazy [code]:
  "(x # xs) \<le> ([] :: 'a::{equal, order} list) \<longleftrightarrow> False"
  "[] \<le> ys \<longleftrightarrow> True"
  "(x # xs) \<le> (y # ys) \<longleftrightarrow> (if x = y then xs \<le> ys else x < y)"
  by simp_all

section \<open>JSON documents\<close>

datatype fl = Fin rat | PosInf | NegInf | NaN

datatype pyval =
    VNone
  | VBool bool
  | VInt int
  | VFloat fl
  | VStr string
  | VList "pyval list"
  | VDict "(string \<times> pyval) list"

type_synonym items = "(string \<times> pyval) list"

definition is_dict :: "pyval \<Rightarrow> bool" where
  "is_dict v = (case v of VDict _ \<Rightarrow> True | _ \<Rightarrow> False)"

definition is_str :: "pyval \<Rightarrow> bool" where
  "is_str v = (case v of VStr _ \<Rightarrow> True | _ \<Rightarrow> False)"

definition is_bool :: "pyval \<Rightarrow> bool" where
  "is_bool v = (case v of VBool _ \<Rightarrow> True | _ \<Rightarrow> False)"

definition items_of :: "pyval \<Rightarrow> items" where
  "items_of v = (case v of VDict kvs \<Rightarrow> kvs | _ \<Rightarrow> [])"

definition has_key :: "string \<Rightarrow> pyval \<Rightarrow> bool" where
  "has_key k v = (k \<in> set (map fst (items_of v)))"

text \<open>\<open>d.get(k, default)\<close> and \<open>d.get(k)\<close>.\<close>

definition dget_or :: "pyval \<Rightarrow> string \<Rightarrow> pyval \<Rightarrow> pyval" where
  "dget_or v k d = (case map_of (items_of v) k of None \<Rightarrow> d | Some x \<Rightarrow> x)"

definition dget :: "pyval \<Rightarrow> string \<Rightarrow> pyval" where
  "dget v k = dget_or v k VNone"

text \<open>\<open>d[k] = x\<close>: an existing key keeps its place, a new one goes to the end.\<close>

fun dict_set :: "string \<Rightarrow> pyval \<Rightarrow> items \<Rightarrow> items" where
  "dict_set k x [] = [(k, x)]"
| "dict_set k x ((k', y) # kvs) = (if k' = k then (k', x) # kvs else (k', y) # dict_set k x kvs)"

definition dict_merge :: "items \<Rightarrow> items \<Rightarrow> items" where
  "dict_merge a b = fold (\<lambda>(k, x) d. dict_set k x d) b a"

lemma map_of_dict_set: "map_of (dict_set k x kvs) = (map_of kvs)(k \<mapsto> x)"
  by (induction k x kvs rule: dict_set.induct) auto

lemma dict_set_keys: "set (map fst (dict_set k x kvs)) = insert k (set (map fst kvs))"
  by (induction k x kvs rule: dict_set.induct) auto

lemma dict_set_distinct: "distinct (map fst kvs) \<Longrightarrow> distinct (map fst (dict_set k x kvs))"
proof (induction k x kvs rule: dict_set.induct)
  case (2 k x k' y kvs)
  then show ?case using dict_set_keys [of k x kvs] by auto
qed simp

lemma dget_or_set [simp]:
  "dget_or (VDict (dict_set k x kvs)) k' d = (if k' = k then x else dget_or (VDict kvs) k' d)"
  by (simp add: dget_or_def items_of_def map_of_dict_set)

lemma dget_set [simp]:
  "dget (VDict (dict_set k x kvs)) k' = (if k' = k then x else dget (VDict kvs) k')"
  by (simp add: dget_def)

text \<open>Truth of a value in an \<open>if\<close>.\<close>

fun truthy :: "pyval \<Rightarrow> bool" where
  "truthy VNone = False"
| "truthy (VBool b) = b"
| "truthy (VInt n) = (n \<noteq> 0)"
| "truthy (VFloat x) = (x \<noteq> Fin 0)"
| "truthy (VStr s) = (s \<noteq> [])"
| "truthy (VList xs) = (xs \<noteq> [])"
| "truthy (VDict kvs) = (kvs \<noteq> [])"

section \<open>Numbers\<close>

text \<open>\<open>isinstance(v, (int, float)) and not isinstance(v, bool)\<close>, and \<open>float(v)\<close>.\<close>

definition number_of :: "pyval \<Rightarrow> fl option" where
  "number_of v = (case v of VInt n \<Rightarrow> Some (Fin (of_int n)) | VFloat x \<Rightarrow> Some x | _ \<Rightarrow> None)"

text \<open>A number for which \<open>math.isfinite(float(v))\<close> holds, as a rational.\<close>

definition finite_number :: "pyval \<Rightarrow> rat option" where
  "finite_number v = (case number_of v of Some (Fin q) \<Rightarrow> Some q | _ \<Rightarrow> None)"

text \<open>\<open>isinstance(v, int) and not isinstance(v, bool)\<close>.\<close>

definition int_of :: "pyval \<Rightarrow> int option" where
  "int_of v = (case v of VInt n \<Rightarrow> Some n | _ \<Rightarrow> None)"

section \<open>Serialisation\<close>

text \<open>
  \<open>json.dumps(..., sort_keys=True)\<close> depends on a document only through its canonical form,
  in which the items of every object are sorted by key. A JSON column of the store holds the
  canonical form of what was written, which is what \<open>json.loads\<close> reads back.
\<close>

primrec canonical_json :: "pyval \<Rightarrow> pyval" where
  "canonical_json VNone = VNone"
| "canonical_json (VBool b) = VBool b"
| "canonical_json (VInt n) = VInt n"
| "canonical_json (VFloat x) = VFloat x"
| "canonical_json (VStr s) = VStr s"
| "canonical_json (VList xs) = VList (map canonical_json xs)"
| "canonical_json (VDict kvs) = VDict (sort_key fst (map (map_prod id canonical_json) kvs))"

text \<open>
  \<open>sha256(canonical_json(value).encode()).hexdigest()\<close>. The digest function is a parameter:
  the code uses of it only that equal texts have equal digests.
\<close>

definition canonical_hash :: "(pyval \<Rightarrow> string) \<Rightarrow> pyval \<Rightarrow> string" where
  "canonical_hash sha v = sha (canonical_json v)"

text \<open>\<open>json.dumps(value, allow_nan=False)\<close> succeeds.\<close>

primrec json_safe :: "pyval \<Rightarrow> bool" where
  "json_safe VNone = True"
| "json_safe (VBool b) = True"
| "json_safe (VInt n) = True"
| "json_safe (VFloat x) = (case x of Fin _ \<Rightarrow> True | _ \<Rightarrow> False)"
| "json_safe (VStr s) = True"
| "json_safe (VList xs) = list_all id (map json_safe xs)"
| "json_safe (VDict kvs) = list_all snd (map (map_prod id json_safe) kvs)"

text \<open>
  Python's \<open>==\<close> on documents: numbers compare by value across \<open>bool\<close>, \<open>int\<close> and
  \<open>float\<close>, objects regardless of the order of their items, and a NaN equals nothing.
\<close>

primrec eq_form :: "pyval \<Rightarrow> pyval" where
  "eq_form VNone = VNone"
| "eq_form (VBool b) = VFloat (Fin (of_bool b))"
| "eq_form (VInt n) = VFloat (Fin (of_int n))"
| "eq_form (VFloat x) = VFloat x"
| "eq_form (VStr s) = VStr s"
| "eq_form (VList xs) = VList (map eq_form xs)"
| "eq_form (VDict kvs) = VDict (sort_key fst (map (map_prod id eq_form) kvs))"

primrec has_nan :: "pyval \<Rightarrow> bool" where
  "has_nan VNone = False"
| "has_nan (VBool b) = False"
| "has_nan (VInt n) = False"
| "has_nan (VFloat x) = (x = NaN)"
| "has_nan (VStr s) = False"
| "has_nan (VList xs) = list_ex id (map has_nan xs)"
| "has_nan (VDict kvs) = list_ex snd (map (map_prod id has_nan) kvs)"

definition py_eq :: "pyval \<Rightarrow> pyval \<Rightarrow> bool" where
  "py_eq a b = (eq_form a = eq_form b \<and> \<not> has_nan a)"

lemma py_eq_refl: "\<not> has_nan a \<Longrightarrow> py_eq a a"
  by (simp add: py_eq_def)

lemma json_safe_no_nan: "json_safe v \<Longrightarrow> \<not> has_nan v"
proof (induction v)
  case (VList xs)
  then show ?case by (auto simp: list_all_iff list_ex_iff)
next
  case (VDict kvs)
  then show ?case by (force simp: list_all_iff list_ex_iff)
qed (auto split: fl.splits)

lemma py_eq_str [simp]: "py_eq (VStr s) (VStr t) \<longleftrightarrow> s = t"
  by (simp add: py_eq_def)

lemma py_eq_str_iff [simp]: "py_eq v (VStr s) \<longleftrightarrow> v = VStr s"
  by (cases v) (auto simp: py_eq_def)

text \<open>\<open>v is True\<close>.\<close>

definition is_true :: "pyval \<Rightarrow> bool" where
  "is_true v = (v = VBool True)"

text \<open>Optional columns as JSON.\<close>

definition opt_str :: "string option \<Rightarrow> pyval" where
  "opt_str v = (case v of None \<Rightarrow> VNone | Some s \<Rightarrow> VStr s)"

lemma sort_key_fst_stable:
  fixes xs :: "(string \<times> 'a) list"
  assumes "distinct (map fst xs)" and "mset xs = mset ys"
  shows "sort_key fst xs = sort_key fst ys"
proof (rule properties_for_sort_key)
  show "mset (sort_key fst ys) = mset xs" using assms(2) by simp
  show "sorted (map fst (sort_key fst ys))" by simp
  fix k assume "k \<in> set (sort_key fst ys)"
  have "distinct (map fst ys)"
    using assms by (metis distinct_map mset_eq_setD distinct_count_atmost_1 mset_map)
  have "set xs = set ys" using assms(2) by (rule mset_eq_setD)
  have one: "filter (\<lambda>x. fst k = fst x) zs = [k]" if "distinct (map fst zs)" "k \<in> set zs" for zs
    using that by (induction zs) (auto simp: filter_empty_conv rev_image_eqI)
  have kx: "k \<in> set xs" and ky: "k \<in> set ys"
    using \<open>k \<in> set (sort_key fst ys)\<close> \<open>set xs = set ys\<close> by auto
  then show "filter (\<lambda>x. fst k = fst x) (sort_key fst ys) = filter (\<lambda>x. fst k = fst x) xs"
    using one [OF assms(1) kx] one [OF \<open>distinct (map fst ys)\<close> ky]
    by (simp add: filter_sort)
qed

text \<open>Reading a key of a stored object.\<close>

lemma map_of_insort: "map_of (insort_key fst x xs) = (map_of xs)(fst x \<mapsto> snd x)"
  by (induction xs) auto

lemma map_of_sort: "map_of (sort_key fst xs) = map_of (xs :: (string \<times> 'a) list)"
proof (induction xs)
  case (Cons x xs)
  then show ?case by (cases x) (simp add: map_of_insort)
qed simp

lemma dget_or_canonical:
  "dget_or (canonical_json (VDict kvs)) k d =
    (case map_of kvs k of None \<Rightarrow> d | Some x \<Rightarrow> canonical_json x)"
proof -
  have "map_of (map (map_prod id canonical_json) kvs) k = map_option canonical_json (map_of kvs k)"
    by (induction kvs) auto
  then show ?thesis
    by (simp add: dget_or_def items_of_def map_of_sort split: option.split)
qed

lemma dget_canonical: "dget (canonical_json v) k = canonical_json (dget v k)"
proof (cases v)
  case (VDict kvs)
  then show ?thesis
    using dget_or_canonical [of kvs k VNone]
    by (simp add: dget_def dget_or_def items_of_def split: option.split)
qed (simp_all add: dget_def dget_or_def items_of_def)

text \<open>The key order of an object does not reach its digest.\<close>

lemma canonical_json_order:
  assumes "distinct (map fst kvs)" and "mset kvs = mset kvs'"
  shows "canonical_json (VDict kvs) = canonical_json (VDict kvs')"
proof -
  let ?f = "map_prod id canonical_json"
  have "distinct (map fst (map ?f kvs))" using assms(1) by (simp add: o_def)
  moreover have "mset (map ?f kvs) = mset (map ?f kvs')" using assms(2) by simp
  ultimately show ?thesis by (simp add: sort_key_fst_stable)
qed

end
