(* ===== verification/Py_Time.thy ===== *)
theory Py_Time
  imports Py_Values
begin

text \<open>
  \<open>datetime\<close> as the code uses it. A parsed time is a wall clock and, when the text carries
  one, a UTC offset, both in microseconds; the wall clock counts from 1970-01-01T00:00 of its
  own zone. \<open>iso_read\<close> is \<open>datetime.fromisoformat\<close> on calendar dates in the extended
  and the basic format (ISO week dates are not modelled) and \<open>iso_show\<close> is
  \<open>isoformat(timespec="seconds")\<close>.

  A timestamp column holds a \<open>stamp\<close>: the wall clock in seconds and the offset its text
  spells. SQLite compares such columns as text. For years of four digits that is the order of
  the wall clocks first and of the offsets' spelling second; it is not the order of the
  instants, which \<open>stamp_due\<close> compares.
\<close>

section \<open>The calendar\<close>

definition days_from_civil :: "int \<Rightarrow> int \<Rightarrow> int \<Rightarrow> int" where
  "days_from_civil y m d = (let y' = (if m \<le> 2 then y - 1 else y); era = y' div 400;
     yoe = y' - era * 400; mp = (if m > 2 then m - 3 else m + 9);
     doy = (153 * mp + 2) div 5 + d - 1; doe = yoe * 365 + yoe div 4 - yoe div 100 + doy
   in era * 146097 + doe - 719468)"

definition civil_date :: "int \<Rightarrow> int \<Rightarrow> int \<Rightarrow> int \<times> int \<times> int" where
  "civil_date y doy mp = (if mp < 10 then (y, mp + 3, doy - (153 * mp + 2) div 5 + 1)
     else (y + 1, mp - 9, doy - (153 * mp + 2) div 5 + 1))"

definition civil_of_year :: "int \<Rightarrow> int \<Rightarrow> int \<times> int \<times> int" where
  "civil_of_year y doy = civil_date y doy ((5 * doy + 2) div 153)"

definition civil_of_era :: "int \<Rightarrow> int \<Rightarrow> int \<Rightarrow> int \<times> int \<times> int" where
  "civil_of_era era doe yoe =
     civil_of_year (yoe + era * 400) (doe - (365 * yoe + yoe div 4 - yoe div 100))"

definition civil_of_epoch :: "int \<Rightarrow> int \<Rightarrow> int \<times> int \<times> int" where
  "civil_of_epoch era doe =
     civil_of_era era doe ((doe - doe div 1460 + doe div 36524 - doe div 146096) div 365)"

definition civil_from_days :: "int \<Rightarrow> int \<times> int \<times> int" where
  "civil_from_days z = civil_of_epoch ((z + 719468) div 146097) ((z + 719468) mod 146097)"

definition leap_year :: "int \<Rightarrow> bool" where
  "leap_year y = (y mod 4 = 0 \<and> (y mod 100 \<noteq> 0 \<or> y mod 400 = 0))"

definition month_days :: "int \<Rightarrow> int \<Rightarrow> int" where
  "month_days y m = (if m = 2 then (if leap_year y then 29 else 28)
     else if m \<in> {4, 6, 9, 11} then 30 else 31)"

section \<open>Reading\<close>

definition is_digit :: "char \<Rightarrow> bool" where
  "is_digit c = (48 \<le> code_point c \<and> code_point c \<le> 57)"

fun digits_value :: "int \<Rightarrow> string \<Rightarrow> int" where
  "digits_value acc [] = acc"
| "digits_value acc (c # s) = digits_value (acc * 10 + (int (code_point c) - 48)) s"

definition read_digits :: "nat \<Rightarrow> string \<Rightarrow> (int \<times> string) option" where
  "read_digits n s = (if length (take n s) = n \<and> list_all is_digit (take n s)
     then Some (digits_value 0 (take n s), drop n s) else None)"

definition skip_char :: "char \<Rightarrow> string \<Rightarrow> string option" where
  "skip_char c s = (case s of [] \<Rightarrow> None | d # r \<Rightarrow> if d = c then Some r else None)"

text \<open>A date: the days since 1970-01-01 and the rest of the text.\<close>

definition read_date :: "string \<Rightarrow> (int \<times> string) option" where
  "read_date s = (case read_digits 4 s of None \<Rightarrow> None | Some (y, r) \<Rightarrow>
     (let ext = (case r of c # _ \<Rightarrow> c = CHR ''-'' | [] \<Rightarrow> False) in
      case read_digits 2 (if ext then tl r else r) of None \<Rightarrow> None | Some (m, r1) \<Rightarrow>
      (case (if ext then skip_char (CHR ''-'') r1 else Some r1) of None \<Rightarrow> None | Some r2 \<Rightarrow>
       (case read_digits 2 r2 of None \<Rightarrow> None | Some (d, r3) \<Rightarrow>
         if 1 \<le> y \<and> 1 \<le> m \<and> m \<le> 12 \<and> 1 \<le> d \<and> d \<le> month_days y m
         then Some (days_from_civil y m d, r3) else None))))"

text \<open>A fraction of a second: at most six digits count, further ones are dropped.\<close>

definition read_fraction :: "string \<Rightarrow> (int \<times> string) option" where
  "read_fraction s = (case s of c # r \<Rightarrow>
      if c \<in> {CHR ''.'', CHR '',''} then
        (let ds = takeWhile is_digit r in
         if ds = [] then None
         else Some (digits_value 0 (take 6 (ds @ ''00000'')), dropWhile is_digit r))
      else Some (0, s)
    | [] \<Rightarrow> Some (0, []))"

text \<open>A clock time \<open>HH[:MM[:SS[.f]]]\<close> or \<open>HH[MM[SS[.f]]]\<close>, in microseconds.\<close>

definition read_clock :: "string \<Rightarrow> (int \<times> string) option" where
  "read_clock s = (case read_digits 2 s of None \<Rightarrow> None | Some (h, r) \<Rightarrow>
     if h > 23 then None else
     (let ext = (case r of c # _ \<Rightarrow> c = CHR '':'' | [] \<Rightarrow> False);
          more = (\<lambda>t. case t of c # _ \<Rightarrow> if ext then c = CHR '':'' else is_digit c | [] \<Rightarrow> False);
          rest = (\<lambda>t. if ext then tl t else t)
      in if \<not> more r then Some (h * 3600000000, r)
         else (case read_digits 2 (rest r) of None \<Rightarrow> None | Some (mi, r1) \<Rightarrow>
           if mi > 59 then None
           else if \<not> more r1 then Some (h * 3600000000 + mi * 60000000, r1)
           else (case read_digits 2 (rest r1) of None \<Rightarrow> None | Some (sec, r2) \<Rightarrow>
             if sec > 59 then None
             else (case read_fraction r2 of None \<Rightarrow> None | Some (us, r3) \<Rightarrow>
               Some (h * 3600000000 + mi * 60000000 + sec * 1000000 + us, r3))))))"

definition read_offset :: "string \<Rightarrow> int option option" where
  "read_offset s = (case s of
      [] \<Rightarrow> Some None
    | c # r \<Rightarrow> if c = CHR ''Z'' then (if r = [] then Some (Some 0) else None)
      else if c \<in> {CHR ''+'', CHR ''-''} then
        (case read_clock r of Some (t, []) \<Rightarrow> Some (Some (if c = CHR ''-'' then - t else t))
         | _ \<Rightarrow> None)
      else None)"

record iso_time =
  iso_wall :: int
  iso_offset :: "int option"

definition iso_read :: "string \<Rightarrow> iso_time option" where
  "iso_read s = (case read_date s of None \<Rightarrow> None
    | Some (d, []) \<Rightarrow> Some \<lparr>iso_wall = d * 86400000000, iso_offset = None\<rparr>
    | Some (d, c # r) \<Rightarrow> (case read_clock r of None \<Rightarrow> None | Some (t, r1) \<Rightarrow>
        (case read_offset r1 of None \<Rightarrow> None | Some off \<Rightarrow>
          Some \<lparr>iso_wall = d * 86400000000 + t, iso_offset = off\<rparr>)))"

section \<open>Stored timestamps\<close>

datatype stamp = Stamp (wall: int) (offset: int)

definition instant :: "stamp \<Rightarrow> int" where
  "instant t = wall t * 1000000 - offset t"

text \<open>\<open>now_iso()\<close> at the instant of \<open>n\<close> seconds.\<close>

definition utc :: "int \<Rightarrow> stamp" where
  "utc n = Stamp n 0"

definition offset_key :: "int \<Rightarrow> int" where
  "offset_key z = (if 0 \<le> z then z else 86400000000 - z)"

instantiation stamp :: linorder
begin
definition less_eq_stamp :: "stamp \<Rightarrow> stamp \<Rightarrow> bool" where
  "less_eq_stamp a b = (wall a < wall b \<or> wall a = wall b
     \<and> (offset_key (offset a) < offset_key (offset b) \<or> offset a = offset b
        \<or> offset_key (offset a) = offset_key (offset b) \<and> offset a \<le> offset b))"
definition less_stamp :: "stamp \<Rightarrow> stamp \<Rightarrow> bool" where
  "less_stamp a b = (a \<le> b \<and> \<not> b \<le> (a :: stamp))"
instance
proof
  fix a b c :: stamp
  show "(a < b) = (a \<le> b \<and> \<not> b \<le> a)" by (simp add: less_stamp_def)
  show "a \<le> a" by (simp add: less_eq_stamp_def)
  show "a \<le> b \<Longrightarrow> b \<le> c \<Longrightarrow> a \<le> c" by (auto simp: less_eq_stamp_def)
  show "a \<le> b \<Longrightarrow> b \<le> a \<Longrightarrow> a = b" by (auto simp: less_eq_stamp_def intro: stamp.expand)
  show "a \<le> b \<or> b \<le> a" by (auto simp: less_eq_stamp_def)
qed
end

lemma utc_le [simp]: "utc m \<le> utc n \<longleftrightarrow> m \<le> n"
  by (auto simp: utc_def less_eq_stamp_def)

lemma utc_less [simp]: "utc m < utc n \<longleftrightarrow> m < n"
  by (auto simp: less_stamp_def)

lemma utc_eq [simp]: "utc m = utc n \<longleftrightarrow> m = n"
  by (simp add: utc_def)

lemma instant_utc [simp]: "instant (utc n) = n * 1000000"
  by (simp add: instant_def utc_def)

text \<open>\<open>datetime.fromisoformat(value) <= datetime.fromisoformat(timestamp)\<close>.\<close>

definition stamp_due :: "stamp option \<Rightarrow> stamp \<Rightarrow> bool" where
  "stamp_due v t = (case v of None \<Rightarrow> True | Some x \<Rightarrow> instant x \<le> instant t)"

definition stamp_after :: "stamp \<Rightarrow> int \<Rightarrow> stamp" where
  "stamp_after t n = Stamp (wall t + n) (offset t)"

lemma stamp_after_utc [simp]: "stamp_after (utc m) n = utc (m + n)"
  by (simp add: stamp_after_def utc_def)

lemma stamp_due_utc [simp]: "stamp_due (Some (utc m)) (utc n) \<longleftrightarrow> m \<le> n"
  by (simp add: stamp_due_def)

section \<open>Printing\<close>

definition digit_char :: "int \<Rightarrow> char" where
  "digit_char n = ''0123456789'' ! nat n"

text \<open>\<open>str(n)\<close> of an integer.\<close>

function str_digits :: "int \<Rightarrow> string" where
  "str_digits n = (if n < 10 then [digit_char n] else str_digits (n div 10) @ [digit_char (n mod 10)])"
  by pat_completeness auto
termination by (relation "measure nat") auto

declare str_digits.simps [simp del]

definition str_int :: "int \<Rightarrow> string" where
  "str_int n = (if n < 0 then CHR ''-'' # str_digits (- n) else str_digits n)"

fun padded :: "nat \<Rightarrow> int \<Rightarrow> string" where
  "padded 0 n = []"
| "padded (Suc k) n = padded k (n div 10) @ [digit_char (n mod 10)]"

definition two :: "int \<Rightarrow> string" where
  "two n = padded 2 n"

definition offset_seconds :: "int \<Rightarrow> int \<Rightarrow> string" where
  "offset_seconds a sec = two (sec div 3600) @ '':'' @ two (sec div 60 mod 60)
     @ (if a mod 60000000 = 0 then [] else '':'' @ two (sec mod 60)
        @ (if a mod 1000000 = 0 then [] else ''.'' @ padded 6 (a mod 1000000)))"

definition offset_text :: "int \<Rightarrow> string" where
  "offset_text z = (if z < 0 then ''-'' else ''+'') @ offset_seconds \<bar>z\<bar> (\<bar>z\<bar> div 1000000)"

fun iso_text :: "int \<times> int \<times> int \<Rightarrow> int \<Rightarrow> int \<Rightarrow> string" where
  "iso_text (y, m, d) secs off = padded 4 y @ ''-'' @ two m @ ''-'' @ two d @ ''T''
     @ two (secs div 3600) @ '':'' @ two (secs div 60 mod 60) @ '':'' @ two (secs mod 60)
     @ offset_text off"

fun iso_show :: "stamp \<Rightarrow> string" where
  "iso_show (Stamp w z) = iso_text (civil_from_days (w div 86400)) (w mod 86400) z"

definition opt_stamp :: "stamp option \<Rightarrow> pyval" where
  "opt_stamp v = (case v of None \<Rightarrow> VNone | Some t \<Rightarrow> VStr (iso_show t))"

text \<open>
  The reader and the printer on a leap day, at an offset east of UTC, and at the offset
  spelled \<open>Z\<close>.
\<close>

lemma iso_show_leap: "iso_show (utc 1709164800) = ''2024-02-29T00:00:00+00:00''"
  by code_simp

lemma iso_read_east: "iso_read ''2025-01-01T10:00:00+08:00''
    = Some \<lparr>iso_wall = 1735725600000000, iso_offset = Some 28800000000\<rparr>"
  by code_simp

lemma iso_read_zulu: "iso_read ''20240229T235960Z'' = None"
    "iso_read ''20240229T235959Z'' = Some \<lparr>iso_wall = 1709251199000000, iso_offset = Some 0\<rparr>"
  by code_simp+

lemma str_int_read: "str_int 2048 = ''2048'' \<and> str_int (-7) = ''-7''"
  by code_simp

end
