(* ===== verification/Delivery_Request.thy ===== *)
theory Delivery_Request
  imports Py_Time
begin

text \<open>
  \<open>delivery_lifecycle.py\<close>, lines 83 to 531: the vocabulary of a delivery objective and the
  functions that validate and normalise the immutable request, its budget, its identities, its
  wait reasons and the receipts of a live verification. Everything here is a pure function of
  JSON documents.
\<close>

section \<open>Stages\<close>

datatype stage = Plan | Implement | Verify | Integrate | Ci | Publish | Deploy | LiveVerify

definition DELIVERY_STAGES :: "stage list" where
  "DELIVERY_STAGES = [Plan, Implement, Verify, Integrate, Ci, Publish, Deploy, LiveVerify]"

fun stage_name :: "stage \<Rightarrow> string" where
  "stage_name Plan = ''plan''"
| "stage_name Implement = ''implement''"
| "stage_name Verify = ''verify''"
| "stage_name Integrate = ''integrate''"
| "stage_name Ci = ''ci''"
| "stage_name Publish = ''publish''"
| "stage_name Deploy = ''deploy''"
| "stage_name LiveVerify = ''live-verify''"

fun stage_index :: "stage \<Rightarrow> nat" where
  "stage_index Plan = 0"
| "stage_index Implement = 1"
| "stage_index Verify = 2"
| "stage_index Integrate = 3"
| "stage_index Ci = 4"
| "stage_index Publish = 5"
| "stage_index Deploy = 6"
| "stage_index LiveVerify = 7"

lemma stage_index_inj: "stage_index a = stage_index b \<Longrightarrow> a = b"
  by (cases a; cases b) simp_all

instantiation stage :: linorder
begin
definition less_eq_stage :: "stage \<Rightarrow> stage \<Rightarrow> bool" where
  "less_eq_stage a b = (stage_index a \<le> stage_index b)"
definition less_stage :: "stage \<Rightarrow> stage \<Rightarrow> bool" where
  "less_stage a b = (stage_index a < stage_index b)"
instance
  by standard (auto simp: less_eq_stage_def less_stage_def intro: stage_index_inj)
end

definition EXTERNAL_DELIVERY_STAGES :: "stage list" where
  "EXTERNAL_DELIVERY_STAGES = [Integrate, Ci, Publish, Deploy, LiveVerify]"

definition DELIVERY_FAILURE_KINDS :: "string list" where
  "DELIVERY_FAILURE_KINDS =
    [''missing-artifact-input'', ''invalid-planning-scopes'', ''stale-base-ref'',
     ''execution-environment'', ''provider-unavailable-quota'', ''result-envelope-rejected'',
     ''verification-failure'', ''unknown-effects'', ''permission-denied'',
     ''missing-essential-user-choice'']"

definition MANUAL_DECISION_FAILURE_KINDS :: "string list" where
  "MANUAL_DECISION_FAILURE_KINDS =
    [''unknown-effects'', ''permission-denied'', ''missing-essential-user-choice'']"

definition IDENTITY_FIELDS :: "string list" where
  "IDENTITY_FIELDS = [''node'', ''pnpm'', ''source'', ''build'', ''deploy'', ''runtime'']"

definition FAILURE_RECOVERY_ACTIONS :: "(string \<times> string) list" where
  "FAILURE_RECOVERY_ACTIONS =
    [(''missing-artifact-input'', ''stage_and_hash_artifact_input''),
     (''invalid-planning-scopes'', ''repair_planning_scopes_idempotently''),
     (''stale-base-ref'', ''refresh_authoritative_ref_preserve_provenance''),
     (''execution-environment'', ''discover_authorized_host_test_capability''),
     (''provider-unavailable-quota'', ''wait_for_provider_quota''),
     (''result-envelope-rejected'', ''repair_result_envelope''),
     (''verification-failure'', ''diagnose_and_repair''),
     (''unknown-effects'', ''reconcile_authoritatively''),
     (''permission-denied'', ''grant_scope_limited_authorization''),
     (''missing-essential-user-choice'', ''provide_essential_user_choice'')]"

section \<open>Small validators\<close>

definition json_safe_or :: "pyval \<Rightarrow> string \<Rightarrow> pyval res" where
  "json_safe_or v label = (if json_safe v then Inr v
     else Inl (ValueError (label @ '' must be JSON-safe'')))"

definition nonempty_text :: "pyval \<Rightarrow> string \<Rightarrow> string res" where
  "nonempty_text v label = (case v of
      VStr s \<Rightarrow> if blank s then Inl (ValueError (label @ '' must be a non-empty string''))
        else Inr (strip s)
    | _ \<Rightarrow> Inl (ValueError (label @ '' must be a non-empty string'')))"

definition normalize_timestamp :: "pyval \<Rightarrow> string \<Rightarrow> bool \<Rightarrow> stamp option res" where
  "normalize_timestamp v label required =
    (if v = VNone then
       (if required then Inl (ValueError (label @ '' is required'')) else Inr None)
     else bindR (nonempty_text v label) (\<lambda>text.
       case iso_read text of
         None \<Rightarrow> Inl (ValueError (label @ '' must be an ISO-8601 timestamp''))
       | Some p \<Rightarrow> (case iso_offset p of
           None \<Rightarrow> Inl (ValueError (label @ '' must include a timezone''))
         | Some off \<Rightarrow> Inr (Some (Stamp (iso_wall p div 1000000) off)))))"

definition stage_of_name :: "string \<Rightarrow> stage option" where
  "stage_of_name s = find (\<lambda>g. stage_name g = s) DELIVERY_STAGES"

definition normalize_stage :: "pyval \<Rightarrow> stage res" where
  "normalize_stage v = (case v of
      VStr s \<Rightarrow> require (ValueError ''unsupported delivery stage'')
        (stage_of_name (replace_char (CHR ''_'') (CHR ''-'') (lower (strip s))))
    | _ \<Rightarrow> Inl (ValueError ''delivery stage must be a string''))"

definition normalize_next_action :: "pyval \<Rightarrow> stage \<Rightarrow> pyval res" where
  "normalize_next_action v g = (case v of
      VStr s \<Rightarrow> bindR (nonempty_text v ''next_action'') (\<lambda>action.
        Inr (VDict [(''action'', VStr action), (''stage'', VStr (stage_name g))]))
    | VDict kvs \<Rightarrow>
        bindR (nonempty_text (dget v ''action'') ''next_action.action'') (\<lambda>action.
        let normalized = dict_set ''action'' (VStr action) kvs;
            declared = dget_or (VDict normalized) ''stage'' (VStr (stage_name g))
        in bindR (normalize_stage declared) (\<lambda>g'.
           if g' \<noteq> g
           then Inl (ValueError ''next_action stage must match the objective stage'')
           else json_safe_or (VDict (dict_set ''stage'' (VStr (stage_name g')) normalized))
             ''next_action''))
    | _ \<Rightarrow> Inl (ValueError ''next_action must be a string or object''))"

definition normalize_explicit_value :: "pyval \<Rightarrow> string \<Rightarrow> pyval res" where
  "normalize_explicit_value v label = (case v of
      VStr s \<Rightarrow> bindR (nonempty_text v label) (\<lambda>t. Inr (VStr t))
    | VDict kvs \<Rightarrow>
        if kvs = [] then Inl (ValueError (label @ '' must not be empty''))
        else if list_ex (\<lambda>kv. blank (fst kv)) kvs
        then Inl (ValueError (label @ '' keys must be non-empty strings''))
        else json_safe_or v label
    | VList xs \<Rightarrow>
        if xs = [] then Inl (ValueError (label @ '' must not be empty''))
        else json_safe_or v label
    | _ \<Rightarrow> Inl (ValueError (label @ '' must be an explicit string, object, or list'')))"

text \<open>\<open>{aliases.get(key, key): item for key, item in raw.items()}\<close>.\<close>

definition key_alias :: "(string \<times> string) list \<Rightarrow> string \<Rightarrow> string" where
  "key_alias names k = (case map_of names k of None \<Rightarrow> k | Some k' \<Rightarrow> k')"

definition rename_keys :: "(string \<times> string) list \<Rightarrow> items \<Rightarrow> items" where
  "rename_keys names kvs = fold (\<lambda>(k, x). dict_set (key_alias names k) x) kvs []"

section \<open>Budgets\<close>

definition BUDGET_ALIASES :: "(string \<times> string) list" where
  "BUDGET_ALIASES = [(''max_attempts'', ''attempt_limit''),
     (''max_time_seconds'', ''time_budget_seconds''), (''max_cost'', ''cost_budget''),
     (''retry_backoff_seconds'', ''base_backoff_seconds'')]"

record budget =
  attempt_limit :: int
  attempts_used :: int
  time_budget_seconds :: int
  elapsed_seconds :: rat
  cost_budget :: rat
  cost_used :: rat
  base_backoff_seconds :: int
  max_backoff_seconds :: int

definition budget_int :: "string \<Rightarrow> pyval \<Rightarrow> int res" where
  "budget_int name v = (case int_of v of
      Some n \<Rightarrow> if n < 0 then Inl (ValueError (name @ '' must be a non-negative integer'')) else Inr n
    | None \<Rightarrow> Inl (ValueError (name @ '' must be a non-negative integer'')))"

definition budget_number :: "string \<Rightarrow> pyval \<Rightarrow> rat res" where
  "budget_number name v = (case finite_number v of
      Some q \<Rightarrow> if q < 0 then Inl (ValueError (name @ '' must be a finite non-negative number''))
        else Inr q
    | None \<Rightarrow> Inl (ValueError (name @ '' must be a finite non-negative number'')))"

definition normalize_budget :: "pyval \<Rightarrow> budget res" where
  "normalize_budget v =
    (let raw = (if v = VNone then VDict [] else v) in
     if \<not> is_dict raw then Inl (ValueError ''budget must be an object'')
     else let n = VDict (rename_keys BUDGET_ALIASES (items_of raw)) in
       bindR (budget_int ''attempt_limit'' (dget_or n ''attempt_limit'' (VInt 3))) (\<lambda>limit.
       bindR (budget_int ''attempts_used'' (dget_or n ''attempts_used'' (VInt 0))) (\<lambda>used.
       bindR (budget_int ''time_budget_seconds''
         (dget_or n ''time_budget_seconds'' (VInt 3600))) (\<lambda>time.
       bindR (budget_int ''base_backoff_seconds''
         (dget_or n ''base_backoff_seconds'' (VInt 5))) (\<lambda>base.
       bindR (budget_int ''max_backoff_seconds''
         (dget_or n ''max_backoff_seconds'' (VInt 300))) (\<lambda>mx.
       if mx < base
       then Inl (ValueError ''budget max_backoff_seconds must be at least base_backoff_seconds'')
       else
       bindR (budget_number ''elapsed_seconds'' (dget_or n ''elapsed_seconds'' (VInt 0))) (\<lambda>elapsed.
       bindR (budget_number ''cost_budget'' (dget_or n ''cost_budget'' (VFloat (Fin 0)))) (\<lambda>cost.
       bindR (budget_number ''cost_used'' (dget_or n ''cost_used'' (VFloat (Fin 0)))) (\<lambda>spent.
       Inr \<lparr>attempt_limit = limit, attempts_used = used, time_budget_seconds = time,
            elapsed_seconds = elapsed, cost_budget = cost, cost_used = spent,
            base_backoff_seconds = base, max_backoff_seconds = mx\<rparr>)))))))))"

text \<open>The document a budget is stored as.\<close>

definition budget_json :: "budget \<Rightarrow> pyval" where
  "budget_json b = VDict
    [(''attempt_limit'', VInt (attempt_limit b)), (''attempts_used'', VInt (attempts_used b)),
     (''time_budget_seconds'', VInt (time_budget_seconds b)),
     (''elapsed_seconds'', VFloat (Fin (elapsed_seconds b))),
     (''cost_budget'', VFloat (Fin (cost_budget b))), (''cost_used'', VFloat (Fin (cost_used b))),
     (''base_backoff_seconds'', VInt (base_backoff_seconds b)),
     (''max_backoff_seconds'', VInt (max_backoff_seconds b))]"

definition budget_ok :: "budget \<Rightarrow> bool" where
  "budget_ok b \<longleftrightarrow> 0 \<le> attempt_limit b \<and> 0 \<le> attempts_used b \<and> 0 \<le> time_budget_seconds b
     \<and> 0 \<le> elapsed_seconds b \<and> 0 \<le> cost_budget b \<and> 0 \<le> cost_used b
     \<and> 0 \<le> base_backoff_seconds b \<and> base_backoff_seconds b \<le> max_backoff_seconds b"

section \<open>Identities\<close>

definition IDENTITY_ALIASES :: "(string \<times> string) list" where
  "IDENTITY_ALIASES = [(''node_version'', ''node''), (''node_identity'', ''node''),
     (''pnpm_version'', ''pnpm''), (''pnpm_identity'', ''pnpm''), (''source_sha'', ''source''),
     (''source_identity'', ''source''), (''build_id'', ''build''), (''build_identity'', ''build''),
     (''deployment_id'', ''deploy''), (''deploy_id'', ''deploy''),
     (''deployment_identity'', ''deploy''), (''runtime_id'', ''runtime''),
     (''runtime_identity'', ''runtime'')]"

fun normalize_identity_items :: "items \<Rightarrow> items \<Rightarrow> items res" where
  "normalize_identity_items acc [] = Inr acc"
| "normalize_identity_items acc ((k, item) # rest) =
    (let name = key_alias IDENTITY_ALIASES k in
     if name \<notin> set IDENTITY_FIELDS then Inl (ValueError ''unsupported identity field'')
     else if item = VNone then normalize_identity_items acc rest
     else if (case item of VStr s \<Rightarrow> blank s | _ \<Rightarrow> False)
     then Inl (ValueError ''identity must not be empty'')
     else bindR (json_safe_or item ''identity'') (\<lambda>x.
       normalize_identity_items (dict_set name x acc) rest))"

definition normalize_identities :: "pyval \<Rightarrow> items res" where
  "normalize_identities v = (case v of
      VNone \<Rightarrow> Inr []
    | VDict kvs \<Rightarrow> normalize_identity_items [] kvs
    | _ \<Rightarrow> Inl (ValueError ''identities must be an object''))"

fun merge_identity_items :: "items \<Rightarrow> items \<Rightarrow> items res" where
  "merge_identity_items current [] = Inr current"
| "merge_identity_items current ((name, item) # rest) =
    (case map_of current name of
       Some x \<Rightarrow> if \<not> py_eq x item
         then Inl (ValueError ''identity does not match the frozen delivery objective'')
         else merge_identity_items (dict_set name item current) rest
     | None \<Rightarrow> merge_identity_items (dict_set name item current) rest)"

definition merge_identities :: "pyval \<Rightarrow> pyval \<Rightarrow> items res" where
  "merge_identities existing incoming =
    bindR (normalize_identities existing) (\<lambda>current.
    bindR (normalize_identities incoming) (\<lambda>additions.
      merge_identity_items current additions))"

section \<open>Failures\<close>

definition normalize_wait_reason :: "pyval \<Rightarrow> string option \<Rightarrow> pyval res" where
  "normalize_wait_reason v default_kind = (case v of
      VStr s \<Rightarrow> bindR (nonempty_text v ''wait_reason'') (\<lambda>detail.
        Inr (VDict [(''kind'', VStr (case default_kind of
               Some k \<Rightarrow> (if k = [] then ''execution-environment'' else k)
             | None \<Rightarrow> ''execution-environment'')), (''detail'', VStr detail)]))
    | VDict kvs \<Rightarrow>
       (case dget_or v ''kind'' (opt_str default_kind) of
          VStr kind \<Rightarrow>
           if kind \<notin> set DELIVERY_FAILURE_KINDS
           then Inl (ValueError ''wait_reason.kind must be a recognized delivery failure kind'')
           else let n1 = dict_set ''kind'' (VStr kind) kvs in
             bindR (nonempty_text (dget_or (VDict n1) ''detail'' (dget (VDict n1) ''reason''))
               ''wait_reason.detail'') (\<lambda>detail.
             let n2 = dict_set ''detail'' (VStr detail) n1; resolution = dget (VDict n2) ''resolution''
             in if resolution = VNone then json_safe_or (VDict n2) ''wait_reason''
                else bindR (nonempty_text resolution ''wait_reason.resolution'') (\<lambda>r.
                  json_safe_or (VDict (dict_set ''resolution'' (VStr r) n2)) ''wait_reason''))
        | VList _ \<Rightarrow> Inl (TypeError ''unhashable type'')
        | VDict _ \<Rightarrow> Inl (TypeError ''unhashable type'')
        | _ \<Rightarrow> Inl (ValueError ''wait_reason.kind must be a recognized delivery failure kind''))
    | _ \<Rightarrow> Inl (ValueError ''wait_reason must be a string or object''))"

record recovery_action =
  ra_action :: string
  ra_kind :: string
  ra_automatic :: bool
  ra_reconciliation :: bool
  ra_human :: bool

definition recovery_action_for_failure :: "pyval \<Rightarrow> recovery_action res" where
  "recovery_action_for_failure v = bindR (normalize_wait_reason v None) (\<lambda>failure.
     case dget failure ''kind'' of
       VStr kind \<Rightarrow> (case map_of FAILURE_RECOVERY_ACTIONS kind of
           None \<Rightarrow> Inl (KeyError kind)
         | Some action \<Rightarrow> Inr \<lparr>ra_action = action, ra_kind = kind,
             ra_automatic = (kind \<notin> set MANUAL_DECISION_FAILURE_KINDS),
             ra_reconciliation = (kind = ''unknown-effects''),
             ra_human = (kind \<in> set MANUAL_DECISION_FAILURE_KINDS)\<rparr>)
     | _ \<Rightarrow> Inl (KeyError ''kind''))"

definition recovery_json :: "recovery_action \<Rightarrow> pyval" where
  "recovery_json r = VDict [(''action'', VStr (ra_action r)), (''kind'', VStr (ra_kind r)),
     (''automatic'', VBool (ra_automatic r)),
     (''requires_authoritative_reconciliation'', VBool (ra_reconciliation r)),
     (''requires_human_decision'', VBool (ra_human r))]"

section \<open>Endpoints and required stages\<close>

definition delivery_endpoints :: "pyval \<Rightarrow> pyval res" where
  "delivery_endpoints request =
    (case dget_or request ''requested_endpoints'' (dget request ''endpoints'') of
       VDict kvs \<Rightarrow> if kvs = [] then Inl (ValueError ''requested_endpoints must be a non-empty object'')
         else Inr (VDict kvs)
     | _ \<Rightarrow> Inl (ValueError ''requested_endpoints must be a non-empty object''))"

text \<open>\<open>value.get("name", value.get("id"))\<close>.\<close>

definition name_or_id :: "pyval \<Rightarrow> pyval" where
  "name_or_id v = dget_or v ''name'' (dget v ''id'')"

definition configured_check_names :: "pyval \<Rightarrow> string \<Rightarrow> string list res" where
  "configured_check_names v label = (case v of
      VStr s \<Rightarrow> bindR (nonempty_text v label) (\<lambda>t. Inr [t])
    | VDict kvs \<Rightarrow>
        if has_key ''name'' v \<or> has_key ''id'' v
        then bindR (nonempty_text (name_or_id v) label) (\<lambda>t. Inr [t])
        else bindR (mapR (\<lambda>k. nonempty_text (VStr k) label) (map fst kvs)) (\<lambda>names.
          if names \<noteq> [] then Inr names
          else Inl (ValueError (label @ '' must contain at least one configured check'')))
    | VList xs \<Rightarrow>
        bindR (mapR (\<lambda>item. case item of
            VStr s \<Rightarrow> nonempty_text item label
          | VDict _ \<Rightarrow> nonempty_text (name_or_id item) label
          | _ \<Rightarrow> Inl (ValueError (label @ '' entries must be names or objects with a name''))) xs)
        (\<lambda>names. if names \<noteq> [] then Inr names
          else Inl (ValueError (label @ '' must contain at least one configured check'')))
    | _ \<Rightarrow> Inl (ValueError (label @ '' must contain at least one configured check'')))"

definition live_verification_requirements :: "pyval \<Rightarrow> (string \<times> string list) list res" where
  "live_verification_requirements request = bindR (delivery_endpoints request) (\<lambda>endpoints.
     let deployment = dget endpoints ''deployment'' in
     if deployment = VNone then Inr []
     else if \<not> is_dict deployment
     then Inl (ValueError ''requested_endpoints.deployment must be an object'')
     else bindR (configured_check_names
            (dget_or deployment ''health_checks'' (dget deployment ''health''))
            ''deployment health_checks'') (\<lambda>health.
          bindR (configured_check_names
            (dget_or deployment ''functional_checks'' (dget deployment ''functional''))
            ''deployment functional_checks'') (\<lambda>functional.
          Inr [(''health'', health), (''functional'', functional)])))"

text \<open>The GitHub endpoint's part of \<open>required_delivery_stages\<close>.\<close>

definition github_stages :: "pyval \<Rightarrow> stage list res" where
  "github_stages endpoints = (let github = dget endpoints ''github'' in
     if github = VNone then Inr []
     else if \<not> is_dict github
     then Inl (ValueError ''requested_endpoints.github must be an object'')
     else let remote = dget_or github ''remote'' (VStr ''origin'');
              base_branch = dget github ''base_branch'';
              merge = dget_or github ''merge'' (VBool False);
              release_tag = dget github ''release_tag'';
              runtime_identities = dget_or github ''required_runtime_identities'' (VList [])
     in if (case remote of VStr s \<Rightarrow> blank s | _ \<Rightarrow> True)
     then Inl (ValueError ''requested_endpoints.github.remote must be a non-empty string'')
     else if (case base_branch of VStr s \<Rightarrow> blank s | _ \<Rightarrow> True)
     then Inl (ValueError ''requested_endpoints.github.base_branch is required'')
     else if \<not> is_bool merge
     then Inl (ValueError ''requested_endpoints.github.merge must be a boolean'')
     else if release_tag \<noteq> VNone \<and> (case release_tag of VStr s \<Rightarrow> blank s | _ \<Rightarrow> True)
     then Inl (ValueError ''requested_endpoints.github.release_tag must be a non-empty string or null'')
     else if has_key ''publish'' github \<and> \<not> is_bool (dget github ''publish'')
     then Inl (ValueError ''requested_endpoints.github.publish must be a boolean'')
     else if (case runtime_identities of
                VList xs \<Rightarrow> list_ex (\<lambda>x. x \<noteq> VStr ''node'' \<and> x \<noteq> VStr ''pnpm'') xs | _ \<Rightarrow> True)
     then Inl (ValueError ''GitHub required_runtime_identities must list node and/or pnpm'')
     else let publication = dget endpoints ''publish'';
              publish_requested = truthy (dget github ''publish'') \<or> truthy (dget github ''merge'')
                \<or> release_tag \<noteq> VNone \<or> is_true publication \<or> is_dict publication
          in Inr ([Integrate, Ci] @ (if publish_requested then [Publish] else [])))"

definition deployment_stages :: "pyval \<Rightarrow> pyval \<Rightarrow> stage list res" where
  "deployment_stages request endpoints = (let deployment = dget endpoints ''deployment'' in
     if deployment = VNone then Inr []
     else if \<not> is_dict deployment
     then Inl (ValueError ''requested_endpoints.deployment must be an object'')
     else if (case dget deployment ''target'' of VStr s \<Rightarrow> blank s | _ \<Rightarrow> True)
     then Inl (ValueError ''requested_endpoints.deployment.target is required'')
     else bindR (live_verification_requirements request) (\<lambda>_. Inr [Deploy, LiveVerify]))"

definition required_delivery_stages :: "pyval \<Rightarrow> stage list res" where
  "required_delivery_stages request = bindR (delivery_endpoints request) (\<lambda>endpoints.
     bindR (github_stages endpoints) (\<lambda>github.
     bindR (deployment_stages request endpoints) (\<lambda>deployment.
       Inr ([Plan, Implement, Verify] @ github @ deployment))))"

definition required_completion_identities :: "pyval \<Rightarrow> string list res" where
  "required_completion_identities request = bindR (required_delivery_stages request) (\<lambda>stages.
     if LiveVerify \<in> set stages then Inr IDENTITY_FIELDS
     else if Ci \<in> set stages
     then bindR (delivery_endpoints request) (\<lambda>endpoints.
       let runtimes = dget_or (dget endpoints ''github'') ''required_runtime_identities'' (VList [])
       in Inr (filter (\<lambda>name. case runtimes of VList xs \<Rightarrow> VStr name \<in> set xs | _ \<Rightarrow> False)
            [''node'', ''pnpm''] @ [''source'', ''build'']))
     else Inr [''source''])"

section \<open>Live verification\<close>

lemma map_of_smaller [termination_simp]:
  "map_of kvs k = Some x \<Longrightarrow> size x < Suc (size_list (size_prod (\<lambda>_. 0) size) kvs)"
proof (induction kvs)
  case (Cons kv kvs)
  then show ?case by (cases kv) (auto split: if_splits)
qed simp

function check_passed :: "pyval \<Rightarrow> bool" where
  "check_passed v = (case v of
      VBool b \<Rightarrow> b
    | VStr s \<Rightarrow> lower (strip s) \<in> set [''ok'', ''passed'', ''healthy'', ''success'', ''succeeded'']
    | VDict kvs \<Rightarrow>
        if is_true (dget v ''ok'') \<or> is_true (dget v ''passed'') then True
        else (case map_of kvs ''status'' of
            Some x \<Rightarrow> check_passed x
          | None \<Rightarrow> (case map_of kvs ''state'' of Some y \<Rightarrow> check_passed y | None \<Rightarrow> False))
    | _ \<Rightarrow> False)"
  by pat_completeness auto
termination
  by (relation "measure size") (auto simp: map_of_smaller)

declare check_passed.simps [simp del]

fun observed_list :: "string \<Rightarrow> items \<Rightarrow> pyval list \<Rightarrow> items res" where
  "observed_list label acc [] = Inr acc"
| "observed_list label acc (item # rest) =
    (if \<not> is_dict item then Inl (ValueError (label @ '' results must be objects with a name''))
     else bindR (nonempty_text (name_or_id item) label) (\<lambda>name.
       if name \<in> set (map fst acc) then Inl (ValueError (label @ '' contains duplicate result''))
       else observed_list label (dict_set name item acc) rest))"

fun observed_mapping :: "string \<Rightarrow> items \<Rightarrow> items \<Rightarrow> items res" where
  "observed_mapping label acc [] = Inr acc"
| "observed_mapping label acc ((k, item) # rest) =
    bindR (nonempty_text (VStr k) label) (\<lambda>name.
      observed_mapping label (dict_set name item acc) rest)"

definition observed_checks :: "pyval \<Rightarrow> string \<Rightarrow> items res" where
  "observed_checks v label = (case v of
      VDict kvs \<Rightarrow>
        if has_key ''name'' v \<or> has_key ''id'' v
        then bindR (nonempty_text (name_or_id v) label) (\<lambda>name. Inr [(name, v)])
        else observed_mapping label [] kvs
    | VList xs \<Rightarrow> observed_list label [] xs
    | _ \<Rightarrow> Inl (ValueError (label @ '' results are required'')))"

fun checks_complete :: "pyval \<Rightarrow> pyval \<Rightarrow> (string \<times> string list) list \<Rightarrow> unit res" where
  "checks_complete receipt checks [] = Inr ()"
| "checks_complete receipt checks ((kind, required_names) # rest) =
    bindR (observed_checks (dget_or checks kind (dget receipt (kind @ ''_checks'')))
        (kind @ '' check'')) (\<lambda>observed.
      let missing = filter (\<lambda>name. name \<notin> set (map fst observed)) required_names;
          failed = filter (\<lambda>name. name \<in> set (map fst observed)
            \<and> \<not> check_passed (dget (VDict observed) name)) required_names
      in if missing \<noteq> [] \<or> failed \<noteq> []
         then Inl (ValueError ''live verification checks are incomplete'')
         else checks_complete receipt checks rest)"

definition validate_live_verification_receipt :: "pyval \<Rightarrow> pyval \<Rightarrow> unit res" where
  "validate_live_verification_receipt request receipt =
    bindR (live_verification_requirements request) (\<lambda>requirements.
      if requirements = [] then Inr ()
      else let checks = dget_or receipt ''checks'' receipt in
        if \<not> is_dict checks
        then Inl (ValueError ''live verification receipt checks must be an object'')
        else checks_complete receipt checks requirements)"

definition rollback_policy_is_preauthorized :: "pyval \<Rightarrow> bool res" where
  "rollback_policy_is_preauthorized request = bindR (delivery_endpoints request) (\<lambda>endpoints.
     let deployment = dget endpoints ''deployment'' in
     if \<not> is_dict deployment then Inr False
     else let policy = dget_or deployment ''rollback_policy'' (dget deployment ''rollback'')
       in Inr (is_dict policy \<and> is_true (dget policy ''preauthorized'')
            \<and> is_true (dget policy ''reversible'')))"

section \<open>The request envelope\<close>

definition RECOGNIZED_REQUEST_KEYS :: "string list" where
  "RECOGNIZED_REQUEST_KEYS = [''requested_endpoints'', ''endpoints'', ''scope'',
     ''requested_scope'', ''authority'', ''requested_authority'', ''budget'', ''budgets'',
     ''due_at'', ''next_wakeup_at'', ''identities'', ''evidence_fingerprints'', ''next_action'']"

definition normalize_objective_request :: "pyval \<Rightarrow> pyval res" where
  "normalize_objective_request raw =
    (if \<not> is_dict raw then Inl (ValueError ''delivery objective request must be an object'')
     else let endpoints = dget_or raw ''requested_endpoints'' (dget raw ''endpoints'');
              scope = dget_or raw ''scope'' (dget raw ''requested_scope'');
              authority = dget_or raw ''authority'' (dget raw ''requested_authority'');
              evidence = dget_or raw ''evidence_fingerprints'' (VDict [])
     in if endpoints = VNone \<or> scope = VNone \<or> authority = VNone
     then Inl (ValueError ''delivery objective requires requested_endpoints, scope, and authority'')
     else if \<not> is_dict evidence
     then Inl (ValueError ''evidence_fingerprints must be an object'')
     else
       bindR (normalize_explicit_value endpoints ''requested_endpoints'') (\<lambda>n_endpoints.
       bindR (normalize_explicit_value scope ''scope'') (\<lambda>n_scope.
       bindR (normalize_explicit_value authority ''authority'') (\<lambda>n_authority.
       bindR (normalize_budget (dget_or raw ''budget'' (dget raw ''budgets''))) (\<lambda>n_budget.
       bindR (normalize_timestamp (dget raw ''due_at'') ''due_at'' False) (\<lambda>n_due.
       bindR (normalize_timestamp (dget raw ''next_wakeup_at'') ''next_wakeup_at'' False) (\<lambda>n_wake.
       bindR (normalize_identities (dget raw ''identities'')) (\<lambda>n_identities.
       bindR (json_safe_or evidence ''evidence_fingerprints'') (\<lambda>n_evidence.
       bindR (json_safe_or
           (VDict (filter (\<lambda>kv. fst kv \<notin> set RECOGNIZED_REQUEST_KEYS) (items_of raw)))
           ''delivery objective metadata'') (\<lambda>n_metadata.
       let normalized =
         [(''requested_endpoints'', n_endpoints), (''scope'', n_scope),
          (''authority'', n_authority), (''budget'', budget_json n_budget),
          (''due_at'', opt_stamp n_due), (''next_wakeup_at'', opt_stamp n_wake),
          (''identities'', VDict n_identities), (''evidence_fingerprints'', n_evidence),
          (''metadata'', n_metadata)]
       in bindR (required_delivery_stages (VDict normalized)) (\<lambda>_.
          bindR (normalize_next_action (dget_or raw ''next_action''
              (VDict [(''action'', VStr ''plan''), (''stage'', VStr ''plan'')])) Plan) (\<lambda>action.
          Inr (VDict (normalized @ [(''next_action'', action)]))))))))))))))"

end
