(* ===== verification/Store_State.thy ===== *)
theory Store_State
  imports Delivery_Request "HOL-Library.Product_Lexorder"
begin

text \<open>
  The SQLite ledger of \<open>store.py\<close> as a record of tables (schema at lines 352 to 640): one row
  record per modelled table, in rowid order, and the metadata keys the store keeps. An
  operation is a function of its arguments, the clock and the ledger; it returns an exception,
  in which case the transaction is rolled back and the ledger is unchanged, or its value and
  the committed ledger. An operation reads the clock once; times are seconds of UTC.

  Arguments have the types of the signatures, so the \<open>isinstance\<close> guards of the code on
  strings and integers hold; documents are checked as the code checks them. Operations return
  the row; the dictionary view the code builds from it is not modelled.
\<close>

section \<open>States\<close>

datatype task_state =
    TInbox | TPlanning | TReady | TQueued | TRunning | TVerifying | TAccepted | TNeedsFix
  | TBlocked | TNeedsApproval | TPaused | TCancelled

fun task_state_name :: "task_state \<Rightarrow> string" where
  "task_state_name TInbox = ''inbox''"
| "task_state_name TPlanning = ''planning''"
| "task_state_name TReady = ''ready''"
| "task_state_name TQueued = ''queued''"
| "task_state_name TRunning = ''running''"
| "task_state_name TVerifying = ''verifying''"
| "task_state_name TAccepted = ''accepted''"
| "task_state_name TNeedsFix = ''needs_fix''"
| "task_state_name TBlocked = ''blocked''"
| "task_state_name TNeedsApproval = ''needs_approval''"
| "task_state_name TPaused = ''paused''"
| "task_state_name TCancelled = ''cancelled''"

datatype node_state =
    NPending | NQueued | NRunning | NVerifying | NAccepted | NFailed | NBlocked
  | NIndeterminate | NCancelled

fun node_state_name :: "node_state \<Rightarrow> string" where
  "node_state_name NPending = ''pending''"
| "node_state_name NQueued = ''queued''"
| "node_state_name NRunning = ''running''"
| "node_state_name NVerifying = ''verifying''"
| "node_state_name NAccepted = ''accepted''"
| "node_state_name NFailed = ''failed''"
| "node_state_name NBlocked = ''blocked''"
| "node_state_name NIndeterminate = ''indeterminate''"
| "node_state_name NCancelled = ''cancelled''"

datatype planning_state = PPending | PRunning | PSucceeded | PFailed | PIndeterminate

fun planning_state_name :: "planning_state \<Rightarrow> string" where
  "planning_state_name PPending = ''pending''"
| "planning_state_name PRunning = ''running''"
| "planning_state_name PSucceeded = ''succeeded''"
| "planning_state_name PFailed = ''failed''"
| "planning_state_name PIndeterminate = ''indeterminate''"

datatype objective_state = OActive | OWaiting | ONeedsDecision | OComplete | OCancelled

fun objective_state_name :: "objective_state \<Rightarrow> string" where
  "objective_state_name OActive = ''active''"
| "objective_state_name OWaiting = ''waiting''"
| "objective_state_name ONeedsDecision = ''needs_decision''"
| "objective_state_name OComplete = ''complete''"
| "objective_state_name OCancelled = ''cancelled''"

datatype receipt_state = RSucceeded | RFailed | RBlocked | RIndeterminate | RDenied

fun receipt_state_name :: "receipt_state \<Rightarrow> string" where
  "receipt_state_name RSucceeded = ''succeeded''"
| "receipt_state_name RFailed = ''failed''"
| "receipt_state_name RBlocked = ''blocked''"
| "receipt_state_name RIndeterminate = ''indeterminate''"
| "receipt_state_name RDenied = ''denied''"

datatype dispatch_state = DStarted | DSettled

datatype allocation_state =
    AActive | AQuarantinePending | AQuarantined | AArchiveFailed | AArchivedVerified
  | APurgeFailed | APurged | ASuperseded

datatype archive_state = ArPending | ArVerified | ArFailed

section \<open>Rows\<close>

record task_row =
  t_id :: string
  t_contract :: pyval
  t_hash :: string
  t_state :: task_state
  t_revision :: int
  t_priority :: int
  t_created :: stamp
  t_updated :: stamp
  t_blocker :: "string option"
  t_verdict :: "string option"

record node_row =
  n_task :: string
  n_node :: string
  n_spec :: pyval
  n_state :: node_state
  n_attempt :: int
  n_worker :: "string option"
  n_worktree :: "string option"
  n_executor :: "string option"
  n_model :: "string option"
  n_started :: "stamp option"
  n_settled :: "stamp option"
  n_result :: "pyval option"
  n_recovery :: "pyval option"
  n_epoch :: int
  n_lease :: int
  n_updated :: stamp

record event_row =
  e_type :: string
  e_task :: "string option"
  e_node :: "string option"
  e_payload :: pyval
  e_created :: stamp

record command_receipt =
  c_command :: string
  c_hash :: string
  c_task :: string
  c_created :: stamp

record wait_row =
  i_task :: string
  i_node :: string
  i_fingerprint :: string
  i_reason :: pyval
  i_action :: pyval
  i_blocking :: pyval
  i_due :: stamp
  i_wakeup :: stamp
  i_cursor :: int
  i_created :: stamp
  i_updated :: stamp

record approval_row =
  y_id :: string
  y_task :: string
  y_kind :: string
  y_request :: pyval
  y_decision :: "string option"
  y_decided :: "stamp option"
  y_created :: stamp

record steering_row =
  g_id :: string
  g_task :: string
  g_instruction :: string
  g_created :: stamp
  g_sequence :: int
  g_scope :: string
  g_node :: "string option"
  g_attempt :: "int option"

record evidence_row =
  v_cache :: string
  v_result :: pyval
  v_source_task :: string
  v_source_node :: string
  v_stored :: stamp
  v_used :: stamp
  v_uses :: int

record planning_row =
  p_command :: string
  p_hash :: string
  p_task :: string
  p_request :: pyval
  p_state :: planning_state
  p_attempt :: int
  p_epoch :: int
  p_result :: "pyval option"
  p_error :: "string option"
  p_started :: "stamp option"
  p_settled :: "stamp option"
  p_created :: stamp
  p_updated :: stamp

record objective_row =
  o_id :: string
  o_command :: string
  o_task :: string
  o_hash :: string
  o_request :: pyval
  o_state :: objective_state
  o_stage :: stage
  o_attempt :: int
  o_revision :: int
  o_next_action :: pyval
  o_owner :: "string option"
  o_epoch :: int
  o_lease :: int
  o_expires :: "stamp option"
  o_due :: stamp
  o_wakeup :: "stamp option"
  o_progress_at :: stamp
  o_progress :: pyval
  o_wait :: "pyval option"
  o_budget :: pyval
  o_evidence :: pyval
  o_identities :: pyval
  o_created :: stamp
  o_updated :: stamp

record stage_receipt_row =
  s_id :: string
  s_objective :: string
  s_task :: string
  s_stage :: stage
  s_attempt :: int
  s_hash :: string
  s_state :: receipt_state
  s_receipt :: pyval
  s_evidence :: "string option"
  s_identities :: pyval
  s_created :: stamp

record dispatch_row =
  d_id :: string
  d_objective :: string
  d_task :: string
  d_stage :: stage
  d_attempt :: int
  d_hash :: string
  d_adapter :: string
  d_state :: dispatch_state
  d_receipt :: "string option"
  d_rollback :: "dispatch_state option"
  d_rollback_receipt :: "pyval option"
  d_created :: stamp
  d_updated :: stamp

record authorization_row =
  a_id :: string
  a_task :: string
  a_objective :: "string option"
  a_hash :: string
  a_scope :: pyval
  a_authority :: pyval
  a_decision :: string
  a_granted_by :: string
  a_expires :: "stamp option"
  a_revoked :: "stamp option"
  a_created :: stamp

record delivery_row =
  v_command :: string
  v_hash :: string
  v_task :: string
  v_state :: string
  v_details :: pyval
  v_created :: stamp
  v_updated :: stamp

record lease_row =
  l_command :: string
  l_fence :: string
  l_acquired :: stamp
  l_expires :: stamp
  l_updated :: stamp

record allocation_row =
  w_id :: string
  w_task :: string
  w_node :: string
  w_attempt :: int
  w_repository :: string
  w_base :: string
  w_branch :: string
  w_path :: string
  w_state :: allocation_state
  w_result :: "pyval option"
  w_created :: stamp
  w_updated :: stamp

record archive_row =
  r_id :: string
  r_allocation :: "string option"
  r_host :: string
  r_source :: string
  r_transport :: string
  r_path :: "string option"
  r_sha :: "string option"
  r_size :: "int option"
  r_state :: archive_state
  r_manifest :: "pyval option"
  r_error :: "string option"
  r_verified :: "stamp option"
  r_purged :: "stamp option"
  r_created :: stamp
  r_updated :: stamp

record session_row =
  b_thread :: string
  b_context :: string
  b_task :: "string option"
  b_updated :: stamp

record context_row =
  u_command :: string
  u_hash :: string
  u_thread :: string
  u_context :: string
  u_archive :: string
  u_manifest :: pyval
  u_repository :: string
  u_base :: string
  u_scopes :: pyval
  u_excerpt :: string
  u_created :: stamp

section \<open>The ledger\<close>

record store =
  meta_machine :: "string option"
  meta_epoch :: "int option"
  meta_instance :: "string option"
  meta_objective_lease :: "int option"
  meta_lease :: "int option"
  tasks :: "task_row list"
  nodes :: "node_row list"
  events :: "event_row list"
  commands :: "command_receipt list"
  plannings :: "planning_row list"
  objectives :: "objective_row list"
  stage_receipts :: "stage_receipt_row list"
  dispatches :: "dispatch_row list"
  authorizations :: "authorization_row list"
  deliveries :: "delivery_row list"
  leases :: "lease_row list"
  allocations :: "allocation_row list"
  archives :: "archive_row list"
  waits :: "wait_row list"
  approvals :: "approval_row list"
  steering :: "steering_row list"
  evidence_cache :: "evidence_row list"
  sessions :: "session_row list"
  contexts :: "context_row list"

definition empty_store :: store where
  "empty_store = \<lparr>meta_machine = None, meta_epoch = None, meta_instance = None,
     meta_objective_lease = None, meta_lease = None, tasks = [], nodes = [], events = [], commands = [],
     plannings = [], objectives = [], stage_receipts = [], dispatches = [], authorizations = [],
     deliveries = [], leases = [], allocations = [], archives = [], waits = [], approvals = [],
     steering = [], evidence_cache = [], sessions = [], contexts = []\<rparr>"

text \<open>Nodes and their waits are keyed by task and node id.\<close>

definition node_key :: "node_row \<Rightarrow> string \<times> string" where
  "node_key n = (n_task n, n_node n)"

definition wait_key :: "wait_row \<Rightarrow> string \<times> string" where
  "wait_key i = (i_task i, i_node i)"

text \<open>\<open>_event\<close>: the row is appended and its cursor is the new length of the log.\<close>

definition emit_event ::
  "string \<Rightarrow> string option \<Rightarrow> string option \<Rightarrow> items \<Rightarrow> stamp \<Rightarrow> store \<Rightarrow> int \<times> store" where
  "emit_event kind task node payload ts s =
    (int (length (events s)) + 1,
     s\<lparr>events := events s @ [\<lparr>e_type = kind, e_task = task, e_node = node,
        e_payload = canonical_json (VDict payload), e_created = ts\<rparr>]\<rparr>)"

lemma emit_event_snd: "snd (emit_event k t n p ts s) =
    s\<lparr>events := events s @ [\<lparr>e_type = k, e_task = t, e_node = n,
        e_payload = canonical_json (VDict p), e_created = ts\<rparr>]\<rparr>"
  by (simp add: emit_event_def)

lemma emit_event_extends: "\<exists>ev. snd (emit_event k t n p ts s) = s\<lparr>events := events s @ [ev]\<rparr>"
  unfolding emit_event_snd by blast

text \<open>\<open>ORDER BY key LIMIT 1\<close>.\<close>

definition first_by :: "('r \<Rightarrow> 'k::linorder) \<Rightarrow> 'r list \<Rightarrow> 'r option" where
  "first_by key rows = (case sort_key key rows of [] \<Rightarrow> None | r # _ \<Rightarrow> Some r)"

lemma first_by_None: "first_by key rows = None \<longleftrightarrow> rows = []"
  by (auto simp: first_by_def split: list.splits dest: arg_cong [where f = length])

lemma first_by_Some:
  assumes "first_by key rows = Some r"
  shows "r \<in> set rows \<and> (\<forall>x \<in> set rows. key r \<le> key x)"
proof -
  obtain rest where rest: "sort_key key rows = r # rest"
    using assms by (auto simp: first_by_def split: list.splits)
  have "set (sort_key key rows) = set rows" by simp
  moreover have "sorted (map key (sort_key key rows))" by simp
  ultimately show ?thesis unfolding rest by auto
qed

section \<open>Coordinator epochs\<close>

definition activate_coordinator :: "string \<Rightarrow> string \<Rightarrow> store \<Rightarrow> (int \<times> store) res" where
  "activate_coordinator instance_id machine s =
    (if blank instance_id then Inl (ValueError ''coordinator instance_id is required'')
     else if blank machine then Inl (ValueError ''authority_machine_id is required'')
     else if meta_machine s \<noteq> None \<and> meta_machine s \<noteq> Some machine
     then Inl (StateConflictError ''authority ledger belongs to a different machine ID'')
     else let epoch = (case meta_epoch s of None \<Rightarrow> 0 | Some e \<Rightarrow> e) + 1
       in Inr (epoch, s\<lparr>meta_machine := Some machine, meta_epoch := Some epoch,
            meta_instance := Some instance_id\<rparr>))"

definition assert_active_coordinator :: "int \<Rightarrow> store \<Rightarrow> unit res" where
  "assert_active_coordinator epoch s =
    (if meta_epoch s \<noteq> Some epoch
     then Inl (StateConflictError ''coordinator lease epoch is stale'') else Inr ())"

lemma assert_active_Inr [res_simps]:
  "assert_active_coordinator e s = Inr u \<longleftrightarrow> meta_epoch s = Some e"
  by (simp add: assert_active_coordinator_def)

text \<open>
  Two activations never share an epoch, and only the last one's epoch passes the fence every
  coordinator write goes through.
\<close>

lemma activate_fences:
  assumes "activate_coordinator i m s = Inr (e, s')"
  shows "assert_active_coordinator e s' = Inr ()"
    and "meta_epoch s = Some old \<Longrightarrow> assert_active_coordinator old s'
      = Inl (StateConflictError ''coordinator lease epoch is stale'') \<and> old < e"
  using assms by (auto simp: activate_coordinator_def assert_active_coordinator_def Let_def
      split: if_splits)

section \<open>Keyed tables\<close>

interpretation tk: keyed_table t_id "row_get t_id" "row_put t_id" "row_add t_id"
  by (rule keyed_rows)
interpretation nd: keyed_table node_key "row_get node_key" "row_put node_key" "row_add node_key"
  by (rule keyed_rows)
interpretation wt: keyed_table wait_key "row_get wait_key" "row_put wait_key" "row_add wait_key"
  by (rule keyed_rows)
interpretation ap: keyed_table y_id "row_get y_id" "row_put y_id" "row_add y_id"
  by (rule keyed_rows)
interpretation ev: keyed_table v_cache "row_get v_cache" "row_put v_cache" "row_add v_cache"
  by (rule keyed_rows)
interpretation ss: keyed_table b_thread "row_get b_thread" "row_put b_thread" "row_add b_thread"
  by (rule keyed_rows)
interpretation st: keyed_table g_id "row_get g_id" "row_put g_id" "row_add g_id"
  by (rule keyed_rows)
interpretation pl: keyed_table p_command "row_get p_command" "row_put p_command" "row_add p_command"
  by (rule keyed_rows)
interpretation ob: keyed_table o_id "row_get o_id" "row_put o_id" "row_add o_id"
  by (rule keyed_rows)
interpretation dp: keyed_table d_id "row_get d_id" "row_put d_id" "row_add d_id"
  by (rule keyed_rows)
interpretation sr: keyed_table s_id "row_get s_id" "row_put s_id" "row_add s_id"
  by (rule keyed_rows)
interpretation au: keyed_table a_id "row_get a_id" "row_put a_id" "row_add a_id"
  by (rule keyed_rows)
interpretation dv: keyed_table v_command "row_get v_command" "row_put v_command" "row_add v_command"
  by (rule keyed_rows)
interpretation ls: keyed_table l_command "row_get l_command" "row_put l_command" "row_add l_command"
  by (rule keyed_rows)
interpretation al: keyed_table w_id "row_get w_id" "row_put w_id" "row_add w_id"
  by (rule keyed_rows)
interpretation ar: keyed_table r_id "row_get r_id" "row_put r_id" "row_add r_id"
  by (rule keyed_rows)

section \<open>Running witnesses\<close>

text \<open>A digest and the ledger a successful operation leaves, for evaluating concrete runs.\<close>

definition demo_sha :: "pyval \<Rightarrow> string" where
  "demo_sha v = (case v of VDict ((k, _) # _) \<Rightarrow> k | VStr s \<Rightarrow> s | _ \<Rightarrow> ''h'')"

definition ran :: "('a \<times> store) res \<Rightarrow> store" where
  "ran r = (case r of Inl _ \<Rightarrow> empty_store | Inr (_, s) \<Rightarrow> s)"

lemma ranI: "(\<exists>x. r = Inr (x, ran r)) \<longleftrightarrow> (case r of Inl _ \<Rightarrow> False | Inr _ \<Rightarrow> True)"
  by (auto simp: ran_def split: sum.splits)

end
