(* ===== verification/Admission.thy ===== *)
theory Admission
  imports Store_State
begin

text \<open>
  What several parts of the store ask of a delivery objective: the deployment admission gate
  (\<open>store.py\<close> lines 2146 to 2165), the authority work a deployment has to wait for (2172 to
  2214), the fence on an objective's lease (1371 to 1389) and the counter of its lease epochs.
\<close>

text \<open>\<open>json_extract(column, '$.kind')\<close>.\<close>

definition kind_of :: "pyval \<Rightarrow> pyval" where
  "kind_of v = dget v ''kind''"

definition deploy_dispatched :: "store \<Rightarrow> objective_row \<Rightarrow> bool" where
  "deploy_dispatched s r = list_ex (\<lambda>d. d_objective d = o_id r \<and> d_stage d = Deploy) (dispatches s)"

definition holds_rollout :: "store \<Rightarrow> objective_row \<Rightarrow> bool" where
  "holds_rollout s r \<longleftrightarrow> o_state r \<notin> {OComplete, OCancelled} \<and>
     (o_stage r = Deploy \<and>
        (kind_of (o_progress r) \<in> {VStr ''delivery_objective.deployment_safe_point_waiting'',
             VStr ''delivery_objective.deployment_safe_point_ready''}
         \<or> list_ex (\<lambda>d. d_objective d = o_id r \<and> d_stage d = Deploy \<and> d_state d = DStarted)
             (dispatches s)
         \<or> (case o_wait r of Some w \<Rightarrow> kind_of w = VStr ''unknown-effects'' | None \<Rightarrow> False)
           \<and> deploy_dispatched s r)
      \<or> o_stage r = LiveVerify
        \<and> list_ex (\<lambda>x. s_objective x = o_id r \<and> s_stage x = Deploy \<and> s_state x = RSucceeded)
             (stage_receipts s))"

definition deployment_admission_gate :: "store \<Rightarrow> objective_row option" where
  "deployment_admission_gate s =
    first_by (\<lambda>r. (o_created r, o_id r)) (filter (holds_rollout s) (objectives s))"

text \<open>\<open>ORDER BY started_at\<close> puts NULL first.\<close>

definition started_key :: "stamp option \<Rightarrow> nat \<times> stamp" where
  "started_key v = (case v of None \<Rightarrow> (0, utc 0) | Some t \<Rightarrow> (1, t))"

definition node_blocker :: "node_row \<Rightarrow> pyval" where
  "node_blocker n = VDict [(''task_id'', VStr (n_task n)), (''node_id'', VStr (n_node n)),
     (''attempt'', VInt (n_attempt n)), (''worker_id'', opt_str (n_worker n)),
     (''worktree'', opt_str (n_worktree n)), (''started_at'', opt_stamp (n_started n))]"

definition planning_blocker :: "planning_row \<Rightarrow> pyval" where
  "planning_blocker p = VDict [(''task_id'', VStr (p_task p)), (''node_id'', VNone),
     (''attempt'', VInt (p_attempt p)), (''worker_id'', VNone), (''worktree'', VNone),
     (''started_at'', opt_stamp (p_started p)), (''kind'', VStr ''planning''),
     (''command_id'', VStr (p_command p))]"

text \<open>
  The running planning requests follow the running nodes; their own order is the one of the
  table, as the query does not order them.
\<close>

definition deployment_blockers :: "store \<Rightarrow> objective_row \<Rightarrow> pyval list res" where
  "deployment_blockers s objective =
    (case row_get t_id (o_task objective) (tasks s) of
       None \<Rightarrow> Inr []
     | Some task \<Rightarrow>
        if (case dget (t_contract task) ''repository'' of VStr r \<Rightarrow> r = [] | _ \<Rightarrow> True)
        then Inl (StateConflictError ''delivery objective task has no repository identity'')
        else Inr (map node_blocker
              (sort_key (\<lambda>n. (started_key (n_started n), n_task n, n_node n))
                (filter (\<lambda>n. n_state n = NRunning \<and> row_get t_id (n_task n) (tasks s) \<noteq> None)
                  (nodes s)))
            @ map planning_blocker (filter (\<lambda>p. p_state p = PRunning) (plannings s))))"

definition delivery_deployment_blockers :: "string \<Rightarrow> store \<Rightarrow> pyval list res" where
  "delivery_deployment_blockers objective_id s =
    bindR (require (KeyError objective_id) (row_get o_id objective_id (objectives s)))
      (deployment_blockers s)"

definition assert_objective_lease :: "store \<Rightarrow> objective_row \<Rightarrow> int \<Rightarrow> int \<Rightarrow> stamp \<Rightarrow> unit res" where
  "assert_objective_lease s r epoch lease now =
    bindR (assert_active_coordinator epoch s) (\<lambda>_.
      if o_state r \<noteq> OActive \<or> o_epoch r \<noteq> epoch \<or> o_lease r \<noteq> lease \<or> o_owner r = None
         \<or> o_expires r = None \<or> stamp_due (o_expires r) now
      then Inl (StateConflictError ''delivery objective lease is stale'') else Inr ())"

definition next_delivery_lease_epoch :: "store \<Rightarrow> int \<times> store" where
  "next_delivery_lease_epoch s =
    (let epoch = (case meta_objective_lease s of None \<Rightarrow> 0 | Some e \<Rightarrow> e) + 1
     in (epoch, s\<lparr>meta_objective_lease := Some epoch\<rparr>))"

text \<open>The lease a write presents is the current one of an active objective.\<close>

definition lease_live :: "store \<Rightarrow> objective_row \<Rightarrow> int \<Rightarrow> int \<Rightarrow> stamp \<Rightarrow> bool" where
  "lease_live s r epoch lease now \<longleftrightarrow> meta_epoch s = Some epoch \<and> o_state r = OActive
     \<and> o_epoch r = epoch \<and> o_lease r = lease \<and> o_owner r \<noteq> None
     \<and> (\<exists>t. o_expires r = Some t \<and> instant now < instant t)"

lemma assert_objective_lease_Inr [res_simps]:
  "assert_objective_lease s r epoch lease now = Inr u \<longleftrightarrow> lease_live s r epoch lease now"
  by (cases "o_expires r")
    (auto simp: assert_objective_lease_def lease_live_def stamp_due_def res_simps)

lemma no_blockers:
  assumes "deployment_blockers s r = Inr []" and "row_get t_id (o_task r) (tasks s) \<noteq> None"
  shows "\<forall>p \<in> set (plannings s). p_state p \<noteq> PRunning"
    and "\<forall>n \<in> set (nodes s). row_get t_id (n_task n) (tasks s) \<noteq> None \<longrightarrow> n_state n \<noteq> NRunning"
proof -
  let ?f = "\<lambda>n. n_state n = NRunning \<and> row_get t_id (n_task n) (tasks s) \<noteq> None"
  let ?k = "\<lambda>n. (started_key (n_started n), n_task n, n_node n)"
  have "sort_key ?k (filter ?f (nodes s)) = [] \<and> filter (\<lambda>p. p_state p = PRunning) (plannings s) = []"
    using assms by (auto simp: deployment_blockers_def res_simps split: option.splits)
  then have "length (sort_key ?k (filter ?f (nodes s))) = 0"
    and p: "filter (\<lambda>p. p_state p = PRunning) (plannings s) = []" by auto
  then have "filter ?f (nodes s) = []" by simp
  with p show "\<forall>p \<in> set (plannings s). p_state p \<noteq> PRunning"
    and "\<forall>n \<in> set (nodes s). row_get t_id (n_task n) (tasks s) \<noteq> None \<longrightarrow> n_state n \<noteq> NRunning"
    by (auto simp: filter_empty_conv)
qed

end
