(* ===== verification/Planning_Ledger.thy ===== *)
theory Planning_Ledger
  imports Admission
begin

text \<open>
  The planning requests of \<open>store.py\<close>, lines 3262 to 3640: enqueueing under a command id,
  the coordinator's claim, settlement under the fence of attempt and epoch, retry of a failed
  reservation and the recovery after an interruption, and what each of them does to the table of
  requests. The machine over them, with the materialization of \<open>Task_Graph\<close>, is \<open>Planning_Machine\<close>.
\<close>

section \<open>Operations\<close>

definition get_planning_request :: "string \<Rightarrow> store \<Rightarrow> planning_row res" where
  "get_planning_request command s =
    require (KeyError command) (row_get p_command command (plannings s))"

definition get_planning_request_for_task :: "string \<Rightarrow> store \<Rightarrow> planning_row option" where
  "get_planning_request_for_task task s = find (\<lambda>p. p_task p = task) (plannings s)"

definition planning_hash :: "(pyval \<Rightarrow> string) \<Rightarrow> string \<Rightarrow> pyval \<Rightarrow> string" where
  "planning_hash sha task request = canonical_hash sha (VDict [(''task_id'', VStr task),
     (''request'', VDict (filter (\<lambda>kv. fst kv \<noteq> ''context_excerpt'') (items_of request)))])"

definition enqueue_planning_request ::
  "(pyval \<Rightarrow> string) \<Rightarrow> string \<Rightarrow> string \<Rightarrow> pyval \<Rightarrow> int \<Rightarrow> store \<Rightarrow> (planning_row \<times> store) res" where
  "enqueue_planning_request sha command task request now s =
    (if blank command then Inl (ValueError ''planning command_id is required'')
     else if blank task then Inl (ValueError ''planning task_id is required'')
     else if \<not> is_dict request then Inl (ValueError ''planning request must be a JSON object'')
     else let frozen = VDict (filter (\<lambda>kv. fst kv \<noteq> ''context_excerpt'') (items_of request));
              request_hash = planning_hash sha task request
     in case row_get p_command command (plannings s) of
       Some existing \<Rightarrow>
         if p_hash existing \<noteq> request_hash
         then Inl (CommandConflictError ''planning command was already used with a different request'')
         else Inr (existing, s)
     | None \<Rightarrow>
       if row_get t_id task (tasks s) \<noteq> None
       then Inl (StateConflictError ''planning task already exists'')
       else if row_get c_command command (commands s) \<noteq> None
       then Inl (CommandConflictError ''planning command already belongs to task'')
       else if find (\<lambda>p. p_task p = task) (plannings s) \<noteq> None
       then Inl (CommandConflictError ''planning task is already reserved by command'')
       else let row = \<lparr>p_command = command, p_hash = request_hash, p_task = task,
             p_request = canonical_json frozen, p_state = PPending, p_attempt = 0, p_epoch = 0,
             p_result = None, p_error = None, p_started = None, p_settled = None,
             p_created = utc now, p_updated = utc now\<rparr>
       in bindR (row_add p_command row (plannings s)) (\<lambda>t.
          Inr (row, snd (emit_event ''planning_request.enqueued'' (Some task) None
            [(''command_id'', VStr command), (''request_hash'', VStr request_hash),
             (''state'', VStr ''pending''), (''attempt'', VInt 0)] (utc now)
            (s\<lparr>plannings := t\<rparr>)))))"

text \<open>The row and the error of the previous attempt, or nothing to claim.\<close>

definition claim_planning_request ::
  "int \<Rightarrow> int \<Rightarrow> store \<Rightarrow> ((planning_row \<times> string option) option \<times> store) res" where
  "claim_planning_request epoch now s =
    bindR (assert_active_coordinator epoch s) (\<lambda>_.
      if deployment_admission_gate s \<noteq> None then Inr (None, s)
      else case first_by (\<lambda>p. (p_created p, p_command p))
          (filter (\<lambda>p. p_state p = PPending) (plannings s)) of
        None \<Rightarrow> Inr (None, s)
      | Some row \<Rightarrow>
          let claimed = row\<lparr>p_state := PRunning, p_attempt := p_attempt row + 1, p_epoch := epoch,
                p_started := Some (utc now), p_settled := None, p_result := None,
                p_error := None, p_updated := utc now\<rparr>
          in Inr (Some (claimed, p_error row),
               snd (emit_event ''planning_request.claimed'' (Some (p_task row)) None
                 [(''command_id'', VStr (p_command row)), (''request_hash'', VStr (p_hash row)),
                  (''state'', VStr ''running''), (''attempt'', VInt (p_attempt row + 1)),
                  (''coordinator_epoch'', VInt epoch)] (utc now)
                 (s\<lparr>plannings := row_put p_command (p_command row) (\<lambda>_. claimed) (plannings s)\<rparr>))))"

definition settle_planning_request ::
  "string \<Rightarrow> int \<Rightarrow> int \<Rightarrow> planning_state \<Rightarrow> pyval option \<Rightarrow> string option \<Rightarrow> int \<Rightarrow> store
    \<Rightarrow> (planning_row \<times> store) res" where
  "settle_planning_request command attempt epoch state result error now s =
    (if attempt < 1 then Inl (ValueError ''planning attempt must be a positive integer'')
     else bindR (assert_active_coordinator epoch s) (\<lambda>_.
       bindR (require (KeyError command) (row_get p_command command (plannings s))) (\<lambda>row.
       if p_attempt row \<noteq> attempt
       then Inl (StateConflictError ''planning request has another attempt'')
       else if p_epoch row \<noteq> epoch
       then Inl (StateConflictError ''planning request has another coordinator epoch'')
       else if p_state row \<noteq> PRunning
       then (if p_state row = state \<and> p_result row = result \<and> p_error row = error
             then Inr (row, s)
             else Inl (StateConflictError ''planning request is not running''))
       else let settled = row\<lparr>p_state := state, p_result := result, p_error := error,
                p_settled := Some (utc now), p_updated := utc now\<rparr>
       in Inr (settled, snd (emit_event (''planning_request.'' @ planning_state_name state)
            (Some (p_task row)) None
            [(''command_id'', VStr command), (''request_hash'', VStr (p_hash row)),
             (''state'', VStr (planning_state_name state)), (''attempt'', VInt attempt),
             (''coordinator_epoch'', VInt epoch)] (utc now)
            (s\<lparr>plannings := row_put p_command command (\<lambda>_. settled) (plannings s)\<rparr>))))))"

definition complete_planning_request ::
  "string \<Rightarrow> int \<Rightarrow> int \<Rightarrow> pyval \<Rightarrow> int \<Rightarrow> store \<Rightarrow> (planning_row \<times> store) res" where
  "complete_planning_request command attempt epoch result now s =
    (if \<not> is_dict result then Inl (ValueError ''planning result must be a JSON object'')
     else settle_planning_request command attempt epoch PSucceeded
       (Some (canonical_json result)) None now s)"

definition fail_planning_request ::
  "string \<Rightarrow> int \<Rightarrow> int \<Rightarrow> string \<Rightarrow> int \<Rightarrow> store \<Rightarrow> (planning_row \<times> store) res" where
  "fail_planning_request command attempt epoch error now s =
    (if blank error then Inl (ValueError ''planning error is required'')
     else settle_planning_request command attempt epoch PFailed None (Some error) now s)"

text \<open>The objective's part of \<open>retry_planning_request\<close>: its lease, and its attempt limit.\<close>

definition planning_retry_limit ::
  "(string \<times> int) option \<Rightarrow> planning_row \<Rightarrow> int \<Rightarrow> int \<Rightarrow> int \<Rightarrow> store \<Rightarrow> int res" where
  "planning_retry_limit objective row epoch max_attempts now s = (case objective of
      None \<Rightarrow> Inr max_attempts
    | Some (objective_id, lease) \<Rightarrow>
       (case row_get o_id objective_id (objectives s) of
          None \<Rightarrow> Inl (StateConflictError ''planning retry objective does not own this reservation'')
        | Some obj \<Rightarrow>
           if o_task obj \<noteq> p_task row \<or> o_stage obj \<noteq> Plan
           then Inl (StateConflictError ''planning retry objective does not own this reservation'')
           else bindR (assert_objective_lease s obj epoch lease (utc now)) (\<lambda>_.
             bindR (require (KeyError ''attempt_limit'') (int_of (dget (o_budget obj) ''attempt_limit'')))
               (\<lambda>limit. Inr (min max_attempts limit)))))"

definition retry_planning_request ::
  "string \<Rightarrow> int \<Rightarrow> int \<Rightarrow> string \<Rightarrow> int \<Rightarrow> (string \<times> int) option \<Rightarrow> int \<Rightarrow> store
    \<Rightarrow> (planning_row \<times> store) res" where
  "retry_planning_request command expected max_attempts reason epoch objective now s =
    (if blank reason then Inl (ValueError ''planning retry requires a reason'')
     else if max_attempts < 1 then Inl (ValueError ''planning retry maximum must be positive'')
     else bindR (assert_active_coordinator epoch s) (\<lambda>_.
       bindR (require (KeyError command) (row_get p_command command (plannings s))) (\<lambda>row.
       bindR (planning_retry_limit objective row epoch max_attempts now s) (\<lambda>limit.
       if p_attempt row \<noteq> expected
       then Inl (StateConflictError ''planning retry attempt is stale'')
       else if row_get t_id (p_task row) (tasks s) \<noteq> None
       then Inl (StateConflictError ''planning already materialized a task'')
       else if p_state row = PPending then Inr (row, s)
       else if p_state row \<noteq> PFailed
       then Inl (StateConflictError ''only a failed planning reservation may retry'')
       else if (case int_of (dget_or (p_request row) ''retry_limit'' (VInt 3)) of
            None \<Rightarrow> True | Some request_limit \<Rightarrow> min limit request_limit \<le> expected)
       then Inl (StateConflictError ''planning retry budget exhausted'')
       else let retried = row\<lparr>p_state := PPending, p_epoch := 0, p_updated := utc now\<rparr>
       in Inr (retried, snd (emit_event ''planning_request.retry_queued'' (Some (p_task row)) None
            [(''command_id'', VStr command), (''attempt'', VInt expected),
             (''request_hash'', VStr (p_hash row)), (''reason'', VStr reason),
             (''previous_error'', opt_str (p_error row))] (utc now)
            (s\<lparr>plannings := row_put p_command command (\<lambda>_. retried) (plannings s)\<rparr>)))))))"

definition interrupted_error :: string where
  "interrupted_error =
    ''planning request interrupted before settlement; explicit resolution required''"

definition interrupt_planning_row :: "int \<Rightarrow> planning_row \<Rightarrow> planning_row" where
  "interrupt_planning_row now row = row\<lparr>p_state := PIndeterminate,
     p_error := Some interrupted_error, p_settled := Some (utc now), p_updated := utc now\<rparr>"

definition interrupt_planning :: "int \<Rightarrow> planning_row \<Rightarrow> store \<Rightarrow> store" where
  "interrupt_planning now row s = snd (emit_event ''planning_request.interrupted''
     (Some (p_task row)) None
     [(''command_id'', VStr (p_command row)), (''request_hash'', VStr (p_hash row)),
      (''state'', VStr ''indeterminate''), (''attempt'', VInt (p_attempt row)),
      (''coordinator_epoch'', VInt (p_epoch row)), (''reason'', VStr ''coordinator_restart'')]
     (utc now)
     (s\<lparr>plannings := row_put p_command (p_command row)
        (\<lambda>r. if p_state r = PRunning then interrupt_planning_row now r else r) (plannings s)\<rparr>))"

definition recover_interrupted_planning_requests :: "int \<Rightarrow> store \<Rightarrow> int \<times> store" where
  "recover_interrupted_planning_requests now s =
    (let rows = sort_key (\<lambda>p. (p_created p, p_command p))
        (filter (\<lambda>p. p_state p = PRunning) (plannings s))
     in (int (length rows), fold (interrupt_planning now) rows s))"

section \<open>What one operation does to the table\<close>

text \<open>Every operation leaves the table alone, adds a pending row or rewrites one row.\<close>

inductive row_change :: "planning_row \<Rightarrow> planning_row \<Rightarrow> bool" where
  change_claim: "p_state r = PPending \<Longrightarrow> row_change r (r\<lparr>p_state := PRunning,
     p_attempt := p_attempt r + 1, p_epoch := e, p_started := Some (utc now), p_settled := None,
     p_result := None, p_error := None, p_updated := utc now\<rparr>)"
| change_settle: "p_state r = PRunning \<Longrightarrow> st \<in> {PSucceeded, PFailed} \<Longrightarrow>
     row_change r (r\<lparr>p_state := st, p_result := res, p_error := er, p_settled := Some (utc now),
       p_updated := utc now\<rparr>)"
| change_retry: "p_state r = PFailed \<Longrightarrow>
     int_of (dget_or (p_request r) ''retry_limit'' (VInt 3)) = Some limit \<Longrightarrow>
     p_attempt r < limit \<Longrightarrow> row_change r (r\<lparr>p_state := PPending, p_epoch := 0, p_updated := utc now\<rparr>)"
| change_interrupt: "p_state r = PRunning \<Longrightarrow> row_change r (interrupt_planning_row now r)"

inductive_cases row_changeE: "row_change r r'"

inductive table_change :: "planning_row list \<Rightarrow> planning_row list \<Rightarrow> bool" where
  table_same: "table_change t t"
| table_new: "row_get p_command (p_command r) t = None \<Longrightarrow> find (\<lambda>p. p_task p = p_task r) t = None \<Longrightarrow>
     p_state r = PPending \<Longrightarrow> p_attempt r = 0 \<Longrightarrow> table_change t (t @ [r])"
| table_row: "row_get p_command k t = Some r \<Longrightarrow> row_change r r' \<Longrightarrow>
     table_change t (row_put p_command k (\<lambda>_. r') t)"


lemma planning_enqueue_change:
  assumes "enqueue_planning_request sha c k r now s = Inr (x, t)"
  shows "table_change (plannings s) (plannings t)"
proof (cases "row_get p_command c (plannings s)")
  case None
  with assms show ?thesis
    by (auto simp: enqueue_planning_request_def Let_def res_simps emit_event_snd pl.add_Inr
        split: if_splits intro!: table_new)
next
  case (Some row)
  with assms show ?thesis
    by (auto simp: enqueue_planning_request_def Let_def intro: table_same split: if_splits)
qed

lemma planning_claim_change:
  assumes "claim_planning_request e now s = Inr (x, t)" and "unique_key p_command (plannings s)"
  shows "table_change (plannings s) (plannings t)"
proof (cases "first_by (\<lambda>p. (p_created p, p_command p))
    (filter (\<lambda>p. p_state p = PPending) (plannings s))")
  case None
  with assms(1) show ?thesis
    by (auto simp: claim_planning_request_def res_simps intro: table_same split: if_splits)
next
  case (Some row)
  then have row: "row \<in> set (plannings s)" "p_state row = PPending"
    using first_by_Some [OF Some] by auto
  then have "row_get p_command (p_command row) (plannings s) = Some row"
    using assms(2) by (blast intro: pl.unique_row)
  with Some row assms(1) show ?thesis
    by (auto simp: claim_planning_request_def res_simps emit_event_snd Let_def split: if_splits
        intro: table_same intro!: table_row change_claim)
qed

lemma planning_settle_change:
  assumes "settle_planning_request c n e st res er now s = Inr (x, t)" and "st \<in> {PSucceeded, PFailed}"
  shows "table_change (plannings s) (plannings t)"
  using assms
  by (auto simp: settle_planning_request_def res_simps emit_event_snd Let_def split: if_splits
      intro: table_same intro!: table_row change_settle)

lemma case_None_True:
  "\<not> (case x of None \<Rightarrow> True | Some l \<Rightarrow> P l) \<longleftrightarrow> (\<exists>l. x = Some l \<and> \<not> P l)"
  by (cases x) auto

lemma planning_retry_change:
  assumes "retry_planning_request c n mx m e obj now s = Inr (x, t)"
  shows "table_change (plannings s) (plannings t)"
proof -
  from assms obtain row limit where row: "row_get p_command c (plannings s) = Some row"
    and n: "p_attempt row = n"
    and rest: "p_state row = PPending \<and> t = s \<or> p_state row = PFailed
      \<and> (\<exists>l. int_of (dget_or (p_request row) ''retry_limit'' (VInt 3)) = Some l \<and> n < l)
      \<and> plannings t = row_put p_command c
          (\<lambda>_. row\<lparr>p_state := PPending, p_epoch := 0, p_updated := utc now\<rparr>) (plannings s)"
    unfolding retry_planning_request_def
    by (simp only: res_simps case_None_True Let_def emit_event_snd split: if_split_asm) fastforce+
  from rest show ?thesis
  proof
    assume "p_state row = PFailed
      \<and> (\<exists>l. int_of (dget_or (p_request row) ''retry_limit'' (VInt 3)) = Some l \<and> n < l)
      \<and> plannings t = row_put p_command c
          (\<lambda>_. row\<lparr>p_state := PPending, p_epoch := 0, p_updated := utc now\<rparr>) (plannings s)"
    with row n show ?thesis by (auto intro!: table_row change_retry)
  qed (simp add: table_same)
qed

lemma row_change_command [simp]: "row_change r r' \<Longrightarrow> p_command r' = p_command r"
  by (erule row_changeE) (simp_all add: interrupt_planning_row_def)

lemma row_change_task: "row_change r r' \<Longrightarrow> p_task r' = p_task r"
  by (erule row_changeE) (simp_all add: interrupt_planning_row_def)

lemma row_change_request: "row_change r r' \<Longrightarrow> p_request r' = p_request r \<and> p_hash r' = p_hash r"
  by (erule row_changeE) (simp_all add: interrupt_planning_row_def)

section \<open>The invariant\<close>

text \<open>How often a request may be attempted: its own \<open>retry_limit\<close>, and at least once.\<close>

definition attempt_cap :: "planning_row \<Rightarrow> int" where
  "attempt_cap p = (case int_of (dget_or (p_request p) ''retry_limit'' (VInt 3)) of
     None \<Rightarrow> 1 | Some n \<Rightarrow> max 1 n)"

definition planning_row_ok :: "planning_row \<Rightarrow> bool" where
  "planning_row_ok p \<longleftrightarrow> (if p_state p = PPending then 0 \<le> p_attempt p \<and> p_attempt p < attempt_cap p
     else 1 \<le> p_attempt p \<and> p_attempt p \<le> attempt_cap p)"

definition planning_ok :: "planning_row list \<Rightarrow> bool" where
  "planning_ok t \<longleftrightarrow> unique_key p_command t \<and> unique_key p_task t \<and> (\<forall>p \<in> set t. planning_row_ok p)"

lemma row_change_ok: "row_change r r' \<Longrightarrow> planning_row_ok r \<Longrightarrow> planning_row_ok r'"
proof (erule row_changeE, goal_cases)
  case (1 e now)
  then show ?case by (simp add: planning_row_ok_def attempt_cap_def)
next
  case (2 st res er now)
  then show ?case by (auto simp: planning_row_ok_def attempt_cap_def)
next
  case (3 limit now)
  then show ?case by (simp add: planning_row_ok_def attempt_cap_def)
next
  case (4 now)
  then show ?case by (simp add: planning_row_ok_def attempt_cap_def interrupt_planning_row_def)
qed

lemma table_change_ok:
  assumes "table_change t t'" and "planning_ok t"
  shows "planning_ok t'"
  using assms(1)
proof cases
  case table_same
  with assms(2) show ?thesis by simp
next
  case (table_new r)
  have "attempt_cap r \<ge> 1"
    by (auto simp: attempt_cap_def split: option.splits)
  then have "planning_row_ok r" using table_new by (simp add: planning_row_ok_def)
  with assms(2) table_new show ?thesis
    by (auto simp: planning_ok_def unique_key_def pl.look_None find_None_iff)
next
  case (table_row k r r')
  then have key: "p_command r = k" "r \<in> set t" using pl.look_Some by blast+
  let ?f = "\<lambda>x. if x = r then r' else x"
  have eq: "t' = row_put p_command k ?f t"
    unfolding table_row(1)
    by (rule row_put_const) (use assms(2) table_row key in \<open>simp_all add: planning_ok_def\<close>)
  have "unique_key p_command t'"
    unfolding eq using assms(2) key table_row by (intro pl.put_unique) (auto simp: planning_ok_def)
  moreover have "map p_task t' = map p_task t"
    unfolding eq row_put_def using table_row by (auto simp: row_change_task)
  moreover have "\<forall>p \<in> set t'. planning_row_ok p"
    unfolding eq using assms(2) key table_row row_change_ok
    by (intro pl.put_all) (auto simp: planning_ok_def)
  ultimately show ?thesis using assms(2) by (simp add: planning_ok_def unique_key_def)
qed

lemma table_change_frozen:
  assumes "table_change t t'" and "unique_key p_command t" and "p \<in> set t"
    and "p_state p \<in> {PSucceeded, PIndeterminate}"
  shows "p \<in> set t'"
  using assms(1)
proof cases
  case (table_row k r r')
  have "p_command p \<noteq> k"
  proof
    assume "p_command p = k"
    then have "p = r" using table_row assms(2,3) pl.unique_row by fastforce
    with table_row assms(4) show False by (auto elim: row_changeE)
  qed
  with assms(3) table_row show ?thesis by (auto intro: pl.put_other)
qed (use assms(3) in auto)

lemma interrupt_fold:
  assumes "planning_ok (plannings s)" and "distinct (map p_command rows)"
    and "\<And>r. r \<in> set rows \<Longrightarrow> r \<in> set (plannings s) \<and> p_state r = PRunning"
  shows "table_change\<^sup>*\<^sup>* (plannings s) (plannings (fold (interrupt_planning now) rows s))"
  using assms
proof (induction rows arbitrary: s)
  case (Cons r rows)
  let ?s = "interrupt_planning now r s"
  have look: "row_get p_command (p_command r) (plannings s) = Some r"
    using Cons.prems by (auto intro: pl.unique_row simp: planning_ok_def)
  let ?g = "\<lambda>r. if p_state r = PRunning then interrupt_planning_row now r else r"
  have same: "row_put p_command (p_command r) ?g (plannings s)
      = row_put p_command (p_command r) (\<lambda>_. interrupt_planning_row now r) (plannings s)"
    unfolding row_put_def
  proof (rule map_cong [OF refl])
    fix x assume x: "x \<in> set (plannings s)"
    show "(if p_command x = p_command r then ?g x else x)
        = (if p_command x = p_command r then interrupt_planning_row now r else x)"
    proof (cases "p_command x = p_command r")
      case True
      have "row_get p_command (p_command x) (plannings s) = Some x"
        using Cons.prems(1) x by (intro pl.unique_row) (auto simp: planning_ok_def)
      from trans [OF sym [OF this [unfolded True]] look] have "x = r" by (rule option.inject [THEN iffD1])
      with Cons.prems(3) [of r] show ?thesis by simp
    qed simp
  qed
  have change: "table_change (plannings s) (plannings ?s)"
    unfolding interrupt_planning_def emit_event_snd using look Cons.prems(3) same
    by (auto intro!: table_row change_interrupt)
  moreover have "table_change\<^sup>*\<^sup>* (plannings ?s) (plannings (fold (interrupt_planning now) rows ?s))"
  proof (rule Cons.IH)
    show "planning_ok (plannings ?s)" using change Cons.prems(1) by (rule table_change_ok)
    show "distinct (map p_command rows)" using Cons.prems(2) by simp
    fix x assume x: "x \<in> set rows"
    then have "p_command x \<noteq> p_command r" using Cons.prems(2) by (force simp: image_iff)
    with Cons.prems(3) [of x] x show "x \<in> set (plannings ?s) \<and> p_state x = PRunning"
      by (auto simp: interrupt_planning_def emit_event_snd intro: pl.put_other)
  qed
  ultimately show ?case by (simp add: converse_rtranclp_into_rtranclp)
qed simp

lemma planning_recover_change:
  assumes "recover_interrupted_planning_requests now s = (x, t)" and "planning_ok (plannings s)"
  shows "table_change\<^sup>*\<^sup>* (plannings s) (plannings t)"
proof -
  let ?rows = "sort_key (\<lambda>p. (p_created p, p_command p))
      (filter (\<lambda>p. p_state p = PRunning) (plannings s))"
  have "distinct (map p_command (filter (\<lambda>p. p_state p = PRunning) (plannings s)))"
    using assms(2) by (auto simp: planning_ok_def unique_key_def distinct_map_filter)
  then have "distinct (map p_command ?rows)"
    by (simp add: distinct_map)
  then have "table_change\<^sup>*\<^sup>* (plannings s) (plannings (fold (interrupt_planning now) ?rows s))"
    using assms(2) by (intro interrupt_fold) simp_all
  with assms(1) show ?thesis
    by (simp add: recover_interrupted_planning_requests_def Let_def)
qed

lemma table_changes_ok: "table_change\<^sup>*\<^sup>* t t' \<Longrightarrow> planning_ok t \<Longrightarrow> planning_ok t'"
  by (induction rule: rtranclp_induct) (auto intro: table_change_ok)

lemma table_changes_frozen:
  "table_change\<^sup>*\<^sup>* t t' \<Longrightarrow> planning_ok t \<Longrightarrow> p \<in> set t \<Longrightarrow>
   p_state p \<in> {PSucceeded, PIndeterminate} \<Longrightarrow> p \<in> set t'"
proof (induction rule: rtranclp_induct)
  case (step y z)
  then show ?case
    using table_change_frozen [of y z p] table_changes_ok [of t y] by (auto simp: planning_ok_def)
qed simp

section \<open>Log and epochs\<close>

lemma interrupt_fold_log:
  "\<exists>es. events (fold (interrupt_planning now) rows s) = events s @ es"
proof (induction rows arbitrary: s)
  case (Cons r rows)
  obtain es where "events (fold (interrupt_planning now) rows (interrupt_planning now r s))
      = events (interrupt_planning now r s) @ es"
    using Cons.IH by blast
  moreover have "\<exists>es. events (interrupt_planning now r s) = events s @ es"
    by (simp add: interrupt_planning_def emit_event_snd)
  ultimately show ?case by auto
qed simp

lemma interrupt_fold_meta:
  "meta_epoch (fold (interrupt_planning now) rows s) = meta_epoch s"
  by (induction rows arbitrary: s) (simp_all add: interrupt_planning_def emit_event_snd)

text \<open>The fence of the ledger: the current coordinator epoch, 0 before the first activation.\<close>

definition current_epoch :: "store \<Rightarrow> int" where
  "current_epoch s = (case meta_epoch s of None \<Rightarrow> 0 | Some e \<Rightarrow> e)"

text \<open>What one operation may do to the log and the epoch.\<close>

definition log_and_epoch :: "store \<Rightarrow> store \<Rightarrow> bool" where
  "log_and_epoch s t \<longleftrightarrow> (\<exists>es. events t = events s @ es) \<and> meta_epoch t = meta_epoch s"

lemma log_and_epoch_refl [simp]: "log_and_epoch s s"
  by (simp add: log_and_epoch_def)

lemma log_and_epoch_event:
  "events u = events s \<Longrightarrow> meta_epoch u = meta_epoch s \<Longrightarrow> log_and_epoch s (snd (emit_event k i n p ts u))"
  by (simp add: log_and_epoch_def emit_event_snd)

lemma enqueue_log:
  assumes "enqueue_planning_request sha c k r now s = Inr (x, t)"
  shows "log_and_epoch s t"
proof (cases "row_get p_command c (plannings s)")
  case None
  with assms show ?thesis unfolding enqueue_planning_request_def Let_def
    by (simp only: option.case res_simps prod.inject sum.inject) (auto intro!: log_and_epoch_event)
next
  case (Some row)
  with assms show ?thesis by (auto simp: enqueue_planning_request_def Let_def split: if_splits)
qed

lemma claim_log:
  assumes "claim_planning_request e now s = Inr (x, t)"
  shows "log_and_epoch s t"
proof (cases "first_by (\<lambda>p. (p_created p, p_command p))
    (filter (\<lambda>p. p_state p = PPending) (plannings s))")
  case None
  with assms show ?thesis
    by (auto simp: claim_planning_request_def res_simps split: if_splits)
next
  case (Some row)
  with assms show ?thesis unfolding claim_planning_request_def Let_def
    by (simp only: option.case res_simps prod.inject sum.inject split: if_split_asm)
      (auto intro!: log_and_epoch_event)
qed

lemma settle_log:
  "settle_planning_request c n e st res er now s = Inr (x, t) \<Longrightarrow> log_and_epoch s t"
  unfolding settle_planning_request_def Let_def
  by (simp only: res_simps prod.inject sum.inject split: if_split_asm)
    (auto intro!: log_and_epoch_event)

lemma retry_log:
  "retry_planning_request c n mx m e obj now s = Inr (x, t) \<Longrightarrow> log_and_epoch s t"
  unfolding retry_planning_request_def Let_def
  by (simp only: res_simps case_None_True prod.inject sum.inject split: if_split_asm)
    (auto intro!: log_and_epoch_event)

section \<open>A command keeps its request\<close>

lemma table_change_command:
  assumes "table_change t t'" and "row_get p_command c t = Some p"
  shows "\<exists>p'. row_get p_command c t' = Some p' \<and> p_task p' = p_task p \<and> p_hash p' = p_hash p
    \<and> p_request p' = p_request p"
  using assms(1)
proof cases
  case table_same
  with assms(2) show ?thesis by simp
next
  case (table_new r)
  with assms(2) show ?thesis by (simp add: pl.add_look)
next
  case (table_row k r r')
  then have r': "p_command r' = k" using pl.look_Some by fastforce
  have "row_get p_command c t' = (if c = k then map_option (\<lambda>_. r') (row_get p_command c t)
      else row_get p_command c t)"
    unfolding table_row(1) using r' by (rule pl.look_put)
  with assms(2) table_row show ?thesis
    by (cases "c = k") (auto simp: row_change_task row_change_request)
qed

lemma table_changes_command:
  "table_change\<^sup>*\<^sup>* t t' \<Longrightarrow> row_get p_command c t = Some p \<Longrightarrow>
   \<exists>p'. row_get p_command c t' = Some p' \<and> p_task p' = p_task p \<and> p_hash p' = p_hash p
    \<and> p_request p' = p_request p"
proof (induction rule: rtranclp_induct)
  case (step y z)
  then show ?case using table_change_command [of y z] by fastforce
qed simp

lemma enqueue_row:
  assumes "enqueue_planning_request sha c k r now s = Inr (x, t)"
  shows "row_get p_command c (plannings t) = Some x \<and> p_hash x = planning_hash sha k r"
proof (cases "row_get p_command c (plannings s)")
  case None
  with assms show ?thesis unfolding enqueue_planning_request_def Let_def
    by (simp only: option.case res_simps prod.inject sum.inject)
      (auto simp: emit_event_snd pl.add_Inr pl.add_look)
next
  case (Some row)
  with assms show ?thesis by (auto simp: enqueue_planning_request_def Let_def split: if_splits)
qed

section \<open>A small ledger\<close>

text \<open>A ledger to run the witnesses on: one coordinator, one request, claimed once.\<close>

definition demo_request :: pyval where
  "demo_request = VDict [(''goal'', VStr ''ship''), (''retry_limit'', VInt 2)]"

definition demo_active :: store where
  "demo_active = ran (activate_coordinator ''host-1'' ''machine'' empty_store)"

definition demo_enqueued :: store where
  "demo_enqueued = ran (enqueue_planning_request demo_sha ''cmd'' ''task'' demo_request 10 demo_active)"

definition demo_claimed :: store where
  "demo_claimed = ran (claim_planning_request 1 20 demo_enqueued)"

definition demo_failed :: store where
  "demo_failed = ran (fail_planning_request ''cmd'' 1 1 ''no model'' 30 demo_claimed)"

definition demo_done :: store where
  "demo_done = ran (complete_planning_request ''cmd'' 1 1 (VDict []) 30 demo_claimed)"

end
