(* ===== verification/Scopes.thy ===== *)
theory Scopes
  imports Py_Values "HOL-Library.Sublist"
begin

text \<open>
  Repository scopes (\<open>worktrees.py\<close> lines 296 to 343): the canonical form of a scope, when two
  scopes overlap, the read/write conflict matrix of two nodes, and whether a path lies in a set of
  allowed scopes. The reference semantics is a path as its list of components.
\<close>

section \<open>Operations\<close>

text \<open>\<open>PurePosixPath(raw).parts\<close> of a relative path, without empty parts and dots.\<close>

definition path_parts :: "string \<Rightarrow> string list" where
  "path_parts raw = filter (\<lambda>p. p \<noteq> [] \<and> p \<noteq> ''.'') (split_on (CHR ''/'') raw)"

definition drive_prefix :: "string \<Rightarrow> bool" where
  "drive_prefix raw = (case raw of
      letter # rest \<Rightarrow> starts_with '':/'' rest
        \<and> letter \<in> set ''ABCDEFGHIJKLMNOPQRSTUVWXYZabcdefghijklmnopqrstuvwxyz''
    | [] \<Rightarrow> False)"

definition scope_parts :: "string \<Rightarrow> string list res" where
  "scope_parts value = (let raw = replace_char (CHR 0x5C) (CHR ''/'') (strip value) in
     if raw \<in> {[], ''.'', ''*''} then Inr []
     else if starts_with ''/'' raw \<or> drive_prefix raw
     then Inl (ValueError ''scope must be repository-relative'')
     else let parts = path_parts raw in
       if ''..'' \<in> set parts then Inl (ValueError ''scope must not escape the repository'')
       else Inr parts)"

definition normalize_scope :: "string \<Rightarrow> string res" where
  "normalize_scope value = (let raw = replace_char (CHR 0x5C) (CHR ''/'') (strip value) in
     if raw \<in> {[], ''.'', ''*''} then Inr ''.''
     else if starts_with ''/'' raw \<or> drive_prefix raw
     then Inl (ValueError ''scope must be repository-relative'')
     else let parts = path_parts raw in
       if ''..'' \<in> set parts then Inl (ValueError ''scope must not escape the repository'')
       else Inr (if parts = [] then ''.'' else join ''/'' parts))"

definition scopes_overlap :: "string \<Rightarrow> string \<Rightarrow> bool res" where
  "scopes_overlap left right = bindR (normalize_scope left) (\<lambda>l. bindR (normalize_scope right) (\<lambda>r.
     Inr (l = ''.'' \<or> r = ''.'' \<or> l = r \<or> starts_with (r @ ''/'') l \<or> starts_with (l @ ''/'') r)))"

text \<open>\<open>any(f(x) for x in xs)\<close>: the first true ends it, an exception before raises.\<close>

fun anyR :: "('a \<Rightarrow> bool res) \<Rightarrow> 'a list \<Rightarrow> bool res" where
  "anyR f [] = Inr False"
| "anyR f (x # xs) = bindR (f x) (\<lambda>b. if b then Inr True else anyR f xs)"

definition any_overlap :: "string list \<Rightarrow> string list \<Rightarrow> bool res" where
  "any_overlap ls rs = anyR (\<lambda>(l, r). scopes_overlap l r) (List.product ls rs)"

definition scope_access_conflicts ::
  "string list \<Rightarrow> string list \<Rightarrow> string list \<Rightarrow> string list \<Rightarrow> bool res" where
  "scope_access_conflicts reads writes running_reads running_writes =
    bindR (any_overlap writes running_writes) (\<lambda>a. if a then Inr True
    else bindR (any_overlap writes running_reads) (\<lambda>b. if b then Inr True
    else any_overlap reads running_writes))"

definition scope_contains :: "string \<Rightarrow> string \<Rightarrow> bool res" where
  "scope_contains normalized scope = bindR (normalize_scope scope) (\<lambda>clean.
     Inr (clean = ''.'' \<or> normalized = clean \<or> starts_with (clean @ ''/'') normalized))"

definition scope_allows :: "string \<Rightarrow> string list \<Rightarrow> string list \<Rightarrow> bool res" where
  "scope_allows path allowed forbidden = bindR (normalize_scope path) (\<lambda>normalized.
     bindR (anyR (scope_contains normalized) allowed) (\<lambda>a.
       if \<not> a then Inr False
       else bindR (anyR (scope_contains normalized) forbidden) (\<lambda>f. Inr (\<not> f))))"

section \<open>Scopes as component lists\<close>

definition part_ok :: "string \<Rightarrow> bool" where
  "part_ok p \<longleftrightarrow> p \<noteq> [] \<and> p \<noteq> ''.'' \<and> CHR ''/'' \<notin> set p"

lemma split_no_sep: "p \<in> set (split_on d s) \<Longrightarrow> d \<notin> set p"
  by (induction s arbitrary: p) (auto split: list.splits if_splits)

lemma path_parts_ok: "p \<in> set (path_parts raw) \<Longrightarrow> part_ok p"
  by (auto simp: path_parts_def part_ok_def dest: split_no_sep)

lemma scope_parts_ok: "scope_parts s = Inr ps \<Longrightarrow> \<forall>p \<in> set ps. part_ok p"
  by (auto simp: scope_parts_def Let_def dest: path_parts_ok split: if_splits)

definition scope_text :: "string list \<Rightarrow> string" where
  "scope_text ps = (if ps = [] then ''.'' else join ''/'' ps)"

lemma normalize_scope_parts: "normalize_scope s = map_sum id scope_text (scope_parts s)"
  by (simp add: normalize_scope_def scope_parts_def scope_text_def Let_def)

lemma normalize_scope_Inr: "normalize_scope s = Inr t \<longleftrightarrow> (\<exists>ps. scope_parts s = Inr ps \<and> t = scope_text ps)"
  by (cases "scope_parts s") (auto simp: normalize_scope_parts)

lemma join_Cons: "join d (p # ps) = (if ps = [] then p else p @ d @ join d ps)"
  by (cases ps) simp_all

lemma sep_split: "CHR ''/'' \<notin> set p \<Longrightarrow> CHR ''/'' \<notin> set q \<Longrightarrow>
    p @ CHR ''/'' # xs = q @ CHR ''/'' # ys \<longleftrightarrow> p = q \<and> xs = ys"
proof (induction p arbitrary: q)
  case Nil
  then show ?case by (cases q) auto
next
  case (Cons c p)
  then show ?case by (cases q) auto
qed

text \<open>A strict prefix of the components is a textual prefix up to a slash.\<close>

lemma join_prefix:
  assumes "\<forall>p \<in> set ps. part_ok p" and "\<forall>q \<in> set qs. part_ok q" and "ps \<noteq> []"
  shows "(\<exists>t. join ''/'' qs = join ''/'' ps @ CHR ''/'' # t) \<longleftrightarrow> strict_prefix ps qs"
  using assms
proof (induction ps arbitrary: qs)
  case (Cons p ps)
  show ?case
  proof (cases qs)
    case Nil
    then show ?thesis by simp
  next
    case q: (Cons q qs')
    have sep: "CHR ''/'' \<notin> set p" "CHR ''/'' \<notin> set q" using Cons.prems q by (auto simp: part_ok_def)
    show ?thesis
    proof (cases "ps = []")
      case True
      show ?thesis
      proof (cases "qs' = []")
        case True
        with \<open>ps = []\<close> sep show ?thesis by (auto simp: q join_Cons strict_prefix_def)
      next
        case False
        with True sep show ?thesis by (auto simp: q join_Cons strict_prefix_def sep_split)
      qed
    next
      case False
      show ?thesis
      proof (cases "qs' = []")
        case True
        with False sep show ?thesis by (auto simp: q join_Cons strict_prefix_def)
      next
        case ne: False
        have "(\<exists>t. join ''/'' qs = join ''/'' (p # ps) @ CHR ''/'' # t)
            \<longleftrightarrow> p = q \<and> (\<exists>t. join ''/'' qs' = join ''/'' ps @ CHR ''/'' # t)"
          using False ne sep by (auto simp: q join_Cons sep_split)
        also have "\<dots> \<longleftrightarrow> p = q \<and> strict_prefix ps qs'"
          using Cons.IH [of qs'] Cons.prems False q by auto
        finally show ?thesis by (auto simp: q strict_prefix_def)
      qed
    qed
  qed
qed simp

lemma join_eq:
  "\<forall>p \<in> set ps. part_ok p \<Longrightarrow> \<forall>q \<in> set qs. part_ok q \<Longrightarrow> join ''/'' ps = join ''/'' qs \<longleftrightarrow> ps = qs"
proof (induction ps arbitrary: qs)
  case Nil
  then show ?case by (cases qs) (auto simp: join_Cons part_ok_def)
next
  case (Cons p ps)
  show ?case
  proof (cases qs)
    case Nil
    with Cons.prems show ?thesis by (auto simp: join_Cons part_ok_def)
  next
    case q: (Cons q qs')
    have sep: "CHR ''/'' \<notin> set p" "CHR ''/'' \<notin> set q" using Cons.prems q by (auto simp: part_ok_def)
    have "join ''/'' ps = join ''/'' qs' \<longleftrightarrow> ps = qs'" using Cons q by auto
    with sep show ?thesis by (auto simp: q join_Cons sep_split)
  qed
qed

lemma scope_text_eq:
  assumes "\<forall>p \<in> set ps. part_ok p" and "\<forall>q \<in> set qs. part_ok q"
  shows "scope_text ps = scope_text qs \<longleftrightarrow> ps = qs" "scope_text ps = ''.'' \<longleftrightarrow> ps = []"
proof -
  have dot: "join ''/'' rs \<noteq> ''.''" if ok: "\<forall>p \<in> set rs. part_ok p" and ne: "rs \<noteq> []" for rs
  proof
    assume j: "join ''/'' rs = ''.''"
    obtain r rest where rs: "rs = r # rest" using ne by (cases rs) auto
    with ok have "r \<noteq> []" "r \<noteq> ''.''" by (auto simp: part_ok_def)
    with j rs show False by (cases r) (auto simp: join_Cons split: if_splits)
  qed
  show "scope_text ps = ''.'' \<longleftrightarrow> ps = []" using dot [OF assms(1)] by (auto simp: scope_text_def)
  show "scope_text ps = scope_text qs \<longleftrightarrow> ps = qs"
    using dot [OF assms(1)] dot [OF assms(2)] join_eq [OF assms] by (auto simp: scope_text_def)
qed

text \<open>\<open>x\<close> is below \<open>p\<close>: the test all the scope functions share.\<close>

lemma below_iff:
  assumes "\<forall>q \<in> set ps. part_ok q" and "\<forall>q \<in> set xs. part_ok q"
  shows "scope_text ps = ''.'' \<or> scope_text xs = scope_text ps \<or> starts_with (scope_text ps @ ''/'') (scope_text xs)
    \<longleftrightarrow> prefix ps xs"
proof (cases "ps = []")
  case True
  then show ?thesis by (simp add: scope_text_def)
next
  case False
  have "starts_with (scope_text ps @ ''/'') (scope_text xs) \<longleftrightarrow> strict_prefix ps xs"
  proof (cases "xs = []")
    case True
    obtain q ps' where q: "ps = q # ps'" using False by (cases ps) auto
    with assms(1) have "q \<noteq> []" by (auto simp: part_ok_def)
    with True False q show ?thesis by (cases q) (auto simp: scope_text_def starts_with_iff join_Cons)
  next
    case ne: False
    show ?thesis using join_prefix [OF assms False] False ne
      by (auto simp: scope_text_def starts_with_iff)
  qed
  with False scope_text_eq [OF assms(1) assms(2)] scope_text_eq [OF assms(2) assms(1)] show ?thesis
    by (auto simp: prefix_order.le_less)
qed

lemma overlap_parts:
  assumes "scope_parts l = Inr ps" and "scope_parts r = Inr qs"
  shows "scopes_overlap l r = Inr (prefix ps qs \<or> prefix qs ps)"
proof -
  note ok = scope_parts_ok [OF assms(1)] scope_parts_ok [OF assms(2)]
  have "(scope_text ps = ''.'' \<or> scope_text qs = ''.'' \<or> scope_text ps = scope_text qs
      \<or> starts_with (scope_text qs @ ''/'') (scope_text ps) \<or> starts_with (scope_text ps @ ''/'') (scope_text qs))
    \<longleftrightarrow> prefix ps qs \<or> prefix qs ps"
    unfolding below_iff [OF ok(1,2), symmetric] below_iff [OF ok(2,1), symmetric] by metis
  then show ?thesis by (simp add: scopes_overlap_def normalize_scope_parts assms)
qed

lemma contains_parts:
  assumes "scope_parts scope = Inr ps" and "\<forall>q \<in> set xs. part_ok q"
  shows "scope_contains (scope_text xs) scope = Inr (prefix ps xs)"
  using below_iff [OF scope_parts_ok [OF assms(1)] assms(2)]
  by (simp add: scope_contains_def normalize_scope_parts assms(1))

lemma overlap_Inr: "scopes_overlap l r = Inr b \<Longrightarrow> \<exists>ps qs. scope_parts l = Inr ps \<and> scope_parts r = Inr qs"
  by (auto simp: scopes_overlap_def res_simps normalize_scope_Inr)

text \<open>
  Property C36. Overlap means a shared path: two scopes overlap exactly when some path is allowed
  by both, so a conflict is never missed and never invented; overlap is symmetric.
\<close>

theorem overlap_is_shared_path:
  assumes "scopes_overlap left right = Inr b"
  shows "(b \<longleftrightarrow> (\<exists>path. scope_allows path [left] [] = Inr True \<and> scope_allows path [right] [] = Inr True))
    \<and> scopes_overlap right left = Inr b"
proof -
  obtain ps qs where parts: "scope_parts left = Inr ps" "scope_parts right = Inr qs"
    using overlap_Inr [OF assms] by blast
  have b: "b \<longleftrightarrow> prefix ps qs \<or> prefix qs ps" using overlap_parts [OF parts] assms by simp
  have allows: "scope_allows path [scope] [] = Inr True \<longleftrightarrow> (\<exists>xs. scope_parts path = Inr xs \<and> prefix us xs)"
    if "scope_parts scope = Inr us" for path scope us
  proof (cases "scope_parts path")
    case (Inr xs)
    from contains_parts [OF that scope_parts_ok [OF Inr]] show ?thesis
      by (simp add: scope_allows_def normalize_scope_parts Inr)
  qed (simp add: scope_allows_def normalize_scope_parts)
  have "b \<longleftrightarrow> (\<exists>path. scope_allows path [left] [] = Inr True \<and> scope_allows path [right] [] = Inr True)"
    unfolding allows [OF parts(1)] allows [OF parts(2)] b
  proof
    assume "prefix ps qs \<or> prefix qs ps"
    then show "\<exists>path. (\<exists>xs. scope_parts path = Inr xs \<and> prefix ps xs) \<and> (\<exists>xs. scope_parts path = Inr xs \<and> prefix qs xs)"
      using parts by blast
  qed (auto dest: prefix_same_cases)
  then show ?thesis using overlap_parts [OF parts(2,1)] b by auto
qed

theorem overlap_is_shared_path_witness:
  "scopes_overlap ''src/app'' ''./src//app/api'' = Inr True \<and> scopes_overlap ''./src//app/api'' ''src/app'' = Inr True
    \<and> scopes_overlap ''src/app'' ''src/application'' = Inr False
    \<and> \<not> (\<exists>path. scope_allows path [''src/app''] [] = Inr True \<and> scope_allows path [''src/application''] [] = Inr True)"
proof -
  have "scopes_overlap ''src/app'' ''./src//app/api'' = Inr True" by code_simp
  moreover have "scopes_overlap ''src/app'' ''src/application'' = Inr False" by code_simp
  ultimately show ?thesis using overlap_is_shared_path [of "''src/app''"] by blast
qed

section \<open>Conflicts\<close>

definition scope_valid :: "string \<Rightarrow> bool" where
  "scope_valid v \<longleftrightarrow> (case scope_parts v of Inl _ \<Rightarrow> False | Inr _ \<Rightarrow> True)"

definition overlap :: "string \<Rightarrow> string \<Rightarrow> bool" where
  "overlap l r \<longleftrightarrow> scopes_overlap l r = Inr True"

lemma overlap_sym: "overlap l r \<longleftrightarrow> overlap r l"
proof -
  have "scopes_overlap b a = Inr True" if o: "scopes_overlap a b = Inr True" for a b
  proof -
    obtain ps qs where parts: "scope_parts a = Inr ps" "scope_parts b = Inr qs" using overlap_Inr [OF o] by blast
    show ?thesis using overlap_parts [OF parts] overlap_parts [OF parts(2,1)] o by auto
  qed
  then show ?thesis unfolding overlap_def by blast
qed

lemma overlap_valid: "scope_valid l \<Longrightarrow> scope_valid r \<Longrightarrow> scopes_overlap l r = Inr (overlap l r)"
  by (auto simp: scope_valid_def overlap_def overlap_parts split: sum.splits)

lemma anyR_Inr: "(\<And>x. x \<in> set xs \<Longrightarrow> f x = Inr (g x)) \<Longrightarrow> anyR f xs = Inr (\<exists>x \<in> set xs. g x)"
  by (induction xs) auto

lemma anyR_False: "anyR f xs = Inr False \<Longrightarrow> x \<in> set xs \<Longrightarrow> f x = Inr False"
  by (induction xs) (auto simp: res_simps split: if_splits)

lemma any_overlap_valid:
  "\<forall>l \<in> set ls. scope_valid l \<Longrightarrow> \<forall>r \<in> set rs. scope_valid r \<Longrightarrow>
    any_overlap ls rs = Inr (\<exists>l \<in> set ls. \<exists>r \<in> set rs. overlap l r)"
  unfolding any_overlap_def
  by (subst anyR_Inr [where g = "\<lambda>(l, r). overlap l r"]) (auto simp: overlap_valid)

lemma any_overlap_False: "any_overlap ls rs = Inr False \<Longrightarrow> l \<in> set ls \<Longrightarrow> r \<in> set rs \<Longrightarrow> \<not> overlap l r"
  unfolding any_overlap_def overlap_def using anyR_False [of _ "List.product ls rs" "(l, r)"] by fastforce

text \<open>The access of a node: some scope is read and one of the two writes.\<close>

definition access_conflict :: "string list \<Rightarrow> string list \<Rightarrow> string list \<Rightarrow> string list \<Rightarrow> bool" where
  "access_conflict reads writes reads' writes' \<longleftrightarrow>
    (\<exists>w \<in> set writes. \<exists>x \<in> set writes' \<union> set reads'. overlap w x) \<or> (\<exists>r \<in> set reads. \<exists>w \<in> set writes'. overlap r w)"

lemma access_conflict_sym: "access_conflict r w r' w' \<longleftrightarrow> access_conflict r' w' r w"
  unfolding access_conflict_def using overlap_sym by blast

lemma conflicts_valid:
  assumes "\<forall>x \<in> set r \<union> set w \<union> set r' \<union> set w'. scope_valid x"
  shows "scope_access_conflicts r w r' w' = Inr (access_conflict r w r' w')"
  using assms by (auto simp: scope_access_conflicts_def any_overlap_valid access_conflict_def)

lemma no_conflict: "scope_access_conflicts r w r' w' = Inr False \<Longrightarrow> \<not> access_conflict r w r' w'"
  unfolding scope_access_conflicts_def access_conflict_def
  by (auto simp: res_simps dest: any_overlap_False split: if_splits)

end
