(* ===== verification/Node_Specs.thy ===== *)
theory Node_Specs
  imports Scopes Delivery_Request
begin

text \<open>
  The documents of a task (\<open>model.py\<close>): acceptance commands, execution lanes and quota pools,
  the retry route, the routing strategy, the task contract and the node specification with their
  validators, and the lane arguments of a claim (\<open>store.py\<close> lines 120 to 140,
  \<open>scheduler_metrics.py\<close> lines 35 to 67).
\<close>

section \<open>Acceptance commands\<close>

text \<open>
  \<open>shlex.split(source, posix=True)\<close>: the tokens so far, the token being read with whether it was
  quoted, and where the reader is. \<open>Escaped q\<close> reads the character after a backslash and
  returns to \<open>q\<close>.
\<close>

datatype lexer = Between | InWord | Quoted char | Escaped lexer

definition shell_space :: "char \<Rightarrow> bool" where
  "shell_space c \<longleftrightarrow> code_point c \<in> {9, 10, 13, 32}"

definition shell_quote :: "char \<Rightarrow> bool" where
  "shell_quote c \<longleftrightarrow> c \<in> {CHR 0x22, CHR 0x27}"

definition shell_escape :: char where
  "shell_escape = CHR 0x5C"

fun shlex :: "lexer \<Rightarrow> string \<Rightarrow> bool \<Rightarrow> string \<Rightarrow> string list res" where
  "shlex Between token quoted [] = Inr (if token \<noteq> [] \<or> quoted then [token] else [])"
| "shlex InWord token quoted [] = Inr (if token \<noteq> [] \<or> quoted then [token] else [])"
| "shlex (Quoted q) token quoted [] = Inl (ValueError ''No closing quotation'')"
| "shlex (Escaped back) token quoted [] = Inl (ValueError ''No escaped character'')"
| "shlex Between token quoted (c # rest) =
    (if shell_space c then shlex Between token quoted rest
     else if c = shell_escape then shlex (Escaped InWord) token quoted rest
     else if shell_quote c then shlex (Quoted c) token True rest
     else shlex InWord [c] quoted rest)"
| "shlex InWord token quoted (c # rest) =
    (if shell_space c then
       (if token \<noteq> [] \<or> quoted then bindR (shlex Between [] False rest) (\<lambda>ts. Inr (token # ts))
        else shlex Between token quoted rest)
     else if shell_quote c then shlex (Quoted c) token True rest
     else if c = shell_escape then shlex (Escaped InWord) token quoted rest
     else shlex InWord (token @ [c]) quoted rest)"
| "shlex (Quoted q) token quoted (c # rest) =
    (if c = q then shlex InWord token True rest
     else if c = shell_escape \<and> q = CHR 0x22 then shlex (Escaped (Quoted q)) token True rest
     else shlex (Quoted q) (token @ [c]) True rest)"
| "shlex (Escaped back) token quoted (c # rest) =
    (case back of
       Quoted q \<Rightarrow> shlex back (if c = shell_escape \<or> c = q then token @ [c] else token @ [shell_escape, c])
         quoted rest
     | _ \<Rightarrow> shlex back (token @ [c]) quoted rest)"

definition acceptance_command_argv :: "string \<Rightarrow> string list res" where
  "acceptance_command_argv source =
    (if blank source then Inl (ValueError ''acceptance_commands entries must be non-empty strings'')
     else case shlex Between [] False source of
       Inl _ \<Rightarrow> Inl (ValueError ''acceptance_commands entry has invalid shell quoting'')
     | Inr arguments \<Rightarrow>
         if arguments = [] \<or> list_ex (\<lambda>a. a = [] \<or> CHR 0x00 \<in> set a) arguments
         then Inl (ValueError ''acceptance_commands entry must produce non-empty argv values'')
         else Inr arguments)"

fun command_index :: "string list \<Rightarrow> nat \<Rightarrow> string list \<Rightarrow> nat res" where
  "command_index command i [] =
     Inl (ValueError ''deterministic command must exactly match one declared acceptance_commands entry'')"
| "command_index command i (source # sources) = bindR (acceptance_command_argv source) (\<lambda>argv.
     if argv = command then Inr i else command_index command (i + 1) sources)"

definition deterministic_acceptance_command_index :: "string list \<Rightarrow> string list \<Rightarrow> nat res" where
  "deterministic_acceptance_command_index command acceptance =
    (if command = [] \<or> list_ex (\<lambda>a. a = [] \<or> CHR 0x00 \<in> set a) command
     then Inl (ValueError ''deterministic command must be a non-empty argv string sequence'')
     else command_index command 0 acceptance)"

section \<open>Models, lanes and pools\<close>

definition EXECUTION_LANES :: "string list" where
  "EXECUTION_LANES = [''spark'', ''general'', ''control'', ''deterministic'', ''fixture'']"

definition CODEX_CONTROL_PLANE_MODELS :: "string list" where
  "CODEX_CONTROL_PLANE_MODELS = [''gpt-5.6-sol'', ''gpt-6-astra'']"

definition CODEX_MODEL_PROFILES :: "(string \<times> string) list" where
  "CODEX_MODEL_PROFILES = [(''gpt-5.3-codex-spark'', ''spark_worker''), (''gpt-5.6-luna'', ''luna_worker''),
     (''gpt-5.6-terra'', ''terra_worker''), (''gpt-5.6-sol'', ''sol_control_plane''),
     (''gpt-6-astra'', ''astra_control_plane'')]"

definition CODEX_MODEL_REASONING_EFFORTS :: "(string \<times> string) list" where
  "CODEX_MODEL_REASONING_EFFORTS = [(''gpt-5.3-codex-spark'', ''xhigh''), (''gpt-5.6-luna'', ''max''),
     (''gpt-5.6-terra'', ''max''), (''gpt-5.6-sol'', ''max''), (''gpt-6-astra'', ''max'')]"

definition is_codex_control_plane_model :: "string \<Rightarrow> bool" where
  "is_codex_control_plane_model model \<longleftrightarrow> lower (strip model) \<in> set CODEX_CONTROL_PLANE_MODELS"

definition codex_model_profile :: "string \<Rightarrow> string option" where
  "codex_model_profile model = map_of CODEX_MODEL_PROFILES (lower (strip model))"

definition codex_model_reasoning_effort :: "string \<Rightarrow> string option" where
  "codex_model_reasoning_effort model = map_of CODEX_MODEL_REASONING_EFFORTS (lower (strip model))"

text \<open>No caller of the two functions in the modelled code passes a \<open>role\<close>.\<close>

definition derive_execution_lane :: "string \<Rightarrow> string \<Rightarrow> bool \<Rightarrow> string" where
  "derive_execution_lane executor model verifier = (let e = lower (strip executor); m = lower (strip model) in
     if e = ''fixture'' then ''fixture''
     else if e = ''deterministic'' then ''deterministic''
     else if verifier then ''control''
     else if e = ''codex'' \<and> codex_model_profile m = Some ''spark_worker'' then ''spark''
     else if e = ''codex'' \<and> is_codex_control_plane_model m then ''control''
     else ''general'')"

definition derive_quota_pool_id :: "string \<Rightarrow> string \<Rightarrow> bool \<Rightarrow> string" where
  "derive_quota_pool_id executor model verifier = (let lane = derive_execution_lane executor model verifier in
     if lane = ''spark'' then ''codex-spark''
     else if lane = ''control'' then ''codex-control''
     else if lane = ''deterministic'' then ''deterministic''
     else if lane = ''fixture'' then ''fixture''
     else if lower (strip executor) \<in> {''claude'', ''anthropic''} then ''claude-shared''
     else ''codex-general'')"

text \<open>
  \<open>str(value)\<close> of a field that holds a string. Of other values the lane functions use only that
  their text is no executor and no model, so they are read as the empty text.
\<close>

definition text_of :: "pyval \<Rightarrow> string" where
  "text_of v = (case v of VStr s \<Rightarrow> s | _ \<Rightarrow> [])"

definition execution_lane_for_spec :: "pyval \<Rightarrow> string" where
  "execution_lane_for_spec spec = (let derived = derive_execution_lane (text_of (dget spec ''executor''))
       (text_of (dget spec ''model'')) (is_true (dget spec ''verifier'')) in
     if derived = ''spark'' then ''spark'' else if derived = ''control'' then ''control'' else ''general'')"

definition quota_pool_id_for_spec :: "pyval \<Rightarrow> string" where
  "quota_pool_id_for_spec spec = derive_quota_pool_id (text_of (dget spec ''executor''))
     (text_of (dget spec ''model'')) (is_true (dget spec ''verifier''))"

definition normalize_execution_lanes :: "string list option \<Rightarrow> string list option res" where
  "normalize_execution_lanes lanes = (case lanes of
      None \<Rightarrow> Inr None
    | Some names \<Rightarrow>
        if set names \<subseteq> set EXECUTION_LANES then Inr (Some (remdups names))
        else Inl (ValueError ''unsupported execution lanes''))"

definition normalize_lane_capacities :: "(string \<times> pyval) list option \<Rightarrow> (string \<times> int) list res" where
  "normalize_lane_capacities capacities = (case capacities of
      None \<Rightarrow> Inr []
    | Some kvs \<Rightarrow> mapR (\<lambda>(lane, capacity).
        if lane \<notin> set EXECUTION_LANES then Inl (ValueError ''unsupported execution lane capacity'')
        else case capacity of
          VInt n \<Rightarrow> if n < 0 then Inl (ValueError ''lane capacity must be a non-negative integer'') else Inr (lane, n)
        | _ \<Rightarrow> Inl (ValueError ''lane capacity must be a non-negative integer'')) kvs)"

section \<open>The retry route\<close>

definition retry_model :: "string \<Rightarrow> int \<Rightarrow> bool \<Rightarrow> pyval \<Rightarrow> string" where
  "retry_model model attempt verifier policy =
    (if verifier \<or> attempt \<le> 1 then model
     else if policy = VStr ''model-routing-v3'' then model
     else let name = lower (strip model) in
       if name = ''gpt-5.3-codex-spark'' then
         (if attempt = 2 then ''gpt-5.6-luna'' else if attempt = 3 then ''gpt-5.6-terra'' else ''gpt-5.6-sol'')
       else if name = ''gpt-5.6-luna'' then (if attempt = 2 then ''gpt-5.6-terra'' else ''gpt-5.6-sol'')
       else if name = ''gpt-5.6-terra'' then ''gpt-5.6-sol''
       else model)"

section \<open>Optional bindings\<close>

text \<open>A value tested against a set of strings: lists and objects are unhashable.\<close>

definition member_of :: "string list \<Rightarrow> pyval \<Rightarrow> bool res" where
  "member_of names v = (case v of
      VStr s \<Rightarrow> Inr (s \<in> set names)
    | VList _ \<Rightarrow> Inl (TypeError ''unhashable type'')
    | VDict _ \<Rightarrow> Inl (TypeError ''unhashable type'')
    | _ \<Rightarrow> Inr False)"

definition hex_digit :: "char \<Rightarrow> bool" where
  "hex_digit c \<longleftrightarrow> (let n = code_point c in 48 \<le> n \<and> n \<le> 57 \<or> 97 \<le> n \<and> n \<le> 102)"

definition sha_hex :: "string \<Rightarrow> bool" where
  "sha_hex t \<longleftrightarrow> length t = 64 \<and> list_all hex_digit t"

definition capability_digest :: "string \<Rightarrow> bool" where
  "capability_digest t \<longleftrightarrow> sha_hex t \<or> starts_with ''sha256:'' t \<and> sha_hex (drop 7 t)"

text \<open>\<open>_validate_capability_snapshot_binding\<close> and \<open>_validate_performance_snapshot_binding\<close>.\<close>

definition validate_snapshot_binding :: "string \<Rightarrow> pyval \<Rightarrow> pyval \<Rightarrow> string \<Rightarrow> unit res" where
  "validate_snapshot_binding kind snapshot digest owner = (let name = owner @ '' '' @ kind in
     if (snapshot = VNone) \<noteq> (digest = VNone)
     then Inl (ValueError (name @ ''_snapshot_id and '' @ kind @ ''_digest must be supplied together''))
     else if snapshot = VNone then Inr ()
     else case snapshot of
       VStr t \<Rightarrow>
         if blank t then Inl (ValueError (name @ ''_snapshot_id must be non-empty''))
         else if list_ex is_space t then Inl (ValueError (name @ ''_snapshot_id must not contain whitespace''))
         else if (case digest of VStr d \<Rightarrow> capability_digest d | _ \<Rightarrow> False) then Inr ()
         else Inl (ValueError (name @ ''_digest must be a raw SHA-256 hex digest or sha256:<64 hex>''))
     | _ \<Rightarrow> Inl (ValueError (name @ ''_snapshot_id must be non-empty'')))"

definition optional_text :: "pyval \<Rightarrow> string \<Rightarrow> unit res" where
  "optional_text v label = (if v = VNone \<or> (case v of VStr t \<Rightarrow> \<not> blank t | _ \<Rightarrow> False) then Inr ()
     else Inl (ValueError (label @ '' must be a non-empty string when supplied'')))"

definition validate_performance_metadata :: "pyval \<Rightarrow> pyval \<Rightarrow> string \<Rightarrow> unit res" where
  "validate_performance_metadata policy status owner =
    bindR (optional_text policy (owner @ '' performance_policy'')) (\<lambda>_.
      optional_text status (owner @ '' performance_status''))"

section \<open>Advice on complexity\<close>

definition SQUILLA_COMPLEXITY_RANK :: "(string \<times> int) list" where
  "SQUILLA_COMPLEXITY_RANK = [(''low'', 0), (''standard'', 1), (''high'', 2)]"

definition SQUILLA_TIER_FLOORS :: "(string \<times> string) list" where
  "SQUILLA_TIER_FLOORS = [(''c0'', ''low''), (''c1'', ''standard''), (''c2'', ''high''), (''c3'', ''high'')]"

definition SQUILLA_RECEIPT_KEYS :: "string list" where
  "SQUILLA_RECEIPT_KEYS = [''schema_version'', ''request_id'', ''status'', ''demand_tier'', ''confidence'',
     ''classification_semantics'', ''route_class'', ''thinking_hint'', ''prompt_hint'', ''prompt_policy'',
     ''source'', ''runtime'', ''diagnostic'']"

definition SQUILLA_RAW_INPUT_KEYS :: "string list" where
  "SQUILLA_RAW_INPUT_KEYS = [''prompt'', ''history_user_texts'', ''routing_history'',
     ''previous_public_summary'', ''previous_public_usage'', ''state_flags'']"

primrec contains_squilla_raw_input :: "pyval \<Rightarrow> bool" where
  "contains_squilla_raw_input VNone = False"
| "contains_squilla_raw_input (VBool b) = False"
| "contains_squilla_raw_input (VInt n) = False"
| "contains_squilla_raw_input (VFloat x) = False"
| "contains_squilla_raw_input (VStr t) = False"
| "contains_squilla_raw_input (VList xs) = list_ex id (map contains_squilla_raw_input xs)"
| "contains_squilla_raw_input (VDict kvs) =
    list_ex (\<lambda>(k, raw). k \<in> set SQUILLA_RAW_INPUT_KEYS \<or> raw)
      (map (map_prod id contains_squilla_raw_input) kvs)"

definition squilla_rank :: "pyval \<Rightarrow> int option res" where
  "squilla_rank v = bindR (member_of (map fst SQUILLA_COMPLEXITY_RANK) v) (\<lambda>_.
     Inr (map_of SQUILLA_COMPLEXITY_RANK (text_of v)))"

text \<open>The fields of the receipt, before the demand is compared with the complexity.\<close>

definition squilla_receipt_shape :: "pyval \<Rightarrow> unit res" where
  "squilla_receipt_shape receipt =
    (if set (map fst (items_of receipt)) \<noteq> set SQUILLA_RECEIPT_KEYS
     then Inl (ValueError ''node squilla_advice_receipt has invalid fields'')
     else if \<not> py_eq (dget receipt ''schema_version'') (VInt 1) \<or> is_bool (dget receipt ''schema_version'')
     then Inl (ValueError ''node squilla_advice_receipt has unsupported schema_version'')
     else if text_of (dget receipt ''request_id'') = []
     then Inl (ValueError ''node squilla_advice_receipt has invalid request_id'')
     else if dget receipt ''classification_semantics''
          \<noteq> VStr ''demand_classification_not_task_success_or_model_success_ranking''
     then Inl (ValueError ''node squilla_advice_receipt has invalid classification semantics'')
     else bindR (member_of [''available'', ''unavailable''] (dget receipt ''status'')) (\<lambda>known.
       if \<not> known then Inl (ValueError ''node squilla_advice_receipt has invalid status'')
       else bindR (member_of [''R0'', ''R1'', ''R2'', ''R3''] (dget receipt ''route_class'')) (\<lambda>route.
       if \<not> route \<and> dget receipt ''route_class'' \<noteq> VNone
       then Inl (ValueError ''node squilla_advice_receipt has invalid route_class'')
       else if list_ex (\<lambda>k. dget receipt k \<noteq> VNone) [''thinking_hint'', ''prompt_hint'', ''prompt_policy'']
       then Inl (ValueError ''node squilla_advice_receipt must not retain advisor prompt hints'')
       else if \<not> is_dict (dget receipt ''source'') \<or> \<not> is_dict (dget receipt ''runtime'')
       then Inl (ValueError ''node squilla_advice_receipt must include source and runtime objects'')
       else if contains_squilla_raw_input receipt
       then Inl (ValueError ''node squilla_advice_receipt must be prompt-free'')
       else if dget receipt ''diagnostic'' \<noteq> VNone \<and> \<not> is_str (dget receipt ''diagnostic'')
       then Inl (ValueError ''node squilla_advice_receipt has invalid diagnostic'')
       else if \<not> json_safe receipt
       then Inl (ValueError ''node squilla_advice_receipt must be JSON-safe'')
       else Inr ())))"

definition squilla_demand :: "int \<Rightarrow> int \<Rightarrow> pyval \<Rightarrow> unit res" where
  "squilla_demand declared effective receipt = bindR
     (member_of (map fst SQUILLA_TIER_FLOORS) (dget receipt ''demand_tier'')) (\<lambda>known.
     if \<not> known then Inl (ValueError ''node squilla_advice_receipt has invalid demand_tier'')
     else if (case finite_number (dget receipt ''confidence'') of None \<Rightarrow> True | Some q \<Rightarrow> q < 0 \<or> 1 < q)
     then Inl (ValueError ''node squilla_advice_receipt has invalid confidence'')
     else case map_of SQUILLA_TIER_FLOORS (text_of (dget receipt ''demand_tier'')) of
       None \<Rightarrow> Inl (KeyError ''demand_tier'')
     | Some tier \<Rightarrow> (case map_of SQUILLA_COMPLEXITY_RANK tier of
         None \<Rightarrow> Inl (KeyError ''demand_tier'')
       | Some least \<Rightarrow> if effective \<noteq> max declared least
           then Inl (ValueError ''node effective_complexity does not match Squilla demand floor'') else Inr ()))"

definition validate_squilla_advice_metadata :: "pyval \<Rightarrow> pyval \<Rightarrow> pyval \<Rightarrow> unit res" where
  "validate_squilla_advice_metadata declared effective receipt =
    (if declared = VNone \<and> effective = VNone \<and> receipt = VNone then Inr ()
     else let incomplete = Inl (ValueError
         ''node Squilla advice requires declared_complexity, effective_complexity, and receipt'') in
     bindR (squilla_rank declared) (\<lambda>d. case d of None \<Rightarrow> incomplete | Some d \<Rightarrow>
     bindR (squilla_rank effective) (\<lambda>e. case e of None \<Rightarrow> incomplete | Some e \<Rightarrow>
     if \<not> is_dict receipt then incomplete
     else bindR (squilla_receipt_shape receipt) (\<lambda>_.
       if dget receipt ''status'' = VStr ''available'' then squilla_demand d e receipt
       else if dget receipt ''demand_tier'' \<noteq> VNone \<or> dget receipt ''confidence'' \<noteq> VNone
       then Inl (ValueError ''unavailable Squilla advice cannot supply demand confidence'')
       else if d \<noteq> e then Inl (ValueError ''unavailable Squilla advice cannot change complexity'')
       else Inr ()))))"

section \<open>Routing strategy\<close>

record routing_strategy =
  rs_version :: pyval
  rs_task_type :: pyval
  rs_complexity :: pyval
  rs_parallelizable :: pyval
  rs_claude_allowed :: pyval

definition default_strategy :: routing_strategy where
  "default_strategy = \<lparr>rs_version = VStr ''model-routing-v2'', rs_task_type = VStr ''implementation'',
     rs_complexity = VStr ''standard'', rs_parallelizable = VBool True, rs_claude_allowed = VBool True\<rparr>"

definition strategy_version_of :: "string \<Rightarrow> string option" where
  "strategy_version_of v =
    (if v \<in> {''v1'', ''routing-v1'', ''routing.v1'', ''model-routing-v1''} then Some ''model-routing-v1''
     else if v \<in> {''v2'', ''routing-v2'', ''routing.v2'', ''model-routing-v2''} then Some ''model-routing-v2''
     else None)"

definition task_type_of :: "string \<Rightarrow> string" where
  "task_type_of t = (if t = ''feature'' then ''implementation''
     else if t = ''fix'' \<or> t = ''bugfix'' then ''debugging''
     else if t = ''documentation'' then ''docs'' else t)"

definition complexity_of :: "string \<Rightarrow> string" where
  "complexity_of c = (if c \<in> {''medium'', ''normal'', ''default''} then ''standard'' else c)"

definition normalized_strategy :: "routing_strategy \<Rightarrow> routing_strategy res" where
  "normalized_strategy r =
    (if \<not> is_str (rs_version r) then Inl (ValueError ''routing strategy version must be a string'')
     else if \<not> is_str (rs_task_type r) then Inl (ValueError ''routing task_type must be a string'')
     else if \<not> is_str (rs_complexity r) then Inl (ValueError ''routing complexity must be a string'')
     else case strategy_version_of (text_of (rs_version r)) of
       None \<Rightarrow> Inl (ValueError ''unsupported routing strategy version'')
     | Some version \<Rightarrow>
         let task_type = task_type_of (text_of (rs_task_type r));
             complexity = complexity_of (text_of (rs_complexity r))
         in if task_type \<notin> {''implementation'', ''debugging'', ''architecture'', ''review'', ''tests'',
                 ''docs'', ''creative'', ''exploration''}
            then Inl (ValueError ''unsupported routing task_type'')
            else if complexity \<notin> {''low'', ''standard'', ''high''}
            then Inl (ValueError ''unsupported routing complexity'')
            else if \<not> is_bool (rs_parallelizable r) then Inl (ValueError ''parallelizable must be a boolean'')
            else if \<not> is_bool (rs_claude_allowed r) then Inl (ValueError ''claude_allowed must be a boolean'')
            else Inr (r\<lparr>rs_version := VStr version, rs_task_type := VStr task_type,
              rs_complexity := VStr complexity\<rparr>))"

definition strategy_alias :: "string \<Rightarrow> string" where
  "strategy_alias k =
    (if k = ''strategy_version'' then ''version''
     else if k \<in> {''work_type'', ''task_kind'', ''kind'', ''task_category''} then ''task_type''
     else if k \<in> {''complexity_level'', ''risk'', ''risk_level''} then ''complexity''
     else if k \<in> {''allow_claude'', ''claude_enabled'', ''claude''} then ''claude_allowed''
     else if k = ''parallel'' then ''parallelizable'' else k)"

definition strategy_from_dict :: "items \<Rightarrow> routing_strategy res" where
  "strategy_from_dict raw = (let kvs = dict_merge [] (map (map_prod strategy_alias id) raw) in
     if \<not> set (map fst kvs) \<subseteq> {''version'', ''task_type'', ''complexity'', ''parallelizable'', ''claude_allowed''}
     then Inl (TypeError ''unexpected keyword argument'')
     else normalized_strategy \<lparr>
       rs_version = dget_or (VDict kvs) ''version'' (rs_version default_strategy),
       rs_task_type = dget_or (VDict kvs) ''task_type'' (rs_task_type default_strategy),
       rs_complexity = dget_or (VDict kvs) ''complexity'' (rs_complexity default_strategy),
       rs_parallelizable = dget_or (VDict kvs) ''parallelizable'' (rs_parallelizable default_strategy),
       rs_claude_allowed = dget_or (VDict kvs) ''claude_allowed'' (rs_claude_allowed default_strategy)\<rparr>)"

section \<open>The task contract\<close>

record task_contract =
  tc_task :: string
  tc_repository :: string
  tc_base :: string
  tc_objective :: string
  tc_allowed :: "string list"
  tc_forbidden :: "string list"
  tc_dependencies :: "string list"
  tc_acceptance :: "string list"
  tc_artifacts :: "string list"
  tc_planner :: string
  tc_executor :: string
  tc_verifier :: string
  tc_quota :: string
  tc_timeout :: int
  tc_retry :: int
  tc_external :: bool
  tc_destructive :: bool
  tc_routing :: pyval
  tc_type :: pyval
  tc_complexity :: pyval
  tc_parallelizable :: pyval
  tc_claude :: pyval
  tc_points :: pyval
  tc_profile :: string
  tc_tier :: string
  tc_thread :: "string option"
  tc_context :: "string option"
  tc_capability :: pyval
  tc_capability_digest :: pyval
  tc_performance :: pyval
  tc_performance_digest :: pyval
  tc_policy :: pyval
  tc_status :: pyval

definition strs :: "string list \<Rightarrow> pyval" where
  "strs xs = VList (map VStr xs)"

text \<open>\<open>TaskContract.to_dict\<close>; its canonical form is the stored contract and its hash the digest.\<close>

definition contract_document :: "task_contract \<Rightarrow> pyval" where
  "contract_document c = VDict [(''task_id'', VStr (tc_task c)),
     (''repository'', VStr (tc_repository c)),
     (''base_sha'', VStr (tc_base c)),
     (''objective'', VStr (tc_objective c)),
     (''allowed_scope'', strs (tc_allowed c)),
     (''forbidden_scope'', strs (tc_forbidden c)),
     (''dependencies'', strs (tc_dependencies c)),
     (''acceptance_commands'', strs (tc_acceptance c)),
     (''required_artifacts'', strs (tc_artifacts c)),
     (''planner_model'', VStr (tc_planner c)),
     (''executor_model'', VStr (tc_executor c)),
     (''verifier_model'', VStr (tc_verifier c)),
     (''quota_class'', VStr (tc_quota c)),
     (''timeout_seconds'', VInt (tc_timeout c)),
     (''retry_limit'', VInt (tc_retry c)),
     (''external_write_permission'', VBool (tc_external c)),
     (''destructive_action_permission'', VBool (tc_destructive c)),
     (''routing_strategy'', tc_routing c),
     (''task_type'', tc_type c),
     (''complexity'', tc_complexity c),
     (''parallelizable'', tc_parallelizable c),
     (''claude_allowed'', tc_claude c),
     (''task_points'', tc_points c),
     (''governance_profile'', VStr (tc_profile c)),
     (''verification_tier'', VStr (tc_tier c)),
     (''source_thread_id'', opt_str (tc_thread c)),
     (''context_bundle_ref'', opt_str (tc_context c)),
     (''capability_snapshot_id'', tc_capability c),
     (''capability_digest'', tc_capability_digest c),
     (''performance_snapshot_id'', tc_performance c),
     (''performance_digest'', tc_performance_digest c),
     (''performance_policy'', tc_policy c),
     (''performance_status'', tc_status c)]"

definition control_model :: "string \<Rightarrow> string" where
  "control_model m = (if m = ''fixture'' then m
     else if is_codex_control_plane_model m then lower (strip m) else ''gpt-5.6-sol'')"

definition contract_strategy :: "task_contract \<Rightarrow> routing_strategy" where
  "contract_strategy c = \<lparr>rs_version = tc_routing c, rs_task_type = tc_type c, rs_complexity = tc_complexity c,
     rs_parallelizable = tc_parallelizable c, rs_claude_allowed = tc_claude c\<rparr>"

definition with_strategy :: "task_contract \<Rightarrow> routing_strategy \<Rightarrow> task_contract" where
  "with_strategy c r = c\<lparr>tc_routing := rs_version r, tc_type := rs_task_type r,
     tc_complexity := rs_complexity r, tc_parallelizable := rs_parallelizable r, tc_claude := rs_claude_allowed r\<rparr>"

text \<open>\<open>TaskContract.__post_init__\<close>: the strategy is given as an object or by its version.\<close>

definition contract_post_init :: "task_contract \<Rightarrow> task_contract res" where
  "contract_post_init c0 = (let c = c0\<lparr>tc_planner := control_model (tc_planner c0),
       tc_verifier := control_model (tc_verifier c0)\<rparr> in
     case tc_routing c of
       VDict raw \<Rightarrow> bindR (strategy_from_dict raw) (\<lambda>r. Inr (with_strategy c r))
     | _ \<Rightarrow> bindR (normalized_strategy (contract_strategy c)) (\<lambda>r. Inr (with_strategy c r)))"

definition governance_identity :: "string \<Rightarrow> string \<Rightarrow> (string \<times> string) res" where
  "governance_identity profile tier =
    (if profile \<noteq> ''code-as-harness/v1'' then Inl (ValueError ''unsupported governance profile'')
     else if tier \<notin> {''L0'', ''L1'', ''L2'', ''L3''} then Inl (ValueError ''unsupported verification tier'')
     else Inr (profile, tier))"

text \<open>\<open>isinstance(v, (int, float))\<close>, where a \<open>bool\<close> is an \<open>int\<close>, finite and positive.\<close>

definition positive_points :: "pyval \<Rightarrow> bool" where
  "positive_points v = (case v of VBool b \<Rightarrow> b | _ \<Rightarrow>
     (case finite_number v of None \<Rightarrow> False | Some q \<Rightarrow> 0 < q))"

text \<open>\<open>Path.expanduser\<close> reads the environment and is the argument \<open>expand\<close>.\<close>

definition validate_contract :: "(string \<Rightarrow> string) \<Rightarrow> task_contract \<Rightarrow> unit res" where
  "validate_contract expand c =
    (if tc_task c = [] \<or> list_ex is_space (tc_task c)
     then Inl (ValueError ''task_id must be non-empty and contain no whitespace'')
     else if \<not> starts_with ''/'' (expand (tc_repository c))
     then Inl (ValueError ''repository must be an absolute path'')
     else if tc_base c = [] then Inl (ValueError ''base_sha is required'')
     else if blank (tc_objective c) then Inl (ValueError ''objective is required'')
     else if tc_allowed c = [] then Inl (ValueError ''allowed_scope must not be empty'')
     else bindR (mapR acceptance_command_argv (tc_acceptance c)) (\<lambda>_.
     let thread = (case tc_thread c of None \<Rightarrow> [] | Some t \<Rightarrow> t);
         context = (case tc_context c of None \<Rightarrow> [] | Some t \<Rightarrow> t)
     in if (thread = []) \<noteq> (context = [])
     then Inl (ValueError ''source_thread_id and context_bundle_ref must be supplied together'')
     else if list_ex is_space thread
     then Inl (ValueError ''source_thread_id must contain no whitespace'')
     else if context \<noteq> [] \<and> \<not> starts_with ''sha256:'' context
     then Inl (ValueError ''context_bundle_ref must be a content-addressed artifact ref'')
     else bindR (validate_snapshot_binding ''capability'' (tc_capability c) (tc_capability_digest c) ''task contract'') (\<lambda>_.
     bindR (validate_snapshot_binding ''performance'' (tc_performance c) (tc_performance_digest c) ''task contract'') (\<lambda>_.
     bindR (validate_performance_metadata (tc_policy c) (tc_status c) ''task contract'') (\<lambda>_.
     if tc_timeout c \<le> 0 then Inl (ValueError ''timeout_seconds must be positive'')
     else if \<not> (0 \<le> tc_retry c \<and> tc_retry c \<le> 3)
     then Inl (ValueError ''retry_limit must be between 0 and 3'')
     else if \<not> positive_points (tc_points c)
     then Inl (ValueError ''task_points must be a positive finite number'')
     else bindR (governance_identity (tc_profile c) (tc_tier c)) (\<lambda>_.
     bindR (normalized_strategy (contract_strategy c)) (\<lambda>_. Inr ())))))))"

section \<open>The node specification\<close>

text \<open>
  The fields every node has, and the optional metadata by field name in \<open>sp_optional\<close>; a field
  that is absent has its default.
\<close>

record node_spec =
  sp_node :: string
  sp_task :: string
  sp_title :: string
  sp_executor :: string
  sp_model :: string
  sp_prompt :: string
  sp_command :: "string list"
  sp_depends :: "string list"
  sp_reads :: "string list"
  sp_writes :: "string list"
  sp_verifier :: bool
  sp_ordinal :: int
  sp_optional :: items

definition OPTIONAL_FIELDS :: items where
  "OPTIONAL_FIELDS = map (\<lambda>k. (k, if k = ''performance_runtime_sample_count'' then VInt 0 else VNone))
    [''archify'', ''routing_strategy'', ''task_type'', ''complexity'', ''parallelizable'', ''claude_allowed'',
     ''declared_complexity'', ''effective_complexity'', ''squilla_advice_receipt'', ''model_profile'',
     ''model_reasoning_effort'', ''capability_snapshot_id'', ''capability_digest'',
     ''performance_snapshot_id'', ''performance_digest'', ''performance_policy'', ''performance_status'',
     ''performance_quality_source'', ''performance_lower_bound_95'', ''performance_runtime_sample_count'',
     ''performance_first_pass_rate'', ''performance_rework_rate'', ''performance_latency_ms'',
     ''performance_routing_receipt'', ''model_capability_id'', ''agent_capability_id'', ''agent_name'',
     ''agent_version'', ''routing_policy_version'', ''execution_lane'', ''quota_pool_id'']"

definition spec_field :: "node_spec \<Rightarrow> string \<Rightarrow> pyval" where
  "spec_field n k = dget_or (VDict (sp_optional n)) k (dget (VDict OPTIONAL_FIELDS) k)"

definition spec_set :: "string \<Rightarrow> pyval \<Rightarrow> node_spec \<Rightarrow> node_spec" where
  "spec_set k v n = n\<lparr>sp_optional := dict_set k v (sp_optional n)\<rparr>"

definition spec_document :: "node_spec \<Rightarrow> pyval" where
  "spec_document n = VDict ([(''node_id'', VStr (sp_node n)), (''task_id'', VStr (sp_task n)),
     (''title'', VStr (sp_title n)), (''executor'', VStr (sp_executor n)), (''model'', VStr (sp_model n)),
     (''prompt'', VStr (sp_prompt n)), (''command'', strs (sp_command n)), (''depends_on'', strs (sp_depends n)),
     (''read_scopes'', strs (sp_reads n)), (''write_scopes'', strs (sp_writes n)),
     (''verifier'', VBool (sp_verifier n)), (''ordinal'', VInt (sp_ordinal n))]
     @ map (\<lambda>(k, _). (k, spec_field n k)) OPTIONAL_FIELDS)"

text \<open>\<open>NodeSpec.__post_init__\<close>.\<close>

definition spec_post_init :: "node_spec \<Rightarrow> node_spec" where
  "spec_post_init n0 = (let
     n = (if spec_field n0 ''execution_lane'' = VNone \<and> spec_field n0 ''quota_pool_id'' = VNone
       then spec_set ''quota_pool_id'' (VStr (derive_quota_pool_id (sp_executor n0) (sp_model n0) (sp_verifier n0)))
         (spec_set ''execution_lane'' (VStr (derive_execution_lane (sp_executor n0) (sp_model n0) (sp_verifier n0))) n0)
       else n0);
     fill = (\<lambda>k known n. case known of None \<Rightarrow> n
       | Some v \<Rightarrow> if spec_field n k = VNone then spec_set k (VStr v) n else n)
   in if sp_executor n \<noteq> ''codex'' then n
      else fill ''model_reasoning_effort'' (codex_model_reasoning_effort (sp_model n))
        (fill ''model_profile'' (codex_model_profile (sp_model n)) n))"

definition spec_strategy :: "node_spec \<Rightarrow> routing_strategy" where
  "spec_strategy n = (let default = (\<lambda>k d. if truthy (spec_field n k) then spec_field n k else d);
       flag = (\<lambda>k. if spec_field n k = VNone then VBool True else spec_field n k)
     in \<lparr>rs_version = spec_field n ''routing_strategy'',
       rs_task_type = default ''task_type'' (VStr ''implementation''),
       rs_complexity = default ''complexity'' (VStr ''standard''),
       rs_parallelizable = flag ''parallelizable'', rs_claude_allowed = flag ''claude_allowed''\<rparr>)"

definition optional_bool :: "node_spec \<Rightarrow> string \<Rightarrow> unit res" where
  "optional_bool n k = (if spec_field n k \<noteq> VNone \<and> \<not> is_bool (spec_field n k)
     then Inl (ValueError (''node '' @ k @ '' must be a boolean'')) else Inr ())"

definition optional_number :: "node_spec \<Rightarrow> string \<Rightarrow> unit res" where
  "optional_number n k = (let v = spec_field n k in
     if v \<noteq> VNone \<and> (case finite_number v of None \<Rightarrow> True | Some q \<Rightarrow> q < 0)
     then Inl (ValueError (''node '' @ k @ '' must be a finite non-negative number'')) else Inr ())"

definition at_most_one :: "node_spec \<Rightarrow> string \<Rightarrow> unit res" where
  "at_most_one n k = (case finite_number (spec_field n k) of
      Some q \<Rightarrow> if 1 < q then Inl (ValueError (''node '' @ k @ '' must be between 0 and 1'')) else Inr ()
    | None \<Rightarrow> Inr ())"

definition validate_performance_fields :: "node_spec \<Rightarrow> unit res" where
  "validate_performance_fields n =
    bindR (optional_text (spec_field n ''performance_quality_source'') ''node performance_quality_source'') (\<lambda>_.
    let receipt = spec_field n ''performance_routing_receipt'' in
    if receipt \<noteq> VNone \<and> \<not> is_dict receipt
    then Inl (ValueError ''node performance_routing_receipt must be an object'')
    else if receipt \<noteq> VNone \<and> \<not> json_safe receipt
    then Inl (ValueError ''node performance_routing_receipt must be JSON-safe'')
    else if (case int_of (spec_field n ''performance_runtime_sample_count'') of None \<Rightarrow> True | Some i \<Rightarrow> i < 0)
    then Inl (ValueError ''node performance_runtime_sample_count must be non-negative'')
    else bindR (mapR (optional_number n) [''performance_lower_bound_95'', ''performance_first_pass_rate'',
        ''performance_rework_rate'', ''performance_latency_ms'']) (\<lambda>_.
    bindR (mapR (at_most_one n) [''performance_lower_bound_95'', ''performance_first_pass_rate'',
        ''performance_rework_rate'']) (\<lambda>_. Inr ())))"

definition validate_lane :: "node_spec \<Rightarrow> unit res" where
  "validate_lane n = (let lane = spec_field n ''execution_lane''; pool = spec_field n ''quota_pool_id'' in
     if (lane = VNone) \<noteq> (pool = VNone)
     then Inl (ValueError ''node execution_lane and quota_pool_id must be supplied together'')
     else if lane = VNone then Inr ()
     else bindR (member_of EXECUTION_LANES lane) (\<lambda>known.
       if \<not> known then Inl (ValueError ''node execution_lane is unsupported'')
       else if lane \<noteq> VStr (derive_execution_lane (sp_executor n) (sp_model n) (sp_verifier n))
       then Inl (ValueError ''node execution_lane does not match executor/model/role'')
       else if pool \<noteq> VStr (derive_quota_pool_id (sp_executor n) (sp_model n) (sp_verifier n))
       then Inl (ValueError ''node quota_pool_id does not match execution lane'')
       else Inr ()))"

definition matches_model :: "pyval \<Rightarrow> string option \<Rightarrow> string \<Rightarrow> unit res" where
  "matches_model v expected label = (case expected of
      None \<Rightarrow> Inr ()
    | Some e \<Rightarrow> bindR (member_of [e] v) (\<lambda>same. if same \<or> v = VNone then Inr ()
        else Inl (ValueError (label @ '' does not match''))))"

definition validate_spec :: "node_spec \<Rightarrow> unit res" where
  "validate_spec n =
    (if sp_node n = [] \<or> sp_task n = [] then Inl (ValueError ''node_id and task_id are required'')
     else if sp_executor n = ''deterministic'' \<and> sp_command n = []
     then Inl (ValueError ''deterministic nodes require command'')
     else if sp_executor n \<in> {''codex'', ''claude''} \<and> blank (sp_prompt n)
     then Inl (ValueError ''model nodes require prompt'')
     else bindR (if spec_field n ''routing_strategy'' = VNone then Inr default_strategy
        else normalized_strategy (spec_strategy n)) (\<lambda>_.
     bindR (mapR (optional_bool n) [''parallelizable'', ''claude_allowed'']) (\<lambda>_.
     bindR (validate_squilla_advice_metadata (spec_field n ''declared_complexity'')
        (spec_field n ''effective_complexity'') (spec_field n ''squilla_advice_receipt'')) (\<lambda>_.
     bindR (validate_snapshot_binding ''capability'' (spec_field n ''capability_snapshot_id'')
        (spec_field n ''capability_digest'') ''node'') (\<lambda>_.
     bindR (validate_snapshot_binding ''performance'' (spec_field n ''performance_snapshot_id'')
        (spec_field n ''performance_digest'') ''node'') (\<lambda>_.
     bindR (validate_performance_metadata (spec_field n ''performance_policy'')
        (spec_field n ''performance_status'') ''node'') (\<lambda>_.
     bindR (validate_performance_fields n) (\<lambda>_.
     bindR (validate_lane n) (\<lambda>_.
     bindR (mapR (\<lambda>k. optional_text (spec_field n k) (''node '' @ k)) [''model_capability_id'',
        ''agent_capability_id'', ''agent_name'', ''agent_version'', ''routing_policy_version'']) (\<lambda>_.
     bindR (matches_model (spec_field n ''model_profile'') (codex_model_profile (sp_model n)) ''node model_profile'') (\<lambda>_.
     matches_model (spec_field n ''model_reasoning_effort'') (codex_model_reasoning_effort (sp_model n))
        ''node model_reasoning_effort'')))))))))))"

end
