(* ===== verification/Task_Graph.thy ===== *)
theory Task_Graph
  imports Planning_Ledger Node_Specs
begin

text \<open>
  The graph of a task (\<open>store.py\<close> lines 3678 to 4137): what a graph must satisfy, and the two ways
  it becomes durable, \<open>create_task\<close> under a command id and \<open>materialize_planning_request\<close> under
  the lease of a planning request.
\<close>

section \<open>Validation\<close>

definition assert_verifier_contract :: "task_contract \<Rightarrow> node_spec list \<Rightarrow> unit res" where
  "assert_verifier_contract c ns = (case filter sp_verifier ns of
      [v] \<Rightarrow>
        if set (sp_depends v) \<noteq> sp_node ` set (filter (\<lambda>n. \<not> sp_verifier n) ns)
        then Inl (ValueError ''verifier must depend on every required worker'')
        else if sp_executor v = ''fixture'' then Inr ()
        else if tc_verifier c = ''fixture'' \<and> sp_model v = ''fixture'' then Inr ()
        else if sp_executor v \<noteq> ''codex'' \<or> \<not> is_codex_control_plane_model (sp_model v)
        then Inl (ValueError ''verifier must be an exact Codex control-plane node'')
        else if sp_model v \<noteq> tc_verifier c \<or> \<not> is_codex_control_plane_model (tc_verifier c)
        then Inl (ValueError ''verifier must match the exact Codex control-plane verifier_model in the contract'')
        else Inr ()
    | _ \<Rightarrow> Inl (ValueError ''task graph must contain exactly one verifier''))"

text \<open>
  \<open>_assert_acyclic\<close>: \<open>deps\<close> is the dictionary of dependencies, \<open>remaining\<close> the ids not yet
  ordered. Every round removes the ids none of whose dependencies remain.
\<close>

definition ready_ids :: "(string \<Rightarrow> string set) \<Rightarrow> string list \<Rightarrow> string list" where
  "ready_ids deps remaining = filter (\<lambda>i. deps i \<inter> set remaining = {}) remaining"

function acyclic_rounds :: "(string \<Rightarrow> string set) \<Rightarrow> string list \<Rightarrow> unit res" where
  "acyclic_rounds deps remaining =
    (if remaining = [] then Inr ()
     else if ready_ids deps remaining = [] then Inl (ValueError ''task graph contains a cycle'')
     else acyclic_rounds deps (filter (\<lambda>i. i \<notin> set (ready_ids deps remaining)) remaining))"
  by auto
termination
proof (relation "measure (\<lambda>(_, remaining). length remaining)", goal_cases)
  case (2 deps remaining)
  then obtain i where "i \<in> set (ready_ids deps remaining)" by (cases "ready_ids deps remaining") auto
  then have "i \<in> set remaining" by (simp add: ready_ids_def)
  then show ?case
    using \<open>i \<in> set (ready_ids deps remaining)\<close> by (auto intro!: length_filter_less)
qed simp

declare acyclic_rounds.simps [simp del]

definition spec_deps :: "node_spec list \<Rightarrow> string \<Rightarrow> string set" where
  "spec_deps ns i = (case find (\<lambda>n. sp_node n = i) (rev ns) of None \<Rightarrow> {} | Some n \<Rightarrow> set (sp_depends n))"

definition assert_acyclic :: "node_spec list \<Rightarrow> unit res" where
  "assert_acyclic ns = acyclic_rounds (spec_deps ns) (remdups (map sp_node ns))"

text \<open>The checks of one node against the contract and the ids of its task.\<close>

fun check_scopes :: "task_contract \<Rightarrow> string list \<Rightarrow> unit res" where
  "check_scopes c [] = Inr ()"
| "check_scopes c (scope # rest) = bindR (normalize_scope scope) (\<lambda>_.
     bindR (scope_allows scope (tc_allowed c) []) (\<lambda>allowed.
     if \<not> allowed then Inl (ValueError ''node scope exceeds the task contract'')
     else bindR (anyR (scopes_overlap scope) (tc_forbidden c)) (\<lambda>forbidden.
       if forbidden then Inl (ValueError ''node scope overlaps forbidden scope'')
       else check_scopes c rest)))"

fun check_nodes :: "task_contract \<Rightarrow> string set \<Rightarrow> node_spec list \<Rightarrow> unit res" where
  "check_nodes c ids [] = Inr ()"
| "check_nodes c ids (n # rest) = bindR (validate_spec n) (\<lambda>_.
     bindR (check_scopes c (sp_reads n @ sp_writes n)) (\<lambda>_.
     if \<not> set (sp_depends n) \<subseteq> ids then Inl (ValueError ''node has missing dependencies'')
     else check_nodes c ids rest))"

record prepared =
  m_contract :: pyval
  m_hash :: string
  m_nodes :: "node_spec list"
  m_request :: string

definition prepare_task_materialization ::
  "(pyval \<Rightarrow> string) \<Rightarrow> (string \<Rightarrow> string) \<Rightarrow> task_contract \<Rightarrow> node_spec list \<Rightarrow> prepared res" where
  "prepare_task_materialization sha expand c ns = bindR (validate_contract expand c) (\<lambda>_.
     if ns = [] then Inl (ValueError ''task requires at least one node'')
     else if list_ex (\<lambda>n. sp_task n \<noteq> tc_task c) ns
     then Inl (ValueError ''all nodes must belong to the contract task_id'')
     else if \<not> distinct (map sp_node ns)
     then Inl (ValueError ''node_id must be unique within a task'')
     else bindR (check_nodes c (set (map sp_node ns)) ns) (\<lambda>_.
     bindR (assert_verifier_contract c ns) (\<lambda>_.
     bindR (assert_acyclic ns) (\<lambda>_.
     Inr \<lparr>m_contract = canonical_json (contract_document c), m_hash = canonical_hash sha (contract_document c),
       m_nodes = sort_key (\<lambda>n. (sp_ordinal n, sp_node n)) ns,
       m_request = canonical_hash sha (VDict [(''contract'', contract_document c),
         (''nodes'', VList (map spec_document ns))])\<rparr>))))"

section \<open>Persistence\<close>

definition new_task_row :: "string \<Rightarrow> prepared \<Rightarrow> stamp \<Rightarrow> task_row" where
  "new_task_row task m ts = \<lparr>t_id = task, t_contract = m_contract m, t_hash = m_hash m, t_state = TInbox,
     t_revision = 1, t_priority = 0, t_created = ts, t_updated = ts, t_blocker = None, t_verdict = None\<rparr>"

definition new_node_row :: "string \<Rightarrow> stamp \<Rightarrow> node_spec \<Rightarrow> node_row" where
  "new_node_row task ts n = \<lparr>n_task = task, n_node = sp_node n, n_spec = canonical_json (spec_document n),
     n_state = NPending, n_attempt = 0, n_worker = None, n_worktree = None, n_executor = None,
     n_model = None, n_started = None, n_settled = None, n_result = None, n_recovery = None,
     n_epoch = 0, n_lease = 0, n_updated = ts\<rparr>"

text \<open>The rows both operations insert, and their event.\<close>

definition insert_task :: "string \<Rightarrow> string \<Rightarrow> prepared \<Rightarrow> stamp \<Rightarrow> store \<Rightarrow> store res" where
  "insert_task task command m ts s =
    bindR (row_add t_id (new_task_row task m ts) (tasks s)) (\<lambda>ts'.
    bindR (rows_add node_key (map (new_node_row task ts) (m_nodes m)) (nodes s)) (\<lambda>ns'.
    bindR (row_add c_command \<lparr>c_command = command, c_hash = m_request m, c_task = task, c_created = ts\<rparr>
        (commands s)) (\<lambda>cs'.
    Inr (snd (emit_event ''task.created'' (Some task) None
      [(''contract_hash'', VStr (m_hash m)), (''node_count'', VInt (int (length (m_nodes m))))] ts
      (s\<lparr>tasks := ts', nodes := ns', commands := cs'\<rparr>))))))"

definition create_task ::
  "(pyval \<Rightarrow> string) \<Rightarrow> (string \<Rightarrow> string) \<Rightarrow> task_contract \<Rightarrow> node_spec list \<Rightarrow> string \<Rightarrow> int \<Rightarrow> store
    \<Rightarrow> (string \<times> store) res" where
  "create_task sha expand c ns command now s = bindR (prepare_task_materialization sha expand c ns) (\<lambda>m.
     if list_ex (\<lambda>p. p_task p = tc_task c \<or> p_command p = command) (plannings s)
     then Inl (CommandConflictError ''planning request reserves task'')
     else case row_get c_command command (commands s) of
       Some receipt \<Rightarrow>
         if c_hash receipt \<noteq> m_request m
         then Inl (CommandConflictError ''command was already used with a different request'')
         else Inr (c_task receipt, s)
     | None \<Rightarrow> bindR (insert_task (tc_task c) command m (utc now) s) (\<lambda>t. Inr (tc_task c, t)))"

text \<open>The optional queue transition of a new task.\<close>

definition queue_new_task :: "string \<Rightarrow> stamp \<Rightarrow> store \<Rightarrow> store" where
  "queue_new_task task ts s = snd (emit_event ''task.state_changed'' (Some task) None
     [(''from'', VStr ''inbox''), (''to'', VStr ''queued''), (''revision'', VInt 2), (''blocker'', VNone)] ts
     (s\<lparr>tasks := row_put t_id task (\<lambda>t. t\<lparr>t_state := TQueued, t_revision := 2, t_updated := ts,
        t_blocker := None, t_verdict := None\<rparr>) (tasks s)\<rparr>))"

definition bind_session :: "task_contract \<Rightarrow> string \<Rightarrow> stamp \<Rightarrow> store \<Rightarrow> store res" where
  "bind_session c thread ts s = bindR (require (StateConflictError ''planning session binding does not exist'')
      (row_get b_thread thread (sessions s))) (\<lambda>b.
    if Some (b_context b) \<noteq> tc_context c
    then Inl (StateConflictError ''planning session binding context_ref does not match the task contract'')
    else if \<not> list_ex (\<lambda>u. u_thread u = thread \<and> u_context u = b_context b) (contexts s)
    then Inl (StateConflictError ''planning session binding points to a missing frozen context receipt'')
    else Inr (snd (emit_event ''context.task_bound'' (Some (tc_task c)) None
      [(''source_thread_id'', VStr thread), (''context_ref'', VStr (b_context b))] ts
      (s\<lparr>sessions := row_put b_thread thread (\<lambda>b. b\<lparr>b_task := Some (tc_task c), b_updated := ts\<rparr>)
         (sessions s)\<rparr>))))"

definition check_materialization :: "planning_row \<Rightarrow> string \<Rightarrow> int \<Rightarrow> int \<Rightarrow> unit res" where
  "check_materialization p task attempt epoch =
    (if p_task p \<noteq> task then Inl (StateConflictError ''planning request belongs to another task'')
     else if p_attempt p \<noteq> attempt then Inl (StateConflictError ''planning request has another attempt'')
     else if p_epoch p \<noteq> epoch then Inl (StateConflictError ''planning request has another coordinator epoch'')
     else Inr ())"

text \<open>A replay of a materialization that committed.\<close>

definition replay_materialization :: "planning_row \<Rightarrow> task_contract \<Rightarrow> prepared \<Rightarrow> pyval \<Rightarrow> store \<Rightarrow> planning_row res" where
  "replay_materialization p c m result s =
    (if p_result p \<noteq> Some (canonical_json result)
     then Inl (CommandConflictError ''planning request already succeeded with a different result'')
     else case (row_get t_id (tc_task c) (tasks s), row_get c_command (p_command p) (commands s)) of
       (Some t, Some receipt) \<Rightarrow>
         if t_hash t \<noteq> m_hash m \<or> c_task receipt \<noteq> tc_task c \<or> c_hash receipt \<noteq> m_request m
         then Inl (StateConflictError ''succeeded planning request has incomplete or inconsistent materialization'')
         else Inr p
     | _ \<Rightarrow> Inl (StateConflictError ''succeeded planning request has incomplete or inconsistent materialization''))"

definition settled_planning_row :: "planning_row \<Rightarrow> pyval \<Rightarrow> stamp \<Rightarrow> planning_row" where
  "settled_planning_row p result ts = p\<lparr>p_state := PSucceeded, p_result := Some (canonical_json result),
     p_error := None, p_settled := Some ts, p_updated := ts\<rparr>"

text \<open>The writes of a materialization, for the running request \<open>p\<close>.\<close>

definition write_materialization ::
  "planning_row \<Rightarrow> task_contract \<Rightarrow> prepared \<Rightarrow> pyval \<Rightarrow> bool \<Rightarrow> string option \<Rightarrow> stamp \<Rightarrow> store
    \<Rightarrow> (planning_row \<times> store) res" where
  "write_materialization p c m result queue thread ts s = (let p' = settled_planning_row p result ts in
     bindR (insert_task (tc_task c) (p_command p) m ts s) (\<lambda>s1.
     let s2 = (if queue then queue_new_task (tc_task c) ts s1 else s1) in
     bindR (case thread of None \<Rightarrow> Inr s2 | Some x \<Rightarrow> bind_session c x ts s2) (\<lambda>s3.
     Inr (p', snd (emit_event ''planning_request.succeeded'' (Some (tc_task c)) None
       [(''command_id'', VStr (p_command p)), (''request_hash'', VStr (p_hash p)), (''state'', VStr ''succeeded''),
        (''attempt'', VInt (p_attempt p)), (''coordinator_epoch'', VInt (p_epoch p)), (''contract_hash'', VStr (m_hash m)),
        (''task_state'', VStr (if queue then ''queued'' else ''inbox'')),
        (''task_revision'', VInt (if queue then 2 else 1))] ts
       (s3\<lparr>plannings := row_put p_command (p_command p) (\<lambda>_. p') (plannings s3)\<rparr>))))))"

definition materialize_planning_request ::
  "(pyval \<Rightarrow> string) \<Rightarrow> (string \<Rightarrow> string) \<Rightarrow> string \<Rightarrow> int \<Rightarrow> int \<Rightarrow> task_contract \<Rightarrow> node_spec list \<Rightarrow> pyval \<Rightarrow> bool
    \<Rightarrow> string option \<Rightarrow> int \<Rightarrow> store \<Rightarrow> (planning_row \<times> store) res" where
  "materialize_planning_request sha expand command attempt epoch c ns result queue thread now s =
    (if blank command then Inl (ValueError ''planning command_id is required'')
     else if attempt < 1 then Inl (ValueError ''planning attempt must be a positive integer'')
     else if \<not> is_dict result then Inl (ValueError ''planning result must be a JSON object'')
     else if (case thread of None \<Rightarrow> False | Some x \<Rightarrow> blank x \<or> list_ex is_space x)
     then Inl (ValueError ''planning source_thread_id must be non-empty and contain no whitespace'')
     else if thread \<noteq> tc_thread c
     then Inl (ValueError ''planning source_thread_id must match the task contract'')
     else bindR (prepare_task_materialization sha expand c ns) (\<lambda>m.
     bindR (assert_active_coordinator epoch s) (\<lambda>_.
     bindR (require (KeyError command) (row_get p_command command (plannings s))) (\<lambda>p.
     bindR (check_materialization p (tc_task c) attempt epoch) (\<lambda>_.
     if p_state p = PSucceeded then bindR (replay_materialization p c m result s) (\<lambda>p. Inr (p, s))
     else if p_state p \<noteq> PRunning then Inl (StateConflictError ''planning request is not running'')
     else if row_get t_id (tc_task c) (tasks s) \<noteq> None
     then Inl (StateConflictError ''planning materialization task already exists'')
     else if row_get c_command command (commands s) \<noteq> None
     then Inl (CommandConflictError ''planning materialization command already belongs to a task'')
     else write_materialization p c m result queue thread (utc now) s)))))"

end
