(* ===== verification/Planning_Machine.thy ===== *)
theory Planning_Machine
  imports Task_Graph
begin

text \<open>
  The planning ledger as a machine. \<open>planning_step\<close> is any transaction of \<open>store.py\<close>: the six that
  write \<open>planning_requests\<close> (enqueue, claim, settle, retry, recovery, and the materialization
  of a planned task), the activation of a coordinator, and \<open>step_other\<close>, which stands for every
  transaction that leaves the planning requests and the coordinator's epoch alone, whatever else
  it does. The properties C17 to C19 hold over all of them.
\<close>

section \<open>Steps\<close>

inductive planning_step :: "(pyval \<Rightarrow> string) \<Rightarrow> store \<Rightarrow> store \<Rightarrow> bool" for sha where
  step_activate: "activate_coordinator i m s = Inr (e, t) \<Longrightarrow> planning_step sha s t"
| step_enqueue: "enqueue_planning_request sha c k r now s = Inr (x, t) \<Longrightarrow> planning_step sha s t"
| step_claim: "claim_planning_request e now s = Inr (x, t) \<Longrightarrow> planning_step sha s t"
| step_complete: "complete_planning_request c n e r now s = Inr (x, t) \<Longrightarrow> planning_step sha s t"
| step_fail: "fail_planning_request c n e m now s = Inr (x, t) \<Longrightarrow> planning_step sha s t"
| step_retry: "retry_planning_request c n mx m e obj now s = Inr (x, t) \<Longrightarrow> planning_step sha s t"
| step_recover: "recover_interrupted_planning_requests now s = (x, t) \<Longrightarrow> planning_step sha s t"
| step_materialize: "materialize_planning_request sha expand c n e tc ns r queue thread now s = Inr (x, t)
     \<Longrightarrow> planning_step sha s t"
| step_other: "plannings t = plannings s \<Longrightarrow> meta_epoch t = meta_epoch s \<Longrightarrow>
     \<exists>es. events t = events s @ es \<Longrightarrow> planning_step sha s t"

section \<open>Materialization\<close>

text \<open>The table, the epoch and the log are what the parts of a materialization share.\<close>

lemma insert_task_frame:
  "insert_task task command m ts s = Inr t \<Longrightarrow> plannings t = plannings s \<and> log_and_epoch s t"
  by (auto simp: insert_task_def res_simps emit_event_snd log_and_epoch_def)

lemma queue_new_task_frame:
  "plannings (queue_new_task task ts s) = plannings s \<and> log_and_epoch s (queue_new_task task ts s)"
  by (simp add: queue_new_task_def emit_event_snd log_and_epoch_def)

lemma bind_session_frame:
  "bind_session c thread ts s = Inr t \<Longrightarrow> plannings t = plannings s \<and> log_and_epoch s t"
  by (auto simp: bind_session_def res_simps emit_event_snd log_and_epoch_def split: if_splits)

lemma log_and_epoch_trans: "log_and_epoch s t \<Longrightarrow> log_and_epoch t u \<Longrightarrow> log_and_epoch s u"
  by (auto simp: log_and_epoch_def)

lemma write_materialization_frame:
  assumes "write_materialization p c m result queue thread ts s = Inr (x, t)"
  shows "x = settled_planning_row p result ts
    \<and> plannings t = row_put p_command (p_command p) (\<lambda>_. x) (plannings s) \<and> log_and_epoch s t"
proof -
  let ?x = "settled_planning_row p result ts"
  from assms obtain s1 s2 s3 where s1: "insert_task (tc_task c) (p_command p) m ts s = Inr s1"
    and s2: "s2 = (if queue then queue_new_task (tc_task c) ts s1 else s1)"
    and s3: "(case thread of None \<Rightarrow> Inr s2 | Some th \<Rightarrow> bind_session c th ts s2) = Inr s3"
    and x: "x = ?x" and t: "plannings t = row_put p_command (p_command p) (\<lambda>_. ?x) (plannings s3)"
      "log_and_epoch s3 t"
    unfolding write_materialization_def Let_def
    by (auto simp: res_simps emit_event_snd log_and_epoch_def)
  have 1: "plannings s1 = plannings s" "log_and_epoch s s1"
    using insert_task_frame [OF s1] by simp_all
  have 2: "plannings s2 = plannings s1" "log_and_epoch s1 s2"
    unfolding s2 using queue_new_task_frame by simp_all
  have 3: "plannings s3 = plannings s2" "log_and_epoch s2 s3"
    using s3 by (auto dest: bind_session_frame split: option.splits)
  have "log_and_epoch s t" using 1(2) 2(2) 3(2) t(2) by (blast intro: log_and_epoch_trans)
  with x t(1) 1(1) 2(1) 3(1) show ?thesis by simp
qed

text \<open>Either nothing changed (a replay), or the running request of this attempt and epoch succeeded.\<close>

lemma materialize_cases:
  assumes "materialize_planning_request sha expand c n e tc ns r queue thread now s = Inr (x, t)"
  obtains (replay) "t = s" and "meta_epoch s = Some e"
    | (settled) p where "meta_epoch s = Some e" and "row_get p_command c (plannings s) = Some p"
      and "p_attempt p = n" and "p_epoch p = e" and "p_state p = PRunning"
      and "x = settled_planning_row p r (utc now)"
      and "plannings t = row_put p_command c (\<lambda>_. x) (plannings s)" and "log_and_epoch s t"
proof -
  from assms obtain m p where epoch: "meta_epoch s = Some e"
    and p: "row_get p_command c (plannings s) = Some p"
    and check: "check_materialization p (tc_task tc) n e = Inr ()"
    and rest: "p_state p = PSucceeded \<and> t = s \<or> p_state p = PRunning
      \<and> write_materialization p tc m r queue thread (utc now) s = Inr (x, t)"
    unfolding materialize_planning_request_def
    by (auto simp: res_simps assert_active_coordinator_def split: if_split_asm)
  have command: "p_command p = c" using pl.look_Some [OF p] by simp
  from rest show ?thesis
  proof
    assume "p_state p = PSucceeded \<and> t = s"
    then show ?thesis using replay epoch by simp
  next
    assume "p_state p = PRunning \<and> write_materialization p tc m r queue thread (utc now) s = Inr (x, t)"
    then have "p_state p = PRunning" and "x = settled_planning_row p r (utc now)"
      and "plannings t = row_put p_command c (\<lambda>_. x) (plannings s)" and "log_and_epoch s t"
      using write_materialization_frame [of p tc m r queue thread "utc now" s x t] command by simp_all
    moreover have "p_attempt p = n" "p_epoch p = e"
      using check by (auto simp: check_materialization_def split: if_splits)
    ultimately show ?thesis using epoch p by - (rule settled; assumption)
  qed
qed

lemma materialize_change:
  assumes "materialize_planning_request sha expand c n e tc ns r queue thread now s = Inr (x, t)"
  shows "table_change (plannings s) (plannings t)"
  using assms
proof (cases rule: materialize_cases)
  case replay
  then show ?thesis by (simp add: table_same)
next
  case (settled p)
  have "row_change p x"
    unfolding settled(6) settled_planning_row_def using settled(5) by (rule change_settle) simp
  with settled(2,7) show ?thesis by (simp add: table_row)
qed

lemma materialize_log:
  assumes "materialize_planning_request sha expand c n e tc ns r queue thread now s = Inr (x, t)"
  shows "log_and_epoch s t"
  using assms by (cases rule: materialize_cases) simp_all

section \<open>The machine\<close>

lemma planning_step_change:
  assumes "planning_step sha s t" and "planning_ok (plannings s)"
  shows "table_change\<^sup>*\<^sup>* (plannings s) (plannings t)"
  using assms
proof cases
  case step_activate
  then show ?thesis by (auto simp: activate_coordinator_def Let_def split: if_splits)
next
  case step_enqueue
  from planning_enqueue_change [OF this] show ?thesis by (rule r_into_rtranclp)
next
  case step_claim
  have "unique_key p_command (plannings s)" using assms(2) by (simp add: planning_ok_def)
  from planning_claim_change [OF step_claim this] show ?thesis by (rule r_into_rtranclp)
next
  case step_complete
  then show ?thesis
    by (auto simp: complete_planning_request_def split: if_splits dest!: planning_settle_change)
next
  case step_fail
  then show ?thesis
    by (auto simp: fail_planning_request_def split: if_splits dest!: planning_settle_change)
next
  case step_retry
  from planning_retry_change [OF this] show ?thesis by (rule r_into_rtranclp)
next
  case step_recover
  then show ?thesis using assms(2) by (rule planning_recover_change)
next
  case step_materialize
  from materialize_change [OF this] show ?thesis by (rule r_into_rtranclp)
next
  case step_other
  then show ?thesis by simp
qed

interpretation planning: invariant_machine
  "\<lambda>s. plannings s = []" "planning_step sha" "\<lambda>s. planning_ok (plannings s)" for sha
proof
  show "plannings s = [] \<Longrightarrow> planning_ok (plannings s)" for s
    by (simp add: planning_ok_def unique_key_def)
  show "planning_step sha s t \<Longrightarrow> planning_ok (plannings s) \<Longrightarrow> planning_ok (plannings t)" for s t
    by (blast dest: planning_step_change table_changes_ok)
qed

lemma planning_step_cases:
  assumes "planning_step sha s t"
  shows "log_and_epoch s t \<or> (\<exists>i m e. activate_coordinator i m s = Inr (e, t))"
  using assms
proof cases
  case step_recover
  then show ?thesis
    using interrupt_fold_log interrupt_fold_meta
    by (auto simp: recover_interrupted_planning_requests_def log_and_epoch_def Let_def)
qed (auto simp: complete_planning_request_def fail_planning_request_def split: if_splits
      dest: enqueue_log claim_log settle_log retry_log materialize_log simp: log_and_epoch_def)

interpretation planning_log: logged_machine "planning_step sha" events for sha
proof
  fix s t assume "planning_step sha s t"
  from planning_step_cases [OF this] show "\<exists>es. events t = events s @ es"
    by (auto simp: log_and_epoch_def activate_coordinator_def Let_def split: if_splits)
qed

interpretation planning_fence: fenced_machine "planning_step sha" current_epoch for sha
proof
  fix s t assume "planning_step sha s t"
  from planning_step_cases [OF this] show "current_epoch s \<le> current_epoch t"
    by (auto simp: log_and_epoch_def current_epoch_def activate_coordinator_def Let_def
        split: if_splits)
qed

lemma planning_run_change:
  "(planning_step sha)\<^sup>*\<^sup>* s t \<Longrightarrow> planning_ok (plannings s) \<Longrightarrow>
   table_change\<^sup>*\<^sup>* (plannings s) (plannings t)"
proof (induction rule: rtranclp_induct)
  case (step u v)
  then have "planning_ok (plannings u)" by (blast intro: table_changes_ok)
  with step show ?case by (blast dest: planning_step_change intro: rtranclp_trans)
qed simp

section \<open>Properties\<close>

lemma demo_steps:
  "planning_step demo_sha empty_store demo_active"
  "planning_step demo_sha demo_active demo_enqueued"
  "planning_step demo_sha demo_enqueued demo_claimed"
  "planning_step demo_sha demo_claimed demo_failed"
  "planning_step demo_sha demo_claimed demo_done"
proof -
  have "\<exists>x. activate_coordinator ''host-1'' ''machine'' empty_store = Inr (x, demo_active)"
    unfolding demo_active_def ranI by code_simp
  then show "planning_step demo_sha empty_store demo_active" by (blast intro: step_activate)
  have "\<exists>x. enqueue_planning_request demo_sha ''cmd'' ''task'' demo_request 10 demo_active
      = Inr (x, demo_enqueued)"
    unfolding demo_enqueued_def ranI by code_simp
  then show "planning_step demo_sha demo_active demo_enqueued" by (blast intro: step_enqueue)
  have "\<exists>x. claim_planning_request 1 20 demo_enqueued = Inr (x, demo_claimed)"
    unfolding demo_claimed_def ranI by code_simp
  then show "planning_step demo_sha demo_enqueued demo_claimed" by (blast intro: step_claim)
  have "\<exists>x. fail_planning_request ''cmd'' 1 1 ''no model'' 30 demo_claimed = Inr (x, demo_failed)"
    unfolding demo_failed_def ranI by code_simp
  then show "planning_step demo_sha demo_claimed demo_failed" by (blast intro: step_fail)
  have "\<exists>x. complete_planning_request ''cmd'' 1 1 (VDict []) 30 demo_claimed = Inr (x, demo_done)"
    unfolding demo_done_def ranI by code_simp
  then show "planning_step demo_sha demo_claimed demo_done" by (blast intro: step_complete)
qed


lemma demo_reachable:
  "reachable (\<lambda>s. plannings s = []) (planning_step demo_sha) demo_claimed"
proof -
  have "reachable (\<lambda>s. plannings s = []) (planning_step demo_sha) empty_store"
    by (rule reachable_start) (simp add: empty_store_def)
  then show ?thesis by (blast intro: reachable_step demo_steps)
qed

lemma demo_run:
  "(planning_step demo_sha)\<^sup>*\<^sup>* demo_enqueued demo_done"
  using demo_steps(3,5) by (simp add: converse_rtranclp_into_rtranclp r_into_rtranclp)

lemma demo_ok: "planning_ok (plannings demo_done)"
  by code_simp

text \<open>
  Property C17. However the planning transactions interleave from an empty ledger, a command id and
  a task id name one request each, and the attempts of a request stay within its own
  \<open>retry_limit\<close>, except that the first attempt is always allowed: the attempts are at most the
  larger of one and the limit, a second attempt exists only where the request carries an integer
  limit that admits it, and a request waiting to be claimed has an attempt left.
\<close>

theorem planning_attempts_bounded:
  assumes "reachable (\<lambda>s. plannings s = []) (planning_step sha) s"
  shows "unique_key p_command (plannings s) \<and> unique_key p_task (plannings s) \<and>
    (\<forall>p \<in> set (plannings s). 0 \<le> p_attempt p \<and> p_attempt p \<le> attempt_cap p \<and>
      (2 \<le> p_attempt p \<longrightarrow> (\<exists>limit. int_of (dget_or (p_request p) ''retry_limit'' (VInt 3)) = Some limit
        \<and> p_attempt p \<le> limit)) \<and>
      (p_state p = PPending \<longrightarrow> p_attempt p < attempt_cap p) \<and>
      (p_state p \<noteq> PPending \<longrightarrow> 1 \<le> p_attempt p))"
proof -
  have ok: "planning_ok (plannings s)" using planning.inv_reachable [OF assms] .
  have "\<exists>limit. int_of (dget_or (p_request p) ''retry_limit'' (VInt 3)) = Some limit \<and> p_attempt p \<le> limit"
    if "p_attempt p \<le> attempt_cap p" "2 \<le> p_attempt p" for p
    using that by (auto simp: attempt_cap_def max_def split: option.splits if_splits)
  with ok show ?thesis
    unfolding planning_ok_def planning_row_ok_def by (fastforce split: if_splits)
qed

theorem planning_attempts_bounded_witness:
  "unique_key p_command (plannings demo_claimed) \<and>
   (\<exists>p \<in> set (plannings demo_claimed). p_attempt p = 1 \<and> attempt_cap p = 2 \<and> p_attempt p \<le> attempt_cap p)"
proof -
  have "\<exists>p \<in> set (plannings demo_claimed). p_attempt p = 1 \<and> attempt_cap p = 2"
    by code_simp
  then show ?thesis using planning_attempts_bounded [OF demo_reachable] by auto
qed

text \<open>
  A planning result is final: once a request has succeeded, or its fate is unknown
  after an interruption, no sequence of operations (recoveries, retries, later coordinators)
  changes its row.
\<close>

theorem planning_outcome_frozen:
  assumes "(planning_step sha)\<^sup>*\<^sup>* s t" and "planning_ok (plannings s)"
    and "p \<in> set (plannings s)" and "p_state p \<in> {PSucceeded, PIndeterminate}"
  shows "p \<in> set (plannings t)"
  using planning_run_change [OF assms(1,2)] assms(2-4) by (rule table_changes_frozen)

theorem planning_outcome_frozen_witness:
  "\<exists>p \<in> set (plannings demo_done). p_state p = PSucceeded \<and>
     p \<in> set (plannings (snd (recover_interrupted_planning_requests 99 demo_done)))"
proof -
  have "\<exists>p \<in> set (plannings demo_done). p_state p = PSucceeded" by code_simp
  then obtain p where p: "p \<in> set (plannings demo_done)" "p_state p = PSucceeded" by blast
  have "planning_step demo_sha demo_done (snd (recover_interrupted_planning_requests 99 demo_done))"
    by (rule step_recover [OF prod.collapse [symmetric]])
  then have "(planning_step demo_sha)\<^sup>*\<^sup>* demo_done
      (snd (recover_interrupted_planning_requests 99 demo_done))" by (rule r_into_rtranclp)
  from planning_outcome_frozen [OF this demo_ok p(1)] p show ?thesis by auto
qed

text \<open>
  Property C19. Enqueueing is idempotent for good: when a command was accepted once, submitting it
  again with the same task and request returns its row and leaves the ledger as it is, whatever
  transactions ran in between (materialization and every transaction that does not write planning
  requests included); submitting it with another request is refused.
\<close>

theorem enqueue_once:
  assumes "enqueue_planning_request sha c k r now s = Inr (x, t)" and "planning_ok (plannings s)"
    and "(planning_step sha)\<^sup>*\<^sup>* t u" and "\<not> blank k'" and "is_dict r'"
  shows "if planning_hash sha k' r' = planning_hash sha k r
    then \<exists>y. enqueue_planning_request sha c k' r' later u = Inr (y, u)
      \<and> p_hash y = p_hash x \<and> p_task y = p_task x \<and> p_request y = p_request x
    else enqueue_planning_request sha c k' r' later u = Inl (CommandConflictError
      ''planning command was already used with a different request'')"
proof -
  have row: "row_get p_command c (plannings t) = Some x" "p_hash x = planning_hash sha k r"
    using enqueue_row [OF assms(1)] by blast+
  have "planning_ok (plannings t)"
    using planning_enqueue_change [OF assms(1)] assms(2) by (rule table_change_ok)
  from table_changes_command [OF planning_run_change [OF assms(3) this] row(1)]
  obtain y where y: "row_get p_command c (plannings u) = Some y" "p_task y = p_task x"
    "p_hash y = p_hash x" "p_request y = p_request x" by blast
  have "\<not> blank c" using assms(1) by (auto simp: enqueue_planning_request_def split: if_splits)
  with y row(2) assms(4,5) show ?thesis by (simp add: enqueue_planning_request_def)
qed

theorem enqueue_once_witness:
  "\<exists>y. enqueue_planning_request demo_sha ''cmd'' ''task'' demo_request 50 demo_done = Inr (y, demo_done)"
proof -
  have ok: "planning_ok (plannings demo_active)" by code_simp
  have "\<exists>x. enqueue_planning_request demo_sha ''cmd'' ''task'' demo_request 10 demo_active
      = Inr (x, demo_enqueued)"
    unfolding demo_enqueued_def ranI by code_simp
  then obtain x where x: "enqueue_planning_request demo_sha ''cmd'' ''task'' demo_request 10 demo_active
      = Inr (x, demo_enqueued)" by blast
  have "\<not> blank ''task''" "is_dict demo_request" by code_simp+
  from enqueue_once [OF x ok demo_run this] show ?thesis by auto
qed

text \<open>
  Property C18. A coordinator that was replaced cannot write planning work: after another
  activation, whatever transactions run in between, a call under the old epoch neither claims a
  request, nor settles one (completion, failure, or the materialization of the planned task, a
  replay of it included), nor queues one for another attempt.
\<close>

theorem replaced_coordinator_fenced:
  assumes "activate_coordinator i m s = Inr (e, t)" and "meta_epoch s = Some old"
    and "(planning_step sha)\<^sup>*\<^sup>* t u"
  shows "settle_planning_request c n old st res er now u = Inl (if n < 1
      then ValueError ''planning attempt must be a positive integer''
      else StateConflictError ''coordinator lease epoch is stale'')
    \<and> claim_planning_request old now u = Inl (StateConflictError ''coordinator lease epoch is stale'')
    \<and> materialize_planning_request sha' expand c n old tc ns result queue thread now u \<noteq> Inr x
    \<and> retry_planning_request c n mx reason old objective now u \<noteq> Inr y"
proof -
  have "old < e" "current_epoch t = e"
    using activate_fences(2) [OF assms(1,2)] assms(1)
    by (auto simp: activate_coordinator_def current_epoch_def Let_def split: if_splits)
  with planning_fence.fence_run [OF assms(3)] have "old < current_epoch u" by simp
  then have stale: "meta_epoch u \<noteq> Some old"
    by (auto simp: current_epoch_def split: option.splits)
  have "materialize_planning_request sha' expand c n old tc ns result queue thread now u \<noteq> Inr x"
  proof
    assume "materialize_planning_request sha' expand c n old tc ns result queue thread now u = Inr x"
    then have "materialize_planning_request sha' expand c n old tc ns result queue thread now u
        = Inr (fst x, snd x)" by simp
    then show False by (cases rule: materialize_cases) (use stale in simp_all)
  qed
  with stale show ?thesis
    by (simp add: settle_planning_request_def claim_planning_request_def retry_planning_request_def
        assert_active_coordinator_def)
qed

theorem replaced_coordinator_fenced_witness:
  "\<exists>e t. activate_coordinator ''host-2'' ''machine'' demo_claimed = Inr (e, t) \<and>
    settle_planning_request ''cmd'' 1 1 PFailed None None 99 t
      = Inl (StateConflictError ''coordinator lease epoch is stale'') \<and>
    (\<forall>tc ns x. materialize_planning_request demo_sha id ''cmd'' 1 1 tc ns (VDict []) True None 99 t \<noteq> Inr x)"
proof -
  have "(case activate_coordinator ''host-2'' ''machine'' demo_claimed of Inl _ \<Rightarrow> False | Inr _ \<Rightarrow> True)"
    by code_simp
  then obtain e t where t: "activate_coordinator ''host-2'' ''machine'' demo_claimed = Inr (e, t)"
    by (auto split: sum.splits)
  have "meta_epoch demo_claimed = Some 1" by code_simp
  note dead = replaced_coordinator_fenced [OF t this rtranclp.rtrancl_refl]
  have "settle_planning_request ''cmd'' 1 1 PFailed None None 99 t
      = Inl (StateConflictError ''coordinator lease epoch is stale'')"
    using dead by simp
  with dead t show ?thesis by blast
qed

lemma interrupt_fold_map:
  "plannings (fold (interrupt_planning now) rows s) =
    map (\<lambda>p. if p_state p = PRunning \<and> p_command p \<in> p_command ` set rows
      then interrupt_planning_row now p else p) (plannings s)"
proof (induction rows arbitrary: s)
  case (Cons r rows)
  show ?case
    unfolding fold_Cons o_apply Cons.IH
    by (auto simp: interrupt_planning_def emit_event_snd row_put_def interrupt_planning_row_def)
qed simp

text \<open>
  Recovery after a restart is complete and exact: every request that was running
  becomes indeterminate with the interruption as its error, every other row is untouched, and the
  count returned is the number of rows changed. In particular nothing is left running.
\<close>

theorem recover_marks_running:
  "recover_interrupted_planning_requests now s = (n, t) \<Longrightarrow>
    plannings t = map (\<lambda>p. if p_state p = PRunning then interrupt_planning_row now p else p)
      (plannings s)
    \<and> n = int (length (filter (\<lambda>p. p_state p = PRunning) (plannings s)))
    \<and> filter (\<lambda>p. p_state p = PRunning) (plannings t) = []"
  by (auto simp: recover_interrupted_planning_requests_def Let_def interrupt_fold_map
      interrupt_planning_row_def filter_empty_conv image_iff)

theorem recover_marks_running_witness:
  "map p_state (plannings demo_claimed) = [PRunning] \<and>
   map p_state (plannings (snd (recover_interrupted_planning_requests 40 demo_claimed))) = [PIndeterminate]"
proof -
  have "map p_state (plannings demo_claimed) = [PRunning]" by code_simp
  then show ?thesis
    using recover_marks_running [OF prod.collapse [symmetric], of 40 demo_claimed]
    by (auto simp: interrupt_planning_row_def)
qed

text \<open>
  A claim takes the oldest pending request and starts one new attempt on it under
  the caller's epoch, and only while no objective waits for a deployment safe point.
\<close>

theorem claim_takes_oldest:
  assumes "claim_planning_request e now s = Inr (Some (row, previous), t)"
  shows "meta_epoch s = Some e \<and> deployment_admission_gate s = None \<and>
    (\<exists>p \<in> set (plannings s). p_state p = PPending \<and>
      (\<forall>q \<in> set (plannings s). p_state q = PPending \<longrightarrow>
        (p_created p, p_command p) \<le> (p_created q, p_command q)) \<and>
      p_command row = p_command p \<and> p_attempt row = p_attempt p + 1 \<and> p_epoch row = e \<and>
      p_state row = PRunning \<and> previous = p_error p \<and>
      plannings t = row_put p_command (p_command p) (\<lambda>_. row) (plannings s))"
proof -
  from assms obtain p where p: "first_by (\<lambda>p. (p_created p, p_command p))
        (filter (\<lambda>p. p_state p = PPending) (plannings s)) = Some p"
    and "meta_epoch s = Some e" and "deployment_admission_gate s = None"
    and row: "row = p\<lparr>p_state := PRunning, p_attempt := p_attempt p + 1, p_epoch := e,
                p_started := Some (utc now), p_settled := None, p_result := None,
                p_error := None, p_updated := utc now\<rparr>" "previous = p_error p"
    and t: "plannings t = row_put p_command (p_command p) (\<lambda>_. row) (plannings s)"
    by (auto simp: claim_planning_request_def res_simps Let_def emit_event_snd
        split: if_splits option.splits)
  moreover from first_by_Some [OF p] have "p \<in> set (plannings s)" "p_state p = PPending"
    "\<forall>q \<in> set (plannings s). p_state q = PPending \<longrightarrow>
        (p_created p, p_command p) \<le> (p_created q, p_command q)" by auto
  ultimately show ?thesis by (intro conjI bexI [of _ p]) simp_all
qed

theorem claim_takes_oldest_witness:
  "\<exists>row t. claim_planning_request 1 20 demo_enqueued = Inr (Some (row, None), t) \<and> p_epoch row = 1"
proof -
  have "(case claim_planning_request 1 20 demo_enqueued of
      Inr (Some (row, None), t) \<Rightarrow> True | _ \<Rightarrow> False)" by code_simp
  then obtain row t where "claim_planning_request 1 20 demo_enqueued = Inr (Some (row, None), t)"
    by (auto split: sum.splits option.splits)
  with claim_takes_oldest [OF this] show ?thesis by blast
qed
end

