(* ===== verification/Delivery_Objective.thy ===== *)
theory Delivery_Objective
  imports Admission "HOL-Library.Option_ord"
begin

text \<open>
  The delivery objective of \<open>store.py\<close>, lines 1068 to 2510: creation, the lease that one
  coordinator holds on it, the durable intent before an external effect, its rollback, the
  fenced receipt that alone advances a stage, and the two ways to wait without spending the
  budget. An \<open>UPDATE\<close> whose compare-and-set repeats a check made earlier in the same
  transaction is the update of the row that passed the check.
\<close>

abbreviation vstage :: "stage \<Rightarrow> pyval" where
  "vstage g \<equiv> VStr (stage_name g)"

definition get_delivery_objective :: "string \<Rightarrow> store \<Rightarrow> objective_row res" where
  "get_delivery_objective objective_id s =
    require (KeyError objective_id) (row_get o_id objective_id (objectives s))"

definition get_delivery_objective_for_task :: "string \<Rightarrow> store \<Rightarrow> objective_row option" where
  "get_delivery_objective_for_task task s = find (\<lambda>r. o_task r = task) (objectives s)"

section \<open>Creation\<close>

definition assert_delivery_task_or_reservation :: "string \<Rightarrow> store \<Rightarrow> unit res" where
  "assert_delivery_task_or_reservation task s =
    (if row_get t_id task (tasks s) = None \<and> find (\<lambda>p. p_task p = task) (plannings s) = None
     then Inl (KeyError task) else Inr ())"

text \<open>\<open>json_extract(spec_json, '$.verifier') = 1\<close>.\<close>

definition json_one :: "pyval \<Rightarrow> bool" where
  "json_one v \<longleftrightarrow> v \<in> {VBool True, VInt 1, VFloat (Fin 1)}"

definition verifier_worktree_unavailable :: "string \<Rightarrow> store \<Rightarrow> bool" where
  "verifier_worktree_unavailable task s = list_ex (\<lambda>a. w_task a = task \<and> w_state a \<noteq> AActive \<and>
     list_ex (\<lambda>n. n_task n = task \<and> n_node n = w_node a \<and> n_attempt n = w_attempt a
       \<and> json_one (dget (n_spec n) ''verifier'')) (nodes s)) (allocations s)"

definition objective_request_hash :: "(pyval \<Rightarrow> string) \<Rightarrow> string \<Rightarrow> pyval \<Rightarrow> string" where
  "objective_request_hash sha task normalized =
    canonical_hash sha (VDict [(''task_id'', VStr task), (''request'', normalized)])"

definition objective_id_of :: "(pyval \<Rightarrow> string) \<Rightarrow> string \<Rightarrow> string \<Rightarrow> string" where
  "objective_id_of sha task request_hash = ''delivery-objective-'' @ take 24
    (canonical_hash sha (VDict [(''task_id'', VStr task), (''request_hash'', VStr request_hash)]))"

text \<open>The row \<open>create_delivery_objective\<close> inserts, with the progress it writes after the event.\<close>

definition new_objective_row ::
  "string \<Rightarrow> string \<Rightarrow> string \<Rightarrow> string \<Rightarrow> pyval \<Rightarrow> stamp \<Rightarrow> stamp \<Rightarrow> int \<Rightarrow> int \<Rightarrow> objective_row" where
  "new_objective_row objective_id command task request_hash normalized due wakeup cursor now =
    \<lparr>o_id = objective_id, o_command = command, o_task = task, o_hash = request_hash,
     o_request = canonical_json normalized, o_state = OActive, o_stage = Plan, o_attempt = 1,
     o_revision = 1, o_next_action = canonical_json (dget normalized ''next_action''),
     o_owner = None, o_epoch = 0, o_lease = 0, o_expires = None, o_due = due,
     o_wakeup = Some wakeup, o_progress_at = utc now,
     o_progress = canonical_json (VDict [(''kind'', VStr ''delivery-objective-created''),
       (''stage'', VStr ''plan''), (''next_action'', dget normalized ''next_action''),
       (''event_cursor'', VInt cursor)]),
     o_wait = None, o_budget = canonical_json (dget normalized ''budget''),
     o_evidence = canonical_json (dget normalized ''evidence_fingerprints''),
     o_identities = canonical_json (dget normalized ''identities''),
     o_created = utc now, o_updated = utc now\<rparr>"

definition create_delivery_objective ::
  "(pyval \<Rightarrow> string) \<Rightarrow> string \<Rightarrow> string \<Rightarrow> pyval \<Rightarrow> int \<Rightarrow> store \<Rightarrow> (objective_row \<times> store) res" where
  "create_delivery_objective sha task command request now s =
    (if blank task then Inl (ValueError ''delivery objective task_id is required'')
     else if blank command then Inl (ValueError ''delivery objective command_id is required'')
     else bindR (normalize_objective_request request) (\<lambda>normalized.
       bindR (normalize_timestamp (dget request ''due_at'') ''due_at'' False) (\<lambda>due_at.
       bindR (normalize_timestamp (dget request ''next_wakeup_at'') ''next_wakeup_at'' False) (\<lambda>wakeup_at.
       bindR (normalize_budget (dget normalized ''budget'')) (\<lambda>budget.
       let request_hash = objective_request_hash sha task normalized;
           objective_id = objective_id_of sha task request_hash;
           due = (case due_at of Some t \<Rightarrow> t | None \<Rightarrow> stamp_after (utc now) (time_budget_seconds budget));
           wakeup = (case wakeup_at of Some t \<Rightarrow> t | None \<Rightarrow> utc now)
       in bindR (assert_delivery_task_or_reservation task s) (\<lambda>_.
          case find (\<lambda>r. o_command r = command) (objectives s) of
            Some existing \<Rightarrow>
              if o_task existing \<noteq> task \<or> o_hash existing \<noteq> request_hash
              then Inl (CommandConflictError
                ''delivery objective command was already used with a different request'')
              else Inr (existing, s)
          | None \<Rightarrow> (case find (\<lambda>r. o_task r = task) (objectives s) of
              Some existing \<Rightarrow>
                if o_hash existing \<noteq> request_hash
                then Inl (StateConflictError ''task already has an immutable delivery objective'')
                else Inr (existing, s)
            | None \<Rightarrow>
                if verifier_worktree_unavailable task s
                then Inl (StateConflictError
                  ''restore the verifier worktree before creating a delivery objective'')
                else let (cursor, s1) = emit_event ''delivery_objective.created'' (Some task) None
                    [(''objective_id'', VStr objective_id), (''command_id'', VStr command),
                     (''request_hash'', VStr request_hash), (''stage'', VStr ''plan''),
                     (''stage_attempt'', VInt 1), (''state_revision'', VInt 1),
                     (''next_wakeup_at'', VStr (iso_show wakeup))] (utc now) s;
                  row = new_objective_row objective_id command task request_hash normalized due
                    wakeup cursor now
                in bindR (row_add o_id row (objectives s1)) (\<lambda>t. Inr (row, s1\<lparr>objectives := t\<rparr>)))))))))"

section \<open>The lease\<close>

text \<open>The rows a periodic tick considers; the columns are compared as text.\<close>

definition objective_listed :: "stamp \<Rightarrow> (string \<times> int) option \<Rightarrow> objective_row \<Rightarrow> bool" where
  "objective_listed ts owner r \<longleftrightarrow> o_state r \<in> {OActive, OWaiting}
     \<and> (case o_wakeup r of None \<Rightarrow> False | Some w \<Rightarrow> w \<le> ts)
     \<and> (o_state r \<noteq> OActive \<or> o_owner r = None
        \<or> (case o_expires r of None \<Rightarrow> True | Some e \<Rightarrow> e \<le> ts)
        \<or> (case owner of None \<Rightarrow> False | Some (i, e) \<Rightarrow> o_owner r = Some i \<and> o_epoch r = e))"

definition list_due_delivery_objectives ::
  "stamp \<Rightarrow> int \<Rightarrow> (string \<times> int) option \<Rightarrow> store \<Rightarrow> objective_row list res" where
  "list_due_delivery_objectives ts limit owner s =
    (if limit < 1 then Inl (ValueError ''delivery objective limit must be positive'')
     else if (case owner of None \<Rightarrow> False | Some (i, _) \<Rightarrow> blank i)
     then Inl (ValueError ''delivery objective owner_id must be a non-empty string or null'')
     else if (case owner of None \<Rightarrow> False | Some (_, e) \<Rightarrow> e \<le> 0)
     then Inl (ValueError ''delivery objective coordinator_epoch must be positive or null'')
     else Inr (take (nat limit) (sort_key (\<lambda>r. (o_wakeup r, o_due r, o_id r))
       (filter (objective_listed ts owner) (objectives s)))))"

fun recorded_worker_running :: "store \<Rightarrow> pyval list \<Rightarrow> bool res" where
  "recorded_worker_running s [] = Inr False"
| "recorded_worker_running s (blocker # rest) =
    (if \<not> is_dict blocker
     then Inl (StateConflictError ''deployment safe-point blocker is invalid'')
     else if list_ex (\<lambda>n. VStr (n_task n) = dget blocker ''task_id'' \<and> VStr (n_node n) = dget blocker ''node_id''
         \<and> n_state n = NRunning \<and> py_eq (VInt (n_attempt n)) (dget blocker ''attempt'')) (nodes s)
     then Inr True
     else recorded_worker_running s rest)"

text \<open>Whether a row waiting for a safe point is to be woken.\<close>

definition safe_point_drained :: "store \<Rightarrow> objective_row \<Rightarrow> pyval \<Rightarrow> bool res" where
  "safe_point_drained s r wait =
    (if \<not> is_dict wait then Inl (AttributeErr ''get'')
     else if kind_of wait \<noteq> VStr ''active-workers-draining'' then Inr False
     else (case dget wait ''blockers'' of
        VList recorded \<Rightarrow>
          if is_true (dget wait ''safe_point_ready'') then Inr False
          else bindR (deployment_blockers s r) (\<lambda>blockers.
               bindR (recorded_worker_running s recorded) (\<lambda>running.
                 Inr (blockers = [] \<and> \<not> running)))
      | _ \<Rightarrow> Inl (StateConflictError ''deployment safe-point blockers are invalid'')))"

definition safe_point_ready_row :: "int \<Rightarrow> int \<Rightarrow> pyval \<Rightarrow> objective_row \<Rightarrow> objective_row" where
  "safe_point_ready_row now cursor wait r = r\<lparr>o_wakeup := Some (utc now), o_progress_at := utc now,
     o_progress := canonical_json (VDict
       [(''kind'', VStr ''delivery_objective.deployment_safe_point_ready''),
        (''event_cursor'', VInt cursor), (''stage'', VStr ''deploy''), (''attempt'', VInt (o_attempt r))]),
     o_wait := Some (canonical_json (VDict (dict_set ''safe_point_ready'' (VBool True) (items_of wait)))),
     o_updated := utc now\<rparr>"

definition wake_safe_point :: "int \<Rightarrow> objective_row \<Rightarrow> store \<Rightarrow> (bool \<times> store) res" where
  "wake_safe_point now r s = (case o_wait r of
      None \<Rightarrow> Inr (False, s)
    | Some wait \<Rightarrow> bindR (safe_point_drained s r wait) (\<lambda>drained.
        if \<not> drained then Inr (False, s)
        else let (cursor, s1) = emit_event ''delivery_objective.deployment_safe_point_ready''
               (Some (o_task r)) None
               [(''objective_id'', VStr (o_id r)), (''stage'', VStr ''deploy''),
                (''attempt'', VInt (o_attempt r)), (''state_revision'', VInt (o_revision r)),
                (''next_wakeup_at'', VStr (iso_show (utc now)))] (utc now) s
          in Inr (True, s1\<lparr>objectives := row_put o_id (o_id r) (safe_point_ready_row now cursor wait)
               (objectives s1)\<rparr>)))"

fun wake_safe_points :: "int \<Rightarrow> objective_row list \<Rightarrow> store \<Rightarrow> (int \<times> store) res" where
  "wake_safe_points now [] s = Inr (0, s)"
| "wake_safe_points now (r # rows) s =
    bindR (wake_safe_point now r s) (\<lambda>(woken, s1).
      bindR (wake_safe_points now rows s1) (\<lambda>(n, s2). Inr (n + (if woken then 1 else 0), s2)))"

definition reconcile_delivery_safe_point_waits :: "int \<Rightarrow> store \<Rightarrow> (int \<times> store) res" where
  "reconcile_delivery_safe_point_waits now s = wake_safe_points now
     (filter (\<lambda>r. o_state r = OWaiting \<and> o_stage r = Deploy \<and> o_wait r \<noteq> None) (objectives s)) s"

text \<open>A recorded safe point that is not ready is no permission to interrupt a worker.\<close>

definition still_draining :: "objective_row \<Rightarrow> bool" where
  "still_draining r \<longleftrightarrow> o_state r = OWaiting \<and> (case o_wait r of None \<Rightarrow> False | Some w \<Rightarrow>
     is_dict w \<and> kind_of w = VStr ''active-workers-draining'' \<and> \<not> is_true (dget w ''safe_point_ready''))"

definition held_lease :: "objective_row \<Rightarrow> stamp \<Rightarrow> bool" where
  "held_lease r ts \<longleftrightarrow> o_state r = OActive \<and> o_owner r \<noteq> None \<and> o_expires r \<noteq> None
     \<and> \<not> stamp_due (o_expires r) ts"

definition claimed_row :: "string \<Rightarrow> int \<Rightarrow> int \<Rightarrow> int \<Rightarrow> int \<Rightarrow> objective_row \<Rightarrow> objective_row" where
  "claimed_row owner epoch lease lease_seconds now r = r\<lparr>o_state := OActive,
     o_revision := o_revision r + 1, o_owner := Some owner, o_epoch := epoch, o_lease := lease,
     o_expires := Some (stamp_after (utc now) lease_seconds), o_wakeup := Some (utc now),
     o_wait := None, o_updated := utc now\<rparr>"

definition claim_delivery_objective ::
  "string \<Rightarrow> string \<Rightarrow> int \<Rightarrow> int \<Rightarrow> int \<Rightarrow> int \<Rightarrow> store \<Rightarrow> (objective_row option \<times> store) res" where
  "claim_delivery_objective objective_id owner epoch expected lease_seconds now s0 =
    (if blank owner then Inl (ValueError ''delivery objective owner_id is required'')
     else if expected < 1 then Inl (ValueError ''delivery objective expected_revision must be positive'')
     else if lease_seconds < 1 \<or> 3600 < lease_seconds
     then Inl (ValueError ''delivery objective lease_seconds must be between 1 and 3600'')
     else bindR (assert_active_coordinator epoch s0) (\<lambda>_.
       bindR (reconcile_delivery_safe_point_waits now s0) (\<lambda>(_, s).
       bindR (require (KeyError objective_id) (row_get o_id objective_id (objectives s))) (\<lambda>r.
       if o_revision r \<noteq> expected
       then Inl (StateConflictError ''expected another delivery objective revision'')
       else if o_state r \<in> {OComplete, OCancelled, ONeedsDecision} then Inr (None, s)
       else if still_draining r then Inr (None, s)
       else if \<not> stamp_due (o_wakeup r) (utc now) then Inr (None, s)
       else if held_lease r (utc now)
       then (if o_owner r = Some owner \<and> o_epoch r = epoch then Inr (Some r, s)
             else Inl (StateConflictError ''delivery objective is leased by another owner''))
       else let (lease, s1) = next_delivery_lease_epoch s;
                claimed = claimed_row owner epoch lease lease_seconds now r
       in Inr (Some claimed, snd (emit_event ''delivery_objective.claimed'' (Some (o_task r)) None
            [(''objective_id'', VStr objective_id), (''owner_id'', VStr owner),
             (''coordinator_epoch'', VInt epoch), (''lease_epoch'', VInt lease),
             (''state_revision'', VInt (o_revision r + 1)), (''stage'', vstage (o_stage r)),
             (''stage_attempt'', VInt (o_attempt r)),
             (''lease_expires_at'', VStr (iso_show (stamp_after (utc now) lease_seconds)))]
            (utc now)
            (s1\<lparr>objectives := row_put o_id objective_id (\<lambda>_. claimed) (objectives s1)\<rparr>)))))))"

definition renew_delivery_objective_lease ::
  "string \<Rightarrow> int \<Rightarrow> int \<Rightarrow> int \<Rightarrow> int \<Rightarrow> int \<Rightarrow> store \<Rightarrow> (objective_row \<times> store) res" where
  "renew_delivery_objective_lease objective_id epoch lease expected lease_seconds now s =
    (if expected < 1 then Inl (ValueError ''delivery objective expected_revision must be positive'')
     else if lease_seconds < 1 \<or> 3600 < lease_seconds
     then Inl (ValueError ''delivery objective lease_seconds must be between 1 and 3600'')
     else bindR (require (KeyError objective_id) (row_get o_id objective_id (objectives s))) (\<lambda>r.
       if o_revision r \<noteq> expected
       then Inl (StateConflictError ''expected another delivery objective revision'')
       else bindR (assert_objective_lease s r epoch lease (utc now)) (\<lambda>_.
       let renewed = r\<lparr>o_revision := expected + 1,
             o_expires := Some (stamp_after (utc now) lease_seconds), o_updated := utc now\<rparr>
       in Inr (renewed, snd (emit_event ''delivery_objective.lease_renewed'' (Some (o_task r)) None
            [(''objective_id'', VStr objective_id), (''coordinator_epoch'', VInt epoch),
             (''lease_epoch'', VInt lease), (''state_revision'', VInt (expected + 1)),
             (''lease_expires_at'', VStr (iso_show (stamp_after (utc now) lease_seconds)))]
            (utc now)
            (s\<lparr>objectives := row_put o_id objective_id (\<lambda>_. renewed) (objectives s)\<rparr>))))))"

section \<open>Intents and rollbacks\<close>

definition dispatch_request_hash :: "(pyval \<Rightarrow> string) \<Rightarrow> objective_row \<Rightarrow> stage \<Rightarrow> int \<Rightarrow> string" where
  "dispatch_request_hash sha r g attempt = canonical_hash sha (VDict
    [(''objective_id'', VStr (o_id r)), (''objective_request_hash'', VStr (o_hash r)),
     (''stage'', vstage g), (''attempt'', VInt attempt)])"

definition stage_dispatch :: "string \<Rightarrow> stage \<Rightarrow> int \<Rightarrow> store \<Rightarrow> dispatch_row option" where
  "stage_dispatch objective_id g attempt s =
    find (\<lambda>d. d_objective d = objective_id \<and> d_stage d = g \<and> d_attempt d = attempt) (dispatches s)"

definition get_delivery_stage_dispatch :: "string \<Rightarrow> string \<Rightarrow> int \<Rightarrow> store \<Rightarrow> dispatch_row option" where
  "get_delivery_stage_dispatch objective_id g attempt s = find (\<lambda>d. d_objective d = objective_id
     \<and> stage_name (d_stage d) = g \<and> d_attempt d = attempt) (dispatches s)"

text \<open>A rollout starts only when no other rollout holds admission and all work has drained.\<close>

definition deployment_admitted :: "objective_row \<Rightarrow> store \<Rightarrow> unit res" where
  "deployment_admitted r s =
    (if (case deployment_admission_gate s of None \<Rightarrow> False | Some g \<Rightarrow> o_id g \<noteq> o_id r)
     then Inl (DeliveryAdmissionBusy ''authority work is still active'')
     else bindR (deployment_blockers s r) (\<lambda>blockers.
       if blockers \<noteq> [] then Inl (DeliveryAdmissionBusy ''authority work is still active'')
       else Inr ()))"

text \<open>The checks of \<open>begin_delivery_stage_dispatch\<close>: the objective and the stage to start.\<close>

definition dispatch_fence ::
  "string \<Rightarrow> string \<Rightarrow> int \<Rightarrow> int \<Rightarrow> int \<Rightarrow> int \<Rightarrow> string \<Rightarrow> int \<Rightarrow> store \<Rightarrow> (objective_row \<times> stage) res" where
  "dispatch_fence objective_id stage_text attempt expected epoch lease adapter now s =
    bindR (normalize_stage (VStr stage_text)) (\<lambda>g.
    if attempt < 1 then Inl (ValueError ''delivery stage dispatch attempt must be positive'')
    else if expected < 1
    then Inl (ValueError ''delivery stage dispatch expected_revision must be positive'')
    else if blank adapter then Inl (ValueError ''delivery stage dispatch adapter_name is required'')
    else bindR (require (KeyError objective_id) (row_get o_id objective_id (objectives s))) (\<lambda>r.
      bindR (assert_objective_lease s r epoch lease (utc now)) (\<lambda>_.
      if o_revision r \<noteq> expected
      then Inl (StateConflictError ''expected another delivery objective revision'')
      else bindR (required_delivery_stages (o_request r)) (\<lambda>stages.
      if g \<notin> set stages
      then Inl (StateConflictError ''delivery stage was not explicitly requested'')
      else if o_stage r \<noteq> g \<or> o_attempt r \<noteq> attempt
      then Inl (StateConflictError ''delivery stage dispatch is stale for the current stage attempt'')
      else bindR (if g = Deploy then deployment_admitted r s else Inr ()) (\<lambda>_. Inr (r, g))))))"

definition dispatch_id_of :: "string \<Rightarrow> string" where
  "dispatch_id_of request_hash = ''delivery-dispatch-'' @ take 24 request_hash"

definition new_dispatch_row ::
  "(pyval \<Rightarrow> string) \<Rightarrow> objective_row \<Rightarrow> stage \<Rightarrow> string \<Rightarrow> int \<Rightarrow> dispatch_row" where
  "new_dispatch_row sha r g adapter now = \<lparr>d_id = dispatch_id_of (dispatch_request_hash sha r g (o_attempt r)),
     d_objective = o_id r, d_task = o_task r, d_stage = g, d_attempt = o_attempt r,
     d_hash = dispatch_request_hash sha r g (o_attempt r), d_adapter = strip adapter,
     d_state = DStarted, d_receipt = None, d_rollback = None, d_rollback_receipt = None,
     d_created = utc now, d_updated = utc now\<rparr>"

text \<open>The insert of a new intent, with the objective's progress.\<close>

definition start_stage_dispatch ::
  "dispatch_row \<Rightarrow> int \<Rightarrow> store \<Rightarrow> ((dispatch_row \<times> bool) \<times> store) res" where
  "start_stage_dispatch row now s = bindR (row_add d_id row (dispatches s)) (\<lambda>t.
    let (cursor, s1) = emit_event ''delivery_objective.stage_dispatched'' (Some (d_task row)) None
          [(''objective_id'', VStr (d_objective row)), (''dispatch_id'', VStr (d_id row)),
           (''stage'', vstage (d_stage row)), (''attempt'', VInt (d_attempt row)),
           (''adapter_name'', VStr (d_adapter row))] (utc now) (s\<lparr>dispatches := t\<rparr>);
        progress = VDict [(''kind'', VStr ''delivery_objective.stage_dispatched''),
          (''event_cursor'', VInt cursor), (''dispatch_id'', VStr (d_id row)),
          (''stage'', vstage (d_stage row)), (''attempt'', VInt (d_attempt row))]
    in Inr ((row, True), s1\<lparr>objectives := row_put o_id (d_objective row)
         (\<lambda>x. x\<lparr>o_progress_at := utc now, o_progress := canonical_json progress,
            o_updated := utc now\<rparr>) (objectives s1)\<rparr>))"

text \<open>The result says whether the intent is new, that is whether the effect may be invoked.\<close>

definition begin_delivery_stage_dispatch ::
  "(pyval \<Rightarrow> string) \<Rightarrow> string \<Rightarrow> string \<Rightarrow> int \<Rightarrow> int \<Rightarrow> int \<Rightarrow> int \<Rightarrow> string \<Rightarrow> int \<Rightarrow> store
    \<Rightarrow> ((dispatch_row \<times> bool) \<times> store) res" where
  "begin_delivery_stage_dispatch sha objective_id stage_text attempt expected epoch lease adapter now s =
    bindR (dispatch_fence objective_id stage_text attempt expected epoch lease adapter now s) (\<lambda>(r, g).
    let row = new_dispatch_row sha r g adapter now
    in case stage_dispatch objective_id g attempt s of
      Some existing \<Rightarrow>
        if d_hash existing \<noteq> d_hash row \<or> d_id existing \<noteq> d_id row
        then Inl (StateConflictError ''delivery stage dispatch identity conflicts with prior intent'')
        else Inr ((existing, False), s)
    | None \<Rightarrow> start_stage_dispatch row now s)"

definition begin_delivery_stage_rollback ::
  "string \<Rightarrow> int \<Rightarrow> int \<Rightarrow> int \<Rightarrow> store \<Rightarrow> ((dispatch_row \<times> bool) \<times> store) res" where
  "begin_delivery_stage_rollback dispatch_id epoch lease now s =
    (if blank dispatch_id then Inl (ValueError ''delivery rollback dispatch_id is required'')
     else bindR (require (KeyError dispatch_id) (row_get d_id dispatch_id (dispatches s))) (\<lambda>d.
       bindR (require (KeyError dispatch_id) (row_get o_id (d_objective d) (objectives s))) (\<lambda>r.
       bindR (assert_objective_lease s r epoch lease (utc now)) (\<lambda>_.
       if d_stage d \<noteq> Deploy
       then Inl (StateConflictError ''only a deployment dispatch can roll back'')
       else if d_rollback d \<noteq> None then Inr ((d, False), s)
       else let d' = d\<lparr>d_rollback := Some DStarted, d_updated := utc now\<rparr>
       in Inr ((d', True), snd (emit_event ''delivery_objective.rollback_dispatched'' (Some (d_task d)) None
            [(''objective_id'', VStr (d_objective d)), (''dispatch_id'', VStr dispatch_id)] (utc now)
            (s\<lparr>dispatches := row_put d_id dispatch_id (\<lambda>_. d') (dispatches s)\<rparr>)))))))"

definition settle_delivery_stage_rollback ::
  "string \<Rightarrow> int \<Rightarrow> int \<Rightarrow> pyval \<Rightarrow> int \<Rightarrow> store \<Rightarrow> (dispatch_row \<times> store) res" where
  "settle_delivery_stage_rollback dispatch_id epoch lease receipt now s =
    (if \<not> is_dict receipt \<or> \<not> is_true (dget receipt ''verified'')
     then Inl (ValueError ''delivery rollback receipt must explicitly verify rollback'')
     else if \<not> json_safe receipt
     then Inl (ValueError ''delivery rollback receipt must be JSON-safe'')
     else bindR (require (KeyError dispatch_id) (row_get d_id dispatch_id (dispatches s))) (\<lambda>d.
       bindR (require (IntegrityError ''objective'') (row_get o_id (d_objective d) (objectives s))) (\<lambda>r.
       bindR (assert_objective_lease s r epoch lease (utc now)) (\<lambda>_.
       if d_rollback d = Some DSettled
       then (if (case d_rollback_receipt d of None \<Rightarrow> True | Some x \<Rightarrow> \<not> py_eq x receipt)
             then Inl (StateConflictError ''delivery rollback receipt conflicts with prior verified rollback'')
             else Inr (d, s))
       else if d_rollback d \<noteq> Some DStarted
       then Inl (StateConflictError ''delivery rollback was not durably dispatched'')
       else let d' = d\<lparr>d_rollback := Some DSettled, d_rollback_receipt := Some (canonical_json receipt),
              d_updated := utc now\<rparr>
       in Inr (d', snd (emit_event ''delivery_objective.rollback_verified'' (Some (d_task d)) None
            [(''objective_id'', VStr (d_objective d)), (''dispatch_id'', VStr dispatch_id),
             (''receipt'', receipt)] (utc now)
            (s\<lparr>dispatches := row_put d_id dispatch_id (\<lambda>_. d') (dispatches s)\<rparr>)))))))"

section \<open>Waiting without a retry\<close>

definition observation_fence ::
  "string \<Rightarrow> int \<Rightarrow> int \<Rightarrow> int \<Rightarrow> string option \<Rightarrow> int \<Rightarrow> store \<Rightarrow> objective_row res" where
  "observation_fence objective_id expected epoch lease dispatch_id now s =
    bindR (require (KeyError objective_id) (row_get o_id objective_id (objectives s))) (\<lambda>r.
    bindR (assert_objective_lease s r epoch lease (utc now)) (\<lambda>_.
    if o_revision r \<noteq> expected
    then Inl (StateConflictError ''delivery observation revision is stale'')
    else (case dispatch_id of
        None \<Rightarrow>
          if o_stage r \<noteq> Deploy \<or> stage_dispatch objective_id Deploy (o_attempt r) s \<noteq> None
          then Inl (StateConflictError ''only an undispatched rollout may wait without intent'')
          else Inr r
      | Some d_key \<Rightarrow> (case row_get d_id d_key (dispatches s) of
            None \<Rightarrow> Inl (StateConflictError ''delivery observation has no current unsettled dispatch'')
          | Some d \<Rightarrow>
              if d_objective d \<noteq> objective_id \<or> d_stage d \<noteq> o_stage r \<or> d_attempt d \<noteq> o_attempt r
                 \<or> d_state d \<noteq> DStarted
              then Inl (StateConflictError ''delivery observation has no current unsettled dispatch'')
              else Inr r))))"

definition observation_of :: "objective_row \<Rightarrow> string option \<Rightarrow> pyval \<Rightarrow> items" where
  "observation_of r dispatch_id wait =
    [(''kind'', VStr ''delivery_objective.observation_waiting''), (''stage'', vstage (o_stage r)),
     (''dispatch_id'', opt_str dispatch_id), (''reason'', wait)]"

text \<open>
  Only an observation that differs from the last progress is logged and counts as progress; the
  result is the progress to store, its time, and the ledger.
\<close>

definition log_observation ::
  "objective_row \<Rightarrow> items \<Rightarrow> stamp \<Rightarrow> int \<Rightarrow> store \<Rightarrow> (pyval \<times> stamp) \<times> store" where
  "log_observation r observation wakeup now s =
    (if list_ex (\<lambda>(k, v). \<not> py_eq (dget (o_progress r) k) v) observation
     then let (cursor, s1) = emit_event ''delivery_objective.observation_waiting'' (Some (o_task r)) None
            ((''objective_id'', VStr (o_id r)) # observation
              @ [(''next_wakeup_at'', VStr (iso_show wakeup))]) (utc now) s
       in ((canonical_json (VDict (observation @ [(''event_cursor'', VInt cursor)])), utc now), s1)
     else ((o_progress r, o_progress_at r), s))"

definition observing_row ::
  "pyval \<Rightarrow> string option \<Rightarrow> stamp \<Rightarrow> pyval \<times> stamp \<Rightarrow> int \<Rightarrow> objective_row \<Rightarrow> objective_row" where
  "observing_row wait dispatch_id wakeup progress now r =
    r\<lparr>o_state := OWaiting, o_revision := o_revision r + 1, o_owner := None, o_epoch := 0,
      o_lease := 0, o_expires := None, o_wakeup := Some wakeup,
      o_next_action := canonical_json (VDict [(''action'', VStr ''reconcile_pending_observation''),
        (''stage'', vstage (o_stage r)), (''dispatch_id'', opt_str dispatch_id),
        (''retry_after'', VStr (iso_show wakeup))]),
      o_wait := Some (canonical_json wait), o_progress := fst progress,
      o_progress_at := snd progress, o_updated := utc now\<rparr>"

definition observation_wakeup :: "stamp option \<Rightarrow> int \<Rightarrow> stamp" where
  "observation_wakeup requested now = (case requested of
      None \<Rightarrow> stamp_after (utc now) 5
    | Some t \<Rightarrow> if stamp_due (Some t) (utc now) then stamp_after (utc now) 5 else t)"

definition defer_delivery_observation ::
  "string \<Rightarrow> int \<Rightarrow> int \<Rightarrow> int \<Rightarrow> pyval \<Rightarrow> pyval \<Rightarrow> string option \<Rightarrow> int \<Rightarrow> store
    \<Rightarrow> (objective_row \<times> store) res" where
  "defer_delivery_observation objective_id expected epoch lease reason wakeup_at dispatch_id now s =
    bindR (normalize_wait_reason reason None) (\<lambda>wait.
    bindR (normalize_timestamp wakeup_at ''next_wakeup_at'' False) (\<lambda>requested.
    bindR (observation_fence objective_id expected epoch lease dispatch_id now s) (\<lambda>r.
    let wakeup = observation_wakeup requested now;
        (progress, s1) = log_observation r (observation_of r dispatch_id wait) wakeup now s;
        r' = observing_row wait dispatch_id wakeup progress now r
    in Inr (r', s1\<lparr>objectives := row_put o_id objective_id (\<lambda>_. r') (objectives s1)\<rparr>))))"

definition safe_point_waiting_row :: "int \<Rightarrow> int \<Rightarrow> pyval list \<Rightarrow> objective_row \<Rightarrow> objective_row" where
  "safe_point_waiting_row now cursor blockers r = (let wakeup = stamp_after (utc now) 5 in
     r\<lparr>o_state := OWaiting, o_revision := o_revision r + 1, o_owner := None, o_epoch := 0,
       o_lease := 0, o_expires := None, o_wakeup := Some wakeup,
       o_next_action := canonical_json (VDict [(''action'', VStr ''wait_for_active_workers_to_drain''),
         (''stage'', VStr ''deploy''),
         (''trigger'', VStr ''worker_settlement_or_bounded_reconciliation''),
         (''retry_after'', VStr (iso_show wakeup))]),
       o_progress_at := utc now,
       o_progress := canonical_json (VDict
         [(''kind'', VStr ''delivery_objective.deployment_safe_point_waiting''),
          (''event_cursor'', VInt cursor), (''stage'', VStr ''deploy''),
          (''attempt'', VInt (o_attempt r)), (''blocker_count'', VInt (int (length blockers)))]),
       o_wait := Some (canonical_json (VDict [(''kind'', VStr ''active-workers-draining''),
         (''detail'', VStr ''deployment waits for all authority work to reach a safe point''),
         (''blockers'', VList blockers), (''due_at'', VStr (iso_show (o_due r)))])),
       o_updated := utc now\<rparr>)"

definition defer_delivery_deployment_safe_point ::
  "string \<Rightarrow> int \<Rightarrow> int \<Rightarrow> int \<Rightarrow> pyval list \<Rightarrow> int \<Rightarrow> store \<Rightarrow> (objective_row \<times> store) res" where
  "defer_delivery_deployment_safe_point objective_id expected epoch lease blockers now s =
    (if blockers = []
     then Inl (ValueError ''deployment safe-point wait requires active worker blockers'')
     else if expected < 1
     then Inl (ValueError ''delivery safe-point expected_revision must be positive'')
     else bindR (require (KeyError objective_id) (row_get o_id objective_id (objectives s))) (\<lambda>r.
       bindR (assert_objective_lease s r epoch lease (utc now)) (\<lambda>_.
       if o_revision r \<noteq> expected
       then Inl (StateConflictError ''expected another delivery objective revision'')
       else if o_stage r \<noteq> Deploy
       then Inl (StateConflictError ''only deployment may wait for a rollout safe point'')
       else bindR (deployment_blockers s r) (\<lambda>actual.
       if actual = []
       then Inl (StateConflictError ''deployment workers already drained; claim the stage instead'')
       else let (cursor, s1) = emit_event ''delivery_objective.deployment_safe_point_waiting''
                (Some (o_task r)) None
                [(''objective_id'', VStr objective_id), (''stage'', VStr ''deploy''),
                 (''attempt'', VInt (o_attempt r)), (''state_revision'', VInt (expected + 1)),
                 (''blockers'', VList actual),
                 (''next_wakeup_at'', VStr (iso_show (stamp_after (utc now) 5)))] (utc now) s;
              r' = safe_point_waiting_row now cursor actual r
       in Inr (r', s1\<lparr>objectives := row_put o_id objective_id (\<lambda>_. r') (objectives s1)\<rparr>)))))"

end
