(* ===== verification/Delivery_Receipt.thy ===== *)
theory Delivery_Receipt
  imports Delivery_Objective
begin

text \<open>
  \<open>record_delivery_stage_receipt\<close> (\<open>store.py\<close> lines 1729 to 2144), the operation that alone
  moves an objective from stage to stage. \<open>check_report\<close> is the validation of the arguments,
  \<open>receipt_fence\<close> the fence, \<open>success_step\<close> and \<open>failure_step\<close> decide what follows, and
  \<open>apply_receipt\<close> writes the rows.
\<close>

section \<open>The report\<close>

record stage_report =
  rep_stage :: string
  rep_attempt :: int
  rep_expected :: int
  rep_epoch :: int
  rep_lease :: int
  rep_state :: "string option"
  rep_status :: "string option"
  rep_receipt :: "pyval option"
  rep_payload :: "pyval option"
  rep_evidence :: "string option"
  rep_identities :: pyval
  rep_failure :: pyval
  rep_retry :: bool
  rep_cost :: pyval
  rep_wakeup :: pyval
  rep_dispatch :: "string option"

record checked_report =
  k_stage :: stage
  k_state :: receipt_state
  k_body :: pyval
  k_identities :: items
  k_failure :: "pyval option"
  k_wakeup :: "stamp option"
  k_cost :: rat
  k_hash :: string

definition receipt_state_of_name :: "string \<Rightarrow> receipt_state option" where
  "receipt_state_of_name n = find (\<lambda>x. receipt_state_name x = n)
     [RSucceeded, RFailed, RBlocked, RIndeterminate, RDenied]"

definition report_state :: "stage_report \<Rightarrow> receipt_state res" where
  "report_state rep =
    (if rep_state rep \<noteq> None \<and> rep_status rep \<noteq> None \<and> rep_state rep \<noteq> rep_status rep
     then Inl (ValueError ''delivery stage state and status disagree'')
     else require (ValueError ''unsupported delivery receipt state'')
       (receipt_state_of_name (case rep_status rep of Some t \<Rightarrow> t | None \<Rightarrow>
          (case rep_state rep of Some t \<Rightarrow> t | None \<Rightarrow> ''succeeded''))))"

definition report_body :: "stage_report \<Rightarrow> pyval res" where
  "report_body rep =
    (if (case (rep_receipt rep, rep_payload rep) of (Some a, Some b) \<Rightarrow> \<not> py_eq a b | _ \<Rightarrow> False)
     then Inl (ValueError ''delivery stage receipt and payload disagree'')
     else let body = (case rep_receipt rep of Some v \<Rightarrow> v | None \<Rightarrow>
            (case rep_payload rep of Some v \<Rightarrow> v | None \<Rightarrow> VDict []))
     in if \<not> is_dict body then Inl (ValueError ''delivery stage receipt must be an object'')
     else json_safe_or body ''delivery stage receipt'')"

definition report_failure :: "receipt_state \<Rightarrow> pyval \<Rightarrow> pyval option res" where
  "report_failure state failure =
    (if state = RSucceeded then Inr None
     else if failure = VNone
     then Inl (ValueError ''a non-succeeded delivery receipt requires a precise failure reason'')
     else bindR (normalize_wait_reason failure (Some ''verification-failure'')) (\<lambda>w. Inr (Some w)))"

definition receipt_hash ::
  "(pyval \<Rightarrow> string) \<Rightarrow> string \<Rightarrow> stage_report \<Rightarrow> stage \<Rightarrow> receipt_state \<Rightarrow> pyval \<Rightarrow> items \<Rightarrow>
   pyval option \<Rightarrow> rat \<Rightarrow> string" where
  "receipt_hash sha objective_id rep g state body identities failure cost =
    canonical_hash sha (VDict
      [(''objective_id'', VStr objective_id), (''stage'', vstage g),
       (''attempt'', VInt (rep_attempt rep)), (''state'', VStr (receipt_state_name state)),
       (''receipt'', body), (''evidence_fingerprint'', opt_str (rep_evidence rep)),
       (''identities'', VDict identities),
       (''failure'', (case failure of None \<Rightarrow> VNone | Some w \<Rightarrow> w)),
       (''retry_eligible'', VBool (rep_retry rep)), (''cost_delta'', VFloat (Fin cost)),
       (''dispatch_id'', opt_str (rep_dispatch rep))])"

definition check_report ::
  "(pyval \<Rightarrow> string) \<Rightarrow> string \<Rightarrow> string \<Rightarrow> stage_report \<Rightarrow> checked_report res" where
  "check_report sha objective_id receipt_id rep =
    (if blank receipt_id then Inl (ValueError ''delivery stage receipt_id is required'')
     else if (case rep_dispatch rep of None \<Rightarrow> False | Some d \<Rightarrow> blank d)
     then Inl (ValueError ''delivery stage dispatch_id must be a non-empty string or null'')
     else bindR (normalize_stage (VStr (rep_stage rep))) (\<lambda>g.
       if rep_attempt rep < 1 then Inl (ValueError ''delivery stage attempt must be positive'')
       else if rep_expected rep < 1
       then Inl (ValueError ''delivery stage expected_revision must be positive'')
       else if (case finite_number (rep_cost rep) of None \<Rightarrow> True | Some q \<Rightarrow> q < 0)
       then Inl (ValueError ''delivery stage cost_delta must be a non-negative number'')
       else bindR (report_state rep) (\<lambda>state.
       bindR (report_body rep) (\<lambda>body.
       if (case rep_evidence rep of None \<Rightarrow> False | Some e \<Rightarrow> blank e)
       then Inl (ValueError ''delivery evidence_fingerprint must be a non-empty string'')
       else bindR (normalize_identities (rep_identities rep)) (\<lambda>identities.
       bindR (report_failure state (rep_failure rep)) (\<lambda>failure.
       bindR (normalize_timestamp (rep_wakeup rep) ''next_wakeup_at'' False) (\<lambda>wakeup.
       let cost = (case finite_number (rep_cost rep) of None \<Rightarrow> 0 | Some q \<Rightarrow> q)
       in Inr \<lparr>k_stage = g, k_state = state, k_body = body, k_identities = identities,
            k_failure = failure, k_wakeup = wakeup, k_cost = cost,
            k_hash = receipt_hash sha objective_id rep g state body identities failure cost\<rparr>)))))))"

section \<open>The fence\<close>

definition dispatch_matches :: "string \<Rightarrow> stage \<Rightarrow> int \<Rightarrow> string option \<Rightarrow> store \<Rightarrow> bool" where
  "dispatch_matches objective_id g attempt dispatch s = (case dispatch of None \<Rightarrow> True
    | Some d_key \<Rightarrow> (case row_get d_id d_key (dispatches s) of None \<Rightarrow> False
        | Some d \<Rightarrow> d_objective d = objective_id \<and> d_stage d = g \<and> d_attempt d = attempt
            \<and> d_state d = DStarted))"

text \<open>\<open>except ValueError as error: raise StateConflictError(str(error))\<close>.\<close>

definition as_conflict :: "'a res \<Rightarrow> 'a res" where
  "as_conflict m = (case m of Inl (ValueError t) \<Rightarrow> Inl (StateConflictError t) | _ \<Rightarrow> m)"

lemma as_conflict_Inr [res_simps]: "as_conflict m = Inr x \<longleftrightarrow> m = Inr x"
  by (auto simp: as_conflict_def split: sum.splits err.splits)

text \<open>The row, its required stages and the merged identities of a report that passes the fence.\<close>

definition receipt_fence ::
  "string \<Rightarrow> stage_report \<Rightarrow> checked_report \<Rightarrow> int \<Rightarrow> store \<Rightarrow>
    (objective_row \<times> stage list \<times> items) res" where
  "receipt_fence objective_id rep k now s =
    bindR (require (KeyError objective_id) (row_get o_id objective_id (objectives s))) (\<lambda>r.
    bindR (assert_objective_lease s r (rep_epoch rep) (rep_lease rep) (utc now)) (\<lambda>_.
    if o_revision r \<noteq> rep_expected rep
    then Inl (StateConflictError ''expected another delivery objective revision'')
    else if o_stage r \<noteq> k_stage k \<or> o_attempt r \<noteq> rep_attempt rep
    then Inl (StateConflictError ''delivery stage receipt is stale for the current stage attempt'')
    else if k_state k = RSucceeded \<and> rep_evidence rep = None
    then Inl (StateConflictError ''a successful delivery stage requires an Evidence fingerprint'')
    else bindR (required_delivery_stages (o_request r)) (\<lambda>stages.
    if k_stage k \<notin> set stages
    then Inl (StateConflictError ''delivery stage was not explicitly requested'')
    else if \<not> dispatch_matches objective_id (k_stage k) (rep_attempt rep) (rep_dispatch rep) s
    then Inl (StateConflictError ''delivery stage receipt does not match an active dispatch intent'')
    else bindR (if k_state k = RSucceeded \<and> k_stage k = LiveVerify
        then as_conflict (validate_live_verification_receipt (o_request r) (k_body k)) else Inr ()) (\<lambda>_.
    bindR (as_conflict (merge_identities (o_identities r) (VDict (k_identities k)))) (\<lambda>merged.
      Inr (r, stages, merged))))))"

section \<open>What follows\<close>

record progress_step =
  st_state :: objective_state
  st_stage :: stage
  st_attempt :: int
  st_action :: pyval
  st_wakeup :: "stamp option"
  st_wait :: "pyval option"
  st_budget :: budget

definition charge_budget :: "budget \<Rightarrow> stamp \<Rightarrow> rat \<Rightarrow> int \<Rightarrow> budget" where
  "charge_budget b created cost now = b\<lparr>
     elapsed_seconds := max (elapsed_seconds b)
       (max 0 (of_int (instant (utc now) - instant created) / 1000000)),
     cost_used := cost_used b + cost\<rparr>"

definition time_exhausted :: "budget \<Rightarrow> bool" where
  "time_exhausted b \<longleftrightarrow> of_int (time_budget_seconds b) < elapsed_seconds b"

definition cost_exhausted :: "budget \<Rightarrow> bool" where
  "cost_exhausted b \<longleftrightarrow> cost_budget b < cost_used b"

definition next_required :: "stage list \<Rightarrow> stage \<Rightarrow> stage" where
  "next_required stages g = (case dropWhile (\<lambda>x. x \<noteq> g) stages of _ # n # _ \<Rightarrow> n | _ \<Rightarrow> g)"

definition succeeded_stages :: "string \<Rightarrow> store \<Rightarrow> stage list" where
  "succeeded_stages objective_id s = map s_stage
    (filter (\<lambda>x. s_objective x = objective_id \<and> s_state x = RSucceeded) (stage_receipts s))"

definition success_step ::
  "objective_row \<Rightarrow> stage list \<Rightarrow> items \<Rightarrow> stage list \<Rightarrow> budget \<Rightarrow> int \<Rightarrow> progress_step res" where
  "success_step r stages merged succeeded b now = (let g = o_stage r in
    if g = last stages then
      (if \<not> set stages \<subseteq> insert g (set succeeded)
       then Inl (StateConflictError
         ''delivery cannot complete before every requested stage has a success receipt'')
       else bindR (required_completion_identities (o_request r)) (\<lambda>names.
         if filter (\<lambda>name. name \<notin> set (map fst merged)) names \<noteq> []
         then Inl (StateConflictError ''delivery completion requires exact identities'')
         else Inr \<lparr>st_state = OComplete, st_stage = g, st_attempt = o_attempt r,
           st_action = VDict [(''action'', VStr ''complete''), (''stage'', vstage g)],
           st_wakeup = None, st_wait = None, st_budget = b\<rparr>))
    else let n = next_required stages g in
      Inr \<lparr>st_state = OActive, st_stage = n, st_attempt = 1,
        st_action = VDict [(''action'', VStr ''execute_stage''), (''stage'', vstage n)],
        st_wakeup = Some (utc now), st_wait = None, st_budget = b\<rparr>)"

definition retry_backoff :: "budget \<Rightarrow> int" where
  "retry_backoff b = min (max_backoff_seconds b)
    (base_backoff_seconds b * 2 ^ nat (min 30 (max 0 (attempts_used b - 1))))"

definition decision_resolution :: "pyval \<Rightarrow> string" where
  "decision_resolution failure =
    (if kind_of failure = VStr ''unknown-effects'' then ''reconcile_authoritatively''
     else if kind_of failure = VStr ''permission-denied'' then ''grant_scope_limited_authorization''
     else if kind_of failure = VStr ''missing-essential-user-choice''
     then ''provide_essential_user_choice''
     else ''choose_recovery_or_stop'')"

definition failure_step ::
  "objective_row \<Rightarrow> pyval \<Rightarrow> bool \<Rightarrow> stamp option \<Rightarrow> budget \<Rightarrow> int \<Rightarrow> progress_step res" where
  "failure_step r failure retry_eligible requested b0 now =
    bindR (recovery_action_for_failure failure) (\<lambda>recovery.
    let b = b0\<lparr>attempts_used := attempts_used b0 + 1\<rparr>; g = o_stage r
    in if retry_eligible \<and> ra_automatic recovery \<and> attempts_used b < attempt_limit b
          \<and> \<not> time_exhausted b \<and> \<not> cost_exhausted b
       then let attempt = o_attempt r + 1; backoff = retry_backoff b;
                wakeup = (case requested of Some t \<Rightarrow> t | None \<Rightarrow> stamp_after (utc now) backoff)
         in Inr \<lparr>st_state = OWaiting, st_stage = g, st_attempt = attempt,
           st_action = VDict [(''action'', VStr (ra_action recovery)), (''stage'', vstage g),
             (''attempt'', VInt attempt), (''retry_after'', VStr (iso_show wakeup))],
           st_wakeup = Some wakeup,
           st_wait = Some (VDict (dict_merge (items_of failure)
             [(''retry_eligible'', VBool True), (''next_attempt'', VInt attempt),
              (''backoff_seconds'', VInt backoff), (''budget'', budget_json b),
              (''recovery'', recovery_json recovery)])),
           st_budget = b\<rparr>
       else let resolution = decision_resolution failure
         in Inr \<lparr>st_state = ONeedsDecision, st_stage = g, st_attempt = o_attempt r,
           st_action = VDict [(''action'', VStr ''request_human_decision''), (''stage'', vstage g),
             (''resolution'', VStr resolution), (''recommended_recovery'', VStr (ra_action recovery))],
           st_wakeup = None,
           st_wait = Some (VDict (dict_merge (items_of failure)
             [(''retry_eligible'', VBool False), (''resolution'', VStr resolution),
              (''budget'', budget_json b), (''recovery'', recovery_json recovery)])),
           st_budget = b\<rparr>)"

definition receipt_step ::
  "stage_report \<Rightarrow> checked_report \<Rightarrow> objective_row \<Rightarrow> stage list \<Rightarrow> items \<Rightarrow> int \<Rightarrow> store
    \<Rightarrow> progress_step res" where
  "receipt_step rep k r stages merged now s =
    bindR (normalize_budget (o_budget r)) (\<lambda>b0.
    let b = charge_budget b0 (o_created r) (k_cost k) now
    in case k_failure k of
         None \<Rightarrow> success_step r stages merged (succeeded_stages (o_id r) s) b now
       | Some failure \<Rightarrow> failure_step r failure (rep_retry rep) (k_wakeup k) b now)"

section \<open>The writes\<close>

definition receipt_row ::
  "string \<Rightarrow> objective_row \<Rightarrow> stage_report \<Rightarrow> checked_report \<Rightarrow> int \<Rightarrow> stage_receipt_row" where
  "receipt_row receipt_id r rep k now = \<lparr>s_id = receipt_id, s_objective = o_id r, s_task = o_task r,
     s_stage = k_stage k, s_attempt = rep_attempt rep, s_hash = k_hash k, s_state = k_state k,
     s_receipt = canonical_json (VDict (case k_failure k of None \<Rightarrow> items_of (k_body k)
       | Some w \<Rightarrow> dict_set ''failure'' w (items_of (k_body k)))),
     s_evidence = rep_evidence rep, s_identities = canonical_json (VDict (k_identities k)),
     s_created = utc now\<rparr>"

definition receipt_event_type :: "receipt_state \<Rightarrow> objective_state \<Rightarrow> string" where
  "receipt_event_type state next_state =
    (if state = RSucceeded then ''delivery_objective.stage_succeeded''
     else if next_state = OWaiting then ''delivery_objective.retry_scheduled''
     else ''delivery_objective.decision_required'')"

definition advanced_row ::
  "string \<Rightarrow> stage_report \<Rightarrow> checked_report \<Rightarrow> items \<Rightarrow> progress_step \<Rightarrow> int \<Rightarrow> int
    \<Rightarrow> objective_row \<Rightarrow> objective_row" where
  "advanced_row receipt_id rep k merged st cursor now r =
    (let keeps = (st_state st = OActive);
         evidence = (case rep_evidence rep of None \<Rightarrow> items_of (o_evidence r)
           | Some e \<Rightarrow> dict_set (stage_name (k_stage k))
               (VDict [(''attempt'', VInt (rep_attempt rep)), (''fingerprint'', VStr e)])
               (items_of (o_evidence r)))
     in r\<lparr>o_state := st_state st, o_stage := st_stage st, o_attempt := st_attempt st,
       o_revision := rep_expected rep + 1, o_next_action := canonical_json (st_action st),
       o_owner := (if keeps then o_owner r else None), o_epoch := (if keeps then o_epoch r else 0),
       o_lease := (if keeps then rep_lease rep else 0),
       o_expires := (if keeps then o_expires r else None),
       o_wakeup := st_wakeup st, o_progress_at := utc now,
       o_progress := canonical_json (VDict
         [(''kind'', VStr (receipt_event_type (k_state k) (st_state st))),
          (''event_cursor'', VInt cursor), (''receipt_id'', VStr receipt_id),
          (''stage'', vstage (k_stage k)), (''attempt'', VInt (rep_attempt rep)),
          (''receipt_state'', VStr (receipt_state_name (k_state k)))]),
       o_wait := map_option canonical_json (st_wait st),
       o_budget := canonical_json (budget_json (st_budget st)),
       o_evidence := canonical_json (VDict evidence),
       o_identities := canonical_json (VDict merged), o_updated := utc now\<rparr>)"

definition apply_receipt ::
  "string \<Rightarrow> stage_report \<Rightarrow> checked_report \<Rightarrow> objective_row \<Rightarrow> items \<Rightarrow> progress_step \<Rightarrow> int \<Rightarrow> store
    \<Rightarrow> ((stage_receipt_row \<times> objective_row \<times> bool) \<times> store) res" where
  "apply_receipt receipt_id rep k r merged st now s =
    bindR (row_add s_id (receipt_row receipt_id r rep k now) (stage_receipts s)) (\<lambda>receipts.
    let (cursor, s1) = emit_event (receipt_event_type (k_state k) (st_state st)) (Some (o_task r)) None
          [(''objective_id'', VStr (o_id r)), (''receipt_id'', VStr receipt_id),
           (''stage'', vstage (k_stage k)), (''attempt'', VInt (rep_attempt rep)),
           (''receipt_state'', VStr (receipt_state_name (k_state k))),
           (''next_state'', VStr (objective_state_name (st_state st))),
           (''next_stage'', vstage (st_stage st)), (''next_attempt'', VInt (st_attempt st)),
           (''state_revision'', VInt (rep_expected rep + 1)),
           (''next_wakeup_at'', opt_stamp (st_wakeup st)),
           (''evidence_fingerprint'', opt_str (rep_evidence rep))] (utc now)
          (s\<lparr>stage_receipts := receipts\<rparr>);
        r' = advanced_row receipt_id rep k merged st cursor now r;
        s2 = s1\<lparr>objectives := row_put o_id (o_id r) (\<lambda>_. r') (objectives s1),
          dispatches := (case rep_dispatch rep of None \<Rightarrow> dispatches s1
            | Some d_key \<Rightarrow> row_put d_id d_key (\<lambda>d. d\<lparr>d_state := DSettled, d_receipt := Some receipt_id,
                d_updated := utc now\<rparr>) (dispatches s1))\<rparr>
    in Inr ((receipt_row receipt_id r rep k now, r', False), s2))"

definition record_delivery_stage_receipt ::
  "(pyval \<Rightarrow> string) \<Rightarrow> string \<Rightarrow> string \<Rightarrow> stage_report \<Rightarrow> int \<Rightarrow> store
    \<Rightarrow> ((stage_receipt_row \<times> objective_row \<times> bool) \<times> store) res" where
  "record_delivery_stage_receipt sha objective_id receipt_id rep now s =
    bindR (check_report sha objective_id receipt_id rep) (\<lambda>k.
    case row_get s_id receipt_id (stage_receipts s) of
      Some existing \<Rightarrow>
        if s_hash existing \<noteq> k_hash k
        then Inl (CommandConflictError ''delivery stage receipt was already used with different content'')
        else bindR (require (StateConflictError ''delivery stage receipt has no objective'')
            (row_get o_id (s_objective existing) (objectives s)))
          (\<lambda>r. Inr ((existing, r, True), s))
    | None \<Rightarrow>
       (case find (\<lambda>x. s_objective x = objective_id \<and> s_stage x = k_stage k
            \<and> s_attempt x = rep_attempt rep \<and> s_hash x = k_hash k) (stage_receipts s) of
          Some duplicate \<Rightarrow>
            bindR (require (StateConflictError ''delivery stage receipt has no objective'')
              (row_get o_id objective_id (objectives s)))
            (\<lambda>r. Inr ((duplicate, r, True), s))
        | None \<Rightarrow>
            bindR (receipt_fence objective_id rep k now s) (\<lambda>(r, stages, merged).
            bindR (receipt_step rep k r stages merged now s) (\<lambda>st.
              apply_receipt receipt_id rep k r merged st now s))))"

end
