(* ===== verification/Delivery_Authority.thy ===== *)
theory Delivery_Authority
  imports Delivery_Receipt
begin

text \<open>
  The authorization receipts of \<open>store.py\<close>, lines 2519 to 2992: the exact endpoint a grant
  binds, the match of a stage's request with the newest unrevoked receipt of its scope, and the
  append of a receipt, which wakes or stops an objective that waits for permission.
\<close>

definition keys_of :: "pyval \<Rightarrow> string set" where
  "keys_of v = set (map fst (items_of v))"

definition blank_value :: "pyval \<Rightarrow> bool" where
  "blank_value v = (case v of VStr t \<Rightarrow> blank t | _ \<Rightarrow> True)"

definition stripped :: "pyval \<Rightarrow> pyval" where
  "stripped v = (case v of VStr t \<Rightarrow> VStr (strip t) | _ \<Rightarrow> VNone)"

definition normalize_delivery_authorization_scope :: "pyval \<Rightarrow> pyval res" where
  "normalize_delivery_authorization_scope scope =
    (if \<not> is_dict scope \<or> items_of scope = []
     then Inl (ValueError ''delivery authorization scope must be a non-empty object'')
     else if has_key ''deployment'' scope then
       (let deployment = dget scope ''deployment'' in
        if keys_of scope \<noteq> {''deployment''}
        then Inl (ValueError ''deployment authorization may bind only one deployment endpoint'')
        else if \<not> is_dict deployment
        then Inl (ValueError ''deployment authorization scope.deployment must be an object'')
        else if \<not> keys_of deployment \<subseteq> {''target''} \<or> blank_value (dget deployment ''target'')
        then Inl (ValueError ''deployment authorization scope must bind exactly one target'')
        else Inr (VDict [(''deployment'', VDict [(''target'', stripped (dget deployment ''target''))]),
               (''declared_scope'', scope)]))
     else (let raw = dget_or scope ''delivery'' scope in
       if \<not> is_dict raw
       then Inl (ValueError ''delivery authorization scope.delivery must be an object'')
       else if \<not> keys_of raw \<subseteq> {''remote'', ''base_branch'', ''merge'', ''release_tag''}
          \<or> \<not> {''remote'', ''base_branch'', ''merge''} \<subseteq> keys_of raw
       then Inl (ValueError
         ''delivery authorization scope must bind remote, base_branch, merge, and optional release_tag'')
       else if blank_value (dget raw ''remote'')
       then Inl (ValueError ''delivery authorization remote is required'')
       else if blank_value (dget raw ''base_branch'')
       then Inl (ValueError ''delivery authorization base_branch is required'')
       else if \<not> is_bool (dget raw ''merge'')
       then Inl (ValueError ''delivery authorization merge must be a boolean'')
       else if dget raw ''release_tag'' \<noteq> VNone \<and> blank_value (dget raw ''release_tag'')
       then Inl (ValueError
         ''delivery authorization release_tag must be a non-empty string or null'')
       else Inr (VDict [(''delivery'', VDict [(''remote'', stripped (dget raw ''remote'')),
              (''base_branch'', stripped (dget raw ''base_branch'')), (''merge'', dget raw ''merge''),
              (''release_tag'', stripped (dget raw ''release_tag''))]),
              (''declared_scope'', scope)])))"

definition normalize_delivery_authority :: "pyval \<Rightarrow> pyval res" where
  "normalize_delivery_authority authority =
    (if \<not> is_dict authority \<or> items_of authority = []
     then Inl (ValueError ''delivery authorization authority must be a non-empty object'')
     else json_safe_or authority ''delivery authorization authority'')"

section \<open>Matching\<close>

definition authorization_matches_request :: "pyval \<Rightarrow> pyval \<Rightarrow> bool" where
  "authorization_matches_request scope request = (let delivery = dget scope ''delivery'' in
    is_dict delivery \<and> list_all (\<lambda>key. py_eq (dget delivery key) (dget request key))
      [''remote'', ''base_branch'', ''merge'', ''release_tag''])"

definition deployment_authorization_matches_request :: "pyval \<Rightarrow> string \<Rightarrow> bool" where
  "deployment_authorization_matches_request scope target = (let deployment = dget scope ''deployment'' in
    is_dict deployment \<and> py_eq (dget deployment ''target'') (VStr target))"

text \<open>
  The receipts of a task still in force, newest first (\<open>ORDER BY created_at DESC, rowid DESC\<close>).
  The expiry column is compared with the clock as text.
\<close>

definition authorizations_in_force :: "string \<Rightarrow> stamp \<Rightarrow> store \<Rightarrow> authorization_row list" where
  "authorizations_in_force task ts s = rev (sort_key a_created
     (filter (\<lambda>a. a_task a = task \<and> a_revoked a = None
        \<and> (case a_expires a of None \<Rightarrow> True | Some e \<Rightarrow> ts < e)) (authorizations s)))"

definition matching_authorization ::
  "(pyval \<Rightarrow> bool) \<Rightarrow> string \<Rightarrow> stamp \<Rightarrow> store \<Rightarrow> authorization_row option" where
  "matching_authorization matches task ts s =
    (case find (\<lambda>a. matches (a_scope a)) (authorizations_in_force task ts s) of
       None \<Rightarrow> None
     | Some a \<Rightarrow> if a_decision a = ''granted'' then Some a else None)"

definition matching_delivery_authorization ::
  "string \<Rightarrow> pyval \<Rightarrow> stamp \<Rightarrow> store \<Rightarrow> authorization_row option" where
  "matching_delivery_authorization task request =
    matching_authorization (\<lambda>scope. authorization_matches_request scope request) task"

definition matching_deployment_authorization ::
  "string \<Rightarrow> string \<Rightarrow> stamp \<Rightarrow> store \<Rightarrow> authorization_row option" where
  "matching_deployment_authorization task target =
    matching_authorization (\<lambda>scope. deployment_authorization_matches_request scope target) task"

text \<open>The verdict: authorised, and by which receipt.\<close>

datatype authority =
    Unauthorized string
  | NoEndpoint
  | TaskContract
  | Receipt authorization_row

definition authorized :: "authority \<Rightarrow> bool" where
  "authorized a = (case a of Unauthorized _ \<Rightarrow> False | _ \<Rightarrow> True)"

definition github_delivery_request :: "string \<Rightarrow> pyval \<Rightarrow> pyval" where
  "github_delivery_request task github = VDict [(''task_id'', VStr task),
     (''remote'', dget_or github ''remote'' (VStr ''origin'')),
     (''base_branch'', dget github ''base_branch''),
     (''merge'', dget_or github ''merge'' (VBool False)),
     (''release_tag'', dget github ''release_tag'')]"

definition valid_github_request :: "pyval \<Rightarrow> bool" where
  "valid_github_request q \<longleftrightarrow> is_str (dget q ''remote'') \<and> is_str (dget q ''base_branch'')
     \<and> is_bool (dget q ''merge'') \<and> (dget q ''release_tag'' = VNone \<or> is_str (dget q ''release_tag''))"

definition github_authority :: "objective_row \<Rightarrow> task_row \<Rightarrow> pyval \<Rightarrow> stamp \<Rightarrow> store \<Rightarrow> authority" where
  "github_authority r task github ts s =
    (if \<not> is_dict github then Unauthorized ''GitHub endpoint was not explicitly requested''
     else let q = github_delivery_request (o_task r) github in
       if \<not> valid_github_request q
       then Unauthorized ''requested GitHub endpoint has an invalid exact delivery scope''
       else if is_true (dget (t_contract task) ''external_write_permission'') then TaskContract
       else case matching_delivery_authorization (o_task r) q ts s of
         None \<Rightarrow> Unauthorized ''scope-limited GitHub delivery authorization is required''
       | Some a \<Rightarrow> Receipt a)"

definition deployment_authority :: "objective_row \<Rightarrow> pyval \<Rightarrow> stamp \<Rightarrow> store \<Rightarrow> authority" where
  "deployment_authority r deployment ts s =
    (case dget deployment ''target'' of
       VStr target \<Rightarrow>
        (if \<not> is_dict deployment then Unauthorized ''deployment endpoint was not explicitly requested''
         else case matching_deployment_authorization (o_task r) target ts s of
           None \<Rightarrow> Unauthorized ''scope-limited deployment authorization is required''
         | Some a \<Rightarrow> Receipt a)
     | _ \<Rightarrow> Unauthorized ''deployment endpoint was not explicitly requested'')"

definition delivery_stage_authorization ::
  "string \<Rightarrow> string \<Rightarrow> int \<Rightarrow> store \<Rightarrow> authority res" where
  "delivery_stage_authorization objective_id stage_text now s =
    bindR (normalize_stage (VStr stage_text)) (\<lambda>g.
    bindR (require (KeyError objective_id) (row_get o_id objective_id (objectives s))) (\<lambda>r.
    bindR (required_delivery_stages (o_request r)) (\<lambda>stages.
    Inr (if g \<notin> set stages then Unauthorized ''delivery stage was not explicitly requested''
      else if g \<notin> set EXTERNAL_DELIVERY_STAGES then NoEndpoint
      else case row_get t_id (o_task r) (tasks s) of
        None \<Rightarrow> Unauthorized ''verifier acceptance is required before coordinator delivery''
      | Some task \<Rightarrow>
         if t_state task \<noteq> TAccepted
         then Unauthorized ''verifier acceptance is required before coordinator delivery''
         else let endpoints = dget (o_request r) ''requested_endpoints'' in
           if g \<in> {Integrate, Ci, Publish}
           then github_authority r task (dget endpoints ''github'') (utc now) s
           else deployment_authority r (dget endpoints ''deployment'') (utc now) s))))"

section \<open>Recording\<close>

definition denied_objective :: "string \<Rightarrow> int \<Rightarrow> int \<Rightarrow> objective_row \<Rightarrow> objective_row" where
  "denied_objective authorization_id cursor now r = r\<lparr>o_state := ONeedsDecision,
     o_revision := o_revision r + 1,
     o_next_action := canonical_json (VDict [(''action'', VStr ''request_human_decision''),
       (''stage'', vstage (o_stage r)), (''resolution'', VStr ''grant_scope_limited_authorization'')]),
     o_owner := None, o_epoch := 0, o_lease := 0, o_expires := None, o_wakeup := None,
     o_progress_at := utc now,
     o_progress := canonical_json (VDict [(''kind'', VStr ''delivery-authorization-denied''),
       (''event_cursor'', VInt cursor), (''authorization_id'', VStr authorization_id),
       (''stage'', vstage (o_stage r)), (''attempt'', VInt (o_attempt r))]),
     o_wait := Some (canonical_json (VDict [(''kind'', VStr ''permission-denied''),
       (''detail'', VStr ''explicit coordinator delivery authorization was denied''),
       (''resolution'', VStr ''grant_scope_limited_authorization''),
       (''authorization_id'', VStr authorization_id)])),
     o_updated := utc now\<rparr>"

definition resumed_objective :: "string \<Rightarrow> int \<Rightarrow> int \<Rightarrow> objective_row \<Rightarrow> objective_row" where
  "resumed_objective authorization_id cursor now r = r\<lparr>o_state := OActive,
     o_revision := o_revision r + 1,
     o_next_action := canonical_json (VDict [(''action'', VStr ''execute_stage''),
       (''stage'', vstage (o_stage r))]),
     o_wakeup := Some (utc now), o_progress_at := utc now,
     o_progress := canonical_json (VDict [(''kind'', VStr ''delivery-authorization-granted''),
       (''event_cursor'', VInt cursor), (''authorization_id'', VStr authorization_id),
       (''stage'', vstage (o_stage r)), (''attempt'', VInt (o_attempt r))]),
     o_wait := None, o_updated := utc now\<rparr>"

definition waits_for_permission :: "objective_row \<Rightarrow> bool" where
  "waits_for_permission r \<longleftrightarrow> o_state r \<in> {OWaiting, ONeedsDecision} \<and>
     (case o_wait r of None \<Rightarrow> False | Some w \<Rightarrow> is_dict w \<and> kind_of w = VStr ''permission-denied'')"

text \<open>What a new receipt does to the objective of its task.\<close>

definition authorization_effect ::
  "string \<Rightarrow> string \<Rightarrow> string \<Rightarrow> objective_row option \<Rightarrow> int \<Rightarrow> int \<Rightarrow> store \<Rightarrow> store" where
  "authorization_effect task authorization_id decision obj cursor now s = (case obj of
      None \<Rightarrow> s
    | Some r \<Rightarrow>
       if decision = ''denied'' \<and> o_state r \<in> {OWaiting, ONeedsDecision}
       then snd (emit_event ''delivery_objective.authorization_denied'' (Some task) None
          [(''objective_id'', VStr (o_id r)), (''authorization_id'', VStr authorization_id),
           (''stage'', vstage (o_stage r)), (''attempt'', VInt (o_attempt r)),
           (''state_revision'', VInt (o_revision r + 1))] (utc now)
          (s\<lparr>objectives := row_put o_id (o_id r) (denied_objective authorization_id cursor now)
             (objectives s)\<rparr>))
       else if decision = ''granted'' \<and> waits_for_permission r
       then snd (emit_event ''delivery_objective.authorization_resumed'' (Some task) None
          [(''objective_id'', VStr (o_id r)), (''authorization_id'', VStr authorization_id),
           (''stage'', vstage (o_stage r)), (''attempt'', VInt (o_attempt r)),
           (''state_revision'', VInt (o_revision r + 1)),
           (''next_wakeup_at'', VStr (iso_show (utc now)))] (utc now)
          (s\<lparr>objectives := row_put o_id (o_id r) (resumed_objective authorization_id cursor now)
             (objectives s)\<rparr>))
       else s)"

definition authorization_hash ::
  "(pyval \<Rightarrow> string) \<Rightarrow> string \<Rightarrow> pyval \<Rightarrow> pyval \<Rightarrow> string \<Rightarrow> string \<Rightarrow> string option \<Rightarrow> stamp option
    \<Rightarrow> string" where
  "authorization_hash sha task scope authority decision granted_by objective expires =
    canonical_hash sha (VDict [(''task_id'', VStr task), (''scope'', scope),
      (''authority'', authority), (''decision'', VStr decision),
      (''granted_by'', VStr (strip granted_by)), (''objective_id'', opt_str objective),
      (''expires_at'', opt_stamp expires)])"

definition record_delivery_authorization ::
  "(pyval \<Rightarrow> string) \<Rightarrow> string \<Rightarrow> string \<Rightarrow> pyval \<Rightarrow> pyval \<Rightarrow> string \<Rightarrow> string \<Rightarrow> string option \<Rightarrow> pyval
    \<Rightarrow> int option \<Rightarrow> int \<Rightarrow> store \<Rightarrow> ((authorization_row \<times> bool) \<times> store) res" where
  "record_delivery_authorization sha task authorization_id scope authority decision granted_by
     objective_id expires_at expected now s =
    (if blank authorization_id then Inl (ValueError ''delivery authorization_id is required'')
     else if decision \<notin> {''granted'', ''denied''}
     then Inl (ValueError ''delivery authorization decision must be granted or denied'')
     else if blank granted_by then Inl (ValueError ''delivery authorization granted_by is required'')
     else bindR (normalize_delivery_authorization_scope scope) (\<lambda>n_scope.
       bindR (normalize_delivery_authority authority) (\<lambda>n_authority.
       bindR (normalize_timestamp expires_at ''expires_at'' False) (\<lambda>expires.
       let request_hash = authorization_hash sha task n_scope n_authority decision granted_by
             objective_id expires
       in case row_get a_id authorization_id (authorizations s) of
         Some existing \<Rightarrow>
           if a_hash existing \<noteq> request_hash
           then Inl (CommandConflictError
             ''delivery authorization was already used with a different request'')
           else Inr ((existing, True), s)
       | None \<Rightarrow>
          bindR (require (KeyError task) (row_get t_id task (tasks s))) (\<lambda>t.
          if t_state t \<noteq> TAccepted
          then Inl (StateConflictError ''expected accepted for delivery authorization'')
          else if expected \<noteq> None \<and> expected \<noteq> Some (t_revision t)
          then Inl (StateConflictError ''expected another task revision'')
          else let obj = find (\<lambda>r. o_task r = task) (objectives s) in
            if objective_id \<noteq> None \<and> map_option o_id obj \<noteq> objective_id
            then Inl (StateConflictError ''delivery authorization objective does not belong to the task'')
            else let row = \<lparr>a_id = authorization_id, a_task = task, a_objective = map_option o_id obj,
                a_hash = request_hash, a_scope = canonical_json n_scope,
                a_authority = canonical_json n_authority, a_decision = decision,
                a_granted_by = strip granted_by, a_expires = expires, a_revoked = None,
                a_created = utc now\<rparr>
            in bindR (row_add a_id row (authorizations s)) (\<lambda>rows.
               let (cursor, s1) = emit_event (''delivery.authorization_'' @ decision) (Some task) None
                   [(''authorization_id'', VStr authorization_id),
                    (''objective_id'', opt_str (map_option o_id obj)),
                    (''request_hash'', VStr request_hash),
                    (''scope'', dget_or n_scope ''delivery'' (dget n_scope ''deployment'')),
                    (''expires_at'', opt_stamp expires)] (utc now) (s\<lparr>authorizations := rows\<rparr>)
               in Inr ((row, False),
                    authorization_effect task authorization_id decision obj cursor now s1)))))))"

end
