(* ===== verification/Delivery_Machine.thy ===== *)
theory Delivery_Machine
  imports Delivery_Authority
begin

text \<open>
  The delivery ledger as a state machine. \<open>delivery_step\<close> is any operation of the two
  preceding theories with any arguments at any time, or any work of the rest of the store,
  which never writes the tables of the delivery ledger. \<open>delivery_effect\<close> says what one
  operation can do to these tables; the invariant and the properties are proved over it.
\<close>

section \<open>Effects\<close>

definition lease_counter :: "store \<Rightarrow> int" where
  "lease_counter s = (case meta_objective_lease s of None \<Rightarrow> 0 | Some e \<Rightarrow> e)"

text \<open>A rewrite of an open objective that leaves its request, stage and accounts alone.\<close>

definition open_rewrite :: "objective_row \<Rightarrow> objective_row \<Rightarrow> bool" where
  "open_rewrite r r' \<longleftrightarrow> o_id r' = o_id r \<and> o_command r' = o_command r \<and> o_task r' = o_task r
     \<and> o_hash r' = o_hash r \<and> o_request r' = o_request r \<and> o_stage r' = o_stage r
     \<and> o_attempt r' = o_attempt r \<and> o_budget r' = o_budget r \<and> o_identities r' = o_identities r
     \<and> o_evidence r' = o_evidence r \<and> o_revision r \<le> o_revision r'
     \<and> o_state r \<notin> {OComplete, OCancelled} \<and> o_state r' \<notin> {OComplete, OCancelled}"

text \<open>The rewrite by a receipt: same objective, one revision on, and what the step decided.\<close>

definition receipt_rewrite ::
  "stage list \<Rightarrow> stage list \<Rightarrow> stage_receipt_row \<Rightarrow> objective_row \<Rightarrow> objective_row \<Rightarrow> bool" where
  "receipt_rewrite stages succeeded x r r' \<longleftrightarrow> o_id r' = o_id r \<and> o_command r' = o_command r
     \<and> o_task r' = o_task r \<and> o_hash r' = o_hash r \<and> o_request r' = o_request r
     \<and> o_revision r' = o_revision r + 1 \<and> o_state r = OActive
     \<and> s_objective x = o_id r \<and> s_stage x = o_stage r \<and> s_attempt x = o_attempt r
     \<and> (if s_state x = RSucceeded
        then if o_stage r = last stages
          then o_state r' = OComplete \<and> o_stage r' = o_stage r
            \<and> set stages \<subseteq> insert (o_stage r) (set succeeded)
            \<and> (\<exists>names. required_completion_identities (o_request r) = Inr names
                 \<and> set names \<subseteq> set (map fst (items_of (o_identities r'))))
          else o_state r' = OActive \<and> o_stage r' = next_required stages (o_stage r)
        else o_state r' \<in> {OWaiting, ONeedsDecision} \<and> o_stage r' = o_stage r)"

inductive objective_effect :: "store \<Rightarrow> store \<Rightarrow> bool" where
  oe_keep: "objectives t = objectives s \<Longrightarrow> stage_receipts t = stage_receipts s \<Longrightarrow>
    lease_counter t = lease_counter s \<Longrightarrow> objective_effect s t"
| oe_new: "row_get o_id (o_id r) (objectives s) = None \<Longrightarrow>
    find (\<lambda>x. o_task x = o_task r) (objectives s) = None \<Longrightarrow>
    find (\<lambda>x. o_command x = o_command r) (objectives s) = None \<Longrightarrow>
    o_state r = OActive \<Longrightarrow> o_stage r = Plan \<Longrightarrow> o_lease r = 0 \<Longrightarrow>
    objectives t = objectives s @ [r] \<Longrightarrow> stage_receipts t = stage_receipts s \<Longrightarrow>
    lease_counter t = lease_counter s \<Longrightarrow> objective_effect s t"
| oe_rewrite: "row_get o_id k (objectives s) = Some r \<Longrightarrow> open_rewrite r r' \<Longrightarrow>
    o_lease r' = 0 \<or> o_lease r' = o_lease r \<or> o_lease r' = lease_counter s + 1 \<and> lease_counter t = o_lease r' \<Longrightarrow>
    lease_counter s \<le> lease_counter t \<Longrightarrow>
    objectives t = row_put o_id k (\<lambda>_. r') (objectives s) \<Longrightarrow> stage_receipts t = stage_receipts s \<Longrightarrow>
    objective_effect s t"
| oe_receipt: "row_get o_id k (objectives s) = Some r \<Longrightarrow>
    required_delivery_stages (o_request r) = Inr stages \<Longrightarrow> o_stage r \<in> set stages \<Longrightarrow>
    receipt_rewrite stages (succeeded_stages k s) x r r' \<Longrightarrow>
    row_get s_id (s_id x) (stage_receipts s) = None \<Longrightarrow>
    o_lease r' = 0 \<or> o_lease r' = o_lease r \<Longrightarrow> lease_counter t = lease_counter s \<Longrightarrow>
    objectives t = row_put o_id k (\<lambda>_. r') (objectives s) \<Longrightarrow>
    stage_receipts t = stage_receipts s @ [x] \<Longrightarrow> objective_effect s t"

text \<open>Dispatches are added under a fresh key or rewritten under the same key and request.\<close>

definition same_intent :: "dispatch_row \<Rightarrow> dispatch_row \<Rightarrow> bool" where
  "same_intent d d' \<longleftrightarrow> d_id d' = d_id d \<and> d_objective d' = d_objective d \<and> d_task d' = d_task d
     \<and> d_stage d' = d_stage d \<and> d_attempt d' = d_attempt d \<and> d_hash d' = d_hash d
     \<and> d_adapter d' = d_adapter d \<and> (d_rollback d \<noteq> None \<longrightarrow> d_rollback d' \<noteq> None) \<and> (d_state d = DSettled \<longrightarrow> d_state d' = DSettled)
     \<and> (d_rollback d = Some DSettled \<longrightarrow> d_rollback d' = Some DSettled \<and> d_rollback_receipt d' = d_rollback_receipt d)"

inductive dispatch_effect :: "dispatch_row list \<Rightarrow> dispatch_row list \<Rightarrow> bool" where
  de_keep: "dispatch_effect ds ds"
| de_new: "find (\<lambda>x. d_objective x = d_objective d \<and> d_stage x = d_stage d \<and> d_attempt x = d_attempt d) ds = None
    \<Longrightarrow> row_get d_id (d_id d) ds = None \<Longrightarrow> dispatch_effect ds (ds @ [d])"
| de_rewrite: "(\<And>d. d \<in> set ds \<Longrightarrow> d_id d = k \<Longrightarrow> same_intent d (f d)) \<Longrightarrow> dispatch_effect ds (row_put d_id k f ds)"

text \<open>One operation: effects on the objectives and the intents, and new entries of the log.\<close>

definition delivery_effect :: "store \<Rightarrow> store \<Rightarrow> bool" where
  "delivery_effect s t \<longleftrightarrow> objective_effect\<^sup>*\<^sup>* s t
     \<and> dispatch_effect (dispatches s) (dispatches t) \<and> (\<exists>es. events t = events s @ es)"

lemma delivery_effectI:
  "objective_effect s t \<Longrightarrow> dispatch_effect (dispatches s) (dispatches t) \<Longrightarrow>
   events t = events s @ es \<Longrightarrow> delivery_effect s t"
  by (auto simp: delivery_effect_def)

lemma delivery_effect_refl [simp]: "delivery_effect s s"
  by (auto simp: delivery_effect_def de_keep)

lemma create_effect:
  assumes "create_delivery_objective sha task c q now s = Inr (x, t)"
  shows "delivery_effect s t"
proof (cases "find (\<lambda>r. o_command r = c) (objectives s)")
  case (Some r)
  with assms show ?thesis
    by (auto simp: create_delivery_objective_def res_simps Let_def)
next
  case None
  note no_command = this
  show ?thesis
  proof (cases "find (\<lambda>r. o_task r = task) (objectives s)")
    case (Some r)
    with assms no_command show ?thesis
      by (auto simp: create_delivery_objective_def res_simps Let_def)
  next
    case None
    with assms no_command obtain oid rh n due wakeup cursor e where
      t: "t = s\<lparr>events := events s @ [e],
        objectives := objectives s @ [new_objective_row oid c task rh n due wakeup cursor now]\<rparr>"
      and fresh: "row_get o_id oid (objectives s) = None"
      unfolding create_delivery_objective_def Let_def emit_event_def
      by (simp only: option.case prod.case res_simps prod.inject sum.inject ob.add_Inr)
        (fastforce simp: new_objective_row_def)
    show ?thesis
    proof (rule delivery_effectI)
      show "objective_effect s t"
        by (rule oe_new [of "new_objective_row oid c task rh n due wakeup cursor now"])
          (use fresh None no_command in \<open>simp_all add: t new_objective_row_def lease_counter_def\<close>)
      show "dispatch_effect (dispatches s) (dispatches t)" by (simp add: t de_keep)
      show "events t = events s @ [e]" by (simp add: t)
    qed
  qed
qed


lemma delivery_effect_trans:
  assumes "objective_effect\<^sup>*\<^sup>* s u" and "dispatches u = dispatches s"
    and "\<exists>es. events u = events s @ es" and "delivery_effect u t"
  shows "delivery_effect s t"
  using assms by (auto simp: delivery_effect_def)

lemma rewrite_effect:
  assumes "row_get o_id k (objectives s) = Some r" and "open_rewrite r r'"
    and "o_lease r' = 0 \<or> o_lease r' = o_lease r"
    and "objectives t = row_put o_id k (\<lambda>_. r') (objectives s)" and "stage_receipts t = stage_receipts s"
    and "meta_objective_lease t = meta_objective_lease s"
    and "dispatch_effect (dispatches s) (dispatches t)" and "\<exists>es. events t = events s @ es"
  shows "delivery_effect s t"
proof -
  have "objective_effect s t"
    by (rule oe_rewrite [OF assms(1,2)]) (use assms in \<open>auto simp: lease_counter_def\<close>)
  with assms show ?thesis by (auto simp: delivery_effect_def)
qed

lemma lease_live_open: "lease_live s r e l ts \<Longrightarrow> o_state r = OActive"
  by (simp add: lease_live_def)

lemma wake_effect:
  assumes "wake_safe_point now r s = Inr (b, t)" and "row_get o_id (o_id r) (objectives s) = Some r"
    and "o_state r = OWaiting" and "unique_key o_id (objectives s)"
  shows "delivery_effect s t \<and> dispatches t = dispatches s \<and> unique_key o_id (objectives t) \<and>
    (\<forall>k. k \<noteq> o_id r \<longrightarrow> row_get o_id k (objectives t) = row_get o_id k (objectives s))"
proof (cases "t = s")
  case False
  with assms(1) obtain w cursor e where
    t: "t = s\<lparr>events := events s @ [e],
      objectives := row_put o_id (o_id r) (safe_point_ready_row now cursor w) (objectives s)\<rparr>"
    unfolding wake_safe_point_def emit_event_def Let_def
    by (auto simp: res_simps split: option.splits if_splits)
  let ?r' = "safe_point_ready_row now cursor w r"
  have put: "objectives t = row_put o_id (o_id r) (\<lambda>_. ?r') (objectives s)"
    unfolding t using row_put_at [OF assms(4,2)] by simp
  have key: "o_id ?r' = o_id r" by (simp add: safe_point_ready_row_def)
  have "delivery_effect s t"
    by (rule rewrite_effect [OF assms(2) _ _ put])
      (use assms(3) in \<open>simp_all add: t open_rewrite_def safe_point_ready_row_def de_keep\<close>)
  moreover have "unique_key o_id (objectives t)"
    unfolding put using assms(4) key by (intro ob.put_unique) simp_all
  moreover have "row_get o_id k (objectives t) = row_get o_id k (objectives s)" if "k \<noteq> o_id r" for k
    unfolding put using key that by (subst ob.look_put) simp_all
  ultimately show ?thesis by (simp add: t)
qed (use assms in simp)

lemma wakes_effect:
  assumes "wake_safe_points now rows s = Inr (n, t)" and "distinct (map o_id rows)"
    and "\<And>r. r \<in> set rows \<Longrightarrow> row_get o_id (o_id r) (objectives s) = Some r \<and> o_state r = OWaiting"
    and "unique_key o_id (objectives s)"
  shows "delivery_effect s t \<and> dispatches t = dispatches s \<and> unique_key o_id (objectives t)"
  using assms
proof (induction rows arbitrary: s n)
  case (Cons r rows)
  then obtain b u m where one: "wake_safe_point now r s = Inr (b, u)"
    and rest: "wake_safe_points now rows u = Inr (m, t)"
    by (auto simp: res_simps)
  have u: "delivery_effect s u" "dispatches u = dispatches s" "unique_key o_id (objectives u)"
    "\<And>k. k \<noteq> o_id r \<Longrightarrow> row_get o_id k (objectives u) = row_get o_id k (objectives s)"
    using wake_effect [OF one] Cons.prems(3) [of r] Cons.prems(4) by auto
  have "delivery_effect u t \<and> dispatches t = dispatches u \<and> unique_key o_id (objectives t)"
  proof (rule Cons.IH [OF rest])
    fix r' assume r': "r' \<in> set rows"
    then have "o_id r' \<noteq> o_id r" using Cons.prems(2) by (force simp: image_iff)
    with u(4) Cons.prems(3) [of r'] r'
    show "row_get o_id (o_id r') (objectives u) = Some r' \<and> o_state r' = OWaiting" by simp
  qed (use Cons.prems(2) u(3) in simp_all)
  with u show ?case by (auto simp: delivery_effect_def)
qed simp

lemma reconcile_effect:
  assumes "reconcile_delivery_safe_point_waits now s = Inr (n, t)" and "unique_key o_id (objectives s)"
  shows "delivery_effect s t \<and> dispatches t = dispatches s \<and> unique_key o_id (objectives t)"
  using assms(1) unfolding reconcile_delivery_safe_point_waits_def
proof (rule wakes_effect)
  show "distinct (map o_id (filter (\<lambda>r. o_state r = OWaiting \<and> o_stage r = Deploy \<and> o_wait r \<noteq> None)
      (objectives s)))"
    using assms(2) by (simp add: unique_key_def distinct_map_filter)
qed (use assms(2) in \<open>auto intro: ob.unique_row\<close>)

lemma claim_effect:
  assumes "claim_delivery_objective k owner e n secs now s = Inr (x, t)"
    and "unique_key o_id (objectives s)"
  shows "delivery_effect s t"
proof -
  from assms(1) obtain m u where u: "reconcile_delivery_safe_point_waits now s = Inr (m, u)"
    and t: "t = u \<or> (\<exists>r. row_get o_id k (objectives u) = Some r \<and> o_state r \<notin> {OComplete, OCancelled}
      \<and> (\<exists>ev. t = u\<lparr>meta_objective_lease := Some (lease_counter u + 1),
        objectives := row_put o_id k (\<lambda>_. claimed_row owner e (lease_counter u + 1) secs now r) (objectives u),
        events := events u @ [ev]\<rparr>))"
    unfolding claim_delivery_objective_def next_delivery_lease_epoch_def Let_def
    by (auto simp: res_simps emit_event_snd lease_counter_def split: if_splits)
  from reconcile_effect [OF u assms(2)] have su: "delivery_effect s u" "dispatches u = dispatches s" by auto
  from t show ?thesis
  proof
    assume "\<exists>r. row_get o_id k (objectives u) = Some r \<and> o_state r \<notin> {OComplete, OCancelled}
      \<and> (\<exists>ev. t = u\<lparr>meta_objective_lease := Some (lease_counter u + 1),
        objectives := row_put o_id k (\<lambda>_. claimed_row owner e (lease_counter u + 1) secs now r) (objectives u),
        events := events u @ [ev]\<rparr>)"
    then obtain r ev where r: "row_get o_id k (objectives u) = Some r" "o_state r \<notin> {OComplete, OCancelled}"
      and t: "t = u\<lparr>meta_objective_lease := Some (lease_counter u + 1),
        objectives := row_put o_id k (\<lambda>_. claimed_row owner e (lease_counter u + 1) secs now r) (objectives u),
        events := events u @ [ev]\<rparr>" by blast
    have "objective_effect u t"
      by (rule oe_rewrite [OF r(1)])
        (use r(2) in \<open>simp_all add: t open_rewrite_def claimed_row_def lease_counter_def\<close>)
    with su show ?thesis by (auto simp: delivery_effect_def t)
  qed (use su in simp)
qed

lemma renew_effect:
  assumes "renew_delivery_objective_lease k e l n secs now s = Inr (x, t)"
  shows "delivery_effect s t"
proof -
  from assms obtain r ev where r: "row_get o_id k (objectives s) = Some r" "o_state r = OActive" "o_revision r = n"
    and t: "t = s\<lparr>objectives := row_put o_id k (\<lambda>_. r\<lparr>o_revision := n + 1,
             o_expires := Some (stamp_after (utc now) secs), o_updated := utc now\<rparr>) (objectives s),
             events := events s @ [ev]\<rparr>"
    unfolding renew_delivery_objective_lease_def Let_def
    by (auto simp: res_simps emit_event_snd dest: lease_live_open)
  show ?thesis
    by (rule rewrite_effect [OF r(1)])
      (use r(2,3) in \<open>auto simp: t open_rewrite_def intro: de_keep\<close>)
qed

lemma dispatch_fence_Inr:
  assumes "dispatch_fence k g n vers e l ad now s = Inr (r, st)"
  shows "row_get o_id k (objectives s) = Some r" and "lease_live s r e l (utc now)"
    and "o_id r = k" and "o_stage r = st" and "o_attempt r = n" and "o_revision r = vers"
    and "st = Deploy \<Longrightarrow> deployment_admitted r s = Inr ()"
proof -
  show look: "row_get o_id k (objectives s) = Some r"
    using assms by (auto simp: dispatch_fence_def res_simps)
  then show "o_id r = k" using ob.look_Some by blast
qed (use assms in \<open>auto simp: dispatch_fence_def res_simps\<close>)

lemma begin_dispatch_cases:
  assumes "begin_delivery_stage_dispatch sha k g n vers e l ad now s = Inr ((d, new), t)"
  obtains r st where "dispatch_fence k g n vers e l ad now s = Inr (r, st)"
      "stage_dispatch k st n s = Some d" "\<not> new" "t = s"
      "d_hash d = d_hash (new_dispatch_row sha r st ad now)"
    | r st where "dispatch_fence k g n vers e l ad now s = Inr (r, st)"
      "stage_dispatch k st n s = None"
      "start_stage_dispatch (new_dispatch_row sha r st ad now) now s = Inr ((d, new), t)"
proof -
  from assms obtain p where p: "dispatch_fence k g n vers e l ad now s = Inr p"
    and rest: "(case p of (r, g) \<Rightarrow> let row = new_dispatch_row sha r g ad now
      in case stage_dispatch k g n s of
        Some existing \<Rightarrow> if d_hash existing \<noteq> d_hash row \<or> d_id existing \<noteq> d_id row
          then Inl (StateConflictError ''delivery stage dispatch identity conflicts with prior intent'')
          else Inr ((existing, False), s)
      | None \<Rightarrow> start_stage_dispatch row now s) = Inr ((d, new), t)"
    unfolding begin_delivery_stage_dispatch_def bindR_Inr by blast
  obtain r st where p_eq: "p = (r, st)" by (cases p)
  show thesis
  proof (cases "stage_dispatch k st n s")
    case None
    with rest p p_eq that(2) show thesis by (simp add: Let_def)
  next
    case (Some existing)
    with rest p_eq have "d_hash existing = d_hash (new_dispatch_row sha r st ad now)" "existing = d"
      "\<not> new" "t = s"
      by (simp_all add: Let_def split: if_split_asm)
    with Some p p_eq that(1) show thesis by simp
  qed
qed

lemma begin_dispatch_effect:
  assumes "begin_delivery_stage_dispatch sha k g n vers e l ad now s = Inr (x, t)"
    and "unique_key o_id (objectives s)"
  shows "delivery_effect s t"
proof -
  obtain d new where "x = (d, new)" by (cases x)
  with assms(1) have "begin_delivery_stage_dispatch sha k g n vers e l ad now s = Inr ((d, new), t)" by simp
  then show ?thesis
  proof (cases rule: begin_dispatch_cases)
    case (2 r st)
    note f = 2(1)
    note fence = dispatch_fence_Inr [OF f]
    let ?row = "new_dispatch_row sha r st ad now"
    have row: "d_objective ?row = k" "d_stage ?row = st" "d_attempt ?row = n"
      using fence by (simp_all add: new_dispatch_row_def)
    from 2(3) row obtain p ev where fresh: "row_get d_id (d_id ?row) (dispatches s) = None"
      and t: "t = s\<lparr>dispatches := dispatches s @ [?row], events := events s @ [ev],
             objectives := row_put o_id k (\<lambda>x. x\<lparr>o_progress_at := utc now, o_progress := p,
                o_updated := utc now\<rparr>) (objectives s)\<rparr>"
      unfolding start_stage_dispatch_def Let_def emit_event_def
      by (auto simp: res_simps dp.add_Inr)
    have "dispatch_effect (dispatches s) (dispatches t)"
      unfolding t using row 2(2) fresh by (auto simp: stage_dispatch_def intro!: de_new)
    moreover have "objectives t = row_put o_id k (\<lambda>_. r\<lparr>o_progress_at := utc now, o_progress := p,
                o_updated := utc now\<rparr>) (objectives s)"
      unfolding t using row_put_at [OF assms(2) fence(1)] by simp
    ultimately show ?thesis using lease_live_open [OF fence(2)]
      by (intro rewrite_effect [OF fence(1)]) (auto simp: t open_rewrite_def)
  qed simp
qed

lemma rollback_effect:
  assumes "begin_delivery_stage_rollback k e l now s = Inr (x, t)"
    and "unique_key d_id (dispatches s)"
  shows "delivery_effect s t"
proof (cases "t = s")
  case False
  with assms(1) obtain d ev where d: "row_get d_id k (dispatches s) = Some d" "d_rollback d = None"
    and t: "t = s\<lparr>dispatches := row_put d_id k (\<lambda>_. d\<lparr>d_rollback := Some DStarted, d_updated := utc now\<rparr>) (dispatches s),
       events := events s @ [ev]\<rparr>"
    unfolding begin_delivery_stage_rollback_def Let_def
    by (auto simp: res_simps emit_event_snd split: if_splits)
  have "dispatch_effect (dispatches s) (dispatches t)"
    unfolding t using d assms(2)
    by (auto simp: same_intent_def intro!: de_rewrite dest: dp.unique_row [OF assms(2)])
  then show ?thesis
    by (intro delivery_effectI [where es = "[ev]"] oe_keep) (simp_all add: t lease_counter_def)
qed simp

lemma settle_rollback_effect:
  assumes "settle_delivery_stage_rollback k e l q now s = Inr (x, t)"
    and "unique_key d_id (dispatches s)"
  shows "delivery_effect s t"
proof (cases "t = s")
  case False
  with assms(1) obtain d ev where d: "row_get d_id k (dispatches s) = Some d" "d_rollback d = Some DStarted"
    and t: "t = s\<lparr>dispatches := row_put d_id k (\<lambda>_. d\<lparr>d_rollback := Some DSettled,
        d_rollback_receipt := Some (canonical_json q), d_updated := utc now\<rparr>) (dispatches s),
       events := events s @ [ev]\<rparr>"
    unfolding settle_delivery_stage_rollback_def Let_def
    by (auto simp: res_simps emit_event_snd split: if_splits)
  have "dispatch_effect (dispatches s) (dispatches t)"
    unfolding t using d assms(2)
    by (auto simp: same_intent_def intro!: de_rewrite dest: dp.unique_row [OF assms(2)])
  then show ?thesis
    by (intro delivery_effectI [where es = "[ev]"] oe_keep) (simp_all add: t lease_counter_def)
qed simp

lemma log_observation_events:
  "\<exists>es. snd (log_observation r ob w now s) = s\<lparr>events := events s @ es\<rparr>"
proof (cases "list_ex (\<lambda>(k, v). \<not> py_eq (dget (o_progress r) k) v) ob")
  case True
  obtain ev where "snd (emit_event ''delivery_objective.observation_waiting'' (Some (o_task r)) None
      ((''objective_id'', VStr (o_id r)) # ob @ [(''next_wakeup_at'', VStr (iso_show w))]) (utc now) s)
    = s\<lparr>events := events s @ [ev]\<rparr>"
    using emit_event_extends by blast
  then have "snd (log_observation r ob w now s) = s\<lparr>events := events s @ [ev]\<rparr>"
    unfolding log_observation_def if_P [OF True] by (simp add: case_prod_beta)
  then show ?thesis by blast
next
  case False
  have "snd (log_observation r ob w now s) = s\<lparr>events := events s @ []\<rparr>"
    unfolding log_observation_def if_not_P [OF False] by simp
  then show ?thesis by blast
qed

lemma observation_fence_Inr:
  assumes "observation_fence k n e l di now s = Inr r"
  shows "row_get o_id k (objectives s) = Some r" and "lease_live s r e l (utc now)" and "o_revision r = n"
  using assms by (auto simp: observation_fence_def res_simps split: option.splits if_splits)

lemma observation_effect:
  assumes "defer_delivery_observation k n e l reason w di now s = Inr (x, t)"
  shows "delivery_effect s t"
proof -
  from assms obtain r wait wakeup progress where f: "observation_fence k n e l di now s = Inr r"
    and t: "t = (let s1 = snd (log_observation r (observation_of r di wait) wakeup now s) in
      s1\<lparr>objectives := row_put o_id k (\<lambda>_. observing_row wait di wakeup progress now r) (objectives s1)\<rparr>)"
    unfolding defer_delivery_observation_def Let_def
    by (simp only: bindR_Inr case_prod_beta sum.inject prod.inject) blast
  obtain es where "snd (log_observation r (observation_of r di wait) wakeup now s) = s\<lparr>events := events s @ es\<rparr>"
    using log_observation_events by blast
  with t have t: "t = s\<lparr>events := events s @ es,
      objectives := row_put o_id k (\<lambda>_. observing_row wait di wakeup progress now r) (objectives s)\<rparr>"
    by (simp add: Let_def)
  note fence = observation_fence_Inr [OF f]
  show ?thesis
    by (rule rewrite_effect [OF fence(1)])
      (use lease_live_open [OF fence(2)] in \<open>auto simp: t open_rewrite_def observing_row_def intro: de_keep\<close>)
qed

lemma safe_point_effect:
  assumes "defer_delivery_deployment_safe_point k n e l bs now s = Inr (x, t)"
  shows "delivery_effect s t"
proof -
  from assms obtain r cursor actual ev where r: "row_get o_id k (objectives s) = Some r" "o_state r = OActive"
    and t: "t = s\<lparr>events := events s @ [ev],
      objectives := row_put o_id k (\<lambda>_. safe_point_waiting_row now cursor actual r) (objectives s)\<rparr>"
    unfolding defer_delivery_deployment_safe_point_def Let_def emit_event_def
    by (auto simp: res_simps dest: lease_live_open)
  show ?thesis
    by (rule rewrite_effect [OF r(1)])
      (use r(2) in \<open>auto simp: t open_rewrite_def safe_point_waiting_row_def Let_def intro: de_keep\<close>)
qed

lemma event_rewrite_effect:
  assumes "row_get o_id k (objectives s) = Some r" and "open_rewrite r r'"
    and "o_lease r' = 0 \<or> o_lease r' = o_lease r"
  shows "delivery_effect s (snd (emit_event ty ta no p ts
    (s\<lparr>objectives := row_put o_id k (\<lambda>_. r') (objectives s)\<rparr>)))"
proof -
  obtain ev where ev: "snd (emit_event ty ta no p ts (s\<lparr>objectives := row_put o_id k (\<lambda>_. r') (objectives s)\<rparr>))
    = s\<lparr>objectives := row_put o_id k (\<lambda>_. r') (objectives s), events := events s @ [ev]\<rparr>"
    using emit_event_extends [of ty ta no p ts "s\<lparr>objectives := row_put o_id k (\<lambda>_. r') (objectives s)\<rparr>"]
    by auto
  show ?thesis unfolding ev by (rule rewrite_effect [OF assms]) (auto intro: de_keep)
qed

lemma authorization_effect_effect:
  assumes "find (\<lambda>r. o_task r = task) (objectives s) = obj" and "unique_key o_id (objectives s)"
  shows "delivery_effect s (authorization_effect task i decision obj cursor now s)"
proof (cases obj)
  case (Some r)
  then have "r \<in> set (objectives s)" using assms(1) by (auto simp: find_Some_iff)
  then have look: "row_get o_id (o_id r) (objectives s) = Some r"
    using assms(2) by (rule ob.unique_row [rotated])
  note put = row_put_at [OF assms(2) look]
  show ?thesis
  proof (cases "decision = ''denied'' \<and> o_state r \<in> {OWaiting, ONeedsDecision}")
    case True
    then show ?thesis
      unfolding Some authorization_effect_def option.case if_P [OF True] put [of "denied_objective i cursor now"]
      by (intro event_rewrite_effect [OF look]) (auto simp: open_rewrite_def denied_objective_def)
  next
    case False
    note not_denied = False
    show ?thesis
    proof (cases "decision = ''granted'' \<and> waits_for_permission r")
      case True
      then show ?thesis
        unfolding Some authorization_effect_def option.case if_not_P [OF not_denied] if_P [OF True]
          put [of "resumed_objective i cursor now"]
        by (intro event_rewrite_effect [OF look])
          (auto simp: open_rewrite_def resumed_objective_def waits_for_permission_def)
    next
      case False
      then show ?thesis
        unfolding Some authorization_effect_def option.case if_not_P [OF not_denied] if_not_P [OF False]
        by simp
    qed
  qed
qed (simp add: authorization_effect_def)

lemma authorize_effect:
  assumes "record_delivery_authorization sha task i sc au dec gb oi ex n now s = Inr (x, t)"
    and "unique_key o_id (objectives s)"
  shows "delivery_effect s t"
proof (cases "row_get a_id i (authorizations s)")
  case (Some a)
  with assms(1) have "t = s"
    unfolding record_delivery_authorization_def Let_def by (auto simp: res_simps split: if_splits)
  then show ?thesis by simp
next
  case None
  with assms(1) obtain rows ev cursor where
    t: "t = authorization_effect task i dec (find (\<lambda>r. o_task r = task) (objectives s)) cursor now
        (s\<lparr>authorizations := rows, events := events s @ [ev]\<rparr>)"
    unfolding record_delivery_authorization_def Let_def emit_event_def
    by (simp only: option.case prod.case res_simps prod.inject sum.inject) fastforce
  let ?u = "s\<lparr>authorizations := rows, events := events s @ [ev]\<rparr>"
  have "delivery_effect ?u t"
    unfolding t by (rule authorization_effect_effect) (use assms(2) in simp_all)
  moreover have "objective_effect s ?u" by (rule oe_keep) (simp_all add: lease_counter_def)
  ultimately show ?thesis by (intro delivery_effect_trans [of s ?u]) auto
qed

section \<open>The receipt\<close>

lemma receipt_fence_Inr:
  assumes "receipt_fence k rep c now s = Inr (r, stages, merged)"
  shows "row_get o_id k (objectives s) = Some r" and "o_id r = k"
    and "lease_live s r (rep_epoch rep) (rep_lease rep) (utc now)"
    and "o_revision r = rep_expected rep" and "o_stage r = k_stage c" and "o_attempt r = rep_attempt rep"
    and "required_delivery_stages (o_request r) = Inr stages" and "k_stage c \<in> set stages"
    and "dispatch_matches k (k_stage c) (rep_attempt rep) (rep_dispatch rep) s"
    and "k_state c = RSucceeded \<Longrightarrow> rep_evidence rep \<noteq> None"
    and "k_state c = RSucceeded \<Longrightarrow> k_stage c = LiveVerify \<Longrightarrow>
      validate_live_verification_receipt (o_request r) (k_body c) = Inr ()"
    and "merge_identities (o_identities r) (VDict (k_identities c)) = Inr merged"
proof -
  show look: "row_get o_id k (objectives s) = Some r"
    using assms by (auto simp: receipt_fence_def res_simps)
  then show "o_id r = k" using ob.look_Some by blast
  show "k_state c = RSucceeded \<Longrightarrow> k_stage c = LiveVerify \<Longrightarrow>
      validate_live_verification_receipt (o_request r) (k_body c) = Inr ()"
    using assms by (auto simp: receipt_fence_def res_simps)
qed (use assms in \<open>auto simp: receipt_fence_def res_simps\<close>)

lemma check_report_failure:
  assumes "check_report sha k i rep = Inr c"
  shows "k_failure c = None \<longleftrightarrow> k_state c = RSucceeded"
  using assms by (auto simp: check_report_def report_failure_def res_simps Let_def split: if_splits)

lemma receipt_cases:
  assumes "record_delivery_stage_receipt sha k i rep now s = Inr ((x, r', dup), t)"
  obtains c where "check_report sha k i rep = Inr c" "dup" "t = s" "s_hash x = k_hash c"
      "x \<in> set (stage_receipts s)"
    | c r stages merged st where "check_report sha k i rep = Inr c" "\<not> dup"
      "row_get s_id i (stage_receipts s) = None"
      "receipt_fence k rep c now s = Inr (r, stages, merged)"
      "receipt_step rep c r stages merged now s = Inr st"
      "apply_receipt i rep c r merged st now s = Inr ((x, r', dup), t)"
proof -
  from assms obtain c where c: "check_report sha k i rep = Inr c"
    by (auto simp: record_delivery_stage_receipt_def res_simps)
  show thesis
  proof (cases "row_get s_id i (stage_receipts s)")
    case (Some y)
    with assms c have "dup \<and> t = s \<and> x = y \<and> s_hash y = k_hash c"
      by (auto simp: record_delivery_stage_receipt_def res_simps)
    with Some c that(1) show thesis using sr.look_Some by blast
  next
    case None
    show thesis
    proof (cases "find (\<lambda>x. s_objective x = k \<and> s_stage x = k_stage c
        \<and> s_attempt x = rep_attempt rep \<and> s_hash x = k_hash c) (stage_receipts s)")
      case (Some y)
      then have "y \<in> set (stage_receipts s)" "s_hash y = k_hash c" by (auto simp: find_Some_iff)
      moreover from Some None assms c have "dup \<and> t = s \<and> x = y"
        by (auto simp: record_delivery_stage_receipt_def res_simps)
      ultimately show thesis using c that(1) by blast
    next
      case none: None
      from assms c None none obtain r stages merged st where
        f: "receipt_fence k rep c now s = Inr (r, stages, merged)"
        and "receipt_step rep c r stages merged now s = Inr st"
        and a: "apply_receipt i rep c r merged st now s = Inr ((x, r', dup), t)"
        by (auto simp: record_delivery_stage_receipt_def res_simps)
      moreover from a have "\<not> dup"
        by (auto simp: apply_receipt_def res_simps Let_def emit_event_def)
      ultimately show thesis using c None that(2) by blast
    qed
  qed
qed

lemma apply_receipt_Inr:
  assumes "apply_receipt i rep c r merged st now s = Inr (y, t)"
  shows "\<exists>cursor ev. y = (receipt_row i r rep c now, advanced_row i rep c merged st cursor now r, False)
    \<and> row_get s_id i (stage_receipts s) = None
    \<and> stage_receipts t = stage_receipts s @ [receipt_row i r rep c now]
    \<and> objectives t = row_put o_id (o_id r) (\<lambda>_. advanced_row i rep c merged st cursor now r) (objectives s)
    \<and> events t = events s @ [ev] \<and> meta_objective_lease t = meta_objective_lease s
    \<and> meta_epoch t = meta_epoch s
    \<and> dispatches t = (case rep_dispatch rep of None \<Rightarrow> dispatches s
       | Some d_key \<Rightarrow> row_put d_id d_key (\<lambda>d. d\<lparr>d_state := DSettled, d_receipt := Some i,
            d_updated := utc now\<rparr>) (dispatches s))"
proof -
  have key: "s_id (receipt_row i r rep c now) = i" by (simp add: receipt_row_def)
  obtain cursor ev where fresh: "row_get s_id i (stage_receipts s) = None"
    and y: "(receipt_row i r rep c now, advanced_row i rep c merged st cursor now r, False) = y"
    and t: "(let s1 = s\<lparr>stage_receipts := stage_receipts s @ [receipt_row i r rep c now],
          events := events s @ [ev]\<rparr> in
        s1\<lparr>objectives := row_put o_id (o_id r) (\<lambda>_. advanced_row i rep c merged st cursor now r) (objectives s1),
          dispatches := (case rep_dispatch rep of None \<Rightarrow> dispatches s1
            | Some d_key \<Rightarrow> row_put d_id d_key (\<lambda>d. d\<lparr>d_state := DSettled, d_receipt := Some i,
                d_updated := utc now\<rparr>) (dispatches s1))\<rparr>) = t"
    using assms unfolding apply_receipt_def emit_event_def bindR_Inr sr.add_Inr key Let_def
    by (auto simp del: canonical_json.simps split del: if_split)
  show ?thesis
    by (rule exI [of _ cursor], rule exI [of _ ev])
      (use fresh in \<open>simp add: y [symmetric] t [symmetric] Let_def split: option.split\<close>)
qed

lemma success_step_Inr:
  assumes "success_step r stages merged succ b now = Inr st"
  shows "if o_stage r = last stages
    then st_state st = OComplete \<and> st_stage st = o_stage r \<and> set stages \<subseteq> insert (o_stage r) (set succ)
      \<and> (\<exists>names. required_completion_identities (o_request r) = Inr names \<and> set names \<subseteq> set (map fst merged))
    else st_state st = OActive \<and> st_stage st = next_required stages (o_stage r)"
proof (cases "o_stage r = last stages")
  case True
  from assms have body: "(if \<not> set stages \<subseteq> insert (o_stage r) (set succ)
       then Inl (StateConflictError
         ''delivery cannot complete before every requested stage has a success receipt'')
       else bindR (required_completion_identities (o_request r)) (\<lambda>names.
         if filter (\<lambda>name. name \<notin> set (map fst merged)) names \<noteq> []
         then Inl (StateConflictError ''delivery completion requires exact identities'')
         else Inr \<lparr>st_state = OComplete, st_stage = o_stage r, st_attempt = o_attempt r,
           st_action = VDict [(''action'', VStr ''complete''), (''stage'', vstage (o_stage r))],
           st_wakeup = None, st_wait = None, st_budget = b\<rparr>)) = Inr st"
    unfolding success_step_def Let_def if_P [OF True] .
  then have sub: "set stages \<subseteq> insert (o_stage r) (set succ)" unfolding guard_Inr not_not by blast
  from body obtain names where names: "required_completion_identities (o_request r) = Inr names"
      "filter (\<lambda>name. name \<notin> set (map fst merged)) names = []"
    and "Inr \<lparr>st_state = OComplete, st_stage = o_stage r, st_attempt = o_attempt r,
           st_action = VDict [(''action'', VStr ''complete''), (''stage'', vstage (o_stage r))],
           st_wakeup = None, st_wait = None, st_budget = b\<rparr> = Inr st"
    unfolding guard_Inr bindR_Inr not_not by blast
  then have st: "st_state st = OComplete" "st_stage st = o_stage r" by auto
  from names(2) have "set names \<subseteq> set (map fst merged)" by (simp only: filter_empty_conv) blast
  with True sub names(1) st show ?thesis by simp
next
  case False
  with assms show ?thesis unfolding success_step_def Let_def by auto
qed

lemma failure_step_Inr:
  assumes "failure_step r w eligible requested b now = Inr st"
  shows "st_state st \<in> {OWaiting, ONeedsDecision} \<and> st_stage st = o_stage r"
  using assms unfolding failure_step_def Let_def by (auto simp: res_simps split: if_splits)

lemma receipt_step_rewrite:
  assumes "receipt_step rep c r stages merged now s = Inr st"
    and "k_failure c = None \<longleftrightarrow> k_state c = RSucceeded"
  shows "if k_state c = RSucceeded
        then if o_stage r = last stages
          then st_state st = OComplete \<and> st_stage st = o_stage r
            \<and> set stages \<subseteq> insert (o_stage r) (set (succeeded_stages (o_id r) s))
            \<and> (\<exists>names. required_completion_identities (o_request r) = Inr names
                 \<and> set names \<subseteq> set (map fst merged))
          else st_state st = OActive \<and> st_stage st = next_required stages (o_stage r)
        else st_state st \<in> {OWaiting, ONeedsDecision} \<and> st_stage st = o_stage r"
proof (cases "k_failure c")
  case None
  with assms(2) have ok: "k_state c = RSucceeded" by simp
  from None assms(1) obtain b where
    "success_step r stages merged (succeeded_stages (o_id r) s) b now = Inr st"
    unfolding receipt_step_def Let_def by (simp only: option.case res_simps) blast
  from success_step_Inr [OF this] show ?thesis unfolding if_P [OF ok] .
next
  case (Some w)
  with assms(2) have ok: "k_state c \<noteq> RSucceeded" by simp
  from Some assms(1) obtain b where
    "failure_step r w (rep_retry rep) (k_wakeup c) b now = Inr st"
    unfolding receipt_step_def Let_def by (simp only: option.case res_simps) blast
  from failure_step_Inr [OF this] show ?thesis unfolding if_not_P [OF ok] .
qed

lemma items_of_canonical:
  "map fst (items_of (canonical_json (VDict kvs))) = sort (map fst kvs)"
proof -
  have "map fst (sort_key fst xs) = sort (map fst xs)" for xs :: "(string \<times> pyval) list"
    by (rule properties_for_sort [symmetric]) simp_all
  then show ?thesis by (simp add: items_of_def o_def)
qed

lemma receipt_effect:
  assumes "record_delivery_stage_receipt sha k i rep now s = Inr (x, t)"
  shows "delivery_effect s t"
proof -
  obtain y r' dup where x: "x = (y, r', dup)" by (metis prod_cases3)
  from assms [unfolded x] show ?thesis
  proof (cases rule: receipt_cases)
    case (2 c r stages merged st)
    note f = receipt_fence_Inr [OF 2(4)]
    from apply_receipt_Inr [OF 2(6)] f(2) obtain cursor ev where
      fresh: "row_get s_id i (stage_receipts s) = None"
      and t: "stage_receipts t = stage_receipts s @ [receipt_row i r rep c now]"
        "objectives t = row_put o_id k (\<lambda>_. advanced_row i rep c merged st cursor now r) (objectives s)"
        "events t = events s @ [ev]" "meta_objective_lease t = meta_objective_lease s"
        "dispatches t = (case rep_dispatch rep of None \<Rightarrow> dispatches s
           | Some d_key \<Rightarrow> row_put d_id d_key (\<lambda>d. d\<lparr>d_state := DSettled, d_receipt := Some i,
                d_updated := utc now\<rparr>) (dispatches s))" by auto
    let ?r' = "advanced_row i rep c merged st cursor now r"
    have ids: "set (map fst (items_of (o_identities ?r'))) = set (map fst merged)"
      using items_of_canonical [of merged] by (simp add: advanced_row_def Let_def)
    have adv: "o_state ?r' = st_state st" "o_stage ?r' = st_stage st" "o_revision ?r' = o_revision r + 1"
      "o_id ?r' = o_id r" "o_command ?r' = o_command r" "o_task ?r' = o_task r" "o_hash ?r' = o_hash r"
      "o_request ?r' = o_request r"
      using f(4) by (simp_all add: advanced_row_def Let_def)
    have x: "s_objective (receipt_row i r rep c now) = o_id r" "s_stage (receipt_row i r rep c now) = o_stage r"
      "s_attempt (receipt_row i r rep c now) = o_attempt r" "s_state (receipt_row i r rep c now) = k_state c"
      using f by (simp_all add: receipt_row_def)
    have "receipt_rewrite stages (succeeded_stages k s) (receipt_row i r rep c now) r ?r'"
      unfolding receipt_rewrite_def ids adv x
      using receipt_step_rewrite [OF 2(5) check_report_failure [OF 2(1)]] lease_live_open [OF f(3)]
      unfolding f(2) by (intro conjI refl)
    then have "objective_effect s t"
      using f t fresh by (intro oe_receipt [OF f(1) f(7)])
        (auto simp: advanced_row_def receipt_row_def Let_def lease_counter_def lease_live_def)
    moreover have "dispatch_effect (dispatches s) (dispatches t)"
      unfolding t(5) by (auto simp: same_intent_def intro: de_keep de_rewrite split: option.split)
    ultimately show ?thesis using t(3) by (rule delivery_effectI)
  qed simp
qed

section \<open>The machine\<close>

inductive delivery_step :: "(pyval \<Rightarrow> string) \<Rightarrow> store \<Rightarrow> store \<Rightarrow> bool" for sha where
  ds_create: "create_delivery_objective sha ta c q now s = Inr (x, t) \<Longrightarrow> delivery_step sha s t"
| ds_wake: "reconcile_delivery_safe_point_waits now s = Inr (x, t) \<Longrightarrow> delivery_step sha s t"
| ds_claim: "claim_delivery_objective k ow e n secs now s = Inr (x, t) \<Longrightarrow> delivery_step sha s t"
| ds_renew: "renew_delivery_objective_lease k e l n secs now s = Inr (x, t) \<Longrightarrow> delivery_step sha s t"
| ds_dispatch: "begin_delivery_stage_dispatch sha k g n vers e l ad now s = Inr (x, t) \<Longrightarrow>
    delivery_step sha s t"
| ds_rollback: "begin_delivery_stage_rollback d e l now s = Inr (x, t) \<Longrightarrow> delivery_step sha s t"
| ds_settle: "settle_delivery_stage_rollback d e l q now s = Inr (x, t) \<Longrightarrow> delivery_step sha s t"
| ds_observe: "defer_delivery_observation k n e l w wk di now s = Inr (x, t) \<Longrightarrow> delivery_step sha s t"
| ds_safe_point: "defer_delivery_deployment_safe_point k n e l bs now s = Inr (x, t) \<Longrightarrow>
    delivery_step sha s t"
| ds_receipt: "record_delivery_stage_receipt sha k i rep now s = Inr (x, t) \<Longrightarrow> delivery_step sha s t"
| ds_authorize: "record_delivery_authorization sha ta i sc au dec gb oi ex n now s = Inr (x, t) \<Longrightarrow>
    delivery_step sha s t"
| ds_elsewhere: "objectives t = objectives s \<Longrightarrow> stage_receipts t = stage_receipts s \<Longrightarrow>
    dispatches t = dispatches s \<Longrightarrow> authorizations t = authorizations s \<Longrightarrow>
    meta_objective_lease t = meta_objective_lease s \<Longrightarrow> events t = events s @ es \<Longrightarrow> delivery_step sha s t"

lemma delivery_step_effect:
  assumes "delivery_step sha s t" and "unique_key o_id (objectives s)" and "unique_key d_id (dispatches s)"
  shows "delivery_effect s t"
  using assms(1)
proof cases
  case (ds_elsewhere es)
  then show ?thesis
    by (intro delivery_effectI [of s t es] oe_keep) (simp_all add: lease_counter_def de_keep)
qed (use assms(2,3) in \<open>blast intro: create_effect claim_effect renew_effect begin_dispatch_effect
    rollback_effect settle_rollback_effect observation_effect safe_point_effect receipt_effect
    authorize_effect dest: reconcile_effect\<close>)+

section \<open>Required stages\<close>

lemma github_stages_shape:
  "github_stages e = Inr gs \<Longrightarrow> gs \<in> {[], [Integrate, Ci], [Integrate, Ci, Publish]}"
  by (auto simp: github_stages_def Let_def split: if_split_asm)

lemma deployment_stages_shape:
  "deployment_stages q e = Inr ds \<Longrightarrow> ds \<in> {[], [Deploy, LiveVerify]}"
  by (auto simp: deployment_stages_def Let_def res_simps split: if_split_asm)

lemma required_stages_shape:
  assumes "required_delivery_stages q = Inr stages"
  obtains gs ds where "stages = [Plan, Implement, Verify] @ gs @ ds"
    "gs \<in> {[], [Integrate, Ci], [Integrate, Ci, Publish]}" "ds \<in> {[], [Deploy, LiveVerify]}"
  using assms github_stages_shape deployment_stages_shape
  by (auto simp: required_delivery_stages_def res_simps)

lemma required_stages_sorted:
  assumes "required_delivery_stages q = Inr stages"
  shows "sorted_wrt (<) stages" and "Plan \<in> set stages"
  using assms by (auto elim!: required_stages_shape simp: less_stage_def)

lemma next_required_sorted:
  assumes "sorted_wrt (<) stages" and "g \<in> set stages" and "g \<noteq> last stages"
  shows "next_required stages g \<in> set stages"
    and "\<And>h. h \<in> set stages \<Longrightarrow> h < next_required stages g \<Longrightarrow> h = g \<or> h < g"
proof -
  obtain xs ys where st: "stages = xs @ g # ys" "g \<notin> set xs"
    using split_list_first [OF assms(2)] by blast
  with assms(3) obtain n zs where ys: "ys = n # zs" by (cases ys) auto
  have drop: "dropWhile (\<lambda>x. x \<noteq> g) stages = g # n # zs"
    unfolding st(1) ys using st(2) by (subst dropWhile_append2) auto
  then have n: "next_required stages g = n" by (simp add: next_required_def)
  show "next_required stages g \<in> set stages" unfolding n by (simp add: st(1) ys)
  fix h assume "h \<in> set stages" "h < next_required stages g"
  with assms(1) show "h = g \<or> h < g"
    unfolding n by (auto simp: st(1) ys sorted_wrt_append)
qed

section \<open>The invariant\<close>

definition objective_ok :: "store \<Rightarrow> objective_row \<Rightarrow> bool" where
  "objective_ok s r \<longleftrightarrow> 0 \<le> o_lease r \<and> o_lease r \<le> lease_counter s
     \<and> (\<forall>stages. required_delivery_stages (o_request r) = Inr stages \<longrightarrow>
          o_stage r \<in> set stages \<and>
          (\<forall>g \<in> set stages. g < o_stage r \<longrightarrow> g \<in> set (succeeded_stages (o_id r) s)))
     \<and> (o_state r = OComplete \<longrightarrow> (\<exists>stages names. required_delivery_stages (o_request r) = Inr stages
          \<and> set stages \<subseteq> set (succeeded_stages (o_id r) s)
          \<and> required_completion_identities (o_request r) = Inr names
          \<and> set names \<subseteq> set (map fst (items_of (o_identities r)))))"

definition distinct_leases :: "store \<Rightarrow> bool" where
  "distinct_leases s \<longleftrightarrow> (\<forall>a \<in> set (objectives s). \<forall>b \<in> set (objectives s).
     o_lease a = o_lease b \<longrightarrow> o_lease a \<noteq> 0 \<longrightarrow> o_id a = o_id b)"

definition objectives_ok :: "store \<Rightarrow> bool" where
  "objectives_ok s \<longleftrightarrow> unique_key o_id (objectives s) \<and> unique_key o_task (objectives s)
     \<and> unique_key o_command (objectives s) \<and> unique_key s_id (stage_receipts s)
     \<and> 0 \<le> lease_counter s \<and> distinct_leases s \<and> (\<forall>r \<in> set (objectives s). objective_ok s r)"

lemma succeeded_mono:
  "stage_receipts t = stage_receipts s @ xs \<Longrightarrow>
   set (succeeded_stages k s) \<subseteq> set (succeeded_stages k t)"
  by (auto simp: succeeded_stages_def)

lemma objective_ok_later:
  assumes "objective_ok s r" and "stage_receipts t = stage_receipts s @ xs"
    and "lease_counter s \<le> lease_counter t"
  shows "objective_ok t r"
  using assms succeeded_mono [OF assms(2), of "o_id r"] unfolding objective_ok_def
  by (meson order_trans subsetD subset_trans)

text \<open>Replacing one row keeps the keys when the row keeps its own.\<close>

lemma put_keys:
  assumes "unique_key o_id t" and "row_get o_id k t = Some r" and "key r' = key r" and "unique_key key t"
  shows "unique_key key (row_put o_id k (\<lambda>_. r') t)"
proof -
  have "key x = key r" if "x \<in> set t" "o_id x = k" for x
    using assms(1,2) that ob.unique_row [of t x] by simp
  then have "map key (row_put o_id k (\<lambda>_. r') t) = map key t"
    using assms(3) by (auto simp: row_put_def)
  with assms(4) show ?thesis by (simp add: unique_key_def)
qed

lemma put_members:
  assumes "x \<in> set (row_put o_id k (\<lambda>_. r') t)"
  shows "x = r' \<or> x \<in> set t \<and> o_id x \<noteq> k"
  using ob.put_origin [OF assms] by (auto split: if_splits)

lemma put_distinct_leases:
  assumes "distinct_leases s" and "unique_key o_id (objectives s)"
    and "row_get o_id k (objectives s) = Some r" and "o_id r' = k"
    and "objectives t = row_put o_id k (\<lambda>_. r') (objectives s)"
    and "o_lease r' = 0 \<or> o_lease r' = o_lease r \<or> (\<forall>x \<in> set (objectives s). o_lease x \<noteq> o_lease r')"
  shows "distinct_leases t"
  unfolding distinct_leases_def
proof (intro ballI impI)
  have r: "r \<in> set (objectives s)" "o_id r = k" using ob.look_Some [OF assms(3)] by auto
  have old: "o_id x = k" if "x \<in> set (objectives s)" "o_lease x = o_lease r'" "o_lease r' \<noteq> 0" for x
    using assms(1,6) that r unfolding distinct_leases_def by metis
  fix a b assume a: "a \<in> set (objectives t)" and b: "b \<in> set (objectives t)"
    and same: "o_lease a = o_lease b" "o_lease a \<noteq> 0"
  have mem: "x = r' \<or> x \<in> set (objectives s)" if "x \<in> set (objectives t)" for x
    using that put_members unfolding assms(5) by blast
  show "o_id a = o_id b"
  proof (cases "a = r'")
    case True
    have "b = r' \<or> o_id b = k" using mem [OF b] old [of b] same True by auto
    with True assms(4) show ?thesis by auto
  next
    case False
    then have a': "a \<in> set (objectives s)" using mem [OF a] by blast
    show ?thesis
    proof (cases "b = r'")
      case True
      then have "o_id a = k" using old [OF a'] same by simp
      with True assms(4) show ?thesis by simp
    next
      case False
      then have "b \<in> set (objectives s)" using mem [OF b] by blast
      with a' same assms(1) show ?thesis unfolding distinct_leases_def by blast
    qed
  qed
qed

lemma objective_effect_ok:
  assumes "objective_effect s t" and "objectives_ok s"
  shows "objectives_ok t"
  using assms(1)
proof cases
  case oe_keep
  then have "objective_ok s r \<Longrightarrow> objective_ok t r" for r by (auto intro: objective_ok_later)
  with assms(2) show ?thesis unfolding objectives_ok_def distinct_leases_def oe_keep by blast
next
  case (oe_new r)
  have later: "objective_ok s x \<Longrightarrow> objective_ok t x" for x
    using oe_new by (auto intro: objective_ok_later)
  note ok = assms(2) [unfolded objectives_ok_def]
  have early: "Plan \<in> set stages" if "required_delivery_stages (o_request r) = Inr stages" for stages
    using that by (rule required_stages_sorted(2))
  have "objective_ok t r"
    unfolding objective_ok_def using oe_new(4-6,9) ok early by (simp add: less_stage_def)
  moreover have "distinct_leases t"
    unfolding distinct_leases_def oe_new(7)
  proof (intro ballI impI)
    fix a b assume "a \<in> set (objectives s @ [r])" "b \<in> set (objectives s @ [r])"
      and same: "o_lease a = o_lease b" "o_lease a \<noteq> 0"
    moreover have "a \<noteq> r" "b \<noteq> r" using same oe_new(6) by auto
    ultimately have "a \<in> set (objectives s)" "b \<in> set (objectives s)" by simp_all
    with ok same show "o_id a = o_id b" unfolding distinct_leases_def by blast
  qed
  moreover have "unique_key o_id (objectives t)"
    unfolding oe_new(7) using oe_new(1) ok by (intro ob.add_unique) simp_all
  moreover have "unique_key o_task (objectives t)"
    unfolding oe_new(7) using oe_new(2) ok by (intro append_unique) simp_all
  moreover have "unique_key o_command (objectives t)"
    unfolding oe_new(7) using oe_new(3) ok by (intro append_unique) simp_all
  ultimately show ?thesis using ok later oe_new(7-9) by (simp add: objectives_ok_def)
next
  case (oe_rewrite k r r')
  note ok = assms(2) [unfolded objectives_ok_def]
  have r: "r \<in> set (objectives s)" "o_id r = k" using ob.look_Some [OF oe_rewrite(1)] by auto
  have later: "objective_ok s x \<Longrightarrow> objective_ok t x" for x
    using oe_rewrite(4,6) by (auto intro: objective_ok_later)
  have same: "o_id r' = o_id r" "o_task r' = o_task r" "o_command r' = o_command r"
    "o_request r' = o_request r" "o_stage r' = o_stage r" "o_state r' \<noteq> OComplete"
    using oe_rewrite(2) by (auto simp: open_rewrite_def)
  have "o_lease r' = 0 \<or> o_lease r' = o_lease r \<or> o_lease r' = lease_counter t"
    and "0 \<le> lease_counter t"
    using oe_rewrite(3,4) ok by auto
  moreover have "objective_ok t r" using ok r later by blast
  ultimately have row: "objective_ok t r'" using same by (auto simp: objective_ok_def)
  have "distinct_leases t"
  proof (rule put_distinct_leases [OF _ _ oe_rewrite(1) _ oe_rewrite(5)])
    show "o_lease r' = 0 \<or> o_lease r' = o_lease r \<or> (\<forall>x \<in> set (objectives s). o_lease x \<noteq> o_lease r')"
      using oe_rewrite(3) ok by (fastforce simp: objective_ok_def)
  qed (use ok same r in simp_all)
  moreover have "\<forall>x \<in> set (objectives t). objective_ok t x"
    using row later ok put_members unfolding oe_rewrite(5) by blast
  moreover have "unique_key o_id (objectives t)" "unique_key o_task (objectives t)"
    "unique_key o_command (objectives t)"
    unfolding oe_rewrite(5) using ok same oe_rewrite(1) by (auto intro!: put_keys)
  ultimately show ?thesis using ok oe_rewrite(4,6) by (simp add: objectives_ok_def)
next
  case (oe_receipt k r stages x r')
  note ok = assms(2) [unfolded objectives_ok_def]
  have r: "r \<in> set (objectives s)" "o_id r = k" using ob.look_Some [OF oe_receipt(1)] by auto
  have later: "objective_ok s y \<Longrightarrow> objective_ok t y" for y
    using oe_receipt(7,9) by (auto intro: objective_ok_later)
  have same: "o_id r' = o_id r" "o_task r' = o_task r" "o_command r' = o_command r"
    "o_request r' = o_request r" and x: "s_objective x = o_id r" "s_stage x = o_stage r"
    using oe_receipt(4) by (auto simp: receipt_rewrite_def)
  have lease: "0 \<le> o_lease r'" "o_lease r' \<le> lease_counter t"
    using oe_receipt(6,7) ok r unfolding objective_ok_def by auto
  have reached: "o_stage r' \<in> set st \<and>
      (\<forall>g \<in> set st. g < o_stage r' \<longrightarrow> g \<in> set (succeeded_stages (o_id r') t))"
    if "required_delivery_stages (o_request r') = Inr st" for st
  proof -
    from that oe_receipt(2) same have st: "st = stages" by simp
    have prefix: "g \<in> set (succeeded_stages (o_id r) t)" if "g \<in> set stages" "g < o_stage r" for g
      using ok r oe_receipt(2) that later [of r] unfolding objective_ok_def by auto
    show ?thesis
    proof (cases "s_state x = RSucceeded \<and> o_stage r \<noteq> last stages")
      case True
      then have n: "o_stage r' = next_required stages (o_stage r)"
        using oe_receipt(4) by (simp add: receipt_rewrite_def)
      have here: "o_stage r \<in> set (succeeded_stages (o_id r) t)"
        using True x oe_receipt(9) by (simp add: succeeded_stages_def)
      note next_ok = next_required_sorted [OF required_stages_sorted(1) [OF oe_receipt(2)] oe_receipt(3)]
      have "g \<in> set (succeeded_stages (o_id r) t)" if "g \<in> set stages" "g < o_stage r'" for g
        using next_ok(2) [of g] that True here prefix unfolding n by blast
      with next_ok(1) True st n same(1) show ?thesis by simp
    next
      case False
      then have "o_stage r' = o_stage r"
        using oe_receipt(4) unfolding receipt_rewrite_def by (simp split: if_split_asm)
      with st same(1) prefix oe_receipt(3) show ?thesis by simp
    qed
  qed
  have complete: "\<exists>stages names. required_delivery_stages (o_request r') = Inr stages
          \<and> set stages \<subseteq> set (succeeded_stages (o_id r') t)
          \<and> required_completion_identities (o_request r') = Inr names
          \<and> set names \<subseteq> set (map fst (items_of (o_identities r')))"
    if "o_state r' = OComplete"
  proof -
      have last: "s_state x = RSucceeded" "o_stage r = last stages"
        using that oe_receipt(4) unfolding receipt_rewrite_def
        by (simp_all split: if_split_asm)
      then have here: "o_stage r \<in> set (succeeded_stages (o_id r) t)"
        using x oe_receipt(9) by (simp add: succeeded_stages_def)
      from last oe_receipt(4) obtain names where all: "set stages \<subseteq> insert (o_stage r) (set (succeeded_stages k s))"
        and names: "required_completion_identities (o_request r) = Inr names"
          "set names \<subseteq> set (map fst (items_of (o_identities r')))"
        unfolding receipt_rewrite_def by auto
      have "set (succeeded_stages k s) \<subseteq> set (succeeded_stages (o_id r) t)"
        using succeeded_mono [OF oe_receipt(9)] r(2) by simp
      with all here have "set stages \<subseteq> set (succeeded_stages (o_id r) t)" by blast
      with names same oe_receipt(2) show ?thesis by auto
  qed
  have row: "objective_ok t r'"
    unfolding objective_ok_def using lease reached complete by blast
  have "distinct_leases t"
    by (rule put_distinct_leases [OF _ _ oe_receipt(1) _ oe_receipt(8)])
      (use oe_receipt(6) ok same r in auto)
  moreover have "\<forall>x \<in> set (objectives t). objective_ok t x"
    using row later ok put_members unfolding oe_receipt(8) by blast
  moreover have "unique_key o_id (objectives t)" "unique_key o_task (objectives t)"
    "unique_key o_command (objectives t)"
    unfolding oe_receipt(8) using ok same oe_receipt(1) by (auto intro!: put_keys)
  ultimately show ?thesis using ok oe_receipt(5,7,9) by (simp add: objectives_ok_def sr.add_unique)
qed

text \<open>Intents: one per id, and one per objective, stage and attempt.\<close>

definition intent_key :: "dispatch_row \<Rightarrow> string \<times> stage \<times> int" where
  "intent_key d = (d_objective d, d_stage d, d_attempt d)"

definition delivery_ok :: "store \<Rightarrow> bool" where
  "delivery_ok s \<longleftrightarrow> objectives_ok s \<and> unique_key d_id (dispatches s) \<and> unique_key intent_key (dispatches s)"

lemma same_intent_key: "same_intent d d' \<Longrightarrow> intent_key d' = intent_key d \<and> d_id d' = d_id d"
  by (simp add: same_intent_def intent_key_def)

lemma dispatch_effect_keys:
  assumes "dispatch_effect ds ds'" and "unique_key d_id ds" and "unique_key intent_key ds"
  shows "unique_key d_id ds' \<and> unique_key intent_key ds'"
  using assms(1)
proof cases
  case (de_new d)
  have "find (\<lambda>x. intent_key x = intent_key d) ds = None"
    using de_new(2) by (simp add: find_None_iff intent_key_def)
  with de_new assms show ?thesis by (auto intro: append_unique dp.add_unique)
next
  case (de_rewrite k f)
  then have "map d_id ds' = map d_id ds" "map intent_key ds' = map intent_key ds"
    by (auto simp: row_put_def dest: same_intent_key)
  with assms(2,3) show ?thesis by (simp add: unique_key_def)
qed (use assms in simp)

lemma dispatch_effect_keeps:
  assumes "dispatch_effect ds ds'" and "d \<in> set ds"
  shows "\<exists>d' \<in> set ds'. same_intent d d'"
  using assms(1)
proof cases
  case (de_rewrite k f)
  show ?thesis
  proof (cases "d_id d = k")
    case True
    have "f d \<in> set ds'" using True assms(2) unfolding de_rewrite(1) row_put_def by auto
    with True de_rewrite(2) [OF assms(2)] show ?thesis by blast
  next
    case False
    then have "d \<in> set ds'" using assms(2) unfolding de_rewrite(1) by (auto intro: dp.put_other)
    then show ?thesis by (auto simp: same_intent_def)
  qed
qed (use assms(2) in \<open>auto simp: same_intent_def\<close>)

lemma objective_effects_ok: "objective_effect\<^sup>*\<^sup>* s t \<Longrightarrow> objectives_ok s \<Longrightarrow> objectives_ok t"
  by (induction rule: rtranclp_induct) (auto intro: objective_effect_ok)

lemma delivery_step_ok:
  assumes "delivery_step sha s t" and "delivery_ok s"
  shows "delivery_ok t"
proof -
  have "unique_key o_id (objectives s)" "unique_key d_id (dispatches s)"
    using assms(2) by (simp_all add: delivery_ok_def objectives_ok_def)
  from delivery_step_effect [OF assms(1) this] assms(2) show ?thesis
    unfolding delivery_effect_def delivery_ok_def
    using objective_effects_ok dispatch_effect_keys by blast
qed

definition no_objectives :: "store \<Rightarrow> bool" where
  "no_objectives s \<longleftrightarrow> objectives s = [] \<and> stage_receipts s = [] \<and> dispatches s = []
     \<and> meta_objective_lease s = None"

interpretation delivery: invariant_machine no_objectives "delivery_step sha" delivery_ok for sha
proof
  show "no_objectives s \<Longrightarrow> delivery_ok s" for s
    by (simp add: no_objectives_def delivery_ok_def objectives_ok_def unique_key_def distinct_leases_def
        lease_counter_def)
  show "delivery_step sha s t \<Longrightarrow> delivery_ok s \<Longrightarrow> delivery_ok t" for s t
    by (rule delivery_step_ok)
qed

text \<open>A step of a well-formed ledger, and what persists over a run of such steps.\<close>

definition ledger_step :: "(pyval \<Rightarrow> string) \<Rightarrow> store \<Rightarrow> store \<Rightarrow> bool" where
  "ledger_step sha s t \<longleftrightarrow> delivery_ok s \<and> delivery_step sha s t"

lemma ledger_step_effect: "ledger_step sha s t \<Longrightarrow> delivery_effect s t"
  using delivery_step_effect by (auto simp: ledger_step_def delivery_ok_def objectives_ok_def)

lemma ledger_run:
  "(delivery_step sha)\<^sup>*\<^sup>* s t \<Longrightarrow> delivery_ok s \<Longrightarrow> (ledger_step sha)\<^sup>*\<^sup>* s t"
proof (induction rule: rtranclp_induct)
  case (step u v)
  then have "delivery_ok u" by (blast intro: delivery.inv_run)
  with step show ?case by (auto simp: ledger_step_def intro: rtranclp.rtrancl_into_rtrancl)
qed simp

interpretation delivery_log: logged_machine "ledger_step sha" events for sha
  by standard (use ledger_step_effect delivery_effect_def in blast)

lemma objective_effects_counter: "objective_effect\<^sup>*\<^sup>* s t \<Longrightarrow> lease_counter s \<le> lease_counter t"
proof (induction rule: rtranclp_induct)
  case (step u v)
  from step(2) have "lease_counter u \<le> lease_counter v" by cases auto
  with step(3) show ?case by simp
qed simp

interpretation delivery_fence: fenced_machine "ledger_step sha" lease_counter for sha
  by standard (use ledger_step_effect delivery_effect_def objective_effects_counter in blast)

interpretation delivery_receipts: logged_machine "ledger_step sha" stage_receipts for sha
proof
  have "objective_effect\<^sup>*\<^sup>* s t \<Longrightarrow> \<exists>xs. stage_receipts t = stage_receipts s @ xs" for s t
  proof (induction rule: rtranclp_induct)
    case (step u v)
    from step(2) have "\<exists>ys. stage_receipts v = stage_receipts u @ ys" by cases auto
    with step(3) show ?case by auto
  qed simp
  then show "ledger_step sha s t \<Longrightarrow> \<exists>xs. stage_receipts t = stage_receipts s @ xs" for s t
    using ledger_step_effect delivery_effect_def by blast
qed

lemma ledger_intents:
  "(ledger_step sha)\<^sup>*\<^sup>* s t \<Longrightarrow> d \<in> set (dispatches s) \<Longrightarrow> \<exists>d' \<in> set (dispatches t). same_intent d d'"
proof (induction rule: rtranclp_induct)
  case base
  then show ?case by (auto simp: same_intent_def)
next
  case (step u v)
  then obtain d' where d': "d' \<in> set (dispatches u)" "same_intent d d'" by blast
  have "dispatch_effect (dispatches u) (dispatches v)"
    using ledger_step_effect [OF step(2)] by (simp add: delivery_effect_def)
  from dispatch_effect_keeps [OF this d'(1)] obtain d'' where "d'' \<in> set (dispatches v)" "same_intent d' d''"
    by blast
  with d'(2) show ?case by (auto simp: same_intent_def)
qed

text \<open>How the row of an objective may look later.\<close>

definition later_row :: "objective_row \<Rightarrow> objective_row \<Rightarrow> bool" where
  "later_row r r' \<longleftrightarrow> o_id r' = o_id r \<and> o_command r' = o_command r \<and> o_task r' = o_task r
     \<and> o_hash r' = o_hash r \<and> o_request r' = o_request r \<and> o_revision r \<le> o_revision r'
     \<and> (o_state r = OComplete \<longrightarrow> r' = r)"

lemma later_row_trans: "later_row a b \<Longrightarrow> later_row b c \<Longrightarrow> later_row a c"
  unfolding later_row_def by (metis order_trans)

lemma objective_effect_row:
  assumes "objective_effect s t" and "row_get o_id k (objectives s) = Some r"
  shows "\<exists>r'. row_get o_id k (objectives t) = Some r' \<and> later_row r r' \<and>
    (\<forall>l. l \<le> lease_counter s \<longrightarrow> o_lease r = 0 \<or> l \<le> o_lease r \<longrightarrow> o_lease r' = 0 \<or> l \<le> o_lease r')"
  using assms(1)
proof cases
  case oe_keep
  with assms(2) show ?thesis by (simp add: later_row_def)
next
  case (oe_new x)
  with assms(2) show ?thesis by (simp add: ob.add_look later_row_def)
next
  case (oe_rewrite j x x')
  have "o_id x' = j" using oe_rewrite(1,2) ob.look_Some by (auto simp: open_rewrite_def)
  then have look: "row_get o_id k (objectives t) =
      (if k = j then map_option (\<lambda>_. x') (row_get o_id k (objectives s)) else row_get o_id k (objectives s))"
    unfolding oe_rewrite(5) by (intro ob.look_put)
  show ?thesis
  proof (cases "k = j")
    case True
    with assms(2) oe_rewrite(1) have "x = r" by simp
    with True look assms(2) oe_rewrite(2,3) show ?thesis
      by (auto simp: later_row_def open_rewrite_def)
  qed (use look assms(2) in \<open>simp add: later_row_def\<close>)
next
  case (oe_receipt j x stages y x')
  have "o_id x' = j" using oe_receipt(1,4) ob.look_Some by (auto simp: receipt_rewrite_def)
  then have look: "row_get o_id k (objectives t) =
      (if k = j then map_option (\<lambda>_. x') (row_get o_id k (objectives s)) else row_get o_id k (objectives s))"
    unfolding oe_receipt(8) by (intro ob.look_put)
  show ?thesis
  proof (cases "k = j")
    case True
    with assms(2) oe_receipt(1) have "x = r" by simp
    with True look assms(2) oe_receipt(4,6) show ?thesis
      by (auto simp: later_row_def receipt_rewrite_def)
  qed (use look assms(2) in \<open>simp add: later_row_def\<close>)
qed

lemma objective_effects_row:
  "objective_effect\<^sup>*\<^sup>* s t \<Longrightarrow> row_get o_id k (objectives s) = Some r \<Longrightarrow>
   \<exists>r'. row_get o_id k (objectives t) = Some r' \<and> later_row r r' \<and>
    (\<forall>l. l \<le> lease_counter s \<longrightarrow> o_lease r = 0 \<or> l \<le> o_lease r \<longrightarrow> o_lease r' = 0 \<or> l \<le> o_lease r')"
proof (induction rule: rtranclp_induct)
  case base
  then show ?case by (simp add: later_row_def)
next
  case (step u v)
  then obtain r' where r': "row_get o_id k (objectives u) = Some r'" "later_row r r'"
    "\<forall>l. l \<le> lease_counter s \<longrightarrow> o_lease r = 0 \<or> l \<le> o_lease r \<longrightarrow> o_lease r' = 0 \<or> l \<le> o_lease r'"
    by blast
  from objective_effect_row [OF step(2) r'(1)] obtain r'' where
    r'': "row_get o_id k (objectives v) = Some r''" "later_row r' r''"
    "\<forall>l. l \<le> lease_counter u \<longrightarrow> o_lease r' = 0 \<or> l \<le> o_lease r' \<longrightarrow> o_lease r'' = 0 \<or> l \<le> o_lease r''"
    by blast
  have "lease_counter s \<le> lease_counter u" using step(1) by (rule objective_effects_counter)
  with r' r'' show ?case by (meson later_row_trans order_trans)
qed

lemma ledger_row:
  "(ledger_step sha)\<^sup>*\<^sup>* s t \<Longrightarrow> row_get o_id k (objectives s) = Some r \<Longrightarrow>
   \<exists>r'. row_get o_id k (objectives t) = Some r' \<and> later_row r r' \<and>
    (\<forall>l. l \<le> lease_counter s \<longrightarrow> o_lease r = 0 \<or> l \<le> o_lease r \<longrightarrow> o_lease r' = 0 \<or> l \<le> o_lease r')"
proof (rule objective_effects_row)
  show "(ledger_step sha)\<^sup>*\<^sup>* s t \<Longrightarrow> objective_effect\<^sup>*\<^sup>* s t"
    by (induction rule: rtranclp_induct)
      (auto dest!: ledger_step_effect simp: delivery_effect_def intro: rtranclp_trans)
qed

end
