(* ===== verification/Delivery_Laws.thy ===== *)
theory Delivery_Laws
  imports Delivery_Machine Planning_Ledger
begin

text \<open>
  What the delivery ledger guarantees over every run: the order of the stages, the meaning of a
  completed objective, leases that fence, effects invoked at most once, receipts accepted at most
  once. The demonstration run at the start evaluates the witnesses.
\<close>

section \<open>A run to evaluate\<close>

definition demo_objective :: pyval where
  "demo_objective = VDict [(''requested_endpoints'', VDict [(''report'', VStr ''x'')]),
     (''scope'', VStr ''repo''), (''authority'', VStr ''owner''),
     (''identities'', VDict [(''source'', VStr ''s'')])]"

definition demo_oid :: string where
  "demo_oid = ''delivery-objective-request_hash''"

definition demo_report :: "string \<Rightarrow> int \<Rightarrow> stage_report" where
  "demo_report g expected = \<lparr>rep_stage = g, rep_attempt = 1, rep_expected = expected, rep_epoch = 1,
     rep_lease = 1, rep_state = None, rep_status = None, rep_receipt = None, rep_payload = None,
     rep_evidence = Some ''fp'', rep_identities = VNone, rep_failure = VNone, rep_retry = False,
     rep_cost = VInt 0, rep_wakeup = VNone, rep_dispatch = None\<rparr>"

definition demo_created :: store where
  "demo_created = ran (create_delivery_objective demo_sha ''task'' ''cmd'' demo_objective 100 demo_enqueued)"

definition demo_leased :: store where
  "demo_leased = ran (claim_delivery_objective demo_oid ''host'' 1 1 600 110 demo_created)"

definition demo_planned :: store where
  "demo_planned = ran (record_delivery_stage_receipt demo_sha demo_oid ''r1''
     (demo_report ''plan'' 2) 120 demo_leased)"

definition demo_implemented :: store where
  "demo_implemented = ran (record_delivery_stage_receipt demo_sha demo_oid ''r2''
     (demo_report ''implement'' 3) 130 demo_planned)"

definition demo_complete :: store where
  "demo_complete = ran (record_delivery_stage_receipt demo_sha demo_oid ''r3''
     (demo_report ''verify'' 4) 140 demo_implemented)"

lemma demo_create: "\<exists>x. create_delivery_objective demo_sha ''task'' ''cmd'' demo_objective 100 demo_enqueued
    = Inr (x, demo_created)"
  unfolding demo_created_def ranI by code_simp

lemma demo_claim: "\<exists>x. claim_delivery_objective demo_oid ''host'' 1 1 600 110 demo_created
    = Inr (x, demo_leased)"
  unfolding demo_leased_def ranI by code_simp

lemma demo_receipt1: "\<exists>x. record_delivery_stage_receipt demo_sha demo_oid ''r1''
     (demo_report ''plan'' 2) 120 demo_leased = Inr (x, demo_planned)"
  unfolding demo_planned_def ranI by code_simp

lemma demo_receipt2: "\<exists>x. record_delivery_stage_receipt demo_sha demo_oid ''r2''
     (demo_report ''implement'' 3) 130 demo_planned = Inr (x, demo_implemented)"
  unfolding demo_implemented_def ranI by code_simp

lemma demo_receipt3: "\<exists>x. record_delivery_stage_receipt demo_sha demo_oid ''r3''
     (demo_report ''verify'' 4) 140 demo_implemented = Inr (x, demo_complete)"
  unfolding demo_complete_def ranI by code_simp

lemma demo_delivery_reachable:
  "reachable no_objectives (delivery_step demo_sha) demo_leased"
  "reachable no_objectives (delivery_step demo_sha) demo_planned"
  "reachable no_objectives (delivery_step demo_sha) demo_complete"
proof -
  have "no_objectives demo_enqueued" unfolding no_objectives_def by code_simp
  then have "reachable no_objectives (delivery_step demo_sha) demo_enqueued" by (rule reachable_start)
  moreover have "delivery_step demo_sha demo_enqueued demo_created" using demo_create by (blast intro: ds_create)
  ultimately have "reachable no_objectives (delivery_step demo_sha) demo_created" by (rule reachable_step)
  moreover have "delivery_step demo_sha demo_created demo_leased" using demo_claim by (blast intro: ds_claim)
  ultimately show l: "reachable no_objectives (delivery_step demo_sha) demo_leased" by (rule reachable_step)
  moreover have "delivery_step demo_sha demo_leased demo_planned" using demo_receipt1 by (blast intro: ds_receipt)
  ultimately show "reachable no_objectives (delivery_step demo_sha) demo_planned" by (rule reachable_step)
  moreover have "delivery_step demo_sha demo_planned demo_implemented" using demo_receipt2 by (blast intro: ds_receipt)
  ultimately have "reachable no_objectives (delivery_step demo_sha) demo_implemented" by (rule reachable_step)
  moreover have "delivery_step demo_sha demo_implemented demo_complete" using demo_receipt3 by (blast intro: ds_receipt)
  ultimately show "reachable no_objectives (delivery_step demo_sha) demo_complete" by (rule reachable_step)
qed

section \<open>Completion and order\<close>

text \<open>
  Property C1. In every reachable ledger a completed objective carries a success receipt for
  every stage its frozen request requires, and an exact identity for every name the request
  requires: nothing else completes an objective.
\<close>

theorem completed_means_delivered:
  assumes "reachable no_objectives (delivery_step sha) s"
    and "r \<in> set (objectives s)" and "o_state r = OComplete"
  shows "\<exists>stages names. required_delivery_stages (o_request r) = Inr stages
    \<and> (\<forall>g \<in> set stages. \<exists>x \<in> set (stage_receipts s). s_objective x = o_id r \<and> s_stage x = g
         \<and> s_state x = RSucceeded)
    \<and> required_completion_identities (o_request r) = Inr names
    \<and> (\<forall>n \<in> set names. has_key n (o_identities r))"
proof -
  have "objective_ok s r"
    using delivery.inv_reachable [OF assms(1)] assms(2) by (simp add: delivery_ok_def objectives_ok_def)
  with assms(3) obtain stages names where "required_delivery_stages (o_request r) = Inr stages"
    "set stages \<subseteq> set (succeeded_stages (o_id r) s)"
    "required_completion_identities (o_request r) = Inr names"
    "set names \<subseteq> set (map fst (items_of (o_identities r)))"
    unfolding objective_ok_def by blast
  then show ?thesis by (fastforce simp: succeeded_stages_def has_key_def)
qed

theorem completed_means_delivered_witness:
  "\<exists>r \<in> set (objectives demo_complete). o_state r = OComplete
    \<and> (\<exists>x \<in> set (stage_receipts demo_complete). s_objective x = o_id r)"
proof -
  have "\<exists>r \<in> set (objectives demo_complete). o_state r = OComplete" by code_simp
  then obtain r where r: "r \<in> set (objectives demo_complete)" "o_state r = OComplete" by blast
  from completed_means_delivered [OF demo_delivery_reachable(3) r] obtain stages where
    "required_delivery_stages (o_request r) = Inr stages"
    "\<forall>g \<in> set stages. \<exists>x \<in> set (stage_receipts demo_complete). s_objective x = o_id r \<and> s_stage x = g
         \<and> s_state x = RSucceeded" by blast
  moreover from this(1) have "Plan \<in> set stages" by (rule required_stages_sorted(2))
  ultimately show ?thesis using r by blast
qed

text \<open>
  Property C13. Stages are never skipped: in every reachable ledger, an objective whose current
  stage is g has a success receipt for every required stage before g.
\<close>

theorem stages_in_order:
  assumes "reachable no_objectives (delivery_step sha) s"
    and "r \<in> set (objectives s)" and "required_delivery_stages (o_request r) = Inr stages"
  shows "o_stage r \<in> set stages \<and> (\<forall>g \<in> set stages. stage_index g < stage_index (o_stage r) \<longrightarrow>
    (\<exists>x \<in> set (stage_receipts s). s_objective x = o_id r \<and> s_stage x = g \<and> s_state x = RSucceeded))"
proof -
  have "objective_ok s r"
    using delivery.inv_reachable [OF assms(1)] assms(2) by (simp add: delivery_ok_def objectives_ok_def)
  with assms(3) have "o_stage r \<in> set stages"
    and "\<forall>g \<in> set stages. g < o_stage r \<longrightarrow> g \<in> set (succeeded_stages (o_id r) s)"
    unfolding objective_ok_def by blast+
  then show ?thesis by (fastforce simp: succeeded_stages_def less_stage_def)
qed

theorem stages_in_order_witness:
  "\<exists>r \<in> set (objectives demo_planned). o_stage r = Implement \<and>
    (\<exists>x \<in> set (stage_receipts demo_planned). s_objective x = o_id r \<and> s_stage x = Plan \<and> s_state x = RSucceeded)"
proof -
  have "\<exists>r \<in> set (objectives demo_planned). o_stage r = Implement
      \<and> required_delivery_stages (o_request r) = Inr [Plan, Implement, Verify]" by code_simp
  then obtain r where r: "r \<in> set (objectives demo_planned)" "o_stage r = Implement"
    "required_delivery_stages (o_request r) = Inr [Plan, Implement, Verify]" by blast
  from stages_in_order [OF demo_delivery_reachable(2) r(1,3)] r show ?thesis by (intro bexI [of _ r]) auto
qed

text \<open>
  Property C15. A completed objective is final: no later operation of any coordinator, no
  authorization and no reconciliation changes its row, and an objective's request, task, command
  and hash never change at all, while its revision never decreases.
\<close>

theorem objective_rows_over_runs:
  assumes "(delivery_step sha)\<^sup>*\<^sup>* s t" and "delivery_ok s" and "row_get o_id k (objectives s) = Some r"
  shows "\<exists>r'. row_get o_id k (objectives t) = Some r' \<and> o_request r' = o_request r \<and> o_hash r' = o_hash r
    \<and> o_task r' = o_task r \<and> o_command r' = o_command r \<and> o_revision r \<le> o_revision r'
    \<and> (o_state r = OComplete \<longrightarrow> r' = r)"
  using ledger_row [OF ledger_run [OF assms(1,2)] assms(3)] unfolding later_row_def by blast

theorem objective_rows_over_runs_witness:
  "\<exists>r. row_get o_id demo_oid (objectives demo_leased) = Some r
    \<and> (\<exists>r'. row_get o_id demo_oid (objectives demo_planned) = Some r' \<and> o_request r' = o_request r)"
proof -
  have step: "delivery_step demo_sha demo_leased demo_planned" using demo_receipt1 by (blast intro: ds_receipt)
  have "row_get o_id demo_oid (objectives demo_leased) \<noteq> None" by code_simp
  then obtain r where r: "row_get o_id demo_oid (objectives demo_leased) = Some r" by blast
  from objective_rows_over_runs [OF r_into_rtranclp delivery.inv_reachable r, of demo_sha, OF step
      demo_delivery_reachable(1)] r show ?thesis by blast
qed

section \<open>Leases\<close>

text \<open>
  Property C16. In every reachable ledger two objectives never hold the same lease epoch, and no
  lease epoch exceeds the counter, so every new lease is fresh.
\<close>

theorem lease_epochs_exclusive:
  assumes "reachable no_objectives (delivery_step sha) s"
    and "a \<in> set (objectives s)" and "b \<in> set (objectives s)"
  shows "o_lease a \<le> lease_counter s \<and> (o_lease a = o_lease b \<and> o_lease a \<noteq> 0 \<longrightarrow> a = b)"
proof -
  have ok: "objectives_ok s"
    using delivery.inv_reachable [OF assms(1)] by (simp add: delivery_ok_def)
  then have u: "unique_key o_id (objectives s)" by (simp add: objectives_ok_def)
  have "a = b" if "o_id a = o_id b"
    by (rule unique_same [OF u assms(2,3) that])
  moreover have "o_lease a = o_lease b \<Longrightarrow> o_lease a \<noteq> 0 \<Longrightarrow> o_id a = o_id b"
    using ok assms(2,3) unfolding objectives_ok_def distinct_leases_def by blast
  moreover have "o_lease a \<le> lease_counter s"
    using ok assms(2) unfolding objectives_ok_def objective_ok_def by blast
  ultimately show ?thesis by blast
qed

theorem lease_epochs_exclusive_witness:
  "\<exists>a \<in> set (objectives demo_leased). o_lease a = 1 \<and> o_lease a \<le> lease_counter demo_leased"
proof -
  have "\<exists>a \<in> set (objectives demo_leased). o_lease a = 1" by code_simp
  then obtain a where a: "a \<in> set (objectives demo_leased)" "o_lease a = 1" by blast
  from lease_epochs_exclusive [OF demo_delivery_reachable(1) a(1) a(1)] a show ?thesis by blast
qed
end
