(* ===== verification/Delivery_Once.thy ===== *)
theory Delivery_Once
  imports Delivery_Laws
begin

text \<open>
  What happens at most once: a lease is current, an effect is permitted, a rollback is permitted,
  a receipt is accepted. Each is stated over every later run of the ledger.
\<close>

section \<open>Superseded leases\<close>

lemma claimed_lease:
  assumes "claim_delivery_objective k owner e n secs now s = Inr (Some r, t)"
  shows "row_get o_id k (objectives t) = Some r \<and> (o_lease r \<le> lease_counter t \<or> held_lease r (utc now))"
proof -
  from assms obtain m u where u: "reconcile_delivery_safe_point_waits now s = Inr (m, u)"
    and t: "t = u \<and> row_get o_id k (objectives u) = Some r \<and> held_lease r (utc now)
      \<or> (\<exists>x. row_get o_id k (objectives u) = Some x
      \<and> r = claimed_row owner e (lease_counter u + 1) secs now x
      \<and> meta_objective_lease t = Some (lease_counter u + 1)
      \<and> objectives t = row_put o_id k (\<lambda>_. r) (objectives u))"
    unfolding claim_delivery_objective_def next_delivery_lease_epoch_def Let_def
    by (auto simp: res_simps emit_event_snd lease_counter_def split: if_splits)
  from t show ?thesis
  proof
    assume "\<exists>x. row_get o_id k (objectives u) = Some x
      \<and> r = claimed_row owner e (lease_counter u + 1) secs now x
      \<and> meta_objective_lease t = Some (lease_counter u + 1)
      \<and> objectives t = row_put o_id k (\<lambda>_. r) (objectives u)"
    then obtain x where x: "row_get o_id k (objectives u) = Some x"
      "r = claimed_row owner e (lease_counter u + 1) secs now x"
      "meta_objective_lease t = Some (lease_counter u + 1)"
      "objectives t = row_put o_id k (\<lambda>_. r) (objectives u)" by blast
    have key: "o_id r = k" using ob.look_Some [OF x(1)] by (simp add: x(2) claimed_row_def)
    have "row_get o_id k (objectives t) = Some r"
      unfolding x(4) by (subst ob.look_put) (use key x(1) in simp_all)
    then show ?thesis by (simp add: lease_counter_def x(2,3) claimed_row_def)
  qed simp
qed

lemma stale_lease:
  assumes "row_get o_id k (objectives u) = Some r" and "o_lease r = 0 \<or> L \<le> o_lease r"
    and "1 \<le> l" and "l < L"
  shows "\<not> lease_live u r e l ts"
  using assms by (auto simp: lease_live_def)

text \<open>
  Property C11. A lease that was superseded never writes again: when an objective is claimed
  under lease L, then in every later ledger each operation that presents an earlier lease of the
  objective is refused: a renewal, a dispatch, an observation, a safe-point wait, the begin
  and the settlement of a rollback of any of its dispatches, and a planning retry in its name. A
  receipt under it changes nothing (it can only be recognised as an exact duplicate).
\<close>

theorem superseded_lease_is_dead:
  assumes "claim_delivery_objective k owner e n secs now s = Inr (Some r, t)" and "delivery_ok t"
    and "(delivery_step sha)\<^sup>*\<^sup>* t u" and "1 \<le> l" and "l < o_lease r" and "rep_lease rep = l"
  shows "renew_delivery_objective_lease k e' l n' secs' later u \<noteq> Inr x
    \<and> begin_delivery_stage_dispatch sha k g a n' e' l ad later u \<noteq> Inr y
    \<and> defer_delivery_observation k n' e' l w wk di later u \<noteq> Inr z
    \<and> defer_delivery_deployment_safe_point k n' e' l blockers later u \<noteq> Inr z
    \<and> (\<forall>d. row_get d_id dk (dispatches u) = Some d \<and> d_objective d = k \<longrightarrow>
         begin_delivery_stage_rollback dk e' l later u \<noteq> Inr y
         \<and> settle_delivery_stage_rollback dk e' l receipt later u \<noteq> Inr y')
    \<and> retry_planning_request c expected most reason e' (Some (k, l)) later u \<noteq> Inr m
    \<and> (record_delivery_stage_receipt sha k i rep later u = Inr ((p, q, dup), v) \<longrightarrow> dup \<and> v = u)"
proof -
  have c: "row_get o_id k (objectives t) = Some r" using claimed_lease [OF assms(1)] by blast
  have "r \<in> set (objectives t)" using ob.look_Some [OF c] by blast
  then have "o_lease r \<le> lease_counter t"
    using assms(2) unfolding delivery_ok_def objectives_ok_def objective_ok_def by blast
  with ledger_row [OF ledger_run [OF assms(3,2)] c] obtain r' where
    r': "row_get o_id k (objectives u) = Some r'" "o_lease r' = 0 \<or> o_lease r \<le> o_lease r'" by blast
  have dead: "\<not> lease_live u r' e' l ts" for e' ts by (rule stale_lease [OF r' assms(4,5)])
  have 1: "renew_delivery_objective_lease k e' l n' secs' later u \<noteq> Inr x"
    using dead r'(1) by (auto simp: renew_delivery_objective_lease_def res_simps Let_def)
  have 2: "begin_delivery_stage_dispatch sha k g a n' e' l ad later u \<noteq> Inr y"
  proof
    assume b: "begin_delivery_stage_dispatch sha k g a n' e' l ad later u = Inr y"
    then obtain st f where "dispatch_fence k g a n' e' l ad later u = Inr (f, st)"
      unfolding begin_delivery_stage_dispatch_def bindR_Inr by (auto split: prod.splits)
    from dispatch_fence_Inr(1,2) [OF this] r'(1) dead show False by simp
  qed
  have 3: "defer_delivery_observation k n' e' l w wk di later u \<noteq> Inr z"
  proof
    assume "defer_delivery_observation k n' e' l w wk di later u = Inr z"
    then obtain f where "observation_fence k n' e' l di later u = Inr f"
      unfolding defer_delivery_observation_def bindR_Inr by blast
    from observation_fence_Inr(1,2) [OF this] r'(1) dead show False by simp
  qed
  have 4: "defer_delivery_deployment_safe_point k n' e' l blockers later u \<noteq> Inr z"
    using dead r'(1) by (auto simp: defer_delivery_deployment_safe_point_def res_simps)
  have 5: "begin_delivery_stage_rollback dk e' l later u \<noteq> Inr y \<and> settle_delivery_stage_rollback dk e' l receipt later u \<noteq> Inr y'"
    if "row_get d_id dk (dispatches u) = Some d" "d_objective d = k" for d
    using dead r'(1) that
    by (auto simp: begin_delivery_stage_rollback_def settle_delivery_stage_rollback_def res_simps)
  have 6: "retry_planning_request c expected most reason e' (Some (k, l)) later u \<noteq> Inr m"
    using dead r'(1) by (auto simp: retry_planning_request_def planning_retry_limit_def res_simps)
  have "dup \<and> v = u" if "record_delivery_stage_receipt sha k i rep later u = Inr ((p, q, dup), v)"
    using that
  proof (cases rule: receipt_cases)
    case (2 c f stages merged st)
    from receipt_fence_Inr(1,3) [OF 2(4)] r'(1) dead assms(6) show ?thesis by simp
  qed simp
  with 1 2 3 4 5 6 show ?thesis by blast
qed

definition demo_reclaimed :: store where
  "demo_reclaimed = ran (claim_delivery_objective demo_oid ''host-b'' 1 2 600 800 demo_leased)"

theorem superseded_lease_is_dead_witness:
  "\<exists>r. claim_delivery_objective demo_oid ''host-b'' 1 2 600 800 demo_leased = Inr (Some r, demo_reclaimed)
    \<and> o_lease r = 2 \<and> (\<nexists>x. renew_delivery_objective_lease demo_oid 1 1 2 60 810 demo_reclaimed = Inr x)"
proof -
  have "(case claim_delivery_objective demo_oid ''host-b'' 1 2 600 800 demo_leased of
      Inr (Some r, _) \<Rightarrow> o_lease r = 2 | _ \<Rightarrow> False)" by code_simp
  then obtain r where r: "claim_delivery_objective demo_oid ''host-b'' 1 2 600 800 demo_leased
      = Inr (Some r, demo_reclaimed)" "o_lease r = 2"
    by (auto simp: demo_reclaimed_def ran_def split: sum.splits option.splits)
  have "delivery_step demo_sha demo_leased demo_reclaimed" using r(1) by (rule ds_claim)
  with demo_delivery_reachable(1) have "reachable no_objectives (delivery_step demo_sha) demo_reclaimed"
    by (rule reachable_step)
  then have "delivery_ok demo_reclaimed" by (rule delivery.inv_reachable)
  from superseded_lease_is_dead [OF r(1) this rtranclp.rtrancl_refl, where sha = demo_sha and l = 1
      and rep = "demo_report ''plan'' 2"] r
  show ?thesis by (simp add: demo_report_def)
qed

section \<open>Effects\<close>

lemma begin_twice:
  assumes "begin_delivery_stage_dispatch sha k g a n e l ad now s = Inr ((d, True), t)"
    and "delivery_ok s" and "(delivery_step sha)\<^sup>*\<^sup>* t u"
    and "begin_delivery_stage_dispatch sha k g a n' e' l' ad' later u = Inr ((d', new), v)"
  shows "\<not> new \<and> v = u \<and> d_id d' = d_id d \<and> d_hash d' = d_hash d"
proof -
  from assms(1) obtain r st where f: "dispatch_fence k g a n e l ad now s = Inr (r, st)"
    and st: "start_stage_dispatch (new_dispatch_row sha r st ad now) now s = Inr ((d, True), t)"
    by (cases rule: begin_dispatch_cases) auto
  note fence = dispatch_fence_Inr [OF f]
  have key: "intent_key d = (k, st, a)" and mem: "d \<in> set (dispatches t)"
    using st fence by (auto simp: start_stage_dispatch_def res_simps dp.add_Inr emit_event_def Let_def
        new_dispatch_row_def intent_key_def)
  have "delivery_step sha s t" using assms(1) by (rule ds_dispatch)
  then have ok: "delivery_ok t" using assms(2) by (rule delivery_step_ok)
  then have oku: "delivery_ok u" using assms(3) by (blast intro: delivery.inv_run)
  from ledger_intents [OF ledger_run [OF assms(3) ok] mem] obtain d2 where
    d2: "d2 \<in> set (dispatches u)" "same_intent d d2" by blast
  from assms(4) show ?thesis
  proof (cases rule: begin_dispatch_cases)
    case (1 r' st')
    have "normalize_stage (VStr g) = Inr st" "normalize_stage (VStr g) = Inr st'"
      using f 1(1) by (auto simp: dispatch_fence_def res_simps)
    with key 1(2) d2(2) have "intent_key d' = intent_key d2" "d' \<in> set (dispatches u)"
      by (auto simp: stage_dispatch_def find_Some_iff intent_key_def same_intent_def)
    with oku d2(1) have "d' = d2" unfolding delivery_ok_def by (blast dest: unique_same)
    with d2(2) 1(3,4) show ?thesis by (simp add: same_intent_def)
  next
    case (2 r' st')
    have "normalize_stage (VStr g) = Inr st" "normalize_stage (VStr g) = Inr st'"
      using f 2(1) by (auto simp: dispatch_fence_def res_simps)
    with key 2(2) d2 have False by (auto simp: stage_dispatch_def find_None_iff intent_key_def same_intent_def)
    then show ?thesis ..
  qed
qed

text \<open>
  Property C2. Permission for an external effect is given at most once. After a dispatch of a
  stage attempt returned as new, every later call for the same objective, stage and attempt, by
  whatever coordinator, under whatever lease and after whatever happened in between, returns the
  recorded intent as not new and writes nothing.
\<close>

theorem effect_permitted_once:
  assumes "begin_delivery_stage_dispatch sha k g a n e l ad now s = Inr ((d, True), t)"
    and "delivery_ok s" and "(delivery_step sha)\<^sup>*\<^sup>* t u"
    and "begin_delivery_stage_dispatch sha k g a n' e' l' ad' later u = Inr ((d', new), v)"
  shows "\<not> new \<and> v = u \<and> d_id d' = d_id d \<and> d_hash d' = d_hash d"
  using assms by (rule begin_twice)

definition demo_intended :: store where
  "demo_intended = ran (begin_delivery_stage_dispatch demo_sha demo_oid ''plan'' 1 2 1 1 ''local'' 120 demo_leased)"

theorem effect_permitted_once_witness:
  "\<exists>d d' new v. begin_delivery_stage_dispatch demo_sha demo_oid ''plan'' 1 2 1 1 ''local'' 120 demo_leased
      = Inr ((d, True), demo_intended)
    \<and> begin_delivery_stage_dispatch demo_sha demo_oid ''plan'' 1 2 1 1 ''other'' 130 demo_intended
      = Inr ((d', new), v) \<and> \<not> new \<and> v = demo_intended"
proof -
  have "(case begin_delivery_stage_dispatch demo_sha demo_oid ''plan'' 1 2 1 1 ''local'' 120 demo_leased of
      Inr ((_, new), _) \<Rightarrow> new | _ \<Rightarrow> False)" by code_simp
  then obtain d where d: "begin_delivery_stage_dispatch demo_sha demo_oid ''plan'' 1 2 1 1 ''local'' 120 demo_leased
      = Inr ((d, True), demo_intended)"
    by (auto simp: demo_intended_def ran_def split: sum.splits prod.splits)
  have "(case begin_delivery_stage_dispatch demo_sha demo_oid ''plan'' 1 2 1 1 ''other'' 130 demo_intended of
      Inr _ \<Rightarrow> True | _ \<Rightarrow> False)" by code_simp
  then obtain d' new v where d': "begin_delivery_stage_dispatch demo_sha demo_oid ''plan'' 1 2 1 1 ''other'' 130
      demo_intended = Inr ((d', new), v)"
    by (auto split: sum.splits prod.splits)
  have "delivery_ok demo_leased" by (rule delivery.inv_reachable [OF demo_delivery_reachable(1)])
  from effect_permitted_once [OF d this rtranclp.rtrancl_refl d'] d d' show ?thesis by blast
qed

text \<open>
  Permission for a rollback is given at most once per dispatch, and a verified
  rollback is final: its receipt is never replaced.
\<close>

theorem rollback_permitted_once:
  assumes "begin_delivery_stage_rollback k e l now s = Inr ((d, True), t)"
    and "delivery_ok s" and "(delivery_step sha)\<^sup>*\<^sup>* t u"
    and "begin_delivery_stage_rollback k e' l' later u = Inr ((d', new), v)"
  shows "\<not> new \<and> v = u \<and> d_id d' = k"
proof -
  from assms(1) obtain d0 where d0: "row_get d_id k (dispatches s) = Some d0"
    and d: "d = d0\<lparr>d_rollback := Some DStarted, d_updated := utc now\<rparr>"
    and t: "dispatches t = row_put d_id k (\<lambda>_. d) (dispatches s)"
    by (auto simp: begin_delivery_stage_rollback_def res_simps Let_def emit_event_snd split: if_splits)
  have id: "d_id d = k" using dp.look_Some [OF d0] d by simp
  have "row_get d_id k (dispatches t) = Some d"
    unfolding t by (subst dp.look_put) (use id d0 in simp_all)
  then have mem: "d \<in> set (dispatches t)" using dp.look_Some by blast
  have "\<exists>x. x = (d, True)" by simp
  have "delivery_step sha s t" using assms(1) by (rule ds_rollback)
  then have ok: "delivery_ok t" using assms(2) by (rule delivery_step_ok)
  then have oku: "delivery_ok u" using assms(3) by (blast intro: delivery.inv_run)
  from ledger_intents [OF ledger_run [OF assms(3) ok] mem] obtain d2 where
    d2: "d2 \<in> set (dispatches u)" "same_intent d d2" by blast
  then have d2': "d_id d2 = k" "d_rollback d2 \<noteq> None" using id d by (auto simp: same_intent_def)
  from assms(4) obtain d3 where d3: "row_get d_id k (dispatches u) = Some d3"
    and out: "if d_rollback d3 \<noteq> None then d' = d3 \<and> \<not> new \<and> v = u else new"
    by (auto simp: begin_delivery_stage_rollback_def res_simps Let_def split: if_splits)
  have "d3 \<in> set (dispatches u)" "d_id d3 = k" using dp.look_Some [OF d3] by auto
  with oku d2(1) d2'(1) have "d3 = d2" unfolding delivery_ok_def by (metis unique_same)
  with out d2'(2) \<open>d_id d3 = k\<close> show ?thesis by simp
qed

lemma delivery_ok_dispatches:
  assumes "delivery_ok s" and "unique_key d_id ds" and "unique_key intent_key ds"
  shows "delivery_ok (s\<lparr>dispatches := ds\<rparr>)"
proof -
  have "objectives_ok (s\<lparr>dispatches := ds\<rparr>) \<longleftrightarrow> objectives_ok s"
    by (simp add: objectives_ok_def objective_ok_def distinct_leases_def succeeded_stages_def
        lease_counter_def)
  with assms show ?thesis by (simp add: delivery_ok_def)
qed

definition demo_rollout :: store where
  "demo_rollout = demo_leased\<lparr>dispatches := [\<lparr>d_id = ''dp'', d_objective = demo_oid, d_task = ''task'',
     d_stage = Deploy, d_attempt = 1, d_hash = ''h'', d_adapter = ''prod'', d_state = DStarted,
     d_receipt = None, d_rollback = None, d_rollback_receipt = None, d_created = utc 115,
     d_updated = utc 115\<rparr>]\<rparr>"

definition demo_rolling :: store where
  "demo_rolling = ran (begin_delivery_stage_rollback ''dp'' 1 1 120 demo_rollout)"

theorem rollback_permitted_once_witness:
  "\<exists>d d' new v. begin_delivery_stage_rollback ''dp'' 1 1 120 demo_rollout = Inr ((d, True), demo_rolling)
    \<and> begin_delivery_stage_rollback ''dp'' 1 1 130 demo_rolling = Inr ((d', new), v) \<and> \<not> new"
proof -
  have "(case begin_delivery_stage_rollback ''dp'' 1 1 120 demo_rollout of
      Inr ((_, new), _) \<Rightarrow> new | _ \<Rightarrow> False)" by code_simp
  then obtain d where d: "begin_delivery_stage_rollback ''dp'' 1 1 120 demo_rollout = Inr ((d, True), demo_rolling)"
    by (auto simp: demo_rolling_def ran_def split: sum.splits prod.splits)
  have "(case begin_delivery_stage_rollback ''dp'' 1 1 130 demo_rolling of Inr _ \<Rightarrow> True | _ \<Rightarrow> False)"
    by code_simp
  then obtain d' new v where d': "begin_delivery_stage_rollback ''dp'' 1 1 130 demo_rolling = Inr ((d', new), v)"
    by (auto split: sum.splits prod.splits)
  have "delivery_ok demo_leased" by (rule delivery.inv_reachable [OF demo_delivery_reachable(1)])
  then have "delivery_ok demo_rollout"
    unfolding demo_rollout_def by (intro delivery_ok_dispatches) (simp_all add: unique_key_def)
  from rollback_permitted_once [OF d this rtranclp.rtrancl_refl d'] d d' show ?thesis by blast
qed

section \<open>Receipts\<close>

text \<open>
  Property C12. A stage receipt is accepted at most once: when a report was accepted under a
  receipt id, then the same report under the same id is recognised in every later ledger. It
  returns the receipt that was stored and changes nothing; another report under that id is refused.
\<close>

theorem receipt_accepted_once:
  assumes "record_delivery_stage_receipt sha k i rep now s = Inr ((x, r, False), t)"
    and "delivery_ok s" and "(delivery_step sha)\<^sup>*\<^sup>* t u"
    and "check_report sha k i rep' = Inr c'"
  shows "if k_hash c' = s_hash x
    then \<exists>r'. record_delivery_stage_receipt sha k i rep' later u = Inr ((x, r', True), u)
    else record_delivery_stage_receipt sha k i rep' later u = Inl (CommandConflictError
      ''delivery stage receipt was already used with different content'')"
proof -
  have "delivery_step sha s t" using assms(1) by (rule ds_receipt)
  then have ok: "delivery_ok t" using assms(2) by (rule delivery_step_ok)
  note run = ledger_run [OF assms(3) ok]
  from assms(1) show ?thesis
  proof (cases rule: receipt_cases)
    case (2 c f stages merged st)
    note fence = receipt_fence_Inr [OF 2(4)]
    from apply_receipt_Inr [OF 2(6)] obtain cursor where
      x: "x = receipt_row i f rep c now" and rs: "stage_receipts t = stage_receipts s @ [x]"
      and ob: "objectives t = row_put o_id (o_id f) (\<lambda>_. advanced_row i rep c merged st cursor now f) (objectives s)"
      by auto
    have id: "s_id x = i" "s_objective x = k" using fence(2) by (simp_all add: x receipt_row_def)
    have "row_get s_id i (stage_receipts t) = Some x"
      unfolding rs using 2(3) id by (simp add: sr.add_look)
    moreover obtain xs where "stage_receipts u = stage_receipts t @ xs"
      using delivery_receipts.log_run [OF run] by blast
    ultimately have look: "row_get s_id i (stage_receipts u) = Some x"
      by (simp add: row_get_def find_append)
    have "row_get o_id k (objectives t) \<noteq> None"
      unfolding ob using fence(1,2) by (subst ob.look_put) (simp_all add: advanced_row_def Let_def)
    then obtain r' where "row_get o_id k (objectives u) = Some r'"
      using ledger_row [OF run] by blast
    with look id show ?thesis
      by (simp add: record_delivery_stage_receipt_def assms(4))
  qed simp
qed

theorem receipt_accepted_once_witness:
  "\<exists>x r'. record_delivery_stage_receipt demo_sha demo_oid ''r1'' (demo_report ''plan'' 2) 500 demo_planned
    = Inr ((x, r', True), demo_planned)"
proof -
  from demo_receipt1 obtain y where y: "record_delivery_stage_receipt demo_sha demo_oid ''r1''
     (demo_report ''plan'' 2) 120 demo_leased = Inr (y, demo_planned)" by blast
  obtain x r dup where xr: "y = (x, r, dup)" by (metis prod_cases3)
  have "stage_receipts demo_leased = []" by code_simp
  then have "\<not> dup" using y xr by (auto elim!: receipt_cases)
  with y xr have acc: "record_delivery_stage_receipt demo_sha demo_oid ''r1''
     (demo_report ''plan'' 2) 120 demo_leased = Inr ((x, r, False), demo_planned)" by simp
  then obtain c where c: "check_report demo_sha demo_oid ''r1'' (demo_report ''plan'' 2) = Inr c"
    and hash: "s_hash x = k_hash c"
    by (cases rule: receipt_cases) (auto dest!: apply_receipt_Inr simp: receipt_row_def)
  have "delivery_ok demo_leased" by (rule delivery.inv_reachable [OF demo_delivery_reachable(1)])
  from receipt_accepted_once [OF acc this rtranclp.rtrancl_refl c, of 500] hash show ?thesis by auto
qed

end
