(* ===== verification/Delivery_Safety.thy ===== *)
theory Delivery_Safety
  imports Delivery_Laws
begin

text \<open>
  What a single operation of the delivery ledger promises: when a rollout may start, what a
  failure costs, when a retry is automatic, what a live verification has seen, and when a stage
  is authorised.
\<close>

section \<open>Budgets\<close>

lemma dget_or_Cons:
  "dget_or (VDict ((k, x) # kvs)) k' d = (if k' = k then x else dget_or (VDict kvs) k' d)"
  by (simp add: dget_or_def items_of_def)

lemma dget_or_Nil: "dget_or (VDict []) k d = d"
  by (simp add: dget_or_def items_of_def)

lemma canonical_budget:
  "canonical_json (budget_json b) = VDict
    [(''attempt_limit'', VInt (attempt_limit b)), (''attempts_used'', VInt (attempts_used b)),
     (''base_backoff_seconds'', VInt (base_backoff_seconds b)),
     (''cost_budget'', VFloat (Fin (cost_budget b))), (''cost_used'', VFloat (Fin (cost_used b))),
     (''elapsed_seconds'', VFloat (Fin (elapsed_seconds b))),
     (''max_backoff_seconds'', VInt (max_backoff_seconds b)),
     (''time_budget_seconds'', VInt (time_budget_seconds b))]"
  by (simp add: budget_json_def)

lemma normalize_budget_items:
  assumes "rename_keys BUDGET_ALIASES kvs = kvs"
    and "\<And>k d. dget_or (VDict kvs) k d = dget_or (budget_json b) k d" and "budget_ok b"
  shows "normalize_budget (VDict kvs) = Inr b"
  using assms(3) unfolding normalize_budget_def
  by (simp add: assms(1,2) Let_def is_dict_def items_of_def budget_json_def dget_or_Cons budget_int_def
      budget_number_def int_of_def finite_number_def number_of_def budget_ok_def bindR_def)

text \<open>
  A budget survives its storage: reading back what was written gives the same
  accounts, so the attempts, the time and the cost an objective has used are never lost between
  two operations.
\<close>

theorem budget_roundtrip:
  assumes "budget_ok b"
  shows "normalize_budget (budget_json b) = Inr b \<and> normalize_budget (canonical_json (budget_json b)) = Inr b"
proof
  have "rename_keys BUDGET_ALIASES (items_of (budget_json b)) = items_of (budget_json b)"
    by (simp add: rename_keys_def budget_json_def items_of_def key_alias_def BUDGET_ALIASES_def)
  then show "normalize_budget (budget_json b) = Inr b"
    using normalize_budget_items [of "items_of (budget_json b)" b] assms
    by (simp add: budget_json_def items_of_def)
  show "normalize_budget (canonical_json (budget_json b)) = Inr b"
    unfolding canonical_budget
  proof (rule normalize_budget_items [OF _ _ assms])
    fix k d
    show "dget_or (VDict [(''attempt_limit'', VInt (attempt_limit b)), (''attempts_used'', VInt (attempts_used b)),
     (''base_backoff_seconds'', VInt (base_backoff_seconds b)),
     (''cost_budget'', VFloat (Fin (cost_budget b))), (''cost_used'', VFloat (Fin (cost_used b))),
     (''elapsed_seconds'', VFloat (Fin (elapsed_seconds b))),
     (''max_backoff_seconds'', VInt (max_backoff_seconds b)),
     (''time_budget_seconds'', VInt (time_budget_seconds b))]) k d = dget_or (budget_json b) k d"
      by (simp add: budget_json_def dget_or_Cons)
  qed (simp add: rename_keys_def key_alias_def BUDGET_ALIASES_def)
qed

theorem budget_roundtrip_witness:
  "normalize_budget (canonical_json (budget_json \<lparr>attempt_limit = 3, attempts_used = 1,
     time_budget_seconds = 3600, elapsed_seconds = 5 / 2, cost_budget = 0, cost_used = 0,
     base_backoff_seconds = 5, max_backoff_seconds = 300\<rparr>))
   = Inr \<lparr>attempt_limit = 3, attempts_used = 1, time_budget_seconds = 3600, elapsed_seconds = 5 / 2,
     cost_budget = 0, cost_used = 0, base_backoff_seconds = 5, max_backoff_seconds = 300\<rparr>"
  by (rule budget_roundtrip [THEN conjunct2]) (simp add: budget_ok_def)

lemma budget_int_Inr: "budget_int n v = Inr i \<Longrightarrow> 0 \<le> i"
  by (auto simp: budget_int_def split: option.splits if_splits)

lemma budget_number_Inr: "budget_number n v = Inr q \<Longrightarrow> 0 \<le> q"
  by (auto simp: budget_number_def split: option.splits if_splits)

text \<open>What \<open>normalize_budget\<close> accepts has non-negative accounts and ordered backoff bounds.\<close>

lemma normalize_budget_ok: "normalize_budget v = Inr b \<Longrightarrow> budget_ok b"
  unfolding normalize_budget_def Let_def
  by (auto simp: res_simps budget_ok_def dest!: budget_int_Inr budget_number_Inr)

lemma charge_budget_ok: "budget_ok b \<Longrightarrow> 0 \<le> cost \<Longrightarrow> budget_ok (charge_budget b created cost now)"
  by (simp add: budget_ok_def charge_budget_def)

section \<open>Failures\<close>

lemma check_report_cost:
  "check_report sha k i rep = Inr c \<Longrightarrow> finite_number (rep_cost rep) = Some (k_cost c) \<and> 0 \<le> k_cost c
    \<and> normalize_timestamp (rep_wakeup rep) ''next_wakeup_at'' False = Inr (k_wakeup c)"
  by (auto simp: check_report_def res_simps Let_def split: if_splits option.splits)

lemma backoff_bounds:
  assumes "budget_ok b"
  shows "min (max_backoff_seconds b) (base_backoff_seconds b) \<le> retry_backoff b \<and>
    retry_backoff b \<le> max_backoff_seconds b \<and> 0 \<le> retry_backoff b"
proof -
  have base: "0 \<le> base_backoff_seconds b" "base_backoff_seconds b \<le> max_backoff_seconds b"
    using assms by (simp_all add: budget_ok_def)
  have "base_backoff_seconds b * 1 \<le> base_backoff_seconds b * 2 ^ nat (min 30 (max 0 (attempts_used b - 1)))"
    using base(1) by (intro mult_left_mono) simp_all
  with base show ?thesis by (simp add: retry_backoff_def)
qed

lemma wait_reason_dict: "normalize_wait_reason v d = Inr w \<Longrightarrow> is_dict w"
  unfolding normalize_wait_reason_def Let_def json_safe_or_def
  by (auto simp: res_simps is_dict_def split: pyval.splits if_splits)

lemma wait_reason_kind:
  assumes "normalize_wait_reason (VDict kvs) d = Inr w" and "d = None"
  shows "dget w ''kind'' = dget (VDict kvs) ''kind''"
proof -
  obtain kind where kind: "dget_or (VDict kvs) ''kind'' (opt_str d) = VStr kind"
    using assms(1) unfolding normalize_wait_reason_def
    by (cases "dget_or (VDict kvs) ''kind'' (opt_str d)") auto
  with assms(1) have "dget w ''kind'' = VStr kind"
    unfolding normalize_wait_reason_def Let_def json_safe_or_def
    by (auto simp: res_simps split: if_splits)
  with kind assms(2) show ?thesis by (simp add: dget_def opt_str_def)
qed

lemma recovery_kind:
  assumes "recovery_action_for_failure w = Inr rec" and "is_dict w"
  shows "kind_of w = VStr (ra_kind rec)
    \<and> (ra_automatic rec \<longleftrightarrow> ra_kind rec \<notin> set MANUAL_DECISION_FAILURE_KINDS)"
proof -
  obtain kvs where w: "w = VDict kvs" using assms(2) by (auto simp: is_dict_def split: pyval.splits)
  from assms(1) obtain f where f: "normalize_wait_reason w None = Inr f"
    and rest: "(case dget f ''kind'' of
       VStr kind \<Rightarrow> (case map_of FAILURE_RECOVERY_ACTIONS kind of
           None \<Rightarrow> Inl (KeyError kind)
         | Some action \<Rightarrow> Inr \<lparr>ra_action = action, ra_kind = kind,
             ra_automatic = (kind \<notin> set MANUAL_DECISION_FAILURE_KINDS),
             ra_reconciliation = (kind = ''unknown-effects''),
             ra_human = (kind \<in> set MANUAL_DECISION_FAILURE_KINDS)\<rparr>)
     | _ \<Rightarrow> Inl (KeyError ''kind'')) = Inr rec"
    unfolding recovery_action_for_failure_def bindR_Inr by blast
  then obtain kind where kind: "dget f ''kind'' = VStr kind" by (cases "dget f ''kind''") auto
  with rest have "ra_kind rec = kind \<and> (ra_automatic rec \<longleftrightarrow> kind \<notin> set MANUAL_DECISION_FAILURE_KINDS)"
    by (auto split: option.splits)
  moreover have "dget w ''kind'' = VStr kind" using wait_reason_kind [OF f [unfolded w] refl] kind w by simp
  ultimately show ?thesis by (simp add: kind_of_def)
qed

lemma charged_failure:
  assumes "record_delivery_stage_receipt sha k i rep now s = Inr ((x, r', False), t)"
    and "s_state x \<noteq> RSucceeded"
  shows "\<exists>r b b' cost wakeup kind. row_get o_id k (objectives s) = Some r \<and> normalize_budget (o_budget r) = Inr b
    \<and> finite_number (rep_cost rep) = Some cost \<and> 0 \<le> cost
    \<and> normalize_timestamp (rep_wakeup rep) ''next_wakeup_at'' False = Inr wakeup
    \<and> kind_of (dget (s_receipt x) ''failure'') = VStr kind
    \<and> b' = b\<lparr>attempts_used := attempts_used b + 1, cost_used := cost_used b + cost,
         elapsed_seconds := max (elapsed_seconds b)
           (max 0 (of_int (instant (utc now) - instant (o_created r)) / 1000000))\<rparr>
    \<and> o_budget r' = canonical_json (budget_json b') \<and> budget_ok b'
    \<and> o_stage r' = o_stage r \<and> o_owner r' = None \<and> o_lease r' = 0
    \<and> (if rep_retry rep \<and> kind \<notin> set MANUAL_DECISION_FAILURE_KINDS
          \<and> attempts_used b' < attempt_limit b' \<and> elapsed_seconds b' \<le> of_int (time_budget_seconds b')
          \<and> cost_used b' \<le> cost_budget b'
       then o_state r' = OWaiting \<and> o_attempt r' = o_attempt r + 1
         \<and> o_wakeup r' = Some (case wakeup of Some t \<Rightarrow> t | None \<Rightarrow> stamp_after (utc now)
             (min (max_backoff_seconds b') (base_backoff_seconds b' * 2 ^ nat (min 30 (attempts_used b)))))
       else o_state r' = ONeedsDecision \<and> o_attempt r' = o_attempt r \<and> o_wakeup r' = None)"
  using assms(1)
proof (cases rule: receipt_cases)
  case (2 c r stages merged st)
  note fence = receipt_fence_Inr [OF 2(4)]
  from apply_receipt_Inr [OF 2(6)] obtain cursor where
    x: "x = receipt_row i r rep c now" and r': "r' = advanced_row i rep c merged st cursor now r" by auto
  have "k_state c \<noteq> RSucceeded" using assms(2) by (simp add: x receipt_row_def)
  then obtain w where w: "k_failure c = Some w"
    using check_report_failure [OF 2(1)] by (cases "k_failure c") auto
  from 2(5) w obtain b0 where b0: "normalize_budget (o_budget r) = Inr b0"
    and step: "failure_step r w (rep_retry rep) (k_wakeup c) (charge_budget b0 (o_created r) (k_cost c) now) now = Inr st"
    unfolding receipt_step_def Let_def by (auto simp: res_simps)
  let ?b = "charge_budget b0 (o_created r) (k_cost c) now"
  let ?b' = "?b\<lparr>attempts_used := attempts_used ?b + 1\<rparr>"
  have "budget_ok ?b"
    using normalize_budget_ok [OF b0] check_report_cost [OF 2(1)] by (blast intro: charge_budget_ok)
  then have ok: "budget_ok ?b'" by (simp add: budget_ok_def)
  from step obtain rec where rec: "recovery_action_for_failure w = Inr rec"
    and st: "if rep_retry rep \<and> ra_automatic rec \<and> attempts_used ?b' < attempt_limit ?b'
        \<and> elapsed_seconds ?b' \<le> of_int (time_budget_seconds ?b') \<and> cost_used ?b' \<le> cost_budget ?b'
      then st_state st = OWaiting \<and> st_attempt st = o_attempt r + 1
        \<and> st_wakeup st = Some (case k_wakeup c of Some t \<Rightarrow> t | None \<Rightarrow> stamp_after (utc now) (retry_backoff ?b'))
      else st_state st = ONeedsDecision \<and> st_attempt st = o_attempt r \<and> st_wakeup st = None"
    and same: "st_stage st = o_stage r" "st_budget st = ?b'"
    unfolding failure_step_def Let_def
    by (auto simp: res_simps time_exhausted_def cost_exhausted_def not_less split: if_splits)
  have backoff: "retry_backoff ?b' = min (max_backoff_seconds ?b')
      (base_backoff_seconds ?b' * 2 ^ nat (min 30 (attempts_used b0)))"
    using normalize_budget_ok [OF b0] by (simp add: retry_backoff_def charge_budget_def budget_ok_def)
  have dict: "is_dict w"
    using 2(1) w unfolding check_report_def report_failure_def Let_def
    by (auto simp: res_simps split: if_splits intro: wait_reason_dict)
  obtain kind where kinds: "kind_of w = VStr kind"
    and kind: "ra_automatic rec \<longleftrightarrow> kind \<notin> set MANUAL_DECISION_FAILURE_KINDS"
    using recovery_kind [OF rec dict] by blast
  have stored: "kind_of (dget (s_receipt x) ''failure'') = VStr kind"
    using kinds by (simp add: x receipt_row_def w dget_canonical kind_of_def del: canonical_json.simps) simp
  have not_active: "st_state st \<noteq> OActive" using st by (auto split: if_splits)
  have "if rep_retry rep \<and> kind \<notin> set MANUAL_DECISION_FAILURE_KINDS \<and> attempts_used ?b' < attempt_limit ?b'
        \<and> elapsed_seconds ?b' \<le> of_int (time_budget_seconds ?b') \<and> cost_used ?b' \<le> cost_budget ?b'
      then o_state r' = OWaiting \<and> o_attempt r' = o_attempt r + 1
        \<and> o_wakeup r' = Some (case k_wakeup c of Some t \<Rightarrow> t | None \<Rightarrow> stamp_after (utc now)
             (min (max_backoff_seconds ?b') (base_backoff_seconds ?b' * 2 ^ nat (min 30 (attempts_used b0)))))
      else o_state r' = ONeedsDecision \<and> o_attempt r' = o_attempt r \<and> o_wakeup r' = None"
    using st unfolding kind r' backoff by (simp add: advanced_row_def Let_def split: if_splits)
  moreover have "o_budget r' = canonical_json (budget_json ?b')" "o_stage r' = o_stage r"
    "o_owner r' = None" "o_lease r' = 0"
    using same not_active by (simp_all add: r' advanced_row_def Let_def del: canonical_json.simps)
  moreover have "?b' = b0\<lparr>attempts_used := attempts_used b0 + 1, cost_used := cost_used b0 + k_cost c,
      elapsed_seconds := max (elapsed_seconds b0)
        (max 0 (of_int (instant (utc now) - instant (o_created r)) / 1000000))\<rparr>"
    by (simp add: charge_budget_def)
  ultimately show ?thesis using fence(1) b0 ok stored check_report_cost [OF 2(1)]
    by (intro exI [of _ r] exI [of _ b0] exI [of _ ?b'] exI [of _ "k_cost c"] exI [of _ "k_wakeup c"]
        exI [of _ kind] conjI) blast+
qed simp

text \<open>
  Property C14. A failed attempt is paid for, and retried automatically only within the budget.
  Every accepted failure adds one to the attempts used, the reported cost to the cost used, and
  raises the elapsed time to the seconds since the objective was created. The objective waits for
  a retry exactly when the report allows one, the failure kind needs no decision, and the
  charged budget has an attempt left and neither its time nor its cost exceeded; it then waits
  until the time the report asks for, or, when it asks for none, for the base backoff doubled
  with every attempt used, at most the maximal backoff. Otherwise a decision is required. In
  both cases the stage is kept and the lease is released.
\<close>

theorem failure_is_charged:
  assumes "record_delivery_stage_receipt sha k i rep now s = Inr ((x, r', False), t)"
    and "s_state x \<noteq> RSucceeded"
  shows "\<exists>r b b' cost wakeup kind. row_get o_id k (objectives s) = Some r \<and> normalize_budget (o_budget r) = Inr b
    \<and> finite_number (rep_cost rep) = Some cost \<and> 0 \<le> cost
    \<and> normalize_timestamp (rep_wakeup rep) ''next_wakeup_at'' False = Inr wakeup
    \<and> kind_of (dget (s_receipt x) ''failure'') = VStr kind
    \<and> b' = b\<lparr>attempts_used := attempts_used b + 1, cost_used := cost_used b + cost,
         elapsed_seconds := max (elapsed_seconds b)
           (max 0 (of_int (instant (utc now) - instant (o_created r)) / 1000000))\<rparr>
    \<and> o_budget r' = canonical_json (budget_json b') \<and> budget_ok b'
    \<and> o_stage r' = o_stage r \<and> o_owner r' = None \<and> o_lease r' = 0
    \<and> (if rep_retry rep \<and> kind \<notin> set MANUAL_DECISION_FAILURE_KINDS
          \<and> attempts_used b' < attempt_limit b' \<and> elapsed_seconds b' \<le> of_int (time_budget_seconds b')
          \<and> cost_used b' \<le> cost_budget b'
       then o_state r' = OWaiting \<and> o_attempt r' = o_attempt r + 1
         \<and> o_wakeup r' = Some (case wakeup of Some t \<Rightarrow> t | None \<Rightarrow> stamp_after (utc now)
             (min (max_backoff_seconds b') (base_backoff_seconds b' * 2 ^ nat (min 30 (attempts_used b)))))
       else o_state r' = ONeedsDecision \<and> o_attempt r' = o_attempt r \<and> o_wakeup r' = None)"
  by (rule charged_failure [OF assms])

definition demo_failure :: "string \<Rightarrow> stage_report" where
  "demo_failure kind = (demo_report ''plan'' 2)\<lparr>rep_state := Some ''failed'',
     rep_failure := VDict [(''kind'', VStr kind), (''detail'', VStr ''why'')], rep_retry := True\<rparr>"

theorem failure_is_charged_witness:
  "\<exists>x r' t b'. record_delivery_stage_receipt demo_sha demo_oid ''f1'' (demo_failure ''stale-base-ref'') 120
      demo_leased = Inr ((x, r', False), t)
    \<and> o_state r' = OWaiting \<and> o_lease r' = 0 \<and> o_budget r' = canonical_json (budget_json b')
    \<and> attempts_used b' = 1 \<and> elapsed_seconds b' = 20"
proof -
  have "(case record_delivery_stage_receipt demo_sha demo_oid ''f1'' (demo_failure ''stale-base-ref'') 120
      demo_leased of Inr ((x, r', dup), _) \<Rightarrow> \<not> dup \<and> s_state x \<noteq> RSucceeded \<and> o_state r' = OWaiting
    | _ \<Rightarrow> False)" by code_simp
  then obtain x r' t where f: "record_delivery_stage_receipt demo_sha demo_oid ''f1''
      (demo_failure ''stale-base-ref'') 120 demo_leased = Inr ((x, r', False), t)"
    and "s_state x \<noteq> RSucceeded" "o_state r' = OWaiting"
    by (auto split: sum.splits prod.splits)
  moreover have "(case row_get o_id demo_oid (objectives demo_leased) of None \<Rightarrow> False
      | Some r \<Rightarrow> o_created r = utc 100 \<and> (case normalize_budget (o_budget r) of Inl _ \<Rightarrow> False
          | Inr b \<Rightarrow> attempts_used b = 0 \<and> elapsed_seconds b = 0))" by code_simp
  ultimately show ?thesis using failure_is_charged [OF f]
    by (auto simp del: canonical_json.simps split: option.splits sum.splits)
qed

end
