(* ===== verification/Delivery_Permission.thy ===== *)
theory Delivery_Permission
  imports Delivery_Safety
begin

text \<open>
  Permission for external effects: which authorization receipt a stage rests on, when a receipt is
  still in force, what a denial followed by a grant does, and what a live verification has
  shown. Two of the properties state behaviour the comments of the code do
  not intend (expiry in another time zone, a denial that replaces a wait reason).
\<close>

section \<open>Receipts in force\<close>

lemma in_force_iff: "a \<in> set (authorizations_in_force task ts s) \<longleftrightarrow> a \<in> set (authorizations s)
    \<and> a_task a = task \<and> a_revoked a = None
    \<and> (case a_expires a of None \<Rightarrow> True | Some e \<Rightarrow> ts < e)"
  by (auto simp: authorizations_in_force_def)

text \<open>
  Property C39. The expiry of an authorization is read as text, not as an instant: a receipt whose
  expiry was given with a UTC offset is in force until the UTC clock shows the same reading,
  whatever the offset. A receipt given east of Greenwich therefore outlives its expiry by the
  whole offset.
\<close>

theorem expiry_read_as_text:
  assumes "a \<in> set (authorizations s)" and "a_revoked a = None" and "a_expires a = Some (Stamp w z)"
  shows "(a \<in> set (authorizations_in_force (a_task a) (utc now) s) \<longleftrightarrow> now < w \<or> now = w \<and> z \<noteq> 0)
    \<and> (instant (Stamp w z) \<le> instant (utc now) \<longleftrightarrow> w * 1000000 - z \<le> now * 1000000)"
proof -
  have "utc now < Stamp w z \<longleftrightarrow> now < w \<or> now = w \<and> z \<noteq> 0"
    by (auto simp: less_stamp_def less_eq_stamp_def utc_def offset_key_def)
  with assms show ?thesis by (simp add: in_force_iff) (simp add: instant_def utc_def)
qed

definition demo_github :: pyval where
  "demo_github = VDict [(''remote'', VStr ''origin''), (''base_branch'', VStr ''main''), (''merge'', VBool True)]"

text \<open>The ledger of an accepted task with an objective that wants a GitHub delivery.\<close>

definition demo_accepted :: store where
  "demo_accepted = ran (create_delivery_objective demo_sha ''task'' ''cmd''
     (VDict [(''requested_endpoints'', VDict [(''github'', demo_github)]), (''scope'', VStr ''repo''),
        (''authority'', VStr ''owner''), (''identities'', VDict [(''source'', VStr ''s'')])]) 100
     (demo_active\<lparr>tasks := [\<lparr>t_id = ''task'', t_contract = VDict [(''repository'', VStr ''/r'')],
        t_hash = ''h'', t_state = TAccepted, t_revision = 4, t_priority = 0, t_created = utc 1,
        t_updated = utc 2, t_blocker = None, t_verdict = None\<rparr>]\<rparr>))"

definition demo_grant :: "string \<Rightarrow> string \<Rightarrow> pyval \<Rightarrow> int \<Rightarrow> store \<Rightarrow> ((authorization_row \<times> bool) \<times> store) res" where
  "demo_grant authorization_id decision expires now = record_delivery_authorization demo_sha ''task''
     authorization_id (VDict [(''remote'', VStr ''origin''), (''base_branch'', VStr ''main''), (''merge'', VBool True)])
     (VDict [(''by'', VStr ''owner'')]) decision ''me'' None expires None now"

theorem expiry_read_as_text_witness:
  "\<exists>a t. demo_grant ''a1'' ''granted'' (VStr ''1970-01-01T09:00:00+08:00'') 100 demo_accepted = Inr ((a, False), t)
    \<and> instant (the (a_expires a)) < instant (utc 30000)
    \<and> a \<in> set (authorizations_in_force ''task'' (utc 30000) t)"
proof -
  have "(case demo_grant ''a1'' ''granted'' (VStr ''1970-01-01T09:00:00+08:00'') 100 demo_accepted of
      Inr ((a, dup), t) \<Rightarrow> \<not> dup \<and> authorizations t = [a] \<and> a_revoked a = None \<and> a_task a = ''task''
        \<and> a_expires a = Some (Stamp 32400 28800000000) | _ \<Rightarrow> False)"
    by code_simp
  then obtain a t where run: "demo_grant ''a1'' ''granted'' (VStr ''1970-01-01T09:00:00+08:00'') 100 demo_accepted
      = Inr ((a, False), t)" and a: "authorizations t = [a]" "a_revoked a = None" "a_task a = ''task''"
      "a_expires a = Some (Stamp 32400 28800000000)"
    by (auto split: sum.splits prod.splits)
  from expiry_read_as_text [of a t 32400 28800000000 30000] a have "a \<in> set (authorizations_in_force ''task'' (utc 30000) t)"
    by simp
  with run a show ?thesis by (auto simp: instant_def utc_def)
qed

section \<open>What a permission rests on\<close>

lemma matching_authorization_Some:
  assumes "matching_authorization f task ts s = Some a"
  shows "a \<in> set (authorizations_in_force task ts s) \<and> f (a_scope a) \<and> a_decision a = ''granted''
    \<and> (\<forall>b \<in> set (authorizations_in_force task ts s). f (a_scope b) \<longrightarrow> a_created b \<le> a_created a)"
proof -
  let ?l = "sort_key a_created (filter (\<lambda>a. a_task a = task \<and> a_revoked a = None
        \<and> (case a_expires a of None \<Rightarrow> True | Some e \<Rightarrow> ts < e)) (authorizations s))"
  let ?xs = "authorizations_in_force task ts s"
  have xs: "?xs = rev ?l" by (simp add: authorizations_in_force_def)
  from assms have f: "find (\<lambda>a. f (a_scope a)) ?xs = Some a" and d: "a_decision a = ''granted''"
    by (auto simp: matching_authorization_def split: option.splits if_splits)
  from f obtain i where i: "i < length ?xs" "f (a_scope (?xs ! i))" "a = ?xs ! i"
      "\<forall>j<i. \<not> f (a_scope (?xs ! j))" by (auto simp: find_Some_iff)
  have desc: "sorted_wrt (\<lambda>x y. a_created y \<le> a_created x) ?xs"
    unfolding xs sorted_wrt_rev using sorted_sort_key [of a_created] by (simp add: sorted_map)
  have "a_created b \<le> a_created a" if b: "b \<in> set ?xs" "f (a_scope b)" for b
  proof -
    obtain j where j: "j < length ?xs" "b = ?xs ! j" using b(1) by (auto simp: in_set_conv_nth)
    with b(2) i(4) have "i = j \<or> i < j" by (metis linorder_neqE_nat)
    then show ?thesis using j i(3) desc sorted_wrt_nth_less [OF desc] by auto
  qed
  with i d show ?thesis by auto
qed

text \<open>
  Property C33. Permission for an external stage is never invented. When a stage that reaches
  outside is authorised then the stage was requested, the task was accepted by its verifier, and
  either its frozen contract allows external writes (GitHub stages only) or there is a granted,
  unrevoked receipt of this very task whose scope names exactly the requested remote, branch,
  merge and tag (or the deployment target), and no later receipt in force for that scope, a
  denial for instance, supersedes it.
\<close>

theorem external_permission_is_exact:
  assumes "delivery_stage_authorization k text now s = Inr a" and "authorized a"
    and "normalize_stage (VStr text) = Inr g" and "g \<in> set EXTERNAL_DELIVERY_STAGES"
  shows "\<exists>r task stages. row_get o_id k (objectives s) = Some r
    \<and> row_get t_id (o_task r) (tasks s) = Some task \<and> t_state task = TAccepted
    \<and> required_delivery_stages (o_request r) = Inr stages \<and> g \<in> set stages
    \<and> (let endpoints = dget (o_request r) ''requested_endpoints'';
           fits = (\<lambda>scope. if g \<in> {Integrate, Ci, Publish}
             then authorization_matches_request scope (github_delivery_request (o_task r) (dget endpoints ''github''))
             else \<exists>target. dget (dget endpoints ''deployment'') ''target'' = VStr target
               \<and> deployment_authorization_matches_request scope target)
       in (a = TaskContract \<and> g \<in> {Integrate, Ci, Publish}
             \<and> is_true (dget (t_contract task) ''external_write_permission''))
        \<or> (\<exists>x. a = Receipt x \<and> x \<in> set (authorizations_in_force (o_task r) (utc now) s)
             \<and> a_decision x = ''granted'' \<and> fits (a_scope x)
             \<and> (\<forall>y \<in> set (authorizations_in_force (o_task r) (utc now) s).
                  fits (a_scope y) \<longrightarrow> a_created y \<le> a_created x)))"
proof -
  obtain r stages where r: "row_get o_id k (objectives s) = Some r"
      "required_delivery_stages (o_request r) = Inr stages"
    and v: "a = (if g \<notin> set stages then Unauthorized ''delivery stage was not explicitly requested''
      else if g \<notin> set EXTERNAL_DELIVERY_STAGES then NoEndpoint
      else case row_get t_id (o_task r) (tasks s) of
        None \<Rightarrow> Unauthorized ''verifier acceptance is required before coordinator delivery''
      | Some task \<Rightarrow>
         if t_state task \<noteq> TAccepted
         then Unauthorized ''verifier acceptance is required before coordinator delivery''
         else let endpoints = dget (o_request r) ''requested_endpoints'' in
           if g \<in> {Integrate, Ci, Publish}
           then github_authority r task (dget endpoints ''github'') (utc now) s
           else deployment_authority r (dget endpoints ''deployment'') (utc now) s)"
    using assms(1,3) unfolding delivery_stage_authorization_def by (auto simp: res_simps)
  have g: "g \<in> set stages" using v assms(2) by (auto simp: authorized_def split: if_splits)
  obtain task where t: "row_get t_id (o_task r) (tasks s) = Some task" "t_state task = TAccepted"
    using v assms(2,4) g by (auto simp: authorized_def split: if_splits option.splits)
  let ?e = "dget (o_request r) ''requested_endpoints''"
  show ?thesis
  proof (cases "g \<in> {Integrate, Ci, Publish}")
    case True
    then have "a = github_authority r task (dget ?e ''github'') (utc now) s"
      using v g t assms(4) by (simp add: Let_def)
    then have "a = TaskContract \<and> is_true (dget (t_contract task) ''external_write_permission'')
      \<or> (\<exists>x. a = Receipt x \<and> matching_delivery_authorization (o_task r)
            (github_delivery_request (o_task r) (dget ?e ''github'')) (utc now) s = Some x)"
      using assms(2) by (auto simp: github_authority_def authorized_def Let_def split: if_splits option.splits)
    with True r t g show ?thesis unfolding matching_delivery_authorization_def
      by (auto simp: Let_def dest!: matching_authorization_Some)
  next
    case False
    then have "a = deployment_authority r (dget ?e ''deployment'') (utc now) s"
      using v g t assms(4) by (simp add: Let_def)
    then obtain target x where "dget (dget ?e ''deployment'') ''target'' = VStr target" "a = Receipt x"
        "matching_deployment_authorization (o_task r) target (utc now) s = Some x"
      using assms(2) by (auto simp: deployment_authority_def authorized_def split: pyval.splits if_splits option.splits)
    with False r t g show ?thesis unfolding matching_deployment_authorization_def
      by (auto simp: Let_def dest!: matching_authorization_Some)
  qed
qed


definition demo_granted :: store where
  "demo_granted = ran (demo_grant ''a1'' ''granted'' VNone 100 demo_accepted)"

theorem external_permission_is_exact_witness:
  "\<exists>x r. delivery_stage_authorization demo_oid ''integrate'' 200 demo_granted = Inr (Receipt x)
    \<and> row_get o_id demo_oid (objectives demo_granted) = Some r
    \<and> x \<in> set (authorizations_in_force (o_task r) (utc 200) demo_granted) \<and> a_decision x = ''granted''"
proof -
  have "(case delivery_stage_authorization demo_oid ''integrate'' 200 demo_granted of
      Inr (Receipt x) \<Rightarrow> True | _ \<Rightarrow> False)" by code_simp
  then obtain x where x: "delivery_stage_authorization demo_oid ''integrate'' 200 demo_granted = Inr (Receipt x)"
    by (auto split: sum.splits authority.splits)
  have "normalize_stage (VStr ''integrate'') = Inr Integrate" by code_simp
  moreover have "Integrate \<in> set EXTERNAL_DELIVERY_STAGES" by (simp add: EXTERNAL_DELIVERY_STAGES_def)
  moreover have "authorized (Receipt x)" by (simp add: authorized_def)
  ultimately obtain r where "row_get o_id demo_oid (objectives demo_granted) = Some r"
      "x \<in> set (authorizations_in_force (o_task r) (utc 200) demo_granted)" "a_decision x = ''granted''"
    using external_permission_is_exact [OF x, of Integrate] unfolding Let_def by auto
  with x show ?thesis by blast
qed

section \<open>Denials\<close>

lemma record_authorization_new:
  assumes "record_delivery_authorization sha task k scope authority decision by obj expires n now s = Inr ((a, False), t)"
    and "find (\<lambda>r. o_task r = task) (objectives s) = Some r"
  shows "\<exists>cursor s1. objectives s1 = objectives s
    \<and> t = authorization_effect task k decision (Some r) cursor now s1"
  using assms by (auto simp: record_delivery_authorization_def res_simps emit_event_def Let_def case_prod_beta
      split: if_splits option.splits)
    (rule exI, rule exI, rule conjI [rotated], rule refl, simp)+

lemma find_put:
  assumes "find (\<lambda>r. o_task r = task) rows = Some r" and "\<And>x. o_task (f x) = o_task x"
    and "unique_key o_id rows"
  shows "find (\<lambda>r. o_task r = task) (row_put o_id (o_id r) f rows) = Some (f r)"
proof -
  have "find (\<lambda>r. o_task r = task) (map (\<lambda>x. if o_id x = o_id r then f x else x) rows)
      = Some (if o_id r = o_id r then f r else r)"
    using assms(1) by (induction rows) (auto simp: assms(2) split: if_splits)
  then show ?thesis by (simp add: row_put_def)
qed

text \<open>
  Property C38. A denial hides what an objective really waits for. Recording a denied receipt on
  an objective that waits, or needs a decision, for any reason replaces that reason by
  permission-denied; the next grant makes the objective active again with no wait reason at all.
  The same grant without the denial in between leaves an objective that does not wait for
  permission exactly as it is. An objective stopped for reconciliation of unknown effects so
  resumes execution only because it was denied something first.
\<close>

theorem denial_replaces_wait_reason:
  assumes "record_delivery_authorization sha task k1 sc1 au1 ''denied'' by1 ob1 ex1 n1 now1 s = Inr ((a1, False), t)"
    and "record_delivery_authorization sha task k2 sc2 au2 ''granted'' by2 ob2 ex2 n2 now2 t = Inr ((a2, False), u)"
    and "find (\<lambda>r. o_task r = task) (objectives s) = Some r"
    and "o_state r \<in> {OWaiting, ONeedsDecision}" and "delivery_ok s"
  shows "(\<exists>r1 w. find (\<lambda>r. o_task r = task) (objectives t) = Some r1 \<and> o_id r1 = o_id r
      \<and> o_state r1 = ONeedsDecision \<and> o_wait r1 = Some w \<and> kind_of w = VStr ''permission-denied''
      \<and> o_stage r1 = o_stage r \<and> o_attempt r1 = o_attempt r)
    \<and> (\<exists>r2. find (\<lambda>r. o_task r = task) (objectives u) = Some r2 \<and> o_id r2 = o_id r
      \<and> o_state r2 = OActive \<and> o_wait r2 = None \<and> o_stage r2 = o_stage r \<and> o_attempt r2 = o_attempt r)
    \<and> ((\<forall>w. o_wait r = Some w \<longrightarrow> kind_of w \<noteq> VStr ''permission-denied'')
        \<and> record_delivery_authorization sha task k3 sc3 au3 ''granted'' by3 ob3 ex3 n3 now3 s = Inr ((a3, False), v)
      \<longrightarrow> objectives v = objectives s)"
proof -
  have uq: "unique_key o_id (objectives s)" using assms(5) by (simp add: delivery_ok_def objectives_ok_def)
  from record_authorization_new [OF assms(1,3)] obtain c1 s1 where
    s1: "objectives s1 = objectives s" and t: "t = authorization_effect task k1 ''denied'' (Some r) c1 now1 s1" by blast
  let ?d = "denied_objective k1 c1 now1" and ?g = "\<lambda>c. resumed_objective k2 c now2"
  have to: "objectives t = row_put o_id (o_id r) ?d (objectives s)"
    unfolding t using assms(4) s1 by (auto simp: authorization_effect_def emit_event_snd)
  have keep: "o_task (?d x) = o_task x" "o_id (?d x) = o_id x" for x by (simp_all add: denied_objective_def)
  have ft: "find (\<lambda>r. o_task r = task) (objectives t) = Some (?d r)"
    unfolding to by (rule find_put [OF assms(3) keep(1) uq])
  have uqt: "unique_key o_id (objectives t)" unfolding to using keep uq by (intro ob.put_unique) auto
  from record_authorization_new [OF assms(2) ft] obtain c2 t1 where
    t1: "objectives t1 = objectives t" and u: "u = authorization_effect task k2 ''granted'' (Some (?d r)) c2 now2 t1" by blast
  have denied: "o_state (?d r) = ONeedsDecision" "\<exists>w. o_wait (?d r) = Some w \<and> is_dict w \<and> kind_of w = VStr ''permission-denied''"
      "o_stage (?d r) = o_stage r" "o_attempt (?d r) = o_attempt r"
    by (simp_all add: denied_objective_def kind_of_def is_dict_def dget_def dget_or_def items_of_def)
  then have "waits_for_permission (?d r)" by (auto simp: waits_for_permission_def)
  then have uo: "objectives u = row_put o_id (o_id (?d r)) (?g c2) (objectives t)"
    unfolding u by (simp add: authorization_effect_def emit_event_snd t1)
  have "find (\<lambda>r. o_task r = task) (objectives u) = Some (?g c2 (?d r))"
    unfolding uo by (rule find_put [OF ft _ uqt]) (simp add: resumed_objective_def)
  then have resumed: "\<exists>r2. find (\<lambda>r. o_task r = task) (objectives u) = Some r2 \<and> o_id r2 = o_id r
      \<and> o_state r2 = OActive \<and> o_wait r2 = None \<and> o_stage r2 = o_stage r \<and> o_attempt r2 = o_attempt r"
    by (simp add: resumed_objective_def denied_objective_def)
  have "objectives v = objectives s"
    if other: "\<forall>w. o_wait r = Some w \<longrightarrow> kind_of w \<noteq> VStr ''permission-denied''"
      and v: "record_delivery_authorization sha task k3 sc3 au3 ''granted'' by3 ob3 ex3 n3 now3 s = Inr ((a3, False), v)"
  proof -
    from record_authorization_new [OF v assms(3)] obtain c3 s3 where
      "objectives s3 = objectives s" "v = authorization_effect task k3 ''granted'' (Some r) c3 now3 s3" by blast
    moreover have "\<not> waits_for_permission r" using other by (auto simp: waits_for_permission_def split: option.splits)
    ultimately show ?thesis by (simp add: authorization_effect_def)
  qed
  with denied resumed ft keep(2) show ?thesis by blast
qed

text \<open>An objective that stopped because the effects of its stage are unknown.\<close>

definition demo_stuck :: store where
  "demo_stuck = ran (record_delivery_stage_receipt demo_sha demo_oid ''f1''
     ((demo_failure ''unknown-effects'')\<lparr>rep_state := Some ''indeterminate''\<rparr>) 120
     (ran (claim_delivery_objective demo_oid ''host'' 1 1 600 110 demo_accepted)))"

definition demo_denied :: store where
  "demo_denied = ran (demo_grant ''a1'' ''denied'' VNone 130 demo_stuck)"

lemma demo_stuck_ok: "delivery_ok demo_stuck"
proof -
  let ?s0 = "demo_active\<lparr>tasks := [\<lparr>t_id = ''task'', t_contract = VDict [(''repository'', VStr ''/r'')],
        t_hash = ''h'', t_state = TAccepted, t_revision = 4, t_priority = 0, t_created = utc 1,
        t_updated = utc 2, t_blocker = None, t_verdict = None\<rparr>]\<rparr>"
  let ?s1 = "ran (claim_delivery_objective demo_oid ''host'' 1 1 600 110 demo_accepted)"
  have "no_objectives ?s0" unfolding no_objectives_def by code_simp
  then have "reachable no_objectives (delivery_step demo_sha) ?s0" by (rule reachable_start)
  moreover have "\<exists>x. create_delivery_objective demo_sha ''task'' ''cmd''
     (VDict [(''requested_endpoints'', VDict [(''github'', demo_github)]), (''scope'', VStr ''repo''),
        (''authority'', VStr ''owner''), (''identities'', VDict [(''source'', VStr ''s'')])]) 100 ?s0 = Inr (x, demo_accepted)"
    unfolding demo_accepted_def ranI by code_simp
  then have "delivery_step demo_sha ?s0 demo_accepted" by (blast intro: ds_create)
  ultimately have "reachable no_objectives (delivery_step demo_sha) demo_accepted" by (rule reachable_step)
  moreover have "\<exists>x. claim_delivery_objective demo_oid ''host'' 1 1 600 110 demo_accepted = Inr (x, ?s1)"
    unfolding ranI by code_simp
  then have "delivery_step demo_sha demo_accepted ?s1" by (blast intro: ds_claim)
  ultimately have "reachable no_objectives (delivery_step demo_sha) ?s1" by (rule reachable_step)
  moreover have "\<exists>x. record_delivery_stage_receipt demo_sha demo_oid ''f1''
     ((demo_failure ''unknown-effects'')\<lparr>rep_state := Some ''indeterminate''\<rparr>) 120 ?s1 = Inr (x, demo_stuck)"
    unfolding demo_stuck_def ranI by code_simp
  then have "delivery_step demo_sha ?s1 demo_stuck" by (blast intro: ds_receipt)
  ultimately have "reachable no_objectives (delivery_step demo_sha) demo_stuck" by (rule reachable_step)
  then show ?thesis by (rule delivery.inv_reachable)
qed

theorem denial_replaces_wait_reason_witness:
  "\<exists>r. find (\<lambda>r. o_task r = ''task'') (objectives demo_stuck) = Some r
    \<and> map_option (\<lambda>w. kind_of w) (o_wait r) = Some (VStr ''unknown-effects'')
    \<and> (\<exists>a u r'. demo_grant ''a2'' ''granted'' VNone 140 demo_denied = Inr ((a, False), u)
        \<and> find (\<lambda>r. o_task r = ''task'') (objectives u) = Some r' \<and> o_state r' = OActive \<and> o_wait r' = None)
    \<and> (\<exists>r1 w. find (\<lambda>r. o_task r = ''task'') (objectives demo_denied) = Some r1 \<and> o_wait r1 = Some w
        \<and> kind_of w = VStr ''permission-denied'')"
proof -
  have "(case find (\<lambda>r. o_task r = ''task'') (objectives demo_stuck) of None \<Rightarrow> False | Some r \<Rightarrow>
      o_state r = ONeedsDecision \<and> map_option (\<lambda>w. kind_of w) (o_wait r) = Some (VStr ''unknown-effects''))"
    by code_simp
  then obtain r where r: "find (\<lambda>r. o_task r = ''task'') (objectives demo_stuck) = Some r"
      "o_state r = ONeedsDecision" "map_option (\<lambda>w. kind_of w) (o_wait r) = Some (VStr ''unknown-effects'')"
    by (auto split: option.splits)
  have "(case demo_grant ''a1'' ''denied'' VNone 130 demo_stuck of Inr ((_, dup), _) \<Rightarrow> \<not> dup | _ \<Rightarrow> False)"
    by code_simp
  then obtain a1 where d: "demo_grant ''a1'' ''denied'' VNone 130 demo_stuck = Inr ((a1, False), demo_denied)"
    by (auto simp: demo_denied_def ran_def split: sum.splits prod.splits)
  have "(case demo_grant ''a2'' ''granted'' VNone 140 demo_denied of Inr ((_, dup), _) \<Rightarrow> \<not> dup | _ \<Rightarrow> False)"
    by code_simp
  then obtain a2 u where g: "demo_grant ''a2'' ''granted'' VNone 140 demo_denied = Inr ((a2, False), u)"
    by (auto split: sum.splits prod.splits)
  from denial_replaces_wait_reason [OF d [unfolded demo_grant_def] g [unfolded demo_grant_def] r(1) _ demo_stuck_ok]
    r(2) g r show ?thesis by blast
qed

section \<open>Live verification\<close>

text \<open>The same task with a deployment endpoint; the objective has reached its deploy stage.\<close>

definition demo_deploy_request :: pyval where
  "demo_deploy_request = VDict [(''requested_endpoints'', VDict [(''deployment'', VDict
       [(''target'', VStr ''prod''), (''health_checks'', VList [VStr ''up'']),
        (''functional_checks'', VList [VStr ''login''])])]), (''scope'', VStr ''repo''),
     (''authority'', VStr ''owner''), (''identities'', VDict (map (\<lambda>n. (n, VStr ''v'')) IDENTITY_FIELDS))]"

definition demo_at_stage :: "stage \<Rightarrow> store" where
  "demo_at_stage g = (let s = ran (claim_delivery_objective demo_oid ''host'' 1 1 600 110
       (ran (create_delivery_objective demo_sha ''task'' ''cmd'' demo_deploy_request 100
         (demo_accepted\<lparr>objectives := []\<rparr>))))
     in s\<lparr>objectives := map (\<lambda>r. r\<lparr>o_stage := g\<rparr>) (objectives s)\<rparr>)"

lemma checks_complete_sound:
  "checks_complete receipt checks reqs = Inr u \<Longrightarrow> (kind, names) \<in> set reqs \<Longrightarrow>
    \<exists>observed. observed_checks (dget_or checks kind (dget receipt (kind @ ''_checks''))) (kind @ '' check'') = Inr observed
      \<and> (\<forall>name \<in> set names. \<exists>v. map_of observed name = Some v \<and> check_passed v)"
proof (induction reqs)
  case (Cons q reqs)
  obtain kd ns where q: "q = (kd, ns)" by (cases q)
  from Cons.prems(1) obtain observed where o: "observed_checks (dget_or checks kd (dget receipt (kd @ ''_checks'')))
      (kd @ '' check'') = Inr observed"
    and n: "filter (\<lambda>name. name \<notin> set (map fst observed)) ns = []"
      "filter (\<lambda>name. name \<in> set (map fst observed) \<and> \<not> check_passed (dget (VDict observed) name)) ns = []"
    and rest: "checks_complete receipt checks reqs = Inr u"
    by (auto simp: q res_simps Let_def split: if_splits)
  have "\<exists>v. map_of observed name = Some v \<and> check_passed v" if "name \<in> set ns" for name
  proof -
    have "name \<in> set (map fst observed)" using n(1) that by (auto simp: filter_empty_conv)
    then obtain v where v: "map_of observed name = Some v" by (metis domD dom_map_of_conv_image_fst set_map)
    moreover have "check_passed (dget (VDict observed) name)"
      using n(2) that \<open>name \<in> set (map fst observed)\<close> by (auto simp: filter_empty_conv)
    ultimately show ?thesis by (auto simp: dget_def dget_or_def items_of_def)
  qed
  with Cons o rest q show ?case by auto
qed simp

text \<open>
  A live verification is recorded as succeeded only when it is one: for every kind of
  check the frozen request configures, the report observed each named check, and each passed.
\<close>

theorem live_verification_reported:
  assumes "record_delivery_stage_receipt sha k i rep now s = Inr ((x, r', False), t)"
    and "s_state x = RSucceeded" and "s_stage x = LiveVerify"
  shows "\<exists>r body reqs checks. row_get o_id k (objectives s) = Some r \<and> report_body rep = Inr body
    \<and> live_verification_requirements (o_request r) = Inr reqs \<and> checks = dget_or body ''checks'' body
    \<and> (\<forall>(kind, names) \<in> set reqs. \<exists>observed.
         observed_checks (dget_or checks kind (dget body (kind @ ''_checks''))) (kind @ '' check'') = Inr observed
         \<and> (\<forall>name \<in> set names. \<exists>v. map_of observed name = Some v \<and> check_passed v))"
proof -
  from assms(1) obtain c r stages merged st where c: "check_report sha k i rep = Inr c"
      and f: "receipt_fence k rep c now s = Inr (r, stages, merged)"
      and a: "apply_receipt i rep c r merged st now s = Inr ((x, r', False), t)"
    by (rule receipt_cases) auto
  from apply_receipt_Inr [OF a] have x: "x = receipt_row i r rep c now" by auto
  with assms(2,3) have "k_state c = RSucceeded" "k_stage c = LiveVerify" by (simp_all add: receipt_row_def)
  then have v: "validate_live_verification_receipt (o_request r) (k_body c) = Inr ()"
    by (rule receipt_fence_Inr(11) [OF f])
  have body: "report_body rep = Inr (k_body c)"
    using c by (auto simp: check_report_def res_simps Let_def split: if_splits)
  from v obtain reqs where reqs: "live_verification_requirements (o_request r) = Inr reqs"
    and ok: "reqs = [] \<or> checks_complete (k_body c) (dget_or (k_body c) ''checks'' (k_body c)) reqs = Inr ()"
    by (auto simp: validate_live_verification_receipt_def res_simps Let_def split: if_splits)
  from ok have "\<forall>(kind, names) \<in> set reqs. \<exists>observed.
      observed_checks (dget_or (dget_or (k_body c) ''checks'' (k_body c)) kind (dget (k_body c) (kind @ ''_checks'')))
        (kind @ '' check'') = Inr observed
      \<and> (\<forall>name \<in> set names. \<exists>v. map_of observed name = Some v \<and> check_passed v)"
    using checks_complete_sound by fastforce
  with receipt_fence_Inr(1) [OF f] body reqs show ?thesis by blast
qed

definition demo_verified :: stage_report where
  "demo_verified = (demo_report ''live-verify'' 2)\<lparr>rep_receipt := Some (VDict [(''checks'', VDict
     [(''health'', VDict [(''up'', VBool True)]), (''functional'', VDict [(''login'', VStr ''passed'')])])])\<rparr>"

definition demo_live :: store where
  "demo_live = (demo_at_stage LiveVerify)\<lparr>stage_receipts := map (\<lambda>g. \<lparr>s_id = stage_name g, s_objective = demo_oid,
      s_task = ''task'', s_stage = g, s_attempt = 1, s_hash = ''h'', s_state = RSucceeded, s_receipt = VDict [],
      s_evidence = Some ''fp'', s_identities = VDict [], s_created = utc 111\<rparr>) [Plan, Implement, Verify, Deploy]\<rparr>"

theorem live_verification_reported_witness:
  "\<exists>x r' t r reqs. record_delivery_stage_receipt demo_sha demo_oid ''r9'' demo_verified 150 demo_live
      = Inr ((x, r', False), t)
    \<and> row_get o_id demo_oid (objectives demo_live) = Some r
    \<and> live_verification_requirements (o_request r) = Inr reqs"
proof -
  have "(case record_delivery_stage_receipt demo_sha demo_oid ''r9'' demo_verified 150 demo_live of
      Inr ((x, r', dup), t) \<Rightarrow> \<not> dup \<and> s_state x = RSucceeded \<and> s_stage x = LiveVerify | _ \<Rightarrow> False)"
    by code_simp
  then obtain x r' t where x: "record_delivery_stage_receipt demo_sha demo_oid ''r9'' demo_verified 150 demo_live
      = Inr ((x, r', False), t)" "s_state x = RSucceeded" "s_stage x = LiveVerify"
    by (auto split: sum.splits prod.splits)
  from live_verification_reported [OF x] x(1) show ?thesis by blast
qed

section \<open>Identities\<close>

lemma merge_items_other:
  "merge_identity_items current adds = Inr m \<Longrightarrow> n \<notin> set (map fst adds) \<Longrightarrow> map_of m n = map_of current n"
  by (induction adds arbitrary: current)
    (auto simp: map_of_dict_set split: option.splits if_splits)

lemma merge_items_keeps:
  "merge_identity_items current adds = Inr m \<Longrightarrow> distinct (map fst adds) \<Longrightarrow> map_of current n = Some x \<Longrightarrow>
    (\<exists>y. map_of m n = Some y \<and> (y = x \<or> py_eq x y))"
proof (induction adds arbitrary: current)
  case (Cons kv adds)
  obtain k v where kv: "kv = (k, v)" by (cases kv)
  from Cons.prems(1) have rest: "merge_identity_items (dict_set k v current) adds = Inr m"
    and eq: "\<forall>z. map_of current k = Some z \<longrightarrow> py_eq z v"
    by (auto simp: kv split: option.splits if_splits)
  show ?case
  proof (cases "n = k")
    case True
    with rest Cons.prems(2) have "map_of m n = Some v"
      using merge_items_other [OF rest, of n] by (simp add: kv map_of_dict_set)
    with True eq Cons.prems(3) show ?thesis by blast
  next
    case False
    with Cons.prems(2,3) show ?thesis by (intro Cons.IH [OF rest]) (auto simp: kv map_of_dict_set)
  qed
qed simp

lemma identity_items_distinct:
  "normalize_identity_items acc kvs = Inr m \<Longrightarrow> distinct (map fst acc) \<Longrightarrow> distinct (map fst m)"
  by (induction acc kvs rule: normalize_identity_items.induct)
    (auto simp: Let_def res_simps dict_set_distinct split: if_splits)

lemma normalize_identities_distinct: "normalize_identities v = Inr m \<Longrightarrow> distinct (map fst m)"
  by (auto simp: normalize_identities_def dest: identity_items_distinct split: pyval.splits)

text \<open>
  An identity is frozen once it is known: whatever later reports claim, an accepted
  merge keeps every identity the objective has, with an equal value; a report that contradicts one
  is refused.
\<close>

theorem identities_never_rebound:
  assumes "merge_identities existing incoming = Inr m" and "normalize_identities existing = Inr current"
    and "map_of current n = Some x"
  shows "\<exists>y. map_of m n = Some y \<and> (y = x \<or> py_eq x y)"
proof -
  from assms(1,2) obtain adds where a: "normalize_identities incoming = Inr adds"
      "merge_identity_items current adds = Inr m"
    by (auto simp: merge_identities_def res_simps)
  show ?thesis by (rule merge_items_keeps [OF a(2) normalize_identities_distinct [OF a(1)] assms(3)])
qed

theorem identities_never_rebound_witness:
  "\<exists>m. merge_identities (VDict [(''source'', VStr ''abc'')]) (VDict [(''source_sha'', VStr ''abc''), (''build'', VInt 7)]) = Inr m
    \<and> (\<exists>y. map_of m ''source'' = Some y \<and> (y = VStr ''abc'' \<or> py_eq (VStr ''abc'') y))"
proof -
  have "(case merge_identities (VDict [(''source'', VStr ''abc'')])
      (VDict [(''source_sha'', VStr ''abc''), (''build'', VInt 7)]) of Inr _ \<Rightarrow> True | _ \<Rightarrow> False)" by code_simp
  then obtain m where m: "merge_identities (VDict [(''source'', VStr ''abc'')])
      (VDict [(''source_sha'', VStr ''abc''), (''build'', VInt 7)]) = Inr m"
    by (auto split: sum.splits)
  have "normalize_identities (VDict [(''source'', VStr ''abc'')]) = Inr [(''source'', VStr ''abc'')]" by code_simp
  from identities_never_rebound [OF m this, of "''source''" "VStr ''abc''"] m show ?thesis by simp
qed

end
