(* ===== verification/Node_Recovery.thy ===== *)
theory Node_Recovery
  imports Task_Graph
begin

text \<open>
  Recovery documents of a node (\<open>store.py\<close> lines 4355 to 4502, 5324 to 5351, 10943 to 11353 and
  13226 to 13307, \<open>worktrees.py\<close> lines 16 to 37, \<open>dirty_worktree_recovery.py\<close> lines 128 to 149):
  the authorization a failed attempt leaves for its retry, and the decoders a claim and a settlement
  read \<open>nodes.recovery_json\<close> with.

  A field whose name ends in \<open>_json\<close> holds JSON text in the code; here it holds the document.
\<close>

section \<open>Names and paths\<close>

definition segment_char :: "char \<Rightarrow> bool" where
  "segment_char c \<longleftrightarrow> (let n = code_point c in
     48 \<le> n \<and> n \<le> 57 \<or> 65 \<le> n \<and> n \<le> 90 \<or> 97 \<le> n \<and> n \<le> 122) \<or> c \<in> {CHR ''.'', CHR ''_'', CHR ''-''}"

text \<open>\<open>re.sub(r"[^A-Za-z0-9._-]+", "-", value)\<close>; the flag says that the run has its dash.\<close>

fun dash_runs :: "bool \<Rightarrow> string \<Rightarrow> string" where
  "dash_runs dashed [] = []"
| "dash_runs dashed (c # rest) = (if segment_char c then c # dash_runs False rest
     else if dashed then dash_runs True rest else CHR ''-'' # dash_runs True rest)"

definition trim :: "char set \<Rightarrow> string \<Rightarrow> string" where
  "trim cs v = rev (dropWhile (\<lambda>c. c \<in> cs) (rev (dropWhile (\<lambda>c. c \<in> cs) v)))"

definition safe_segment :: "string \<Rightarrow> string res" where
  "safe_segment value = (let result = trim {CHR ''-'', CHR ''.''} (dash_runs False value) in
     if result = [] then Inl (ValueError ''identifier cannot be normalized to an empty path segment'')
     else Inr (take 80 result))"

definition branch_name :: "string \<Rightarrow> string \<Rightarrow> int \<Rightarrow> string res" where
  "branch_name task node attempt = bindR (safe_segment task) (\<lambda>t. bindR (safe_segment node) (\<lambda>n.
     Inr (''codex-workbench/'' @ t @ ''/'' @ n @ ''-a'' @ str_int attempt)))"

definition is_python_bytecode_residue_path :: "string \<Rightarrow> bool" where
  "is_python_bytecode_residue_path value \<longleftrightarrow> (let parts = split_on (CHR ''/'') value in
     value \<noteq> [] \<and> CHR 0x5C \<notin> set value \<and> CHR 0x00 \<notin> set value
     \<and> list_all (\<lambda>p. p \<noteq> [] \<and> p \<noteq> ''.'' \<and> p \<noteq> ''..'') parts
     \<and> ''__pycache__'' \<in> set (butlast parts)
     \<and> ends_with ''.pyc'' (last parts) \<and> 4 < length (last parts))"

definition partition_recovery_paths :: "string list \<Rightarrow> string list \<times> string list" where
  "partition_recovery_paths paths = (sort (filter (\<lambda>p. \<not> is_python_bytecode_residue_path p) paths),
     sort (filter is_python_bytecode_residue_path paths))"

section \<open>Fields\<close>

definition str_list :: "pyval \<Rightarrow> string list option" where
  "str_list v = (case v of VList xs \<Rightarrow> if list_all is_str xs then Some (map text_of xs) else None | _ \<Rightarrow> None)"

definition str_items :: "pyval \<Rightarrow> string list" where
  "str_items v = (case v of VList xs \<Rightarrow> map text_of xs | _ \<Rightarrow> [])"

text \<open>\<open>tuple(xs) == tuple(sorted(set(xs)))\<close>.\<close>

definition sorted_set :: "string list \<Rightarrow> bool" where
  "sorted_set xs \<longleftrightarrow> sort (remdups xs) = xs"

definition path_list :: "pyval \<Rightarrow> string list option" where
  "path_list v = (case str_list v of
      Some xs \<Rightarrow> if list_all (\<lambda>p. p \<noteq> []) xs \<and> sorted_set xs then Some xs else None
    | None \<Rightarrow> None)"

text \<open>Generated paths, all of them residue.\<close>

definition residue_list :: "pyval \<Rightarrow> string list option" where
  "residue_list v = (case str_list v of
      Some xs \<Rightarrow> if sorted_set xs \<and> snd (partition_recovery_paths xs) = xs then Some xs else None
    | None \<Rightarrow> None)"

definition positive_int :: "pyval \<Rightarrow> bool" where
  "positive_int v \<longleftrightarrow> (case int_of v of Some n \<Rightarrow> 0 < n | None \<Rightarrow> False)"

definition nonempty_str :: "pyval \<Rightarrow> bool" where
  "nonempty_str v \<longleftrightarrow> text_of v \<noteq> []"

definition key_set :: "pyval \<Rightarrow> string set" where
  "key_set v = set (map fst (items_of v))"

definition status_in :: "string list \<Rightarrow> pyval \<Rightarrow> bool" where
  "status_in names result \<longleftrightarrow> is_dict result \<and> dget result ''status'' \<in> VStr ` set names"

section \<open>The authorization of a retry\<close>

definition FAILED_ATTEMPT_RECOVERY_KIND :: string where
  "FAILED_ATTEMPT_RECOVERY_KIND = ''failed-attempt-worktree-recovery''"

definition BLOCKED_SOURCE_REPAIR_MODE :: string where
  "BLOCKED_SOURCE_REPAIR_MODE = ''blocked_source_repair''"

fun check_recoverable :: "string list \<Rightarrow> string list \<Rightarrow> string list \<Rightarrow> string list \<Rightarrow> unit res" where
  "check_recoverable allowed forbidden writes [] = Inr ()"
| "check_recoverable allowed forbidden writes (path # rest) =
    (case (scope_allows path allowed forbidden, scope_allows path writes []) of
       (Inr task_allowed, Inr node_allowed) \<Rightarrow>
         if \<not> task_allowed then Inl (StateConflictError ''failed node recovery path is outside task scope'')
         else if \<not> node_allowed
         then Inl (StateConflictError ''failed node recovery path is outside node write scope'')
         else check_recoverable allowed forbidden writes rest
     | _ \<Rightarrow> Inl (StateConflictError ''failed node changed path is invalid for recovery''))"

definition node_allocation :: "string \<Rightarrow> string \<Rightarrow> int \<Rightarrow> store \<Rightarrow> allocation_row option" where
  "node_allocation task node attempt s =
    find (\<lambda>w. w_task w = task \<and> w_node w = node \<and> w_attempt w = attempt) (allocations s)"

text \<open>The optional arguments of the code for a source-only extraction.\<close>

record extraction =
  x_ignored :: bool
  x_extract :: bool
  x_digest :: "string option"

definition plain_retry :: extraction where
  "plain_retry = \<lparr>x_ignored = False, x_extract = False, x_digest = None\<rparr>"

definition extraction_items :: "extraction \<Rightarrow> items res" where
  "extraction_items x =
    (if x_extract x then
       (if \<not> x_ignored x then Inl (StateConflictError ''source-only extraction requires ignored-source retention'')
        else case x_digest x of
          Some d \<Rightarrow> if sha_hex d
            then Inr [(''source_only_ignored'', VBool True), (''source_only_extraction'', VBool True),
              (''source_delta_sha256'', VStr d)]
            else Inl (StateConflictError ''source-only extraction requires a verified source delta digest'')
        | None \<Rightarrow> Inl (StateConflictError ''source-only extraction requires a verified source delta digest''))
     else if x_digest x \<noteq> None
     then Inl (StateConflictError ''source delta digest is only valid for source-only extraction'')
     else Inr (if x_ignored x then [(''source_only_ignored'', VBool True)] else []))"

definition authorization_source ::
  "node_row \<Rightarrow> allocation_row \<Rightarrow> string \<Rightarrow> string list \<Rightarrow> extraction \<Rightarrow> items res" where
  "authorization_source n w base changed x = bindR (extraction_items x) (\<lambda>extra.
     Inr ([(''attempt'', VInt (n_attempt n)), (''worktree'', VStr (w_path w)), (''branch'', VStr (w_branch w)),
       (''base_sha'', VStr base), (''changed_paths'', strs (fst (partition_recovery_paths changed))),
       (''generated_residue_paths'', strs (snd (partition_recovery_paths changed)))] @ extra))"

definition recovery_scopes :: "pyval \<Rightarrow> pyval \<Rightarrow> (string list \<times> string list \<times> string list) option" where
  "recovery_scopes contract spec = (case (str_list (dget contract ''allowed_scope''),
       str_list (dget contract ''forbidden_scope''), str_list (dget spec ''write_scopes'')) of
      (Some allowed, Some forbidden, Some writes) \<Rightarrow> Some (allowed, forbidden, writes)
    | _ \<Rightarrow> None)"

definition failed_attempt_recovery_authorization ::
  "node_row \<Rightarrow> int \<Rightarrow> pyval option \<Rightarrow> extraction \<Rightarrow> store \<Rightarrow> items option res" where
  "failed_attempt_recovery_authorization n revision source_result x s =
    bindR (require (StateConflictError ''failed node recovery receipt is invalid JSON'')
      (case source_result of Some r \<Rightarrow> Some r | None \<Rightarrow> n_result n)) (\<lambda>result.
    if \<not> status_in [''failed'', ''blocked''] result
    then Inl (StateConflictError ''retryable node lacks a failed or blocked result receipt'')
    else if \<not> is_dict (n_spec n) then Inl (StateConflictError ''failed node specification is invalid'')
    else bindR (require (StateConflictError ''failed node changed_paths are not a canonical explicit list'')
      (path_list (dget result ''changed_paths''))) (\<lambda>changed.
    case node_allocation (n_task n) (n_node n) (n_attempt n) s of
      None \<Rightarrow>
        if n_worktree n \<noteq> None
        then Inl (StateConflictError ''failed node worktree has no physical allocation to recover'')
        else if changed \<noteq> []
        then Inl (StateConflictError ''failed node reports changes but has no physical worktree allocation to recover'')
        else Inr None
    | Some w \<Rightarrow>
        if w_state w \<noteq> AActive
        then Inl (StateConflictError ''failed node recovery source allocation is not active'')
        else if n_worktree n \<noteq> Some (w_path w)
        then Inl (StateConflictError ''failed node recovery worktree does not match its allocation'')
        else bindR (branch_name (n_task n) (n_node n) (n_attempt n)) (\<lambda>branch.
        if w_branch w \<noteq> branch
        then Inl (StateConflictError ''failed node recovery allocation branch does not match its attempt'')
        else bindR (require (KeyError (n_task n)) (row_get t_id (n_task n) (tasks s))) (\<lambda>t.
        let contract = t_contract t in
        if \<not> is_dict contract then Inl (StateConflictError ''failed node task contract is invalid'')
        else if truthy (dget (n_spec n) ''verifier'')
        then (if changed \<noteq> []
          then Inl (StateConflictError ''failed verifier worktree changes cannot be resumed as worker input'')
          else Inr None)
        else bindR (require (StateConflictError ''failed node recovery scopes are invalid'')
            (recovery_scopes contract (n_spec n))) (\<lambda>(allowed, forbidden, writes).
        bindR (check_recoverable allowed forbidden writes (fst (partition_recovery_paths changed))) (\<lambda>_.
        let base = text_of (dget contract ''base_sha'') in
        if base = [] \<or> w_base w \<noteq> base
        then Inl (StateConflictError ''failed node recovery allocation base does not match its contract'')
        else bindR (authorization_source n w base changed x) (\<lambda>source.
        Inr (Some [(''schema_version'', VInt 1), (''kind'', VStr FAILED_ATTEMPT_RECOVERY_KIND),
          (''state'', VStr ''capture_pending''), (''authorization_revision'', VInt revision),
          (''source_allocation_id'', VStr (w_id w)), (''source_result_json'', result),
          (''source'', VDict source)]))))))))"

section \<open>Decoding the authorization\<close>

record failed_binding =
  fb_state :: string
  fb_allocation :: string
  fb_result :: pyval
  fb_attempt :: int
  fb_worktree :: string
  fb_branch :: string
  fb_base :: string
  fb_changed :: "string list"
  fb_mode :: pyval
  fb_origin :: pyval
  fb_refresh :: pyval
  fb_cursor :: pyval
  fb_ref :: pyval
  fb_source :: pyval

definition BASE_FIELDS :: "string list" where
  "BASE_FIELDS = [''schema_version'', ''kind'', ''state'', ''authorization_revision'', ''source_allocation_id'',
     ''source_result_json'', ''source'']"

definition ASSIGNED_FIELDS :: "string list" where
  "ASSIGNED_FIELDS = [''recovery'', ''recovery_ref'', ''target_attempt'', ''target_worktree'', ''target_branch'']"

definition mode_fields :: "pyval \<Rightarrow> string list res" where
  "mode_fields a =
    (if dget a ''mode'' = VNone then Inr []
     else if dget a ''mode'' \<noteq> VStr BLOCKED_SOURCE_REPAIR_MODE
     then Inl (StateConflictError ''failed-attempt recovery mode is invalid'')
     else let marked = has_key ''refresh_accepted_ancestors'' a;
         refresh = dget_or a ''refresh_accepted_ancestors'' (VBool False);
         cursor = dget a ''owner_repair_event_cursor'';
         origin = dget a ''source_task_state''
       in if marked \<noteq> has_key ''owner_repair_event_cursor'' a
       then Inl (StateConflictError ''blocked source repair refresh binding is incomplete'')
       else if dget a ''source_node_state'' \<noteq> VStr ''blocked''
         \<or> origin \<notin> {VStr ''blocked'', VStr ''queued''} \<or> \<not> is_bool refresh
         \<or> is_true refresh \<and> \<not> positive_int cursor \<or> \<not> is_true refresh \<and> cursor \<noteq> VNone
         \<or> \<not> marked \<and> origin \<noteq> VStr ''blocked''
       then Inl (StateConflictError ''blocked source repair source-state markers are invalid'')
       else Inr ([''mode'', ''source_node_state'', ''source_task_state'']
         @ (if marked then [''refresh_accepted_ancestors'', ''owner_repair_event_cursor''] else [])))"

definition check_binding_shape :: "pyval \<Rightarrow> bool \<Rightarrow> unit res" where
  "check_binding_shape a allow_assigned = bindR (mode_fields a) (\<lambda>mode.
     let base = set BASE_FIELDS \<union> set mode in
     if dget a ''state'' = VStr ''capture_pending'' then
       (if key_set a \<noteq> base
        then Inl (StateConflictError ''failed-attempt recovery authorization has an invalid shape'') else Inr ())
     else if dget a ''state'' = VStr ''assigned'' \<and> allow_assigned then
       (if key_set a \<noteq> base \<union> set ASSIGNED_FIELDS
        then Inl (StateConflictError ''failed-attempt recovery assignment has an invalid shape'') else Inr ())
     else Inl (StateConflictError ''failed-attempt recovery authorization is not claimable''))"

definition check_binding_fields :: "pyval \<Rightarrow> unit res" where
  "check_binding_fields a =
    (if \<not> py_eq (dget a ''schema_version'') (VInt 1) \<or> \<not> positive_int (dget a ''authorization_revision'')
        \<or> \<not> nonempty_str (dget a ''source_allocation_id'')
     then Inl (StateConflictError ''failed-attempt recovery authorization fields are invalid'')
     else if \<not> status_in [''failed'', ''blocked''] (dget a ''source_result_json'')
     then Inl (StateConflictError ''failed-attempt recovery source result is not failed or blocked'')
     else if dget a ''mode'' = VStr BLOCKED_SOURCE_REPAIR_MODE
        \<and> dget (dget a ''source_result_json'') ''status'' \<noteq> VStr ''blocked''
     then Inl (StateConflictError ''blocked source repair source result is not blocked'') else Inr ())"

definition SOURCE_FIELDS :: "string list" where
  "SOURCE_FIELDS = [''attempt'', ''worktree'', ''branch'', ''base_sha'', ''changed_paths'']"

definition OPTIONAL_SOURCE_FIELDS :: "string list" where
  "OPTIONAL_SOURCE_FIELDS = [''generated_residue_paths'', ''source_only_ignored'', ''source_only_extraction'',
     ''source_delta_sha256'']"

definition check_source_flags :: "pyval \<Rightarrow> unit res" where
  "check_source_flags source = (let extraction = dget_or source ''source_only_extraction'' (VBool False);
       digest = dget source ''source_delta_sha256'' in
     if \<not> is_bool (dget_or source ''source_only_ignored'' (VBool False))
     then Inl (StateConflictError ''failed-attempt recovery source-only flag is invalid'')
     else if \<not> is_bool extraction
     then Inl (StateConflictError ''failed-attempt recovery source-only extraction flag is invalid'')
     else if is_true extraction then
       (if \<not> is_true (dget source ''source_only_ignored'') \<or> \<not> sha_hex (text_of digest)
        then Inl (StateConflictError ''failed-attempt recovery source-only extraction receipt is invalid'') else Inr ())
     else if digest \<noteq> VNone then Inl (StateConflictError ''failed-attempt recovery source delta digest is invalid'')
     else Inr ())"

definition check_source :: "pyval \<Rightarrow> pyval \<Rightarrow> int \<Rightarrow> unit res" where
  "check_source source mode next_attempt =
    (if \<not> is_dict source \<or> \<not> set SOURCE_FIELDS \<subseteq> key_set source
        \<or> \<not> key_set source \<subseteq> set SOURCE_FIELDS \<union> set OPTIONAL_SOURCE_FIELDS
     then Inl (StateConflictError ''failed-attempt recovery source is invalid'')
     else if \<not> positive_int (dget source ''attempt'') \<or> int_of (dget source ''attempt'') \<noteq> Some (next_attempt - 1)
        \<or> \<not> list_all (\<lambda>k. nonempty_str (dget source k)) [''worktree'', ''branch'', ''base_sha'']
        \<or> path_list (dget source ''changed_paths'') = None
     then Inl (StateConflictError ''failed-attempt recovery source does not match the next attempt'')
     else if residue_list (dget_or source ''generated_residue_paths'' (VList [])) = None
     then Inl (StateConflictError ''failed-attempt recovery generated residue paths are invalid'')
     else bindR (check_source_flags source) (\<lambda>_.
       if mode = VStr BLOCKED_SOURCE_REPAIR_MODE
          \<and> (\<not> is_true (dget source ''source_only_ignored'') \<or> \<not> is_true (dget source ''source_only_extraction'')
            \<or> residue_list (dget_or source ''generated_residue_paths'' (VList [])) \<noteq> Some [])
       then Inl (StateConflictError ''blocked source repair source-only receipt is invalid'') else Inr ()))"

definition check_assignment :: "pyval \<Rightarrow> int \<Rightarrow> unit res" where
  "check_assignment a next_attempt = (let source = dget a ''source''; recovery = dget a ''recovery'';
       residue = dget_or source ''generated_residue_paths'' (VList []) in
     if \<not> nonempty_str (dget a ''recovery_ref'') \<or> int_of (dget a ''target_attempt'') \<noteq> Some next_attempt
        \<or> \<not> nonempty_str (dget a ''target_worktree'') \<or> \<not> nonempty_str (dget a ''target_branch'')
        \<or> \<not> is_dict recovery
     then Inl (StateConflictError ''failed-attempt recovery assignment fields are invalid'')
     else if \<not> py_eq (dget recovery ''source_attempt'') (dget source ''attempt'')
        \<or> \<not> py_eq (dget recovery ''source_worktree'') (dget source ''worktree'')
        \<or> \<not> py_eq (dget recovery ''source_branch'') (dget source ''branch'')
        \<or> \<not> py_eq (dget recovery ''base_sha'') (dget source ''base_sha'')
        \<or> \<not> py_eq (dget recovery ''changed_paths'') (dget source ''changed_paths'')
        \<or> truthy residue \<and> \<not> py_eq (dget recovery ''generated_residue_paths'') residue
     then Inl (StateConflictError ''failed-attempt recovery assignment does not match its source'') else Inr ())"

definition failed_attempt_recovery_binding :: "pyval option \<Rightarrow> int \<Rightarrow> bool \<Rightarrow> failed_binding option res" where
  "failed_attempt_recovery_binding raw next_attempt allow_assigned = (case raw of
      None \<Rightarrow> Inr None
    | Some a \<Rightarrow>
        if \<not> is_dict a then Inl (StateConflictError ''failed-attempt recovery authorization is invalid'')
        else if dget a ''kind'' \<noteq> VStr FAILED_ATTEMPT_RECOVERY_KIND then Inr None
        else bindR (check_binding_shape a allow_assigned) (\<lambda>_.
        bindR (check_binding_fields a) (\<lambda>_.
        let source = dget a ''source''; blocked = (dget a ''mode'' = VStr BLOCKED_SOURCE_REPAIR_MODE) in
        bindR (check_source source (dget a ''mode'') next_attempt) (\<lambda>_.
        bindR (if dget a ''state'' = VStr ''assigned'' then check_assignment a next_attempt else Inr ()) (\<lambda>_.
        Inr (Some \<lparr>fb_state = text_of (dget a ''state''), fb_allocation = text_of (dget a ''source_allocation_id''),
          fb_result = dget a ''source_result_json'', fb_attempt = next_attempt - 1,
          fb_worktree = text_of (dget source ''worktree''), fb_branch = text_of (dget source ''branch''),
          fb_base = text_of (dget source ''base_sha''),
          fb_changed = (case path_list (dget source ''changed_paths'') of Some xs \<Rightarrow> xs | None \<Rightarrow> []),
          fb_mode = dget a ''mode'', fb_origin = dget a ''source_task_state'',
          fb_refresh = (if blocked then dget_or a ''refresh_accepted_ancestors'' (VBool False) else VNone),
          fb_cursor = dget a ''owner_repair_event_cursor'', fb_ref = dget a ''recovery_ref'',
          fb_source = source\<rparr>))))))"

section \<open>Decoding a blocked worktree's receipt\<close>

definition hex_text :: "nat \<Rightarrow> pyval \<Rightarrow> bool" where
  "hex_text len v \<longleftrightarrow> length (text_of v) = len \<and> list_all hex_digit (text_of v) \<and> is_str v"

definition blocked_source_only_extraction :: "pyval \<Rightarrow> unit res" where
  "blocked_source_only_extraction raw =
    (if raw = VNone then Inr ()
     else if \<not> is_dict raw \<or> key_set raw \<noteq> {''recovery_authorization'', ''source_delta_sha256'',
        ''historical_effects'', ''retrospective_compliance_claimed'', ''external_replay_authorized''}
     then Inl (StateConflictError ''blocked source-only recovery authorization has an invalid shape'')
     else if dget raw ''recovery_authorization'' \<noteq> VStr ''source_only_extraction''
        \<or> \<not> hex_text 64 (dget raw ''source_delta_sha256'') \<or> dget raw ''historical_effects'' \<noteq> VStr ''unknown''
        \<or> dget raw ''retrospective_compliance_claimed'' \<noteq> VBool False
        \<or> dget raw ''external_replay_authorized'' \<noteq> VBool False
     then Inl (StateConflictError ''blocked source-only recovery authorization is invalid'') else Inr ())"

text \<open>The fields of a receipt by its schema version, with the fields that must be texts.\<close>

definition receipt_fields :: "int \<Rightarrow> string list option" where
  "receipt_fields version = (let dependency = [''source_task_id'', ''source_node_id'', ''input_tree_sha'', ''dependency_input_ref''];
       residue = [''generated_residue_paths'', ''generated_residue_ref''] in
     if version = 1 then Some []
     else if version \<in> {7, 8} then Some (''untracked_paths'' # (if version = 8 then residue else []))
     else if version \<in> {2, 3, 5, 6} then Some (dependency @ (if version \<in> {3, 6} then [''untracked_paths''] else [])
       @ (if version \<in> {5, 6} then residue else []))
     else if version = 4 then Some residue else None)"

definition COMMON_FIELDS :: "string list" where
  "COMMON_FIELDS = [''schema_version'', ''source_attempt'', ''source_worktree'', ''source_branch'', ''base_sha'',
     ''changed_paths'', ''patch_ref'', ''patch_sha256'']"

definition nonempty_list :: "pyval \<Rightarrow> bool" where
  "nonempty_list v \<longleftrightarrow> (case str_list v of Some xs \<Rightarrow> xs \<noteq> [] \<and> list_all (\<lambda>p. p \<noteq> []) xs | None \<Rightarrow> False)"

text \<open>\<open>1.0\<close> and \<open>True\<close> equal the version 1 in the code; a stored version is an \<open>int\<close>.\<close>

definition check_receipt :: "pyval \<Rightarrow> int \<Rightarrow> unit res" where
  "check_receipt recovery next_attempt =
    (if \<not> is_dict recovery then Inl (StateConflictError ''dirty-worktree recovery receipt has an invalid shape'')
     else let checkpoint = has_key ''source_checkpoint_sha'' recovery in
     if checkpoint \<and> \<not> hex_text 40 (dget recovery ''source_checkpoint_sha'')
     then Inl (StateConflictError ''checkpoint requires an exact full commit SHA'')
     else bindR (require (StateConflictError ''dirty-worktree recovery receipt schema is unsupported'')
        (Option.bind (int_of (dget recovery ''schema_version'')) receipt_fields)) (\<lambda>extra.
     if key_set recovery \<noteq> set COMMON_FIELDS \<union> set extra \<union> (if checkpoint then {''source_checkpoint_sha''} else {})
     then Inl (StateConflictError ''dirty-worktree recovery receipt has an invalid shape'')
     else if int_of (dget recovery ''source_attempt'') \<noteq> Some (next_attempt - 1)
        \<or> \<not> nonempty_list (dget recovery ''changed_paths'')
     then Inl (StateConflictError ''dirty-worktree recovery receipt does not match the next attempt'')
     else if list_ex (\<lambda>k. \<not> nonempty_str (dget recovery k)) ([''source_worktree'', ''source_branch'', ''base_sha'',
        ''patch_ref'', ''patch_sha256'']
        @ filter (\<lambda>k. k \<notin> {''untracked_paths'', ''generated_residue_paths'', ''generated_residue_ref''}) extra)
     then Inl (StateConflictError ''dirty-worktree recovery receipt field is invalid'')
     else if ''generated_residue_paths'' \<in> set extra
        \<and> (\<not> truthy (dget recovery ''generated_residue_paths'')
          \<or> residue_list (dget recovery ''generated_residue_paths'') = None
          \<or> \<not> nonempty_str (dget recovery ''generated_residue_ref''))
     then Inl (StateConflictError ''dirty-worktree recovery generated residue evidence is invalid'')
     else if ''untracked_paths'' \<in> set extra
        \<and> (case path_list (dget recovery ''untracked_paths'') of
             None \<Rightarrow> True
           | Some xs \<Rightarrow> xs = [] \<or> \<not> set xs \<subseteq> set (str_items (dget recovery ''changed_paths'')))
     then Inl (StateConflictError ''dirty-worktree recovery receipt untracked_paths are invalid'')
     else Inr ()))"

definition DIRTY_FIELDS :: "string list" where
  "DIRTY_FIELDS = [''schema_version'', ''kind'', ''state'', ''authorization_revision'', ''source_allocation_id'',
     ''source_result_json'', ''recovery'']"

record dirty_binding =
  db_state :: string
  db_allocation :: string
  db_result :: pyval
  db_recovery :: pyval
  db_attempt :: int
  db_worktree :: string
  db_branch :: string

definition current_dirty_worktree_recovery_binding :: "pyval option \<Rightarrow> int \<Rightarrow> dirty_binding option res" where
  "current_dirty_worktree_recovery_binding raw next_attempt = (case raw of
      None \<Rightarrow> Inr None
    | Some a \<Rightarrow>
        if \<not> is_dict a \<or> \<not> set DIRTY_FIELDS \<subseteq> key_set a
           \<or> \<not> key_set a \<subseteq> insert ''source_only_extraction'' (set DIRTY_FIELDS)
        then Inl (StateConflictError ''dirty-worktree recovery authorization has an invalid shape'')
        else if \<not> py_eq (dget a ''schema_version'') (VInt 1) \<or> dget a ''kind'' \<noteq> VStr ''blocked-worktree-recovery''
           \<or> dget a ''state'' \<noteq> VStr ''authorized''
        then Inl (StateConflictError ''dirty-worktree recovery authorization is not claimable'')
        else if \<not> positive_int (dget a ''authorization_revision'') \<or> \<not> nonempty_str (dget a ''source_allocation_id'')
        then Inl (StateConflictError ''dirty-worktree recovery authorization fields are invalid'')
        else if \<not> status_in [''blocked''] (dget a ''source_result_json'')
        then Inl (StateConflictError ''dirty-worktree recovery source result is not blocked'')
        else bindR (blocked_source_only_extraction (dget a ''source_only_extraction'')) (\<lambda>_.
        let recovery = dget a ''recovery'' in
        bindR (check_receipt recovery next_attempt) (\<lambda>_.
        Inr (Some \<lparr>db_state = ''authorized'', db_allocation = text_of (dget a ''source_allocation_id''),
          db_result = dget a ''source_result_json'', db_recovery = recovery, db_attempt = next_attempt - 1,
          db_worktree = text_of (dget recovery ''source_worktree''),
          db_branch = text_of (dget recovery ''source_branch'')\<rparr>))))"

definition CONSUMED_FIELDS :: "string list" where
  "CONSUMED_FIELDS = [''consumed_at'', ''target_attempt'', ''target_worktree'', ''target_branch'']"

definition dirty_worktree_recovery_for_settlement :: "pyval option \<Rightarrow> int \<Rightarrow> dirty_binding option res" where
  "dirty_worktree_recovery_for_settlement raw attempt = (case raw of
      None \<Rightarrow> Inr None
    | Some a \<Rightarrow>
        if \<not> is_dict a then Inl (StateConflictError ''dirty-worktree recovery receipt is invalid'')
        else if dget a ''kind'' \<in> VStr ` {FAILED_ATTEMPT_RECOVERY_KIND, ''historical-accepted-source-v1'',
           ''accepted-source-repair-v1'', ''accepted-source-repair-v2''}
        then Inr None
        else bindR (blocked_source_only_extraction (if has_key ''source_only_extraction'' a
            then dget a ''source_only_extraction'' else VNone)) (\<lambda>_.
        let base = set DIRTY_FIELDS \<union> (if has_key ''source_only_extraction'' a then {''source_only_extraction''} else {}) in
        if dget a ''state'' = VStr ''authorized'' then current_dirty_worktree_recovery_binding raw attempt
        else if dget a ''state'' \<noteq> VStr ''consumed'' \<or> key_set a \<noteq> base \<union> set CONSUMED_FIELDS
        then Inl (StateConflictError ''dirty-worktree recovery receipt is not current'')
        else if \<not> py_eq (dget a ''target_attempt'') (VInt attempt) \<or> \<not> is_str (dget a ''consumed_at'')
           \<or> \<not> nonempty_str (dget a ''target_worktree'') \<or> \<not> nonempty_str (dget a ''target_branch'')
        then Inl (StateConflictError ''dirty-worktree recovery consumed receipt is invalid'')
        else bindR (current_dirty_worktree_recovery_binding (Some (VDict (dict_set ''state'' (VStr ''authorized'')
            (filter (\<lambda>(k, _). k \<in> base) (items_of a))))) attempt) (\<lambda>b.
          Inr (map_option (\<lambda>b. b\<lparr>db_state := ''consumed''\<rparr>) b))))"

end
