(* ===== verification/Node_Claim.thy ===== *)
theory Node_Claim
  imports Node_Recovery
begin

text \<open>
  Claiming a ready node (\<open>store.py\<close> lines 4842 to 4886, 11356 to 11405 and 11574 to 12449): the waits
  for a repository scope, the route of an attempt, the admission of a candidate and the claim itself.

  The claim reads things that are not in the ledger or not modelled; \<open>world\<close> collects them, and no
  theorem assumes anything of it: the repository identities resolved before the transaction (git),
  the aliases the filesystem shows between two worktrees, the report on private worktrees, the
  lockfile journal, the caller's \<open>admissible\<close>, and the decoders of the two recovery kinds that
  other modules own (accepted-source repair and historical accepted source).
\<close>

section \<open>What a claim asks of the world\<close>

record accepted_binding =
  ab_allocation :: string
  ab_result :: pyval
  ab_attempt :: int
  ab_worktree :: string
  ab_branch :: string
  ab_base :: string
  ab_requester :: string
  ab_document :: pyval

record world =
  q_identity :: "string \<Rightarrow> string option"
  q_aliases :: "node_row \<Rightarrow> node_row \<Rightarrow> pyval list"
  q_isolation :: "node_row \<Rightarrow> node_row \<Rightarrow> store \<Rightarrow> pyval"
  q_handoff :: "string \<Rightarrow> store \<Rightarrow> bool res"
  q_admissible :: "pyval \<Rightarrow> bool"
  q_accepted :: "pyval option \<Rightarrow> int \<Rightarrow> accepted_binding option res"
  q_historical :: "pyval option \<Rightarrow> int \<Rightarrow> pyval option res"

section \<open>Reading a stored specification\<close>

definition read_scopes :: "pyval \<Rightarrow> string list" where
  "read_scopes spec = str_items (dget spec ''read_scopes'')"

definition write_scopes :: "pyval \<Rightarrow> string list" where
  "write_scopes spec = str_items (dget spec ''write_scopes'')"

definition depends_on :: "pyval \<Rightarrow> string list" where
  "depends_on spec = str_items (dget spec ''depends_on'')"

definition is_verifier :: "pyval \<Rightarrow> bool" where
  "is_verifier spec = truthy (dget spec ''verifier'')"

definition repository_of :: "pyval \<Rightarrow> string" where
  "repository_of contract = text_of (dget contract ''repository'')"

text \<open>\<open>column or spec[key]\<close>.\<close>

definition column_or :: "string option \<Rightarrow> pyval \<Rightarrow> string \<Rightarrow> string" where
  "column_or column spec key = (case column of
      Some v \<Rightarrow> if v = [] then text_of (dget spec key) else v
    | None \<Rightarrow> text_of (dget spec key))"

definition routed :: "pyval \<Rightarrow> string \<Rightarrow> string \<Rightarrow> pyval" where
  "routed spec executor model = VDict (dict_merge (items_of spec) [(''executor'', VStr executor), (''model'', VStr model)])"

text \<open>The specification a claim hands out and the lane is derived from.\<close>

definition effective_spec :: "pyval \<Rightarrow> string \<Rightarrow> string \<Rightarrow> pyval" where
  "effective_spec spec executor model = VDict (dict_merge (items_of spec)
     [(''executor'', VStr executor), (''model'', VStr model),
      (''model_profile'', opt_str (codex_model_profile model)),
      (''model_reasoning_effort'', opt_str (codex_model_reasoning_effort model))])"

section \<open>Waits for a scope\<close>

definition scope_overlap_path :: "string \<Rightarrow> string \<Rightarrow> string" where
  "scope_overlap_path left right =
    (if right = ''.'' \<or> (left \<noteq> ''.'' \<and> length right \<le> length left) then left else right)"

definition access_pairs :: "string \<Rightarrow> string list \<Rightarrow> string \<Rightarrow> string list \<Rightarrow> pyval list res" where
  "access_pairs kind scopes running_kind running =
    bindR (mapR (\<lambda>(a, b). bindR (scopes_overlap a b) (\<lambda>hit. if \<not> hit then Inr []
        else bindR (normalize_scope a) (\<lambda>left. bindR (normalize_scope b) (\<lambda>right.
          Inr [VDict [(''candidate_access'', VStr kind), (''candidate_scope'', VStr left),
            (''running_access'', VStr running_kind), (''running_scope'', VStr right),
            (''overlap'', VStr (scope_overlap_path left right))]]))))
      (List.product scopes running)) (\<lambda>pairs. Inr (concat pairs))"

definition scope_access_pairs ::
  "string list \<Rightarrow> string list \<Rightarrow> string list \<Rightarrow> string list \<Rightarrow> pyval list res" where
  "scope_access_pairs reads writes running_reads running_writes =
    bindR (scope_access_conflicts reads writes running_reads running_writes) (\<lambda>conflict.
    if \<not> conflict then Inr []
    else bindR (access_pairs ''write'' writes ''write'' running_writes) (\<lambda>ww.
    bindR (access_pairs ''write'' writes ''read'' running_reads) (\<lambda>wr.
    bindR (access_pairs ''read'' reads ''write'' running_writes) (\<lambda>rw. Inr (ww @ wr @ rw)))))"

definition wait_blocking :: "(node_row \<times> pyval list \<times> pyval) list \<Rightarrow> pyval" where
  "wait_blocking blockers = VDict [(''nodes'', VList (map (\<lambda>(n, pairs, isolation).
     VDict [(''task_id'', VStr (n_task n)), (''node_id'', VStr (n_node n)), (''attempt'', VInt (n_attempt n)),
       (''worker_id'', opt_str (n_worker n)), (''conflict_paths'', VList pairs), (''isolation'', isolation)])
     (sort_key (\<lambda>(n, _). (n_task n, n_node n, n_attempt n, case n_worker n of None \<Rightarrow> [] | Some w \<Rightarrow> w)) blockers)))]"

text \<open>\<open>INSERT ... ON CONFLICT(task_id, node_id) DO UPDATE\<close>.\<close>

definition upsert_wait :: "wait_row \<Rightarrow> wait_row list \<Rightarrow> wait_row list" where
  "upsert_wait w t = (case row_get wait_key (wait_key w) t of
      None \<Rightarrow> t @ [w]
    | Some old \<Rightarrow> row_put wait_key (wait_key w) (\<lambda>_. w\<lparr>i_created := i_created old\<rparr>) t)"

definition record_scope_access_wait ::
  "(pyval \<Rightarrow> string) \<Rightarrow> node_row \<Rightarrow> int \<Rightarrow> (node_row \<times> pyval list \<times> pyval) list \<Rightarrow> stamp \<Rightarrow> store \<Rightarrow> store" where
  "record_scope_access_wait sha n next_attempt blockers ts s = (let
     blocking = wait_blocking blockers;
     reason = VDict [(''kind'', VStr ''scope_access_conflict''),
       (''detail'', VStr ''node waits for a conflicting repository scope to be released''),
       (''next_attempt'', VInt next_attempt), (''conflicts'', dget blocking ''nodes'')];
     fingerprint = canonical_hash sha (VDict [(''task_id'', VStr (n_task n)), (''node_id'', VStr (n_node n)),
       (''next_attempt'', VInt next_attempt), (''reason'', reason), (''blocking'', blocking)]);
     next_action = VDict [(''action'', VStr ''claim_when_scope_released''), (''stage'', VStr ''admission''),
       (''target_attempt'', VInt next_attempt),
       (''trigger'', VStr ''running_node_settlement_or_bounded_reconciliation'')]
   in if (case row_get wait_key (node_key n) (waits s) of None \<Rightarrow> False | Some w \<Rightarrow> i_fingerprint w = fingerprint)
      then s
      else case emit_event ''node.admission_waiting'' (Some (n_task n)) (Some (n_node n))
          [(''wait_fingerprint'', VStr fingerprint), (''reason_kind'', VStr ''scope_access_conflict''),
           (''next_attempt'', VInt next_attempt), (''blocking'', blocking), (''next_action'', next_action),
           (''due_at'', VStr (iso_show (stamp_after ts 300))),
           (''next_wakeup_at'', VStr (iso_show (stamp_after ts 5)))] ts s of
        (cursor, t) \<Rightarrow> t\<lparr>waits := upsert_wait \<lparr>i_task = n_task n, i_node = n_node n, i_fingerprint = fingerprint,
            i_reason = canonical_json reason, i_action = canonical_json next_action,
            i_blocking = canonical_json blocking, i_due = stamp_after ts 300, i_wakeup = stamp_after ts 5,
            i_cursor = cursor, i_created = ts, i_updated = ts\<rparr> (waits t)\<rparr>)"

definition drop_wait :: "string \<times> string \<Rightarrow> store \<Rightarrow> store" where
  "drop_wait k s = s\<lparr>waits := filter (\<lambda>w. wait_key w \<noteq> k) (waits s)\<rparr>"

definition resolve_scope_access_wait ::
  "string \<times> string \<Rightarrow> string \<Rightarrow> stamp \<Rightarrow> store \<Rightarrow> int option \<times> store" where
  "resolve_scope_access_wait k reason ts s = (case row_get wait_key k (waits s) of
      None \<Rightarrow> (None, s)
    | Some w \<Rightarrow> (case emit_event ''node.admission_resumed'' (Some (fst k)) (Some (snd k))
          [(''reason'', VStr reason), (''admission_wait_event_cursor'', VInt (i_cursor w)),
           (''wait_fingerprint'', VStr (i_fingerprint w))] ts (drop_wait k s) of
        (cursor, t) \<Rightarrow> (Some cursor, t)))"

fun still_running :: "store \<Rightarrow> pyval list \<Rightarrow> bool res" where
  "still_running s [] = Inr False"
| "still_running s (b # bs) =
    (if \<not> is_dict b then Inl (StateConflictError ''scope admission wait blocker is invalid'')
     else case row_get node_key (text_of (dget b ''task_id''), text_of (dget b ''node_id'')) (nodes s) of
       Some n \<Rightarrow> if n_state n = NRunning \<and> py_eq (VInt (n_attempt n)) (dget b ''attempt'') then Inr True
         else still_running s bs
     | None \<Rightarrow> still_running s bs)"

definition reconcile_wait :: "stamp \<Rightarrow> wait_row \<Rightarrow> store \<Rightarrow> store res" where
  "reconcile_wait ts w s =
    (if (case row_get node_key (wait_key w) (nodes s) of None \<Rightarrow> True | Some n \<Rightarrow> n_state n \<noteq> NPending)
     then Inr (drop_wait (wait_key w) s)
     else case dget (i_blocking w) ''nodes'' of
       VList blockers \<Rightarrow> bindR (still_running s blockers) (\<lambda>running.
         Inr (if running then s else snd (resolve_scope_access_wait (wait_key w) ''recorded_scope_released'' ts s)))
     | _ \<Rightarrow> Inl (StateConflictError ''scope admission wait is invalid''))"

fun reconcile_waits :: "stamp \<Rightarrow> wait_row list \<Rightarrow> store \<Rightarrow> store res" where
  "reconcile_waits ts [] s = Inr s"
| "reconcile_waits ts (w # ws) s = bindR (reconcile_wait ts w s) (reconcile_waits ts ws)"

definition reconcile_scope_access_waits :: "stamp \<Rightarrow> store \<Rightarrow> store res" where
  "reconcile_scope_access_waits ts s = reconcile_waits ts (waits s) s"

definition pending_node_admission_waits :: "int \<Rightarrow> store \<Rightarrow> wait_row list res" where
  "pending_node_admission_waits limit s =
    (if limit < 1 then Inl (ValueError ''admission wait limit must be positive'')
     else Inr (take (nat limit) (sort_key (\<lambda>w. (i_wakeup w, i_task w, i_node w)) (waits s))))"

section \<open>The route of an attempt\<close>

text \<open>The events of one kind of a node with their cursors, newest first.\<close>

definition node_events :: "string \<Rightarrow> string \<Rightarrow> string \<Rightarrow> store \<Rightarrow> (int \<times> pyval) list" where
  "node_events kind task node s = rev (map (\<lambda>(i, e). (int i, e_payload e))
     (filter (\<lambda>(i, e). e_type e = kind \<and> e_task e = Some task \<and> e_node e = Some node)
       (enumerate 1 (events s))))"

definition named_route :: "pyval \<Rightarrow> bool" where
  "named_route route \<longleftrightarrow> is_dict route \<and> text_of (dget route ''executor'') \<noteq> []
     \<and> text_of (dget route ''model'') \<noteq> []"

fun first_authorization :: "int \<Rightarrow> (int \<times> pyval) list \<Rightarrow> (int \<times> string \<times> string) option res" where
  "first_authorization next_attempt [] = Inr None"
| "first_authorization next_attempt ((cursor, payload) # rest) =
    (if \<not> is_dict payload \<or> \<not> py_eq (dget payload ''next_attempt'') (VInt next_attempt)
     then first_authorization next_attempt rest
     else if \<not> py_eq (dget payload ''original_attempt'') (VInt (next_attempt - 1))
     then Inl (StateConflictError ''blocked retry authorization attempt is inconsistent'')
     else let assertion = dget payload ''operator_assertion''; route = dget payload ''effective_route'' in
       if \<not> is_dict assertion \<or> \<not> is_true (dget assertion ''confirm_no_side_effects'')
          \<or> dget assertion ''automatically_verified'' \<noteq> VBool False \<or> \<not> named_route route
       then Inl (StateConflictError ''blocked retry authorization receipt is incomplete'')
       else Inr (Some (cursor, text_of (dget route ''executor''), text_of (dget route ''model''))))"

definition blocked_retry_authorization ::
  "string \<Rightarrow> string \<Rightarrow> int \<Rightarrow> store \<Rightarrow> (int \<times> string \<times> string) option res" where
  "blocked_retry_authorization task node next_attempt s =
    (if next_attempt \<le> 1 then Inr None
     else first_authorization next_attempt (node_events ''node.blocked_retry_authorized'' task node s))"

definition fallback_route :: "int \<Rightarrow> string option \<Rightarrow> pyval \<Rightarrow> (string \<times> string) option" where
  "fallback_route source_attempt claude_model payload =
    (if is_dict payload \<and> py_eq (dget payload ''attempt'') (VInt source_attempt)
        \<and> dget payload ''from'' = VStr ''claude'' \<and> dget payload ''to'' = VStr ''codex''
        \<and> text_of (dget payload ''model'') \<noteq> []
     then Some (case claude_model of
         Some m \<Rightarrow>
           if m \<noteq> [] \<and> dget payload ''fallback_kind'' = VStr ''claude-executor-failed''
              \<and> starts_with ''Claude structured result rejected: CLI '' (text_of (dget payload ''reason''))
           then (''claude'', m) else (''codex'', text_of (dget payload ''model''))
       | None \<Rightarrow> (''codex'', text_of (dget payload ''model'')))
     else None)"

definition recorded_retry_fallback_route ::
  "string \<Rightarrow> string \<Rightarrow> int \<Rightarrow> string option \<Rightarrow> store \<Rightarrow> (string \<times> string) option" where
  "recorded_retry_fallback_route task node source_attempt claude_model s =
    (case List.map_filter (\<lambda>(_, payload). fallback_route source_attempt claude_model payload)
        (node_events ''node.routed'' task node s) of
       [] \<Rightarrow> None | r # _ \<Rightarrow> Some r)"

record route =
  r_executor :: string
  r_model :: string
  r_authorized :: "int option"
  r_readmission :: "pyval option"

text \<open>What the decoders say of the candidate's recovery document.\<close>

record recovery =
  v_failed :: "failed_binding option"
  v_accepted :: "accepted_binding option"
  v_historical :: "pyval option"
  v_dirty :: "dirty_binding option"

definition candidate_recovery :: "world \<Rightarrow> node_row \<Rightarrow> int \<Rightarrow> recovery res" where
  "candidate_recovery W n attempt =
    bindR (failed_attempt_recovery_binding (n_recovery n) attempt False) (\<lambda>failed.
    bindR (q_accepted W (n_recovery n) attempt) (\<lambda>accepted.
    bindR (q_historical W (n_recovery n) attempt) (\<lambda>historical.
    bindR (if failed \<noteq> None \<or> accepted \<noteq> None \<or> historical \<noteq> None then Inr None
        else current_dirty_worktree_recovery_binding (n_recovery n) attempt) (\<lambda>dirty.
    Inr \<lparr>v_failed = failed, v_accepted = accepted, v_historical = historical, v_dirty = dirty\<rparr>))))"

definition retry_route :: "node_row \<Rightarrow> int \<Rightarrow> store \<Rightarrow> (string \<times> string) option" where
  "retry_route n source_attempt s = (let spec = n_spec n in
     if 0 < source_attempt
     then recorded_retry_fallback_route (n_task n) (n_node n) source_attempt
       (if dget spec ''executor'' = VStr ''claude'' then Some (text_of (dget spec ''model'')) else None) s
     else None)"

definition candidate_route ::
  "node_row \<Rightarrow> int \<Rightarrow> recovery \<Rightarrow> (int \<times> string \<times> string) option \<Rightarrow> store \<Rightarrow> route" where
  "candidate_route n attempt v authorization s =
    (if v_dirty v \<noteq> None
     then \<lparr>r_executor = ''deterministic'', r_model = ''blocked-worktree-recovery'', r_authorized =
         map_option fst authorization, r_readmission = None\<rparr>
     else case authorization of
       Some (cursor, executor, model) \<Rightarrow> \<lparr>r_executor = executor, r_model = model, r_authorized = Some cursor,
         r_readmission = None\<rparr>
     | None \<Rightarrow> (let spec = n_spec n;
           source_attempt = (case v_failed v of Some b \<Rightarrow> fb_attempt b | None \<Rightarrow> n_attempt n);
           fallback = retry_route n source_attempt s;
           (executor, model) = (case fallback of Some r \<Rightarrow> r
             | None \<Rightarrow> (column_or (n_executor n) spec ''executor'', column_or (n_model n) spec ''model''))
         in \<lparr>r_executor = executor,
             r_model = retry_model model attempt (is_verifier spec) (dget spec ''routing_policy_version''),
             r_authorized = None,
             r_readmission = (if executor = ''claude'' \<and> fallback \<noteq> None
               then Some (VDict [(''source_attempt'', VInt source_attempt),
                 (''reason'', VStr ''prior-provider-cli-response-failure''), (''candidate_executor'', VStr ''claude''),
                 (''candidate_model'', VStr model), (''requires_current_admission'', VBool True)])
               else None)\<rparr>))"

section \<open>Admission of a candidate\<close>

text \<open>The repositories of the tasks with pending or running nodes, resolved before the transaction.\<close>

definition claim_repositories :: "store \<Rightarrow> string list" where
  "claim_repositories s = map (\<lambda>t. repository_of (t_contract t)) (filter (\<lambda>t.
     t_state t \<in> {TQueued, TRunning, TVerifying, TNeedsFix, TBlocked}
     \<and> list_ex (\<lambda>n. n_task n = t_id t \<and> n_state n \<in> {NPending, NRunning}) (nodes s)) (tasks s))"

definition claim_repository_identities :: "(string \<Rightarrow> string) \<Rightarrow> store \<Rightarrow> string \<Rightarrow> string option" where
  "claim_repository_identities identity s repository =
    (if repository \<in> set (claim_repositories s) then Some (identity repository) else None)"

text \<open>The tasks whose pending nodes may be claimed.\<close>

definition claimable :: "store \<Rightarrow> task_row \<Rightarrow> bool" where
  "claimable s t \<longleftrightarrow> t_state t \<in> {TQueued, TRunning, TVerifying, TNeedsFix}
     \<or> t_state t = TBlocked \<and> list_ex (\<lambda>n. n_task n = t_id t \<and> n_state n = NBlocked) (nodes s)
       \<and> \<not> list_ex (\<lambda>n. n_task n = t_id t \<and> n_state n = NIndeterminate) (nodes s)"

definition joined :: "store \<Rightarrow> node_row \<Rightarrow> (node_row \<times> task_row) option" where
  "joined s n = map_option (Pair n) (row_get t_id (n_task n) (tasks s))"

definition claim_candidates :: "store \<Rightarrow> (node_row \<times> task_row) list" where
  "claim_candidates s = sort_key (\<lambda>(n, t). (- t_priority t, t_created t,
       (case int_of (dget (n_spec n) ''ordinal'') of None \<Rightarrow> 0 | Some i \<Rightarrow> i), n_node n))
     (filter (\<lambda>(n, t). n_state n = NPending \<and> claimable s t) (List.map_filter (joined s) (nodes s)))"

definition running_nodes :: "store \<Rightarrow> (node_row \<times> task_row) list" where
  "running_nodes s = filter (\<lambda>(n, t). n_state n = NRunning) (List.map_filter (joined s) (nodes s))"

definition running_spec :: "node_row \<Rightarrow> pyval" where
  "running_spec n = routed (n_spec n) (column_or (n_executor n) (n_spec n) ''executor'')
     (column_or (n_model n) (n_spec n) ''model'')"

definition lane_active :: "store \<Rightarrow> string \<Rightarrow> int" where
  "lane_active s lane = int (length (filter (\<lambda>(n, t). execution_lane_for_spec (running_spec n) = lane) (running_nodes s)))"

text \<open>A task that runs and whether one of its running nodes refuses company.\<close>

definition refuses_company :: "pyval \<Rightarrow> bool" where
  "refuses_company spec \<longleftrightarrow> dget spec ''parallelizable'' = VBool False"

definition company_refused :: "store \<Rightarrow> node_row \<Rightarrow> bool" where
  "company_refused s n \<longleftrightarrow> (let running = filter (\<lambda>(m, t). n_task m = n_task n) (running_nodes s) in
     running \<noteq> [] \<and> (refuses_company (n_spec n) \<or> list_ex (\<lambda>(m, t). refuses_company (n_spec m)) running))"

definition dependencies_accepted :: "store \<Rightarrow> node_row \<Rightarrow> bool" where
  "dependencies_accepted s n = (let deps = depends_on (n_spec n);
       rows = filter (\<lambda>m. n_task m = n_task n \<and> n_node m \<in> set deps) (nodes s)
     in length rows = length deps \<and> list_all (\<lambda>m. n_state m = NAccepted) rows)"

fun scope_blockers ::
  "world \<Rightarrow> store \<Rightarrow> string \<Rightarrow> node_row \<Rightarrow> (node_row \<times> task_row) list \<Rightarrow> (node_row \<times> pyval list \<times> pyval) list res" where
  "scope_blockers W s repository n [] = Inr []"
| "scope_blockers W s repository n ((m, t) # rest) =
    (if q_identity W (repository_of (t_contract t)) \<noteq> Some repository then scope_blockers W s repository n rest
     else bindR (scope_access_pairs (read_scopes (n_spec n)) (write_scopes (n_spec n))
          (read_scopes (n_spec m)) (write_scopes (n_spec m))) (\<lambda>logical.
       let pairs = logical @ q_aliases W n m in
       bindR (scope_blockers W s repository n rest) (\<lambda>others.
         Inr (if pairs = [] then others else (m, pairs, q_isolation W n m s) # others))))"

record selection =
  z_node :: node_row
  z_task :: task_row
  z_route :: route
  z_recovery :: recovery
  z_lane :: string
  z_pool :: string

datatype verdict = Skip | Wait "(node_row \<times> pyval list \<times> pyval) list" | Select selection

text \<open>One turn of the candidate loop; \<open>None\<close> as \<open>lanes\<close> allows every lane.\<close>

definition consider_candidate ::
  "world \<Rightarrow> string list option \<Rightarrow> (string \<times> int) list \<Rightarrow> store \<Rightarrow> node_row \<times> task_row \<Rightarrow> verdict res" where
  "consider_candidate W lanes capacities s nt = (case nt of (n, t) \<Rightarrow> (let attempt = n_attempt n + 1 in
     bindR (blocked_retry_authorization (n_task n) (n_node n) attempt s) (\<lambda>authorization.
     bindR (candidate_recovery W n attempt) (\<lambda>v.
     let r = candidate_route n attempt v authorization s;
         effective = effective_spec (n_spec n) (r_executor r) (r_model r);
         lane = execution_lane_for_spec effective
     in if (case lanes of None \<Rightarrow> False | Some names \<Rightarrow> lane \<notin> set names) then Inr Skip
     else if (case map_of capacities lane of None \<Rightarrow> False | Some c \<Rightarrow> c \<le> lane_active s lane) then Inr Skip
     else if \<not> dependencies_accepted s n then Inr Skip
     else if company_refused s n then Inr Skip
     else case q_identity W (repository_of (t_contract t)) of
       None \<Rightarrow> Inr Skip
     | Some repository \<Rightarrow> bindR (q_handoff W repository s) (\<lambda>reserved.
         if reserved then Inr Skip
         else bindR (scope_blockers W s repository n (running_nodes s)) (\<lambda>blockers.
           if blockers \<noteq> [] then Inr (Wait blockers)
           else if \<not> q_admissible W effective then Inr Skip
           else Inr (Select \<lparr>z_node = n, z_task = t, z_route = r, z_recovery = v, z_lane = lane,
             z_pool = quota_pool_id_for_spec effective\<rparr>)))))))"

fun select_candidate ::
  "(pyval \<Rightarrow> string) \<Rightarrow> world \<Rightarrow> string list option \<Rightarrow> (string \<times> int) list \<Rightarrow> stamp \<Rightarrow> (node_row \<times> task_row) list \<Rightarrow> store
    \<Rightarrow> (selection option \<times> store) res" where
  "select_candidate sha W lanes capacities ts [] s = Inr (None, s)"
| "select_candidate sha W lanes capacities ts (nt # rest) s =
    bindR (consider_candidate W lanes capacities s nt) (\<lambda>verdict. case verdict of
      Skip \<Rightarrow> select_candidate sha W lanes capacities ts rest s
    | Wait blockers \<Rightarrow> select_candidate sha W lanes capacities ts rest
        (record_scope_access_wait sha (fst nt) (n_attempt (fst nt) + 1) blockers ts s)
    | Select z \<Rightarrow> Inr (Some z, s))"

section \<open>The claim\<close>

definition next_lease_epoch :: "store \<Rightarrow> int \<times> store" where
  "next_lease_epoch s = (let epoch = (case meta_lease s of None \<Rightarrow> 0 | Some e \<Rightarrow> e) + 1
     in (epoch, s\<lparr>meta_lease := Some epoch\<rparr>))"

text \<open>The newest deferral of the node, when it was for this attempt.\<close>

definition admission_wait_cursor :: "node_row \<Rightarrow> int \<Rightarrow> store \<Rightarrow> int option" where
  "admission_wait_cursor n attempt s = (case node_events ''node.admission_deferred'' (n_task n) (n_node n) s of
      (cursor, payload) # _ \<Rightarrow> if py_eq (dget payload ''next_attempt'') (VInt attempt) then Some cursor else None
    | [] \<Rightarrow> None)"

definition claimed_node :: "string \<Rightarrow> route \<Rightarrow> int \<Rightarrow> int \<Rightarrow> stamp \<Rightarrow> node_row \<Rightarrow> node_row" where
  "claimed_node worker r epoch lease ts n = n\<lparr>n_state := NRunning, n_attempt := n_attempt n + 1,
     n_worker := Some worker, n_executor := Some (r_executor r), n_model := Some (r_model r), n_epoch := epoch,
     n_lease := lease, n_started := Some ts, n_updated := ts\<rparr>"

definition start_task :: "task_row \<Rightarrow> stamp \<Rightarrow> store \<Rightarrow> store" where
  "start_task t ts s = (if t_state t \<in> {TQueued, TNeedsFix}
     then snd (emit_event ''task.state_changed'' (Some (t_id t)) None
       [(''from'', VStr (task_state_name (t_state t))), (''to'', VStr ''running'')] ts
       (s\<lparr>tasks := row_put t_id (t_id t) (\<lambda>t. t\<lparr>t_state := TRunning, t_revision := t_revision t + 1,
          t_updated := ts, t_blocker := None\<rparr>) (tasks s)\<rparr>))
     else s)"

definition opt_item :: "string \<Rightarrow> pyval option \<Rightarrow> items" where
  "opt_item k v = (case v of None \<Rightarrow> [] | Some x \<Rightarrow> [(k, x)])"

definition recovery_items :: "recovery \<Rightarrow> items" where
  "recovery_items v =
     opt_item ''accepted_source_repair'' (map_option (\<lambda>b. VDict [(''source_attempt'', VInt (ab_attempt b)),
       (''source_allocation_id'', VStr (ab_allocation b))]) (v_accepted v))
   @ opt_item ''historical_accepted_source'' (map_option (\<lambda>b. VDict [
       (''source_event_cursor'', dget b ''source_event_cursor''),
       (''source_attempt'', dget (dget b ''source'') ''attempt''),
       (''current_allocation_id'', dget (dget b ''current'') ''allocation_id'')]) (v_historical v))
   @ opt_item ''blocked_worktree_recovery'' (map_option (\<lambda>b. VDict [
       (''source_attempt'', VInt (db_attempt b)), (''source_allocation_id'', VStr (db_allocation b)),
       (''patch_ref'', dget (db_recovery b) ''patch_ref'')]) (v_dirty v))
   @ opt_item ''failed_attempt_recovery'' (map_option (\<lambda>b. VDict [(''source_attempt'', VInt (fb_attempt b)),
       (''source_allocation_id'', VStr (fb_allocation b)), (''expected_changed_paths'', strs (fb_changed b))]) (v_failed v))
   @ (case v_failed v of
        Some b \<Rightarrow> if fb_mode b = VStr ''blocked_source_repair''
          then [(''blocked_source_repair'', VDict [(''source_attempt'', VInt (fb_attempt b)),
            (''source_allocation_id'', VStr (fb_allocation b)), (''source_node_state'', VStr ''blocked''),
            (''source_task_state'', fb_origin b)])]
          else []
      | None \<Rightarrow> [])"

definition steers :: "string \<Rightarrow> string \<Rightarrow> int \<Rightarrow> steering_row \<Rightarrow> bool" where
  "steers task node attempt g \<longleftrightarrow> g_task g = task \<and>
     (g_scope g \<in> {''task'', ''legacy''}
      \<or> g_scope g = ''node'' \<and> g_node g = Some node
        \<and> (case g_attempt g of None \<Rightarrow> False | Some a \<Rightarrow> a \<le> attempt)
      \<or> g_scope g = ''attempt'' \<and> g_node g = Some node \<and> g_attempt g = Some attempt)"

definition claim_steering :: "string \<Rightarrow> string \<Rightarrow> int \<Rightarrow> store \<Rightarrow> steering_row list" where
  "claim_steering task node attempt s = sort_key g_sequence (filter (steers task node attempt) (steering s))"

definition deliver_steering :: "node_row \<Rightarrow> stamp \<Rightarrow> steering_row \<Rightarrow> store \<Rightarrow> store" where
  "deliver_steering n ts g s = snd (emit_event ''task.steering_delivered'' (Some (n_task n)) (Some (n_node n))
     [(''steering_id'', VStr (g_id g)), (''instruction'', VStr (g_instruction g)),
      (''sequence'', VInt (g_sequence g)), (''scope'', VStr (g_scope g)), (''target_node_id'', opt_str (g_node g)),
      (''target_attempt'', (case g_attempt g of None \<Rightarrow> VNone | Some a \<Rightarrow> VInt a)),
      (''node_id'', VStr (n_node n)), (''attempt'', VInt (n_attempt n))] ts s)"

record claim =
  cl_node :: node_row
  cl_cursor :: int
  cl_spec :: pyval
  cl_contract :: pyval
  cl_steering :: "string list"
  cl_recovery :: recovery

definition started_payload ::
  "selection \<Rightarrow> node_row \<Rightarrow> (string \<times> int) list \<Rightarrow> int \<Rightarrow> int option \<Rightarrow> int option \<Rightarrow> stamp \<Rightarrow> items" where
  "started_payload z n capacities active deferred resumed ts = (let r = z_route z in
     [(''attempt'', VInt (n_attempt n)), (''worker_id'', opt_str (n_worker n)), (''executor'', VStr (r_executor r)),
      (''model'', VStr (r_model r)), (''model_profile'', opt_str (codex_model_profile (r_model r))),
      (''model_reasoning_effort'', opt_str (codex_model_reasoning_effort (r_model r))),
      (''coordinator_epoch'', VInt (n_epoch n)), (''lease_epoch'', VInt (n_lease n)),
      (''execution_lane'', VStr (z_lane z)), (''quota_pool_id'', VStr (z_pool z)),
      (''lane_capacity'', (case map_of capacities (z_lane z) of None \<Rightarrow> VNone | Some c \<Rightarrow> VInt c)),
      (''lane_active_units'', VInt (active + 1)), (''claimed_at'', VStr (iso_show ts))]
     @ recovery_items (z_recovery z)
     @ opt_item ''provider_readmission'' (r_readmission r)
     @ opt_item ''admission_deferred_event_cursor'' (map_option VInt deferred)
     @ opt_item ''scope_admission_wait_resumed_event_cursor'' (map_option VInt resumed)
     @ opt_item ''blocked_retry_authorization_event_cursor'' (map_option VInt (r_authorized r)))"

definition start_node ::
  "selection \<Rightarrow> string \<Rightarrow> int \<Rightarrow> (string \<times> int) list \<Rightarrow> int \<Rightarrow> stamp \<Rightarrow> store \<Rightarrow> claim \<times> store" where
  "start_node z worker epoch capacities active ts s = (let n0 = z_node z; r = z_route z in
     case resolve_scope_access_wait (node_key n0) ''node_claimed_after_scope_gate'' ts s of (resumed, s1) \<Rightarrow>
     case next_lease_epoch s1 of (lease, s2) \<Rightarrow>
     let n = claimed_node worker r epoch lease ts n0;
         deferred = admission_wait_cursor n0 (n_attempt n) s2;
         s3 = start_task (z_task z) ts (s2\<lparr>nodes := row_put node_key (node_key n0)
           (\<lambda>x. if n_state x = NPending then n else x) (nodes s2)\<rparr>)
     in case emit_event ''node.started'' (Some (n_task n)) (Some (n_node n))
          (started_payload z n capacities active deferred resumed ts) ts s3 of (cursor, s4) \<Rightarrow>
     let instructions = claim_steering (n_task n) (n_node n) (n_attempt n) s4 in
     (\<lparr>cl_node = n, cl_cursor = cursor,
        cl_spec = VDict (dict_merge (items_of (effective_spec (n_spec n0) (r_executor r) (r_model r)))
          [(''execution_lane'', VStr (z_lane z)), (''quota_pool_id'', VStr (z_pool z))]),
        cl_contract = t_contract (z_task z), cl_steering = map g_instruction instructions,
        cl_recovery = z_recovery z\<rparr>,
      fold (deliver_steering n ts) instructions s4))"

text \<open>
  \<open>before\<close> is the ledger the preflight read, \<open>s\<close> the one the transaction locked; \<open>identity\<close>
  resolves a repository path to the identity of its git directory.
\<close>

definition claim_ready_node ::
  "(pyval \<Rightarrow> string) \<Rightarrow> world \<Rightarrow> (string \<Rightarrow> string) \<Rightarrow> string \<Rightarrow> int \<Rightarrow> string list option
    \<Rightarrow> (string \<times> pyval) list option \<Rightarrow> store \<Rightarrow> int \<Rightarrow> store \<Rightarrow> (claim option \<times> store) res" where
  "claim_ready_node sha W0 identity worker epoch lane_names lane_capacities before now s =
    (let W = W0\<lparr>q_identity := claim_repository_identities identity before\<rparr>; ts = utc now in
     if epoch \<le> 0 then Inl (ValueError ''coordinator_epoch must be positive'')
     else bindR (normalize_execution_lanes lane_names) (\<lambda>lanes.
     bindR (normalize_lane_capacities lane_capacities) (\<lambda>capacities.
     if deployment_admission_gate before \<noteq> None then Inr (None, s)
     else bindR (assert_active_coordinator epoch s) (\<lambda>_.
     if deployment_admission_gate s \<noteq> None then Inr (None, s)
     else if list_ex (\<lambda>(n, t). q_identity W (repository_of (t_contract t)) = None) (running_nodes s)
     then Inr (None, s)
     else bindR (reconcile_scope_access_waits ts s) (\<lambda>s1.
     bindR (select_candidate sha W lanes capacities ts (claim_candidates s) s1) (\<lambda>(selected, s2).
     case selected of
       None \<Rightarrow> Inr (None, s2)
     | Some z \<Rightarrow> (case start_node z worker epoch capacities (lane_active s (z_lane z)) ts s2 of
         (c, t) \<Rightarrow> Inr (Some c, t))))))))"

end
