(* ===== verification/Delivery_Rollout.thy ===== *)
theory Delivery_Rollout
  imports Delivery_Permission Node_Claim
begin

text \<open>
  Rollouts: a deployment starts on an idle authority, and until it is reported neither planning
  nor nodes start. A started stage attempt stays started, with its objective at the stage, until a
  receipt of the attempt is recorded; the deployment admission gate stays closed with it.
\<close>

section \<open>A running stage\<close>

text \<open>A dispatch stays started, and its objective at the stage, until a receipt of that attempt.\<close>

definition stage_reported :: "string \<Rightarrow> stage \<Rightarrow> int \<Rightarrow> store \<Rightarrow> bool" where
  "stage_reported k g a s \<longleftrightarrow>
    (\<exists>x \<in> set (stage_receipts s). s_objective x = k \<and> s_stage x = g \<and> s_attempt x = a)"

definition stage_running :: "string \<Rightarrow> stage \<Rightarrow> int \<Rightarrow> store \<Rightarrow> bool" where
  "stage_running k g a s \<longleftrightarrow>
    (\<exists>r. row_get o_id k (objectives s) = Some r \<and> o_stage r = g \<and> o_attempt r = a
      \<and> o_state r \<notin> {OComplete, OCancelled})
    \<and> (\<exists>d \<in> set (dispatches s). d_objective d = k \<and> d_stage d = g \<and> d_attempt d = a \<and> d_state d = DStarted)"

lemma objective_effect_stage:
  assumes "objective_effect s t" and "row_get o_id k (objectives s) = Some r"
    and "o_stage r = g" and "o_attempt r = a" and "o_state r \<notin> {OComplete, OCancelled}"
  shows "stage_reported k g a t \<or> (\<exists>r'. row_get o_id k (objectives t) = Some r' \<and> o_stage r' = g
    \<and> o_attempt r' = a \<and> o_state r' \<notin> {OComplete, OCancelled})"
  using assms(1)
proof cases
  case oe_keep
  with assms show ?thesis by simp
next
  case (oe_new x)
  with assms show ?thesis by (simp add: ob.add_look)
next
  case (oe_rewrite j x x')
  have "o_id x' = j" using oe_rewrite(1,2) ob.look_Some by (auto simp: open_rewrite_def)
  then have look: "row_get o_id k (objectives t) =
      (if k = j then map_option (\<lambda>_. x') (row_get o_id k (objectives s)) else row_get o_id k (objectives s))"
    unfolding oe_rewrite(5) by (intro ob.look_put)
  with assms oe_rewrite(1,2) show ?thesis by (cases "k = j") (auto simp: open_rewrite_def)
next
  case (oe_receipt j x stages y x')
  have "o_id x' = j" using oe_receipt(1,4) ob.look_Some by (auto simp: receipt_rewrite_def)
  then have look: "row_get o_id k (objectives t) =
      (if k = j then map_option (\<lambda>_. x') (row_get o_id k (objectives s)) else row_get o_id k (objectives s))"
    unfolding oe_receipt(8) by (intro ob.look_put)
  show ?thesis
  proof (cases "k = j")
    case True
    with assms(2) oe_receipt(1) have "x = r" "o_id r = k" using ob.look_Some by auto
    with oe_receipt(4,9) assms(3,4) have "stage_reported k g a t"
      by (auto simp: stage_reported_def receipt_rewrite_def)
    then show ?thesis ..
  qed (use look assms in simp)
qed

lemma objective_effects_stage:
  assumes "objective_effect\<^sup>*\<^sup>* s t" and "row_get o_id k (objectives s) = Some r"
    and "o_stage r = g" and "o_attempt r = a" and "o_state r \<notin> {OComplete, OCancelled}"
  shows "stage_reported k g a t \<or> (\<exists>r'. row_get o_id k (objectives t) = Some r' \<and> o_stage r' = g
    \<and> o_attempt r' = a \<and> o_state r' \<notin> {OComplete, OCancelled})"
  using assms(1)
proof (induction rule: rtranclp_induct)
  case (step u v)
  from step(2) have more: "\<exists>xs. stage_receipts v = stage_receipts u @ xs" by cases auto
  from step(3) show ?case
  proof
    assume "stage_reported k g a u"
    with more show ?thesis by (auto simp: stage_reported_def)
  qed (use objective_effect_stage [OF step(2)] in blast)
qed (use assms in blast)

lemma receipt_dispatch:
  assumes "record_delivery_stage_receipt sha j i rep now s = Inr (x, t)"
    and "d \<in> set (dispatches s)" and "unique_key d_id (dispatches s)"
  shows "d \<in> set (dispatches t) \<or> stage_reported (d_objective d) (d_stage d) (d_attempt d) t"
proof -
  obtain y r' dup where x: "x = (y, r', dup)" by (metis prod_cases3)
  from assms(1) [unfolded x] show ?thesis
  proof (cases rule: receipt_cases)
    case (2 c r stages merged st)
    note f = receipt_fence_Inr [OF 2(4)]
    from apply_receipt_Inr [OF 2(6)] have t: "stage_receipts t = stage_receipts s @ [receipt_row i r rep c now]"
        "dispatches t = (case rep_dispatch rep of None \<Rightarrow> dispatches s
           | Some d_key \<Rightarrow> row_put d_id d_key (\<lambda>d. d\<lparr>d_state := DSettled, d_receipt := Some i,
                d_updated := utc now\<rparr>) (dispatches s))" by auto
    from 2(4) have m: "dispatch_matches j (k_stage c) (rep_attempt rep) (rep_dispatch rep) s"
      by (auto simp: receipt_fence_def res_simps split: if_splits)
    show ?thesis
    proof (cases "rep_dispatch rep = Some (d_id d)")
      case True
      with m have "d_objective d = j" "d_stage d = k_stage c" "d_attempt d = rep_attempt rep"
        using dp.unique_row [OF assms(3,2)] by (simp_all add: dispatch_matches_def)
      moreover have "s_objective (receipt_row i r rep c now) = j" using f(2) by (simp add: receipt_row_def)
      ultimately have "stage_reported (d_objective d) (d_stage d) (d_attempt d) t"
        by (simp add: stage_reported_def t(1) receipt_row_def)
      then show ?thesis ..
    next
      case False
      with assms(2) show ?thesis unfolding t(2) by (auto intro: dp.put_other split: option.splits)
    qed
  qed (use assms(2) in simp)
qed
text \<open>The operations that leave the dispatches alone.\<close>

lemma quiet_dispatches:
  "create_delivery_objective sha task c q now s = Inr (x, t) \<Longrightarrow> dispatches t = dispatches s"
  "renew_delivery_objective_lease k e l n secs now s = Inr (y, t) \<Longrightarrow> dispatches t = dispatches s"
  "defer_delivery_observation k n e l w wk di now s = Inr (y', t) \<Longrightarrow> dispatches t = dispatches s"
  "defer_delivery_deployment_safe_point k n e l bs now s = Inr (z, t) \<Longrightarrow> dispatches t = dispatches s"
  "record_delivery_authorization sha task i sc au dec gb oi ex ar now s = Inr (z', t) \<Longrightarrow> dispatches t = dispatches s"
proof -
  show "dispatches t = dispatches s" if a: "create_delivery_objective sha task c q now s = Inr (x, t)"
  proof (cases "find (\<lambda>r. o_command r = c) (objectives s)")
    case None
    note no_command = this
    show ?thesis
    proof (cases "find (\<lambda>r. o_task r = task) (objectives s)")
      case None
      with a no_command show ?thesis
        unfolding create_delivery_objective_def Let_def emit_event_def
        by (simp only: option.case prod.case res_simps prod.inject sum.inject) fastforce
    qed (use a no_command in \<open>auto simp: create_delivery_objective_def res_simps Let_def\<close>)
  qed (use a in \<open>auto simp: create_delivery_objective_def res_simps Let_def\<close>)
  show "renew_delivery_objective_lease k e l n secs now s = Inr (y, t) \<Longrightarrow> dispatches t = dispatches s"
    unfolding renew_delivery_objective_lease_def Let_def by (auto simp: res_simps emit_event_snd)
  show "dispatches t = dispatches s" if "defer_delivery_observation k n e l w wk di now s = Inr (y', t)"
  proof -
    from that obtain r wait wakeup progress where
      t: "t = (let s1 = snd (log_observation r (observation_of r di wait) wakeup now s) in
        s1\<lparr>objectives := row_put o_id k (\<lambda>_. observing_row wait di wakeup progress now r) (objectives s1)\<rparr>)"
      unfolding defer_delivery_observation_def Let_def
      by (simp only: bindR_Inr case_prod_beta sum.inject prod.inject) blast
    obtain es where "snd (log_observation r (observation_of r di wait) wakeup now s) = s\<lparr>events := events s @ es\<rparr>"
      using log_observation_events by blast
    with t show ?thesis by (simp add: Let_def)
  qed
  show "defer_delivery_deployment_safe_point k n e l bs now s = Inr (z, t) \<Longrightarrow> dispatches t = dispatches s"
    unfolding defer_delivery_deployment_safe_point_def Let_def emit_event_def by (auto simp: res_simps)
  show "dispatches t = dispatches s" if a: "record_delivery_authorization sha task i sc au dec gb oi ex ar now s = Inr (z', t)"
  proof (cases "row_get a_id i (authorizations s)")
    case (Some r)
    with a show ?thesis
      unfolding record_delivery_authorization_def Let_def by (auto simp: res_simps split: if_splits)
  next
    case None
    with a obtain rows ev cursor where
      "t = authorization_effect task i dec (find (\<lambda>r. o_task r = task) (objectives s)) cursor now
          (s\<lparr>authorizations := rows, events := events s @ [ev]\<rparr>)"
      unfolding record_delivery_authorization_def Let_def emit_event_def
      by (simp only: option.case prod.case res_simps prod.inject sum.inject) fastforce
    then show ?thesis by (simp add: authorization_effect_def emit_event_snd split: option.splits)
  qed
qed

lemma claim_dispatches:
  assumes "claim_delivery_objective k owner e n secs now s = Inr (x, t)" and "unique_key o_id (objectives s)"
  shows "dispatches t = dispatches s"
proof -
  from assms(1) obtain m u where u: "reconcile_delivery_safe_point_waits now s = Inr (m, u)"
    and "dispatches t = dispatches u"
    unfolding claim_delivery_objective_def next_delivery_lease_epoch_def Let_def
    by (auto simp: res_simps emit_event_snd split: if_splits)
  with reconcile_effect [OF u assms(2)] show ?thesis by simp
qed

lemma begin_dispatches:
  assumes "begin_delivery_stage_dispatch sha k g n vers e l ad now s = Inr (x, t)" and "d \<in> set (dispatches s)"
  shows "d \<in> set (dispatches t)"
proof -
  obtain d' new where "x = (d', new)" by (cases x)
  with assms(1) have "begin_delivery_stage_dispatch sha k g n vers e l ad now s = Inr ((d', new), t)" by simp
  then show ?thesis
    by (cases rule: begin_dispatch_cases)
      (use assms(2) in \<open>auto simp: start_stage_dispatch_def res_simps dp.add_Inr emit_event_def Let_def\<close>)
qed

lemma begin_rollback_rows:
  "begin_delivery_stage_rollback k e l now s = Inr (x, t) \<Longrightarrow> dispatches t = dispatches s
    \<or> (\<exists>c. row_get d_id k (dispatches s) = Some c \<and> dispatches t = row_put d_id k
         (\<lambda>_. c\<lparr>d_rollback := Some DStarted, d_updated := utc now\<rparr>) (dispatches s))"
  by (auto simp: begin_delivery_stage_rollback_def res_simps Let_def emit_event_snd split: if_splits)

lemma settle_rollback_rows:
  assumes "settle_delivery_stage_rollback k e l q now s = Inr (x, t)"
  shows "dispatches t = dispatches s
    \<or> (\<exists>c. row_get d_id k (dispatches s) = Some c \<and> dispatches t = row_put d_id k
         (\<lambda>_. c\<lparr>d_rollback := Some DSettled, d_rollback_receipt := Some (canonical_json q),
            d_updated := utc now\<rparr>) (dispatches s))"
proof (cases "t = s")
  case False
  with assms obtain d ev where "row_get d_id k (dispatches s) = Some d" "t = s\<lparr>dispatches := row_put d_id k
      (\<lambda>_. d\<lparr>d_rollback := Some DSettled, d_rollback_receipt := Some (canonical_json q), d_updated := utc now\<rparr>)
      (dispatches s), events := events s @ [ev]\<rparr>"
    unfolding settle_delivery_stage_rollback_def Let_def
    by (auto simp: res_simps emit_event_snd split: if_splits)
  then show ?thesis by auto
qed simp

lemma put_dispatch:
  assumes "row_get d_id k ds = Some c" and "unique_key d_id ds" and "d \<in> set ds"
    and "d_objective c' = d_objective c" "d_stage c' = d_stage c" "d_attempt c' = d_attempt c" "d_state c' = d_state c"
  shows "\<exists>d' \<in> set (row_put d_id k (\<lambda>_. c') ds). d_objective d' = d_objective d \<and> d_stage d' = d_stage d
    \<and> d_attempt d' = d_attempt d \<and> d_state d' = d_state d"
proof (cases "d_id d = k")
  case True
  with assms(1) dp.unique_row [OF assms(2,3)] have "c = d" by simp
  moreover have "c' \<in> set (row_put d_id k (\<lambda>_. c') ds)"
    using assms(3) True by (auto simp: row_put_def image_iff intro!: bexI [of _ d])
  ultimately show ?thesis using assms(4-7) by blast
next
  case False
  with assms(3) have "d \<in> set (row_put d_id k (\<lambda>_. c') ds)" by (auto intro: dp.put_other)
  then show ?thesis by blast
qed

lemma stage_running_step:
  assumes "ledger_step sha s t" and "stage_running k g a s"
  shows "stage_running k g a t \<or> stage_reported k g a t"
proof -
  have ok: "delivery_ok s" and step: "delivery_step sha s t" using assms(1) by (auto simp: ledger_step_def)
  have uq: "unique_key d_id (dispatches s)" "unique_key o_id (objectives s)"
    using ok by (simp_all add: delivery_ok_def objectives_ok_def)
  from assms(2) obtain r d where r: "row_get o_id k (objectives s) = Some r" "o_stage r = g" "o_attempt r = a"
      "o_state r \<notin> {OComplete, OCancelled}"
    and d: "d \<in> set (dispatches s)" "d_objective d = k" "d_stage d = g" "d_attempt d = a" "d_state d = DStarted"
    by (auto simp: stage_running_def)
  have "objective_effect\<^sup>*\<^sup>* s t" using ledger_step_effect [OF assms(1)] by (simp add: delivery_effect_def)
  from objective_effects_stage [OF this r] have obj: "stage_reported k g a t \<or> (\<exists>r'. row_get o_id k (objectives t) = Some r'
    \<and> o_stage r' = g \<and> o_attempt r' = a \<and> o_state r' \<notin> {OComplete, OCancelled})" .
  let ?open = "\<exists>d' \<in> set (dispatches t). d_objective d' = k \<and> d_stage d' = g \<and> d_attempt d' = a \<and> d_state d' = DStarted"
  have same: ?open if "dispatches t = dispatches s" using that d by auto
  have "?open \<or> stage_reported k g a t"
    using step
  proof cases
    case ds_receipt
    from receipt_dispatch [OF this d(1) uq(1)] d show ?thesis by blast
  next
    case (ds_rollback i e l now x)
    from begin_rollback_rows [OF this] show ?thesis
    proof (elim disjE exE conjE)
      fix c assume c: "row_get d_id i (dispatches s) = Some c"
        and t: "dispatches t = row_put d_id i (\<lambda>_. c\<lparr>d_rollback := Some DStarted, d_updated := utc now\<rparr>) (dispatches s)"
      show ?thesis unfolding t
        by (rule disjI1, rule put_dispatch [OF c uq(1) d(1), unfolded d(2-5)]) simp_all
    qed (use same in blast)
  next
    case (ds_settle i e l q now x)
    from settle_rollback_rows [OF this] show ?thesis
    proof (elim disjE exE conjE)
      fix c assume c: "row_get d_id i (dispatches s) = Some c"
        and t: "dispatches t = row_put d_id i (\<lambda>_. c\<lparr>d_rollback := Some DSettled,
          d_rollback_receipt := Some (canonical_json q), d_updated := utc now\<rparr>) (dispatches s)"
      show ?thesis unfolding t
        by (rule disjI1, rule put_dispatch [OF c uq(1) d(1), unfolded d(2-5)]) simp_all
    qed (use same in blast)
  next
    case ds_dispatch
    from begin_dispatches [OF this d(1)] d show ?thesis by blast
  next
    case ds_claim
    from same [OF claim_dispatches [OF this uq(2)]] show ?thesis ..
  next
    case ds_wake
    from reconcile_effect [OF this uq(2)] same show ?thesis by simp
  next
    case ds_create
    from same [OF quiet_dispatches(1) [OF this]] show ?thesis ..
  next
    case ds_renew
    from same [OF quiet_dispatches(2) [OF this]] show ?thesis ..
  next
    case ds_observe
    from same [OF quiet_dispatches(3) [OF this]] show ?thesis ..
  next
    case ds_safe_point
    from same [OF quiet_dispatches(4) [OF this]] show ?thesis ..
  next
    case ds_authorize
    from same [OF quiet_dispatches(5) [OF this]] show ?thesis ..
  next
    case ds_elsewhere
    from same [OF ds_elsewhere(3)] show ?thesis ..
  qed
  with obj show ?thesis by (auto simp: stage_running_def)
qed

lemma stage_running_run:
  assumes "(ledger_step sha)\<^sup>*\<^sup>* s t" and "stage_running k g a s"
  shows "stage_running k g a t \<or> stage_reported k g a t"
  using assms
proof (induction rule: rtranclp_induct)
  case (step u v)
  from step.IH [OF step.prems] show ?case
  proof
    assume "stage_reported k g a u"
    moreover obtain xs where "stage_receipts v = stage_receipts u @ xs"
      using delivery_receipts.log_grows [OF step(2)] by blast
    ultimately show ?thesis by (auto simp: stage_reported_def)
  qed (use stage_running_step [OF step(2)] in blast)
qed simp

lemma stage_running_gate:
  assumes "stage_running k Deploy a s"
  shows "deployment_admission_gate s \<noteq> None"
proof -
  from assms obtain r d where r: "row_get o_id k (objectives s) = Some r" "o_stage r = Deploy"
      "o_state r \<notin> {OComplete, OCancelled}"
    and d: "d \<in> set (dispatches s)" "d_objective d = k" "d_stage d = Deploy" "d_state d = DStarted"
    by (auto simp: stage_running_def)
  have "o_id r = k" "r \<in> set (objectives s)" using ob.look_Some [OF r(1)] by auto
  with r d have "holds_rollout s r" by (auto simp: holds_rollout_def list_ex_iff)
  with \<open>r \<in> set (objectives s)\<close> show ?thesis
    by (auto simp: deployment_admission_gate_def first_by_None filter_empty_conv)
qed

text \<open>
  Property C34. A rollout starts only on an idle authority and keeps it idle until its deployment is
  reported. Let the deploy dispatch of an attempt be granted as new, for an objective whose task
  has a row in the ledger. Then no planning request and no node of a known task was running, and
  no other objective held rollout admission; and in every later ledger, whatever delivery and
  other transactions ran in between, as long as no stage receipt of that deploy attempt is
  recorded, no coordinator claims a planning request and no worker claims a node.
\<close>

theorem deploy_starts_on_idle_authority:
  assumes "begin_delivery_stage_dispatch sha k ''deploy'' a n e l ad now s = Inr ((d, True), t)"
    and "row_get t_id (d_task d) (tasks s) \<noteq> None" and "delivery_ok s"
    and "(delivery_step sha)\<^sup>*\<^sup>* t u"
    and "\<forall>x \<in> set (stage_receipts u). \<not> (s_objective x = k \<and> s_stage x = Deploy \<and> s_attempt x = a)"
  shows "(\<forall>p \<in> set (plannings s). p_state p \<noteq> PRunning)
    \<and> (\<forall>x \<in> set (nodes s). row_get t_id (n_task x) (tasks s) \<noteq> None \<longrightarrow> n_state x \<noteq> NRunning)
    \<and> (\<forall>g. deployment_admission_gate s = Some g \<longrightarrow> o_id g = k)
    \<and> (claim_planning_request e' later u = Inr (p, v) \<longrightarrow> p = None \<and> v = u)
    \<and> (claim_ready_node sha' W identity worker e' lanes capacities before later u = Inr (c, w)
        \<longrightarrow> c = None \<and> w = u)"
proof -
  have g: "normalize_stage (VStr ''deploy'') = Inr Deploy" by code_simp
  obtain r where f: "dispatch_fence k ''deploy'' a n e l ad now s = Inr (r, Deploy)"
    and new: "start_stage_dispatch (new_dispatch_row sha r Deploy ad now) now s = Inr ((d, True), t)"
    using assms(1) unfolding begin_delivery_stage_dispatch_def
    by (auto simp: res_simps Let_def dispatch_fence_def g split: option.splits if_splits)
  from f have r: "row_get o_id k (objectives s) = Some r" "lease_live s r e l (utc now)"
      "o_stage r = Deploy" and adm: "deployment_admitted r s = Inr ()"
    by (auto simp: dispatch_fence_def res_simps g split: if_splits)
  from adm have gate: "\<forall>g. deployment_admission_gate s = Some g \<longrightarrow> o_id g = o_id r"
    and idle: "deployment_blockers s r = Inr []"
    by (auto simp: deployment_admitted_def res_simps split: if_splits option.splits)
  have d: "d = new_dispatch_row sha r Deploy ad now" "dispatches t = dispatches s @ [d]"
      "meta_epoch t = meta_epoch s"
    using new by (auto simp: start_stage_dispatch_def res_simps row_add_def emit_event_def Let_def
        new_dispatch_row_def split: if_splits)
  have task: "d_task d = o_task r" by (simp add: d(1) new_dispatch_row_def)
  have k: "o_id r = k" using ob.look_Some [OF r(1)] by simp
  have a: "o_attempt r = a" using dispatch_fence_Inr(5) [OF f] .
  have step: "delivery_step sha s t" using assms(1) by (rule ds_dispatch)
  then have ok: "delivery_ok t" using assms(3) by (rule delivery_step_ok)
  have "\<exists>p. objectives t = row_put o_id (o_id r) (\<lambda>x. x\<lparr>o_progress_at := utc now, o_progress := p,
      o_updated := utc now\<rparr>) (objectives s)"
    using new by (auto simp: start_stage_dispatch_def res_simps emit_event_def Let_def new_dispatch_row_def)
  then obtain p where tp: "objectives t = row_put o_id k (\<lambda>x. x\<lparr>o_progress_at := utc now, o_progress := p,
      o_updated := utc now\<rparr>) (objectives s)" unfolding k by blast
  have uq: "unique_key o_id (objectives s)" using assms(3) by (simp add: delivery_ok_def objectives_ok_def)
  have "objectives t = row_put o_id k (\<lambda>_. r\<lparr>o_progress_at := utc now, o_progress := p,
      o_updated := utc now\<rparr>) (objectives s)" unfolding tp by (rule row_put_at [OF uq r(1)])
  then have "row_get o_id k (objectives t) = Some (r\<lparr>o_progress_at := utc now, o_progress := p, o_updated := utc now\<rparr>)"
    by (simp add: ob.look_put k r(1))
  moreover have "d_objective d = k" "d_stage d = Deploy" "d_attempt d = a" "d_state d = DStarted" "d \<in> set (dispatches t)"
    by (simp_all add: d(1,2) new_dispatch_row_def k a)
  ultimately have "stage_running k Deploy a t"
    unfolding stage_running_def using r(2,3) a by (auto simp: lease_live_def)
  from stage_running_run [OF ledger_run [OF assms(4) ok] this] assms(5)
  have "stage_running k Deploy a u" by (auto simp: stage_reported_def)
  then have closed: "deployment_admission_gate u \<noteq> None" by (rule stage_running_gate)
  have planning: "claim_planning_request e' later u = Inr (p, v) \<longrightarrow> p = None \<and> v = u" for p v
    using closed by (auto simp: claim_planning_request_def res_simps)
  have node: "claim_ready_node sha' W identity worker e' lanes capacities before later u = Inr (c, w)
      \<longrightarrow> c = None \<and> w = u" for c w
    unfolding claim_ready_node_def Let_def if_P [OF closed] by (auto simp: bindR_Inr split: if_split_asm)
  have "\<forall>p \<in> set (plannings s). p_state p \<noteq> PRunning"
    "\<forall>x \<in> set (nodes s). row_get t_id (n_task x) (tasks s) \<noteq> None \<longrightarrow> n_state x \<noteq> NRunning"
    using no_blockers [OF idle] assms(2) unfolding task by blast+
  with gate k planning node show ?thesis by blast
qed

text \<open>A run to the deploy stage: the local stages are reported, then the rollout starts.\<close>

definition demo_rollout_start :: store where
  "demo_rollout_start = demo_active\<lparr>tasks := [\<lparr>t_id = ''task'', t_contract = VDict [(''repository'', VStr ''/r'')],
     t_hash = ''h'', t_state = TAccepted, t_revision = 4, t_priority = 0, t_created = utc 1,
     t_updated = utc 2, t_blocker = None, t_verdict = None\<rparr>]\<rparr>"

definition demo_rollout_created :: store where
  "demo_rollout_created = ran (create_delivery_objective demo_sha ''task'' ''cmd'' demo_deploy_request 100 demo_rollout_start)"

definition demo_rollout_leased :: store where
  "demo_rollout_leased = ran (claim_delivery_objective demo_oid ''host'' 1 1 600 110 demo_rollout_created)"

definition demo_rollout_planned :: store where
  "demo_rollout_planned = ran (record_delivery_stage_receipt demo_sha demo_oid ''r1'' (demo_report ''plan'' 2) 120 demo_rollout_leased)"

definition demo_rollout_implemented :: store where
  "demo_rollout_implemented = ran (record_delivery_stage_receipt demo_sha demo_oid ''r2'' (demo_report ''implement'' 3) 130 demo_rollout_planned)"

definition demo_rollout_verified :: store where
  "demo_rollout_verified = ran (record_delivery_stage_receipt demo_sha demo_oid ''r3'' (demo_report ''verify'' 4) 140 demo_rollout_implemented)"

lemma demo_rollout_ok: "delivery_ok demo_rollout_verified"
proof -
  have "no_objectives demo_rollout_start" unfolding no_objectives_def by code_simp
  then have "reachable no_objectives (delivery_step demo_sha) demo_rollout_start" by (rule reachable_start)
  moreover have "\<exists>x. create_delivery_objective demo_sha ''task'' ''cmd'' demo_deploy_request 100 demo_rollout_start
      = Inr (x, demo_rollout_created)"
    unfolding demo_rollout_created_def ranI by code_simp
  then have "delivery_step demo_sha demo_rollout_start demo_rollout_created" by (blast intro: ds_create)
  moreover have "\<exists>x. claim_delivery_objective demo_oid ''host'' 1 1 600 110 demo_rollout_created
      = Inr (x, demo_rollout_leased)"
    unfolding demo_rollout_leased_def ranI by code_simp
  then have "delivery_step demo_sha demo_rollout_created demo_rollout_leased" by (blast intro: ds_claim)
  moreover have "\<exists>x. record_delivery_stage_receipt demo_sha demo_oid ''r1'' (demo_report ''plan'' 2) 120 demo_rollout_leased
      = Inr (x, demo_rollout_planned)"
    unfolding demo_rollout_planned_def ranI by code_simp
  then have "delivery_step demo_sha demo_rollout_leased demo_rollout_planned" by (blast intro: ds_receipt)
  moreover have "\<exists>x. record_delivery_stage_receipt demo_sha demo_oid ''r2'' (demo_report ''implement'' 3) 130 demo_rollout_planned
      = Inr (x, demo_rollout_implemented)"
    unfolding demo_rollout_implemented_def ranI by code_simp
  then have "delivery_step demo_sha demo_rollout_planned demo_rollout_implemented" by (blast intro: ds_receipt)
  moreover have "\<exists>x. record_delivery_stage_receipt demo_sha demo_oid ''r3'' (demo_report ''verify'' 4) 140 demo_rollout_implemented
      = Inr (x, demo_rollout_verified)"
    unfolding demo_rollout_verified_def ranI by code_simp
  then have "delivery_step demo_sha demo_rollout_implemented demo_rollout_verified" by (blast intro: ds_receipt)
  ultimately have "reachable no_objectives (delivery_step demo_sha) demo_rollout_verified"
    using reachable_step [of no_objectives "delivery_step demo_sha"] by metis
  then show ?thesis by (rule delivery.inv_reachable)
qed

theorem deploy_starts_on_idle_authority_witness:
  "\<exists>d t. begin_delivery_stage_dispatch demo_sha demo_oid ''deploy'' 1 5 1 1 ''prod'' 150 demo_rollout_verified
      = Inr ((d, True), t) \<and> (\<forall>p v. claim_planning_request 1 160 t = Inr (p, v) \<longrightarrow> p = None \<and> v = t)"
proof -
  have "(case begin_delivery_stage_dispatch demo_sha demo_oid ''deploy'' 1 5 1 1 ''prod'' 150 demo_rollout_verified of
      Inr ((d, new), t) \<Rightarrow> new \<and> row_get t_id (d_task d) (tasks demo_rollout_verified) \<noteq> None
        \<and> list_all (\<lambda>x. s_stage x \<noteq> Deploy) (stage_receipts t) | _ \<Rightarrow> False)"
    by code_simp
  then obtain d t where d: "begin_delivery_stage_dispatch demo_sha demo_oid ''deploy'' 1 5 1 1 ''prod'' 150
      demo_rollout_verified = Inr ((d, True), t)" "row_get t_id (d_task d) (tasks demo_rollout_verified) \<noteq> None"
    and r: "list_all (\<lambda>x. s_stage x \<noteq> Deploy) (stage_receipts t)"
    by (auto split: sum.splits prod.splits)
  have "\<forall>x \<in> set (stage_receipts t). \<not> (s_objective x = demo_oid \<and> s_stage x = Deploy \<and> s_attempt x = 1)"
    using r by (auto simp: list_all_iff)
  from deploy_starts_on_idle_authority [OF d demo_rollout_ok rtranclp.rtrancl_refl this] d(1) show ?thesis by blast
qed

end
