(* ===== verification/Delivery_Command.thy ===== *)
theory Delivery_Command
  imports Delivery_Authority
begin

text \<open>
  Delivery commands of \<open>store.py\<close> (lines 807 to 888 and 3018 to 3236): the receipt of one GitHub
  delivery under its command id, and the fence a process holds while it runs the external git
  commands. The fence is drawn by \<open>uuid4\<close>; here it is an argument.
\<close>

section \<open>Operations\<close>

definition get_delivery :: "string \<Rightarrow> store \<Rightarrow> delivery_row res" where
  "get_delivery command s = require (KeyError command) (row_get v_command command (deliveries s))"

definition check_delivery_command ::
  "(pyval \<Rightarrow> string) \<Rightarrow> string \<Rightarrow> pyval \<Rightarrow> store \<Rightarrow> delivery_row option res" where
  "check_delivery_command sha command request s =
    (case row_get v_command command (deliveries s) of
       None \<Rightarrow> Inr None
     | Some row \<Rightarrow> if v_hash row \<noteq> canonical_hash sha request
         then Inl (CommandConflictError ''delivery command was already used with a different request'')
         else Inr (Some row))"

text \<open>The receipt that authorises a delivery whose contract does not permit external writes.\<close>

definition delivery_authority ::
  "string \<Rightarrow> pyval \<Rightarrow> pyval \<Rightarrow> int \<Rightarrow> store \<Rightarrow> authorization_row option res" where
  "delivery_authority task contract request now s =
    (if truthy (dget contract ''external_write_permission'') then Inr None
     else case matching_delivery_authorization task request (utc now) s of
       None \<Rightarrow> Inl (StateConflictError ''task contract does not authorize external GitHub writes'')
     | Some a \<Rightarrow> Inr (Some a))"

definition begin_delivery ::
  "(pyval \<Rightarrow> string) \<Rightarrow> string \<Rightarrow> string \<Rightarrow> pyval \<Rightarrow> int \<Rightarrow> store \<Rightarrow> (delivery_row \<times> store) res" where
  "begin_delivery sha task command request now s = (let request_hash = canonical_hash sha request in
    case row_get v_command command (deliveries s) of
      Some existing \<Rightarrow>
        if v_hash existing \<noteq> request_hash
        then Inl (CommandConflictError ''delivery command was already used with a different request'')
        else Inr (existing, s)
    | None \<Rightarrow>
        bindR (require (KeyError task) (row_get t_id task (tasks s))) (\<lambda>t.
        if t_state t \<noteq> TAccepted then Inl (StateConflictError ''expected accepted'')
        else bindR (delivery_authority task (t_contract t) request now s) (\<lambda>authorization.
        let by = (case authorization of None \<Rightarrow> [] | Some a \<Rightarrow> [(''delivery_authorization_id'', VStr (a_id a))]);
            row = \<lparr>v_command = command, v_hash = request_hash, v_task = task, v_state = ''accepted'',
              v_details = canonical_json (VDict ((''request'', request) # by)),
              v_created = utc now, v_updated = utc now\<rparr>
        in bindR (row_add v_command row (deliveries s)) (\<lambda>rows.
           Inr (row, snd (emit_event ''delivery.accepted'' (Some task) None
             ([(''command_id'', VStr command), (''request_hash'', VStr request_hash)] @ by) (utc now)
             (s\<lparr>deliveries := rows\<rparr>)))))))"

definition require_delivery_fence :: "string \<Rightarrow> string \<Rightarrow> int \<Rightarrow> store \<Rightarrow> unit res" where
  "require_delivery_fence command fence now s =
    (case row_get l_command command (leases s) of
       None \<Rightarrow> Inl (StateConflictError ''delivery command lease is stale'')
     | Some l \<Rightarrow> if l_fence l \<noteq> fence \<or> l_expires l \<le> utc now
         then Inl (StateConflictError ''delivery command lease is stale'') else Inr ())"

definition acquire_delivery_lease ::
  "string \<Rightarrow> int \<Rightarrow> string \<Rightarrow> int \<Rightarrow> store \<Rightarrow> ((delivery_row \<times> lease_row) \<times> store) res" where
  "acquire_delivery_lease command secs fence now s =
    (if secs \<le> 0 then Inl (ValueError ''delivery lease_seconds must be a positive integer'')
     else bindR (require (KeyError command) (row_get v_command command (deliveries s))) (\<lambda>receipt.
       let lease = \<lparr>l_command = command, l_fence = fence, l_acquired = utc now,
             l_expires = utc (now + secs), l_updated = utc now\<rparr>;
           acquired = (\<lambda>rows recovered. Inr ((receipt, lease),
             snd (emit_event ''delivery.lease_acquired'' (Some (v_task receipt)) None
               [(''command_id'', VStr command), (''recovered_expired_lease'', VBool recovered)] (utc now)
               (s\<lparr>leases := rows\<rparr>))))
       in case row_get l_command command (leases s) of
            Some existing \<Rightarrow>
              if utc now < l_expires existing
              then Inl (StateConflictError ''delivery command is already being resumed'')
              else acquired (row_put l_command command (\<lambda>_. lease) (leases s)) True
          | None \<Rightarrow> acquired (leases s @ [lease]) False))"

definition renew_delivery_lease :: "string \<Rightarrow> string \<Rightarrow> int \<Rightarrow> int \<Rightarrow> store \<Rightarrow> (unit \<times> store) res" where
  "renew_delivery_lease command fence secs now s =
    (if secs \<le> 0 then Inl (ValueError ''delivery lease_seconds must be a positive integer'')
     else bindR (require_delivery_fence command fence now s) (\<lambda>_.
       Inr ((), s\<lparr>leases := row_put l_command command
         (\<lambda>l. l\<lparr>l_expires := utc (now + secs), l_updated := utc now\<rparr>) (leases s)\<rparr>)))"

definition release_delivery_lease :: "string \<Rightarrow> string \<Rightarrow> int \<Rightarrow> store \<Rightarrow> (bool \<times> store) res" where
  "release_delivery_lease command fence now s =
    bindR (require (KeyError command) (row_get v_command command (deliveries s))) (\<lambda>receipt.
      let held = (\<lambda>l. l_command l = command \<and> l_fence l = fence) in
      if filter held (leases s) = [] then Inr (False, s)
      else Inr (True, snd (emit_event ''delivery.lease_released'' (Some (v_task receipt)) None
        [(''command_id'', VStr command), (''released_at'', VStr (iso_show (utc now)))] (utc now)
        (s\<lparr>leases := filter (\<lambda>l. \<not> held l) (leases s)\<rparr>))))"

definition update_delivery ::
  "string \<Rightarrow> string \<Rightarrow> pyval \<Rightarrow> string list option \<Rightarrow> string option \<Rightarrow> int \<Rightarrow> store
    \<Rightarrow> (delivery_row \<times> store) res" where
  "update_delivery command state details expected fence now s =
    (if \<not> is_dict details then Inl (ValueError ''delivery details must be an object'')
     else if expected = Some [] then Inl (ValueError ''delivery expected_states must be non-empty strings'')
     else if fence \<noteq> None \<and> expected = None
     then Inl (ValueError ''fenced delivery updates require expected_states'')
     else bindR (require (KeyError command) (row_get v_command command (deliveries s))) (\<lambda>row.
       if (case expected of None \<Rightarrow> False | Some states \<Rightarrow> v_state row \<notin> set states)
       then Inl (StateConflictError ''delivery command is in an unexpected state'')
       else bindR (case fence of None \<Rightarrow> Inr () | Some f \<Rightarrow> require_delivery_fence command f now s) (\<lambda>_.
         let row' = row\<lparr>v_state := state, v_details := canonical_json (VDict
               (dict_merge (items_of (v_details row)) (items_of details))), v_updated := utc now\<rparr>
         in Inr (row', snd (emit_event (''delivery.'' @ state) (Some (v_task row)) None
              (dict_merge [(''command_id'', VStr command)] (items_of details)) (utc now)
              (s\<lparr>deliveries := row_put v_command command (\<lambda>_. row') (deliveries s)\<rparr>))))))"

section \<open>Any interleaving\<close>

text \<open>The step's label is the fence the caller presents, if any, and the time of the call.\<close>

inductive command_step :: "(pyval \<Rightarrow> string) \<Rightarrow> string option \<Rightarrow> int \<Rightarrow> store \<Rightarrow> store \<Rightarrow> bool" for sha where
  cs_begin: "begin_delivery sha k c q n s = Inr (x, t) \<Longrightarrow> command_step sha None n s t"
| cs_acquire: "acquire_delivery_lease c secs f n s = Inr (x, t) \<Longrightarrow> command_step sha None n s t"
| cs_renew: "renew_delivery_lease c f secs n s = Inr (x, t) \<Longrightarrow> command_step sha (Some f) n s t"
| cs_release: "release_delivery_lease c f n s = Inr (x, t) \<Longrightarrow> command_step sha (Some f) n s t"
| cs_update: "update_delivery c st d ex f n s = Inr (x, t) \<Longrightarrow> command_step sha f n s t"

text \<open>Calls that do not present \<open>f\<close>, before its lease expires.\<close>

definition foreign_step :: "(pyval \<Rightarrow> string) \<Rightarrow> string \<Rightarrow> int \<Rightarrow> store \<Rightarrow> store \<Rightarrow> bool" where
  "foreign_step sha f until s t \<longleftrightarrow> (\<exists>g n. command_step sha g n s t \<and> g \<noteq> Some f \<and> n < until)"

definition lease_held :: "string \<Rightarrow> string \<Rightarrow> int \<Rightarrow> store \<Rightarrow> bool" where
  "lease_held c f until s \<longleftrightarrow> row_get v_command c (deliveries s) \<noteq> None
    \<and> (\<exists>l. row_get l_command c (leases s) = Some l \<and> l_fence l = f \<and> l_expires l = utc until)"

lemma row_get_filter: "row_get key k rows = Some r \<Longrightarrow> P r \<Longrightarrow> row_get key k (filter P rows) = Some r"
  unfolding row_get_def by (induction rows) (auto split: if_splits)

lemma held_kept:
  assumes "foreign_step sha f until s t" and "lease_held c f until s"
  shows "lease_held c f until t"
proof -
  from assms(1) obtain g n where st: "command_step sha g n s t" and g: "g \<noteq> Some f" and n: "n < until"
    by (auto simp: foreign_step_def)
  from assms(2) obtain l where d: "row_get v_command c (deliveries s) \<noteq> None"
    and l: "row_get l_command c (leases s) = Some l" "l_fence l = f" "l_expires l = utc until"
    by (auto simp: lease_held_def)
  show ?thesis using st
  proof cases
    case (cs_begin k c' q x)
    then show ?thesis using d l
      by (auto simp: begin_delivery_def lease_held_def res_simps Let_def dv.add_Inr dv.add_look emit_event_snd
          split: option.splits if_splits)
  next
    case (cs_acquire c' secs f' x)
    show ?thesis
    proof (cases "row_get l_command c' (leases s)")
      case None
      with cs_acquire(2) d l show ?thesis
        by (auto simp: acquire_delivery_lease_def lease_held_def res_simps Let_def ls.add_look emit_event_snd
            split: if_splits)
    next
      case (Some l')
      with cs_acquire(2) l(3) n l(1) have "c' \<noteq> c"
        by (auto simp: acquire_delivery_lease_def res_simps Let_def split: if_splits)
      with Some cs_acquire(2) d l show ?thesis
        by (auto simp: acquire_delivery_lease_def lease_held_def res_simps Let_def ls.look_put emit_event_snd
            split: if_splits)
    qed
  next
    case (cs_renew c' f' secs x)
    have "c' \<noteq> c \<or> f' \<noteq> f" using cs_renew(1) g by auto
    then have "c' \<noteq> c" using cs_renew(2) l
      by (auto simp: renew_delivery_lease_def require_delivery_fence_def res_simps split: option.splits if_splits)
    with cs_renew(2) d l show ?thesis
      by (auto simp: renew_delivery_lease_def lease_held_def res_simps ls.look_put split: if_splits)
  next
    case (cs_release c' f' x)
    have "l_command l = c" using ls.look_Some [OF l(1)] by simp
    moreover have "c' \<noteq> c \<or> f' \<noteq> f" using cs_release(1) g by auto
    ultimately have "row_get l_command c (filter (\<lambda>l. \<not> (l_command l = c' \<and> l_fence l = f')) (leases s)) = Some l"
      using l by (intro row_get_filter) auto
    with cs_release(2) d l show ?thesis
      by (auto simp: release_delivery_lease_def lease_held_def res_simps Let_def emit_event_snd split: if_splits)
  next
    case (cs_update c' st' d' ex x)
    then obtain row where row: "row_get v_command c' (deliveries s) = Some row" "v_command x = v_command row"
      and t: "leases t = leases s" "deliveries t = row_put v_command c' (\<lambda>_. x) (deliveries s)"
      by (auto simp: update_delivery_def res_simps Let_def emit_event_snd split: if_splits)
    then have "row_get v_command c (deliveries t) \<noteq> None"
      using d dv.look_Some [OF row(1)] by (simp add: dv.look_put)
    with l t(1) show ?thesis by (simp add: lease_held_def)
  qed
qed

lemma held_run: "(foreign_step sha f until)\<^sup>*\<^sup>* s t \<Longrightarrow> lease_held c f until s \<Longrightarrow> lease_held c f until t"
  by (induction rule: rtranclp_induct) (auto intro: held_kept)

lemma acquire_held:
  assumes "acquire_delivery_lease c secs f now s = Inr (x, t)"
  shows "lease_held c f (now + secs) t \<and> 0 < secs"
proof (cases "row_get l_command c (leases s)")
  case None
  with assms show ?thesis
    by (auto simp: acquire_delivery_lease_def lease_held_def res_simps Let_def ls.add_look emit_event_snd
        split: if_splits)
next
  case (Some l)
  with assms show ?thesis
    by (auto simp: acquire_delivery_lease_def lease_held_def res_simps Let_def ls.look_put emit_event_snd
        split: if_splits)
qed

text \<open>
  Property C35. One process resumes a delivery at a time: while a lease runs and its owner does
  not present its fence, whatever others call in whatever order, nobody else acquires the command,
  renewals and updates that present another fence are refused, a release under another fence
  leaves the lease to its owner, and the owner's fence stays good until its expiry. The lease binds the
  callers that present a fence: an update that presents none is not checked against it.
\<close>

theorem delivery_lease_excludes:
  assumes "acquire_delivery_lease c secs f now s = Inr (x, t)"
    and "(foreign_step sha f (now + secs))\<^sup>*\<^sup>* t u" and "later < now + secs"
  shows "require_delivery_fence c f later u = Inr ()
    \<and> (\<forall>f' y v. f' \<noteq> f \<longrightarrow> release_delivery_lease c f' later u = Inr (y, v) \<longrightarrow>
         require_delivery_fence c f later v = Inr ())
    \<and> (\<forall>secs' f'. 0 < secs' \<longrightarrow> acquire_delivery_lease c secs' f' later u
          = Inl (StateConflictError ''delivery command is already being resumed''))
    \<and> (\<forall>f' secs' y. f' \<noteq> f \<longrightarrow> renew_delivery_lease c f' secs' later u \<noteq> Inr y)
    \<and> (\<forall>f' state details expected y. f' \<noteq> f \<longrightarrow> update_delivery c state details expected (Some f') later u \<noteq> Inr y)"
proof -
  have held: "lease_held c f (now + secs) u"
    using held_run [OF assms(2)] acquire_held [OF assms(1)] by blast
  then obtain l where l: "row_get v_command c (deliveries u) \<noteq> None" "row_get l_command c (leases u) = Some l"
      "l_fence l = f" "l_expires l = utc (now + secs)" by (auto simp: lease_held_def)
  have stale: "require_delivery_fence c f' later u = Inl (StateConflictError ''delivery command lease is stale'')"
    if "f' \<noteq> f" for f' using that l by (auto simp: require_delivery_fence_def)
  have ok: "require_delivery_fence c f later u = Inr ()" using l assms(3) by (auto simp: require_delivery_fence_def)
  have "acquire_delivery_lease c secs' f' later u = Inl (StateConflictError ''delivery command is already being resumed'')"
    if "0 < secs'" for secs' f' using that l assms(3)
    by (auto simp: acquire_delivery_lease_def Let_def require_def split: option.splits)
  moreover have "renew_delivery_lease c f' secs' later u \<noteq> Inr y" if "f' \<noteq> f" for f' secs' y
    using stale [OF that] by (auto simp: renew_delivery_lease_def)
  moreover have "update_delivery c state details expected (Some f') later u \<noteq> Inr y" if "f' \<noteq> f"
    for f' state details expected y
    using stale [OF that] by (auto simp: update_delivery_def res_simps)
  moreover have "require_delivery_fence c f later v = Inr ()"
    if "f' \<noteq> f" "release_delivery_lease c f' later u = Inr (y, v)" for f' y v
  proof -
    have "foreign_step sha f (now + secs) u v"
      unfolding foreign_step_def using cs_release [OF that(2)] that(1) assms(3) by blast
    from held_kept [OF this held] assms(3) show ?thesis
      by (auto simp: lease_held_def require_delivery_fence_def)
  qed
  ultimately show ?thesis using ok by blast
qed

definition demo_delivery :: store where
  "demo_delivery = ran (begin_delivery demo_sha ''task'' ''d1'' (VDict [(''remote'', VStr ''origin'')]) 100
     (empty_store\<lparr>tasks := [\<lparr>t_id = ''task'', t_contract = VDict [(''external_write_permission'', VBool True)],
        t_hash = ''h'', t_state = TAccepted, t_revision = 4, t_priority = 0, t_created = utc 1,
        t_updated = utc 2, t_blocker = None, t_verdict = None\<rparr>]\<rparr>))"

definition demo_resuming :: store where
  "demo_resuming = ran (acquire_delivery_lease ''d1'' 3600 ''f1'' 110 demo_delivery)"

theorem delivery_lease_excludes_witness:
  "\<exists>x u. acquire_delivery_lease ''d1'' 3600 ''f1'' 110 demo_delivery = Inr (x, demo_resuming)
    \<and> update_delivery ''d1'' ''branch_pushed'' (VDict []) None None 120 demo_resuming = Inr u
    \<and> acquire_delivery_lease ''d1'' 60 ''f2'' 200 (snd u)
        = Inl (StateConflictError ''delivery command is already being resumed'')"
proof -
  have "(case acquire_delivery_lease ''d1'' 3600 ''f1'' 110 demo_delivery of Inr _ \<Rightarrow> True | _ \<Rightarrow> False)" by code_simp
  then obtain x where x: "acquire_delivery_lease ''d1'' 3600 ''f1'' 110 demo_delivery = Inr (x, demo_resuming)"
    by (auto simp: demo_resuming_def ran_def split: sum.splits prod.splits)
  have "(case update_delivery ''d1'' ''branch_pushed'' (VDict []) None None 120 demo_resuming of
      Inr _ \<Rightarrow> True | _ \<Rightarrow> False)" by code_simp
  then obtain y u where u: "update_delivery ''d1'' ''branch_pushed'' (VDict []) None None 120 demo_resuming = Inr (y, u)"
    by (auto split: sum.splits)
  have "foreign_step demo_sha ''f1'' (110 + 3600) demo_resuming u"
    unfolding foreign_step_def using cs_update [OF u] by force
  then have "(foreign_step demo_sha ''f1'' (110 + 3600))\<^sup>*\<^sup>* demo_resuming u" by blast
  from delivery_lease_excludes [OF x this, of 200] x u show ?thesis by auto
qed

section \<open>Beginning a delivery\<close>

text \<open>
  A delivery begins only with authority: a new receipt is written only for a task its
  verifier accepted, whose contract permits external writes or for which a granted, unrevoked and
  unexpired receipt names exactly the requested remote, branch, merge and tag; the receipt then
  records which. A repeated command returns its receipt and writes nothing.
\<close>

theorem delivery_begins_authorized:
  assumes "begin_delivery sha task c request now s = Inr (row, t)"
  shows "(row_get v_command c (deliveries s) = Some row \<and> t = s \<and> v_hash row = canonical_hash sha request)
    \<or> (row_get v_command c (deliveries s) = None \<and> deliveries t = deliveries s @ [row]
       \<and> (\<exists>k. row_get t_id task (tasks s) = Some k \<and> t_state k = TAccepted
         \<and> (truthy (dget (t_contract k) ''external_write_permission'')
            \<or> (\<exists>a \<in> set (authorizations s). a_task a = task \<and> a_decision a = ''granted'' \<and> a_revoked a = None
                 \<and> (\<forall>e. a_expires a = Some e \<longrightarrow> utc now < e)
                 \<and> authorization_matches_request (a_scope a) request
                 \<and> dget (v_details row) ''delivery_authorization_id'' = VStr (a_id a)))))"
proof (cases "row_get v_command c (deliveries s)")
  case (Some existing)
  with assms show ?thesis by (auto simp: begin_delivery_def Let_def split: if_splits)
next
  case None
  with assms obtain k auth where k: "row_get t_id task (tasks s) = Some k" "t_state k = TAccepted"
    and auth: "delivery_authority task (t_contract k) request now s = Inr auth"
    and t: "deliveries t = deliveries s @ [row]"
    and det: "v_details row = canonical_json (VDict ((''request'', request) # (case auth of None \<Rightarrow> []
       | Some a \<Rightarrow> [(''delivery_authorization_id'', VStr (a_id a))])))"
    by (auto simp: begin_delivery_def Let_def res_simps dv.add_Inr emit_event_snd simp del: canonical_json.simps
        split: if_splits)
  show ?thesis
  proof (cases "truthy (dget (t_contract k) ''external_write_permission'')")
    case True
    with None k t show ?thesis by blast
  next
    case False
    with auth obtain a where a: "auth = Some a" "matching_delivery_authorization task request (utc now) s = Some a"
      unfolding delivery_authority_def by (cases "matching_delivery_authorization task request (utc now) s") auto
    then have "find (\<lambda>a. authorization_matches_request (a_scope a) request)
        (authorizations_in_force task (utc now) s) = Some a" "a_decision a = ''granted''"
      by (auto simp: matching_delivery_authorization_def matching_authorization_def split: option.splits if_splits)
    then have "a \<in> set (authorizations_in_force task (utc now) s)" "authorization_matches_request (a_scope a) request"
      by (auto simp: find_Some_iff)
    moreover have "dget (v_details row) ''delivery_authorization_id'' = VStr (a_id a)"
      unfolding det a(1) dget_canonical by (simp add: dget_def dget_or_def items_of_def)
    ultimately show ?thesis using None k t \<open>a_decision a = ''granted''\<close>
      by (auto simp: authorizations_in_force_def)
  qed
qed

theorem delivery_begins_authorized_witness:
  "\<exists>row t k. begin_delivery demo_sha ''task'' ''d1'' (VDict [(''remote'', VStr ''origin'')]) 150 demo_delivery = Inr (row, t)
    \<and> t = demo_delivery \<and> row_get v_command ''d1'' (deliveries demo_delivery) = Some k"
proof -
  have "(case begin_delivery demo_sha ''task'' ''d1'' (VDict [(''remote'', VStr ''origin'')]) 150 demo_delivery of
      Inr _ \<Rightarrow> True | _ \<Rightarrow> False) \<and> row_get v_command ''d1'' (deliveries demo_delivery) \<noteq> None" by code_simp
  then obtain row t k where "begin_delivery demo_sha ''task'' ''d1'' (VDict [(''remote'', VStr ''origin'')]) 150
      demo_delivery = Inr (row, t)" "row_get v_command ''d1'' (deliveries demo_delivery) = Some k"
    by (auto split: sum.splits)
  with delivery_begins_authorized [OF this(1)] show ?thesis by auto
qed

end
