(* ===== verification/Delivery_Reconciler.thy ===== *)
theory Delivery_Reconciler
  imports Delivery_Permission Delivery_Once
begin

text \<open>
  \<open>DeliveryLifecycleReconciler\<close> (\<open>delivery_lifecycle.py\<close> lines 533 to 1068): the loop that claims
  due objectives, asks for permission, records the intent, calls the adapter and records what it
  reports. Adapters are code outside the ledger and are parameters; each call made to one is
  logged, so that the properties can say how often an effect is invoked.

  An operation here is a sequence of transactions: when one raises, the earlier ones stay
  committed. While an adapter runs, other processes commit their own transactions; \<open>env\<close> holds
  the clock readings and, as arbitrary functions on the ledger, what the others do.
\<close>

section \<open>Outcomes and adapters\<close>

record outcome =
  x_receipt_id :: string
  x_status :: string
  x_receipt :: pyval
  x_evidence :: "string option"
  x_identities :: pyval
  x_failure :: pyval
  x_retry :: bool
  x_wakeup :: pyval
  x_cost :: pyval

text \<open>\<open>DeliveryStageOutcome.__post_init__\<close>.\<close>

definition check_outcome :: "outcome \<Rightarrow> outcome res" where
  "check_outcome x = bindR (nonempty_text (VStr (x_receipt_id x)) ''delivery stage receipt_id'') (\<lambda>_.
     if x_status x \<notin> set [''succeeded'', ''failed'', ''blocked'', ''indeterminate'', ''denied'', ''deferred'']
     then Inl (ValueError ''unsupported delivery stage outcome'')
     else if \<not> is_dict (x_receipt x)
     then Inl (ValueError ''delivery stage outcome receipt must be an object'')
     else if \<not> is_dict (x_identities x)
     then Inl (ValueError ''delivery stage outcome identities must be an object'')
     else if x_status x = ''succeeded'' \<and> (case x_evidence x of None \<Rightarrow> True | Some e \<Rightarrow> blank e)
     then Inl (ValueError ''successful delivery stage outcome requires an Evidence fingerprint'')
     else if x_status x \<noteq> ''succeeded'' \<and> \<not> is_dict (x_failure x)
     then Inl (ValueError ''non-successful delivery stage outcome requires a classified failure'')
     else if (case finite_number (x_cost x) of None \<Rightarrow> True | Some q \<Rightarrow> q < 0)
     then Inl (ValueError ''delivery stage outcome cost_delta must be a finite non-negative number'')
     else Inr x)"

record stage_context =
  c_objective :: objective_row
  c_task :: "task_row option"
  c_stage :: stage
  c_attempt :: int
  c_dispatch :: string
  c_authority :: authority

text \<open>What a call to an adapter comes back with: an outcome, an exception, or neither.\<close>

datatype reply = Returned outcome | Raised string | Malformed

datatype rollback_reply = RolledBack items | NoReceipt | RollbackRaised string

record adapter =
  ad_name :: string
  ad_execute :: "stage_context \<Rightarrow> reply"
  ad_reconcile :: "(stage_context \<Rightarrow> reply) option"
  ad_rollback :: "(stage_context \<Rightarrow> outcome \<Rightarrow> rollback_reply) option"

datatype call =
    Execute string stage int
  | Reconcile string stage int
  | Rollback string

section \<open>Sequences of transactions\<close>

type_synonym 'a act = "store \<Rightarrow> 'a res \<times> store \<times> call list"

definition retA :: "'a \<Rightarrow> 'a act" where
  "retA x s = (Inr x, s, [])"

definition failA :: "err \<Rightarrow> 'a act" where
  "failA e s = (Inl e, s, [])"

definition bindA :: "'a act \<Rightarrow> ('a \<Rightarrow> 'b act) \<Rightarrow> 'b act" where
  "bindA m f s = (case m s of
      (Inl e, t, cs) \<Rightarrow> (Inl e, t, cs)
    | (Inr x, t, cs) \<Rightarrow> (case f x t of (r, u, ds) \<Rightarrow> (r, u, cs @ ds)))"

text \<open>One transaction, rolled back when it raises; a read; a call; the work of other processes.\<close>

definition txA :: "(store \<Rightarrow> ('a \<times> store) res) \<Rightarrow> 'a act" where
  "txA f s = (case f s of Inl e \<Rightarrow> (Inl e, s, []) | Inr (x, t) \<Rightarrow> (Inr x, t, []))"

definition readA :: "(store \<Rightarrow> 'a res) \<Rightarrow> 'a act" where
  "readA f s = (f s, s, [])"

definition callA :: "call \<Rightarrow> 'a \<Rightarrow> 'a act" where
  "callA c x s = (Inr x, s, [c])"

definition othersA :: "(store \<Rightarrow> store) \<Rightarrow> unit act" where
  "othersA w s = (Inr (), w s, [])"

text \<open>\<open>try: ... except Exception\<close>: the error as a value.\<close>

definition tryA :: "'a act \<Rightarrow> 'a res act" where
  "tryA m s = (case m s of (r, t, cs) \<Rightarrow> (Inr r, t, cs))"

section \<open>The loop\<close>

record env =
  e_start :: int
  e_permit :: int
  e_begin :: int
  e_beats :: "((store \<Rightarrow> store) \<times> int) list"
  e_rollback :: int
  e_rollback_beats :: "((store \<Rightarrow> store) \<times> int) list"
  e_settle :: int
  e_others :: "store \<Rightarrow> store"
  e_end :: int

record reconciler =
  k_owner :: string
  k_epoch :: int
  k_adapter :: "adapter option"
  k_lease_seconds :: int

datatype reconciled =
    Recorded stage_receipt_row objective_row bool
  | Deferred objective_row
  | WaitingForSafePoint objective_row
  | NotClaimed string err

definition deadline_expired :: "objective_row \<Rightarrow> int \<Rightarrow> bool" where
  "deadline_expired r now \<longleftrightarrow> stamp_due (Some (o_due r)) (utc now)"

definition adapter_name :: "reconciler \<Rightarrow> string" where
  "adapter_name R = (case k_adapter R of None \<Rightarrow> ''unconfigured'' | Some a \<Rightarrow> ad_name a)"

text \<open>An outcome the reconciler itself reports: no evidence, no identities, no retry.\<close>

definition own_outcome :: "string \<Rightarrow> string \<Rightarrow> items \<Rightarrow> string \<Rightarrow> string \<Rightarrow> outcome" where
  "own_outcome receipt_id status receipt kind detail = \<lparr>x_receipt_id = receipt_id, x_status = status,
     x_receipt = VDict receipt, x_evidence = None, x_identities = VDict [],
     x_failure = VDict [(''kind'', VStr kind), (''detail'', VStr detail)], x_retry = False,
     x_wakeup = VNone, x_cost = VInt 0\<rparr>"

definition defer_rollout_admission :: "reconciler \<Rightarrow> objective_row \<Rightarrow> string \<Rightarrow> int \<Rightarrow> reconciled act" where
  "defer_rollout_admission R r detail now =
    bindA (txA (defer_delivery_observation (o_id r) (o_revision r) (k_epoch R) (o_lease r)
        (VDict [(''kind'', VStr ''execution-environment''), (''detail'', VStr detail)]) VNone None now))
      (\<lambda>r'. retA (Deferred r'))"

definition outcome_report :: "reconciler \<Rightarrow> objective_row \<Rightarrow> outcome \<Rightarrow> string option \<Rightarrow> stage_report" where
  "outcome_report R r x dispatch_id = \<lparr>rep_stage = stage_name (o_stage r), rep_attempt = o_attempt r,
     rep_expected = o_revision r, rep_epoch = k_epoch R, rep_lease = o_lease r, rep_state = None,
     rep_status = Some (x_status x), rep_receipt = Some (x_receipt x), rep_payload = None,
     rep_evidence = x_evidence x, rep_identities = x_identities x, rep_failure = x_failure x,
     rep_retry = x_retry x, rep_cost = x_cost x, rep_wakeup = x_wakeup x, rep_dispatch = dispatch_id\<rparr>"

definition record_outcome ::
  "(pyval \<Rightarrow> string) \<Rightarrow> reconciler \<Rightarrow> objective_row \<Rightarrow> outcome \<Rightarrow> string option \<Rightarrow> int \<Rightarrow> reconciled act" where
  "record_outcome sha R r x dispatch_id now =
    (if x_status x = ''deferred'' then
       (if dispatch_id = None \<or> x_failure x = VNone
        then failA (ValueError ''a deferred observation requires its dispatch and wait reason'')
        else bindA (txA (defer_delivery_observation (o_id r) (o_revision r) (k_epoch R) (o_lease r)
            (x_failure x) (x_wakeup x) dispatch_id now)) (\<lambda>r'. retA (Deferred r')))
     else bindA (txA (record_delivery_stage_receipt sha (o_id r) (x_receipt_id x)
            (outcome_report R r x dispatch_id) now))
       (\<lambda>(x, r', dup). retA (Recorded x r' dup)))"

text \<open>
  \<open>_keep_stage_lease\<close>: at every beat, after whatever others committed, the lease is renewed under
  the row the last renewal returned; the first error ends the heartbeat and is raised at the end.
\<close>

fun keep_stage_lease ::
  "reconciler \<Rightarrow> ((store \<Rightarrow> store) \<times> int) list \<Rightarrow> objective_row \<times> err option \<Rightarrow> (objective_row \<times> err option) act" where
  "keep_stage_lease R [] held = retA held"
| "keep_stage_lease R ((others, now) # beats) (r, failed) = bindA (othersA others) (\<lambda>_.
    if failed \<noteq> None then keep_stage_lease R beats (r, failed)
    else bindA (tryA (txA (renew_delivery_objective_lease (o_id r) (k_epoch R) (o_lease r)
        (o_revision r) (k_lease_seconds R) now)))
      (\<lambda>renewed. keep_stage_lease R beats
        (case renewed of Inl e \<Rightarrow> (r, Some e) | Inr r' \<Rightarrow> (r', None))))"

definition err_text :: "err \<Rightarrow> string" where
  "err_text e = (case e of
      ValueError t \<Rightarrow> ''ValueError: '' @ t | KeyError t \<Rightarrow> ''KeyError: '' @ t
    | TypeError t \<Rightarrow> ''TypeError: '' @ t | StateConflictError t \<Rightarrow> ''StateConflictError: '' @ t
    | CommandConflictError t \<Rightarrow> ''CommandConflictError: '' @ t
    | DeliveryAdmissionBusy t \<Rightarrow> ''DeliveryAdmissionBusy: '' @ t
    | IntegrityError t \<Rightarrow> ''IntegrityError: '' @ t | AttributeErr t \<Rightarrow> ''AttributeError: '' @ t)"

definition adapter_raised :: "string \<Rightarrow> string \<Rightarrow> outcome" where
  "adapter_raised dispatch text = own_outcome (dispatch @ '':indeterminate'') ''indeterminate''
     [(''dispatch_id'', VStr dispatch), (''adapter_error'', VStr text)] ''unknown-effects''
     ''stage adapter raised after durable dispatch intent; reconcile authoritatively''"

definition adapter_outcome :: "string \<Rightarrow> reply \<Rightarrow> outcome" where
  "adapter_outcome dispatch reply = (case reply of
      Returned x \<Rightarrow> (case check_outcome x of Inl e \<Rightarrow> adapter_raised dispatch (err_text e) | Inr y \<Rightarrow> y)
    | Raised text \<Rightarrow> adapter_raised dispatch text
    | Malformed \<Rightarrow> adapter_raised dispatch
        ''TypeError: delivery stage adapter returned an invalid outcome'')"

definition invoke_adapter :: "reconciler \<Rightarrow> stage_context \<Rightarrow> bool \<Rightarrow> outcome act" where
  "invoke_adapter R ctx new = (case k_adapter R of
      None \<Rightarrow> retA (own_outcome (c_dispatch ctx @ '':adapter-unconfigured'') ''blocked''
        [(''dispatch_id'', VStr (c_dispatch ctx))] ''execution-environment''
        ''no authority-owned delivery lifecycle adapter is configured'')
    | Some a \<Rightarrow>
        if new
        then callA (Execute (o_id (c_objective ctx)) (c_stage ctx) (c_attempt ctx))
          (adapter_outcome (c_dispatch ctx) (ad_execute a ctx))
        else (case ad_reconcile a of
            None \<Rightarrow> retA (own_outcome (c_dispatch ctx @ '':unreconciled'') ''indeterminate''
              [(''dispatch_id'', VStr (c_dispatch ctx))] ''unknown-effects''
              ''a prior external stage dispatch has no authoritative reconciliation adapter'')
          | Some f \<Rightarrow> callA (Reconcile (o_id (c_objective ctx)) (c_stage ctx) (c_attempt ctx))
              (adapter_outcome (c_dispatch ctx) (f ctx))))"

text \<open>\<open>replace(outcome, receipt={**outcome.receipt, "rollback": ...}, ...)\<close>.\<close>

definition with_rollback :: "outcome \<Rightarrow> pyval \<Rightarrow> outcome" where
  "with_rollback x rollback = x\<lparr>x_receipt := VDict (dict_set ''rollback'' rollback (items_of (x_receipt x)))\<rparr>"

definition unresolved :: "outcome \<Rightarrow> pyval \<Rightarrow> string \<Rightarrow> outcome" where
  "unresolved x rollback detail = (with_rollback x rollback)\<lparr>x_status := ''indeterminate'',
     x_failure := VDict [(''kind'', VStr ''unknown-effects''), (''detail'', VStr detail)], x_retry := False\<rparr>"

definition rollback_receipt :: "reconciler \<Rightarrow> stage_context \<Rightarrow> outcome \<Rightarrow> rollback_reply act" where
  "rollback_receipt R ctx x =
    (case (case k_adapter R of None \<Rightarrow> None | Some a \<Rightarrow> ad_rollback a) of
       None \<Rightarrow> retA (RolledBack [(''verified'', VBool False),
         (''error'', VStr ''preauthorized rollback adapter is unavailable'')])
     | Some f \<Rightarrow> callA (Rollback (c_dispatch ctx)) (case f ctx x of
           RollbackRaised text \<Rightarrow> RolledBack [(''verified'', VBool False), (''error'', VStr text)]
         | other \<Rightarrow> other))"

definition apply_preauthorized_rollback ::
  "reconciler \<Rightarrow> stage_context \<Rightarrow> env \<Rightarrow> objective_row \<times> err option \<Rightarrow> outcome
    \<Rightarrow> (outcome \<times> (objective_row \<times> err option)) act" where
  "apply_preauthorized_rollback R ctx E held x = bindA (readA (\<lambda>_.
      if x_status x \<noteq> ''failed'' then Inr False
      else rollback_policy_is_preauthorized (o_request (c_objective ctx)))) (\<lambda>preauthorized.
    if \<not> preauthorized then retA (x, held)
    else bindA (txA (begin_delivery_stage_rollback (c_dispatch ctx) (k_epoch R)
        (o_lease (c_objective ctx)) (e_rollback E))) (\<lambda>(d, new).
      if new then bindA (rollback_receipt R ctx x) (\<lambda>reply.
        bindA (keep_stage_lease R (e_rollback_beats E) held) (\<lambda>held'.
        let receipt = (case reply of RolledBack kvs \<Rightarrow> kvs | _ \<Rightarrow> []) in
        if \<not> is_true (dget (VDict receipt) ''verified'')
        then retA (unresolved x (VDict receipt) ''deployment rollback could not be authoritatively verified'', held')
        else bindA (txA (settle_delivery_stage_rollback (c_dispatch ctx) (k_epoch R)
            (o_lease (c_objective ctx)) (VDict receipt) (e_settle E))) (\<lambda>_.
          retA (with_rollback x (VDict receipt), held'))))
      else if d_state d = DSettled then failA (KeyError ''receipt'')
      else retA (unresolved x (VDict [(''state'', VStr ''started'')])
          ''a prior rollback intent is unresolved; reconcile authoritatively'', held)))"

section \<open>One claimed objective\<close>

definition permission_json :: "string \<Rightarrow> pyval" where
  "permission_json reason = VDict [(''authorized'', VBool False), (''reason'', VStr reason),
     (''authorization'', VNone)]"

text \<open>\<open>WorkbenchStore._delivery_stage_dispatch_row\<close>.\<close>

definition dispatch_json :: "dispatch_row \<Rightarrow> pyval" where
  "dispatch_json d = VDict [(''dispatch_id'', VStr (d_id d)), (''objective_id'', VStr (d_objective d)),
     (''task_id'', VStr (d_task d)), (''stage'', vstage (d_stage d)), (''attempt'', VInt (d_attempt d)),
     (''request_hash'', VStr (d_hash d)), (''adapter_name'', VStr (d_adapter d)),
     (''state'', VStr (case d_state d of DStarted \<Rightarrow> ''started'' | DSettled \<Rightarrow> ''settled'')),
     (''receipt_id'', opt_str (d_receipt d)),
     (''rollback'', (case d_rollback d of None \<Rightarrow> VNone | Some state \<Rightarrow> VDict
        [(''state'', VStr (case state of DStarted \<Rightarrow> ''started'' | DSettled \<Rightarrow> ''settled'')),
         (''receipt'', (case d_rollback_receipt d of None \<Rightarrow> VNone | Some v \<Rightarrow> v))])),
     (''created_at'', VStr (iso_show (d_created d))), (''updated_at'', VStr (iso_show (d_updated d)))]"

definition stage_receipt_id :: "objective_row \<Rightarrow> string \<Rightarrow> string" where
  "stage_receipt_id r suffix = o_id r @ '':'' @ stage_name (o_stage r) @ '':'' @ str_int (o_attempt r)
     @ '':'' @ suffix"

definition deadline_outcome :: "objective_row \<Rightarrow> outcome" where
  "deadline_outcome r = own_outcome (stage_receipt_id r ''deadline'') ''blocked''
     [(''due_at'', VStr (iso_show (o_due r))), (''stage'', vstage (o_stage r)), (''attempt'', VInt (o_attempt r))]
     ''execution-environment'' ''delivery objective due time elapsed before its next durable action''"

text \<open>Permission for an external stage, or the receipt that says why it is missing.\<close>

definition refusal :: "objective_row \<Rightarrow> string \<Rightarrow> store \<Rightarrow> outcome \<times> string option" where
  "refusal r reason s =
    (case get_delivery_stage_dispatch (o_id r) (stage_name (o_stage r)) (o_attempt r) s of
       Some d \<Rightarrow>
         if d_state d = DStarted
         then (own_outcome (d_id d @ '':authority-lost'') ''indeterminate''
             [(''authorization'', permission_json reason), (''prior_dispatch'', dispatch_json d)] ''unknown-effects''
             ''authorization was lost after dispatch; reconcile the recorded effect before any new action'',
           Some (d_id d))
         else (own_outcome (stage_receipt_id r ''authorization'') ''denied''
           [(''authorization'', permission_json reason)] ''permission-denied'' reason, None)
     | None \<Rightarrow> (own_outcome (stage_receipt_id r ''authorization'') ''denied''
           [(''authorization'', permission_json reason)] ''permission-denied'' reason, None))"

text \<open>A deploy stage waits while another rollout holds admission or work is still running.\<close>

definition rollout_wait ::
  "reconciler \<Rightarrow> objective_row \<Rightarrow> int \<Rightarrow> (reconciled option) act" where
  "rollout_wait R r now = bindA (readA (\<lambda>s. Inr (deployment_admission_gate s))) (\<lambda>gate.
     if (case gate of None \<Rightarrow> False | Some g \<Rightarrow> o_id g \<noteq> o_id r)
     then bindA (defer_rollout_admission R r ''another authority rollout is in progress'' now) (\<lambda>x. retA (Some x))
     else bindA (readA (delivery_deployment_blockers (o_id r))) (\<lambda>blockers.
       if blockers = [] then retA None
       else bindA (txA (defer_delivery_deployment_safe_point (o_id r) (o_revision r) (k_epoch R)
           (o_lease r) blockers now)) (\<lambda>r'. retA (Some (WaitingForSafePoint r')))))"

definition run_stage ::
  "(pyval \<Rightarrow> string) \<Rightarrow> reconciler \<Rightarrow> objective_row \<Rightarrow> task_row option \<Rightarrow> authority \<Rightarrow> dispatch_row \<Rightarrow> bool \<Rightarrow> env
    \<Rightarrow> reconciled act" where
  "run_stage sha R r task authority d new E =
    (let ctx = \<lparr>c_objective = r, c_task = task, c_stage = o_stage r, c_attempt = o_attempt r,
         c_dispatch = d_id d, c_authority = authority\<rparr>
     in bindA (invoke_adapter R ctx new) (\<lambda>x.
        bindA (keep_stage_lease R (e_beats E) (r, None)) (\<lambda>held.
        bindA (if o_stage r = Deploy then apply_preauthorized_rollback R ctx E held x else retA (x, held))
          (\<lambda>(x', held').
        bindA (othersA (e_others E)) (\<lambda>_.
        case snd held' of
          Some e \<Rightarrow> failA e
        | None \<Rightarrow> record_outcome sha R (fst held') x' (Some (d_id d)) (e_end E))))))"

definition dispatch_stage ::
  "(pyval \<Rightarrow> string) \<Rightarrow> reconciler \<Rightarrow> objective_row \<Rightarrow> task_row option \<Rightarrow> authority \<Rightarrow> env \<Rightarrow> reconciled act" where
  "dispatch_stage sha R r task authority E =
    bindA (tryA (txA (begin_delivery_stage_dispatch sha (o_id r) (stage_name (o_stage r)) (o_attempt r)
        (o_revision r) (k_epoch R) (o_lease r) (adapter_name R) (e_begin E)))) (\<lambda>begun.
    case begun of
      Inl (DeliveryAdmissionBusy t) \<Rightarrow>
        defer_rollout_admission R r ''authority work must drain before rollout dispatch'' (e_begin E)
    | Inl e \<Rightarrow> failA e
    | Inr (d, new) \<Rightarrow> run_stage sha R r task authority d new E)"

definition reconcile_claimed ::
  "(pyval \<Rightarrow> string) \<Rightarrow> reconciler \<Rightarrow> objective_row \<Rightarrow> env \<Rightarrow> reconciled act" where
  "reconcile_claimed sha R r E =
    (if deadline_expired r (e_start E) then record_outcome sha R r (deadline_outcome r) None (e_start E)
     else bindA (readA (\<lambda>s. Inr (row_get t_id (o_task r) (tasks s)))) (\<lambda>task.
     bindA (readA (\<lambda>s. if o_stage r \<in> set EXTERNAL_DELIVERY_STAGES
         then delivery_stage_authorization (o_id r) (stage_name (o_stage r)) (e_permit E) s
         else Inr NoEndpoint)) (\<lambda>authority.
     case authority of
       Unauthorized reason \<Rightarrow> bindA (readA (\<lambda>s. Inr (refusal r reason s))) (\<lambda>(x, dispatch_id).
         record_outcome sha R r x dispatch_id (e_permit E))
     | _ \<Rightarrow>
         bindA (if o_stage r = Deploy then rollout_wait R r (e_permit E) else retA None) (\<lambda>waiting.
         case waiting of
           Some x \<Rightarrow> retA x
         | None \<Rightarrow> dispatch_stage sha R r task authority E))))"

section \<open>The tick\<close>

fun reconcile_all ::
  "(pyval \<Rightarrow> string) \<Rightarrow> reconciler \<Rightarrow> objective_row list \<Rightarrow> (objective_row \<Rightarrow> env) \<Rightarrow> reconciled list act" where
  "reconcile_all sha R [] E = retA []"
| "reconcile_all sha R (r # rest) E =
    bindA (tryA (txA (claim_delivery_objective (o_id r) (k_owner R) (k_epoch R) (o_revision r)
        (k_lease_seconds R) (e_start (E r))))) (\<lambda>claimed.
    bindA (case claimed of
        Inl e \<Rightarrow> retA [NotClaimed (o_id r) e]
      | Inr None \<Rightarrow> retA []
      | Inr (Some r') \<Rightarrow> bindA (reconcile_claimed sha R r' (E r)) (\<lambda>x. retA [x])) (\<lambda>xs.
    bindA (reconcile_all sha R rest E) (\<lambda>ys. retA (xs @ ys))))"

definition reconcile_once ::
  "(pyval \<Rightarrow> string) \<Rightarrow> reconciler \<Rightarrow> int \<Rightarrow> int \<Rightarrow> (objective_row \<Rightarrow> env) \<Rightarrow> reconciled list act" where
  "reconcile_once sha R limit now E =
    bindA (txA (reconcile_delivery_safe_point_waits now)) (\<lambda>_.
    bindA (readA (list_due_delivery_objectives (utc now) limit (Some (k_owner R, k_epoch R)))) (\<lambda>due.
      reconcile_all sha R due E))"

section \<open>Runs of the ledger\<close>

abbreviation after :: "'a act \<Rightarrow> store \<Rightarrow> store" where
  "after m s \<equiv> fst (snd (m s))"

abbreviation calls :: "'a act \<Rightarrow> store \<Rightarrow> call list" where
  "calls m s \<equiv> snd (snd (m s))"

named_theorems act_runs "actions that only run steps of the ledger"
named_theorems act_quiet "actions that never execute a stage"

definition act_run :: "(pyval \<Rightarrow> string) \<Rightarrow> 'a act \<Rightarrow> bool" where
  "act_run sha m \<longleftrightarrow> (\<forall>s. (delivery_step sha)\<^sup>*\<^sup>* s (after m s))"

lemma act_runD: "act_run sha m \<Longrightarrow> m s = (r, t, cs) \<Longrightarrow> (delivery_step sha)\<^sup>*\<^sup>* s t"
  unfolding act_run_def by (metis fst_conv snd_conv)

lemma run_simple [act_runs]:
  "act_run sha (retA x)" "act_run sha (failA e)" "act_run sha (readA f)" "act_run sha (callA c x)"
  by (simp_all add: act_run_def retA_def failA_def readA_def callA_def)

lemma run_bind [act_runs]:
  assumes "act_run sha m" and "\<And>x. act_run sha (f x)"
  shows "act_run sha (bindA m f)"
  unfolding act_run_def
proof
  fix s
  obtain r t cs where m: "m s = (r, t, cs)" by (metis prod_cases3)
  have st: "(delivery_step sha)\<^sup>*\<^sup>* s t" by (rule act_runD [OF assms(1) m])
  show "(delivery_step sha)\<^sup>*\<^sup>* s (after (bindA m f) s)"
  proof (cases r)
    case (Inl e)
    with st m show ?thesis by (simp add: bindA_def)
  next
    case (Inr x)
    obtain r' u ds where f: "f x t = (r', u, ds)" by (metis prod_cases3)
    have "(delivery_step sha)\<^sup>*\<^sup>* t u" by (rule act_runD [OF assms(2) f])
    with st m f Inr show ?thesis by (simp add: bindA_def)
  qed
qed

lemma run_tx:
  assumes "\<And>s x t. f s = Inr (x, t) \<Longrightarrow> delivery_step sha s t"
  shows "act_run sha (txA f)"
proof -
  have "(delivery_step sha)\<^sup>*\<^sup>* s t" if "f s = Inr (x, t)" for s x t using assms [OF that] by blast
  then show ?thesis unfolding act_run_def txA_def by (auto split: sum.splits)
qed

lemma run_operations [act_runs]:
  "act_run sha (txA (reconcile_delivery_safe_point_waits now))"
  "act_run sha (txA (claim_delivery_objective k ow e n secs now))"
  "act_run sha (txA (renew_delivery_objective_lease k e l n secs now))"
  "act_run sha (txA (begin_delivery_stage_dispatch sha k g n v e l ad now))"
  "act_run sha (txA (begin_delivery_stage_rollback d e l now))"
  "act_run sha (txA (settle_delivery_stage_rollback d e l q now))"
  "act_run sha (txA (defer_delivery_observation k n e l w wk di now))"
  "act_run sha (txA (defer_delivery_deployment_safe_point k n e l bs now))"
  "act_run sha (txA (record_delivery_stage_receipt sha k i rep now))"
  by (rule run_tx, erule delivery_step.intros)+

lemma run_others: "(\<And>s. (delivery_step sha)\<^sup>*\<^sup>* s (w s)) \<Longrightarrow> act_run sha (othersA w)"
  by (simp add: act_run_def othersA_def)

lemma run_try [act_runs]: "act_run sha m \<Longrightarrow> act_run sha (tryA m)"
  unfolding act_run_def tryA_def by (auto simp: case_prod_beta)

text \<open>What other processes commit are steps of the ledger too.\<close>

definition beats_ok :: "(pyval \<Rightarrow> string) \<Rightarrow> ((store \<Rightarrow> store) \<times> int) list \<Rightarrow> bool" where
  "beats_ok sha beats \<longleftrightarrow> (\<forall>(w, n) \<in> set beats. \<forall>s. (delivery_step sha)\<^sup>*\<^sup>* s (w s))"

definition env_ok :: "(pyval \<Rightarrow> string) \<Rightarrow> env \<Rightarrow> bool" where
  "env_ok sha E \<longleftrightarrow> beats_ok sha (e_beats E) \<and> beats_ok sha (e_rollback_beats E)
     \<and> (\<forall>s. (delivery_step sha)\<^sup>*\<^sup>* s (e_others E s))"

lemma run_keep: "beats_ok sha beats \<Longrightarrow> act_run sha (keep_stage_lease R beats held)"
proof (induction R beats held rule: keep_stage_lease.induct)
  case (2 R others now beats r failed)
  then have others: "act_run sha (othersA others)" by (intro run_others) (auto simp: beats_ok_def)
  have rest: "beats_ok sha beats" using "2.prems" by (auto simp: beats_ok_def)
  show ?case using others "2.IH" rest
    by (auto intro!: act_runs split: sum.split)
qed (simp add: act_runs)

lemma run_record [act_runs]: "act_run sha (record_outcome sha R r x d now)"
  unfolding record_outcome_def
  by (auto intro!: act_runs split: prod.split)

lemma run_defer [act_runs]: "act_run sha (defer_rollout_admission R r detail now)"
  unfolding defer_rollout_admission_def by (auto intro!: act_runs)

lemma run_invoke [act_runs]: "act_run sha (invoke_adapter R ctx new)"
  unfolding invoke_adapter_def by (auto intro!: act_runs split: option.split)

lemma run_rollback_receipt [act_runs]: "act_run sha (rollback_receipt R ctx x)"
  unfolding rollback_receipt_def by (auto intro!: act_runs split: option.split)

lemma run_rollback: "env_ok sha E \<Longrightarrow> act_run sha (apply_preauthorized_rollback R ctx E held x)"
  unfolding apply_preauthorized_rollback_def env_ok_def
  by (auto intro!: act_runs run_keep simp: Let_def split: prod.split)

lemma run_wait [act_runs]: "act_run sha (rollout_wait R r now)"
  unfolding rollout_wait_def by (auto intro!: act_runs)

lemma run_run_stage:
  assumes "env_ok sha E"
  shows "act_run sha (run_stage sha R r task authority d new E)"
proof -
  have "act_run sha (othersA (e_others E))" "act_run sha (keep_stage_lease R (e_beats E) (r, None))"
    using assms by (auto simp: env_ok_def intro!: run_others run_keep)
  then show ?thesis using run_rollback [OF assms] unfolding run_stage_def Let_def
    by (auto intro!: act_runs split: prod.split option.split)
qed

lemma run_dispatch: "env_ok sha E \<Longrightarrow> act_run sha (dispatch_stage sha R r task authority E)"
  unfolding dispatch_stage_def
  by (auto intro!: act_runs run_run_stage split: sum.split err.split prod.split)

lemma run_claimed: "env_ok sha E \<Longrightarrow> act_run sha (reconcile_claimed sha R r E)"
  unfolding reconcile_claimed_def
  by (auto intro!: act_runs run_dispatch split: authority.split option.split prod.split)

lemma run_all: "(\<And>r. env_ok sha (E r)) \<Longrightarrow> act_run sha (reconcile_all sha R rows E)"
  by (induction sha R rows E rule: reconcile_all.induct)
    (auto intro!: act_runs run_claimed split: sum.split option.split)

text \<open>
  The reconciler adds no behaviour of its own: one tick, with any adapters, any
  heartbeats and any transactions of other processes in between, takes the ledger through steps of
  the delivery operations only. Every invariant and every law of the delivery ledger therefore
  holds of the service that runs the loop, also when an operation raises half-way.
\<close>

theorem reconciler_runs_ledger:
  assumes "\<And>r. env_ok sha (E r)" and "reconcile_once sha R limit now E s = (result, t, cs)"
  shows "(delivery_step sha)\<^sup>*\<^sup>* s t \<and> (delivery_ok s \<longrightarrow> delivery_ok t)"
proof -
  have "act_run sha (reconcile_once sha R limit now E)"
    unfolding reconcile_once_def by (intro act_runs run_all assms(1))
  then have run: "(delivery_step sha)\<^sup>*\<^sup>* s t" using assms(2) by (rule act_runD)
  then show ?thesis using delivery.inv_run by blast
qed

definition quiet_env :: "int \<Rightarrow> env" where
  "quiet_env now = \<lparr>e_start = now, e_permit = now, e_begin = now, e_beats = [], e_rollback = now,
     e_rollback_beats = [], e_settle = now, e_others = (\<lambda>s. s), e_end = now\<rparr>"

lemma quiet_env_ok: "env_ok sha (quiet_env now)"
  by (simp add: env_ok_def beats_ok_def quiet_env_def)

definition demo_reconciler :: "reply \<Rightarrow> reconciler" where
  "demo_reconciler answer = \<lparr>k_owner = ''host'', k_epoch = 1, k_adapter = Some \<lparr>ad_name = ''demo'',
     ad_execute = (\<lambda>_. answer), ad_reconcile = None, ad_rollback = None\<rparr>, k_lease_seconds = 600\<rparr>"

definition demo_success :: reply where
  "demo_success = Returned \<lparr>x_receipt_id = ''r1'', x_status = ''succeeded'', x_receipt = VDict [],
     x_evidence = Some ''fp'', x_identities = VDict [], x_failure = VNone, x_retry = True,
     x_wakeup = VNone, x_cost = VInt 0\<rparr>"

theorem reconciler_runs_ledger_witness:
  "\<exists>x r t. reconcile_once demo_sha (demo_reconciler demo_success) 10 105 (\<lambda>_. quiet_env 110) demo_created
      = (Inr [Recorded x r False], t, [Execute demo_oid Plan 1])
    \<and> o_stage r = Implement \<and> (delivery_step demo_sha)\<^sup>*\<^sup>* demo_created t"
proof -
  have "(case reconcile_once demo_sha (demo_reconciler demo_success) 10 105 (\<lambda>_. quiet_env 110) demo_created of
      (Inr [Recorded x r False], t, cs) \<Rightarrow> o_stage r = Implement \<and> cs = [Execute demo_oid Plan 1] | _ \<Rightarrow> False)"
    by code_simp
  then obtain x r t where run: "reconcile_once demo_sha (demo_reconciler demo_success) 10 105 (\<lambda>_. quiet_env 110)
      demo_created = (Inr [Recorded x r False], t, [Execute demo_oid Plan 1])" and "o_stage r = Implement"
    by (auto split: prod.splits sum.splits list.splits reconciled.splits bool.splits)
  with reconciler_runs_ledger [OF quiet_env_ok run] show ?thesis by blast
qed

section \<open>Effects\<close>

text \<open>An action that makes no call to execute a stage.\<close>

definition quiet :: "'a act \<Rightarrow> bool" where
  "quiet m \<longleftrightarrow> (\<forall>s k g a. Execute k g a \<notin> set (calls m s))"

lemma quiet_simple [act_quiet]:
  "quiet (retA x)" "quiet (failA e)" "quiet (readA f)" "quiet (txA g)" "quiet (othersA w)"
  "quiet (callA (Reconcile k g' a) x)" "quiet (callA (Rollback k) x)"
  by (auto simp: quiet_def retA_def failA_def readA_def txA_def othersA_def callA_def split: sum.split)

lemma calls_bind: "calls (bindA m f) s = calls m s @ (case fst (m s) of Inl e \<Rightarrow> [] | Inr x \<Rightarrow> calls (f x) (after m s))"
  by (auto simp: bindA_def case_prod_beta split: sum.splits)

lemma quiet_bind [act_quiet]: "quiet m \<Longrightarrow> (\<And>x. quiet (f x)) \<Longrightarrow> quiet (bindA m f)"
  unfolding quiet_def calls_bind by (auto split: sum.split)

lemma quiet_try [act_quiet]: "quiet m \<Longrightarrow> quiet (tryA m)"
  by (auto simp: quiet_def tryA_def case_prod_beta)

lemma quiet_keep [act_quiet]: "quiet (keep_stage_lease R beats held)"
  by (induction R beats held rule: keep_stage_lease.induct) (auto intro!: act_quiet split: sum.split)

lemma quiet_record [act_quiet]: "quiet (record_outcome sha R r x d now)"
  unfolding record_outcome_def by (auto intro!: act_quiet split: prod.split)

lemma quiet_defer [act_quiet]: "quiet (defer_rollout_admission R r detail now)"
  unfolding defer_rollout_admission_def by (intro act_quiet)

lemma quiet_rollback [act_quiet]: "quiet (apply_preauthorized_rollback R ctx E held x)"
  unfolding apply_preauthorized_rollback_def rollback_receipt_def
  by (auto intro!: act_quiet simp: Let_def split: prod.split option.split)

lemma quiet_wait [act_quiet]: "quiet (rollout_wait R r now)"
  unfolding rollout_wait_def by (auto intro!: act_quiet)

lemma quietD: "quiet m \<Longrightarrow> Execute k g a \<notin> set (calls m s)"
  by (simp add: quiet_def)

lemma bind_executes:
  assumes "Execute k g a \<in> set (calls (bindA m f) s)" and "quiet m"
  obtains x t cs where "m s = (Inr x, t, cs)" "Execute k g a \<in> set (calls (f x) t)"
    "after (bindA m f) s = after (f x) t" "fst (bindA m f s) = fst (f x t)"
proof -
  obtain r t cs where m: "m s = (r, t, cs)" by (metis prod_cases3)
  from quietD [OF assms(2), of k g a s] m have n: "Execute k g a \<notin> set cs" by simp
  show thesis
  proof (cases r)
    case (Inl e)
    with assms(1) m n show thesis by (simp add: bindA_def)
  next
    case (Inr x)
    with assms(1) m n that [of x t cs] show thesis by (auto simp: bindA_def case_prod_beta)
  qed
qed

lemma bind_executes':
  assumes "Execute k g a \<in> set (calls (bindA m f) s)" and "\<And>x. quiet (f x)"
  shows "Execute k g a \<in> set (calls m s)"
  using assms quietD by (fastforce simp: calls_bind split: sum.splits)

lemma invoke_executes:
  assumes "Execute k g a \<in> set (calls (invoke_adapter R ctx new) s)"
  shows "new \<and> k = o_id (c_objective ctx) \<and> g = c_stage ctx \<and> a = c_attempt ctx
    \<and> calls (invoke_adapter R ctx new) s = [Execute k g a]"
  using assms by (auto simp: invoke_adapter_def retA_def callA_def split: option.splits if_splits)

lemma run_stage_executes:
  assumes "Execute k g a \<in> set (calls (run_stage sha R r task authority d new E) s)"
  shows "new \<and> k = o_id r \<and> g = o_stage r \<and> a = o_attempt r"
proof -
  let ?ctx = "\<lparr>c_objective = r, c_task = task, c_stage = o_stage r, c_attempt = o_attempt r,
         c_dispatch = d_id d, c_authority = authority\<rparr>"
  have "Execute k g a \<in> set (calls (invoke_adapter R ?ctx new) s)"
    using assms unfolding run_stage_def Let_def
    by (rule bind_executes') (auto intro!: act_quiet split: prod.split option.split)
  from invoke_executes [OF this] show ?thesis by simp
qed

lemma readA_Inr: "readA f s = (Inr x, t, cs) \<longleftrightarrow> f s = Inr x \<and> t = s \<and> cs = []"
  by (auto simp: readA_def)

lemma try_txA: "tryA (txA f) s = (Inr y, t, cs) \<longleftrightarrow> cs = []
    \<and> (case f s of Inl e \<Rightarrow> y = Inl e \<and> t = s | Inr (x, u) \<Rightarrow> y = Inr x \<and> t = u)"
  by (auto simp: tryA_def txA_def split: sum.splits prod.splits)

lemma dispatch_executes:
  assumes "Execute k g a \<in> set (calls (dispatch_stage sha R r task authority E) s)"
  obtains d t where "k = o_id r" "g = o_stage r" "a = o_attempt r"
    "begin_delivery_stage_dispatch sha k (stage_name g) a (o_revision r) (k_epoch R) (o_lease r)
       (adapter_name R) (e_begin E) s = Inr ((d, True), t)"
    "after (dispatch_stage sha R r task authority E) s = after (run_stage sha R r task authority d True E) t"
    "fst (dispatch_stage sha R r task authority E s) = fst (run_stage sha R r task authority d True E t)"
proof -
  let ?intent = "begin_delivery_stage_dispatch sha (o_id r) (stage_name (o_stage r)) (o_attempt r)
       (o_revision r) (k_epoch R) (o_lease r) (adapter_name R) (e_begin E)"
  from assms(1) obtain begun t cs where b: "tryA (txA ?intent) s = (Inr begun, t, cs)"
    and c: "Execute k g a \<in> set (calls ((\<lambda>begun. case begun of
      Inl (DeliveryAdmissionBusy t) \<Rightarrow>
        defer_rollout_admission R r ''authority work must drain before rollout dispatch'' (e_begin E)
    | Inl e \<Rightarrow> failA e
    | Inr (d, new) \<Rightarrow> run_stage sha R r task authority d new E) begun) t)"
    and after: "after (dispatch_stage sha R r task authority E) s = after ((\<lambda>begun. case begun of
      Inl (DeliveryAdmissionBusy t) \<Rightarrow>
        defer_rollout_admission R r ''authority work must drain before rollout dispatch'' (e_begin E)
    | Inl e \<Rightarrow> failA e
    | Inr (d, new) \<Rightarrow> run_stage sha R r task authority d new E) begun) t"
    and res: "fst (dispatch_stage sha R r task authority E s) = fst (((\<lambda>begun. case begun of
      Inl (DeliveryAdmissionBusy t) \<Rightarrow>
        defer_rollout_admission R r ''authority work must drain before rollout dispatch'' (e_begin E)
    | Inl e \<Rightarrow> failA e
    | Inr (d, new) \<Rightarrow> run_stage sha R r task authority d new E) begun) t)"
    unfolding dispatch_stage_def by (rule bind_executes) (intro act_quiet)
  from c obtain d new where begun: "begun = Inr (d, new)"
    using quietD [OF quiet_defer] by (auto simp: failA_def split: sum.splits err.splits)
  with c have "Execute k g a \<in> set (calls (run_stage sha R r task authority d new E) t)" by simp
  from run_stage_executes [OF this] have new: "new" and ids: "k = o_id r" "g = o_stage r" "a = o_attempt r" by auto
  from b begun new have "?intent s = Inr ((d, True), t)"
    by (auto simp: try_txA split: sum.splits prod.splits)
  then show thesis using that [of d t] ids after res begun new by simp
qed

lemma refusal_quiet: "quiet (bindA (readA (\<lambda>s. Inr (refusal r reason s))) (\<lambda>(x, dispatch_id).
    record_outcome sha R r x dispatch_id n))"
  by (auto intro!: act_quiet split: prod.split)

lemma claimed_executes:
  assumes "Execute k g a \<in> set (calls (reconcile_claimed sha R r E) s)" and "env_ok sha E"
  obtains d t u task p where "k = o_id r" "g = o_stage r" "a = o_attempt r" "(delivery_step sha)\<^sup>*\<^sup>* s u"
    "begin_delivery_stage_dispatch sha k (stage_name g) a (o_revision r) (k_epoch R) (o_lease r)
       (adapter_name R) (e_begin E) u = Inr ((d, True), t)"
    "(delivery_step sha)\<^sup>*\<^sup>* t (after (reconcile_claimed sha R r E) s)"
    "after (reconcile_claimed sha R r E) s = after (run_stage sha R r task p d True E) t"
    "fst (reconcile_claimed sha R r E s) = fst (run_stage sha R r task p d True E t)"
    "g \<in> set EXTERNAL_DELIVERY_STAGES \<Longrightarrow>
      \<exists>p. delivery_stage_authorization k (stage_name g) (e_permit E) s = Inr p \<and> authorized p"
proof -
  let ?read = "\<lambda>s. if o_stage r \<in> set EXTERNAL_DELIVERY_STAGES
         then delivery_stage_authorization (o_id r) (stage_name (o_stage r)) (e_permit E) s
         else Inr NoEndpoint"
  let ?wait = "if o_stage r = Deploy then rollout_wait R r (e_permit E) else retA None"
  have quiet_deadline: "quiet (record_outcome sha R r (deadline_outcome r) None (e_start E))" by (rule quiet_record)
  from assms(1) have due: "\<not> deadline_expired r (e_start E)"
    using quietD [OF quiet_deadline] by (auto simp: reconcile_claimed_def)
  from assms(1) due obtain task p where p: "?read s = Inr p"
    and c: "Execute k g a \<in> set (calls (case p of
       Unauthorized reason \<Rightarrow> bindA (readA (\<lambda>s. Inr (refusal r reason s))) (\<lambda>(x, dispatch_id).
         record_outcome sha R r x dispatch_id (e_permit E))
     | _ \<Rightarrow> bindA ?wait (\<lambda>waiting. case waiting of Some x \<Rightarrow> retA x | None \<Rightarrow> dispatch_stage sha R r task p E)) s)"
    and after: "after (reconcile_claimed sha R r E) s = after (case p of
       Unauthorized reason \<Rightarrow> bindA (readA (\<lambda>s. Inr (refusal r reason s))) (\<lambda>(x, dispatch_id).
         record_outcome sha R r x dispatch_id (e_permit E))
     | _ \<Rightarrow> bindA ?wait (\<lambda>waiting. case waiting of Some x \<Rightarrow> retA x | None \<Rightarrow> dispatch_stage sha R r task p E)) s"
    and res: "fst (reconcile_claimed sha R r E s) = fst ((case p of
       Unauthorized reason \<Rightarrow> bindA (readA (\<lambda>s. Inr (refusal r reason s))) (\<lambda>(x, dispatch_id).
         record_outcome sha R r x dispatch_id (e_permit E))
     | _ \<Rightarrow> bindA ?wait (\<lambda>waiting. case waiting of Some x \<Rightarrow> retA x | None \<Rightarrow> dispatch_stage sha R r task p E)) s)"
    unfolding reconcile_claimed_def if_not_P [OF due]
    by (elim bind_executes; (intro act_quiet)?) (auto simp: readA_Inr elim!: bind_executes intro!: act_quiet)
  from c have auth: "authorized p" using quietD [OF refusal_quiet] by (auto simp: authorized_def split: authority.splits)
  with c after res have c': "Execute k g a \<in> set (calls (bindA ?wait (\<lambda>waiting. case waiting of Some x \<Rightarrow> retA x
        | None \<Rightarrow> dispatch_stage sha R r task p E)) s)"
    and after': "after (reconcile_claimed sha R r E) s = after (bindA ?wait (\<lambda>waiting. case waiting of Some x \<Rightarrow> retA x
        | None \<Rightarrow> dispatch_stage sha R r task p E)) s"
    and res': "fst (reconcile_claimed sha R r E s) = fst (bindA ?wait (\<lambda>waiting. case waiting of Some x \<Rightarrow> retA x
        | None \<Rightarrow> dispatch_stage sha R r task p E) s)"
    by (auto simp: authorized_def split: authority.splits)
  have quiet_w: "quiet ?wait" by (auto intro!: act_quiet)
  have run_w: "act_run sha ?wait" by (auto intro!: act_runs)
  from bind_executes [OF c' quiet_w] obtain w u cs where w: "?wait s = (Inr w, u, cs)"
    and cw: "Execute k g a \<in> set (calls (case w of Some x \<Rightarrow> retA x | None \<Rightarrow> dispatch_stage sha R r task p E) u)"
    and aw: "after (reconcile_claimed sha R r E) s = after (case w of Some x \<Rightarrow> retA x | None \<Rightarrow> dispatch_stage sha R r task p E) u"
    and rw: "fst (reconcile_claimed sha R r E s) = fst ((case w of Some x \<Rightarrow> retA x | None \<Rightarrow> dispatch_stage sha R r task p E) u)"
    unfolding after' res' by blast
  have su: "(delivery_step sha)\<^sup>*\<^sup>* s u" by (rule act_runD [OF run_w w])
  from cw have "w = None" by (auto simp: retA_def split: option.splits)
  with cw aw rw have "Execute k g a \<in> set (calls (dispatch_stage sha R r task p E) u)"
    and fin: "after (reconcile_claimed sha R r E) s = after (dispatch_stage sha R r task p E) u"
      "fst (reconcile_claimed sha R r E s) = fst (dispatch_stage sha R r task p E u)" by auto
  from dispatch_executes [OF this(1)] obtain d t where dt: "k = o_id r" "g = o_stage r" "a = o_attempt r"
    "begin_delivery_stage_dispatch sha k (stage_name g) a (o_revision r) (k_epoch R) (o_lease r)
       (adapter_name R) (e_begin E) u = Inr ((d, True), t)"
    "after (dispatch_stage sha R r task p E) u = after (run_stage sha R r task p d True E) t"
    "fst (dispatch_stage sha R r task p E u) = fst (run_stage sha R r task p d True E t)" by blast
  have "(delivery_step sha)\<^sup>*\<^sup>* t (after (run_stage sha R r task p d True E) t)"
    using run_run_stage [OF assms(2)] by (simp add: act_run_def)
  then show thesis
    by (intro that [OF dt(1-3) su dt(4)]) (use dt p auth fin in auto)
qed


text \<open>
  Property C31. No effect without permission: a stage that reaches outside is executed only after
  the ledger the reconciliation started from authorised that very stage of that very objective.
\<close>

theorem external_execution_is_authorized:
  assumes "Execute k g a \<in> set (calls (reconcile_claimed sha R r E) s)" and "env_ok sha E"
    and "g \<in> set EXTERNAL_DELIVERY_STAGES"
  shows "\<exists>p. delivery_stage_authorization k (stage_name g) (e_permit E) s = Inr p \<and> authorized p"
  using claimed_executes [OF assms(1,2)] assms(3) by metis

definition demo_row :: "store \<Rightarrow> objective_row" where
  "demo_row s = the (row_get o_id demo_oid (objectives s))"


definition demo_integrating :: store where
  "demo_integrating = (let s = ran (claim_delivery_objective demo_oid ''host'' 1 1 600 110 demo_granted)
     in s\<lparr>objectives := map (\<lambda>r. r\<lparr>o_stage := Integrate\<rparr>) (objectives s)\<rparr>)"

theorem external_execution_is_authorized_witness:
  "\<exists>p. Execute demo_oid Integrate 1 \<in> set (calls (reconcile_claimed demo_sha (demo_reconciler demo_success)
      (demo_row demo_integrating) (quiet_env 120)) demo_integrating)
    \<and> delivery_stage_authorization demo_oid (stage_name Integrate) 120 demo_integrating = Inr p \<and> authorized p"
proof -
  have c: "Execute demo_oid Integrate 1 \<in> set (calls (reconcile_claimed demo_sha (demo_reconciler demo_success)
      (demo_row demo_integrating) (quiet_env 120)) demo_integrating)" by code_simp
  have "e_permit (quiet_env 120) = 120" by (simp add: quiet_env_def)
  with external_execution_is_authorized [OF c quiet_env_ok] c show ?thesis
    by (auto simp: EXTERNAL_DELIVERY_STAGES_def)
qed

section \<open>Failures of the adapter\<close>

lemma bindA_Inr: "bindA m f s = (Inr y, u, cs) \<longleftrightarrow> (\<exists>x t c1 c2. m s = (Inr x, t, c1) \<and> f x t = (Inr y, u, c2) \<and> cs = c1 @ c2)"
  by (auto simp: bindA_def split: sum.splits prod.splits)

lemma retA_Inr: "retA x s = (Inr y, t, cs) \<longleftrightarrow> y = x \<and> t = s \<and> cs = []"
  by (auto simp: retA_def)

lemma txA_Inr: "txA f s = (Inr y, t, cs) \<longleftrightarrow> f s = Inr (y, t) \<and> cs = []"
  by (auto simp: txA_def split: sum.splits prod.splits)

lemma othersA_Inr: "othersA w s = (Inr y, t, cs) \<longleftrightarrow> t = w s \<and> cs = []"
  by (auto simp: othersA_def)

lemma invoke_raised:
  assumes "k_adapter R = Some a" and "\<And>ctx. ad_execute a ctx = Raised text"
  shows "invoke_adapter R ctx True s = (Inr (adapter_raised (c_dispatch ctx) text), s,
    [Execute (o_id (c_objective ctx)) (c_stage ctx) (c_attempt ctx)])"
  by (simp add: invoke_adapter_def assms callA_def adapter_outcome_def)

text \<open>An outcome that is not a failed one passes the rollback step unchanged.\<close>

lemma rollback_only_failed: "x_status x \<noteq> ''failed'' \<Longrightarrow> apply_preauthorized_rollback R ctx E held x s = (Inr (x, held), s, [])"
  by (simp add: apply_preauthorized_rollback_def bindA_def readA_def retA_def)

lemma run_stage_raised:
  assumes "k_adapter R = Some a" and "\<And>ctx. ad_execute a ctx = Raised text"
    and "fst (run_stage sha R r task p d True E s) = Inr (Recorded x r' dup)"
  obtains held u t where "record_delivery_stage_receipt sha (o_id held) (d_id d @ '':indeterminate'')
      (outcome_report R held (adapter_raised (d_id d) text) (Some (d_id d))) (e_end E) u = Inr ((x, r', dup), t)"
proof -
  let ?x = "adapter_raised (d_id d) text"
  have st: "x_status ?x = ''indeterminate''" "x_receipt_id ?x = d_id d @ '':indeterminate''"
    by (simp_all add: adapter_raised_def own_outcome_def)
  obtain t cs where run: "run_stage sha R r task p d True E s = (Inr (Recorded x r' dup), t, cs)"
    using assms(3) by (metis prod.collapse)
  then obtain held s2 c2 u where "(case snd held of Some e \<Rightarrow> failA e
      | None \<Rightarrow> record_outcome sha R (fst held) ?x (Some (d_id d)) (e_end E)) u = (Inr (Recorded x r' dup), t, c2)"
    unfolding run_stage_def Let_def bindA_Inr invoke_raised [OF assms(1,2)]
    by (auto simp: rollback_only_failed st retA_Inr othersA_Inr bindA_Inr split: if_splits)
  then have "record_outcome sha R (fst held) ?x (Some (d_id d)) (e_end E) u = (Inr (Recorded x r' dup), t, c2)"
    by (auto simp: failA_def split: option.splits)
  then have "record_delivery_stage_receipt sha (o_id (fst held)) (x_receipt_id ?x)
      (outcome_report R (fst held) ?x (Some (d_id d))) (e_end E) u = Inr ((x, r', dup), t)"
    by (auto simp: record_outcome_def st bindA_Inr txA_Inr retA_Inr)
  then show thesis using that st(2) by simp
qed

text \<open>
  Property C32. An adapter that raises is never retried blindly: when the execution of a stage
  raised and its receipt was recorded, the receipt is indeterminate with the kind
  unknown-effects, and the objective stops for a decision without a lease or a wakeup.
\<close>

theorem raised_execution_stops:
  assumes "reconcile_claimed sha R r E s = (Inr (Recorded x r' False), t, cs)" and "env_ok sha E"
    and "k_adapter R = Some a" and "\<And>ctx. ad_execute a ctx = Raised text" and "Execute k g n \<in> set cs"
  shows "s_state x = RIndeterminate \<and> kind_of (dget (s_receipt x) ''failure'') = VStr ''unknown-effects''
    \<and> o_state r' = ONeedsDecision \<and> o_lease r' = 0 \<and> o_wakeup r' = None"
proof -
  have "Execute k g n \<in> set (calls (reconcile_claimed sha R r E) s)" using assms(1,5) by simp
  from claimed_executes [OF this assms(2)] obtain d v task p where
    "fst (reconcile_claimed sha R r E s) = fst (run_stage sha R r task p d True E v)" by metis
  then have "fst (run_stage sha R r task p d True E v) = Inr (Recorded x r' False)" using assms(1) by simp
  from run_stage_raised [OF assms(3,4) this] obtain held u w where
    rec: "record_delivery_stage_receipt sha (o_id held) (d_id d @ '':indeterminate'')
      (outcome_report R held (adapter_raised (d_id d) text) (Some (d_id d))) (e_end E) u = Inr ((x, r', False), w)" .
  let ?rep = "outcome_report R held (adapter_raised (d_id d) text) (Some (d_id d))"
  have rep: "rep_state ?rep = None" "rep_status ?rep = Some ''indeterminate''" "rep_retry ?rep = False"
    "rep_failure ?rep = VDict [(''kind'', VStr ''unknown-effects''),
       (''detail'', VStr ''stage adapter raised after durable dispatch intent; reconcile authoritatively'')]"
    by (simp_all add: outcome_report_def adapter_raised_def own_outcome_def)
  from rec obtain c r0 stages merged st where c: "check_report sha (o_id held) (d_id d @ '':indeterminate'') ?rep = Inr c"
    and a: "apply_receipt (d_id d @ '':indeterminate'') ?rep c r0 merged st (e_end E) u = Inr ((x, r', False), w)"
    by (rule receipt_cases) auto
  have "report_state ?rep = Inr RIndeterminate"
    by (simp add: report_state_def rep receipt_state_of_name_def)
  then have state: "k_state c = RIndeterminate" and fail: "report_failure RIndeterminate (rep_failure ?rep) = Inr (k_failure c)"
    using c by (auto simp: check_report_def res_simps Let_def split: if_splits)
  have "normalize_wait_reason (VDict [(''kind'', VStr ''unknown-effects''),
       (''detail'', VStr ''stage adapter raised after durable dispatch intent; reconcile authoritatively'')])
     (Some ''verification-failure'') = Inr (VDict [(''kind'', VStr ''unknown-effects''),
       (''detail'', VStr ''stage adapter raised after durable dispatch intent; reconcile authoritatively'')])"
    by code_simp
  then have failure: "k_failure c = Some (rep_failure ?rep)" using fail by (simp add: report_failure_def rep(4))
  from apply_receipt_Inr [OF a] have x: "x = receipt_row (d_id d @ '':indeterminate'') r0 ?rep c (e_end E)" by auto
  have kind: "kind_of (dget (s_receipt x) ''failure'') = VStr ''unknown-effects''"
    by (simp add: x receipt_row_def failure rep(4) kind_of_def dget_canonical del: canonical_json.simps)
      (simp add: dget_def dget_or_def items_of_def)
  have xs: "s_state x = RIndeterminate" by (simp add: x receipt_row_def state)
  with charged_failure [OF rec] rep(3) have "o_state r' = ONeedsDecision \<and> o_lease r' = 0 \<and> o_wakeup r' = None" by auto
  with kind xs show ?thesis by blast
qed

theorem raised_execution_stops_witness:
  "\<exists>x r t. reconcile_claimed demo_sha (demo_reconciler (Raised ''OSError'')) (demo_row demo_leased) (quiet_env 120)
      demo_leased = (Inr (Recorded x r False), t, [Execute demo_oid Plan 1])
    \<and> s_state x = RIndeterminate \<and> o_state r = ONeedsDecision"
proof -
  have "(case reconcile_claimed demo_sha (demo_reconciler (Raised ''OSError'')) (demo_row demo_leased) (quiet_env 120)
      demo_leased of (Inr (Recorded x r False), t, cs) \<Rightarrow> cs = [Execute demo_oid Plan 1] | _ \<Rightarrow> False)" by code_simp
  then obtain x r t where run: "reconcile_claimed demo_sha (demo_reconciler (Raised ''OSError'')) (demo_row demo_leased)
      (quiet_env 120) demo_leased = (Inr (Recorded x r False), t, [Execute demo_oid Plan 1])"
    by (auto split: prod.splits sum.splits reconciled.splits bool.splits)
  have "k_adapter (demo_reconciler (Raised ''OSError'')) = Some \<lparr>ad_name = ''demo'',
      ad_execute = (\<lambda>_. Raised ''OSError''), ad_reconcile = None, ad_rollback = None\<rparr>"
    by (simp add: demo_reconciler_def)
  from raised_execution_stops [OF run quiet_env_ok this, of "''OSError''" demo_oid Plan 1] run show ?thesis by auto
qed

section \<open>A verified rollback\<close>

text \<open>
  Property C37. A rollback that was verified and stored is not recognised again: when the
  reconciler meets a failed deployment whose dispatch already carries the verified rollback (it
  was settled before a crash, the receipt of the stage was not), it reports the effects as
  unknown and the rollback as unresolved. The branch reads the state of the dispatch, which is
  still started, instead of the state of its rollback.
\<close>

theorem verified_rollback_forgotten:
  assumes "row_get d_id (c_dispatch ctx) (dispatches s) = Some d" and "d_stage d = Deploy"
    and "d_state d = DStarted" and "d_rollback d = Some DSettled" and "\<not> blank (c_dispatch ctx)"
    and "row_get o_id (d_objective d) (objectives s) = Some r"
    and "lease_live s r (k_epoch R) (o_lease (c_objective ctx)) (utc (e_rollback E))"
    and "x_status x = ''failed''" and "rollback_policy_is_preauthorized (o_request (c_objective ctx)) = Inr True"
  shows "\<exists>y. apply_preauthorized_rollback R ctx E held x s = (Inr (y, held), s, [])
    \<and> x_status y = ''indeterminate'' \<and> kind_of (x_failure y) = VStr ''unknown-effects''
    \<and> dget (x_receipt y) ''rollback'' = VDict [(''state'', VStr ''started'')]"
proof -
  have "begin_delivery_stage_rollback (c_dispatch ctx) (k_epoch R) (o_lease (c_objective ctx)) (e_rollback E) s
      = Inr ((d, False), s)"
    using assms(1-7) by (simp add: begin_delivery_stage_rollback_def res_simps)
  then show ?thesis using assms(3,8,9)
    by (simp add: apply_preauthorized_rollback_def bindA_def readA_def txA_def retA_def unresolved_def
        with_rollback_def kind_of_def dget_def dget_or_def items_of_def map_of_dict_set)
qed

definition demo_rolled_back :: store where
  "demo_rolled_back = demo_rollout\<lparr>dispatches := map (\<lambda>d. d\<lparr>d_rollback := Some DSettled,
     d_rollback_receipt := Some (VDict [(''verified'', VBool True)])\<rparr>) (dispatches demo_rollout)\<rparr>"

definition demo_rollback_context :: stage_context where
  "demo_rollback_context = \<lparr>c_objective = (demo_row demo_leased)\<lparr>o_request := VDict [(''requested_endpoints'',
       VDict [(''deployment'', VDict [(''rollback_policy'', VDict [(''preauthorized'', VBool True),
         (''reversible'', VBool True)])])])]\<rparr>,
     c_task = None, c_stage = Deploy, c_attempt = 1, c_dispatch = ''dp'', c_authority = NoEndpoint\<rparr>"

definition demo_failed_deploy :: outcome where
  "demo_failed_deploy = own_outcome ''r5'' ''failed'' [] ''verification-failure'' ''down''"

theorem verified_rollback_forgotten_witness:
  "\<exists>d y. row_get d_id ''dp'' (dispatches demo_rolled_back) = Some d
    \<and> d_rollback_receipt d = Some (VDict [(''verified'', VBool True)])
    \<and> apply_preauthorized_rollback (demo_reconciler Malformed) demo_rollback_context (quiet_env 120)
        (demo_row demo_leased, None) demo_failed_deploy demo_rolled_back
      = (Inr (y, (demo_row demo_leased, None)), demo_rolled_back, [])
    \<and> x_status y = ''indeterminate''"
proof -
  let ?R = "demo_reconciler Malformed" and ?ctx = demo_rollback_context and ?s = demo_rolled_back
  have "(case row_get d_id (c_dispatch ?ctx) (dispatches ?s) of None \<Rightarrow> False | Some d \<Rightarrow>
      d_stage d = Deploy \<and> d_state d = DStarted \<and> d_rollback d = Some DSettled
      \<and> d_rollback_receipt d = Some (VDict [(''verified'', VBool True)])
      \<and> (case row_get o_id (d_objective d) (objectives ?s) of None \<Rightarrow> False
         | Some r \<Rightarrow> assert_objective_lease ?s r (k_epoch ?R) (o_lease (c_objective ?ctx)) (utc (e_rollback (quiet_env 120)))
             = Inr ()))" by code_simp
  then obtain d r where d: "row_get d_id (c_dispatch ?ctx) (dispatches ?s) = Some d" "d_stage d = Deploy"
      "d_state d = DStarted" "d_rollback d = Some DSettled" "row_get o_id (d_objective d) (objectives ?s) = Some r"
      "lease_live ?s r (k_epoch ?R) (o_lease (c_objective ?ctx)) (utc (e_rollback (quiet_env 120)))"
    and rc: "d_rollback_receipt d = Some (VDict [(''verified'', VBool True)])"
    by (auto simp: assert_objective_lease_Inr split: option.splits)
  have "\<not> blank (c_dispatch ?ctx)" "x_status demo_failed_deploy = ''failed''"
    "rollback_policy_is_preauthorized (o_request (c_objective ?ctx)) = Inr True" by code_simp+
  from verified_rollback_forgotten [OF d(1-4) this(1) d(5,6) this(2,3)]
  obtain y where "apply_preauthorized_rollback ?R ?ctx (quiet_env 120) (demo_row demo_leased, None) demo_failed_deploy ?s
      = (Inr (y, (demo_row demo_leased, None)), ?s, [])" "x_status y = ''indeterminate''" by blast
  moreover have "c_dispatch ?ctx = ''dp''" by (simp add: demo_rollback_context_def)
  ultimately show ?thesis using d(1) rc by auto
qed

end
