(* ===== verification/Node_Settle.thy ===== *)
theory Node_Settle
  imports Node_Claim
begin

text \<open>
  Settling a node (\<open>store.py\<close> lines 9132 to 9177, 13309 to 13838 and 13839 to 15145): the contract of
  a result, the transition of the node and its task, retries and owner repairs, the rollback of a
  recovery that was never prepared, and what a restart or a conflict leaves behind.

  \<open>judge\<close> collects what a settlement asks of code outside the ledger: the artifact store, the
  validators of attribution and of Archify evidence, and the module of accepted-source repairs.
\<close>

section \<open>Results\<close>

record node_result =
  h_status :: string
  h_summary :: string
  h_artifacts :: "(string \<times> string) list"
  h_actual_model :: "string option"
  h_exit_code :: "int option"
  h_retryable :: bool
  h_kind :: "string option"
  h_changed :: "string list"
  h_checks :: "string list"
  h_evidence :: "string list"
  h_verdict :: "string option"
  h_repair :: "string list"
  h_profile :: string
  h_tier :: string
  h_requested :: "string option"
  h_provider :: "string option"
  h_agent :: "string option"
  h_agent_version :: "string option"
  h_snapshot :: "string option"
  h_model_capability :: "string option"
  h_agent_capability :: "string option"
  h_attribution :: pyval

definition plain_result :: "string \<Rightarrow> string \<Rightarrow> node_result" where
  "plain_result status summary = \<lparr>h_status = status, h_summary = summary, h_artifacts = [],
     h_actual_model = None, h_exit_code = None, h_retryable = False, h_kind = None, h_changed = [],
     h_checks = [], h_evidence = [], h_verdict = None, h_repair = [], h_profile = ''code-as-harness/v1'',
     h_tier = ''L2'', h_requested = None, h_provider = None, h_agent = None, h_agent_version = None,
     h_snapshot = None, h_model_capability = None, h_agent_capability = None, h_attribution = VNone\<rparr>"

definition result_document :: "node_result \<Rightarrow> pyval" where
  "result_document h = VDict [(''status'', VStr (h_status h)), (''summary'', VStr (h_summary h)),
     (''artifacts'', VDict (map (\<lambda>(k, v). (k, VStr v)) (h_artifacts h))),
     (''actual_model'', opt_str (h_actual_model h)),
     (''exit_code'', (case h_exit_code h of None \<Rightarrow> VNone | Some i \<Rightarrow> VInt i)),
     (''retryable'', VBool (h_retryable h)), (''result_kind'', opt_str (h_kind h)),
     (''changed_paths'', strs (h_changed h)), (''checks'', strs (h_checks h)),
     (''evidence'', strs (h_evidence h)), (''verdict'', opt_str (h_verdict h)),
     (''repair_node_ids'', strs (h_repair h)), (''governance_profile'', VStr (h_profile h)),
     (''verification_tier'', VStr (h_tier h)), (''requested_model'', opt_str (h_requested h)),
     (''provider'', opt_str (h_provider h)), (''agent_name'', opt_str (h_agent h)),
     (''agent_version'', opt_str (h_agent_version h)), (''capability_snapshot_id'', opt_str (h_snapshot h)),
     (''model_capability_id'', opt_str (h_model_capability h)),
     (''agent_capability_id'', opt_str (h_agent_capability h)),
     (''execution_attribution'', h_attribution h)]"

record judge =
  j_attribution :: "node_row \<Rightarrow> task_row \<Rightarrow> node_result \<Rightarrow> bool \<Rightarrow> store \<Rightarrow> unit res"
  j_artifacts :: "string list \<Rightarrow> unit res"
  j_archify :: "node_result \<Rightarrow> unit res"
  j_accepted :: "pyval option \<Rightarrow> int \<Rightarrow> accepted_binding option res"
  j_historical :: "node_row \<Rightarrow> task_row \<Rightarrow> store \<Rightarrow> pyval option res"
  j_repair :: "string \<Rightarrow> string list \<Rightarrow> string \<Rightarrow> int \<Rightarrow> int \<Rightarrow> store \<Rightarrow> (string \<times> accepted_binding) list res"

section \<open>The contract of a result\<close>

definition actual_model_matches_lease :: "string \<Rightarrow> string \<Rightarrow> string option \<Rightarrow> bool" where
  "actual_model_matches_lease executor leased actual = (case actual of
      None \<Rightarrow> False
    | Some m \<Rightarrow> (let l = lower (strip leased); a = lower (strip m) in
        if executor \<noteq> ''claude'' then a = l
        else if l \<in> {''opus'', ''sonnet'', ''fable''} then contains_str l a
        else a = l \<or> starts_with (l @ ''-'') a))"

definition column :: "string option \<Rightarrow> string" where
  "column v = (case v of None \<Rightarrow> [] | Some t \<Rightarrow> t)"

definition validate_actual_model :: "node_row \<Rightarrow> node_result \<Rightarrow> unit res" where
  "validate_actual_model n h =
    (if h_status h \<in> {''succeeded'', ''failed''} \<and> column (n_executor n) \<in> {''codex'', ''claude''}
        \<and> \<not> (h_actual_model h = None \<and> h_attribution h \<noteq> VNone)
        \<and> \<not> actual_model_matches_lease (column (n_executor n)) (column (n_model n)) (h_actual_model h)
     then Inl (ValueError ''result actual_model does not match leased model'') else Inr ())"

definition verifier_contract :: "node_row \<Rightarrow> node_result \<Rightarrow> unit res" where
  "verifier_contract n h =
    (if h_kind h \<noteq> Some ''verifier'' then Inl (ValueError ''verifier result must declare result_kind=verifier'')
     else bindR (validate_actual_model n h) (\<lambda>_.
     if \<not> is_codex_control_plane_model (column (n_model n))
     then Inl (ValueError ''only an exact Codex control-plane verifier may settle the verifier node'')
     else let expected = map_of [(''succeeded'', ''accepted''), (''failed'', ''needs_fix''), (''blocked'', ''blocked'')] (h_status h) in
     if expected \<noteq> None \<and> h_verdict h \<noteq> expected
     then Inl (ValueError ''verifier result status requires another verdict'')
     else if h_status h \<in> {''blocked'', ''indeterminate''} then Inr ()
     else if h_checks h = [] then Inl (ValueError ''verifier result must contain structured checks'')
     else if h_evidence h = [] then Inl (ValueError ''verifier result must contain structured evidence'')
     else Inr ()))"

definition recovery_contract :: "node_result \<Rightarrow> unit res" where
  "recovery_contract h =
    (if h_provider h \<noteq> Some ''workbench-dirty-worktree-recovery''
     then Inl (ValueError ''dirty-worktree recovery result must use its exact recovery provider'')
     else if h_actual_model h \<noteq> None
     then Inl (ValueError ''dirty-worktree recovery result must not attest a native model'')
     else if h_kind h \<noteq> Some ''worker''
     then Inl (ValueError ''dirty-worktree recovery result must declare result_kind=worker'')
     else if h_checks h = [] \<or> h_artifacts h = []
     then Inl (ValueError ''dirty-worktree recovery result must contain structured checks and artifacts'')
     else Inr ())"

definition worker_contract :: "judge \<Rightarrow> node_row \<Rightarrow> node_result \<Rightarrow> bool \<Rightarrow> unit res" where
  "worker_contract J n h verify =
    (if h_kind h \<noteq> Some ''worker'' then Inl (ValueError ''worker result must declare result_kind=worker'')
     else bindR (validate_actual_model n h) (\<lambda>_.
     if h_status h = ''succeeded'' \<and> h_checks h = []
     then Inl (ValueError ''successful worker result must contain structured checks'')
     else let directive = dget (n_spec n) ''archify'' in
     if h_status h = ''succeeded'' \<and> py_eq (dget directive ''schema_version'') (VInt 1)
        \<and> is_true (dget directive ''artifact_required'') \<and> verify
     then j_archify J h else Inr ()))"

definition validate_result_contract ::
  "judge \<Rightarrow> node_row \<Rightarrow> task_row \<Rightarrow> node_result \<Rightarrow> bool \<Rightarrow> store \<Rightarrow> unit res" where
  "validate_result_contract J n t h verify s = (let spec = n_spec n; contract = t_contract t in
     bindR (dirty_worktree_recovery_for_settlement (n_recovery n) (n_attempt n)) (\<lambda>recovery.
     bindR (j_attribution J n t h verify s) (\<lambda>_.
     if h_repair h \<noteq> [] \<and> (\<not> is_verifier spec \<or> h_status h \<noteq> ''failed'' \<or> h_verdict h \<noteq> Some ''needs_fix''
        \<or> 32 < length (h_repair h) \<or> [] \<in> set (h_repair h) \<or> \<not> distinct (h_repair h))
     then Inl (ValueError ''repair_node_ids require a failed verifier and unique bounded owner IDs'')
     else if (dget spec ''executor'' = VStr ''fixture'' \<or> dget spec ''model'' = VStr ''fixture'') \<and> recovery = None
     then Inr ()
     else bindR (governance_identity (text_of (dget_or contract ''governance_profile'' (VStr ''code-as-harness/v1'')))
        (text_of (dget_or contract ''verification_tier'' (VStr ''L2'')))) (\<lambda>(profile, tier).
     if h_profile h \<noteq> profile then Inl (ValueError ''result governance profile does not match contract profile'')
     else if h_tier h \<noteq> tier then Inl (ValueError ''result verification tier does not match contract tier'')
     else if recovery \<noteq> None then recovery_contract h
     else if h_provider h = Some ''workbench-dirty-worktree-recovery''
     then Inl (ValueError ''dirty-worktree recovery provider has no persisted receipt'')
     else if is_verifier spec then verifier_contract n h
     else worker_contract J n h verify))))"

text \<open>The evidence the contract requires before a verifier may accept.\<close>

definition missing_required_artifacts :: "string \<Rightarrow> pyval \<Rightarrow> node_result \<Rightarrow> store \<Rightarrow> string list" where
  "missing_required_artifacts task contract h s = (let rows = filter (\<lambda>n. n_task n = task) (nodes s) in
     if rows \<noteq> [] \<and> list_all (\<lambda>n. dget (n_spec n) ''executor'' = VStr ''fixture'') rows then []
     else let keys = map fst (h_artifacts h) @ concat (map (\<lambda>n. case n_result n of
            None \<Rightarrow> [] | Some doc \<Rightarrow> map fst (items_of (dget doc ''artifacts''))) rows);
         present = (\<lambda>required.
           if required = ''diff'' then ''patch'' \<in> set keys
           else if required = ''test-log'' then list_ex (\<lambda>k. k \<in> set keys) [''test-log'', ''stdout'', ''stderr'']
           else if required = ''verdict'' then \<not> blank (h_summary h)
           else required \<in> set keys)
       in filter (\<lambda>required. \<not> present required) (str_items (dget contract ''required_artifacts'')))"

section \<open>The lease and the preflight\<close>

definition leased_row :: "string \<Rightarrow> string \<Rightarrow> store \<Rightarrow> (node_row \<times> task_row) option" where
  "leased_row task node s = Option.bind (row_get node_key (task, node) (nodes s)) (joined s)"

definition require_lease :: "string \<Rightarrow> string \<Rightarrow> int \<Rightarrow> int \<Rightarrow> int \<Rightarrow> store \<Rightarrow> (node_row \<times> task_row) res" where
  "require_lease task node attempt epoch lease s = bindR (assert_active_coordinator epoch s) (\<lambda>_.
     bindR (require (KeyError node) (leased_row task node s)) (\<lambda>(n, t).
     if n_state n \<noteq> NRunning then Inl (StateConflictError ''node is not running'')
     else if n_attempt n \<noteq> attempt \<or> n_epoch n \<noteq> epoch \<or> n_lease n \<noteq> lease
     then Inl (StateConflictError ''node lease is stale'')
     else Inr (n, t)))"

definition prevalidate_settlement ::
  "judge \<Rightarrow> string \<Rightarrow> string \<Rightarrow> node_result \<Rightarrow> int \<Rightarrow> int \<Rightarrow> int \<Rightarrow> store \<Rightarrow> (node_row \<times> task_row) res" where
  "prevalidate_settlement J task node h attempt epoch lease s =
    bindR (require_lease task node attempt epoch lease s) (\<lambda>(n, t).
    bindR (failed_attempt_recovery_binding (n_recovery n) attempt True) (\<lambda>failed.
    if (case failed of Some b \<Rightarrow> fb_state b = ''capture_pending'' | None \<Rightarrow> False) then Inr (n, t)
    else bindR (j_accepted J (n_recovery n) attempt) (\<lambda>accepted.
    bindR (if accepted \<noteq> None \<and> n_worktree n = None then Inr None else j_historical J n t s) (\<lambda>_.
    bindR (validate_result_contract J n t h True s) (\<lambda>_.
    bindR (j_artifacts J (map snd (h_artifacts h))) (\<lambda>_.
    bindR (if \<not> (accepted \<noteq> None \<and> n_worktree n = None) \<and> is_verifier (n_spec n)
           \<and> dget (n_spec n) ''executor'' \<noteq> VStr ''fixture''
        then j_artifacts J (h_evidence h) else Inr ()) (\<lambda>_. Inr (n, t))))))))"

text \<open>The fields a settlement must find unchanged.\<close>

definition same_inputs :: "node_row \<times> task_row \<Rightarrow> node_row \<times> task_row \<Rightarrow> bool" where
  "same_inputs a b = (case (a, b) of ((n, t), (m, u)) \<Rightarrow>
     n_state n = n_state m \<and> n_attempt n = n_attempt m \<and> n_epoch n = n_epoch m \<and> n_lease n = n_lease m
     \<and> n_worktree n = n_worktree m \<and> n_executor n = n_executor m \<and> n_model n = n_model m
     \<and> n_spec n = n_spec m \<and> n_recovery n = n_recovery m \<and> t_contract t = t_contract u)"

section \<open>Approvals and steering\<close>

definition approval_id_of :: "(pyval \<Rightarrow> string) \<Rightarrow> string \<Rightarrow> string \<Rightarrow> int \<Rightarrow> string" where
  "approval_id_of sha task node attempt = ''approval-'' @ take 24 (canonical_hash sha
     (VDict [(''kind'', VStr ''indeterminate_resolution''), (''task_id'', VStr task), (''node_id'', VStr node),
       (''attempt'', VInt attempt)]))"

text \<open>\<open>INSERT OR IGNORE\<close>: an approval of the same node attempt is kept as it is.\<close>

definition create_indeterminate_approval ::
  "(pyval \<Rightarrow> string) \<Rightarrow> string \<Rightarrow> string \<Rightarrow> int \<Rightarrow> int \<Rightarrow> string \<Rightarrow> stamp \<Rightarrow> store \<Rightarrow> store" where
  "create_indeterminate_approval sha task node attempt revision reason ts s =
    (let k = approval_id_of sha task node attempt in
     if row_get y_id k (approvals s) \<noteq> None then s
     else snd (emit_event ''approval.requested'' (Some task) (Some node)
       [(''approval_id'', VStr k), (''kind'', VStr ''indeterminate_resolution''), (''attempt'', VInt attempt),
        (''task_revision'', VInt revision)] ts
       (s\<lparr>approvals := approvals s @ [\<lparr>y_id = k, y_task = task, y_kind = ''indeterminate_resolution'',
          y_request = canonical_json (VDict [(''node_id'', VStr node), (''attempt'', VInt attempt),
            (''task_revision_at_request'', VInt revision), (''reason'', VStr reason),
            (''allowed_decisions'', strs [''retry'', ''fail'', ''cancel''])]),
          y_decision = None, y_decided = None, y_created = ts\<rparr>]\<rparr>)))"

definition next_steering_sequence :: "string \<Rightarrow> store \<Rightarrow> int" where
  "next_steering_sequence task s = foldr max (map g_sequence (filter (\<lambda>g. g_task g = task) (steering s))) 0 + 1"

text \<open>\<open>INSERT OR IGNORE INTO task_steering\<close>, with whether it inserted.\<close>

definition add_steering :: "steering_row \<Rightarrow> store \<Rightarrow> bool \<times> store" where
  "add_steering g s = (if row_get g_id (g_id g) (steering s) \<noteq> None then (False, s)
     else (True, s\<lparr>steering := steering s @ [g]\<rparr>))"

definition steering_id_of :: "(pyval \<Rightarrow> string) \<Rightarrow> items \<Rightarrow> string" where
  "steering_id_of sha kvs = ''steering-'' @ take 24 (canonical_hash sha (VDict kvs))"

definition delivered :: "string \<Rightarrow> string \<Rightarrow> int \<Rightarrow> store \<Rightarrow> steering_row \<Rightarrow> bool" where
  "delivered task node attempt s g \<longleftrightarrow> list_ex (\<lambda>(_, payload). dget payload ''steering_id'' = VStr (g_id g)
     \<and> dget payload ''attempt'' = VInt attempt) (node_events ''task.steering_delivered'' task node s)"

definition continue_one ::
  "(pyval \<Rightarrow> string) \<Rightarrow> string \<Rightarrow> string \<Rightarrow> int \<Rightarrow> stamp \<Rightarrow> steering_row \<Rightarrow> pyval list \<times> store \<Rightarrow> pyval list \<times> store" where
  "continue_one sha task node target ts g acc = (case acc of (continued, s) \<Rightarrow>
     let k = steering_id_of sha [(''kind'', VStr ''accepted-source-preparation-continuation''),
           (''source_steering_id'', VStr (g_id g)), (''task_id'', VStr task), (''node_id'', VStr node),
           (''target_attempt'', VInt target)]
     in case add_steering \<lparr>g_id = k, g_task = task, g_instruction = g_instruction g, g_created = ts,
          g_sequence = next_steering_sequence task s, g_scope = ''attempt'', g_node = Some node,
          g_attempt = Some target\<rparr> s of
        (True, t) \<Rightarrow> (continued @ [VDict [(''source_steering_id'', VStr (g_id g)), (''steering_id'', VStr k),
          (''target_attempt'', VInt target)]], t)
      | (False, t) \<Rightarrow> (continued, t))"

definition continue_attempt_steering ::
  "(pyval \<Rightarrow> string) \<Rightarrow> string \<Rightarrow> string \<Rightarrow> int \<Rightarrow> int \<Rightarrow> stamp \<Rightarrow> store \<Rightarrow> pyval list \<times> store" where
  "continue_attempt_steering sha task node source target ts s =
    fold (continue_one sha task node target ts)
      (sort_key g_sequence (filter (\<lambda>g. g_task g = task \<and> g_scope g = ''attempt'' \<and> g_node g = Some node
         \<and> g_attempt g = Some source \<and> delivered task node source s g) (steering s))) ([], s)"

section \<open>Rows\<close>

definition released_node :: "pyval option \<Rightarrow> stamp \<Rightarrow> node_row \<Rightarrow> node_row" where
  "released_node recovery ts n = n\<lparr>n_state := NPending, n_worker := None, n_worktree := None, n_executor := None,
     n_model := None, n_started := None, n_settled := None, n_result := None, n_recovery := recovery,
     n_epoch := 0, n_lease := 0, n_updated := ts\<rparr>"

definition retried_node :: "stamp \<Rightarrow> node_row \<Rightarrow> node_row" where
  "retried_node ts n = n\<lparr>n_state := NPending, n_worker := None, n_started := None, n_settled := None, n_updated := ts\<rparr>"

definition settled_node :: "node_state \<Rightarrow> pyval \<Rightarrow> stamp \<Rightarrow> node_row \<Rightarrow> node_row" where
  "settled_node st doc ts n = n\<lparr>n_state := st, n_settled := Some ts, n_updated := ts,
     n_result := Some doc, n_recovery := None\<rparr>"

definition restored_node ::
  "node_state \<Rightarrow> int \<Rightarrow> string option \<Rightarrow> pyval option \<Rightarrow> pyval option \<Rightarrow> stamp \<Rightarrow> node_row \<Rightarrow> node_row" where
  "restored_node st attempt worktree doc recovery ts n = n\<lparr>n_state := st, n_attempt := attempt, n_worker := None,
     n_worktree := worktree, n_executor := None, n_model := None, n_started := None, n_settled := Some ts,
     n_result := doc, n_recovery := recovery, n_epoch := 0, n_lease := 0, n_updated := ts\<rparr>"

definition put_node :: "node_row \<Rightarrow> (node_row \<Rightarrow> node_row) \<Rightarrow> store \<Rightarrow> store" where
  "put_node n f s = s\<lparr>nodes := row_put node_key (node_key n) f (nodes s)\<rparr>"

definition put_task :: "string \<Rightarrow> task_state \<Rightarrow> int \<Rightarrow> string option \<Rightarrow> string option \<Rightarrow> stamp \<Rightarrow> store \<Rightarrow> store" where
  "put_task task st revision blocker verdict ts s = s\<lparr>tasks := row_put t_id task (\<lambda>t. t\<lparr>t_state := st,
     t_revision := revision, t_updated := ts, t_blocker := blocker, t_verdict := verdict\<rparr>) (tasks s)\<rparr>"

definition state_event :: "task_row \<Rightarrow> task_state \<Rightarrow> int \<Rightarrow> string option \<Rightarrow> items \<Rightarrow> stamp \<Rightarrow> store \<Rightarrow> store" where
  "state_event t st revision blocker extra ts s = snd (emit_event ''task.state_changed'' (Some (t_id t)) None
     ([(''from'', VStr (task_state_name (t_state t))), (''to'', VStr (task_state_name st)),
       (''revision'', VInt revision), (''blocker'', opt_str blocker)] @ extra) ts s)"

definition node_event :: "string \<Rightarrow> node_row \<Rightarrow> items \<Rightarrow> stamp \<Rightarrow> store \<Rightarrow> store" where
  "node_event kind n payload ts s = snd (emit_event kind (Some (n_task n)) (Some (n_node n)) payload ts s)"

definition under_control :: "task_row \<Rightarrow> bool" where
  "under_control t \<longleftrightarrow> t_state t \<in> {TPaused, TCancelled}"

definition retry_limit_of :: "pyval \<Rightarrow> int" where
  "retry_limit_of contract = (case dget_or contract ''retry_limit'' (VInt 0) of VInt n \<Rightarrow> n | _ \<Rightarrow> 0)"

section \<open>Rollbacks\<close>

definition rollback_authorized_dirty_worktree_recovery ::
  "node_row \<Rightarrow> task_row \<Rightarrow> dirty_binding \<Rightarrow> node_result \<Rightarrow> stamp \<Rightarrow> store \<Rightarrow> store res" where
  "rollback_authorized_dirty_worktree_recovery n t b h ts s =
    (if h_status h \<notin> {''blocked'', ''failed''}
     then Inl (ValueError ''unprepared dirty-worktree recovery may only block or fail'')
     else case row_get w_id (db_allocation b) (allocations s) of
       None \<Rightarrow> Inl (StateConflictError ''dirty-worktree recovery source allocation is no longer active'')
     | Some w \<Rightarrow>
         if w_state w \<noteq> AActive \<or> w_path w \<noteq> db_worktree b \<or> w_branch w \<noteq> db_branch b
         then Inl (StateConflictError ''dirty-worktree recovery source allocation is no longer active'')
         else let revision = t_revision t + 1;
              s1 = put_node n (restored_node NBlocked (db_attempt b) (Some (db_worktree b)) (Some (db_result b)) None ts) s;
              s2 = put_task (t_id t) TBlocked revision (Some (h_summary h)) None ts s1;
              s3 = node_event ''node.blocked_worktree_recovery_rolled_back'' n
                [(''attempt'', VInt (n_attempt n)), (''source_attempt'', VInt (db_attempt b)),
                 (''source_allocation_id'', VStr (db_allocation b)), (''recovery'', db_recovery b),
                 (''preparation_result'', result_document h), (''task_revision'', VInt revision)] ts s2
            in Inr (state_event t TBlocked revision (Some (h_summary h)) [(''recovery_rolled_back'', VBool True)] ts s3))"

definition rollback_states :: "failed_binding \<Rightarrow> (node_state \<times> task_state) res" where
  "rollback_states b =
    (if fb_mode b = VNone then Inr (NFailed, TNeedsFix)
     else if fb_mode b \<noteq> VStr BLOCKED_SOURCE_REPAIR_MODE
     then Inl (StateConflictError ''failed-attempt recovery rollback mode is invalid'')
     else if fb_origin b \<notin> {VStr ''blocked'', VStr ''queued''} \<or> \<not> is_bool (fb_refresh b)
       \<or> is_true (fb_refresh b) \<and> \<not> positive_int (fb_cursor b)
       \<or> \<not> is_true (fb_refresh b) \<and> fb_cursor b \<noteq> VNone
     then Inl (StateConflictError ''blocked source repair rollback state markers are invalid'')
     else Inr (NBlocked, TBlocked))"

definition failed_rollback_event ::
  "node_row \<Rightarrow> failed_binding \<Rightarrow> node_result \<Rightarrow> int \<Rightarrow> bool \<Rightarrow> stamp \<Rightarrow> store \<Rightarrow> store" where
  "failed_rollback_event n b h revision preserved ts s =
    (if fb_mode b = VNone then node_event ''node.failed_attempt_recovery_rejected'' n
       [(''attempt'', VInt (n_attempt n)), (''source_attempt'', VInt (fb_attempt b)),
        (''source_allocation_id'', VStr (fb_allocation b)), (''source'', fb_source b),
        (''rejection'', result_document h), (''task_revision'', VInt revision),
        (''control_state_preserved'', VBool preserved)] ts s
     else node_event ''node.blocked_worktree_recovery_rolled_back'' n
       [(''attempt'', VInt (n_attempt n)), (''source_attempt'', VInt (fb_attempt b)),
        (''source_allocation_id'', VStr (fb_allocation b)),
        (''recovery'', VDict [(''source_attempt'', VInt (fb_attempt b)), (''source_worktree'', VStr (fb_worktree b)),
          (''source_branch'', VStr (fb_branch b)), (''base_sha'', VStr (fb_base b)),
          (''changed_paths'', strs (fb_changed b))]),
        (''preparation_result'', result_document h), (''task_revision'', VInt revision), (''mode'', fb_mode b),
        (''source_node_state'', VStr ''blocked''), (''source_task_state'', VStr ''blocked''),
        (''origin_task_state'', fb_origin b), (''refresh_accepted_ancestors'', fb_refresh b),
        (''owner_repair_event_cursor'', fb_cursor b), (''control_state_preserved'', VBool preserved)] ts s)"

definition rollback_failed_attempt_recovery ::
  "node_row \<Rightarrow> task_row \<Rightarrow> failed_binding \<Rightarrow> node_result \<Rightarrow> stamp \<Rightarrow> store \<Rightarrow> store res" where
  "rollback_failed_attempt_recovery n t b h ts s =
    (if h_provider h \<noteq> Some ''workbench-failed-attempt-recovery'' \<or> h_status h \<notin> {''failed'', ''blocked''}
        \<or> h_kind h \<noteq> Some ''worker''
     then Inl (StateConflictError ''failed-attempt recovery must be rejected before a normal worker can settle'')
     else bindR (rollback_states b) (\<lambda>(node_st, task_st).
     case row_get w_id (fb_allocation b) (allocations s) of
       None \<Rightarrow> Inl (StateConflictError ''failed-attempt recovery source allocation is no longer active'')
     | Some w \<Rightarrow>
         if w_state w \<noteq> AActive \<or> w_path w \<noteq> fb_worktree b \<or> w_branch w \<noteq> fb_branch b \<or> w_base w \<noteq> fb_base b
         then Inl (StateConflictError ''failed-attempt recovery source allocation is no longer active'')
         else let preserved = under_control t;
              revision = (if preserved then t_revision t else t_revision t + 1);
              blocker = (if fb_mode b = VNone then ''failed-attempt recovery rejected: '' @ h_summary h else h_summary h);
              s1 = put_node n (restored_node node_st (fb_attempt b) (Some (fb_worktree b)) (Some (fb_result b)) None ts) s;
              s2 = (if preserved then s1 else put_task (t_id t) task_st revision (Some blocker) None ts s1);
              s3 = failed_rollback_event n b h revision preserved ts s2
            in Inr (if preserved
              then node_event ''task.control_state_preserved'' n [(''state'', VStr (task_state_name (t_state t))),
                (''revision'', VInt revision), (''during'', VStr ''failed_attempt_recovery_rollback'')] ts s3
              else state_event t task_st revision (Some blocker) [(''recovery_rolled_back'', VBool True)] ts s3)))"

definition allocation_current :: "accepted_binding \<Rightarrow> pyval \<Rightarrow> allocation_row \<Rightarrow> bool" where
  "allocation_current b contract w \<longleftrightarrow> w_state w = AActive \<and> VStr (w_repository w) = dget contract ''repository''
     \<and> w_base w = ab_base b \<and> w_branch w = ab_branch b \<and> w_path w = ab_worktree b \<and> w_attempt w = ab_attempt b
     \<and> w_result w = Some (ab_result b)"

definition rollback_unassigned_accepted_source_repair ::
  "(pyval \<Rightarrow> string) \<Rightarrow> node_row \<Rightarrow> task_row \<Rightarrow> accepted_binding \<Rightarrow> node_result \<Rightarrow> stamp \<Rightarrow> store \<Rightarrow> store res" where
  "rollback_unassigned_accepted_source_repair sha n t b h ts s =
    (if h_status h \<notin> {''blocked'', ''failed''}
     then Inl (StateConflictError ''unassigned accepted-source repair may only block or fail'')
     else if (case row_get w_id (ab_allocation b) (allocations s) of None \<Rightarrow> True
        | Some w \<Rightarrow> \<not> allocation_current b (t_contract t) w)
     then Inl (StateConflictError ''accepted-source repair source allocation is no longer current'')
     else let preserved = under_control t; limit = ab_attempt b + 1 + retry_limit_of (t_contract t);
         again = (\<not> preserved \<and> n_attempt n < limit);
         (continued, s0) = (if again
           then continue_attempt_steering sha (n_task n) (n_node n) (n_attempt n) (n_attempt n + 1) ts s else ([], s));
         recovery = Some (canonical_json (ab_document b));
         s1 = put_node n (if again then released_node recovery ts
           else restored_node NBlocked (n_attempt n) None (Some (canonical_json (result_document h))) recovery ts) s0;
         next_st = (if again then TQueued else if ab_requester b = ''blocked_consumer'' then TBlocked else TNeedsFix);
         blocker = (if again then None else Some (''accepted-source repair preparation stopped: '' @ h_summary h));
         revision = (if preserved then t_revision t else t_revision t + 1);
         s2 = (if preserved then s1 else put_task (t_id t) next_st revision blocker None ts s1);
         s3 = node_event ''node.accepted_source_repair_rolled_back'' n
           [(''attempt'', VInt (n_attempt n)), (''source_attempt'', VInt (ab_attempt b)),
            (''source_allocation_id'', VStr (ab_allocation b)), (''requester'', dget (ab_document b) ''requester''),
            (''preparation_result'', result_document h), (''task_revision'', VInt revision),
            (''control_state_preserved'', VBool preserved), (''retry_scheduled'', VBool again),
            (''next_attempt'', if again then VInt (n_attempt n + 1) else VNone),
            (''max_target_attempt'', VInt limit), (''continued_steering'', VList continued)] ts s2
       in Inr (if preserved then s3
         else state_event t next_st revision blocker [(''accepted_source_repair_rolled_back'', VBool True),
           (''accepted_source_repair_retry_scheduled'', VBool again)] ts s3))"

section \<open>The outcome of a result\<close>

definition node_state_of_status :: "string \<Rightarrow> node_state" where
  "node_state_of_status status =
    (if status = ''succeeded'' then NAccepted else if status = ''indeterminate'' then NIndeterminate
     else if status = ''blocked'' then NBlocked else NFailed)"

text \<open>A success of the verifier without the required evidence is a failure.\<close>

definition evidenced_result :: "node_row \<Rightarrow> task_row \<Rightarrow> node_result \<Rightarrow> store \<Rightarrow> node_result" where
  "evidenced_result n t h s = (let missing = missing_required_artifacts (n_task n) (t_contract t) h s in
     if h_status h = ''succeeded'' \<and> is_verifier (n_spec n) \<and> missing \<noteq> []
     then h\<lparr>h_status := ''failed'', h_summary := ''required acceptance Evidence is missing: '' @ join '', '' missing,
       h_retryable := False, h_verdict := Some ''needs_fix''\<rparr>
     else h)"

definition err_message :: "err \<Rightarrow> string" where
  "err_message e = (case e of ValueError t \<Rightarrow> t | KeyError t \<Rightarrow> t | TypeError t \<Rightarrow> t | StateConflictError t \<Rightarrow> t
    | CommandConflictError t \<Rightarrow> t | DeliveryAdmissionBusy t \<Rightarrow> t | IntegrityError t \<Rightarrow> t | AttributeErr t \<Rightarrow> t)"

text \<open>\<open>try: ... except StateConflictError as error\<close>: the value, or the message of the conflict.\<close>

definition catch_conflict :: "'a res \<Rightarrow> (string + 'a) res" where
  "catch_conflict m = (case m of
      Inr x \<Rightarrow> Inr (Inr x)
    | Inl (StateConflictError t) \<Rightarrow> Inr (Inl t)
    | Inl e \<Rightarrow> Inl e)"

text \<open>The owners whose accepted work a rejecting verifier sends back, or why there are none.\<close>

definition owner_repair ::
  "judge \<Rightarrow> node_row \<Rightarrow> task_row \<Rightarrow> node_result \<Rightarrow> store \<Rightarrow> (string + (string \<times> accepted_binding) list) res" where
  "owner_repair J n t h s =
    (if \<not> (is_verifier (n_spec n) \<and> node_state_of_status (h_status h) = NFailed) then Inr (Inr [])
     else if h_repair h = []
     then Inr (Inl ''verifier did not identify source owners; preserve accepted implementations'')
     else if retry_limit_of (t_contract t) < n_attempt n then Inr (Inl ''verifier repair budget exhausted'')
     else catch_conflict (j_repair J (n_task n) (h_repair h) (n_node n) (n_attempt n) (t_revision t + 1) s))"

definition retry_allowed :: "node_row \<Rightarrow> task_row \<Rightarrow> node_result \<Rightarrow> bool" where
  "retry_allowed n t h \<longleftrightarrow> h_retryable h \<and> n_attempt n \<le> retry_limit_of (t_contract t)"

definition worker_retry :: "node_row \<Rightarrow> task_row \<Rightarrow> node_result \<Rightarrow> store \<Rightarrow> (string + items option) res" where
  "worker_retry n t h s =
    (if node_state_of_status (h_status h) \<in> {NFailed, NBlocked} \<and> \<not> is_verifier (n_spec n) \<and> retry_allowed n t h
     then catch_conflict (failed_attempt_recovery_authorization n (t_revision t + 1)
       (Some (canonical_json (result_document h))) plain_retry s)
     else Inr (Inr None))"

section \<open>The transition of the task\<close>

text \<open>What becomes of the task: its state, its blocker and its verdict.\<close>

type_synonym 'a moved = "(task_state \<times> string option \<times> string option) \<times> 'a"

definition repair_owner ::
  "(pyval \<Rightarrow> string) \<Rightarrow> node_row \<Rightarrow> task_row \<Rightarrow> string \<Rightarrow> stamp \<Rightarrow> string \<times> accepted_binding \<Rightarrow> string list \<times> store
    \<Rightarrow> string list \<times> store" where
  "repair_owner sha n t feedback ts ob acc = (case (ob, acc) of ((owner, b), (ids, s)) \<Rightarrow>
     let target = ab_attempt b + 1;
         k = steering_id_of sha [(''task_id'', VStr (n_task n)), (''verifier_node'', VStr (n_node n)),
           (''attempt'', VInt (n_attempt n)), (''owner_node'', VStr owner), (''target_attempt'', VInt target),
           (''feedback'', VStr feedback)];
         s1 = snd (add_steering \<lparr>g_id = k, g_task = n_task n, g_instruction = feedback, g_created = ts,
           g_sequence = next_steering_sequence (n_task n) s, g_scope = ''node'', g_node = Some owner,
           g_attempt = Some target\<rparr> s);
         s2 = s1\<lparr>nodes := row_put node_key (n_task n, owner)
           (\<lambda>m. if n_state m = NAccepted then released_node (Some (canonical_json (ab_document b))) ts m else m) (nodes s1)\<rparr>
     in (ids @ [k], snd (emit_event ''node.accepted_source_repair_authorized'' (Some (n_task n)) (Some owner)
          [(''source_allocation_id'', VStr (ab_allocation b)), (''source_attempt'', VInt (ab_attempt b)),
           (''verifier_node_id'', VStr (n_node n)), (''verifier_attempt'', VInt (n_attempt n)),
           (''authorization_revision'', VInt (t_revision t + 1))] ts s2)))"

definition verifier_rejected ::
  "(pyval \<Rightarrow> string) \<Rightarrow> node_row \<Rightarrow> task_row \<Rightarrow> node_result \<Rightarrow> string + (string \<times> accepted_binding) list \<Rightarrow> stamp \<Rightarrow> store
    \<Rightarrow> store moved" where
  "verifier_rejected sha n t h owners ts s = (case owners of
      Inr (o1 # os) \<Rightarrow>
        (let feedback = take 500 (''Verifier rejected attempt '' @ str_int (n_attempt n) @ '': '' @ h_summary h) in
         case fold (repair_owner sha n t feedback ts) (o1 # os)
           ([], put_node n (\<lambda>m. released_node (n_recovery m) ts m) s) of
           (ids, s1) \<Rightarrow> ((TQueued, None, None), node_event ''task.repair_scheduled'' n
             [(''verifier_attempt'', VInt (n_attempt n)), (''feedback_steering_id'', VStr (hd ids)),
              (''feedback_steering_ids'', strs ids), (''repair_node_ids'', strs (map fst (o1 # os))),
              (''accepted_ancestors_preserved'', VBool True)] ts s1))
    | _ \<Rightarrow> (let reason = (case owners of Inl e \<Rightarrow> e | Inr _ \<Rightarrow> ''None'') in
         ((TNeedsFix, Some (h_summary h @ ''; '' @ reason), None),
          node_event ''task.repair_owner_required'' n [(''verifier_attempt'', VInt (n_attempt n)),
            (''reason'', case owners of Inl e \<Rightarrow> VStr e | Inr _ \<Rightarrow> VNone),
            (''requested_repair_node_ids'', strs (h_repair h)),
            (''accepted_implementations_preserved'', VBool True)] ts s)))"

definition retry_scheduled :: "node_row \<Rightarrow> items \<Rightarrow> stamp \<Rightarrow> store \<Rightarrow> store" where
  "retry_scheduled n extra ts s = node_event ''node.retry_scheduled'' n ((''attempt'', VInt (n_attempt n)) # extra) ts s"

definition retry_in_place :: "node_row \<Rightarrow> items \<Rightarrow> stamp \<Rightarrow> store \<Rightarrow> store" where
  "retry_in_place n extra ts s = retry_scheduled n extra ts (put_node n (retried_node ts) s)"

text \<open>A worker was accepted: the workers that are not decide what the task waits for.\<close>

definition worker_accepted :: "node_row \<Rightarrow> task_row \<Rightarrow> store \<Rightarrow> task_state \<times> string option" where
  "worker_accepted n t s = (let rest = sort_key n_node (filter (\<lambda>m. n_task m = n_task n
       \<and> dget (n_spec m) ''verifier'' = VBool False \<and> n_state m \<noteq> NAccepted) (nodes s)) in
     case rest of
       [] \<Rightarrow> (TVerifying, None)
     | m # _ \<Rightarrow>
         if list_all (\<lambda>m. n_state m = NBlocked) rest
         then (TBlocked, Some (case n_result m of
             Some doc \<Rightarrow> (case dget doc ''summary'' of VStr v \<Rightarrow> v
               | _ \<Rightarrow> ''accepted owner repairs settled; blocked consumer still requires continuation'')
           | None \<Rightarrow> ''accepted owner repairs settled; blocked consumer still requires continuation''))
         else (t_state t, None))"

definition move_task ::
  "(pyval \<Rightarrow> string) \<Rightarrow> node_row \<Rightarrow> task_row \<Rightarrow> node_result \<Rightarrow> string + items option
    \<Rightarrow> string + (string \<times> accepted_binding) list \<Rightarrow> stamp \<Rightarrow> store \<Rightarrow> store moved" where
  "move_task sha n t h retry owners ts s =
    (let st = node_state_of_status (h_status h); verifier = is_verifier (n_spec n) in
     if under_control t then ((t_state t, None, None), s)
     else if st = NAccepted \<and> verifier then ((TAccepted, None, Some (h_summary h)), s)
     else if st = NIndeterminate
     then ((TNeedsApproval, Some (''node '' @ n_node n @ '' has an indeterminate result''), None), s)
     else case retry of
       Inl e \<Rightarrow> ((TNeedsFix, Some (''retryable attempt requires manual recovery: '' @ e), None),
         node_event ''node.retry_recovery_rejected'' n [(''attempt'', VInt (n_attempt n)), (''reason'', VStr e)] ts s)
     | Inr (Some a) \<Rightarrow> ((TQueued, None, None), retry_scheduled n [(''next_attempt'', VInt (n_attempt n + 1)),
         (''failed_attempt_recovery'', VStr ''capture_pending''),
         (''source_allocation_id'', dget (VDict a) ''source_allocation_id'')] ts s)
     | Inr None \<Rightarrow>
         if st = NBlocked \<and> retry_allowed n t h
         then ((TQueued, None, None), retry_in_place n [(''typed_blocked_result'', VBool True)] ts s)
         else if st = NBlocked then ((TBlocked, Some (h_summary h), None), s)
         else if st = NFailed then
           (if verifier then verifier_rejected sha n t h owners ts s
            else if retry_allowed n t h then ((t_state t, None, None), retry_in_place n [] ts s)
            else ((TNeedsFix, Some (h_summary h), None), s))
         else (case worker_accepted n t s of (next_st, blocker) \<Rightarrow> ((next_st, blocker, None), s)))"

section \<open>Settlement\<close>

definition written :: "string option \<Rightarrow> bool" where
  "written v \<longleftrightarrow> v \<noteq> None \<and> v \<noteq> Some []"

definition record_move :: "task_row \<Rightarrow> task_state \<times> string option \<times> string option \<Rightarrow> stamp \<Rightarrow> store \<Rightarrow> int \<times> store" where
  "record_move t m ts s = (case m of (st, blocker, verdict) \<Rightarrow>
     if st \<noteq> t_state t \<or> written blocker \<or> written verdict
     then (t_revision t + 1, state_event t st (t_revision t + 1) blocker [] ts
       (put_task (t_id t) st (t_revision t + 1) blocker verdict ts s))
     else (t_revision t, s))"

definition settlement_event ::
  "node_row \<Rightarrow> node_result \<Rightarrow> dirty_binding option \<Rightarrow> failed_binding option \<Rightarrow> pyval option \<Rightarrow> items option \<Rightarrow> items" where
  "settlement_event n h dirty failed historical retry =
     [(''attempt'', VInt (n_attempt n)), (''result'', result_document h)]
   @ opt_item ''blocked_worktree_recovery'' (map_option (\<lambda>b. VDict [(''source_attempt'', VInt (db_attempt b)),
       (''source_allocation_id'', VStr (db_allocation b)), (''recovery'', db_recovery b)]) dirty)
   @ (if retry = None then opt_item ''failed_attempt_recovery'' (map_option (\<lambda>b. VDict [
       (''source_attempt'', VInt (fb_attempt b)), (''source_allocation_id'', VStr (fb_allocation b)),
       (''recovery_ref'', fb_ref b)]) failed) else [])
   @ (case failed of
        Some b \<Rightarrow> if fb_mode b = VStr BLOCKED_SOURCE_REPAIR_MODE
          then [(''blocked_source_repair'', VDict [(''source_attempt'', VInt (fb_attempt b)),
            (''source_allocation_id'', VStr (fb_allocation b)), (''source_node_state'', VStr ''blocked''),
            (''source_task_state'', fb_origin b)])]
          else []
      | None \<Rightarrow> [])
   @ opt_item ''historical_accepted_source'' (map_option (\<lambda>b. VDict [
       (''source_event_cursor'', dget b ''source_event_cursor''),
       (''source_attempt'', dget (dget b ''source'') ''attempt''),
       (''current_allocation_id'', dget (dget b ''current'') ''allocation_id'')]) historical)
   @ opt_item ''failed_attempt_recovery'' (map_option (\<lambda>a. VDict [
       (''source_attempt'', dget (dget (VDict a) ''source'') ''attempt''),
       (''source_allocation_id'', dget (VDict a) ''source_allocation_id''),
       (''state'', VStr ''capture_pending'')]) retry)"

definition claim_evidence :: "node_row \<Rightarrow> node_result \<Rightarrow> stamp \<Rightarrow> string \<Rightarrow> store \<Rightarrow> store" where
  "claim_evidence n h ts ref s = node_event ''verifier.evidence_claimed'' n
     [(''attempt'', VInt (n_attempt n)), (''artifact_ref'', VStr ref), (''checks'', strs (h_checks h)),
      (''verdict'', opt_str (h_verdict h))] ts s"

text \<open>The writes of an ordinary settlement; \<open>h\<close> is the result as evidenced.\<close>

definition settle_ordinary ::
  "(pyval \<Rightarrow> string) \<Rightarrow> node_row \<Rightarrow> task_row \<Rightarrow> node_result \<Rightarrow> items \<Rightarrow> string + items option
    \<Rightarrow> string + (string \<times> accepted_binding) list \<Rightarrow> stamp \<Rightarrow> store \<Rightarrow> store" where
  "settle_ordinary sha n t h event retry owners ts s = (let
     st = node_state_of_status (h_status h); doc = canonical_json (result_document h);
     s1 = put_node n (case retry of
         Inr (Some a) \<Rightarrow> released_node (Some (canonical_json (VDict a))) ts
       | _ \<Rightarrow> settled_node st doc ts) s;
     s2 = s1\<lparr>allocations := map (\<lambda>w. if w_task w = n_task n \<and> w_node w = n_node n \<and> w_attempt w = n_attempt n
       then w\<lparr>w_result := Some doc, w_updated := ts\<rparr> else w) (allocations s1)\<rparr>;
     s3 = node_event (''node.'' @ node_state_name st) n event ts s2;
     s4 = (if is_verifier (n_spec n) then fold (claim_evidence n h ts) (h_evidence h) s3 else s3)
   in case move_task sha n t h retry owners ts s4 of (m, s5) \<Rightarrow>
      case record_move t m ts s5 of (revision, s6) \<Rightarrow>
      if st = NIndeterminate
      then create_indeterminate_approval sha (n_task n) (n_node n) (n_attempt n) revision (h_summary h) ts s6
      else s6)"

definition settle_locked ::
  "(pyval \<Rightarrow> string) \<Rightarrow> judge \<Rightarrow> node_row \<Rightarrow> task_row \<Rightarrow> node_result \<Rightarrow> int \<Rightarrow> stamp \<Rightarrow> store \<Rightarrow> store res" where
  "settle_locked sha J n t h attempt ts s =
    bindR (failed_attempt_recovery_binding (n_recovery n) attempt True) (\<lambda>failed.
    case (case failed of Some b \<Rightarrow> if fb_state b = ''capture_pending'' then Some b else None | None \<Rightarrow> None) of
      Some b \<Rightarrow> rollback_failed_attempt_recovery n t b h ts s
    | None \<Rightarrow>
    bindR (j_accepted J (n_recovery n) attempt) (\<lambda>accepted.
    case (if n_worktree n = None then accepted else None) of
      Some b \<Rightarrow> rollback_unassigned_accepted_source_repair sha n t b h ts s
    | None \<Rightarrow>
    bindR (j_historical J n t s) (\<lambda>historical.
    bindR (dirty_worktree_recovery_for_settlement (n_recovery n) attempt) (\<lambda>dirty.
    bindR (validate_result_contract J n t h False s) (\<lambda>_.
    case (case dirty of Some b \<Rightarrow> if db_state b = ''authorized'' then Some b else None | None \<Rightarrow> None) of
      Some b \<Rightarrow> rollback_authorized_dirty_worktree_recovery n t b h ts s
    | None \<Rightarrow>
    let h' = evidenced_result n t h s in
    bindR (owner_repair J n t h' s) (\<lambda>owners.
    bindR (worker_retry n t h' s) (\<lambda>retry.
    Inr (settle_ordinary sha n t h' (settlement_event n h' dirty failed historical
      (case retry of Inr a \<Rightarrow> a | Inl _ \<Rightarrow> None)) retry owners ts s))))))))"

text \<open>\<open>before\<close> is the ledger the preflight read.\<close>

definition settle_node ::
  "(pyval \<Rightarrow> string) \<Rightarrow> judge \<Rightarrow> string \<Rightarrow> string \<Rightarrow> node_result \<Rightarrow> int \<Rightarrow> int \<Rightarrow> int \<Rightarrow> store \<Rightarrow> int \<Rightarrow> store
    \<Rightarrow> (unit \<times> store) res" where
  "settle_node sha J task node h attempt epoch lease before now s =
    bindR (prevalidate_settlement J task node h attempt epoch lease before) (\<lambda>preflight.
    bindR (require_lease task node attempt epoch lease s) (\<lambda>(n, t).
    if \<not> same_inputs preflight (n, t)
    then Inl (StateConflictError ''node settlement inputs changed before commit'')
    else bindR (settle_locked sha J n t h attempt (utc now) s) (\<lambda>s'. Inr ((), s'))))"

section \<open>Conflicts and restarts\<close>

definition reconcile_settlement_conflict ::
  "(pyval \<Rightarrow> string) \<Rightarrow> judge \<Rightarrow> string \<Rightarrow> string \<Rightarrow> int \<Rightarrow> int \<Rightarrow> int \<Rightarrow> string \<Rightarrow> bool \<Rightarrow> string \<Rightarrow> int \<Rightarrow> store
    \<Rightarrow> (bool \<times> store) res" where
  "reconcile_settlement_conflict sha J task node attempt epoch lease error started rejected now s =
    (let ts = utc now; text = take 512 (strip error); diagnostic = (if text = [] then ''StateConflictError'' else text) in
     bindR (j_artifacts J [rejected]) (\<lambda>_.
     case require_lease task node attempt epoch lease s of
       Inl _ \<Rightarrow> Inr (False, s)
     | Inr (n, t) \<Rightarrow>
         let summary = ''current worker lease could not commit its result; the execution outcome requires explicit resolution'';
             h = (plain_result ''indeterminate'' summary)\<lparr>h_artifacts := [(''settlement-conflict'', rejected)],
               h_kind := Some (if is_verifier (n_spec n) then ''verifier'' else ''worker'')\<rparr>;
             s1 = put_node n (\<lambda>m. m\<lparr>n_state := NIndeterminate, n_settled := Some ts, n_updated := ts,
               n_result := Some (canonical_json (result_document h))\<rparr>) s;
             preserved = under_control t; revision = (if preserved then t_revision t else t_revision t + 1);
             s2 = (if preserved then s1 else s1\<lparr>tasks := row_put t_id task (\<lambda>t. t\<lparr>t_state := TNeedsApproval,
               t_revision := revision, t_updated := ts,
               t_blocker := Some (''node '' @ node @ '' result settlement is indeterminate'')\<rparr>) (tasks s1)\<rparr>);
             s3 = node_event ''node.indeterminate'' n [(''attempt'', VInt attempt),
               (''reason'', VStr ''current_lease_settlement_conflict''), (''error'', VStr diagnostic),
               (''executor_started'', VBool started), (''rejected_result_ref'', VStr rejected),
               (''task_control_state_preserved'', VBool preserved)] ts s2
         in Inr (True, if preserved then s3
           else create_indeterminate_approval sha task node attempt revision (summary @ '': '' @ diagnostic) ts s3)))"

definition orphan_target :: "(pyval \<Rightarrow> string) \<Rightarrow> node_row \<Rightarrow> task_row \<Rightarrow> pyval \<Rightarrow> items res" where
  "orphan_target sha n t revision =
    (if text_of (dget (t_contract t) ''repository'') = []
     then Inl (StateConflictError ''failed-attempt recovery task repository is invalid'')
     else bindR (branch_name (n_task n) (n_node n) (n_attempt n)) (\<lambda>branch.
       Inr [(''cleanup_id'', VStr (''orphan-'' @ take 24 (canonical_hash sha (VDict [(''task_id'', VStr (n_task n)),
           (''node_id'', VStr (n_node n)), (''attempt'', VInt (n_attempt n)), (''authorization_revision'', revision)])))),
         (''task_id'', VStr (n_task n)), (''node_id'', VStr (n_node n)), (''attempt'', VInt (n_attempt n)),
         (''repository'', dget (t_contract t) ''repository''), (''branch'', VStr branch)]))"

text \<open>A node that ran when the coordinator stopped: its outcome is unknown.\<close>

definition mark_interrupted :: "(pyval \<Rightarrow> string) \<Rightarrow> node_row \<Rightarrow> stamp \<Rightarrow> store \<Rightarrow> store" where
  "mark_interrupted sha n ts s = (let
     summary = ''coordinator restarted while the worker was running; explicit resolution required'';
     h = (plain_result ''indeterminate'' summary)\<lparr>h_kind := Some (if is_verifier (n_spec n) then ''verifier'' else ''worker'')\<rparr>;
     s1 = put_node n (\<lambda>m. m\<lparr>n_state := NIndeterminate, n_settled := Some ts, n_updated := ts,
       n_result := Some (canonical_json (result_document h))\<rparr>) s;
     s2 = s1\<lparr>tasks := row_put t_id (n_task n) (\<lambda>t. t\<lparr>t_state := TNeedsApproval, t_revision := t_revision t + 1,
       t_updated := ts, t_blocker := Some (''node '' @ n_node n @ '' is indeterminate after restart'')\<rparr>) (tasks s1)\<rparr>;
     revision = (case row_get t_id (n_task n) (tasks s2) of Some t \<Rightarrow> t_revision t | None \<Rightarrow> 0);
     s3 = node_event ''node.indeterminate'' n [(''attempt'', VInt (n_attempt n)), (''reason'', VStr ''coordinator_restart'')] ts s2
   in create_indeterminate_approval sha (n_task n) (n_node n) (n_attempt n) revision summary ts s3)"

definition recover_node ::
  "(pyval \<Rightarrow> string) \<Rightarrow> judge \<Rightarrow> stamp \<Rightarrow> node_row \<Rightarrow> items list \<times> store \<Rightarrow> (items list \<times> store) res" where
  "recover_node sha J ts n acc = (case acc of (orphans, s) \<Rightarrow>
    bindR (require (KeyError (n_task n)) (row_get t_id (n_task n) (tasks s))) (\<lambda>t.
    bindR (j_accepted J (n_recovery n) (n_attempt n)) (\<lambda>accepted.
    case (if n_worktree n = None then accepted else None) of
      Some b \<Rightarrow> bindR (rollback_unassigned_accepted_source_repair sha n t b
          ((plain_result ''blocked'' ''coordinator restarted before accepted-source repair assignment; the accepted source attempt was restored'')
             \<lparr>h_kind := Some ''worker''\<rparr>) ts s) (\<lambda>s'. Inr (orphans, s'))
    | None \<Rightarrow>
    bindR (failed_attempt_recovery_binding (n_recovery n) (n_attempt n) True) (\<lambda>failed.
    case (case failed of Some b \<Rightarrow> if fb_state b = ''capture_pending'' then Some b else None | None \<Rightarrow> None) of
      Some b \<Rightarrow> bindR (orphan_target sha n t (case n_recovery n of Some a \<Rightarrow> dget a ''authorization_revision'' | None \<Rightarrow> VNone)) (\<lambda>orphan.
        bindR (rollback_failed_attempt_recovery n t b
          ((plain_result ''failed'' ''coordinator restarted before failed-attempt recovery assignment; the original failed attempt was restored'')
             \<lparr>h_kind := Some ''worker'', h_changed := fb_changed b,
               h_checks := [''RECOVERED: pre-assignment retry was rolled back to its source''],
               h_provider := Some ''workbench-failed-attempt-recovery''\<rparr>) ts s) (\<lambda>s'.
        Inr (orphans @ [orphan], node_event ''failed_attempt_recovery.orphan_cleanup_pending'' n orphan ts s')))
    | None \<Rightarrow> Inr (orphans, mark_interrupted sha n ts s)))))"

fun recover_nodes ::
  "(pyval \<Rightarrow> string) \<Rightarrow> judge \<Rightarrow> stamp \<Rightarrow> node_row list \<Rightarrow> items list \<times> store \<Rightarrow> (items list \<times> store) res" where
  "recover_nodes sha J ts [] acc = Inr acc"
| "recover_nodes sha J ts (n # ns) acc = bindR (recover_node sha J ts n acc) (recover_nodes sha J ts ns)"

definition recover_interrupted_with_orphans ::
  "(pyval \<Rightarrow> string) \<Rightarrow> judge \<Rightarrow> int \<Rightarrow> store \<Rightarrow> ((nat \<times> items list) \<times> store) res" where
  "recover_interrupted_with_orphans sha J now s = (let rows = map fst (running_nodes s) in
     bindR (recover_nodes sha J (utc now) rows ([], s)) (\<lambda>(orphans, t). Inr ((length rows, orphans), t)))"

end
