(* ===== verification/Task_Control.thy ===== *)
theory Task_Control
  imports Node_Settle
begin

text \<open>
  The operator's side of a task (\<open>store.py\<close> lines 4127 to 4353, 6530 to 6848 and 7584 to 7856):
  transitions, queueing with the reset of failed nodes, priority, steering instructions and the
  decision on a node whose outcome is unknown.
\<close>

section \<open>Transitions and priority\<close>

fun allowed_transitions :: "task_state \<Rightarrow> task_state list" where
  "allowed_transitions TInbox = [TQueued, TCancelled]"
| "allowed_transitions TPlanning = [TQueued, TPaused, TCancelled]"
| "allowed_transitions TReady = [TQueued, TPaused, TCancelled]"
| "allowed_transitions TQueued = [TPaused, TCancelled]"
| "allowed_transitions TRunning = [TPaused, TCancelled]"
| "allowed_transitions TVerifying = [TPaused, TCancelled]"
| "allowed_transitions TNeedsFix = [TQueued, TCancelled]"
| "allowed_transitions TNeedsApproval = [TQueued, TCancelled]"
| "allowed_transitions TBlocked = [TPaused, TCancelled]"
| "allowed_transitions TPaused = [TQueued, TCancelled]"
| "allowed_transitions TAccepted = []"
| "allowed_transitions TCancelled = []"

definition expect_revision :: "int option \<Rightarrow> task_row \<Rightarrow> unit res" where
  "expect_revision expected t =
    (if expected \<noteq> None \<and> expected \<noteq> Some (t_revision t)
     then Inl (StateConflictError ''expected another task revision'') else Inr ())"

definition transition_task ::
  "string \<Rightarrow> string \<Rightarrow> int option \<Rightarrow> string option \<Rightarrow> string option \<Rightarrow> int \<Rightarrow> store \<Rightarrow> (int \<times> store) res" where
  "transition_task task state expected blocker verdict now s =
    bindR (require (KeyError task) (row_get t_id task (tasks s))) (\<lambda>t.
    bindR (expect_revision expected t) (\<lambda>_.
    if state = ''accepted''
    then Inl (StateConflictError ''accepted is verifier-owned and cannot be set by task control'')
    else case find (\<lambda>st. task_state_name st = state) (allowed_transitions (t_state t)) of
      None \<Rightarrow> Inl (StateConflictError ''cannot transition task'')
    | Some st \<Rightarrow> let revision = t_revision t + 1 in
        Inr (revision, state_event t st revision blocker [] (utc now)
          (put_task task st revision blocker verdict (utc now) s))))"

definition set_task_priority :: "string \<Rightarrow> int \<Rightarrow> int \<Rightarrow> int \<Rightarrow> store \<Rightarrow> (int \<times> store) res" where
  "set_task_priority task priority expected now s =
    (if \<not> (-10 \<le> priority \<and> priority \<le> 10) then Inl (ValueError ''priority must be between -10 and 10'')
     else bindR (require (KeyError task) (row_get t_id task (tasks s))) (\<lambda>t.
     bindR (expect_revision (Some expected) t) (\<lambda>_.
     if t_state t \<in> {TAccepted, TCancelled} then Inl (StateConflictError ''cannot reprioritize task'')
     else if t_priority t = priority then Inr (t_revision t, s)
     else let revision = t_revision t + 1 in
       Inr (revision, snd (emit_event ''task.priority_changed'' (Some task) None
         [(''from'', VInt (t_priority t)), (''to'', VInt priority), (''revision'', VInt revision)] (utc now)
         (s\<lparr>tasks := row_put t_id task (\<lambda>t. t\<lparr>t_priority := priority, t_revision := revision,
            t_updated := utc now\<rparr>) (tasks s)\<rparr>))))))"

section \<open>Steering\<close>

definition normalize_steering_instruction :: "string \<Rightarrow> string res" where
  "normalize_steering_instruction instruction = (let normalized = strip instruction in
     if normalized = [] \<or> 500 < length normalized
     then Inl (ValueError ''instruction must contain 1 to 500 characters'') else Inr normalized)"

text \<open>What an instruction is for: the whole task, a node from some attempt on, or one attempt.\<close>

definition steering_scope ::
  "string \<Rightarrow> string \<Rightarrow> string option \<Rightarrow> int option \<Rightarrow> store \<Rightarrow> (string \<times> string option \<times> int option) res" where
  "steering_scope task scope target attempt s =
    (if scope = ''task'' then
       (if target \<noteq> None \<or> attempt \<noteq> None
        then Inl (ValueError ''task steering scope does not accept a target'') else Inr (scope, None, None))
     else if scope \<notin> {''node'', ''attempt''}
     then Inl (ValueError ''steering scope must be task, node, or attempt'')
     else case target of
       None \<Rightarrow> Inl (ValueError ''node and attempt steering require target_node_id'')
     | Some name \<Rightarrow> if blank name then Inl (ValueError ''node and attempt steering require target_node_id'')
       else bindR (require (ValueError ''steering target node does not exist'')
         (row_get node_key (task, strip name) (nodes s))) (\<lambda>n.
       let next = n_attempt n + 1 in
       if (case attempt of None \<Rightarrow> False | Some a \<Rightarrow> a < next)
       then Inl (ValueError ''steering target_attempt must be a future positive attempt'')
       else if scope = ''attempt'' then
         (if attempt = None then Inl (ValueError ''attempt steering requires target_attempt'')
          else Inr (scope, Some (strip name), attempt))
       else Inr (scope, Some (strip name), Some (case attempt of None \<Rightarrow> next
         | Some a \<Rightarrow> if a = 0 then next else a))))"

definition running_attempts :: "string \<Rightarrow> store \<Rightarrow> pyval list" where
  "running_attempts task s = map (\<lambda>n. VDict [(''node_id'', VStr (n_node n)), (''attempt'', VInt (n_attempt n))])
     (sort_key n_node (filter (\<lambda>n. n_task n = task \<and> n_state n = NRunning) (nodes s)))"

definition scheduled_for :: "task_state \<Rightarrow> pyval list \<Rightarrow> string" where
  "scheduled_for st running =
    (if running \<noteq> [] then ''future_attempt''
     else if st \<in> {TQueued, TRunning, TVerifying} then ''next_attempt''
     else if st \<in> {TPaused, TBlocked, TNeedsFix} then ''after_resume''
     else ''after_queue'')"

record steering_request =
  sq_instruction :: string
  sq_scope :: string
  sq_target :: "string option"
  sq_attempt :: "int option"

definition task_steering :: "string \<Rightarrow> steering_request" where
  "task_steering instruction = \<lparr>sq_instruction = instruction, sq_scope = ''task'', sq_target = None, sq_attempt = None\<rparr>"

text \<open>\<open>_append_task_steering\<close>: the receipt of the instruction and the ledger with it.\<close>

definition append_steering ::
  "(pyval \<Rightarrow> string) \<Rightarrow> string \<Rightarrow> steering_request \<Rightarrow> int option \<Rightarrow> string option \<Rightarrow> stamp \<Rightarrow> store
    \<Rightarrow> (pyval \<times> store) res" where
  "append_steering sha task q expected scheduled ts s =
    bindR (normalize_steering_instruction (sq_instruction q)) (\<lambda>instruction.
    bindR (require (KeyError task) (row_get t_id task (tasks s))) (\<lambda>t.
    bindR (expect_revision expected t) (\<lambda>_.
    if t_state t \<in> {TAccepted, TCancelled} then Inl (StateConflictError ''cannot steer task'')
    else bindR (steering_scope task (sq_scope q) (sq_target q) (sq_attempt q) s) (\<lambda>(scope, target, attempt).
    let revision = t_revision t + 1;
        attempt_value = (case attempt of None \<Rightarrow> VNone | Some a \<Rightarrow> VInt a);
        k = steering_id_of sha [(''task_id'', VStr task), (''revision'', VInt revision),
          (''instruction'', VStr instruction), (''scope'', VStr scope), (''target_node_id'', opt_str target),
          (''target_attempt'', attempt_value)]
    in bindR (row_add g_id \<lparr>g_id = k, g_task = task, g_instruction = instruction, g_created = ts,
         g_sequence = next_steering_sequence task s, g_scope = scope, g_node = target, g_attempt = attempt\<rparr>
         (steering s)) (\<lambda>rows.
       let running = running_attempts task s;
           t' = snd (emit_event ''task.steering_added'' (Some task) None
             [(''steering_id'', VStr k), (''revision'', VInt revision), (''scope'', VStr scope),
              (''target_node_id'', opt_str target), (''target_attempt'', attempt_value)] ts
             (s\<lparr>steering := rows, tasks := row_put t_id task (\<lambda>t. t\<lparr>t_revision := revision, t_updated := ts\<rparr>) (tasks s)\<rparr>))
       in Inr (VDict [(''steering_id'', VStr k), (''revision'', VInt revision),
            (''state'', VStr (task_state_name (t_state t))), (''objective_preserved'', VBool True),
            (''scope'', VStr scope), (''target_node_id'', opt_str target), (''target_attempt'', attempt_value),
            (''delivery'', VDict [(''status'', VStr ''not_delivered''), (''mode'', VStr ''future_attempts_only''),
              (''current_attempt_received'', VBool False), (''current_running_attempt_delivered'', VBool False),
              (''scheduled_for'', VStr (case scheduled of Some v \<Rightarrow> v | None \<Rightarrow> scheduled_for (t_state t) running)),
              (''running_attempts'', VList running)])], t'))))))"

definition append_task_steering_receipt ::
  "(pyval \<Rightarrow> string) \<Rightarrow> string \<Rightarrow> steering_request \<Rightarrow> int option \<Rightarrow> int \<Rightarrow> store \<Rightarrow> (pyval \<times> store) res" where
  "append_task_steering_receipt sha task q expected now s =
    bindR (normalize_steering_instruction (sq_instruction q)) (\<lambda>instruction.
      append_steering sha task (q\<lparr>sq_instruction := instruction\<rparr>) expected None (utc now) s)"

definition append_active_session_steering ::
  "(pyval \<Rightarrow> string) \<Rightarrow> string \<Rightarrow> string \<Rightarrow> int option \<Rightarrow> string option \<Rightarrow> int \<Rightarrow> store \<Rightarrow> (pyval \<times> store) res" where
  "append_active_session_steering sha thread instruction expected expected_task now s =
    (if thread = [] \<or> list_ex is_space thread
     then Inl (ValueError ''source_thread_id must be non-empty and contain no whitespace'')
     else bindR (require (KeyError thread) (row_get b_thread thread (sessions s))) (\<lambda>b.
     if expected_task \<noteq> None \<and> b_task b \<noteq> expected_task
     then Inl (StateConflictError ''session active task changed before continuation'')
     else bindR (require (StateConflictError ''session has no active task to continue'') (b_task b)) (\<lambda>task.
     bindR (require (StateConflictError ''session active task is missing'') (row_get t_id task (tasks s))) (\<lambda>t.
     if t_state t \<in> {TAccepted, TBlocked, TCancelled}
     then Inl (StateConflictError ''session active task is terminal'')
     else bindR (append_steering sha task (task_steering instruction) expected None (utc now) s) (\<lambda>(receipt, s').
       Inr (VDict ((''task_id'', VStr task) # items_of receipt),
         snd (emit_event ''session.active_task_message_appended'' (Some task) None
           [(''source_thread_id'', VStr thread), (''steering_id'', dget receipt ''steering_id''),
            (''revision'', dget receipt ''revision''), (''state'', dget receipt ''state'')] (utc now) s')))))))"

section \<open>Queueing\<close>

definition requeued_node :: "pyval option \<Rightarrow> stamp \<Rightarrow> node_row \<Rightarrow> node_row" where
  "requeued_node authorization ts n = (case authorization of
      Some a \<Rightarrow> n\<lparr>n_state := NPending, n_worker := None, n_worktree := None, n_started := None, n_settled := None,
        n_result := None, n_epoch := 0, n_lease := 0, n_recovery := Some a, n_updated := ts\<rparr>
    | None \<Rightarrow> n\<lparr>n_state := NPending, n_worker := None, n_started := None, n_settled := None, n_updated := ts\<rparr>)"

definition failed_nodes :: "string \<Rightarrow> store \<Rightarrow> node_row list" where
  "failed_nodes task s = sort_key n_node (filter (\<lambda>n. n_task n = task \<and> n_state n = NFailed) (nodes s))"

text \<open>The failed nodes with the authorization of each, all computed before any is reset.\<close>

definition recoveries :: "int \<Rightarrow> node_row list \<Rightarrow> store \<Rightarrow> (node_row \<times> pyval option) list res" where
  "recoveries revision ns s = mapR (\<lambda>n. bindR (failed_attempt_recovery_authorization n revision None plain_retry s) (\<lambda>a.
     Inr (n, map_option (\<lambda>kvs. canonical_json (VDict kvs)) a))) ns"

definition reset_failed :: "stamp \<Rightarrow> node_row \<times> pyval option \<Rightarrow> store \<Rightarrow> store" where
  "reset_failed ts na s = put_node (fst na)
     (\<lambda>m. if n_state m = NFailed then requeued_node (snd na) ts m else m) s"

definition recovery_queued :: "int \<Rightarrow> stamp \<Rightarrow> node_row \<times> pyval option \<Rightarrow> store \<Rightarrow> store" where
  "recovery_queued revision ts na s = (case snd na of None \<Rightarrow> s
    | Some a \<Rightarrow> let source = dget a ''source''; attempt = (case int_of (dget source ''attempt'') of Some i \<Rightarrow> i | None \<Rightarrow> 0) in
        node_event ''node.failed_attempt_recovery_queued'' (fst na)
          [(''source_attempt'', dget source ''attempt''), (''next_attempt'', VInt (attempt + 1)),
           (''source_allocation_id'', dget a ''source_allocation_id''),
           (''expected_changed_paths'', dget source ''changed_paths''), (''task_revision'', VInt revision)] ts s)"

text \<open>
  \<open>_queue_task\<close>: the new revision and the receipt of the instruction queued with it. The
  compare-and-set on the revision read in the same transaction always finds its row.
\<close>

definition queue_with ::
  "(pyval \<Rightarrow> string) \<Rightarrow> string \<Rightarrow> int option \<Rightarrow> string option \<Rightarrow> int \<Rightarrow> store \<Rightarrow> ((int \<times> pyval option) \<times> store) res" where
  "queue_with sha task expected instruction now s = (let ts = utc now in
    bindR (require (KeyError task) (row_get t_id task (tasks s))) (\<lambda>t0.
    bindR (expect_revision expected t0) (\<lambda>_.
    if t_state t0 \<notin> {TInbox, TPlanning, TReady, TNeedsFix, TPaused} then Inl (StateConflictError ''cannot queue task'')
    else bindR (case instruction of None \<Rightarrow> Inr (None, s)
        | Some i \<Rightarrow> bindR (append_steering sha task (task_steering i) expected (Some ''next_attempt'') ts s)
            (\<lambda>(receipt, s'). Inr (Some receipt, s'))) (\<lambda>(receipt, s1).
    bindR (require (KeyError task) (row_get t_id task (tasks s1))) (\<lambda>t.
    let revision = t_revision t + 1 in
    bindR (if t_state t = TNeedsFix then recoveries revision (failed_nodes task s1) s1 else Inr []) (\<lambda>resets.
    let s2 = fold (reset_failed ts) resets s1;
        s3 = state_event t TQueued revision None [] ts (put_task task TQueued revision None None ts s2)
    in Inr ((revision, receipt), fold (recovery_queued revision ts) resets s3)))))))"

definition queue_task :: "(pyval \<Rightarrow> string) \<Rightarrow> string \<Rightarrow> int option \<Rightarrow> int \<Rightarrow> store \<Rightarrow> (int \<times> store) res" where
  "queue_task sha task expected now s = bindR (queue_with sha task expected None now s) (\<lambda>((revision, _), s').
     Inr (revision, s'))"

definition queue_task_with_instruction ::
  "(pyval \<Rightarrow> string) \<Rightarrow> string \<Rightarrow> string \<Rightarrow> int option \<Rightarrow> int \<Rightarrow> store \<Rightarrow> ((int \<times> pyval option) \<times> store) res" where
  "queue_task_with_instruction sha task instruction expected now s =
    bindR (normalize_steering_instruction instruction) (\<lambda>normalized.
      queue_with sha task expected (Some normalized) now s)"

section \<open>Deciding an unknown outcome\<close>

text \<open>Whether a retry must detach the worktree of a verifier that only read.\<close>

definition assert_indeterminate_retry_is_safe :: "node_row \<Rightarrow> bool \<Rightarrow> bool res" where
  "assert_indeterminate_retry_is_safe n confirmed =
    (if n_recovery n \<noteq> None
     then Inl (StateConflictError ''indeterminate retry requires explicit recovery because the attempt owns a worktree or recovery receipt'')
     else if n_worktree n = None then Inr False
     else if \<not> is_dict (n_spec n) \<or> \<not> is_true (dget (n_spec n) ''verifier'') \<or> dget (n_spec n) ''write_scopes'' \<noteq> VList []
     then Inl (StateConflictError ''indeterminate retry requires explicit recovery because the attempt owns a worktree or recovery receipt'')
     else if \<not> confirmed then Inl (ValueError ''read-only verifier retry requires confirm_old_executor_ended=true'')
     else Inr True)"

definition decided_node_state :: "string \<Rightarrow> node_state" where
  "decided_node_state decision = (if decision = ''retry'' then NPending
     else if decision = ''fail'' then NFailed else NCancelled)"

definition decided_node :: "string \<Rightarrow> bool \<Rightarrow> stamp \<Rightarrow> node_row \<Rightarrow> node_row" where
  "decided_node decision detach ts n = n\<lparr>n_state := decided_node_state decision, n_worker := None,
     n_executor := None, n_model := None, n_worktree := (if detach then None else n_worktree n),
     n_started := None, n_settled := None, n_updated := ts\<rparr>"

definition undecided_node :: "node_row option \<Rightarrow> string \<Rightarrow> bool \<Rightarrow> (node_row \<times> bool) res" where
  "undecided_node row decision confirmed = bindR (require (KeyError ''node'') row) (\<lambda>n.
     if n_state n \<noteq> NIndeterminate then Inl (StateConflictError ''node is not indeterminate'')
     else bindR (if decision = ''retry'' then assert_indeterminate_retry_is_safe n confirmed else Inr False) (\<lambda>detach.
       Inr (n, detach)))"

definition remaining_indeterminate :: "string \<Rightarrow> store \<Rightarrow> nat" where
  "remaining_indeterminate task s = length (filter (\<lambda>n. n_task n = task \<and> n_state n = NIndeterminate) (nodes s))"

definition decided_task :: "string \<Rightarrow> nat \<Rightarrow> task_state \<times> string option" where
  "decided_task decision remaining =
    (if decision = ''cancel'' then (TCancelled, None)
     else if remaining \<noteq> 0
     then (TNeedsApproval, Some (str_int (int remaining) @ '' indeterminate node(s) still require approval''))
     else (if decision = ''retry'' then TQueued else TNeedsFix, None))"

definition move_decided :: "string \<Rightarrow> task_state \<Rightarrow> int \<Rightarrow> string option \<Rightarrow> stamp \<Rightarrow> store \<Rightarrow> store" where
  "move_decided task st revision blocker ts s = s\<lparr>tasks := row_put t_id task (\<lambda>t. t\<lparr>t_state := st,
     t_revision := revision, t_updated := ts, t_blocker := blocker\<rparr>) (tasks s)\<rparr>"

definition decide_approval ::
  "string \<Rightarrow> string \<Rightarrow> int \<Rightarrow> bool \<Rightarrow> int \<Rightarrow> store \<Rightarrow> (int \<times> store) res" where
  "decide_approval approval decision expected confirmed now s =
    (if decision \<notin> {''retry'', ''fail'', ''cancel''} then Inl (ValueError ''decision must be retry, fail, or cancel'')
     else let ts = utc now in
     bindR (require (KeyError approval) (row_get y_id approval (approvals s))) (\<lambda>y.
     bindR (require (KeyError approval) (row_get t_id (y_task y) (tasks s))) (\<lambda>t.
     if y_kind y \<noteq> ''indeterminate_resolution'' then Inl (StateConflictError ''unsupported approval kind'')
     else case y_decision y of
       Some d \<Rightarrow> if d \<noteq> decision then Inl (StateConflictError ''approval was already decided'')
         else bindR (require (KeyError ''decision_revision'') (int_of (dget (y_request y) ''decision_revision''))) (\<lambda>r. Inr (r, s))
     | None \<Rightarrow>
     bindR (expect_revision (Some expected) t) (\<lambda>_.
     bindR (require (KeyError ''node_id'') (map_of (items_of (y_request y)) ''node_id'')) (\<lambda>node.
     bindR (undecided_node (row_get node_key (y_task y, text_of node) (nodes s)) decision confirmed) (\<lambda>(n, detach).
     let s1 = put_node n (decided_node decision detach ts) s;
         revision = t_revision t + 1;
         outcome = [(''task_revision'', VInt revision), (''discarded_readonly_verifier_worktree'', VBool detach)]
     in case decided_task decision (remaining_indeterminate (y_task y) s1) of (st, blocker) \<Rightarrow>
     let s2 = move_decided (y_task y) st revision blocker ts s1;
         s3 = s2\<lparr>approvals := row_put y_id approval (\<lambda>y. y\<lparr>y_decision := Some decision, y_decided := Some ts,
           y_request := canonical_json (VDict (dict_set ''decision_revision'' (VInt revision) (items_of (y_request y))))\<rparr>)
           (approvals s2)\<rparr>
     in Inr (revision, node_event ''node.indeterminate_resolved'' n
          ([(''approval_id'', VStr approval), (''resolution'', VStr decision)] @ outcome) ts
          (node_event ''approval.decided'' n ([(''approval_id'', VStr approval), (''decision'', VStr decision)] @ outcome) ts s3))))))))"

text \<open>\<open>ORDER BY created_at DESC LIMIT 1\<close>: the newest undecided approval of the node.\<close>

definition pending_approval :: "string \<Rightarrow> string \<Rightarrow> store \<Rightarrow> approval_row option" where
  "pending_approval task node s = first_by (\<lambda>y. - instant (y_created y)) (filter (\<lambda>y. y_task y = task
     \<and> y_kind y = ''indeterminate_resolution'' \<and> y_decision y = None
     \<and> dget (y_request y) ''node_id'' = VStr node) (approvals s))"

definition resolve_indeterminate ::
  "string \<Rightarrow> string \<Rightarrow> string \<Rightarrow> int \<Rightarrow> bool \<Rightarrow> int \<Rightarrow> store \<Rightarrow> (int \<times> store) res" where
  "resolve_indeterminate task node resolution expected confirmed now s = (case pending_approval task node s of
      Some y \<Rightarrow> decide_approval (y_id y) resolution expected confirmed now s
    | None \<Rightarrow>
      if resolution \<notin> {''retry'', ''fail'', ''cancel''} then Inl (ValueError ''resolution must be retry, fail, or cancel'')
      else let ts = utc now in
      bindR (require (KeyError task) (row_get t_id task (tasks s))) (\<lambda>t.
      bindR (require (KeyError node) (row_get node_key (task, node) (nodes s))) (\<lambda>_.
      bindR (expect_revision (Some expected) t) (\<lambda>_.
      bindR (undecided_node (row_get node_key (task, node) (nodes s)) resolution confirmed) (\<lambda>(n, detach).
      let revision = t_revision t + 1;
          st = (if resolution = ''retry'' then TQueued else if resolution = ''fail'' then TNeedsFix else TCancelled)
      in Inr (revision, node_event ''node.indeterminate_resolved'' n
           [(''resolution'', VStr resolution), (''task_revision'', VInt revision),
            (''discarded_readonly_verifier_worktree'', VBool detach)] ts
           (move_decided task st revision None ts (put_node n (decided_node resolution detach ts) s))))))))"

end
