(* ===== verification/Claim_Effect.thy ===== *)
theory Claim_Effect
  imports Node_Claim
begin

text \<open>
  What a claim does to the ledger: waits come and go, and at most one pending node of a claimable
  task starts, admitted by every rule of the claim.
\<close>

section \<open>Waits\<close>

text \<open>Only the waits changed, and events were appended.\<close>

definition waits_only :: "store \<Rightarrow> store \<Rightarrow> bool" where
  "waits_only s t \<longleftrightarrow> (\<exists>ws es. t = s\<lparr>waits := ws, events := events s @ es\<rparr>)"

lemma waits_refl [simp]: "waits_only s s"
  unfolding waits_only_def by (rule exI [of _ "waits s"], rule exI [of _ "[]"]) simp

lemma waits_trans: "waits_only s t \<Longrightarrow> waits_only t u \<Longrightarrow> waits_only s u"
  unfolding waits_only_def by (elim exE) (simp, blast)

lemma waits_drop: "waits_only s (drop_wait k s)"
  unfolding waits_only_def drop_wait_def
  by (rule exI [of _ "filter (\<lambda>w. wait_key w \<noteq> k) (waits s)"], rule exI [of _ "[]"]) simp

lemma waits_event: "waits_only s (snd (emit_event k t n p ts s))"
  unfolding waits_only_def emit_event_snd
  by (rule exI [of _ "waits s"]) (simp, blast)

lemma waits_set: "waits_only s t \<Longrightarrow> waits_only s (t\<lparr>waits := ws\<rparr>)"
proof (unfold waits_only_def, elim exE)
  fix us es assume "t = s\<lparr>waits := us, events := events s @ es\<rparr>"
  then have "t\<lparr>waits := ws\<rparr> = s\<lparr>waits := ws, events := events s @ es\<rparr>" by simp
  then show "\<exists>us es. t\<lparr>waits := ws\<rparr> = s\<lparr>waits := us, events := events s @ es\<rparr>" by blast
qed

lemma waits_emit: "emit_event k t n p ts s = (c, u) \<Longrightarrow> waits_only s u"
  using waits_event [of s k t n p ts] by simp

lemma waits_resolve: "waits_only s (snd (resolve_scope_access_wait k reason ts s))"
  unfolding resolve_scope_access_wait_def
  by (auto split: option.splits prod.splits intro: waits_trans [OF waits_drop] dest: waits_emit)

lemma waits_record: "waits_only s (record_scope_access_wait sha n a bs ts s)"
  unfolding record_scope_access_wait_def Let_def
  by (auto split: prod.splits option.splits intro!: waits_set dest: waits_emit)

lemma waits_reconcile: "reconcile_waits ts ws s = Inr t \<Longrightarrow> waits_only s t"
proof (induction ws arbitrary: s)
  case (Cons w ws)
  then obtain u where u: "reconcile_wait ts w s = Inr u" and "reconcile_waits ts ws u = Inr t"
    by (auto simp: res_simps)
  moreover have "waits_only s u"
    using u by (auto simp: reconcile_wait_def res_simps waits_drop waits_resolve split: if_splits pyval.splits)
  ultimately show ?case using Cons.IH waits_trans by blast
qed simp

lemma waits_same:
  assumes "waits_only s t"
  shows "nodes t = nodes s" "tasks t = tasks s" "meta_epoch t = meta_epoch s" "meta_lease t = meta_lease s"
    "running_nodes t = running_nodes s" "dependencies_accepted t = dependencies_accepted s"
    "company_refused t = company_refused s" "lane_active t = lane_active s"
  using assms by (auto simp: waits_only_def running_nodes_def joined_def [abs_def] dependencies_accepted_def [abs_def]
      company_refused_def [abs_def] lane_active_def [abs_def])

section \<open>Admission\<close>

lemma pairs_conflict:
  assumes "mapR f xs = Inr ys" and "x \<in> set xs" and "f x = Inr y"
  shows "y \<in> set ys"
  using assms by (induction xs arbitrary: ys) (auto split: sum.splits)

lemma access_pairs_nil:
  assumes "access_pairs k ls k' rs = Inr []" and "l \<in> set ls" and "r \<in> set rs"
  shows "\<not> overlap l r"
proof
  let ?f = "\<lambda>(a, b). bindR (scopes_overlap a b) (\<lambda>hit. if \<not> hit then Inr []
        else bindR (normalize_scope a) (\<lambda>left. bindR (normalize_scope b) (\<lambda>right.
          Inr [VDict [(''candidate_access'', VStr k), (''candidate_scope'', VStr left),
            (''running_access'', VStr k'), (''running_scope'', VStr right),
            (''overlap'', VStr (scope_overlap_path left right))]])))"
  assume o: "overlap l r"
  obtain ys where ys: "mapR ?f (List.product ls rs) = Inr ys" and nil: "concat ys = []"
    using assms(1) by (auto simp: access_pairs_def res_simps)
  have in_: "(l, r) \<in> set (List.product ls rs)" using assms by simp
  have "\<exists>left right. normalize_scope l = Inr left \<and> normalize_scope r = Inr right"
    using o by (auto simp: overlap_def scopes_overlap_def res_simps)
  then obtain y where "?f (l, r) = Inr [y]" using o by (auto simp: overlap_def)
  then have "[y] \<in> set ys" using pairs_conflict [OF ys in_] by blast
  with nil show False by auto
qed

lemma scope_pairs_nil:
  assumes "scope_access_pairs r w r' w' = Inr []"
  shows "\<not> access_conflict r w r' w'"
proof (cases "scope_access_conflicts r w r' w'")
  case (Inr b)
  show ?thesis
  proof (cases b)
    case True
    with Inr assms have nil: "access_pairs ''write'' w ''write'' w' = Inr []"
      "access_pairs ''write'' w ''read'' r' = Inr []" "access_pairs ''read'' r ''write'' w' = Inr []"
      by (auto simp: scope_access_pairs_def res_simps)
    then show ?thesis using access_pairs_nil unfolding access_conflict_def by blast
  next
    case False
    with Inr show ?thesis using no_conflict by simp
  qed
qed (use assms in \<open>simp add: scope_access_pairs_def\<close>)

lemma no_scope_blockers:
  assumes "scope_blockers W s rep n ms = Inr []" and "(m, u) \<in> set ms"
    and "q_identity W (repository_of (t_contract u)) = Some rep"
  shows "\<not> access_conflict (read_scopes (n_spec n)) (write_scopes (n_spec n))
      (read_scopes (n_spec m)) (write_scopes (n_spec m)) \<and> q_aliases W n m = []"
  using assms
proof (induction ms)
  case (Cons x ms)
  obtain m' u' where x: "x = (m', u')" by force
  show ?case
  proof (cases "(m', u') = (m, u)")
    case True
    with Cons.prems x have "scope_access_pairs (read_scopes (n_spec n)) (write_scopes (n_spec n))
        (read_scopes (n_spec m)) (write_scopes (n_spec m)) = Inr []" and "q_aliases W n m = []"
      by (auto simp: res_simps Let_def split: if_splits)
    then show ?thesis using scope_pairs_nil by blast
  next
    case False
    with Cons.prems x have "scope_blockers W s rep n ms = Inr []" and "(m, u) \<in> set ms"
      by (auto simp: res_simps Let_def split: if_splits)
    then show ?thesis using Cons.IH Cons.prems(3) by blast
  qed
qed simp

text \<open>
  Every rule a claimed node satisfies, in the ledger the claim started from. Its route and the hand-off
  reservation of its repository were read in a ledger that differs from it in waits and events only.
\<close>

definition admitted ::
  "world \<Rightarrow> string list option \<Rightarrow> (string \<times> int) list \<Rightarrow> store \<Rightarrow> selection \<Rightarrow> bool" where
  "admitted W lanes capacities s z \<longleftrightarrow> (let n = z_node z; t = z_task z; spec = n_spec n in
     z_lane z = execution_lane_for_spec (effective_spec spec (r_executor (z_route z)) (r_model (z_route z)))
   \<and> (case lanes of None \<Rightarrow> True | Some names \<Rightarrow> z_lane z \<in> set names)
   \<and> (case map_of capacities (z_lane z) of None \<Rightarrow> True | Some c \<Rightarrow> lane_active s (z_lane z) < c)
   \<and> dependencies_accepted s n \<and> \<not> company_refused s n
   \<and> q_admissible W (effective_spec spec (r_executor (z_route z)) (r_model (z_route z)))
   \<and> (\<exists>repository. q_identity W (repository_of (t_contract t)) = Some repository
       \<and> (\<exists>u authorization. waits_only s u \<and> q_handoff W repository u = Inr False
           \<and> blocked_retry_authorization (n_task n) (n_node n) (n_attempt n + 1) u = Inr authorization
           \<and> candidate_recovery W n (n_attempt n + 1) = Inr (z_recovery z)
           \<and> z_route z = candidate_route n (n_attempt n + 1) (z_recovery z) authorization u)
       \<and> (\<forall>(m, u) \<in> set (running_nodes s). q_identity W (repository_of (t_contract u)) = Some repository \<longrightarrow>
            \<not> access_conflict (read_scopes spec) (write_scopes spec) (read_scopes (n_spec m)) (write_scopes (n_spec m))
            \<and> q_aliases W n m = [])))"

text \<open>A candidate whose turn came and that was skipped or made to wait.\<close>

definition passed_over ::
  "world \<Rightarrow> string list option \<Rightarrow> (string \<times> int) list \<Rightarrow> store \<Rightarrow> node_row \<times> task_row \<Rightarrow> bool" where
  "passed_over W lanes capacities s nt \<longleftrightarrow> (\<exists>u v. waits_only s u \<and> consider_candidate W lanes capacities u nt = Inr v
     \<and> (\<forall>z. v \<noteq> Select z))"

lemma consider_select:
  assumes "consider_candidate W lanes capacities s nt = Inr (Select z)"
  shows "(z_node z, z_task z) = nt \<and> admitted W lanes capacities s z"
proof -
  obtain n t where nt: "nt = (n, t)" by force
  from assms obtain authorization v where
    "blocked_retry_authorization (n_task n) (n_node n) (n_attempt n + 1) s = Inr authorization"
    and "candidate_recovery W n (n_attempt n + 1) = Inr v"
    by (auto simp: nt consider_candidate_def Let_def res_simps)
  note given = this
  define r where "r = candidate_route n (n_attempt n + 1) v authorization s"
  define effective where "effective = effective_spec (n_spec n) (r_executor r) (r_model r)"
  define lane where "lane = execution_lane_for_spec effective"
  have chain: "(if (case lanes of None \<Rightarrow> False | Some names \<Rightarrow> lane \<notin> set names) then Inr Skip
     else if (case map_of capacities lane of None \<Rightarrow> False | Some c \<Rightarrow> c \<le> lane_active s lane) then Inr Skip
     else if \<not> dependencies_accepted s n then Inr Skip
     else if company_refused s n then Inr Skip
     else case q_identity W (repository_of (t_contract t)) of
       None \<Rightarrow> Inr Skip
     | Some repository \<Rightarrow> bindR (q_handoff W repository s) (\<lambda>reserved.
         if reserved then Inr Skip
         else bindR (scope_blockers W s repository n (running_nodes s)) (\<lambda>blockers.
           if blockers \<noteq> [] then Inr (Wait blockers)
           else if \<not> q_admissible W effective then Inr Skip
           else Inr (Select \<lparr>z_node = n, z_task = t, z_route = r, z_recovery = v, z_lane = lane,
             z_pool = quota_pool_id_for_spec effective\<rparr>)))) = Inr (Select z)"
    using assms given unfolding nt consider_candidate_def prod.case Let_def r_def effective_def lane_def by simp
  then obtain rep where rep: "q_identity W (repository_of (t_contract t)) = Some rep"
    and blockers: "scope_blockers W s rep n (running_nodes s) = Inr []"
    and z: "z = \<lparr>z_node = n, z_task = t, z_route = r, z_recovery = v, z_lane = lane,
      z_pool = quota_pool_id_for_spec effective\<rparr>"
    and ok: "dependencies_accepted s n" "\<not> company_refused s n" "q_admissible W effective"
    and handoff: "q_handoff W rep s = Inr False"
    by (auto simp: res_simps split: if_splits option.splits)
  have lanes: "(case lanes of None \<Rightarrow> True | Some names \<Rightarrow> lane \<in> set names)"
    "(case map_of capacities lane of None \<Rightarrow> True | Some c \<Rightarrow> lane_active s lane < c)"
    using chain by (auto split: if_splits option.splits)
  have "\<forall>(m, u) \<in> set (running_nodes s). q_identity W (repository_of (t_contract u)) = Some rep \<longrightarrow>
      \<not> access_conflict (read_scopes (n_spec n)) (write_scopes (n_spec n)) (read_scopes (n_spec m)) (write_scopes (n_spec m))
      \<and> q_aliases W n m = []"
    using no_scope_blockers [OF blockers] by blast
  moreover have "\<exists>u authorization. waits_only s u \<and> q_handoff W rep u = Inr False
      \<and> blocked_retry_authorization (n_task n) (n_node n) (n_attempt n + 1) u = Inr authorization
      \<and> candidate_recovery W n (n_attempt n + 1) = Inr v \<and> r = candidate_route n (n_attempt n + 1) v authorization u"
    using handoff given r_def waits_refl by blast
  ultimately show ?thesis
    using rep lanes ok unfolding nt z admitted_def Let_def selection.select_convs lane_def effective_def by blast
qed

lemma admitted_waits:
  assumes "waits_only s t" and "admitted W lanes capacities t z"
  shows "admitted W lanes capacities s z"
  using assms(2) waits_trans [OF assms(1)] unfolding admitted_def Let_def waits_same [OF assms(1)] by blast

lemma passed_waits: "waits_only s t \<Longrightarrow> passed_over W lanes capacities t nt \<Longrightarrow> passed_over W lanes capacities s nt"
  unfolding passed_over_def by (blast intro: waits_trans)

lemma select_waits:
  "select_candidate sha W lanes capacities ts nts s = Inr (r, t) \<Longrightarrow> waits_only s t \<and>
    (\<forall>z. r = Some z \<longrightarrow> admitted W lanes capacities s z
      \<and> (\<exists>pre post. nts = pre @ (z_node z, z_task z) # post \<and> (\<forall>nt \<in> set pre. passed_over W lanes capacities s nt)))"
proof (induction nts arbitrary: s)
  case (Cons nt nts)
  then obtain v where v: "consider_candidate W lanes capacities s nt = Inr v" by (auto simp: res_simps)
  have later: ?case if u: "waits_only s u" and run: "select_candidate sha W lanes capacities ts nts u = Inr (r, t)"
    and pass: "\<And>z. v \<noteq> Select z" for u
  proof (intro conjI allI impI)
    note IH = Cons.IH [OF run]
    show "waits_only s t" using waits_trans [OF u] IH by blast
    fix z assume "r = Some z"
    with IH obtain pre post where z: "admitted W lanes capacities u z" "nts = pre @ (z_node z, z_task z) # post"
      "\<forall>nt \<in> set pre. passed_over W lanes capacities u nt" by blast
    show "admitted W lanes capacities s z" by (rule admitted_waits [OF u z(1)])
    have "passed_over W lanes capacities s nt"
      unfolding passed_over_def using v pass waits_refl by blast
    then have "\<forall>x \<in> set (nt # pre). passed_over W lanes capacities s x"
      using passed_waits [OF u] z(3) by auto
    moreover have "nt # nts = (nt # pre) @ (z_node z, z_task z) # post" using z(2) by simp
    ultimately show "\<exists>pre post. nt # nts = pre @ (z_node z, z_task z) # post
        \<and> (\<forall>nt \<in> set pre. passed_over W lanes capacities s nt)" by blast
  qed
  show ?case
  proof (cases v)
    case Skip
    with Cons.prems v have "select_candidate sha W lanes capacities ts nts s = Inr (r, t)" by simp
    from later [OF waits_refl this] Skip show ?thesis by simp
  next
    case (Wait bs)
    with Cons.prems v have "select_candidate sha W lanes capacities ts nts
        (record_scope_access_wait sha (fst nt) (n_attempt (fst nt) + 1) bs ts s) = Inr (r, t)" by simp
    from later [OF waits_record this] Wait show ?thesis by simp
  next
    case (Select z)
    with Cons.prems v have "r = Some z" "t = s" by auto
    moreover have "nt = (z_node z, z_task z)" "admitted W lanes capacities s z"
      using consider_select v Select by auto
    moreover from this have "nt # nts = [] @ (z_node z, z_task z) # nts
        \<and> (\<forall>x \<in> set []. passed_over W lanes capacities s x)" by simp
    ultimately show ?thesis using waits_refl by blast
  qed
qed simp

section \<open>The start\<close>

lemma deliver_events: "\<exists>es. fold (deliver_steering n ts) gs s = s\<lparr>events := events s @ es\<rparr>"
proof (induction gs arbitrary: s)
  case Nil
  show ?case by (rule exI [of _ "[]"]) simp
next
  case (Cons g gs)
  obtain e where e: "deliver_steering n ts g s = s\<lparr>events := events s @ [e]\<rparr>"
    unfolding deliver_steering_def using emit_event_extends by blast
  from Cons [of "s\<lparr>events := events s @ [e]\<rparr>"] obtain es where
    "fold (deliver_steering n ts) gs (s\<lparr>events := events s @ [e]\<rparr>) = s\<lparr>events := events s @ e # es\<rparr>"
    by auto
  with e show ?case by (intro exI [of _ "e # es"]) simp
qed

definition started_tasks :: "task_row \<Rightarrow> stamp \<Rightarrow> task_row list \<Rightarrow> task_row list" where
  "started_tasks t ts rows = (if t_state t \<in> {TQueued, TNeedsFix}
     then row_put t_id (t_id t) (\<lambda>t. t\<lparr>t_state := TRunning, t_revision := t_revision t + 1,
       t_updated := ts, t_blocker := None\<rparr>) rows else rows)"

lemma start_task_eq: "\<exists>es. start_task t ts s = s\<lparr>tasks := started_tasks t ts (tasks s), events := events s @ es\<rparr>"
proof (cases "t_state t \<in> {TQueued, TNeedsFix}")
  case True
  then show ?thesis unfolding start_task_def started_tasks_def if_P [OF True] emit_event_snd
    by (simp del: canonical_json.simps) blast
next
  case False
  then show ?thesis unfolding start_task_def started_tasks_def if_not_P [OF False]
    by (intro exI [of _ "[]"]) simp
qed

text \<open>The ledger after a claim: the node runs under a fresh lease and its task is started.\<close>

definition started ::
  "selection \<Rightarrow> string \<Rightarrow> int \<Rightarrow> stamp \<Rightarrow> store \<Rightarrow> store \<Rightarrow> bool" where
  "started z worker epoch ts s t \<longleftrightarrow> (\<exists>ws es. t = s\<lparr>meta_lease := Some (fst (next_lease_epoch s)),
     nodes := row_put node_key (node_key (z_node z)) (\<lambda>x. if n_state x = NPending
       then claimed_node worker (z_route z) epoch (fst (next_lease_epoch s)) ts (z_node z) else x) (nodes s),
     tasks := started_tasks (z_task z) ts (tasks s), waits := ws, events := events s @ es\<rparr>)"

lemma start_node_started:
  assumes "start_node z worker epoch capacities active ts s = (c, t)"
  shows "started z worker epoch ts s t \<and>
    cl_node c = claimed_node worker (z_route z) epoch (fst (next_lease_epoch s)) ts (z_node z)"
proof -
  obtain resumed s1 where s1: "resolve_scope_access_wait (node_key (z_node z)) ''node_claimed_after_scope_gate'' ts s
      = (resumed, s1)" by force
  then have "waits_only s s1" using waits_resolve [of s] by (metis snd_conv)
  then obtain ws es where s1': "s1 = s\<lparr>waits := ws, events := events s @ es\<rparr>" by (auto simp: waits_only_def)
  define n where "n = claimed_node worker (z_route z) epoch (fst (next_lease_epoch s)) ts (z_node z)"
  define s2 where "s2 = s1\<lparr>meta_lease := Some (fst (next_lease_epoch s)),
    nodes := row_put node_key (node_key (z_node z)) (\<lambda>x. if n_state x = NPending then n else x) (nodes s)\<rparr>"
  obtain es' where s3: "start_task (z_task z) ts s2 = s2\<lparr>tasks := started_tasks (z_task z) ts (tasks s2),
      events := events s2 @ es'\<rparr>" using start_task_eq by blast
  define s3 where "s3 = start_task (z_task z) ts s2"
  have lease: "next_lease_epoch s1 = (fst (next_lease_epoch s), s1\<lparr>meta_lease := Some (fst (next_lease_epoch s))\<rparr>)"
    by (simp add: next_lease_epoch_def Let_def s1')
  obtain cursor s4 where s4: "emit_event ''node.started'' (Some (n_task n)) (Some (n_node n))
      (started_payload z n capacities active (admission_wait_cursor (z_node z) (n_attempt n)
        (s1\<lparr>meta_lease := Some (fst (next_lease_epoch s))\<rparr>)) resumed ts) ts s3 = (cursor, s4)" by force
  have s2': "s2 = s1\<lparr>meta_lease := Some (fst (next_lease_epoch s)), nodes := row_put node_key (node_key (z_node z))
      (\<lambda>x. if n_state x = NPending then n else x) (nodes (s1\<lparr>meta_lease := Some (fst (next_lease_epoch s))\<rparr>))\<rparr>"
    by (simp add: s2_def s1')
  have t: "t = fold (deliver_steering n ts) (claim_steering (n_task n) (n_node n) (n_attempt n) s4) s4"
    and c: "cl_node c = n"
    using assms unfolding start_node_def Let_def s1 prod.case lease n_def [symmetric] s2' [symmetric]
      s3_def [symmetric] s4 by auto
  obtain e where e: "s4 = s3\<lparr>events := events s3 @ [e]\<rparr>"
    using emit_event_extends [of "''node.started''"] s4 by (metis snd_conv)
  obtain gs where gs: "t = s4\<lparr>events := events s4 @ gs\<rparr>" using deliver_events t by blast
  have "t = s2\<lparr>tasks := started_tasks (z_task z) ts (tasks s2), events := events s2 @ es' @ e # gs\<rparr>"
    unfolding gs e s3_def s3 by simp
  then have "t = s\<lparr>meta_lease := Some (fst (next_lease_epoch s)),
     nodes := row_put node_key (node_key (z_node z)) (\<lambda>x. if n_state x = NPending then n else x) (nodes s),
     tasks := started_tasks (z_task z) ts (tasks s), waits := ws, events := events s @ es @ es' @ e # gs\<rparr>"
    by (simp add: s2_def s1')
  then show ?thesis using c unfolding started_def n_def by blast
qed

lemma started_waits:
  assumes "waits_only s u" and "started z worker epoch ts u t"
  shows "started z worker epoch ts s t"
proof -
  from assms(1) obtain ws es where u: "u = s\<lparr>waits := ws, events := events s @ es\<rparr>" by (auto simp: waits_only_def)
  from assms(2) obtain ws' es' where "t = u\<lparr>meta_lease := Some (fst (next_lease_epoch u)),
     nodes := row_put node_key (node_key (z_node z)) (\<lambda>x. if n_state x = NPending
       then claimed_node worker (z_route z) epoch (fst (next_lease_epoch u)) ts (z_node z) else x) (nodes u),
     tasks := started_tasks (z_task z) ts (tasks u), waits := ws', events := events u @ es'\<rparr>"
    by (auto simp: started_def)
  moreover have "fst (next_lease_epoch u) = fst (next_lease_epoch s)" by (simp add: u next_lease_epoch_def Let_def)
  ultimately have "t = u\<lparr>meta_lease := Some (fst (next_lease_epoch s)),
     nodes := row_put node_key (node_key (z_node z)) (\<lambda>x. if n_state x = NPending
       then claimed_node worker (z_route z) epoch (fst (next_lease_epoch s)) ts (z_node z) else x) (nodes u),
     tasks := started_tasks (z_task z) ts (tasks u), waits := ws', events := events u @ es'\<rparr>"
    by (simp only:)
  then have "t = s\<lparr>meta_lease := Some (fst (next_lease_epoch s)),
     nodes := row_put node_key (node_key (z_node z)) (\<lambda>x. if n_state x = NPending
       then claimed_node worker (z_route z) epoch (fst (next_lease_epoch s)) ts (z_node z) else x) (nodes s),
     tasks := started_tasks (z_task z) ts (tasks s), waits := ws', events := events s @ es @ es'\<rparr>"
    by (simp add: u)
  then show ?thesis unfolding started_def by blast
qed

lemma claim_cases:
  assumes "claim_ready_node sha W0 identity worker epoch lane_names caps before now s = Inr (r, t)"
  obtains (nothing) "r = None" "waits_only s t"
    | (claimed) c z lanes capacities where "r = Some c" "meta_epoch s = Some epoch"
        "deployment_admission_gate s = None" "normalize_execution_lanes lane_names = Inr lanes"
        "normalize_lane_capacities caps = Inr capacities"
        "\<exists>pre post. claim_candidates s = pre @ (z_node z, z_task z) # post \<and> (\<forall>nt \<in> set pre.
          passed_over (W0\<lparr>q_identity := claim_repository_identities identity before\<rparr>) lanes capacities s nt)"
        "admitted (W0\<lparr>q_identity := claim_repository_identities identity before\<rparr>) lanes capacities s z"
        "\<forall>(m, u) \<in> set (running_nodes s). claim_repository_identities identity before (repository_of (t_contract u)) \<noteq> None"
        "started z worker epoch (utc now) s t"
        "cl_node c = claimed_node worker (z_route z) epoch (fst (next_lease_epoch s)) (utc now) (z_node z)"
proof -
  let ?W = "W0\<lparr>q_identity := claim_repository_identities identity before\<rparr>"
  let ?known = "list_ex (\<lambda>(n, t). q_identity ?W (repository_of (t_contract t)) = None) (running_nodes s)"
  show thesis
  proof (cases "deployment_admission_gate before \<noteq> None \<or> deployment_admission_gate s \<noteq> None \<or> ?known")
    case True
    then have "r = None \<and> waits_only s t"
      using assms by (auto simp: claim_ready_node_def Let_def res_simps split: if_splits)
    then show thesis by (elim conjE) (rule nothing)
  next
    case False
    with assms obtain lanes capacities s1 sel s2 where st: "normalize_execution_lanes lane_names = Inr lanes"
      "normalize_lane_capacities caps = Inr capacities" "meta_epoch s = Some epoch"
      "reconcile_scope_access_waits (utc now) s = Inr s1"
      "select_candidate sha ?W lanes capacities (utc now) (claim_candidates s) s1 = Inr (sel, s2)"
      and out: "(case sel of None \<Rightarrow> Inr (None, s2)
         | Some z \<Rightarrow> (case start_node z worker epoch capacities (lane_active s (z_lane z)) (utc now) s2 of
             (c, t) \<Rightarrow> Inr (Some c, t))) = (Inr (r, t) :: (claim option \<times> store) res)"
      by (auto simp: claim_ready_node_def Let_def res_simps split: if_splits)
    have w1: "waits_only s s1" using st(4) waits_reconcile by (simp add: reconcile_scope_access_waits_def)
    note sel = select_waits [OF st(5)]
    have w2: "waits_only s s2" using waits_trans [OF w1] sel by blast
    show thesis
    proof (cases sel)
      case None
      with out w2 have "r = None \<and> waits_only s t" by auto
      then show thesis by (elim conjE) (rule nothing)
    next
      case (Some z)
      obtain c where c: "start_node z worker epoch capacities (lane_active s (z_lane z)) (utc now) s2 = (c, t)"
        and r: "r = Some c" using out Some by (auto split: prod.splits)
      note sn = start_node_started [OF c]
      have "cl_node c = claimed_node worker (z_route z) epoch (fst (next_lease_epoch s)) (utc now) (z_node z)"
        using sn waits_same(4) [OF w2] by (simp add: next_lease_epoch_def Let_def)
      moreover have "admitted ?W lanes capacities s z"
        using sel Some admitted_waits [OF w1] by blast
      moreover have "\<exists>pre post. claim_candidates s = pre @ (z_node z, z_task z) # post
          \<and> (\<forall>nt \<in> set pre. passed_over ?W lanes capacities s nt)"
        using sel Some passed_waits [OF w1] by blast
      moreover have "started z worker epoch (utc now) s t" using started_waits [OF w2] sn by blast
      moreover have "\<forall>(m, u) \<in> set (running_nodes s).
          claim_repository_identities identity before (repository_of (t_contract u)) \<noteq> None"
        using False by (fastforce simp: list_ex_iff)
      moreover have "deployment_admission_gate s = None" using False by blast
      ultimately show thesis using claimed [OF r st(3) _ st(1,2)] by blast
    qed
  qed
qed

end
