(* ===== verification/Node_Effect.thy ===== *)
theory Node_Effect
  imports Task_Control Claim_Effect
begin

text \<open>
  What the operations on tasks and nodes do to the rows: all but three kinds of steps are \<open>calm\<close>,
  they start nothing, accept nothing and take no acceptance back.
\<close>

section \<open>Calm changes\<close>

definition same_node :: "node_row \<Rightarrow> node_row \<Rightarrow> bool" where
  "same_node n m \<longleftrightarrow> n_task m = n_task n \<and> n_node m = n_node n \<and> n_spec m = n_spec n"

definition calm_node :: "node_row \<Rightarrow> node_row \<Rightarrow> bool" where
  "calm_node n m \<longleftrightarrow> m = n \<or> same_node n m \<and> n_state n \<noteq> NAccepted \<and> n_state m \<notin> {NRunning, NAccepted}"

text \<open>A task with a node that is not accepted.\<close>

definition open_task :: "store \<Rightarrow> string \<Rightarrow> bool" where
  "open_task s k \<longleftrightarrow> (\<exists>n \<in> set (nodes s). n_task n = k \<and> n_state n \<noteq> NAccepted)"

definition calm_task :: "store \<Rightarrow> task_row \<Rightarrow> task_row \<Rightarrow> bool" where
  "calm_task s x y \<longleftrightarrow> t_id y = t_id x \<and> t_contract y = t_contract x \<and> (t_state y = TAccepted \<longrightarrow> t_state x = TAccepted)
     \<and> (t_state x = TAccepted \<longrightarrow> t_state y = TAccepted \<or> open_task s (t_id x))"

definition calm :: "store \<Rightarrow> store \<Rightarrow> bool" where
  "calm s t \<longleftrightarrow> meta_lease t = meta_lease s \<and> list_all2 calm_node (nodes s) (nodes t)
     \<and> list_all2 (calm_task s) (tasks s) (tasks t)"

lemma same_node_refl [simp]: "same_node n n"
  by (simp add: same_node_def)

lemma calm_node_refl [simp]: "calm_node n n"
  by (simp add: calm_node_def)

lemma calm_task_refl [simp]: "calm_task s x x"
  by (simp add: calm_task_def)

lemma calm_node_trans: "calm_node a b \<Longrightarrow> calm_node b c \<Longrightarrow> calm_node a c"
  by (auto simp: calm_node_def same_node_def)

lemma calm_task_trans: "calm_task s x y \<Longrightarrow> calm_task s y z \<Longrightarrow> calm_task s x z"
  by (auto simp: calm_task_def)

lemma list_all2_same_refl: "(\<And>x. P x x) \<Longrightarrow> list_all2 P xs xs"
  by (simp add: list_all2_conv_all_nth)

lemma list_all2_member:
  assumes "list_all2 P xs ys"
  shows "x \<in> set xs \<Longrightarrow> \<exists>y \<in> set ys. P x y" "y \<in> set ys \<Longrightarrow> \<exists>x \<in> set xs. P x y"
  using assms by (induction rule: list_all2_induct) auto

lemma calm_refl [simp]: "calm s s"
  by (simp add: calm_def list_all2_same_refl)

lemma calm_node_accepted: "calm_node n m \<Longrightarrow> n_state m = NAccepted \<longleftrightarrow> n_state n = NAccepted"
  by (auto simp: calm_node_def)

lemma calm_same: "calm_node n m \<Longrightarrow> same_node n m"
  by (auto simp: calm_node_def)

lemma calm_open: "calm s t \<Longrightarrow> open_task t k \<longleftrightarrow> open_task s k"
  unfolding calm_def open_task_def
  by (metis calm_node_accepted calm_same list_all2_member same_node_def)

lemma calm_trans [trans]:
  assumes "calm s t" and "calm t u"
  shows "calm s u"
proof -
  have "calm_task t = calm_task s" unfolding calm_task_def [abs_def] calm_open [OF assms(1)] ..
  then show ?thesis using assms unfolding calm_def
    by (auto intro: list_all2_trans [OF calm_node_trans] list_all2_trans [OF calm_task_trans])
qed

text \<open>The rules below build the calm change of an operation write by write.\<close>

named_theorems calm_intros "writes that keep a change calm"

lemma calm_other: "calm s t \<Longrightarrow> nodes u = nodes t \<Longrightarrow> tasks u = tasks t \<Longrightarrow> meta_lease u = meta_lease t \<Longrightarrow> calm s u"
  by (simp add: calm_def)

lemma calm_emit [calm_intros]: "calm s t \<Longrightarrow> calm s (snd (emit_event k x n p ts t))"
  by (erule calm_other) (simp_all add: emit_event_def)

lemma calm_node_event [calm_intros]: "calm s t \<Longrightarrow> calm s (node_event k n p ts t)"
  unfolding node_event_def by (rule calm_emit)

lemma calm_state_event [calm_intros]: "calm s t \<Longrightarrow> calm s (state_event x st r b e ts t)"
  unfolding state_event_def by (rule calm_emit)

text \<open>A row that is not accepted is put back at rest.\<close>

definition at_rest :: "store \<Rightarrow> string \<times> string \<Rightarrow> bool" where
  "at_rest s k \<longleftrightarrow> (\<forall>n \<in> set (nodes s). node_key n = k \<longrightarrow> n_state n \<noteq> NAccepted)"

definition resting :: "(node_row \<Rightarrow> node_row) \<Rightarrow> bool" where
  "resting f \<longleftrightarrow> (\<forall>m. f m = m \<or> same_node m (f m) \<and> n_state (f m) \<notin> {NRunning, NAccepted})"

lemma calm_row_put:
  assumes "calm s t" and "at_rest s k" and "resting f"
  shows "calm s (t\<lparr>nodes := row_put node_key k f (nodes t)\<rparr>)"
proof -
  have "calm_node n (if node_key m = k then f m else m)"
    if "n \<in> set (nodes s)" "calm_node n m" for n m
  proof (cases "node_key m = k")
    case True
    with that have "node_key n = k" using calm_same by (auto simp: node_key_def same_node_def)
    with that assms(2) have "n_state n \<noteq> NAccepted" by (auto simp: at_rest_def)
    then have "n_state m \<noteq> NAccepted" using that(2) calm_node_accepted by blast
    then have "calm_node m (f m)" using assms(3) unfolding resting_def calm_node_def by metis
    with that True show ?thesis using calm_node_trans by simp
  qed (use that in simp)
  moreover have "list_all2 calm_node (nodes s) (nodes t)" using assms(1) by (simp add: calm_def)
  ultimately have "list_all2 (\<lambda>n m. calm_node n (if node_key m = k then f m else m)) (nodes s) (nodes t)"
    by (rule list.rel_mono_strong [rotated]) blast
  then show ?thesis using assms(1) by (simp add: calm_def row_put_def list_all2_map2)
qed

lemma calm_put_node [calm_intros]:
  "calm s t \<Longrightarrow> at_rest s (node_key n) \<Longrightarrow> resting f \<Longrightarrow> calm s (put_node n f t)"
  unfolding put_node_def by (rule calm_row_put)

definition unaccepted :: "store \<Rightarrow> string \<Rightarrow> bool" where
  "unaccepted s k \<longleftrightarrow> open_task s k \<or> (\<forall>x \<in> set (tasks s). t_id x = k \<longrightarrow> t_state x \<noteq> TAccepted)"

lemma calm_task_put:
  assumes "calm s t" and "unaccepted s k"
    and "\<And>x. t_id (g x) = t_id x \<and> t_contract (g x) = t_contract x \<and> t_state (g x) \<noteq> TAccepted"
  shows "calm s (t\<lparr>tasks := row_put t_id k g (tasks t)\<rparr>)"
proof -
  have "calm_task s x (if t_id y = k then g y else y)"
    if "x \<in> set (tasks s)" "calm_task s x y" for x y
    using that assms(2) assms(3) [of y] by (auto simp: calm_task_def unaccepted_def)
  moreover have "list_all2 (calm_task s) (tasks s) (tasks t)" using assms(1) by (simp add: calm_def)
  ultimately have "list_all2 (\<lambda>x y. calm_task s x (if t_id y = k then g y else y)) (tasks s) (tasks t)"
    by (rule list.rel_mono_strong [rotated]) blast
  then show ?thesis using assms(1) by (simp add: calm_def row_put_def list_all2_map2)
qed

text \<open>A write that keeps the state of a task.\<close>

lemma calm_task_note:
  assumes "calm s t" and "\<And>x. t_id (g x) = t_id x \<and> t_contract (g x) = t_contract x \<and> t_state (g x) = t_state x"
  shows "calm s (t\<lparr>tasks := row_put t_id k g (tasks t)\<rparr>)"
proof -
  have "calm_task s x (if t_id y = k then g y else y)" if "calm_task s x y" for x y
    using that assms(2) [of y] by (auto simp: calm_task_def)
  moreover have "list_all2 (calm_task s) (tasks s) (tasks t)" using assms(1) by (simp add: calm_def)
  ultimately have "list_all2 (\<lambda>x y. calm_task s x (if t_id y = k then g y else y)) (tasks s) (tasks t)"
    by (rule list.rel_mono_strong [rotated]) blast
  then show ?thesis using assms(1) by (simp add: calm_def row_put_def list_all2_map2)
qed

lemma calm_put_task [calm_intros]:
  "calm s t \<Longrightarrow> unaccepted s k \<Longrightarrow> st \<noteq> TAccepted \<Longrightarrow> calm s (put_task k st r b v ts t)"
  unfolding put_task_def by (rule calm_task_put) auto

lemma calm_move_decided [calm_intros]:
  "calm s t \<Longrightarrow> unaccepted s k \<Longrightarrow> st \<noteq> TAccepted \<Longrightarrow> calm s (move_decided k st r b ts t)"
  unfolding move_decided_def by (rule calm_task_put) auto

lemma rest_of_row:
  assumes "unique_key node_key (nodes s)" and "n \<in> set (nodes s)" and "n_state n \<noteq> NAccepted"
  shows "at_rest s (node_key n)" "unaccepted s (n_task n)"
  using assms unique_same [OF assms(1)] unfolding at_rest_def unaccepted_def open_task_def by blast+

lemma unaccepted_row:
  assumes "unique_key t_id (tasks s)" and "row_get t_id k (tasks s) = Some x" and "t_state x \<noteq> TAccepted"
  shows "unaccepted s k"
  using assms tk.look_Some [OF assms(2)] unique_same [OF assms(1)] unfolding unaccepted_def by metis

lemma resting_rows [calm_intros]:
  "resting (restored_node NBlocked a w d r ts)" "resting (restored_node NFailed a w d r ts)"
  "resting (released_node r ts)" "resting (retried_node ts)"
  "resting (settled_node NFailed doc ts)" "resting (settled_node NBlocked doc ts)"
  "resting (settled_node NIndeterminate doc ts)"
  "resting (\<lambda>m. m\<lparr>n_state := NIndeterminate, n_settled := x, n_updated := ts, n_result := y\<rparr>)"
  "resting (\<lambda>m. if n_state m = NFailed then requeued_node z ts m else m)"
  "resting (decided_node decision detach ts)"
  by (auto simp: resting_def same_node_def restored_node_def released_node_def retried_node_def settled_node_def
      requeued_node_def decided_node_def decided_node_state_def split: option.splits)

section \<open>The operator\<close>

lemma allowed_not_accepted: "st \<in> set (allowed_transitions old) \<Longrightarrow> st \<noteq> TAccepted \<and> old \<noteq> TAccepted"
  by (cases old) auto

lemma calm_transition:
  assumes "transition_task k st e b v now s = Inr (r, t)" and "unique_key t_id (tasks s)"
  shows "calm s t"
proof -
  obtain x new where x: "row_get t_id k (tasks s) = Some x"
    and new: "find (\<lambda>y. task_state_name y = st) (allowed_transitions (t_state x)) = Some new"
    and t: "t = state_event x new (t_revision x + 1) b [] (utc now) (put_task k new (t_revision x + 1) b v (utc now) s)"
    using assms(1) by (auto simp: transition_task_def res_simps Let_def split: option.splits)
  from new have "new \<in> set (allowed_transitions (t_state x))" by (auto simp: find_Some_iff)
  from allowed_not_accepted [OF this] show ?thesis unfolding t
    by (intro calm_intros calm_refl unaccepted_row [OF assms(2) x]) auto
qed

lemma calm_priority: "set_task_priority k p e now s = Inr (r, t) \<Longrightarrow> calm s t"
  by (auto simp: set_task_priority_def res_simps Let_def simp del: canonical_json.simps split: if_splits
      intro!: calm_emit calm_task_note)

lemma calm_steering: "append_steering sha k q e sch ts s = Inr (r, t) \<Longrightarrow> calm s t \<and>
    (\<forall>x. row_get t_id k (tasks s) = Some x \<longrightarrow> t_state x \<notin> {TAccepted, TCancelled})"
proof -
  assume "append_steering sha k q e sch ts s = Inr (r, t)"
  then obtain kvs rv rows x where t: "t = snd (emit_event ''task.steering_added'' (Some k) None kvs ts
      (s\<lparr>steering := rows, tasks := row_put t_id k (\<lambda>t. t\<lparr>t_revision := rv, t_updated := ts\<rparr>) (tasks s)\<rparr>))"
    and x: "row_get t_id k (tasks s) = Some x" "t_state x \<notin> {TAccepted, TCancelled}"
    by (auto simp: append_steering_def res_simps Let_def simp del: canonical_json.simps split: prod.splits if_splits)
  have "calm s (s\<lparr>steering := rows\<rparr>)" by (rule calm_other [OF calm_refl]) simp_all
  then have "calm s ((s\<lparr>steering := rows\<rparr>)\<lparr>tasks := row_put t_id k (\<lambda>t. t\<lparr>t_revision := rv, t_updated := ts\<rparr>)
      (tasks (s\<lparr>steering := rows\<rparr>))\<rparr>)" by (rule calm_task_note) simp
  then show ?thesis using x unfolding t by (auto intro!: calm_emit)
qed

lemma calm_steering_receipt: "append_task_steering_receipt sha k q e now s = Inr (r, t) \<Longrightarrow> calm s t"
  by (auto simp: append_task_steering_receipt_def res_simps dest: calm_steering)

lemma calm_session_steering: "append_active_session_steering sha th i e et now s = Inr (r, t) \<Longrightarrow> calm s t"
  by (auto simp: append_active_session_steering_def res_simps simp del: canonical_json.simps
      dest!: calm_steering intro!: calm_emit split: prod.splits if_splits)

lemma recoveries_rows: "recoveries rv ns s = Inr nas \<Longrightarrow> map fst nas = ns"
  unfolding recoveries_def by (induction ns arbitrary: nas) (auto simp: res_simps split: sum.splits)

lemma calm_resets:
  "calm s t \<Longrightarrow> \<forall>na \<in> set nas. at_rest s (node_key (fst na)) \<Longrightarrow> calm s (fold (reset_failed ts) nas t)"
  by (induction nas arbitrary: t) (auto simp: reset_failed_def intro!: calm_put_node resting_rows)

lemma calm_queued: "calm s t \<Longrightarrow> calm s (fold (recovery_queued rv ts) nas t)"
  by (induction nas arbitrary: t) (auto simp: recovery_queued_def Let_def calm_node_event split: option.splits)

lemma failed_at_rest:
  assumes "unique_key node_key (nodes s)" and "n \<in> set (failed_nodes k s)"
  shows "at_rest s (node_key n)"
  by (rule rest_of_row(1) [OF assms(1)]) (use assms(2) in \<open>auto simp: failed_nodes_def\<close>)

lemma calm_node_keys: "calm s t \<Longrightarrow> map node_key (nodes t) = map node_key (nodes s)"
proof -
  assume "calm s t"
  then have "list_all2 calm_node (nodes s) (nodes t)" by (simp add: calm_def)
  then show ?thesis by (induction rule: list_all2_induct) (auto dest: calm_same simp: node_key_def same_node_def)
qed

lemma calm_task_ids: "calm s t \<Longrightarrow> map t_id (tasks t) = map t_id (tasks s)"
proof -
  assume "calm s t"
  then have "list_all2 (calm_task s) (tasks s) (tasks t)" by (simp add: calm_def)
  then show ?thesis by (induction rule: list_all2_induct) (auto simp: calm_task_def)
qed

lemma calm_unique:
  "calm s t \<Longrightarrow> unique_key node_key (nodes s) \<Longrightarrow> unique_key node_key (nodes t)"
  "calm s t \<Longrightarrow> unique_key t_id (tasks s) \<Longrightarrow> unique_key t_id (tasks t)"
  by (simp_all add: unique_key_def calm_node_keys calm_task_ids)

lemma calm_queue:
  assumes "queue_with sha k e i now s = Inr (r, t)"
    and u: "unique_key node_key (nodes s)" "unique_key t_id (tasks s)"
  shows "calm s t"
proof -
  obtain x0 rc s1 x nas where x0: "row_get t_id k (tasks s) = Some x0"
    and st: "t_state x0 \<in> {TInbox, TPlanning, TReady, TNeedsFix, TPaused}"
    and s1: "(case i of None \<Rightarrow> Inr (None, s)
        | Some i \<Rightarrow> bindR (append_steering sha k (task_steering i) e (Some ''next_attempt'') (utc now) s)
            (\<lambda>(receipt, s'). Inr (Some receipt, s'))) = (Inr (rc, s1) :: (pyval option \<times> store) res)"
    and nas: "(if t_state x = TNeedsFix then recoveries (t_revision x + 1) (failed_nodes k s1) s1 else Inr []) = Inr nas"
    and t: "t = fold (recovery_queued (t_revision x + 1) (utc now)) nas (state_event x TQueued (t_revision x + 1) None []
        (utc now) (put_task k TQueued (t_revision x + 1) None None (utc now) (fold (reset_failed (utc now)) nas s1)))"
    using assms(1) by (auto simp: queue_with_def res_simps Let_def simp del: canonical_json.simps)
  have c: "calm s s1" using s1 calm_steering by (auto simp: res_simps split: option.splits)
  have "at_rest s1 (node_key n)" if "n \<in> set (map fst nas)" for n
  proof -
    have "map fst nas = failed_nodes k s1 \<or> nas = []" using nas recoveries_rows by (auto split: if_splits)
    with that have "n \<in> set (failed_nodes k s1)" by (elim disjE) simp_all
    then show ?thesis by (rule failed_at_rest [OF calm_unique(1) [OF c u(1)]])
  qed
  moreover have "at_rest s1 q \<Longrightarrow> at_rest s q" for q
  proof -
    assume "at_rest s1 q"
    moreover have "list_all2 calm_node (nodes s) (nodes s1)" using c by (simp add: calm_def)
    ultimately show ?thesis unfolding at_rest_def
      by (metis calm_node_accepted calm_same list_all2_member(1) node_key_def same_node_def)
  qed
  ultimately have "\<forall>na \<in> set nas. at_rest s (node_key (fst na))" by auto
  then have "calm s (fold (reset_failed (utc now)) nas s1)" by (rule calm_resets [OF c])
  moreover have "unaccepted s k" by (rule unaccepted_row [OF u(2) x0]) (use st in auto)
  ultimately show ?thesis unfolding t by (intro calm_queued calm_state_event calm_put_task) simp_all
qed

lemma calm_queue_task:
  assumes "queue_task sha k e now s = Inr (r, t)"
    and "unique_key node_key (nodes s)" "unique_key t_id (tasks s)"
  shows "calm s t"
proof -
  from assms(1) obtain v where "queue_with sha k e None now s = Inr (v, t)"
    by (auto simp: queue_task_def res_simps)
  from calm_queue [OF this assms(2,3)] show ?thesis .
qed

lemma calm_queue_instruction:
  assumes "queue_task_with_instruction sha k i e now s = Inr (r, t)"
    and "unique_key node_key (nodes s)" "unique_key t_id (tasks s)"
  shows "calm s t"
proof -
  from assms(1) obtain j where "queue_with sha k e (Some j) now s = Inr (r, t)"
    unfolding queue_task_with_instruction_def bindR_Inr by blast
  from calm_queue [OF this assms(2,3)] show ?thesis .
qed

lemma undecided_rest:
  assumes "undecided_node (row_get node_key k (nodes s)) d c = Inr (n, detach)" and "unique_key node_key (nodes s)"
  shows "at_rest s (node_key n)" "unaccepted s (n_task n)" "node_key n = k"
proof -
  have n: "row_get node_key k (nodes s) = Some n" "n_state n = NIndeterminate"
    using assms(1) by (auto simp: undecided_node_def res_simps)
  note in_ = nd.look_Some [OF n(1)]
  then show "at_rest s (node_key n)" "unaccepted s (n_task n)" "node_key n = k"
    using rest_of_row [OF assms(2)] n(2) by auto
qed

lemma decided_not_accepted: "fst (decided_task d r) \<noteq> TAccepted"
  by (auto simp: decided_task_def)

lemma calm_decide:
  assumes "decide_approval a d e c now s = Inr (r, t)" and "unique_key node_key (nodes s)"
  shows "calm s t"
proof (cases "t = s")
  case False
  let ?settled = "\<lambda>n detach. put_node n (decided_node d detach (utc now)) s"
  let ?st = "\<lambda>(y :: approval_row) n detach. decided_task d (remaining_indeterminate (y_task y) (?settled n detach))"
  obtain y :: approval_row and node n detach rv ys kvs kvs' where
    n: "undecided_node (row_get node_key (y_task y, node) (nodes s)) d c = Inr (n, detach)"
    and t: "t = node_event ''node.indeterminate_resolved'' n kvs (utc now) (node_event ''approval.decided'' n kvs' (utc now)
      ((move_decided (y_task y) (fst (?st y n detach)) rv (snd (?st y n detach)) (utc now) (?settled n detach))\<lparr>approvals := ys\<rparr>))"
    using assms(1) False unfolding decide_approval_def Let_def
    by (auto simp: res_simps case_prod_unfold simp del: canonical_json.simps split: option.splits if_splits)
  note rest = undecided_rest [OF n assms(2)]
  from rest(3) have "n_task n = y_task y" by (simp add: node_key_def)
  with rest have "calm s (move_decided (y_task y) (fst (?st y n detach)) rv (snd (?st y n detach)) (utc now) (?settled n detach))"
    by (intro calm_intros calm_refl) (auto simp: decided_not_accepted)
  then show ?thesis unfolding t by (intro calm_node_event) (rule calm_other, simp_all)
qed simp

lemma calm_resolve:
  assumes "resolve_indeterminate k node d e c now s = Inr (r, t)" and "unique_key node_key (nodes s)"
  shows "calm s t"
proof (cases "pending_approval k node s")
  case (Some y)
  with assms show ?thesis using calm_decide by (simp add: resolve_indeterminate_def)
next
  case None
  define st where "st = (if d = ''retry'' then TQueued else if d = ''fail'' then TNeedsFix else TCancelled)"
  have st': "st \<noteq> TAccepted" by (simp add: st_def)
  from None assms(1) obtain n detach rv kvs where
    n: "undecided_node (row_get node_key (k, node) (nodes s)) d c = Inr (n, detach)"
    and t: "t = node_event ''node.indeterminate_resolved'' n kvs (utc now)
      (move_decided k st rv None (utc now) (put_node n (decided_node d detach (utc now)) s))"
    unfolding st_def by (auto simp: resolve_indeterminate_def res_simps Let_def simp del: canonical_json.simps)
  note rest = undecided_rest [OF n assms(2)]
  from rest(3) have "n_task n = k" by (simp add: node_key_def)
  with rest show ?thesis unfolding t by (intro calm_intros calm_refl st') auto
qed

section \<open>Rollbacks and restarts\<close>

lemma add_steering_only: "\<exists>gs. snd (add_steering g s) = s\<lparr>steering := gs\<rparr>"
proof (cases "row_get g_id (g_id g) (steering s) \<noteq> None")
  case True
  then have "snd (add_steering g s) = s\<lparr>steering := steering s\<rparr>" by (simp add: add_steering_def)
  then show ?thesis by blast
next
  case False
  then have "snd (add_steering g s) = s\<lparr>steering := steering s @ [g]\<rparr>" by (simp add: add_steering_def)
  then show ?thesis by blast
qed

lemma kept_store: "snd (case p of (True, t) \<Rightarrow> (f t, t) | (False, t) \<Rightarrow> (g t, t)) = snd p"
  by (cases p) (auto split: bool.split)

lemma continue_steering: "\<exists>gs. snd (continue_attempt_steering sha k m a b ts s) = s\<lparr>steering := gs\<rparr>"
proof -
  have "\<exists>gs. snd (fold (continue_one sha k m b ts) xs acc) = (snd acc)\<lparr>steering := gs\<rparr>" for xs acc
  proof (induction xs arbitrary: acc)
    case Nil
    show ?case by (rule exI [of _ "steering (snd acc)"]) simp
  next
    case (Cons g xs)
    obtain x where "snd (continue_one sha k m b ts g acc) = snd (add_steering x (snd acc))"
      by (cases acc) (simp add: continue_one_def Let_def kept_store; blast)
    with add_steering_only obtain gs where "snd (continue_one sha k m b ts g acc) = (snd acc)\<lparr>steering := gs\<rparr>"
      by metis
    with Cons [of "continue_one sha k m b ts g acc"] show ?case by auto
  qed
  from this [of "sort_key g_sequence (filter (\<lambda>g. g_task g = k \<and> g_scope g = ''attempt'' \<and> g_node g = Some m
         \<and> g_attempt g = Some a \<and> delivered k m a s g) (steering s))" "([], s)"]
  show ?thesis unfolding continue_attempt_steering_def by simp
qed

lemma calm_dirty_rollback:
  assumes "rollback_authorized_dirty_worktree_recovery n t b h ts s = Inr s'"
    and "at_rest s (node_key n)" and "unaccepted s (t_id t)"
  shows "calm s s'"
  using assms by (auto simp: rollback_authorized_dirty_worktree_recovery_def Let_def res_simps
      simp del: canonical_json.simps split: option.splits if_splits intro!: calm_intros)

lemma calm_failed_rollback:
  assumes "rollback_failed_attempt_recovery n t b h ts s = Inr s'"
    and "at_rest s (node_key n)" and "unaccepted s (t_id t)"
  shows "calm s s'"
proof -
  obtain node_st task_st where st: "rollback_states b = Inr (node_st, task_st)"
    using assms(1) by (auto simp: rollback_failed_attempt_recovery_def res_simps)
  then have "node_st \<in> {NFailed, NBlocked}" "task_st \<noteq> TAccepted"
    by (auto simp: rollback_states_def split: if_splits)
  then have "resting (restored_node node_st a w d r ts)" for a w d r
    using resting_rows(1,2) by auto
  with assms st \<open>task_st \<noteq> TAccepted\<close> show ?thesis
    by (auto simp: rollback_failed_attempt_recovery_def failed_rollback_event_def Let_def res_simps
      simp del: canonical_json.simps split: option.splits if_splits intro!: calm_intros)
qed

lemma calm_if [calm_intros]: "(b \<Longrightarrow> calm s x) \<Longrightarrow> (\<not> b \<Longrightarrow> calm s y) \<Longrightarrow> calm s (if b then x else y)"
  by simp

lemma resting_if [calm_intros]: "resting f \<Longrightarrow> resting g \<Longrightarrow> resting (if b then f else g)"
  by simp

lemma calm_continued [calm_intros]:
  "calm s (snd (if b then continue_attempt_steering sha k m x y ts s else ([], s)))"
proof (cases b)
  case True
  obtain gs where "snd (continue_attempt_steering sha k m x y ts s) = s\<lparr>steering := gs\<rparr>"
    using continue_steering by blast
  with True show ?thesis by (simp add: calm_other [OF calm_refl])
qed simp

lemma calm_accepted_rollback:
  assumes "rollback_unassigned_accepted_source_repair sha n t b h ts s = Inr s'"
    and "at_rest s (node_key n)" and "unaccepted s (t_id t)"
  shows "calm s s'"
  using assms(1) unfolding rollback_unassigned_accepted_source_repair_def Let_def case_prod_unfold guard_Inr sum.inject
  by (elim conjE, hypsubst) (intro calm_intros assms(2,3); simp)

lemma calm_approval [calm_intros]: "calm s t \<Longrightarrow> calm s (create_indeterminate_approval sha k m a r w ts t)"
  unfolding create_indeterminate_approval_def Let_def
  by (auto simp del: canonical_json.simps intro!: calm_emit split: if_splits elim: calm_other)

lemma leased_rows:
  assumes "require_lease k m a e l s = Inr (n, t)"
  shows "n \<in> set (nodes s)" "node_key n = (k, m)" "n_state n = NRunning" "t \<in> set (tasks s)" "t_id t = k"
    "n_attempt n = a" "n_epoch n = e" "n_lease n = l" "meta_epoch s = Some e"
proof -
  have n: "row_get node_key (k, m) (nodes s) = Some n" and "joined s n = Some (n, t)"
    and "n_state n = NRunning" "n_attempt n = a" "n_epoch n = e" "n_lease n = l" "meta_epoch s = Some e"
    using assms by (auto simp: require_lease_def leased_row_def res_simps joined_def bind_eq_Some_conv)
  moreover from this(2) have "row_get t_id (n_task n) (tasks s) = Some t" by (auto simp: joined_def)
  ultimately show "n \<in> set (nodes s)" "node_key n = (k, m)" "n_state n = NRunning" "t \<in> set (tasks s)" "t_id t = k"
    "n_attempt n = a" "n_epoch n = e" "n_lease n = l" "meta_epoch s = Some e"
    using nd.look_Some [OF n] tk.look_Some by (auto simp: node_key_def)
qed

lemma calm_conflict:
  assumes "reconcile_settlement_conflict sha J k m a e l er st rj now s = Inr (r, s')"
    and "unique_key node_key (nodes s)"
  shows "calm s s'"
proof (cases "require_lease k m a e l s")
  case (Inl e)
  with assms(1) show ?thesis by (auto simp: reconcile_settlement_conflict_def Let_def res_simps)
next
  case (Inr nt)
  obtain n t where nt: "nt = (n, t)" by force
  note rows = leased_rows [OF Inr [unfolded nt]]
  have rest: "at_rest s (node_key n)" "unaccepted s (n_task n)"
    using rest_of_row [OF assms(2) rows(1)] rows(3) by auto
  have "n_task n = k" using rows(2) by (simp add: node_key_def)
  with assms(1) rest show ?thesis
    by (auto simp: reconcile_settlement_conflict_def Let_def res_simps Inr nt simp del: canonical_json.simps
      split: if_splits intro!: calm_intros calm_task_put)
qed

lemma calm_interrupted:
  assumes "at_rest s (node_key n)" and "unaccepted s (n_task n)"
  shows "calm s (mark_interrupted sha n ts s)"
  using assms unfolding mark_interrupted_def Let_def
  by (intro calm_intros calm_task_put calm_refl) auto

lemma recover_node_cases:
  assumes "recover_node sha J ts n (os, s) = Inr (os', s')"
  obtains (accepted) t b h where "row_get t_id (n_task n) (tasks s) = Some t"
      "rollback_unassigned_accepted_source_repair sha n t b h ts s = Inr s'"
    | (failed) t b h u p where "row_get t_id (n_task n) (tasks s) = Some t"
      "rollback_failed_attempt_recovery n t b h ts s = Inr u"
      "s' = node_event ''failed_attempt_recovery.orphan_cleanup_pending'' n p ts u"
    | (marked) "s' = mark_interrupted sha n ts s"
proof -
  from assms obtain t a where t: "row_get t_id (n_task n) (tasks s) = Some t"
    and "j_accepted J (n_recovery n) (n_attempt n) = Inr a"
    unfolding recover_node_def prod.case bindR_Inr require_Inr by blast
  note eq = assms [unfolded recover_node_def prod.case t require_simps bindR_simps this(2)]
  show thesis
  proof (cases "if n_worktree n = None then a else None")
    case (Some b)
    with eq have "\<exists>h. rollback_unassigned_accepted_source_repair sha n t b h ts s = Inr s'"
      unfolding Some option.case bindR_Inr by blast
    then show thesis using accepted t by blast
  next
    case None
    note eq = eq [unfolded None option.case]
    then obtain f where f: "failed_attempt_recovery_binding (n_recovery n) (n_attempt n) True = Inr f"
      unfolding bindR_Inr by blast
    note eq = eq [unfolded f bindR_simps]
    show thesis
    proof (cases "case f of Some b \<Rightarrow> if fb_state b = ''capture_pending'' then Some b else None | None \<Rightarrow> None")
      case (Some b)
      with eq have "\<exists>h u p. rollback_failed_attempt_recovery n t b h ts s = Inr u
          \<and> s' = node_event ''failed_attempt_recovery.orphan_cleanup_pending'' n p ts u"
        unfolding Some option.case bindR_Inr by blast
      then show thesis using failed t by blast
    next
      case None
      with eq have "s' = mark_interrupted sha n ts s" unfolding None by simp
      then show thesis by (rule marked)
    qed
  qed
qed

lemma calm_recover_node:
  assumes "recover_node sha J ts n (os, s) = Inr (os', s')"
    and rest: "at_rest s (node_key n)" "unaccepted s (n_task n)"
  shows "calm s s'"
proof -
  have same: "row_get t_id (n_task n) (tasks s) = Some t \<Longrightarrow> unaccepted s (t_id t)" for t
    using rest(2) tk.look_Some by metis
  from assms(1) show ?thesis
  proof (cases rule: recover_node_cases)
    case accepted
    then show ?thesis using calm_accepted_rollback [OF _ rest(1)] same by blast
  next
    case failed
    then show ?thesis using calm_failed_rollback [OF _ rest(1)] same calm_node_event by blast
  next
    case marked
    then show ?thesis using calm_interrupted [OF rest] by simp
  qed
qed

lemma calm_at_rest: "calm s t \<Longrightarrow> at_rest t k \<longleftrightarrow> at_rest s k"
  unfolding at_rest_def calm_def
  by (metis calm_node_accepted calm_same list_all2_member node_key_def same_node_def)

lemma calm_recover_nodes:
  "recover_nodes sha J ts ns (os, s) = Inr (os', s') \<Longrightarrow>
    \<forall>n \<in> set ns. at_rest s (node_key n) \<and> open_task s (n_task n) \<Longrightarrow> calm s s'"
proof (induction ns arbitrary: os s)
  case (Cons n ns)
  then obtain os1 s1 where one: "recover_node sha J ts n (os, s) = Inr (os1, s1)"
    and rest: "recover_nodes sha J ts ns (os1, s1) = Inr (os', s')" by (auto simp: res_simps)
  have c: "calm s s1" by (rule calm_recover_node [OF one]) (use Cons.prems(2) in \<open>auto simp: unaccepted_def\<close>)
  moreover have "calm s1 s'"
    by (rule Cons.IH [OF rest]) (use Cons.prems(2) in \<open>simp add: calm_at_rest [OF c] calm_open [OF c]\<close>)
  ultimately show ?case by (rule calm_trans)
qed simp

lemma running_member:
  assumes "(n, t) \<in> set (running_nodes s)"
  shows "n \<in> set (nodes s)" "n_state n = NRunning" "t \<in> set (tasks s)" "t_id t = n_task n"
proof -
  have "n \<in> set (nodes s) \<and> n_state n = NRunning \<and> row_get t_id (n_task n) (tasks s) = Some t"
    using assms by (auto simp: running_nodes_def joined_def map_filter_def)
  then show "n \<in> set (nodes s)" "n_state n = NRunning" "t \<in> set (tasks s)" "t_id t = n_task n"
    using tk.look_Some by blast+
qed

lemma calm_recover:
  assumes "recover_interrupted_with_orphans sha J now s = Inr (r, s')" and "unique_key node_key (nodes s)"
  shows "calm s s'"
proof -
  from assms(1) obtain os where run: "recover_nodes sha J (utc now) (map fst (running_nodes s)) ([], s) = Inr (os, s')"
    by (auto simp: recover_interrupted_with_orphans_def res_simps Let_def)
  show ?thesis
  proof (rule calm_recover_nodes [OF run], rule ballI)
    fix n assume "n \<in> set (map fst (running_nodes s))"
    then obtain t where "(n, t) \<in> set (running_nodes s)" by auto
    note row = running_member [OF this]
    with rest_of_row(1) [OF assms(2) row(1)] show "at_rest s (node_key n) \<and> open_task s (n_task n)"
      by (auto simp: open_task_def)
  qed
qed

end
