(* ===== verification/Settle_Effect.thy ===== *)
theory Settle_Effect
  imports Node_Effect
begin

text \<open>
  What a settlement does to the rows: it is calm, or it accepts its node (and, when the node is the
  verifier of a task nobody holds, the task), or it sends a rejecting verifier and the owners of the
  work back to pending.
\<close>

section \<open>Acceptance and reopening\<close>

definition settled_as :: "node_row \<Rightarrow> pyval \<Rightarrow> stamp \<Rightarrow> store \<Rightarrow> store" where
  "settled_as n doc ts s = put_node n (settled_node NAccepted doc ts) s"

definition accepts :: "node_row \<Rightarrow> store \<Rightarrow> store \<Rightarrow> bool" where
  "accepts n s s' \<longleftrightarrow> (\<exists>doc ts. calm (settled_as n doc ts s) s'
     \<or> is_verifier (n_spec n) \<and> (\<exists>r v. calm (put_task (n_task n) TAccepted r None v ts (settled_as n doc ts s)) s'))"

definition reopened_node :: "node_row \<Rightarrow> node_row \<Rightarrow> node_row \<Rightarrow> bool" where
  "reopened_node n a b \<longleftrightarrow> b = a \<or> same_node a b \<and> n_task a = n_task n \<and> n_state b = NPending"

definition reopened :: "node_row \<Rightarrow> store \<Rightarrow> store \<Rightarrow> bool" where
  "reopened n s u \<longleftrightarrow> meta_lease u = meta_lease s \<and> tasks u = tasks s
     \<and> list_all2 (reopened_node n) (nodes s) (nodes u)
     \<and> (\<forall>m \<in> set (nodes u). node_key m = node_key n \<longrightarrow> n_state m = NPending)"

definition reopens :: "node_row \<Rightarrow> store \<Rightarrow> store \<Rightarrow> bool" where
  "reopens n s s' \<longleftrightarrow> is_verifier (n_spec n) \<and> (\<exists>u. reopened n s u \<and> calm u s')"

lemma reopened_events: "reopened n s u \<Longrightarrow> reopened n s (snd (emit_event k x m p ts u))"
  by (simp add: reopened_def emit_event_def)

lemma reopened_put:
  assumes "reopened n s u" and "k = node_key n \<or> fst k = n_task n"
    and "\<And>m. f m = m \<or> same_node m (f m) \<and> n_state (f m) = NPending"
  shows "reopened n s (u\<lparr>nodes := row_put node_key k f (nodes u)\<rparr>)"
proof -
  have "reopened_node n a (if node_key b = k then f b else b)" if ab: "reopened_node n a b" for a b
  proof (cases "node_key b = k \<and> f b \<noteq> b")
    case True
    have "n_task b = n_task a" using ab by (auto simp: reopened_node_def same_node_def)
    moreover have "n_task b = n_task n" using True assms(2) by (auto simp: node_key_def)
    ultimately show ?thesis using True ab assms(3) [of b] by (auto simp: reopened_node_def same_node_def)
  qed (use ab in auto)
  moreover have "list_all2 (reopened_node n) (nodes s) (nodes u)" using assms(1) by (simp add: reopened_def)
  ultimately have "list_all2 (\<lambda>a b. reopened_node n a (if node_key b = k then f b else b)) (nodes s) (nodes u)"
    by (rule list.rel_mono_strong [rotated]) blast
  moreover have pending: "n_state m' = NPending" if m': "m' \<in> set (row_put node_key k f (nodes u))" "node_key m' = node_key n" for m'
  proof -
    obtain m where m: "m \<in> set (nodes u)" "m' = (if node_key m = k then f m else m)"
      using nd.put_origin [OF m'(1)] by blast
    have "node_key (f m) = node_key m" using assms(3) [of m] by (auto simp: same_node_def node_key_def)
    with m m'(2) assms(1) have "n_state m = NPending" by (auto simp: reopened_def split: if_splits)
    then show ?thesis using assms(3) [of m] m(2) by auto
  qed
  ultimately have "list_all2 (reopened_node n) (nodes s) (row_put node_key k f (nodes u))"
    "\<forall>m \<in> set (row_put node_key k f (nodes u)). node_key m = node_key n \<longrightarrow> n_state m = NPending"
    by (simp add: row_put_def list_all2_map2) (use pending in blast)
  then show ?thesis using assms(1) by (simp add: reopened_def)
qed

lemma reopened_start:
  assumes "nodes u = row_put node_key (node_key n) g (nodes s)" and "tasks u = tasks s"
    and "meta_lease u = meta_lease s" and "\<And>m. same_node m (g m)"
  shows "reopened n s (put_node n (\<lambda>m. released_node (n_recovery m) ts m) u)"
proof -
  have "row_put node_key (node_key n) (\<lambda>m. released_node (n_recovery m) ts m) (nodes u)
      = row_put node_key (node_key n) (\<lambda>m. released_node (n_recovery (g m)) ts (g m)) (nodes s)"
    using assms(4) unfolding assms(1) row_put_def by (auto simp: node_key_def same_node_def)
  moreover have "same_node m (released_node r ts (g m))" for m r
    using assms(4) [of m] by (simp add: same_node_def released_node_def)
  ultimately show ?thesis using assms(2,3)
    by (auto simp: reopened_def put_node_def row_put_def list_all2_map2 list_all2_same reopened_node_def
        node_key_def released_node_def same_node_def)
qed

lemma reopened_owner:
  "reopened n s u \<Longrightarrow> reopened n s (snd (repair_owner sha n t feedback ts ob (ids, u)))"
proof -
  assume r: "reopened n s u"
  obtain owner b where ob: "ob = (owner, b)" by force
  have "reopened n s (snd (add_steering g u))" for g
    using r add_steering_only [of g u] by (auto simp: reopened_def)
  then have "reopened n s ((snd (add_steering g u))\<lparr>nodes := row_put node_key (n_task n, owner)
      (\<lambda>m. if n_state m = NAccepted then released_node d ts m else m) (nodes (snd (add_steering g u)))\<rparr>)" for g d
    by (rule reopened_put) (auto simp: released_node_def same_node_def)
  then show ?thesis unfolding ob repair_owner_def prod.case Let_def snd_conv by (intro reopened_events)
qed

lemma reopened_owners:
  "reopened n s u \<Longrightarrow> reopened n s (snd (fold (repair_owner sha n t feedback ts) obs (ids, u)))"
proof (induction obs arbitrary: ids u)
  case (Cons ob obs)
  obtain ids' u' where step: "repair_owner sha n t feedback ts ob (ids, u) = (ids', u')" by force
  with reopened_owner [OF Cons.prems] have "reopened n s u'" by (metis snd_conv)
  from Cons.IH [OF this] show ?case by (simp add: step)
qed simp

section \<open>The move of the task\<close>

lemma calm_claims: "calm s u \<Longrightarrow> calm s (fold (claim_evidence n h ts) refs u)"
  by (induction refs arbitrary: u) (auto simp: claim_evidence_def intro: calm_node_event)

lemma claims_rows: "nodes (fold (claim_evidence n h ts) refs u) = nodes u
    \<and> tasks (fold (claim_evidence n h ts) refs u) = tasks u
    \<and> meta_lease (fold (claim_evidence n h ts) refs u) = meta_lease u"
  by (induction refs arbitrary: u) (auto simp: claim_evidence_def node_event_def emit_event_def)

text \<open>The same acceptance of a task on both sides of a calm change.\<close>

lemma calm_same_put: "calm u v \<Longrightarrow> calm (put_task k TAccepted r b w ts u) (put_task k TAccepted r b w ts v)"
proof -
  assume c: "calm u v"
  then have l2: "list_all2 (calm_task u) (tasks u) (tasks v)" by (simp add: calm_def)
  define g :: "task_row \<Rightarrow> task_row" where "g = (\<lambda>t. if t_id t = k then t\<lparr>t_state := TAccepted, t_revision := r, t_updated := ts,
     t_blocker := b, t_verdict := w\<rparr> else t)"
  have "calm_task u (g x) (g y)" if "calm_task u x y" for x y
    using that by (auto simp: calm_task_def g_def)
  then have "list_all2 (calm_task u) (map g (tasks u)) (map g (tasks v))"
    using l2 by (simp add: list_all2_map1 list_all2_map2) (blast intro: list_all2_mono)
  moreover have "calm_task (put_task k TAccepted r b w ts u) = calm_task u"
    by (simp add: calm_task_def [abs_def] open_task_def put_task_def)
  ultimately show ?thesis using c by (simp add: calm_def put_task_def row_put_def g_def)
qed

lemma move_state:
  assumes "move_task sha n t h retry owners ts s = (m, s')" and "t_state t \<noteq> TAccepted"
    and "\<not> (node_state_of_status (h_status h) = NAccepted \<and> is_verifier (n_spec n))"
  shows "fst m \<noteq> TAccepted"
  using assms by (auto simp: move_task_def verifier_rejected_def worker_accepted_def Let_def
      split: if_splits sum.splits option.splits list.splits prod.splits)

lemma move_calm:
  assumes "move_task sha n t h retry owners ts s = (m, s')" and "calm s0 s"
    and "at_rest s0 (node_key n)"
    and "\<not> (node_state_of_status (h_status h) = NFailed \<and> is_verifier (n_spec n) \<and> (\<exists>ob obs. owners = Inr (ob # obs)))"
  shows "calm s0 s'"
  using assms by (auto simp: move_task_def verifier_rejected_def retry_in_place_def retry_scheduled_def Let_def
      split: if_splits sum.splits option.splits list.splits prod.splits intro!: calm_intros)

lemma record_calm:
  assumes "record_move t m ts s = (r, s')" and "calm s0 s" and "unaccepted s0 (t_id t)" and "fst m \<noteq> TAccepted"
  shows "calm s0 s'"
  using assms by (cases m) (auto simp: record_move_def split: if_splits intro!: calm_intros)

section \<open>The settlement\<close>

definition stopped :: "store \<Rightarrow> string \<times> string \<Rightarrow> bool" where
  "stopped s k \<longleftrightarrow> (\<forall>m \<in> set (nodes s). node_key m = k \<longrightarrow> n_state m \<noteq> NRunning)"

lemma calm_stopped: "calm s t \<Longrightarrow> stopped s k \<Longrightarrow> stopped t k"
proof -
  assume "calm s t" and s: "stopped s k"
  then have l2: "list_all2 calm_node (nodes s) (nodes t)" by (simp add: calm_def)
  show ?thesis unfolding stopped_def
  proof (intro ballI impI)
    fix m assume "m \<in> set (nodes t)" "node_key m = k"
    moreover from list_all2_member(2) [OF l2 this(1)] obtain n where "n \<in> set (nodes s)" "calm_node n m" by blast
    ultimately show "n_state m \<noteq> NRunning" using s by (auto simp: calm_node_def same_node_def node_key_def stopped_def)
  qed
qed

named_theorems stopped_intros "writes after which a node does not run"

lemma stopped_put [stopped_intros]:
  "(\<And>m. n_state (f m) \<noteq> NRunning \<and> node_key (f m) = node_key m) \<Longrightarrow> stopped (put_node n f s) (node_key n)"
  unfolding stopped_def put_node_def row_put_def by auto

lemma stopped_event [stopped_intros]:
  "stopped s k \<Longrightarrow> stopped (node_event kind n p ts s) k" "stopped s k \<Longrightarrow> stopped (state_event t st r b e ts s) k"
  "stopped s k \<Longrightarrow> stopped (put_task i st r b v ts s) k"
  by (simp_all add: stopped_def node_event_def state_event_def put_task_def emit_event_def)

lemma stopped_if [stopped_intros]: "stopped x k \<Longrightarrow> stopped y k \<Longrightarrow> stopped (if b then x else y) k"
  by simp

lemma stopped_settled: "stopped (settled_as n doc ts s) (node_key n)"
  unfolding settled_as_def by (rule stopped_put) (simp add: settled_node_def node_key_def)

lemma settle_ordinary_effect:
  assumes s': "s' = settle_ordinary sha n t h event retry owners ts s"
    and n: "n \<in> set (nodes s)" "n_state n = NRunning" "unique_key node_key (nodes s)"
    and t: "t \<in> set (tasks s)" "t_id t = n_task n" "t_state t \<noteq> TAccepted" "unique_key t_id (tasks s)"
    and retry: "retry \<noteq> Inr None \<longrightarrow> node_state_of_status (h_status h) \<in> {NFailed, NBlocked} \<and> \<not> is_verifier (n_spec n)"
  shows "(calm s s' \<or> accepts n s s' \<or> reopens n s s') \<and> stopped s' (node_key n)"
proof -
  let ?st = "node_state_of_status (h_status h)" and ?doc = "canonical_json (result_document h)"
  define s1 where "s1 = put_node n (case retry of Inr (Some a) \<Rightarrow> released_node (Some (canonical_json (VDict a))) ts
     | _ \<Rightarrow> settled_node ?st ?doc ts) s"
  define s2 where "s2 = s1\<lparr>allocations := map (\<lambda>w. if w_task w = n_task n \<and> w_node w = n_node n \<and> w_attempt w = n_attempt n
       then w\<lparr>w_result := Some ?doc, w_updated := ts\<rparr> else w) (allocations s1)\<rparr>"
  define s4 where "s4 = (if is_verifier (n_spec n) then fold (claim_evidence n h ts) (h_evidence h)
      (node_event (''node.'' @ node_state_name ?st) n event ts s2) else node_event (''node.'' @ node_state_name ?st) n event ts s2)"
  obtain m s5 where s5: "move_task sha n t h retry owners ts s4 = (m, s5)"
    by (cases "move_task sha n t h retry owners ts s4") blast
  obtain r s6 where s6: "record_move t m ts s5 = (r, s6)" by force
  have s': "s' = (if ?st = NIndeterminate then create_indeterminate_approval sha (n_task n) (n_node n) (n_attempt n) r (h_summary h) ts s6 else s6)"
    unfolding s' settle_ordinary_def Let_def s1_def [symmetric] s2_def [symmetric] s4_def [symmetric] s5 s6 prod.case ..
  have ends: "calm u s6 \<Longrightarrow> calm u s'" for u unfolding s' by (intro calm_intros)
  have s4: "calm u s1 \<Longrightarrow> calm u s4" for u
    unfolding s4_def s2_def by (intro calm_intros calm_claims; erule calm_other; simp)
  note rest = rest_of_row [OF n(3,1)]
  have "unaccepted s (t_id t)" using rest(2) n(2) t(2) by simp
  have held: "\<forall>x \<in> set (tasks s). t_id x = t_id t \<longrightarrow> t_state x \<noteq> TAccepted"
    using t(3) unique_same [OF t(4) _ t(1)] by blast
  have un1: "unaccepted s1 (t_id t)" using held by (simp add: unaccepted_def s1_def put_node_def)
  have un_u: "stopped s' (node_key n)" if "calm (settled_as n doc ts s) s'" for doc ts
    using that stopped_settled by (rule calm_stopped)
  have un_t: "stopped s' (node_key n)" if "calm (put_task k st r b v ts (settled_as n doc ts s)) s'" for k st r b v doc ts
    using that by (rule calm_stopped) (intro stopped_intros stopped_settled)
  consider (accepted) "?st = NAccepted" | (rejected) "?st = NFailed" "is_verifier (n_spec n)" "\<exists>ob obs. owners = Inr (ob # obs)"
    | (other) "?st \<noteq> NAccepted" "\<not> (?st = NFailed \<and> is_verifier (n_spec n) \<and> (\<exists>ob obs. owners = Inr (ob # obs)))"
    by blast
  then show ?thesis
  proof cases
    case other
    have "resting (settled_node ?st ?doc ts)"
      using other(1) resting_rows(5-7) by (auto simp: node_state_of_status_def split: if_splits)
    then have "calm s s1" unfolding s1_def
      by (intro calm_put_node calm_refl) (use rest n(2) resting_rows(3) in \<open>auto split: sum.split option.split\<close>)
    have m: "fst m \<noteq> TAccepted" using move_state [OF s5 t(3)] other(1) by simp
    have "calm s1 s5" using move_calm [OF s5 s4 _ other(2)] calm_at_rest [OF \<open>calm s s1\<close>] rest(1) n(2) by simp
    then have "calm s1 s6" using record_calm [OF s6] m un1 by blast
    moreover have "stopped s1 (node_key n)" unfolding s1_def
      by (rule stopped_put) (auto simp: released_node_def settled_node_def node_key_def node_state_of_status_def
          split: sum.split option.split)
    ultimately show ?thesis using ends calm_stopped calm_trans [OF \<open>calm s s1\<close>] by blast
  next
    case accepted
    with retry have none: "retry = Inr None" by auto
    let ?u = "settled_as n ?doc ts s"
    have s1: "s1 = ?u" unfolding s1_def none settled_as_def accepted by simp
    have c4: "calm ?u s4" using s4 [of ?u] s1 by simp
    have "s5 = s4" using s5 by (auto simp: move_task_def none accepted Let_def split: if_splits prod.splits)
    show ?thesis
    proof (cases "fst m = TAccepted")
      case True
      then have v: "is_verifier (n_spec n)" using move_state [OF s5 t(3)] by blast
      with s5 True t(3) obtain y where m: "m = (TAccepted, None, y)"
        by (auto simp: move_task_def accepted Let_def split: if_splits)
      define w where "w = put_task (n_task n) TAccepted (t_revision t + 1) None y ts ?u"
      have "s6 = state_event t TAccepted (t_revision t + 1) None [] ts (put_task (n_task n) TAccepted (t_revision t + 1) None y ts s4)"
        using s6 t(2,3) unfolding m record_move_def \<open>s5 = s4\<close> by auto
      moreover have "calm w (put_task (n_task n) TAccepted (t_revision t + 1) None y ts s4)"
        using c4 unfolding w_def by (rule calm_same_put)
      ultimately have "calm w s'" using ends calm_state_event by blast
      then show ?thesis using v un_t unfolding accepts_def w_def by blast
    next
      case False
      have "unaccepted ?u (t_id t)"
        using held by (simp add: unaccepted_def settled_as_def put_node_def)
      then have "calm ?u s6" using record_calm [OF s6] c4 False \<open>s5 = s4\<close> by blast
      then show ?thesis using ends un_u unfolding accepts_def by blast
    qed
  next
    case rejected
    with retry have none: "retry = Inr None" by auto
    obtain ob obs where owners: "owners = Inr (ob # obs)" using rejected(3) by blast
    show ?thesis
    proof (cases "under_control t")
      case True
      then have m: "fst m \<noteq> TAccepted" "s5 = s4"
        using s5 t(3) by (auto simp: move_task_def Let_def)
      have c: "calm s s1" unfolding s1_def none rejected(1)
        by (intro calm_put_node calm_refl) (use rest n(2) resting_rows(5) in auto)
      have "calm s1 s6" using record_calm [OF s6 _ un1 m(1)] s4 m(2) calm_refl by blast
      moreover have "stopped s1 (node_key n)" unfolding s1_def none rejected(1)
        by (rule stopped_put) (auto simp: settled_node_def node_key_def)
      ultimately show ?thesis using ends calm_stopped calm_trans [OF c] by blast
    next
      case False
      define fb where "fb = take 500 (''Verifier rejected attempt '' @ str_int (n_attempt n) @ '': '' @ h_summary h)"
      obtain ids u where u: "fold (repair_owner sha n t fb ts) (ob # obs) ([], put_node n (\<lambda>m. released_node (n_recovery m) ts m) s4)
          = (ids, u)" by force
      have m: "m = (TQueued, None, None)" and "\<exists>kvs. s5 = node_event ''task.repair_scheduled'' n kvs ts u"
        using s5 u False rejected(1,2) unfolding move_task_def Let_def none owners verifier_rejected_def fb_def [symmetric]
        by auto
      have s4': "nodes s4 = nodes s1 \<and> tasks s4 = tasks s1 \<and> meta_lease s4 = meta_lease s1"
        using claims_rows by (auto simp: s4_def s2_def node_event_def emit_event_def)
      have "reopened n s (put_node n (\<lambda>m. released_node (n_recovery m) ts m) s4)"
        by (rule reopened_start [where g = "settled_node NFailed ?doc ts"])
          (auto simp: s4' s1_def none rejected(1) put_node_def same_node_def settled_node_def)
      then have ru: "reopened n s u" using reopened_owners [of n s _ sha t fb ts "ob # obs" "[]"] by (metis snd_conv u)
      then have "unaccepted u (t_id t)" using held by (simp add: unaccepted_def reopened_def)
      moreover have "calm u s5" using \<open>\<exists>kvs. s5 = _ kvs\<close> calm_node_event calm_refl by metis
      ultimately have "calm u s6" using record_calm [OF s6] m by simp
      then have "calm u s'" by (rule ends)
      moreover have "stopped u (node_key n)" using ru by (auto simp: stopped_def reopened_def)
      ultimately show ?thesis using calm_stopped ru rejected(2) unfolding reopens_def by blast
    qed
  qed
qed

text \<open>After a rollback its node does not run.\<close>

lemma restored_stopped [stopped_intros]:
  "st \<noteq> NRunning \<Longrightarrow> stopped (put_node n (restored_node st a w d r ts) s) (node_key n)"
  by (rule stopped_put) (simp add: restored_node_def node_key_def)

lemma rollback_stopped:
  "rollback_authorized_dirty_worktree_recovery n t b h ts s = Inr s' \<Longrightarrow> stopped s' (node_key n)"
  unfolding rollback_authorized_dirty_worktree_recovery_def Let_def guard_Inr
  by (cases "row_get w_id (db_allocation b) (allocations s)")
    (simp_all only: option.case guard_Inr sum.inject sum.distinct simp_thms, (elim conjE, hypsubst, intro stopped_intros, simp)+)

lemma failed_rollback_stopped:
  assumes r: "rollback_failed_attempt_recovery n t f h ts s = Inr s'"
  shows "stopped s' (node_key n)"
proof -
  from r obtain st tk where st: "rollback_states f = Inr (st, tk)"
    by (auto simp: rollback_failed_attempt_recovery_def res_simps)
  then have run: "st \<noteq> NRunning" by (auto simp: rollback_states_def split: if_splits)
  from r st obtain w where w: "row_get w_id (fb_allocation f) (allocations s) = Some w"
    by (auto simp: rollback_failed_attempt_recovery_def split: option.splits if_splits)
  from r show ?thesis
    unfolding rollback_failed_attempt_recovery_def Let_def failed_rollback_event_def guard_Inr st bindR_simps prod.case
      w option.case sum.inject
    by (elim conjE, hypsubst) (intro stopped_intros run)
qed

lemma accepted_rollback_stopped:
  assumes "rollback_unassigned_accepted_source_repair sha n t b h ts s = Inr s'"
  shows "stopped s' (node_key n)"
proof -
  have "stopped (put_node n (if x then released_node d ts else restored_node NBlocked a None e d ts) u) (node_key n)" for x d a e u
    by (rule stopped_put) (simp add: released_node_def restored_node_def node_key_def)
  with assms show ?thesis
    unfolding rollback_unassigned_accepted_source_repair_def Let_def case_prod_unfold guard_Inr sum.inject
    by (elim conjE, hypsubst) (intro stopped_event stopped_if)
qed

text \<open>A settlement, whatever its result: its node ran under the given lease, and does not run afterwards.\<close>

lemma settle_locked_effect:
  assumes settle: "settle_locked sha J n t h attempt ts s = Inr s'"
    and n: "n \<in> set (nodes s)" "n_state n = NRunning" "unique_key node_key (nodes s)"
    and t: "t \<in> set (tasks s)" "t_id t = n_task n" "t_state t \<noteq> TAccepted" "unique_key t_id (tasks s)"
  shows "(calm s s' \<or> accepts n s s' \<or> reopens n s s') \<and> stopped s' (node_key n)"
proof -
  have rest: "at_rest s (node_key n)" "unaccepted s (t_id t)" using rest_of_row [OF n(3,1)] n(2) t(2) by auto
  from settle obtain failed where f: "failed_attempt_recovery_binding (n_recovery n) attempt True = Inr failed"
    unfolding settle_locked_def bindR_Inr by blast
  note eq = settle [unfolded settle_locked_def f bindR_simps]
  show ?thesis
  proof (cases "case failed of Some b \<Rightarrow> if fb_state b = ''capture_pending'' then Some b else None | None \<Rightarrow> None")
    case (Some b)
    with eq have "rollback_failed_attempt_recovery n t b h ts s = Inr s'" by simp
    then show ?thesis using calm_failed_rollback [OF _ rest] failed_rollback_stopped by blast
  next
    case None
    note eq = eq [unfolded None option.case]
    from eq obtain accepted where a: "j_accepted J (n_recovery n) attempt = Inr accepted" unfolding bindR_Inr by blast
    note eq = eq [unfolded a bindR_simps]
    show ?thesis
    proof (cases "if n_worktree n = None then accepted else None")
      case (Some b)
      with eq have "rollback_unassigned_accepted_source_repair sha n t b h ts s = Inr s'" by simp
      then show ?thesis using calm_accepted_rollback [OF _ rest] accepted_rollback_stopped by blast
    next
      case None
      note eq = eq [unfolded None option.case]
      then obtain historical dirty where d: "dirty_worktree_recovery_for_settlement (n_recovery n) attempt = Inr dirty"
        and eq: "(case (case dirty of Some b \<Rightarrow> if db_state b = ''authorized'' then Some b else None | None \<Rightarrow> None) of
            Some b \<Rightarrow> rollback_authorized_dirty_worktree_recovery n t b h ts s
          | None \<Rightarrow> let h' = evidenced_result n t h s in
            bindR (owner_repair J n t h' s) (\<lambda>owners. bindR (worker_retry n t h' s) (\<lambda>retry.
            Inr (settle_ordinary sha n t h' (settlement_event n h' dirty failed historical
              (case retry of Inr a \<Rightarrow> a | Inl _ \<Rightarrow> None)) retry owners ts s)))) = Inr s'"
        unfolding bindR_Inr by blast
      show ?thesis
      proof (cases "case dirty of Some b \<Rightarrow> if db_state b = ''authorized'' then Some b else None | None \<Rightarrow> None")
        case (Some b)
        with eq have "rollback_authorized_dirty_worktree_recovery n t b h ts s = Inr s'" by simp
        then show ?thesis using calm_dirty_rollback [OF _ rest] rollback_stopped by blast
      next
        case None
        define h' where "h' = evidenced_result n t h s"
        from eq [unfolded None option.case Let_def h'_def [symmetric]] obtain owners retry event where
          r: "worker_retry n t h' s = Inr retry" and s': "s' = settle_ordinary sha n t h' event retry owners ts s"
          unfolding bindR_Inr by blast
        have "retry \<noteq> Inr None \<longrightarrow> node_state_of_status (h_status h') \<in> {NFailed, NBlocked} \<and> \<not> is_verifier (n_spec n)"
          using r by (auto simp: worker_retry_def split: if_splits)
        then show ?thesis using settle_ordinary_effect [OF s' n t] by blast
      qed
    qed
  qed
qed

end
