(* ===== verification/Node_Machine.thy ===== *)
theory Node_Machine
  imports Settle_Effect
begin

text \<open>
  Tasks and nodes as a machine: \<open>node_step\<close> is any interleaving of the modelled operations on tasks
  and nodes, with every argument, every answer of the world and every other transaction that leaves
  tasks, nodes and node leases alone. \<open>node_cases\<close> sorts its steps, \<open>node_ok\<close> is what they keep.

  The store has other transactions that write tasks or nodes, which are not steps of this machine:
  those that repair or rescope blocked and indeterminate work (\<open>retry_blocked_node\<close> and its like), those
  that assign and roll back worktrees, and \<open>record_node_route\<close>. The root theory lists them. None sets
  a node running. Recovery claims raise the counter of the node leases; \<open>ns_other\<close> keeps it fixed.

  \<open>identity\<close>, the directory of a repository path, is the same in every step.
\<close>

section \<open>Creation\<close>

definition inserted :: "task_contract \<Rightarrow> node_spec list \<Rightarrow> store \<Rightarrow> store \<Rightarrow> bool" where
  "inserted c ns s u \<longleftrightarrow> (\<exists>m ts. row_get t_id (tc_task c) (tasks s) = None
     \<and> node_key ` set (map (new_node_row (tc_task c) ts) ns) \<inter> node_key ` set (nodes s) = {}
     \<and> distinct (map sp_node ns) \<and> (\<forall>n \<in> set ns. sp_task n = tc_task c) \<and> assert_verifier_contract c ns = Inr ()
     \<and> tasks u = tasks s @ [new_task_row (tc_task c) m ts] \<and> meta_lease u = meta_lease s
     \<and> (\<exists>rows. nodes u = nodes s @ rows \<and> set rows = set (map (new_node_row (tc_task c) ts) ns)
         \<and> distinct (map node_key rows)))"

lemma prepare_facts:
  assumes "prepare_task_materialization sha expand c ns = Inr m"
  shows "m_nodes m = sort_key (\<lambda>n. (sp_ordinal n, sp_node n)) ns" "distinct (map sp_node ns)"
    "\<forall>n \<in> set ns. sp_task n = tc_task c" "assert_verifier_contract c ns = Inr ()"
  using assms by (auto simp: prepare_task_materialization_def res_simps list_ex_iff simp del: canonical_json.simps)

lemma insert_inserted:
  assumes m: "prepare_task_materialization sha expand c ns = Inr m" and u: "insert_task (tc_task c) k m ts s = Inr u"
  shows "inserted c ns s u" "\<forall>x \<in> set (tasks u). t_id x = tc_task c \<longrightarrow> t_state x = TInbox"
proof -
  let ?rows = "map (new_node_row (tc_task c) ts) (m_nodes m)"
  from u have t: "row_get t_id (tc_task c) (tasks s) = None" "tasks u = tasks s @ [new_task_row (tc_task c) m ts]"
    and n: "distinct (map node_key ?rows)" "node_key ` set ?rows \<inter> node_key ` set (nodes s) = {}" "nodes u = nodes s @ ?rows"
    and l: "meta_lease u = meta_lease s"
    by (auto simp: insert_task_def res_simps tk.add_Inr rows_add_Inr new_task_row_def emit_event_snd
        simp del: canonical_json.simps)
  have "set ?rows = set (map (new_node_row (tc_task c) ts) ns)" using prepare_facts(1) [OF m] by simp
  with t n l prepare_facts(2-4) [OF m] show "inserted c ns s u" unfolding inserted_def by metis
  show "\<forall>x \<in> set (tasks u). t_id x = tc_task c \<longrightarrow> t_state x = TInbox"
    using t tk.look_None [of "tc_task c" "tasks s"] by (auto simp: new_task_row_def image_iff)
qed

definition creates :: "store \<Rightarrow> store \<Rightarrow> bool" where
  "creates s t \<longleftrightarrow> (\<exists>c ns u. inserted c ns s u \<and> calm u t)"

lemma create_task_effect:
  assumes "create_task sha expand c ns k now s = Inr (x, t)"
  shows "calm s t \<or> creates s t"
proof -
  obtain m where m: "prepare_task_materialization sha expand c ns = Inr m"
    using assms by (auto simp: create_task_def res_simps)
  from assms m have "t = s \<or> insert_task (tc_task c) k m (utc now) s = Inr t"
    by (auto simp: create_task_def res_simps split: option.splits if_splits)
  then show ?thesis using insert_inserted(1) [OF m] unfolding creates_def by (metis calm_refl)
qed

lemma calm_queue_new:
  assumes "\<forall>x \<in> set (tasks u). t_id x = k \<longrightarrow> t_state x = TInbox"
  shows "calm u (queue_new_task k ts u)"
  unfolding queue_new_task_def using assms by (intro calm_emit calm_task_put calm_refl) (auto simp: unaccepted_def)

lemma calm_bind: "bind_session c th ts s = Inr t \<Longrightarrow> calm s t"
  by (auto simp: bind_session_def res_simps simp del: canonical_json.simps split: if_splits
      intro!: calm_emit calm_other [OF calm_refl])

lemma write_effect:
  assumes m: "prepare_task_materialization sha expand c ns = Inr m"
    and w: "write_materialization p c m r q th ts s = Inr (x, t)"
  shows "creates s t"
proof -
  let ?queued = "\<lambda>u. if q then queue_new_task (tc_task c) ts u else u"
  obtain u v kvs rows where u: "insert_task (tc_task c) (p_command p) m ts s = Inr u"
    and v: "(case th of None \<Rightarrow> Inr (?queued u) | Some y \<Rightarrow> bind_session c y ts (?queued u)) = Inr v"
    and t: "t = snd (emit_event ''planning_request.succeeded'' (Some (tc_task c)) None kvs ts (v\<lparr>plannings := rows\<rparr>))"
    using w unfolding write_materialization_def Let_def bindR_Inr sum.inject prod.inject by blast
  have queued: "calm u (?queued u)" using calm_queue_new [OF insert_inserted(2) [OF m u]] by simp
  have "calm u v"
  proof (cases th)
    case None
    with v queued show ?thesis by simp
  next
    case (Some y)
    with v have "bind_session c y ts (?queued u) = Inr v" by simp
    with queued show ?thesis using calm_trans calm_bind by blast
  qed
  then have "calm u t" unfolding t by (intro calm_emit) (erule calm_other, simp_all)
  then show ?thesis using insert_inserted(1) [OF m u] unfolding creates_def by blast
qed

lemma materialize_effect:
  assumes "materialize_planning_request sha expand k a e c ns r q th now s = Inr (x, t)"
  shows "calm s t \<or> creates s t"
proof -
  obtain m where m: "prepare_task_materialization sha expand c ns = Inr m"
    using assms by (auto simp: materialize_planning_request_def res_simps)
  with assms have "t = s \<or> (\<exists>p. write_materialization p c m r q th (utc now) s = Inr (x, t))"
    by (auto simp: materialize_planning_request_def res_simps split: if_splits)
  then show ?thesis using write_effect [OF m] by auto
qed

section \<open>The machine\<close>

inductive node_step :: "(pyval \<Rightarrow> string) \<Rightarrow> (string \<Rightarrow> string) \<Rightarrow> store \<Rightarrow> store \<Rightarrow> bool" for sha identity where
  ns_create: "create_task sha expand c ns k now s = Inr (x, t) \<Longrightarrow> node_step sha identity s t"
| ns_materialize: "materialize_planning_request sha expand k a e c ns r q th now s = Inr (y, t) \<Longrightarrow> node_step sha identity s t"
| ns_claim: "claim_ready_node sha W identity worker e lanes caps before now s = Inr (z, t) \<Longrightarrow> node_step sha identity s t"
| ns_settle: "settle_node sha J k m h a e l before now s = Inr (u, t) \<Longrightarrow> node_step sha identity s t"
| ns_conflict: "reconcile_settlement_conflict sha J k m a e l er st rj now s = Inr (b, t) \<Longrightarrow> node_step sha identity s t"
| ns_recover: "recover_interrupted_with_orphans sha J now s = Inr (os, t) \<Longrightarrow> node_step sha identity s t"
| ns_transition: "transition_task k target ex b v now s = Inr (r, t) \<Longrightarrow> node_step sha identity s t"
| ns_priority: "set_task_priority k i e now s = Inr (r, t) \<Longrightarrow> node_step sha identity s t"
| ns_queue: "queue_task sha k ex now s = Inr (r, t) \<Longrightarrow> node_step sha identity s t"
| ns_queue_with: "queue_task_with_instruction sha k i ex now s = Inr (o1, t) \<Longrightarrow> node_step sha identity s t"
| ns_steer: "append_task_steering_receipt sha k rq ex now s = Inr (o2, t) \<Longrightarrow> node_step sha identity s t"
| ns_session: "append_active_session_steering sha th i ex et now s = Inr (o2, t) \<Longrightarrow> node_step sha identity s t"
| ns_decide: "decide_approval k d e c1 now s = Inr (r, t) \<Longrightarrow> node_step sha identity s t"
| ns_resolve: "resolve_indeterminate k m d e c1 now s = Inr (r, t) \<Longrightarrow> node_step sha identity s t"
| ns_other: "nodes t = nodes s \<Longrightarrow> tasks t = tasks s \<Longrightarrow> meta_lease t = meta_lease s \<Longrightarrow> node_step sha identity s t"

definition no_tasks :: "store \<Rightarrow> bool" where
  "no_tasks s \<longleftrightarrow> tasks s = [] \<and> nodes s = []"

text \<open>A claim that took a node: which one, and what admitted it.\<close>

definition claims :: "(string \<Rightarrow> string) \<Rightarrow> selection \<Rightarrow> store \<Rightarrow> store \<Rightarrow> bool" where
  "claims identity z s t \<longleftrightarrow> (\<exists>W lanes capacities before worker e ts.
     admitted (W\<lparr>q_identity := claim_repository_identities identity before\<rparr>) lanes capacities s z
   \<and> (z_node z, z_task z) \<in> set (claim_candidates s)
   \<and> (\<forall>(m, u) \<in> set (running_nodes s). claim_repository_identities identity before (repository_of (t_contract u)) \<noteq> None)
   \<and> started z worker e ts s t)"

definition keys_ok :: "store \<Rightarrow> bool" where
  "keys_ok s \<longleftrightarrow> unique_key node_key (nodes s) \<and> unique_key t_id (tasks s)
     \<and> (\<forall>n \<in> set (nodes s). n_task n \<in> t_id ` set (tasks s))"

text \<open>What is accepted together, and when the verifier of a task runs.\<close>

definition verified_ok :: "store \<Rightarrow> bool" where
  "verified_ok s \<longleftrightarrow> (\<forall>v \<in> set (nodes s). is_verifier (n_spec v) \<and> n_state v \<in> {NRunning, NAccepted} \<longrightarrow>
       (\<forall>n \<in> set (nodes s). n_task n = n_task v \<and> node_key n \<noteq> node_key v \<longrightarrow> n_state n = NAccepted))
     \<and> (\<forall>x \<in> set (tasks s). t_state x = TAccepted \<longrightarrow> (\<forall>n \<in> set (nodes s). n_task n = t_id x \<longrightarrow> n_state n = NAccepted))"

lemma waits_calm: "waits_only s t \<Longrightarrow> calm s t"
  by (auto simp: waits_only_def intro: calm_other [OF calm_refl])

lemma running_unaccepted:
  assumes "verified_ok s" and "n \<in> set (nodes s)" "n_state n = NRunning" and "t \<in> set (tasks s)" "t_id t = n_task n"
  shows "t_state t \<noteq> TAccepted"
proof
  assume "t_state t = TAccepted"
  with assms(1,2,4) assms(5) [symmetric] have "n_state n = NAccepted" unfolding verified_ok_def by blast
  with assms(3) show False by simp
qed

lemma settle_effect:
  assumes "settle_node sha J k m h a e l before now s = Inr (u, t)" and "keys_ok s" and "verified_ok s"
  obtains n where "n \<in> set (nodes s)" "n_state n = NRunning" "node_key n = (k, m)" "n_lease n = l"
    "calm s t \<or> accepts n s t \<or> reopens n s t" "stopped t (k, m)"
proof -
  from assms(1) obtain n x where r: "require_lease k m a e l s = Inr (n, x)"
    and l: "settle_locked sha J n x h a (utc now) s = Inr t"
    by (auto simp: settle_node_def res_simps split: if_splits)
  note rows = leased_rows [OF r]
  have task: "n_task n = k" using rows(2) by (simp add: node_key_def)
  have "t_state x \<noteq> TAccepted"
    by (rule running_unaccepted [OF assms(3) rows(1,3,4)]) (simp add: rows(5) task)
  from settle_locked_effect [OF l rows(1,3) _ rows(4) _ this] assms(2) rows that show thesis
    by (simp add: keys_ok_def task)
qed

lemma node_cases:
  assumes "node_step sha identity s t" and "keys_ok s" and "verified_ok s"
  obtains (calm) "calm s t" | (created) "creates s t" | (claimed) z where "claims identity z s t"
    | (accepted) n where "n \<in> set (nodes s)" "n_state n = NRunning" "accepts n s t"
    | (reopened) n where "n \<in> set (nodes s)" "n_state n = NRunning" "reopens n s t"
proof -
  from assms(2) have u: "unique_key node_key (nodes s)" "unique_key t_id (tasks s)" by (auto simp: keys_ok_def)
  from assms(1) show thesis
  proof cases
    case (ns_create expand c ns k now x)
    from create_task_effect [OF this] show thesis using calm created by blast
  next
    case (ns_materialize expand k a e c ns r q th now y)
    from materialize_effect [OF this] show thesis using calm created by blast
  next
    case (ns_claim W worker e lanes caps before now z)
    then show thesis
    proof (cases rule: claim_cases)
      case nothing
      then show thesis using calm waits_calm by blast
    next
      case (claimed c u lanes' capacities)
      then have "(z_node u, z_task u) \<in> set (claim_candidates s)" by (elim exE conjE) simp
      with claimed(7-9) show thesis using that(3) [of u] unfolding claims_def by blast
    qed
  next
    case (ns_settle J k m h a e l before now u)
    from settle_effect [OF this assms(2,3)] show thesis using calm accepted reopened by metis
  next
    case (ns_conflict J k m a e l er st rj now b)
    from calm_conflict [OF this u(1)] show thesis by (rule calm)
  next
    case (ns_recover J now os)
    from calm_recover [OF this u(1)] show thesis by (rule calm)
  next
    case (ns_transition k target ex b v now r)
    from calm_transition [OF this u(2)] show thesis by (rule calm)
  next
    case (ns_priority k i e now r)
    from calm_priority [OF this] show thesis by (rule calm)
  next
    case (ns_queue k ex now r)
    from calm_queue_task [OF this u] show thesis by (rule calm)
  next
    case (ns_queue_with k i ex now o1)
    from calm_queue_instruction [OF this u] show thesis by (rule calm)
  next
    case (ns_steer k rq ex now o2)
    from calm_steering_receipt [OF this] show thesis by (rule calm)
  next
    case (ns_session th i ex et now o2)
    from calm_session_steering [OF this] show thesis by (rule calm)
  next
    case (ns_decide k d e c1 now r)
    from calm_decide [OF this u(1)] show thesis by (rule calm)
  next
    case (ns_resolve k m d e c1 now r)
    from calm_resolve [OF this u(1)] show thesis by (rule calm)
  next
    case ns_other
    then have "calm s t" by (rule calm_other [OF calm_refl])
    then show thesis by (rule calm)
  qed
qed

end
