(* ===== verification/Node_Invariant.thy ===== *)
theory Node_Invariant
  imports Node_Machine
begin

text \<open>
  What every operation on tasks and nodes keeps: keys and graphs, verifiers that run only on
  accepted work, leases that are never shared, and running nodes that never conflict.
\<close>

section \<open>The invariant\<close>

definition graph_ok :: "store \<Rightarrow> bool" where
  "graph_ok s \<longleftrightarrow> (\<forall>v \<in> set (nodes s). is_verifier (n_spec v) \<longrightarrow>
       (\<forall>n \<in> set (nodes s). n_task n = n_task v \<and> node_key n \<noteq> node_key v \<longrightarrow>
          n_node n \<in> set (depends_on (n_spec v)) \<and> \<not> is_verifier (n_spec n)))
     \<and> (\<forall>x \<in> set (tasks s). \<exists>v \<in> set (nodes s). n_task v = t_id x \<and> is_verifier (n_spec v))"

definition node_counter :: "store \<Rightarrow> int" where
  "node_counter s = (case meta_lease s of None \<Rightarrow> 0 | Some e \<Rightarrow> e)"

definition leases_ok :: "store \<Rightarrow> bool" where
  "leases_ok s \<longleftrightarrow> (\<forall>n \<in> set (nodes s). n_state n = NRunning \<longrightarrow> n_lease n \<le> node_counter s
     \<and> (\<forall>m \<in> set (nodes s). n_state m = NRunning \<and> n_lease m = n_lease n \<longrightarrow> node_key m = node_key n))"

definition node_conflict :: "node_row \<Rightarrow> node_row \<Rightarrow> bool" where
  "node_conflict n m \<longleftrightarrow> access_conflict (read_scopes (n_spec n)) (write_scopes (n_spec n))
     (read_scopes (n_spec m)) (write_scopes (n_spec m))"

text \<open>Two running nodes whose tasks are of one repository do not conflict.\<close>

definition apart :: "(string \<Rightarrow> string) \<Rightarrow> store \<Rightarrow> bool" where
  "apart identity s \<longleftrightarrow> (\<forall>n \<in> set (nodes s). \<forall>m \<in> set (nodes s). \<forall>x \<in> set (tasks s). \<forall>y \<in> set (tasks s).
     n_state n = NRunning \<and> n_state m = NRunning \<and> node_key n \<noteq> node_key m \<and> t_id x = n_task n \<and> t_id y = n_task m
     \<and> identity (repository_of (t_contract x)) = identity (repository_of (t_contract y)) \<longrightarrow> \<not> node_conflict n m)"

definition node_ok :: "(string \<Rightarrow> string) \<Rightarrow> store \<Rightarrow> bool" where
  "node_ok identity s \<longleftrightarrow> keys_ok s \<and> verified_ok s \<and> graph_ok s \<and> leases_ok s \<and> apart identity s"

text \<open>The same tasks and nodes, whatever their states.\<close>

definition twins :: "store \<Rightarrow> store \<Rightarrow> bool" where
  "twins s t \<longleftrightarrow> map node_key (nodes t) = map node_key (nodes s) \<and> map t_id (tasks t) = map t_id (tasks s)
     \<and> (\<forall>m \<in> set (nodes t). \<exists>n \<in> set (nodes s). same_node n m)
     \<and> (\<forall>n \<in> set (nodes s). \<exists>m \<in> set (nodes t). same_node n m)
     \<and> (\<forall>y \<in> set (tasks t). \<exists>x \<in> set (tasks s). t_id y = t_id x \<and> t_contract y = t_contract x)"

text \<open>What a change that starts nothing tells of the rows after it.\<close>

definition stems :: "store \<Rightarrow> store \<Rightarrow> bool" where
  "stems s t \<longleftrightarrow> meta_lease t = meta_lease s \<and> twins s t
     \<and> (\<forall>m \<in> set (nodes t). n_state m = NRunning \<longrightarrow> m \<in> set (nodes s))"

lemma stems_twins: "stems s t \<Longrightarrow> twins s t"
  by (simp add: stems_def)

lemma same_node_key: "same_node n m \<Longrightarrow> node_key m = node_key n \<and> n_task m = n_task n \<and> n_node m = n_node n \<and> n_spec m = n_spec n"
  by (simp add: same_node_def node_key_def)

lemma twins_node: "twins s t \<Longrightarrow> m \<in> set (nodes t) \<Longrightarrow> \<exists>n \<in> set (nodes s). same_node n m"
  by (simp add: twins_def)

lemma twins_kept: "twins s t \<Longrightarrow> n \<in> set (nodes s) \<Longrightarrow> \<exists>m \<in> set (nodes t). same_node n m"
  by (simp add: twins_def)

lemma twins_task: "twins s t \<Longrightarrow> y \<in> set (tasks t) \<Longrightarrow> \<exists>x \<in> set (tasks s). t_id y = t_id x \<and> t_contract y = t_contract x"
  by (simp add: twins_def)

lemma verified_rest:
  "verified_ok s \<Longrightarrow> v \<in> set (nodes s) \<Longrightarrow> is_verifier (n_spec v) \<Longrightarrow> n_state v \<in> {NRunning, NAccepted} \<Longrightarrow>
    n \<in> set (nodes s) \<Longrightarrow> n_task n = n_task v \<Longrightarrow> node_key n \<noteq> node_key v \<Longrightarrow> n_state n = NAccepted"
  unfolding verified_ok_def by blast

lemma verified_task:
  "verified_ok s \<Longrightarrow> x \<in> set (tasks s) \<Longrightarrow> t_state x = TAccepted \<Longrightarrow> n \<in> set (nodes s) \<Longrightarrow> n_task n = t_id x \<Longrightarrow>
    n_state n = NAccepted"
  unfolding verified_ok_def by blast

lemma verifiedI:
  assumes "\<And>v n. v \<in> set (nodes s) \<Longrightarrow> is_verifier (n_spec v) \<Longrightarrow> n_state v \<in> {NRunning, NAccepted} \<Longrightarrow>
      n \<in> set (nodes s) \<Longrightarrow> n_task n = n_task v \<Longrightarrow> node_key n \<noteq> node_key v \<Longrightarrow> n_state n = NAccepted"
    and "\<And>x n. x \<in> set (tasks s) \<Longrightarrow> t_state x = TAccepted \<Longrightarrow> n \<in> set (nodes s) \<Longrightarrow> n_task n = t_id x \<Longrightarrow>
      n_state n = NAccepted"
  shows "verified_ok s"
  unfolding verified_ok_def using assms by blast

lemma graph_rest:
  "graph_ok s \<Longrightarrow> v \<in> set (nodes s) \<Longrightarrow> is_verifier (n_spec v) \<Longrightarrow> n \<in> set (nodes s) \<Longrightarrow> n_task n = n_task v \<Longrightarrow>
    node_key n \<noteq> node_key v \<Longrightarrow> n_node n \<in> set (depends_on (n_spec v)) \<and> \<not> is_verifier (n_spec n)"
  unfolding graph_ok_def by blast

lemma twins_keys: "twins s t \<Longrightarrow> keys_ok s \<Longrightarrow> keys_ok t"
proof -
  assume st: "twins s t" and k: "keys_ok s"
  have ids: "t_id ` set (tasks t) = t_id ` set (tasks s)" using st unfolding twins_def by (metis set_map)
  have "n_task m \<in> t_id ` set (tasks t)" if m: "m \<in> set (nodes t)" for m
  proof -
    obtain n where n: "n \<in> set (nodes s)" "same_node n m" using twins_node [OF st m] by blast
    then have "n_task n \<in> t_id ` set (tasks s)" using k by (simp add: keys_ok_def)
    then show ?thesis using same_node_key [OF n(2)] ids by simp
  qed
  then show ?thesis using st k by (simp add: keys_ok_def unique_key_def twins_def)
qed

lemma twins_graph:
  assumes st: "twins s t" and g: "graph_ok s"
  shows "graph_ok t"
proof -
  have "n_node n \<in> set (depends_on (n_spec v)) \<and> \<not> is_verifier (n_spec n)"
    if v: "v \<in> set (nodes t)" "is_verifier (n_spec v)" and n: "n \<in> set (nodes t)" "n_task n = n_task v" "node_key n \<noteq> node_key v"
    for v n
  proof -
    obtain v0 n0 where 0: "v0 \<in> set (nodes s)" "same_node v0 v" "n0 \<in> set (nodes s)" "same_node n0 n"
      using twins_node [OF st v(1)] twins_node [OF st n(1)] by blast
    note eqs = same_node_key [OF 0(2)] same_node_key [OF 0(4)]
    from graph_rest [OF g 0(1) _ 0(3)] eqs v(2) n(2,3) show ?thesis by simp
  qed
  moreover have "\<exists>v \<in> set (nodes t). n_task v = t_id y \<and> is_verifier (n_spec v)" if y: "y \<in> set (tasks t)" for y
  proof -
    obtain x where x: "x \<in> set (tasks s)" "t_id y = t_id x" using twins_task [OF st y] by blast
    then obtain v where v: "v \<in> set (nodes s)" "n_task v = t_id x" "is_verifier (n_spec v)"
      using g unfolding graph_ok_def by blast
    obtain m where m: "m \<in> set (nodes t)" "same_node v m" using twins_kept [OF st v(1)] by blast
    then show ?thesis using same_node_key [OF m(2)] v x(2) by (intro bexI [of _ m]) auto
  qed
  ultimately show ?thesis unfolding graph_ok_def by blast
qed

lemma stems_running:
  assumes "stems s t" and "m \<in> set (nodes t)" and "n_state m = NRunning"
  shows "m \<in> set (nodes s)"
  using assms by (simp add: stems_def)

lemma stems_leases:
  assumes "stems s t" and l: "leases_ok s"
  shows "leases_ok t"
proof -
  have "node_counter t = node_counter s" using assms(1) by (simp add: node_counter_def stems_def)
  then show ?thesis using l stems_running [OF assms(1)] unfolding leases_ok_def by simp
qed

lemma stems_apart:
  assumes "stems s t" and "apart identity s"
  shows "apart identity t"
  unfolding apart_def
proof (intro ballI impI, elim conjE)
  fix n m x y assume n: "n \<in> set (nodes t)" "n_state n = NRunning" and m: "m \<in> set (nodes t)" "n_state m = NRunning"
    and xy: "x \<in> set (tasks t)" "y \<in> set (tasks t)" "t_id x = n_task n" "t_id y = n_task m"
    and k: "node_key n \<noteq> node_key m" "identity (repository_of (t_contract x)) = identity (repository_of (t_contract y))"
  obtain x0 where x0: "x0 \<in> set (tasks s)" "t_id x = t_id x0" "t_contract x = t_contract x0"
    using twins_task [OF stems_twins [OF assms(1)] xy(1)] by blast
  obtain y0 where y0: "y0 \<in> set (tasks s)" "t_id y = t_id y0" "t_contract y = t_contract y0"
    using twins_task [OF stems_twins [OF assms(1)] xy(2)] by blast
  have "t_id x0 = n_task n" "t_id y0 = n_task m"
    "identity (repository_of (t_contract x0)) = identity (repository_of (t_contract y0))"
    using x0(2,3) y0(2,3) xy(3,4) k(2) by simp_all
  then show "\<not> node_conflict n m"
    using assms(2) stems_running [OF assms(1) n] stems_running [OF assms(1) m] n(2) m(2) k(1) x0(1) y0(1)
    unfolding apart_def by blast
qed

lemma stems_ok:
  assumes "stems s t" and "node_ok identity s" and "verified_ok t"
  shows "node_ok identity t"
  using assms stems_twins twins_keys twins_graph stems_leases stems_apart unfolding node_ok_def by blast

section \<open>Calm changes\<close>

lemma calm_rows:
  assumes "calm s t"
  shows "m \<in> set (nodes t) \<Longrightarrow> \<exists>n \<in> set (nodes s). calm_node n m" "n \<in> set (nodes s) \<Longrightarrow> \<exists>m \<in> set (nodes t). calm_node n m"
    "y \<in> set (tasks t) \<Longrightarrow> \<exists>x \<in> set (tasks s). calm_task s x y" "x \<in> set (tasks s) \<Longrightarrow> \<exists>y \<in> set (tasks t). calm_task s x y"
  using assms list_all2_member unfolding calm_def by metis+

lemma calm_stems:
  assumes c: "calm s t"
  shows "stems s t"
proof -
  have "\<exists>n \<in> set (nodes s). same_node n m" "n_state m = NRunning \<longrightarrow> m \<in> set (nodes s)" if m: "m \<in> set (nodes t)" for m
  proof -
    obtain n where n: "n \<in> set (nodes s)" "calm_node n m" using calm_rows(1) [OF c m] by blast
    then show "\<exists>n \<in> set (nodes s). same_node n m" "n_state m = NRunning \<longrightarrow> m \<in> set (nodes s)"
      using calm_same unfolding calm_node_def by blast+
  qed
  moreover have "\<exists>m \<in> set (nodes t). same_node n m" if n: "n \<in> set (nodes s)" for n
    using calm_rows(2) [OF c n] calm_same by blast
  moreover have "\<exists>x \<in> set (tasks s). t_id y = t_id x \<and> t_contract y = t_contract x" if y: "y \<in> set (tasks t)" for y
    using calm_rows(3) [OF c y] unfolding calm_task_def by blast
  moreover have "meta_lease t = meta_lease s" using c by (simp add: calm_def)
  ultimately show ?thesis unfolding stems_def twins_def using calm_node_keys [OF c] calm_task_ids [OF c] by blast
qed

lemma calm_verified:
  assumes c: "calm s t" and vs: "verified_ok s"
  shows "verified_ok t"
proof (rule verifiedI)
  fix v n assume vt: "v \<in> set (nodes t)" "is_verifier (n_spec v)" "n_state v \<in> {NRunning, NAccepted}"
    and n: "n \<in> set (nodes t)" "n_task n = n_task v" "node_key n \<noteq> node_key v"
  obtain v0 where v0: "v0 \<in> set (nodes s)" "calm_node v0 v" using calm_rows(1) [OF c vt(1)] by blast
  obtain n0 where n0: "n0 \<in> set (nodes s)" "calm_node n0 n" using calm_rows(1) [OF c n(1)] by blast
  have "v = v0" using v0(2) vt(3) unfolding calm_node_def by blast
  with v0(1) have "n_state n0 = NAccepted"
    using verified_rest [OF vs _ vt(2,3) n0(1)] same_node_key [OF calm_same [OF n0(2)]] n(2,3) by simp
  then show "n_state n = NAccepted" using calm_node_accepted [OF n0(2)] by simp
next
  fix y n assume y: "y \<in> set (tasks t)" "t_state y = TAccepted" and n: "n \<in> set (nodes t)" "n_task n = t_id y"
  obtain x where x: "x \<in> set (tasks s)" "calm_task s x y" using calm_rows(3) [OF c y(1)] by blast
  obtain n0 where n0: "n0 \<in> set (nodes s)" "calm_node n0 n" using calm_rows(1) [OF c n(1)] by blast
  have "t_state x = TAccepted" "t_id y = t_id x" using x(2) y(2) unfolding calm_task_def by blast+
  then have "n_state n0 = NAccepted"
    using verified_task [OF vs x(1) _ n0(1)] same_node_key [OF calm_same [OF n0(2)]] n(2) by simp
  then show "n_state n = NAccepted" using calm_node_accepted [OF n0(2)] by simp
qed

lemma calm_ok: "calm s t \<Longrightarrow> node_ok identity s \<Longrightarrow> node_ok identity t"
  using stems_ok calm_stems calm_verified unfolding node_ok_def by blast

section \<open>Settlements\<close>

lemma map_twins:
  assumes "nodes t = map f (nodes s)" and "\<And>m. same_node m (f m)" and "tasks t = map g (tasks s)"
    and "\<And>x. t_id (g x) = t_id x \<and> t_contract (g x) = t_contract x"
  shows "twins s t"
proof -
  have "node_key (f m) = node_key m" for m using same_node_key [OF assms(2)] by blast
  then show ?thesis unfolding twins_def assms(1,3) using assms(2,4) by auto
qed

lemma settled_stems: "stems s (settled_as n doc ts s)"
proof -
  define f where "f m = (if node_key m = node_key n then settled_node NAccepted doc ts m else m)" for m
  have rows: "nodes (settled_as n doc ts s) = map f (nodes s)" by (simp add: settled_as_def put_node_def row_put_def f_def)
  have f: "same_node m (f m) \<and> (n_state (f m) = NRunning \<longrightarrow> f m = m)" for m
    by (simp add: f_def settled_node_def same_node_def)
  have "twins s (settled_as n doc ts s)"
    by (rule map_twins [OF rows, where g = id]) (use f in \<open>simp_all add: settled_as_def put_node_def\<close>)
  then show ?thesis unfolding stems_def rows using f by (auto simp: settled_as_def put_node_def) metis
qed

lemma task_stems: "stems s (put_task k st r b v ts s)"
proof -
  define g :: "task_row \<Rightarrow> task_row" where "g x = (if t_id x = k then x\<lparr>t_state := st, t_revision := r,
     t_updated := ts, t_blocker := b, t_verdict := v\<rparr> else x)" for x
  have "tasks (put_task k st r b v ts s) = map g (tasks s)" by (simp add: put_task_def row_put_def g_def)
  then have "twins s (put_task k st r b v ts s)"
    by (intro map_twins [where f = id and g = g]) (simp_all add: put_task_def g_def)
  then show ?thesis unfolding stems_def by (simp add: put_task_def)
qed

lemma settled_verified:
  assumes k: "keys_ok s" and vs: "verified_ok s" and n: "n \<in> set (nodes s)" "n_state n = NRunning"
  shows "verified_ok (settled_as n doc ts s)"
proof -
  define f where "f m = (if node_key m = node_key n then settled_node NAccepted doc ts m else m)" for m
  have rows: "nodes (settled_as n doc ts s) = map f (nodes s)" "tasks (settled_as n doc ts s) = tasks s"
    by (simp_all add: settled_as_def put_node_def row_put_def f_def)
  have key: "node_key (f m) = node_key m \<and> n_task (f m) = n_task m \<and> n_spec (f m) = n_spec m" for m
    by (simp add: f_def settled_node_def node_key_def)
  have accept: "n_state m = NAccepted \<Longrightarrow> n_state (f m) = NAccepted" for m
    by (simp add: f_def settled_node_def)
  have was: "n_state u \<in> {NRunning, NAccepted}" if "u \<in> set (nodes s)" "n_state (f u) \<in> {NRunning, NAccepted}" for u
  proof (cases "node_key u = node_key n")
    case True
    have "unique_key node_key (nodes s)" using k by (simp add: keys_ok_def)
    from unique_same [OF this that(1) n(1) True] n(2) show ?thesis by simp
  qed (use that in \<open>simp add: f_def\<close>)
  show ?thesis
  proof (rule verifiedI, unfold rows)
    fix v' m' assume v': "v' \<in> set (map f (nodes s))" "is_verifier (n_spec v')" "n_state v' \<in> {NRunning, NAccepted}"
      and m': "m' \<in> set (map f (nodes s))" "n_task m' = n_task v'" "node_key m' \<noteq> node_key v'"
    from v'(1) m'(1) obtain u m where u: "u \<in> set (nodes s)" "v' = f u" and m: "m \<in> set (nodes s)" "m' = f m"
      unfolding set_map by blast
    have "n_state m = NAccepted"
      by (rule verified_rest [OF vs u(1) _ was [OF u(1)] m(1)]) (use v' m' u(2) m(2) key in simp_all)
    then show "n_state m' = NAccepted" unfolding m(2) by (rule accept)
  next
    fix x m' assume x: "x \<in> set (tasks s)" "t_state x = TAccepted" and m': "m' \<in> set (map f (nodes s))" "n_task m' = t_id x"
    from m'(1) obtain m where m: "m \<in> set (nodes s)" "m' = f m" unfolding set_map by blast
    have "n_state m = NAccepted"
      by (rule verified_task [OF vs x m(1)]) (use m'(2) m(2) key in simp)
    then show "n_state m' = NAccepted" unfolding m(2) by (rule accept)
  qed
qed

text \<open>Accepting the task whose verifier was accepted.\<close>

lemma accepted_task_verified:
  assumes k: "keys_ok u" and vu: "verified_ok u" and n: "n \<in> set (nodes u)" "n_state n = NAccepted" "is_verifier (n_spec n)"
  shows "verified_ok (put_task (n_task n) TAccepted r b w ts u)" (is "verified_ok ?w")
proof -
  have nodes: "nodes ?w = nodes u" by (simp add: put_task_def)
  have all: "n_state m = NAccepted" if "m \<in> set (nodes u)" "n_task m = n_task n" for m
  proof (cases "node_key m = node_key n")
    case True
    have "unique_key node_key (nodes u)" using k by (simp add: keys_ok_def)
    from unique_same [OF this that(1) n(1) True] n(2) show ?thesis by simp
  next
    case False
    show ?thesis by (rule verified_rest [OF vu n(1,3) _ that False]) (simp add: n(2))
  qed
  show ?thesis
  proof (rule verifiedI, unfold nodes)
    fix x m assume x: "x \<in> set (tasks ?w)" "t_state x = TAccepted" and m: "m \<in> set (nodes u)" "n_task m = t_id x"
    obtain x0 where x0: "x0 \<in> set (tasks u)" "x = (if t_id x0 = n_task n then x0\<lparr>t_state := TAccepted, t_revision := r,
        t_updated := ts, t_blocker := b, t_verdict := w\<rparr> else x0)"
      using x(1) unfolding put_task_def row_put_def by auto
    show "n_state m = NAccepted"
    proof (cases "t_id x0 = n_task n")
      case True
      then show ?thesis using all m x0(2) by simp
    next
      case False
      then have "x = x0" using x0(2) by simp
      then show ?thesis using verified_task [OF vu x0(1) _ m(1)] x(2) m(2) by simp
    qed
  qed (rule verified_rest [OF vu])
qed

lemma accepts_ok:
  assumes ok: "node_ok identity s" and n: "n \<in> set (nodes s)" "n_state n = NRunning" and a: "accepts n s t"
  shows "node_ok identity t"
proof -
  have k: "keys_ok s" and v: "verified_ok s" using ok by (auto simp: node_ok_def)
  have u: "node_ok identity (settled_as n doc ts s)" for doc ts
    by (rule stems_ok [OF settled_stems ok settled_verified [OF k v n]])
  from a consider (node) doc ts where "calm (settled_as n doc ts s) t"
    | (task) doc ts r w where "is_verifier (n_spec n)" "calm (put_task (n_task n) TAccepted r None w ts (settled_as n doc ts s)) t"
    unfolding accepts_def by blast
  then show ?thesis
  proof cases
    case node
    then show ?thesis using calm_ok u by blast
  next
    case (task doc ts r w)
    let ?u = "settled_as n doc ts s" and ?n = "settled_node NAccepted doc ts n"
    have uk: "keys_ok ?u" "verified_ok ?u" using u [of doc ts] by (simp_all add: node_ok_def)
    have "?n \<in> set (nodes ?u)" using n(1) by (auto simp: settled_as_def put_node_def row_put_def)
    moreover have "n_state ?n = NAccepted" "is_verifier (n_spec ?n)" "n_task ?n = n_task n"
      using task(1) by (simp_all add: settled_node_def)
    ultimately have "verified_ok (put_task (n_task n) TAccepted r None w ts ?u)"
      using accepted_task_verified [OF uk, of ?n r None w ts] by simp
    then have "node_ok identity (put_task (n_task n) TAccepted r None w ts ?u)"
      using stems_ok [OF task_stems u] by blast
    then show ?thesis using calm_ok task(2) by blast
  qed
qed

lemma reopened_stems:
  assumes r: "reopened n s u"
  shows "stems s u"
proof -
  have l2: "list_all2 (reopened_node n) (nodes s) (nodes u)" using r by (simp add: reopened_def)
  then have "map node_key (nodes u) = map node_key (nodes s)"
    by (induction rule: list_all2_induct) (auto simp: reopened_node_def same_node_def node_key_def)
  moreover have "\<exists>a \<in> set (nodes s). same_node a b" "n_state b = NRunning \<longrightarrow> b \<in> set (nodes s)" if b: "b \<in> set (nodes u)" for b
  proof -
    obtain a where a: "a \<in> set (nodes s)" "reopened_node n a b" using list_all2_member(2) [OF l2 b] by blast
    then have "same_node a b" "n_state b = NRunning \<longrightarrow> b = a" unfolding reopened_node_def by auto
    with a(1) show "\<exists>a \<in> set (nodes s). same_node a b" "n_state b = NRunning \<longrightarrow> b \<in> set (nodes s)" by blast+
  qed
  moreover have "\<exists>b \<in> set (nodes u). same_node a b" if a: "a \<in> set (nodes s)" for a
  proof -
    obtain b where b: "b \<in> set (nodes u)" "reopened_node n a b" using list_all2_member(1) [OF l2 a] by blast
    then have "same_node a b" unfolding reopened_node_def by auto
    with b(1) show ?thesis by blast
  qed
  moreover have same: "meta_lease u = meta_lease s" "tasks u = tasks s" using r by (simp_all add: reopened_def)
  ultimately show ?thesis unfolding stems_def twins_def same by blast
qed

lemma reopened_verified:
  assumes vs: "verified_ok s" and n: "n \<in> set (nodes s)" "n_state n = NRunning" and r: "reopened n s u"
  shows "verified_ok u"
proof -
  have l2: "list_all2 (reopened_node n) (nodes s) (nodes u)"
    and pending: "\<And>m. m \<in> set (nodes u) \<Longrightarrow> node_key m = node_key n \<Longrightarrow> n_state m = NPending"
    and tasks: "tasks u = tasks s" using r by (simp_all add: reopened_def)
  have from_row: "\<exists>a \<in> set (nodes s). node_key a = node_key b \<and> n_task a = n_task b \<and> (b = a \<or> n_state b = NPending \<and> n_task b = n_task n)"
    if b: "b \<in> set (nodes u)" for b
  proof -
    obtain a where a: "a \<in> set (nodes s)" "reopened_node n a b" using list_all2_member(2) [OF l2 b] by blast
    then have "node_key a = node_key b \<and> n_task a = n_task b \<and> (b = a \<or> n_state b = NPending \<and> n_task b = n_task n)"
      unfolding reopened_node_def using same_node_key [of a b] by auto
    with a(1) show ?thesis by blast
  qed
  show ?thesis
  proof (rule verifiedI)
    fix v m assume v: "v \<in> set (nodes u)" "is_verifier (n_spec v)" "n_state v \<in> {NRunning, NAccepted}"
      and m: "m \<in> set (nodes u)" "n_task m = n_task v" "node_key m \<noteq> node_key v"
    obtain v0 where v0: "v0 \<in> set (nodes s)" "v = v0 \<or> n_state v = NPending" using from_row [OF v(1)] by blast
    have "n_state v \<noteq> NPending" using v(3) by auto
    with v0 have vs': "v \<in> set (nodes s)" by blast
    note before = verified_rest [OF vs vs' v(2,3)]
    have "node_key v \<noteq> node_key n"
    proof
      assume "node_key v = node_key n"
      from pending [OF v(1) this] v(3) show False by simp
    qed
    then have other: "n_task n \<noteq> n_task v" using before [OF n(1)] n(2) by fastforce
    obtain a where a: "a \<in> set (nodes s)" "node_key a = node_key m" "n_task a = n_task m" "m = a \<or> n_task m = n_task n"
      using from_row [OF m(1)] by blast
    have "m = a" using a(4) other m(2) by metis
    then show "n_state m = NAccepted" using before [OF a(1)] m(2,3) by simp
  next
    fix x m assume x: "x \<in> set (tasks u)" "t_state x = TAccepted" and m: "m \<in> set (nodes u)" "n_task m = t_id x"
    have xs: "x \<in> set (tasks s)" using x(1) tasks by simp
    note before = verified_task [OF vs xs x(2)]
    have other: "n_task n \<noteq> t_id x" using before [OF n(1)] n(2) by fastforce
    obtain a where a: "a \<in> set (nodes s)" "n_task a = n_task m" "m = a \<or> n_task m = n_task n"
      using from_row [OF m(1)] by blast
    have "m = a" using a(3) other m(2) by metis
    then show "n_state m = NAccepted" using before [OF a(1)] m(2) by simp
  qed
qed

lemma reopens_ok:
  assumes ok: "node_ok identity s" and n: "n \<in> set (nodes s)" "n_state n = NRunning" and r: "reopens n s t"
  shows "node_ok identity t"
proof -
  obtain u where u: "reopened n s u" "calm u t" using r by (auto simp: reopens_def)
  have "verified_ok s" using ok by (simp add: node_ok_def)
  from stems_ok [OF reopened_stems [OF u(1)] ok reopened_verified [OF this n u(1)]]
  show ?thesis using calm_ok u(2) by blast
qed

section \<open>Claims\<close>

lemma candidate_member:
  assumes "(n, t) \<in> set (claim_candidates s)"
  shows "n \<in> set (nodes s)" "n_state n = NPending" "row_get t_id (n_task n) (tasks s) = Some t" "t \<in> set (tasks s)"
    "t_id t = n_task n" "claimable s t"
proof -
  have "n \<in> set (nodes s) \<and> n_state n = NPending \<and> row_get t_id (n_task n) (tasks s) = Some t \<and> claimable s t"
    using assms by (auto simp: claim_candidates_def joined_def map_filter_def)
  then show "n \<in> set (nodes s)" "n_state n = NPending" "row_get t_id (n_task n) (tasks s) = Some t" "t \<in> set (tasks s)"
    "t_id t = n_task n" "claimable s t" using tk.look_Some by blast+
qed

lemma running_memberI:
  assumes "m \<in> set (nodes s)" and "n_state m = NRunning" and "row_get t_id (n_task m) (tasks s) = Some x"
  shows "(m, x) \<in> set (running_nodes s)"
proof -
  have "joined s m = Some (m, x)" using assms(3) by (simp add: joined_def)
  then have "(m, x) \<in> set (List.map_filter (joined s) (nodes s))"
    using assms(1) unfolding map_filter_def by (auto intro!: image_eqI [of _ _ m])
  then show ?thesis using assms(2) by (simp add: running_nodes_def)
qed

text \<open>The rows of a ledger in which \<open>n\<close> was started.\<close>

lemma started_rows:
  assumes u: "unique_key node_key (nodes s)" and n: "z_node z \<in> set (nodes s)" "n_state (z_node z) = NPending"
    and st: "started z worker e ts s t"
  defines "n' \<equiv> claimed_node worker (z_route z) e (node_counter s + 1) ts (z_node z)"
  shows "meta_lease t = Some (node_counter s + 1)" "n' \<in> set (nodes t)"
    "m \<in> set (nodes t) \<Longrightarrow> m = n' \<or> m \<in> set (nodes s) \<and> node_key m \<noteq> node_key (z_node z)"
    "y \<in> set (tasks t) \<Longrightarrow> y \<in> set (tasks s) \<or> t_state y = TRunning" "twins s t"
proof -
  define f where "f m = (if node_key m = node_key (z_node z) then if n_state m = NPending then n' else m else m)" for m
  define g where "g y = (if t_state (z_task z) \<in> {TQueued, TNeedsFix} \<and> t_id y = t_id (z_task z) then y\<lparr>t_state := TRunning,
      t_revision := t_revision y + 1, t_updated := ts, t_blocker := None\<rparr> else y)" for y :: task_row
  have c: "fst (next_lease_epoch s) = node_counter s + 1" by (simp add: next_lease_epoch_def node_counter_def Let_def)
  obtain ws es where t: "t = s\<lparr>meta_lease := Some (node_counter s + 1),
     nodes := row_put node_key (node_key (z_node z)) (\<lambda>x. if n_state x = NPending then n' else x) (nodes s),
     tasks := started_tasks (z_task z) ts (tasks s), waits := ws, events := events s @ es\<rparr>"
    using st unfolding started_def c n'_def by blast
  have rows: "nodes t = map f (nodes s)" unfolding t by (simp add: row_put_def f_def)
  have trows: "tasks t = map g (tasks s)" unfolding t started_tasks_def row_put_def g_def by auto
  have only: "x = z_node z" if "x \<in> set (nodes s)" "node_key x = node_key (z_node z)" for x
    using unique_same [OF u that(1) n(1) that(2)] .
  show "meta_lease t = Some (node_counter s + 1)" unfolding t by simp
  have "f (z_node z) = n'" using n(2) by (simp add: f_def)
  then show "n' \<in> set (nodes t)" unfolding rows using n(1) by (metis image_eqI set_map)
  show "m = n' \<or> m \<in> set (nodes s) \<and> node_key m \<noteq> node_key (z_node z)" if m: "m \<in> set (nodes t)"
  proof -
    obtain x where x: "x \<in> set (nodes s)" "m = f x" using m unfolding rows set_map by blast
    show ?thesis
    proof (cases "node_key x = node_key (z_node z)")
      case True
      then have "m = n'" using only [OF x(1)] x(2) \<open>f (z_node z) = n'\<close> by simp
      then show ?thesis ..
    next
      case False
      then have "m = x" using x(2) by (simp add: f_def)
      then show ?thesis using x(1) False by simp
    qed
  qed
  show "y \<in> set (tasks s) \<or> t_state y = TRunning" if y: "y \<in> set (tasks t)"
  proof -
    obtain x where x: "x \<in> set (tasks s)" "y = g x" using y unfolding trows set_map by blast
    then show ?thesis by (cases "t_state (z_task z) \<in> {TQueued, TNeedsFix} \<and> t_id x = t_id (z_task z)") (auto simp: g_def)
  qed
  have same: "same_node x (if x \<in> set (nodes s) then f x else x)" for x
  proof (cases "x \<in> set (nodes s) \<and> node_key x = node_key (z_node z)")
    case True
    then have "f x = n'" "x = z_node z" using only \<open>f (z_node z) = n'\<close> by auto
    then show ?thesis by (simp add: same_node_def n'_def claimed_node_def)
  qed (auto simp: f_def)
  have "nodes t = map (\<lambda>x. if x \<in> set (nodes s) then f x else x) (nodes s)" unfolding rows by simp
  from map_twins [OF this same trows] show "twins s t" by (simp add: g_def)
qed

lemma claims_ok:
  assumes ok: "node_ok identity s" and c: "claims identity z s t"
  shows "node_ok identity t"
proof -
  from c obtain W lanes capacities before worker e ts where
    adm: "admitted (W\<lparr>q_identity := claim_repository_identities identity before\<rparr>) lanes capacities s z"
    and cand: "(z_node z, z_task z) \<in> set (claim_candidates s)"
    and known: "\<forall>(m, u) \<in> set (running_nodes s). claim_repository_identities identity before (repository_of (t_contract u)) \<noteq> None"
    and st: "started z worker e ts s t"
    unfolding claims_def by blast
  let ?n = "z_node z" and ?id = "claim_repository_identities identity before"
  define n' where "n' = claimed_node worker (z_route z) e (node_counter s + 1) ts ?n"
  have k: "keys_ok s" "unique_key node_key (nodes s)" "unique_key t_id (tasks s)" and vs: "verified_ok s" and g: "graph_ok s"
    and ls: "leases_ok s" and ap: "apart identity s"
    using ok by (auto simp: node_ok_def keys_ok_def)
  note cm = candidate_member [OF cand]
  note rows = started_rows [OF k(2) cm(1,2) st, folded n'_def]
  have n': "node_key n' = node_key ?n" "n_task n' = n_task ?n" "n_spec n' = n_spec ?n" "n_state n' = NRunning"
    "n_lease n' = node_counter s + 1" by (simp_all add: n'_def claimed_node_def node_key_def)
  have tk: "keys_ok t" "graph_ok t" using twins_keys [OF rows(5) k(1)] twins_graph [OF rows(5) g] .
  have deps: "n_state m = NAccepted" if m: "m \<in> set (nodes s)" "n_task m = n_task ?n" "n_node m \<in> set (depends_on (n_spec ?n))" for m
  proof -
    have "dependencies_accepted s ?n" using adm unfolding admitted_def Let_def by blast
    then show ?thesis using m unfolding dependencies_accepted_def Let_def list_all_iff by simp
  qed
  have "verified_ok t"
  proof (rule verifiedI)
    fix v m assume v: "v \<in> set (nodes t)" "is_verifier (n_spec v)" "n_state v \<in> {NRunning, NAccepted}"
      and m: "m \<in> set (nodes t)" "n_task m = n_task v" "node_key m \<noteq> node_key v"
    show "n_state m = NAccepted"
    proof (cases "v = n'")
      case True
      then have m': "m \<in> set (nodes s)" using rows(3) [OF m(1)] m(3) by blast
      have "n_node m \<in> set (depends_on (n_spec ?n))"
        using graph_rest [OF g cm(1) _ m'] v(2) m(2,3) True n' by simp
      then show ?thesis using deps m' m(2) True n' by simp
    next
      case False
      then have v': "v \<in> set (nodes s)" "node_key v \<noteq> node_key ?n" using rows(3) [OF v(1)] by blast+
      note before = verified_rest [OF vs v'(1) v(2,3)]
      have "m \<noteq> n'"
      proof
        assume "m = n'"
        then have "n_state ?n = NAccepted" using before [OF cm(1)] v'(2) m(2) n' by simp
        then show False using cm(2) by simp
      qed
      then show ?thesis using before rows(3) [OF m(1)] m(2,3) by blast
    qed
  next
    fix x m assume x: "x \<in> set (tasks t)" "t_state x = TAccepted" and m: "m \<in> set (nodes t)" "n_task m = t_id x"
    have xs: "x \<in> set (tasks s)" using rows(4) [OF x(1)] x(2) by auto
    note before = verified_task [OF vs xs x(2)]
    have "m \<noteq> n'"
    proof
      assume "m = n'"
      then have "n_state ?n = NAccepted" using before [OF cm(1)] m(2) n' by simp
      then show False using cm(2) by simp
    qed
    then show "n_state m = NAccepted" using before rows(3) [OF m(1)] m(2) by blast
  qed
  moreover have "leases_ok t"
  proof -
    have c: "node_counter t = node_counter s + 1" by (simp add: node_counter_def rows(1))
    have old: "n_lease m \<le> node_counter s" if "m \<in> set (nodes s)" "n_state m = NRunning" for m
      using ls that unfolding leases_ok_def by blast
    have "n_lease m \<le> node_counter s + 1 \<and> (\<forall>m' \<in> set (nodes t). n_state m' = NRunning \<and> n_lease m' = n_lease m \<longrightarrow> node_key m' = node_key m)"
      if m: "m \<in> set (nodes t)" "n_state m = NRunning" for m
    proof (intro conjI ballI impI)
      show "n_lease m \<le> node_counter s + 1" using rows(3) [OF m(1)] old [of m] m(2) n'(5) by fastforce
      fix m' assume "m' \<in> set (nodes t)" "n_state m' = NRunning \<and> n_lease m' = n_lease m"
      then have m': "m' \<in> set (nodes t)" "n_state m' = NRunning" "n_lease m' = n_lease m" by simp_all
      show "node_key m' = node_key m"
      proof (cases "m = n' \<or> m' = n'")
        case True
        have "x = n'" if "x \<in> set (nodes t)" "n_state x = NRunning" "n_lease x = node_counter s + 1" for x
          using rows(3) [OF that(1)] old [of x] that(2,3) by fastforce
        then have "m = n' \<and> m' = n'" using True m m' n'(5) by metis
        then show ?thesis by simp
      next
        case False
        then have "m \<in> set (nodes s)" "m' \<in> set (nodes s)" using rows(3) m(1) m'(1) by blast+
        then show ?thesis using ls m(2) m'(2,3) unfolding leases_ok_def by blast
      qed
    qed
    then show ?thesis unfolding leases_ok_def c by blast
  qed
  moreover have "apart identity t"
  proof -
    have fresh: "\<not> node_conflict ?n m"
      if m: "m \<in> set (nodes s)" "n_state m = NRunning" and x: "x \<in> set (tasks s)" "t_id x = n_task m"
        and y: "y \<in> set (tasks s)" "t_id y = n_task ?n" and same: "identity (repository_of (t_contract x)) = identity (repository_of (t_contract y))"
      for m x y
    proof -
      have yz: "y = z_task z" using unique_same [OF k(3) y(1) cm(4)] y(2) cm(5) by simp
      have "row_get t_id (n_task m) (tasks s) = Some x" using tk.unique_row [OF k(3) x(1)] x(2) by simp
      then have run: "(m, x) \<in> set (running_nodes s)" using running_memberI m by blast
      obtain repository where rep: "?id (repository_of (t_contract (z_task z))) = Some repository"
        and free: "\<forall>(m, u) \<in> set (running_nodes s). ?id (repository_of (t_contract u)) = Some repository \<longrightarrow>
            \<not> access_conflict (read_scopes (n_spec ?n)) (write_scopes (n_spec ?n)) (read_scopes (n_spec m)) (write_scopes (n_spec m))"
        using adm unfolding admitted_def Let_def by fastforce
      have "?id (repository_of (t_contract x)) \<noteq> None" using known run by blast
      then have "?id (repository_of (t_contract x)) = Some repository"
        using rep same yz by (auto simp: claim_repository_identities_def split: if_splits)
      then show ?thesis using free run unfolding node_conflict_def by blast
    qed
    have sym: "node_conflict a b \<longleftrightarrow> node_conflict b a" for a b
      unfolding node_conflict_def by (rule access_conflict_sym)
    have spec: "node_conflict n' b = node_conflict ?n b" for b by (simp add: node_conflict_def n'(3))
    show ?thesis unfolding apart_def
    proof (intro ballI impI, elim conjE)
      fix a b x y assume a: "a \<in> set (nodes t)" "n_state a = NRunning" and b: "b \<in> set (nodes t)" "n_state b = NRunning"
        and x: "x \<in> set (tasks t)" "t_id x = n_task a" and y: "y \<in> set (tasks t)" "t_id y = n_task b"
        and k': "node_key a \<noteq> node_key b" "identity (repository_of (t_contract x)) = identity (repository_of (t_contract y))"
      obtain x0 where x0: "x0 \<in> set (tasks s)" "t_id x = t_id x0" "t_contract x = t_contract x0"
        using twins_task [OF rows(5) x(1)] by blast
      obtain y0 where y0: "y0 \<in> set (tasks s)" "t_id y = t_id y0" "t_contract y = t_contract y0"
        using twins_task [OF rows(5) y(1)] by blast
      have x0': "t_id x0 = n_task a" and y0': "t_id y0 = n_task b"
        and rep: "identity (repository_of (t_contract x0)) = identity (repository_of (t_contract y0))"
        using x0 y0 x(2) y(2) k'(2) by simp_all
      consider "a = n'" "b \<in> set (nodes s)" | "b = n'" "a \<in> set (nodes s)" | "a \<in> set (nodes s)" "b \<in> set (nodes s)"
        using rows(3) [OF a(1)] rows(3) [OF b(1)] k'(1) n'(1) by metis
      then show "\<not> node_conflict a b"
      proof cases
        case 1
        then show ?thesis using fresh [OF 1(2) b(2) y0(1) y0' x0(1)] x0' rep n' spec by simp
      next
        case 2
        then show ?thesis using fresh [OF 2(2) a(2) x0(1) x0' y0(1)] y0' rep n' spec sym by simp
      next
        case 3
        then show ?thesis using ap a(2) b(2) x0(1) y0(1) x0' y0' k'(1) rep unfolding apart_def by blast
      qed
    qed
  qed
  ultimately show ?thesis using tk unfolding node_ok_def by blast
qed

section \<open>Creation\<close>

lemma stored_spec:
  "is_verifier (canonical_json (spec_document sp)) = sp_verifier sp"
  "depends_on (canonical_json (spec_document sp)) = sp_depends sp"
  "read_scopes (canonical_json (spec_document sp)) = sp_reads sp"
  "write_scopes (canonical_json (spec_document sp)) = sp_writes sp"
proof -
  have "dget (spec_document sp) ''verifier'' = VBool (sp_verifier sp)" "dget (spec_document sp) ''depends_on'' = strs (sp_depends sp)"
    "dget (spec_document sp) ''read_scopes'' = strs (sp_reads sp)" "dget (spec_document sp) ''write_scopes'' = strs (sp_writes sp)"
    by (simp_all add: spec_document_def dget_def dget_or_def items_of_def)
  then show "is_verifier (canonical_json (spec_document sp)) = sp_verifier sp"
    "depends_on (canonical_json (spec_document sp)) = sp_depends sp"
    "read_scopes (canonical_json (spec_document sp)) = sp_reads sp"
    "write_scopes (canonical_json (spec_document sp)) = sp_writes sp"
    by (simp_all add: is_verifier_def depends_on_def read_scopes_def write_scopes_def dget_canonical strs_def str_items_def
        text_of_def o_def)
qed

lemma verifier_facts:
  assumes "assert_verifier_contract c ns = Inr ()"
  obtains v where "v \<in> set ns" "sp_verifier v" "\<And>m. m \<in> set ns \<Longrightarrow> sp_verifier m \<Longrightarrow> m = v"
    "set (sp_depends v) = sp_node ` set (filter (\<lambda>n. \<not> sp_verifier n) ns)"
proof -
  obtain v where v: "filter sp_verifier ns = [v]" and d: "set (sp_depends v) = sp_node ` set (filter (\<lambda>n. \<not> sp_verifier n) ns)"
    using assms unfolding assert_verifier_contract_def by (auto split: list.splits if_splits)
  have "set (filter sp_verifier ns) = {v}" by (simp add: v)
  then have "v \<in> set ns" "sp_verifier v" "\<And>m. m \<in> set ns \<Longrightarrow> sp_verifier m \<Longrightarrow> m = v" by auto
  then show thesis using that d by blast
qed

lemma inserted_ok:
  assumes ok: "node_ok identity s" and ins: "inserted c ns s u"
  shows "node_ok identity u"
proof -
  from ins obtain m ts rows where fresh: "row_get t_id (tc_task c) (tasks s) = None"
    and apart': "node_key ` set (map (new_node_row (tc_task c) ts) ns) \<inter> node_key ` set (nodes s) = {}"
    and spec: "assert_verifier_contract c ns = Inr ()"
    and t: "tasks u = tasks s @ [new_task_row (tc_task c) m ts]" and l: "meta_lease u = meta_lease s"
    and n: "nodes u = nodes s @ rows" "set rows = set (map (new_node_row (tc_task c) ts) ns)" "distinct (map node_key rows)"
    unfolding inserted_def by blast
  let ?x = "new_task_row (tc_task c) m ts"
  have x: "t_id ?x = tc_task c" "t_state ?x = TInbox" by (simp_all add: new_task_row_def)
  have nof: "tc_task c \<notin> t_id ` set (tasks s)" using fresh tk.look_None by blast
  then have nofresh: "t_id y \<noteq> tc_task c" if "y \<in> set (tasks s)" for y
    using that by (metis imageI)
  have k: "keys_ok s" and vs: "verified_ok s" and g: "graph_ok s" and ls: "leases_ok s" and ap: "apart identity s"
    using ok by (auto simp: node_ok_def)
  have old: "n_task a \<noteq> tc_task c" if a: "a \<in> set (nodes s)" for a
  proof -
    have "n_task a \<in> t_id ` set (tasks s)" using k a by (simp add: keys_ok_def)
    then obtain y where "y \<in> set (tasks s)" "n_task a = t_id y" by blast
    then show ?thesis using nofresh by simp
  qed
  have new: "\<exists>sp \<in> set ns. a = new_node_row (tc_task c) ts sp" if "a \<in> set rows" for a
    using that unfolding n(2) by auto
  have row: "n_task (new_node_row (tc_task c) ts sp) = tc_task c" "n_state (new_node_row (tc_task c) ts sp) = NPending"
    "n_node (new_node_row (tc_task c) ts sp) = sp_node sp"
    "is_verifier (n_spec (new_node_row (tc_task c) ts sp)) = sp_verifier sp"
    "depends_on (n_spec (new_node_row (tc_task c) ts sp)) = sp_depends sp" for sp
    unfolding new_node_row_def node_row.select_convs stored_spec by (rule refl)+
  have split: "a \<in> set (nodes u) \<longleftrightarrow> a \<in> set (nodes s) \<or> a \<in> set rows" for a by (simp add: n(1))
  have tnew: "n_task a = tc_task c" "n_state a = NPending" if "a \<in> set rows" for a
    using new [OF that] row by auto
  have "keys_ok u"
  proof -
    have "unique_key node_key (nodes u)"
      using k n(3) apart' unfolding keys_ok_def unique_key_def n(1) n(2) [symmetric] by auto
    moreover have "unique_key t_id (tasks u)"
      using k nof x(1) unfolding keys_ok_def unique_key_def t by simp
    moreover have "n_task a \<in> t_id ` set (tasks u)" if "a \<in> set (nodes u)" for a
      using that k tnew(1) x(1) unfolding split keys_ok_def t by fastforce
    ultimately show ?thesis unfolding keys_ok_def by blast
  qed
  moreover have "verified_ok u"
  proof (rule verifiedI)
    fix v a assume v: "v \<in> set (nodes u)" "is_verifier (n_spec v)" "n_state v \<in> {NRunning, NAccepted}"
      and a: "a \<in> set (nodes u)" "n_task a = n_task v" "node_key a \<noteq> node_key v"
    have vo: "v \<in> set (nodes s)" using v(1,3) tnew(2) [of v] unfolding split by fastforce
    then have "a \<in> set (nodes s)" using old tnew(1) [of a] a(1,2) unfolding split by metis
    then show "n_state a = NAccepted" using verified_rest [OF vs vo v(2,3)] a(2,3) by blast
  next
    fix y a assume y: "y \<in> set (tasks u)" "t_state y = TAccepted" and a: "a \<in> set (nodes u)" "n_task a = t_id y"
    have yo: "y \<in> set (tasks s)" using y x(2) unfolding t by fastforce
    then have "a \<in> set (nodes s)" using nofresh tnew(1) [of a] a unfolding split by metis
    then show "n_state a = NAccepted" using verified_task [OF vs yo y(2)] a(2) by blast
  qed
  moreover have "graph_ok u"
  proof -
    obtain w where w: "w \<in> set ns" "sp_verifier w" "\<And>m. m \<in> set ns \<Longrightarrow> sp_verifier m \<Longrightarrow> m = w"
      "set (sp_depends w) = sp_node ` set (filter (\<lambda>n. \<not> sp_verifier n) ns)"
      using verifier_facts [OF spec] by blast
    have "n_node a \<in> set (depends_on (n_spec v)) \<and> \<not> is_verifier (n_spec a)"
      if v: "v \<in> set (nodes u)" "is_verifier (n_spec v)" and a: "a \<in> set (nodes u)" "n_task a = n_task v" "node_key a \<noteq> node_key v"
      for v a
    proof (cases "v \<in> set (nodes s)")
      case True
      then have "a \<in> set (nodes s)" using old tnew(1) [of a] a(1,2) unfolding split by metis
      then show ?thesis using graph_rest [OF g True v(2) _ a(2,3)] by blast
    next
      case False
      then have vr: "v \<in> set rows" using v(1) unfolding split by blast
      then have ar: "a \<in> set rows" using old tnew(1) [of v] a(1,2) unfolding split by metis
      obtain p where p: "p \<in> set ns" "v = new_node_row (tc_task c) ts p" using new [OF vr] by blast
      obtain q where q: "q \<in> set ns" "a = new_node_row (tc_task c) ts q" using new [OF ar] by blast
      have pw: "p = w" using w(3) [OF p(1)] v(2) unfolding p(2) row by blast
      have "\<not> sp_verifier q"
      proof
        assume "sp_verifier q"
        then have "a = v" using w(3) [OF q(1)] pw p(2) q(2) by simp
        then show False using a(3) by simp
      qed
      then have "sp_node q \<in> set (sp_depends p)" using w(4) q(1) pw by auto
      then show ?thesis unfolding p(2) q(2) row using \<open>\<not> sp_verifier q\<close> by blast
    qed
    moreover have "\<exists>v \<in> set (nodes u). n_task v = t_id y \<and> is_verifier (n_spec v)" if y: "y \<in> set (tasks u)" for y
    proof (cases "y \<in> set (tasks s)")
      case True
      then obtain v where "v \<in> set (nodes s)" "n_task v = t_id y \<and> is_verifier (n_spec v)" using g unfolding graph_ok_def by blast
      then show ?thesis unfolding n(1) by auto
    next
      case False
      then have "t_id y = tc_task c" using y x(1) unfolding t by auto
      moreover have "new_node_row (tc_task c) ts w \<in> set (nodes u)" using w(1) unfolding split n(2) by auto
      ultimately show ?thesis using row(1,4) w(2) by metis
    qed
    ultimately show ?thesis unfolding graph_ok_def by blast
  qed
  moreover have running: "a \<in> set (nodes s)" if "a \<in> set (nodes u)" "n_state a = NRunning" for a
    using that tnew(2) [of a] unfolding split by fastforce
  moreover have "node_counter u = node_counter s" by (simp add: node_counter_def l)
  then have "leases_ok u" using ls running unfolding leases_ok_def by simp
  moreover have "apart identity u" unfolding apart_def
  proof (intro ballI impI, elim conjE)
    fix a b y z assume a: "a \<in> set (nodes u)" "n_state a = NRunning" and b: "b \<in> set (nodes u)" "n_state b = NRunning"
      and y: "y \<in> set (tasks u)" "t_id y = n_task a" and z: "z \<in> set (tasks u)" "t_id z = n_task b"
      and k': "node_key a \<noteq> node_key b" "identity (repository_of (t_contract y)) = identity (repository_of (t_contract z))"
    have ab: "a \<in> set (nodes s)" "b \<in> set (nodes s)" using running a b by blast+
    then have "y \<noteq> ?x" "z \<noteq> ?x" using old y(2) z(2) x(1) by metis+
    then have "y \<in> set (tasks s)" "z \<in> set (tasks s)" using y(1) z(1) unfolding t by auto
    then show "\<not> node_conflict a b" using ap ab a(2) b(2) y(2) z(2) k' unfolding apart_def by blast
  qed
  ultimately show ?thesis unfolding node_ok_def by blast
qed

section \<open>Every step keeps it\<close>

lemma node_step_ok:
  assumes "node_step sha identity s t" and ok: "node_ok identity s"
  shows "node_ok identity t"
proof -
  have "keys_ok s" "verified_ok s" using ok by (auto simp: node_ok_def)
  from assms(1) this show ?thesis
  proof (cases rule: node_cases)
    case calm
    then show ?thesis using calm_ok ok by blast
  next
    case created
    then show ?thesis using calm_ok inserted_ok ok unfolding creates_def by blast
  next
    case (claimed z)
    then show ?thesis using claims_ok ok by blast
  next
    case (accepted n)
    then show ?thesis using accepts_ok ok by blast
  next
    case (reopened n)
    then show ?thesis using reopens_ok ok by blast
  qed
qed

lemma no_tasks_ok: "no_tasks s \<Longrightarrow> node_ok identity s"
  by (simp add: no_tasks_def node_ok_def keys_ok_def verified_ok_def graph_ok_def leases_ok_def apart_def unique_key_def)

interpretation node: invariant_machine no_tasks "node_step sha identity" "node_ok identity" for sha identity
  by standard (fact no_tasks_ok, fact node_step_ok)

text \<open>The counter of node leases only grows.\<close>

lemma node_step_counter:
  assumes "node_step sha identity s t" and ok: "node_ok identity s"
  shows "node_counter s \<le> node_counter t"
proof -
  have "keys_ok s" "verified_ok s" using ok by (auto simp: node_ok_def)
  have same: "calm u t \<Longrightarrow> meta_lease u = meta_lease s \<Longrightarrow> node_counter s \<le> node_counter t" for u
    by (simp add: calm_def node_counter_def)
  from assms(1) \<open>keys_ok s\<close> \<open>verified_ok s\<close> show ?thesis
  proof (cases rule: node_cases)
    case calm
    then show ?thesis using same by blast
  next
    case created
    then show ?thesis using same unfolding creates_def inserted_def by blast
  next
    case (claimed z)
    then have "meta_lease t = Some (node_counter s + 1)"
      unfolding claims_def started_def by (auto simp: next_lease_epoch_def node_counter_def Let_def)
    then show ?thesis by (simp add: node_counter_def)
  next
    case (accepted n)
    then show ?thesis using same unfolding accepts_def settled_as_def put_node_def put_task_def by fastforce
  next
    case (reopened n)
    then show ?thesis using same unfolding reopens_def reopened_def by blast
  qed
qed

end
