(* ===== verification/Node_Demo.thy ===== *)
theory Node_Demo
  imports Node_Invariant
begin

text \<open>
  A concrete run for the witnesses: a task with two workers and a verifier is created, queued,
  claimed, settled and accepted.
\<close>

definition demo_contract :: task_contract where
  "demo_contract = \<lparr>tc_task = ''t'', tc_repository = ''/r'', tc_base = ''b'', tc_objective = ''o'',
     tc_allowed = [''.''], tc_forbidden = [], tc_dependencies = [], tc_acceptance = [], tc_artifacts = [],
     tc_planner = ''fixture'', tc_executor = ''fixture'', tc_verifier = ''fixture'', tc_quota = ''q'',
     tc_timeout = 60, tc_retry = 1, tc_external = False, tc_destructive = False,
     tc_routing = VStr ''model-routing-v2'', tc_type = VStr ''tests'', tc_complexity = VStr ''low'',
     tc_parallelizable = VBool True, tc_claude = VBool True, tc_points = VInt 1,
     tc_profile = ''code-as-harness/v1'', tc_tier = ''L2'', tc_thread = None, tc_context = None,
     tc_capability = VNone, tc_capability_digest = VNone, tc_performance = VNone,
     tc_performance_digest = VNone, tc_policy = VNone, tc_status = VNone\<rparr>"

definition demo_spec :: "string \<Rightarrow> string list \<Rightarrow> string list \<Rightarrow> bool \<Rightarrow> int \<Rightarrow> node_spec" where
  "demo_spec k deps ws v i = \<lparr>sp_node = k, sp_task = ''t'', sp_title = k, sp_executor = ''fixture'',
     sp_model = ''fixture'', sp_prompt = [], sp_command = [], sp_depends = deps, sp_reads = [], sp_writes = ws,
     sp_verifier = v, sp_ordinal = i, sp_optional = []\<rparr>"

definition demo_specs :: "node_spec list" where
  "demo_specs = [demo_spec ''a'' [] [''x''] False 0, demo_spec ''b'' [] [''y''] False 1,
     demo_spec ''v'' [''a'', ''b''] [] True 2]"

definition demo_world :: world where
  "demo_world = \<lparr>q_identity = (\<lambda>_. None), q_aliases = (\<lambda>_ _. []), q_isolation = (\<lambda>_ _ _. VNone),
     q_handoff = (\<lambda>_ _. Inr False), q_admissible = (\<lambda>_. True), q_accepted = (\<lambda>_ _. Inr None),
     q_historical = (\<lambda>_ _. Inr None)\<rparr>"

definition demo_judge :: judge where
  "demo_judge = \<lparr>j_attribution = (\<lambda>_ _ _ _ _. Inr ()), j_artifacts = (\<lambda>_. Inr ()), j_archify = (\<lambda>_. Inr ()),
     j_accepted = (\<lambda>_ _. Inr None), j_historical = (\<lambda>_ _ _. Inr None), j_repair = (\<lambda>_ _ _ _ _ _. Inr [])\<rparr>"

text \<open>The stored documents, evaluated once.\<close>

definition demo_document :: "string \<Rightarrow> string list \<Rightarrow> string list \<Rightarrow> bool \<Rightarrow> int \<Rightarrow> pyval" where
  "demo_document k deps ws v i = VDict
  [(''agent_capability_id'', VNone), (''agent_name'', VNone), (''agent_version'', VNone), (''archify'', VNone),
   (''capability_digest'', VNone), (''capability_snapshot_id'', VNone), (''claude_allowed'', VNone),
   (''command'', VList []), (''complexity'', VNone), (''declared_complexity'', VNone),
   (''depends_on'', strs deps), (''effective_complexity'', VNone), (''execution_lane'', VNone),
   (''executor'', VStr ''fixture''), (''model'', VStr ''fixture''), (''model_capability_id'', VNone),
   (''model_profile'', VNone), (''model_reasoning_effort'', VNone), (''node_id'', VStr k), (''ordinal'', VInt i),
   (''parallelizable'', VNone), (''performance_digest'', VNone), (''performance_first_pass_rate'', VNone),
   (''performance_latency_ms'', VNone), (''performance_lower_bound_95'', VNone), (''performance_policy'', VNone),
   (''performance_quality_source'', VNone), (''performance_rework_rate'', VNone),
   (''performance_routing_receipt'', VNone), (''performance_runtime_sample_count'', VInt 0),
   (''performance_snapshot_id'', VNone), (''performance_status'', VNone), (''prompt'', VStr []),
   (''quota_pool_id'', VNone), (''read_scopes'', VList []), (''routing_policy_version'', VNone),
   (''routing_strategy'', VNone), (''squilla_advice_receipt'', VNone), (''task_id'', VStr ''t''),
   (''task_type'', VNone), (''title'', VStr k), (''verifier'', VBool v), (''write_scopes'', strs ws)]"

definition demo_contract_document :: pyval where
  "demo_contract_document = VDict
  [(''acceptance_commands'', VList []), (''allowed_scope'', VList [VStr ''.'']), (''base_sha'', VStr ''b''),
   (''capability_digest'', VNone), (''capability_snapshot_id'', VNone), (''claude_allowed'', VBool True),
   (''complexity'', VStr ''low''), (''context_bundle_ref'', VNone), (''dependencies'', VList []),
   (''destructive_action_permission'', VBool False), (''executor_model'', VStr ''fixture''),
   (''external_write_permission'', VBool False), (''forbidden_scope'', VList []),
   (''governance_profile'', VStr ''code-as-harness/v1''), (''objective'', VStr ''o''),
   (''parallelizable'', VBool True), (''performance_digest'', VNone), (''performance_policy'', VNone),
   (''performance_snapshot_id'', VNone), (''performance_status'', VNone), (''planner_model'', VStr ''fixture''),
   (''quota_class'', VStr ''q''), (''repository'', VStr ''/r''), (''required_artifacts'', VList []),
   (''retry_limit'', VInt 1), (''routing_strategy'', VStr ''model-routing-v2''), (''source_thread_id'', VNone),
   (''task_id'', VStr ''t''), (''task_points'', VInt 1), (''task_type'', VStr ''tests''),
   (''timeout_seconds'', VInt 60), (''verification_tier'', VStr ''L2''), (''verifier_model'', VStr ''fixture'')]"

lemma demo_documents:
  "canonical_json (contract_document demo_contract) = demo_contract_document"
  "canonical_json (spec_document (demo_spec ''a'' [] [''x''] False 0)) = demo_document ''a'' [] [''x''] False 0"
  "canonical_json (spec_document (demo_spec ''b'' [] [''y''] False 1)) = demo_document ''b'' [] [''y''] False 1"
  "canonical_json (spec_document (demo_spec ''v'' [''a'', ''b''] [] True 2)) = demo_document ''v'' [''a'', ''b''] [] True 2"
  by code_simp+

definition demo_node :: "string \<Rightarrow> string list \<Rightarrow> string list \<Rightarrow> bool \<Rightarrow> int \<Rightarrow> node_row" where
  "demo_node k deps ws v i = \<lparr>n_task = ''t'', n_node = k, n_spec = demo_document k deps ws v i, n_state = NPending,
     n_attempt = 0, n_worker = None, n_worktree = None, n_executor = None, n_model = None, n_started = None,
     n_settled = None, n_result = None, n_recovery = None, n_epoch = 0, n_lease = 0, n_updated = utc 10\<rparr>"

definition demo_task :: store where
  "demo_task = demo_active\<lparr>
     tasks := [\<lparr>t_id = ''t'', t_contract = demo_contract_document, t_hash = ''acceptance_commands'', t_state = TInbox,
       t_revision = 1, t_priority = 0, t_created = utc 10, t_updated = utc 10, t_blocker = None, t_verdict = None\<rparr>],
     nodes := [demo_node ''a'' [] [''x''] False 0, demo_node ''b'' [] [''y''] False 1, demo_node ''v'' [''a'', ''b''] [] True 2],
     commands := [\<lparr>c_command = ''cmd'', c_hash = ''contract'', c_task = ''t'', c_created = utc 10\<rparr>],
     events := events demo_active @ [\<lparr>e_type = ''task.created'', e_task = Some ''t'', e_node = None,
       e_payload = VDict [(''contract_hash'', VStr ''acceptance_commands''), (''node_count'', VInt 3)], e_created = utc 10\<rparr>]\<rparr>"

lemma demo_prepared: "prepare_task_materialization demo_sha id demo_contract demo_specs
    = Inr \<lparr>m_contract = demo_contract_document, m_hash = ''acceptance_commands'', m_nodes = demo_specs, m_request = ''contract''\<rparr>"
proof -
  have c: "validate_contract id demo_contract = Inr ()" by code_simp
  have n: "check_nodes demo_contract (set (map sp_node demo_specs)) demo_specs = Inr ()" by code_simp
  have v: "assert_verifier_contract demo_contract demo_specs = Inr ()" by code_simp
  have a: "assert_acyclic demo_specs = Inr ()" by code_simp
  have l: "demo_specs \<noteq> []" "\<not> list_ex (\<lambda>n. sp_task n \<noteq> tc_task demo_contract) demo_specs"
    "distinct (map sp_node demo_specs)" "sort_key (\<lambda>n. (sp_ordinal n, sp_node n)) demo_specs = demo_specs" by code_simp+
  have h: "canonical_hash demo_sha (contract_document demo_contract) = ''acceptance_commands''"
    unfolding canonical_hash_def demo_documents by code_simp
  have "canonical_hash demo_sha (VDict [(''contract'', contract_document demo_contract), (''nodes'', VList (map spec_document demo_specs))])
      = ''contract''"
    unfolding canonical_hash_def by (simp add: demo_sha_def)
  with c n v a l h show ?thesis unfolding prepare_task_materialization_def demo_documents by simp
qed

lemma demo_created: "create_task demo_sha id demo_contract demo_specs ''cmd'' 10 demo_active = Inr (''t'', demo_task)"
proof -
  have "map (new_node_row ''t'' (utc 10)) demo_specs
      = [demo_node ''a'' [] [''x''] False 0, demo_node ''b'' [] [''y''] False 1, demo_node ''v'' [''a'', ''b''] [] True 2]"
    by (simp add: demo_specs_def new_node_row_def demo_documents demo_node_def) (simp add: demo_spec_def)
  moreover have "tc_task demo_contract = ''t''" "length demo_specs = 3" by (simp_all add: demo_contract_def demo_specs_def)
  moreover have "plannings demo_active = []" "commands demo_active = []" "tasks demo_active = []" "nodes demo_active = []"
    by code_simp+
  ultimately show ?thesis
    by (simp add: create_task_def demo_prepared insert_task_def new_task_row_def row_add_def row_get_def demo_task_def
        emit_event_def demo_node_def node_key_def)
qed

text \<open>
  The ledgers of the run. Each is left by the operation named in its step lemma, up to tables that
  no later step reads (events, approvals and commands are those of the start).
\<close>

definition demo_row :: "task_state \<Rightarrow> int \<Rightarrow> int \<Rightarrow> string option \<Rightarrow> task_row" where
  "demo_row st revision clock verdict = \<lparr>t_id = ''t'', t_contract = demo_contract_document, t_hash = ''acceptance_commands'',
     t_state = st, t_revision = revision, t_priority = 0, t_created = utc 10, t_updated = utc clock, t_blocker = None,
     t_verdict = verdict\<rparr>"

definition demo_started :: "int \<Rightarrow> int \<Rightarrow> node_row \<Rightarrow> node_row" where
  "demo_started lease clock n = n\<lparr>n_state := NRunning, n_attempt := 1, n_worker := Some ''w'', n_executor := Some ''fixture'',
     n_model := Some ''fixture'', n_epoch := 1, n_lease := lease, n_started := Some (utc clock), n_updated := utc clock\<rparr>"

definition demo_settled :: "int \<Rightarrow> node_row \<Rightarrow> node_row" where
  "demo_settled clock n = settled_node NAccepted (canonical_json (result_document (plain_result ''succeeded'' ''done''))) (utc clock) n"

abbreviation demo_a :: node_row where "demo_a \<equiv> demo_node ''a'' [] [''x''] False 0"
abbreviation demo_b :: node_row where "demo_b \<equiv> demo_node ''b'' [] [''y''] False 1"
abbreviation demo_v :: node_row where "demo_v \<equiv> demo_node ''v'' [''a'', ''b''] [] True 2"

definition demo_store :: "int option \<Rightarrow> task_row \<Rightarrow> node_row list \<Rightarrow> store" where
  "demo_store lease t ns = demo_active\<lparr>meta_lease := lease, tasks := [t], nodes := ns\<rparr>"

definition demo_queued :: store where
  "demo_queued = demo_store None (demo_row TQueued 2 20 None) [demo_a, demo_b, demo_v]"

definition demo_one :: store where
  "demo_one = demo_store (Some 1) (demo_row TRunning 3 30 None) [demo_started 1 30 demo_a, demo_b, demo_v]"

definition demo_two :: store where
  "demo_two = demo_store (Some 2) (demo_row TRunning 3 30 None) [demo_started 1 30 demo_a, demo_started 2 40 demo_b, demo_v]"

definition demo_half :: store where
  "demo_half = demo_store (Some 2) (demo_row TRunning 3 30 None)
     [demo_settled 50 (demo_started 1 30 demo_a), demo_started 2 40 demo_b, demo_v]"

definition demo_ready :: store where
  "demo_ready = demo_store (Some 2) (demo_row TVerifying 4 60 None)
     [demo_settled 50 (demo_started 1 30 demo_a), demo_settled 60 (demo_started 2 40 demo_b), demo_v]"

definition demo_verifying :: store where
  "demo_verifying = demo_store (Some 3) (demo_row TVerifying 4 60 None)
     [demo_settled 50 (demo_started 1 30 demo_a), demo_settled 60 (demo_started 2 40 demo_b), demo_started 3 70 demo_v]"

definition demo_verified :: store where
  "demo_verified = demo_store (Some 3) (demo_row TAccepted 5 80 (Some ''done''))
     [demo_settled 50 (demo_started 1 30 demo_a), demo_settled 60 (demo_started 2 40 demo_b), demo_settled 80 (demo_started 3 70 demo_v)]"

abbreviation demo_settle :: "string \<Rightarrow> int \<Rightarrow> int \<Rightarrow> store \<Rightarrow> (unit \<times> store) res" where
  "demo_settle k lease clock s \<equiv> settle_node demo_sha demo_judge ''t'' k (plain_result ''succeeded'' ''done'') 1 1 lease s clock s"

text \<open>That an operation leaves the tasks, nodes and lease counter of a ledger.\<close>

definition leaves :: "('a \<times> store) res \<Rightarrow> store \<Rightarrow> bool" where
  "leaves r t \<longleftrightarrow> (case r of Inl _ \<Rightarrow> False
     | Inr (x, u) \<Rightarrow> nodes t = nodes u \<and> tasks t = tasks u \<and> meta_lease t = meta_lease u)"

lemma leavesE: "leaves r t \<Longrightarrow> (\<And>x u. r = Inr (x, u) \<Longrightarrow> nodes t = nodes u \<Longrightarrow> tasks t = tasks u \<Longrightarrow>
    meta_lease t = meta_lease u \<Longrightarrow> thesis) \<Longrightarrow> thesis"
  by (auto simp: leaves_def split: sum.splits)

lemma demo_queue_run: "leaves (queue_task demo_sha ''t'' None 20 demo_task) demo_queued" by code_simp
lemma demo_half_run: "leaves (demo_settle ''a'' 1 50 demo_two) demo_half" by code_simp
lemma demo_ready_run: "leaves (demo_settle ''b'' 2 60 demo_half) demo_ready" by code_simp
lemma demo_verified_run: "leaves (demo_settle ''v'' 3 80 demo_verifying) demo_verified" by code_simp

text \<open>A claim in a ledger without waits, from the candidate it considers first.\<close>

lemma demo_claims:
  assumes s: "meta_epoch s = Some 1" "waits s = []" "objectives s = []"
    and known: "list_all (\<lambda>(m, u). repository_of (t_contract u) \<in> set (claim_repositories s)) (running_nodes s)"
    and first: "claim_candidates s = nt # rest"
    and z: "consider_candidate (demo_world\<lparr>q_identity := claim_repository_identities id s\<rparr>) None [] s nt = Inr (Select z)"
  obtains c u where "claim_ready_node demo_sha demo_world id ''w'' 1 None None s now s = Inr (Some c, u)"
    "started z ''w'' 1 (utc now) s u"
proof -
  let ?W = "demo_world\<lparr>q_identity := claim_repository_identities id s\<rparr>"
  have gate: "deployment_admission_gate s = None" using s(3) by (simp add: deployment_admission_gate_def first_by_def)
  have "\<not> list_ex (\<lambda>(n, t). q_identity ?W (repository_of (t_contract t)) = None) (running_nodes s)"
    using known by (auto simp: list_ex_iff list_all_iff claim_repository_identities_def)
  moreover have "reconcile_scope_access_waits (utc now) s = Inr s" using s(2) by (simp add: reconcile_scope_access_waits_def)
  moreover have "select_candidate demo_sha ?W None [] (utc now) (claim_candidates s) s = Inr (Some z, s)"
    using z by (simp add: first)
  moreover obtain c u where u: "start_node z ''w'' 1 [] (lane_active s (z_lane z)) (utc now) s = (c, u)" by force
  moreover have "assert_active_coordinator 1 s = Inr ()" using s(1) by (simp add: assert_active_coordinator_def)
  ultimately have "claim_ready_node demo_sha demo_world id ''w'' 1 None None s now s = Inr (Some c, u)"
    using gate by (simp add: claim_ready_node_def normalize_execution_lanes_def normalize_lane_capacities_def)
  with start_node_started [OF u] that show thesis by blast
qed

definition demo_turn :: "store \<Rightarrow> verdict res" where
  "demo_turn s = consider_candidate (demo_world\<lparr>q_identity := claim_repository_identities id s\<rparr>) None [] s (hd (claim_candidates s))"

definition demo_selects :: "store \<Rightarrow> node_row \<Rightarrow> bool" where
  "demo_selects s n \<longleftrightarrow> (case demo_turn s of
      Inr (Select z) \<Rightarrow> z_node z = n \<and> [z_task z] = tasks s \<and> r_executor (z_route z) = ''fixture'' \<and> r_model (z_route z) = ''fixture''
    | _ \<Rightarrow> False)"

lemma demo_one_select: "demo_selects demo_queued demo_a" by code_simp
lemma demo_two_select: "demo_selects demo_one demo_b" by code_simp
lemma demo_verifying_select: "demo_selects demo_ready demo_v" by code_simp
lemma demo_known:
  "list_all (\<lambda>(m, u). repository_of (t_contract u) \<in> set (claim_repositories demo_queued)) (running_nodes demo_queued)"
  "list_all (\<lambda>(m, u). repository_of (t_contract u) \<in> set (claim_repositories demo_one)) (running_nodes demo_one)"
  "list_all (\<lambda>(m, u). repository_of (t_contract u) \<in> set (claim_repositories demo_ready)) (running_nodes demo_ready)"
  "claim_candidates demo_queued \<noteq> []" "claim_candidates demo_one \<noteq> []" "claim_candidates demo_ready \<noteq> []"
  by code_simp+


lemma demo_store_simps [simp]: "tasks (demo_store l t ns) = [t]" "nodes (demo_store l t ns) = ns" "meta_lease (demo_store l t ns) = l"
  by (simp_all add: demo_store_def)

lemma demo_store_rest: "meta_epoch (demo_store l t ns) = Some 1" "waits (demo_store l t ns) = []" "objectives (demo_store l t ns) = []"
proof -
  have "meta_epoch demo_active = Some 1" "waits demo_active = []" "objectives demo_active = []" by code_simp+
  then show "meta_epoch (demo_store l t ns) = Some 1" "waits (demo_store l t ns) = []" "objectives (demo_store l t ns) = []"
    by (simp_all add: demo_store_def)
qed

lemma demo_claim_run:
  assumes sel: "demo_selects s n" and s: "s = demo_store l t ns"
    and known: "list_all (\<lambda>(m, u). repository_of (t_contract u) \<in> set (claim_repositories s)) (running_nodes s)" "claim_candidates s \<noteq> []"
  obtains c u where "claim_ready_node demo_sha demo_world id ''w'' 1 None None s now s = Inr (Some c, u)"
    "meta_lease u = Some (node_counter s + 1)" "tasks u = started_tasks t (utc now) [t]"
    "nodes u = row_put node_key (node_key n) (\<lambda>x. if n_state x = NPending
       then claimed_node ''w'' \<lparr>r_executor = ''fixture'', r_model = ''fixture'', r_authorized = None, r_readmission = None\<rparr> 1
         (node_counter s + 1) (utc now) n else x) ns"
proof -
  obtain z where z: "demo_turn s = Inr (Select z)" "z_node z = n" "z_task z = t" "r_executor (z_route z) = ''fixture''"
    "r_model (z_route z) = ''fixture''"
    using sel unfolding demo_selects_def s by (auto split: sum.splits verdict.splits)
  obtain nt rest where nt: "claim_candidates s = nt # rest" using known(2) by (cases "claim_candidates s") auto
  have turn: "consider_candidate (demo_world\<lparr>q_identity := claim_repository_identities id s\<rparr>) None [] s nt = Inr (Select z)"
    using z(1) by (simp add: demo_turn_def nt)
  obtain c u where u: "claim_ready_node demo_sha demo_world id ''w'' 1 None None s now s = Inr (Some c, u)"
    "started z ''w'' 1 (utc now) s u"
    by (rule demo_claims [OF _ _ _ known(1) nt turn]) (simp_all add: s demo_store_rest)
  have lease: "fst (next_lease_epoch s) = node_counter s + 1" by (simp add: next_lease_epoch_def node_counter_def Let_def)
  have route: "claimed_node ''w'' (z_route z) 1 k ts m = claimed_node ''w'' \<lparr>r_executor = ''fixture'', r_model = ''fixture'',
      r_authorized = None, r_readmission = None\<rparr> 1 k ts m" for k ts m
    using z by (simp add: claimed_node_def)
  show thesis
    using that [OF u(1)] u(2) unfolding started_def lease route z(2,3) by (auto simp: s)
qed


section \<open>The run\<close>

lemma reachable_run: "reachable init step s \<Longrightarrow> step\<^sup>*\<^sup>* s t \<Longrightarrow> reachable init step t"
  by (rotate_tac, induction rule: rtranclp_induct) (auto intro: reachable_step)

lemma step_then_other:
  assumes "node_step sha identity s u" and "nodes t = nodes u" "tasks t = tasks u" "meta_lease t = meta_lease u"
  shows "(node_step sha identity)\<^sup>*\<^sup>* s t"
  using assms(1) ns_other [OF assms(2-4)] by (meson r_into_rtranclp rtranclp_trans)

lemma demo_keys [simp]:
  "node_key (demo_node k d w v i) = (''t'', k)" "node_key (demo_started l m n) = node_key n" "node_key (demo_settled m n) = node_key n"
  "n_state (demo_node k d w v i) = NPending"
  by (simp_all add: node_key_def demo_node_def demo_started_def demo_settled_def settled_node_def)

lemma demo_claimed_node: "claimed_node ''w'' \<lparr>r_executor = ''fixture'', r_model = ''fixture'', r_authorized = None, r_readmission = None\<rparr>
    1 lease (utc clock) (demo_node k d w v i) = demo_started lease clock (demo_node k d w v i)"
  by (simp add: claimed_node_def demo_started_def demo_node_def)

lemma demo_start: "(node_step demo_sha id)\<^sup>*\<^sup>* demo_active demo_queued"
proof -
  have "node_step demo_sha id demo_active demo_task" using demo_created by (rule ns_create)
  moreover have "(node_step demo_sha id)\<^sup>*\<^sup>* demo_task demo_queued"
    using demo_queue_run by (rule leavesE) (rule step_then_other, rule ns_queue)
  ultimately show ?thesis by (rule converse_rtranclp_into_rtranclp)
qed

lemma demo_claim_step:
  assumes sel: "demo_selects s (demo_node k d w v i)" and s: "s = demo_store l t ns"
    and known: "list_all (\<lambda>(m, u). repository_of (t_contract u) \<in> set (claim_repositories s)) (running_nodes s)" "claim_candidates s \<noteq> []"
    and s': "s' = demo_store (Some (node_counter s + 1)) t' (row_put node_key (''t'', k)
      (\<lambda>x. if n_state x = NPending then demo_started (node_counter s + 1) now (demo_node k d w v i) else x) ns)"
    and t': "started_tasks t (utc now) [t] = [t']"
  shows "(node_step demo_sha id)\<^sup>*\<^sup>* s s'"
proof (rule demo_claim_run [OF sel s known, of now])
  fix c u assume "claim_ready_node demo_sha demo_world id ''w'' 1 None None s now s = Inr (Some c, u)"
    and "meta_lease u = Some (node_counter s + 1)" "tasks u = started_tasks t (utc now) [t]"
    "nodes u = row_put node_key (node_key (demo_node k d w v i)) (\<lambda>x. if n_state x = NPending
       then claimed_node ''w'' \<lparr>r_executor = ''fixture'', r_model = ''fixture'', r_authorized = None, r_readmission = None\<rparr> 1
         (node_counter s + 1) (utc now) (demo_node k d w v i) else x) ns"
  then show ?thesis unfolding demo_claimed_node
    by (intro step_then_other [where u = u] ns_claim) (simp_all add: s' t')
qed

lemma demo_settle_step: "leaves (demo_settle k l clock s) t \<Longrightarrow> (node_step demo_sha id)\<^sup>*\<^sup>* s t"
  by (erule leavesE) (rule step_then_other, rule ns_settle)

lemma demo_runs:
  "(node_step demo_sha id)\<^sup>*\<^sup>* demo_queued demo_one"
  "(node_step demo_sha id)\<^sup>*\<^sup>* demo_one demo_two"
  "(node_step demo_sha id)\<^sup>*\<^sup>* demo_two demo_half"
  "(node_step demo_sha id)\<^sup>*\<^sup>* demo_half demo_ready"
  "(node_step demo_sha id)\<^sup>*\<^sup>* demo_ready demo_verifying"
  "(node_step demo_sha id)\<^sup>*\<^sup>* demo_verifying demo_verified"
proof -
  have c: "node_counter demo_queued = 0" "node_counter demo_one = 1" "node_counter demo_ready = 2"
    by (simp_all add: node_counter_def demo_queued_def demo_one_def demo_ready_def)
  have r: "n_state (demo_started l m n) = NRunning" "n_state (demo_settled m n) = NAccepted" for l m n
    by (simp_all add: demo_started_def demo_settled_def settled_node_def)
  show "(node_step demo_sha id)\<^sup>*\<^sup>* demo_queued demo_one"
    by (rule demo_claim_step [OF demo_one_select demo_queued_def demo_known(1,4), where now = 30 and t' = "demo_row TRunning 3 30 None"])
      (simp_all add: demo_one_def row_put_def c started_tasks_def demo_row_def)
  show "(node_step demo_sha id)\<^sup>*\<^sup>* demo_one demo_two"
    by (rule demo_claim_step [OF demo_two_select demo_one_def demo_known(2,5), where now = 40 and t' = "demo_row TRunning 3 30 None"])
      (simp_all add: demo_two_def row_put_def c started_tasks_def demo_row_def)
  show "(node_step demo_sha id)\<^sup>*\<^sup>* demo_ready demo_verifying"
    by (rule demo_claim_step [OF demo_verifying_select demo_ready_def demo_known(3,6), where now = 70 and t' = "demo_row TVerifying 4 60 None"])
      (simp_all add: demo_verifying_def row_put_def c started_tasks_def demo_row_def)
  show "(node_step demo_sha id)\<^sup>*\<^sup>* demo_two demo_half" using demo_half_run by (rule demo_settle_step)
  show "(node_step demo_sha id)\<^sup>*\<^sup>* demo_half demo_ready" using demo_ready_run by (rule demo_settle_step)
  show "(node_step demo_sha id)\<^sup>*\<^sup>* demo_verifying demo_verified" using demo_verified_run by (rule demo_settle_step)
qed

lemma demo_nodes_reachable:
  "reachable no_tasks (node_step demo_sha id) demo_queued" "reachable no_tasks (node_step demo_sha id) demo_one"
  "reachable no_tasks (node_step demo_sha id) demo_two" "reachable no_tasks (node_step demo_sha id) demo_verified"
proof -
  have "no_tasks demo_active" unfolding no_tasks_def by code_simp
  then have "reachable no_tasks (node_step demo_sha id) demo_active" by (rule reachable_start)
  then show q: "reachable no_tasks (node_step demo_sha id) demo_queued" using demo_start by (rule reachable_run)
  then show o: "reachable no_tasks (node_step demo_sha id) demo_one" using demo_runs(1) by (rule reachable_run)
  then show t: "reachable no_tasks (node_step demo_sha id) demo_two" using demo_runs(2) by (rule reachable_run)
  have "(node_step demo_sha id)\<^sup>*\<^sup>* demo_two demo_verified"
    using demo_runs(3-6) by (meson rtranclp_trans)
  with t show "reachable no_tasks (node_step demo_sha id) demo_verified" by (rule reachable_run)
qed

end
