(* ===== verification/Node_Laws.thy ===== *)
theory Node_Laws
  imports Node_Demo
begin

text \<open>
  What the ledger promises of tasks and nodes: running nodes never conflict, an accepted task is
  complete, a claim follows every rule of admission, and a lease settles at most once.
\<close>

section \<open>Running nodes\<close>

text \<open>
  Property C3. No two running nodes touch the same files: in every reachable ledger, of two running
  nodes of tasks with the same repository directory, no write scope of the one overlaps a scope of the
  other, and they hold different leases.
\<close>

theorem running_nodes_apart:
  assumes reach: "reachable no_tasks (node_step sha identity) s"
    and n: "n \<in> set (nodes s)" "n_state n = NRunning" and m: "m \<in> set (nodes s)" "n_state m = NRunning"
    and nm: "node_key n \<noteq> node_key m"
    and x: "x \<in> set (tasks s)" "t_id x = n_task n" and y: "y \<in> set (tasks s)" "t_id y = n_task m"
    and same: "identity (repository_of (t_contract x)) = identity (repository_of (t_contract y))"
    and w: "w \<in> set (write_scopes (n_spec n))" and r: "r \<in> set (read_scopes (n_spec m)) \<union> set (write_scopes (n_spec m))"
  shows "scopes_overlap w r \<noteq> Inr True \<and> n_lease n \<noteq> n_lease m"
proof -
  have ok: "node_ok identity s" using reach by (rule node.inv_reachable)
  then have "\<not> node_conflict n m"
    using n m nm x y same unfolding node_ok_def apart_def by blast
  then have "scopes_overlap w r \<noteq> Inr True" using w r unfolding node_conflict_def access_conflict_def overlap_def by blast
  moreover have "n_lease n \<noteq> n_lease m" using ok n m nm unfolding node_ok_def leases_ok_def by metis
  ultimately show ?thesis ..
qed

lemma demo_two_rows:
  "nodes demo_two = [demo_started 1 30 demo_a, demo_started 2 40 demo_b, demo_v]"
  "tasks demo_two = [demo_row TRunning 3 30 None]" "t_id (demo_row st r c v) = ''t''"
  by (simp_all add: demo_two_def demo_row_def)

lemma demo_node_simps [simp]:
  "n_state (demo_started l c n) = NRunning" "n_state (demo_settled c n) = NAccepted"
  "n_task (demo_node k d w v i) = ''t''" "n_task (demo_started l c n) = n_task n" "n_task (demo_settled c n) = n_task n"
  "n_spec (demo_started l c n) = n_spec n" "n_spec (demo_settled c n) = n_spec n"
  "n_lease (demo_started l c n) = l"
  by (simp_all add: demo_started_def demo_settled_def settled_node_def demo_node_def)

theorem running_nodes_apart_witness:
  "scopes_overlap ''x'' ''y'' \<noteq> Inr True \<and> n_lease (demo_started 1 30 demo_a) \<noteq> n_lease (demo_started 2 40 demo_b)"
proof -
  have w: "''x'' \<in> set (write_scopes (n_spec (demo_started 1 30 demo_a)))" by code_simp
  have r: "''y'' \<in> set (read_scopes (n_spec (demo_started 2 40 demo_b))) \<union> set (write_scopes (n_spec (demo_started 2 40 demo_b)))"
    by code_simp
  have n: "demo_started 1 30 demo_a \<in> set (nodes demo_two)" "demo_started 2 40 demo_b \<in> set (nodes demo_two)"
    and t: "demo_row TRunning 3 30 None \<in> set (tasks demo_two)" by (simp_all add: demo_two_rows)
  have k: "node_key (demo_started 1 30 demo_a) \<noteq> node_key (demo_started 2 40 demo_b)" by simp
  show ?thesis
    using running_nodes_apart [OF demo_nodes_reachable(3) n(1) _ n(2) _ k t _ t _ refl w r] by (simp add: demo_two_rows)
qed

section \<open>Accepted tasks\<close>

text \<open>
  Property C5. An accepted task is complete: in every reachable ledger each of its nodes is
  accepted, exactly one of them is the verifier, and the verifier depends on all the others.
\<close>

theorem accepted_task_complete:
  assumes reach: "reachable no_tasks (node_step sha identity) s"
    and x: "x \<in> set (tasks s)" "t_state x = TAccepted"
  shows "\<exists>v \<in> set (nodes s). n_task v = t_id x \<and> is_verifier (n_spec v) \<and> n_state v = NAccepted
    \<and> (\<forall>n \<in> set (nodes s). n_task n = t_id x \<and> n \<noteq> v \<longrightarrow>
         n_state n = NAccepted \<and> \<not> is_verifier (n_spec n) \<and> n_node n \<in> set (depends_on (n_spec v)))"
proof -
  have ok: "node_ok identity s" using reach by (rule node.inv_reachable)
  then have k: "unique_key node_key (nodes s)" and g: "graph_ok s" and v: "verified_ok s"
    by (auto simp: node_ok_def keys_ok_def)
  obtain v where v: "v \<in> set (nodes s)" "n_task v = t_id x" "is_verifier (n_spec v)"
    using g x(1) unfolding graph_ok_def by blast
  moreover have "n_state n = NAccepted" if "n \<in> set (nodes s)" "n_task n = t_id x" for n
    using verified_task [OF \<open>verified_ok s\<close> x that] .
  moreover have "n_node n \<in> set (depends_on (n_spec v)) \<and> \<not> is_verifier (n_spec n)"
    if n: "n \<in> set (nodes s)" "n_task n = t_id x" "n \<noteq> v" for n
  proof -
    have "node_key n \<noteq> node_key v" using unique_same [OF k n(1) v(1)] n(3) by blast
    then show ?thesis using graph_rest [OF g v(1,3) n(1)] n(2) v(2) by simp
  qed
  ultimately show ?thesis by blast
qed

theorem accepted_task_complete_witness:
  "\<exists>v \<in> set (nodes demo_verified). n_task v = ''t'' \<and> is_verifier (n_spec v) \<and> n_state v = NAccepted"
proof -
  have "demo_row TAccepted 5 80 (Some ''done'') \<in> set (tasks demo_verified)" "t_state (demo_row TAccepted 5 80 (Some ''done'')) = TAccepted"
    by (simp_all add: demo_verified_def demo_row_def)
  from accepted_task_complete [OF demo_nodes_reachable(4) this] show ?thesis unfolding demo_two_rows by blast
qed


section \<open>Claims\<close>

lemma dependencies_present:
  assumes u: "unique_key node_key (nodes s)"
  defines "rows deps k \<equiv> filter (\<lambda>m. n_task m = k \<and> n_node m \<in> set deps) (nodes s)"
  shows "set deps \<subseteq> n_node ` set (rows deps k) \<and> (\<forall>m \<in> set (rows deps k). n_state m = NAccepted) \<longleftrightarrow>
    (\<forall>d \<in> set deps. \<exists>m \<in> set (nodes s). node_key m = (k, d) \<and> n_state m = NAccepted)" (is "?present \<longleftrightarrow> ?done")
proof
  assume a: ?present
  show ?done
  proof
    fix d assume "d \<in> set deps"
    then obtain m where "m \<in> set (rows deps k)" "n_node m = d" using a by blast
    then show "\<exists>m \<in> set (nodes s). node_key m = (k, d) \<and> n_state m = NAccepted"
      using a by (intro bexI [of _ m]) (auto simp: rows_def node_key_def)
  qed
next
  assume b: ?done
  have "d \<in> n_node ` set (rows deps k)" if d: "d \<in> set deps" for d
  proof -
    obtain m where "m \<in> set (nodes s)" "node_key m = (k, d)" using b d by blast
    then have "m \<in> set (rows deps k)" "n_node m = d" using d by (auto simp: rows_def node_key_def)
    then show ?thesis by blast
  qed
  moreover have "n_state m = NAccepted" if m: "m \<in> set (rows deps k)" for m
  proof -
    have m': "n_node m \<in> set deps" "node_key m = (k, n_node m)" "m \<in> set (nodes s)"
      using m by (auto simp: rows_def node_key_def)
    then obtain y where y: "y \<in> set (nodes s)" "node_key y = (k, n_node m)" "n_state y = NAccepted" using b by blast
    have "y = m" by (rule unique_same [OF u y(1) m'(3)]) (simp add: y(2) m'(2))
    with y(3) show ?thesis by simp
  qed
  ultimately show ?present by blast
qed

lemma dependency_rows:
  assumes u: "unique_key node_key (nodes s)"
  shows "dependencies_accepted s n \<longleftrightarrow> distinct (depends_on (n_spec n)) \<and>
    (\<forall>d \<in> set (depends_on (n_spec n)). \<exists>m \<in> set (nodes s). node_key m = (n_task n, d) \<and> n_state m = NAccepted)"
proof -
  let ?deps = "depends_on (n_spec n)"
  let ?rows = "filter (\<lambda>m. n_task m = n_task n \<and> n_node m \<in> set ?deps) (nodes s)"
  have "distinct (map node_key ?rows)" using u by (simp add: unique_key_def distinct_map_filter)
  then have dist: "distinct (map n_node ?rows)"
    unfolding distinct_map by (auto simp: inj_on_def node_key_def)
  have rows: "length ?rows = card (n_node ` set ?rows)" using distinct_card [OF dist] by simp
  have names: "n_node ` set ?rows \<subseteq> set ?deps" by auto
  then have le: "length ?rows \<le> card (set ?deps)" unfolding rows by (intro card_mono) auto
  have "length ?rows = length ?deps \<longleftrightarrow> distinct ?deps \<and> set ?deps \<subseteq> n_node ` set ?rows"
  proof
    assume eq: "length ?rows = length ?deps"
    then have d: "distinct ?deps" using le card_length [of ?deps] by (intro card_distinct) simp
    then have "n_node ` set ?rows = set ?deps"
      using eq rows distinct_card [OF d] names by (intro card_subset_eq) auto
    with d show "distinct ?deps \<and> set ?deps \<subseteq> n_node ` set ?rows" by simp
  next
    assume r: "distinct ?deps \<and> set ?deps \<subseteq> n_node ` set ?rows"
    then have "n_node ` set ?rows = set ?deps" using names by blast
    then show "length ?rows = length ?deps" using rows distinct_card [of ?deps] r by simp
  qed
  then show ?thesis
    unfolding dependencies_accepted_def Let_def list_all_iff dependencies_present [OF u, symmetric] by blast
qed


lemma no_company:
  assumes u: "unique_key t_id (tasks s)" and x: "x \<in> set (tasks s)" "t_id x = n_task n"
    and c: "\<not> company_refused s n" and m: "m \<in> set (nodes s)" "n_state m = NRunning" "n_task m = n_task n"
  shows "\<not> refuses_company (n_spec n) \<and> \<not> refuses_company (n_spec m)"
proof -
  have "(m, x) \<in> set (running_nodes s)"
    using running_memberI [OF m(1,2)] tk.unique_row [OF u x(1)] x(2) m(3) by simp
  then have "(m, x) \<in> set (filter (\<lambda>(m, t). n_task m = n_task n) (running_nodes s))" using m(3) by simp
  then show ?thesis using c unfolding company_refused_def Let_def list_ex_iff by fastforce
qed

lemma lease_fresh:
  assumes reach: "reachable no_tasks (node_step sha identity) s0" and run: "(node_step sha identity)\<^sup>*\<^sup>* s0 s"
    and m: "m \<in> set (nodes s0)" "n_state m = NRunning"
  shows "n_lease m \<le> node_counter s"
proof -
  have ok: "node_ok identity s0" using reach by (rule node.inv_reachable)
  have "node_counter s0 \<le> node_counter s" using run
  proof (induction rule: rtranclp_induct)
    case (step t u)
    then show ?case using node_step_counter [OF step(2) node.inv_run [OF step(1) ok]] by simp
  qed simp
  moreover have "leases_ok s0" using ok by (auto simp: node_ok_def)
  ultimately show ?thesis using m unfolding leases_ok_def by fastforce
qed

text \<open>
  Property C6. A claim follows every rule of admission. It runs under the current coordinator epoch
  with no rollout in the way and takes the first candidate that no rule stops: everything before it
  in the order of the queue (priority, age, ordinal, name) was skipped or made to wait. The node
  taken is a pending node of a claimable task; its dependencies are all accepted; its route is the
  one its own attempt, its recovery verdict and its retry authorisation give; that route is
  admissible, on an allowed lane with a free unit; its repository is not reserved by a hand-off; no
  running node of the same task refuses company, nor does the node itself when one runs; no running
  node of the same repository conflicts with its scopes or shares a lockfile alias with it. It then
  runs as its next attempt under a lease above every lease a node ever ran under.
\<close>

theorem claim_is_admitted:
  assumes reach: "reachable no_tasks (node_step sha identity) s0" and run: "(node_step sha identity)\<^sup>*\<^sup>* s0 s"
    and claim: "claim_ready_node sha W identity worker epoch lanes caps before now s = Inr (Some c, t)"
  shows "meta_epoch s = Some epoch \<and> deployment_admission_gate s = None \<and>
    (\<exists>n \<in> set (nodes s). \<exists>x \<in> set (tasks s). \<exists>r v authorization u repository pre post ls cs.
       let W' = W\<lparr>q_identity := claim_repository_identities identity before\<rparr>;
           effective = effective_spec (n_spec n) (r_executor r) (r_model r);
           lane = execution_lane_for_spec effective
       in normalize_execution_lanes lanes = Inr ls \<and> normalize_lane_capacities caps = Inr cs
     \<and> claim_candidates s = pre @ (n, x) # post \<and> (\<forall>nt \<in> set pre. passed_over W' ls cs s nt)
     \<and> t_id x = n_task n \<and> n_state n = NPending \<and> claimable s x
     \<and> (\<forall>d \<in> set (depends_on (n_spec n)). \<exists>m \<in> set (nodes s). node_key m = (n_task n, d) \<and> n_state m = NAccepted)
     \<and> waits_only s u \<and> candidate_recovery W' n (n_attempt n + 1) = Inr v
     \<and> blocked_retry_authorization (n_task n) (n_node n) (n_attempt n + 1) u = Inr authorization
     \<and> r = candidate_route n (n_attempt n + 1) v authorization u
     \<and> (\<forall>names. lanes = Some names \<longrightarrow> lane \<in> set names)
     \<and> (\<forall>k. map_of cs lane = Some k \<longrightarrow> lane_active s lane < k)
     \<and> q_admissible W effective
     \<and> claim_repository_identities identity before (repository_of (t_contract x)) = Some repository
     \<and> q_handoff W repository u = Inr False
     \<and> (\<forall>m \<in> set (nodes s). n_state m = NRunning \<and> n_task m = n_task n \<longrightarrow>
          \<not> refuses_company (n_spec n) \<and> \<not> refuses_company (n_spec m))
     \<and> (\<forall>m \<in> set (nodes s). \<forall>y \<in> set (tasks s). n_state m = NRunning \<and> t_id y = n_task m
          \<and> identity (repository_of (t_contract y)) = identity (repository_of (t_contract x)) \<longrightarrow>
          \<not> node_conflict n m \<and> q_aliases W n m = [])
     \<and> cl_node c = claimed_node worker r epoch (node_counter s + 1) (utc now) n
     \<and> (\<forall>m \<in> set (nodes s0). n_state m = NRunning \<longrightarrow> n_lease m < n_lease (cl_node c))
     \<and> cl_node c \<in> set (nodes t))"
  using claim
proof (cases rule: claim_cases)
  case (claimed c' z ls cs)
  let ?id = "claim_repository_identities identity before"
  let ?W = "W\<lparr>q_identity := ?id\<rparr>"
  define n x r where "n = z_node z" and "x = z_task z" and "r = z_route z"
  note z = this [symmetric]
  define effective where "effective = effective_spec (n_spec n) (r_executor r) (r_model r)"
  define lane where "lane = execution_lane_for_spec effective"
  have ok: "node_ok identity s" using node.inv_run [OF run] reach node.inv_reachable by blast
  then have k: "unique_key node_key (nodes s)" "unique_key t_id (tasks s)" by (auto simp: node_ok_def keys_ok_def)
  obtain pre post where order: "claim_candidates s = pre @ (n, x) # post" "\<forall>nt \<in> set pre. passed_over ?W ls cs s nt"
    using claimed(6) unfolding z by blast
  have "(n, x) \<in> set (claim_candidates s)" using order(1) by simp
  note cand = candidate_member [OF this]
  note adm = claimed(7) [unfolded admitted_def Let_def z, folded effective_def]
  have lane: "z_lane z = lane" using adm unfolding lane_def by blast
  note adm = adm [unfolded lane]
  obtain repository where rep: "?id (repository_of (t_contract x)) = Some repository"
    and given: "\<exists>u authorization. waits_only s u \<and> q_handoff ?W repository u = Inr False
       \<and> blocked_retry_authorization (n_task n) (n_node n) (n_attempt n + 1) u = Inr authorization
       \<and> candidate_recovery ?W n (n_attempt n + 1) = Inr (z_recovery z)
       \<and> r = candidate_route n (n_attempt n + 1) (z_recovery z) authorization u"
    and apart: "\<forall>(m, u) \<in> set (running_nodes s). ?id (repository_of (t_contract u)) = Some repository \<longrightarrow>
       \<not> access_conflict (read_scopes (n_spec n)) (write_scopes (n_spec n)) (read_scopes (n_spec m)) (write_scopes (n_spec m))
       \<and> q_aliases ?W n m = []"
    using adm by auto
  obtain u authorization where u: "waits_only s u" "q_handoff W repository u = Inr False"
    "blocked_retry_authorization (n_task n) (n_node n) (n_attempt n + 1) u = Inr authorization"
    "candidate_recovery ?W n (n_attempt n + 1) = Inr (z_recovery z)"
    "r = candidate_route n (n_attempt n + 1) (z_recovery z) authorization u"
    using given by auto
  have free: "\<not> node_conflict n m \<and> q_aliases W n m = []" if m: "m \<in> set (nodes s)" "n_state m = NRunning"
    and y: "y \<in> set (tasks s)" "t_id y = n_task m" "identity (repository_of (t_contract y)) = identity (repository_of (t_contract x))" for m y
  proof -
    have run: "(m, y) \<in> set (running_nodes s)"
      using running_memberI [OF m] tk.unique_row [OF k(2) y(1)] y(2) by simp
    then have "?id (repository_of (t_contract y)) \<noteq> None" using claimed(8) by blast
    then have "?id (repository_of (t_contract y)) = Some repository"
      using rep y(3) by (auto simp: claim_repository_identities_def split: if_splits)
    then show ?thesis using apart run unfolding node_conflict_def by fastforce
  qed
  have node: "cl_node c = claimed_node worker r epoch (node_counter s + 1) (utc now) n"
    using claimed(1,10) by (simp add: z next_lease_epoch_def node_counter_def Let_def)
  have new: "cl_node c \<in> set (nodes t)"
    using started_rows(2) [OF k(1) cand(1,2) [unfolded n_def] claimed(9)] node by (simp add: z)
  have fresh: "\<forall>m \<in> set (nodes s0). n_state m = NRunning \<longrightarrow> n_lease m < n_lease (cl_node c)"
    using lease_fresh [OF reach run] by (fastforce simp: node claimed_node_def)
  have lanes: "\<forall>names. lanes = Some names \<longrightarrow> lane \<in> set names"
    using adm claimed(4) by (auto simp: normalize_execution_lanes_def split: if_splits)
  have units: "\<forall>k. map_of cs lane = Some k \<longrightarrow> lane_active s lane < k" using adm by auto
  have deps: "\<forall>d \<in> set (depends_on (n_spec n)). \<exists>m \<in> set (nodes s). node_key m = (n_task n, d) \<and> n_state m = NAccepted"
    using adm unfolding dependency_rows [OF k(1)] by blast
  have open_: "q_admissible W effective" using adm by simp
  have alone: "\<forall>m \<in> set (nodes s). n_state m = NRunning \<and> n_task m = n_task n \<longrightarrow>
      \<not> refuses_company (n_spec n) \<and> \<not> refuses_company (n_spec m)"
    using no_company [OF k(2) cand(4,5)] adm by blast
  have apart': "\<forall>m \<in> set (nodes s). \<forall>y \<in> set (tasks s). n_state m = NRunning \<and> t_id y = n_task m
      \<and> identity (repository_of (t_contract y)) = identity (repository_of (t_contract x)) \<longrightarrow>
      \<not> node_conflict n m \<and> q_aliases W n m = []" using free by blast
  show ?thesis
    apply (rule conjI [OF claimed(2) conjI [OF claimed(3)]])
    apply (rule bexI [OF _ cand(1)], rule bexI [OF _ cand(4)])
    apply (rule exI [of _ r], rule exI [of _ "z_recovery z"], rule exI [of _ authorization], rule exI [of _ u],
      rule exI [of _ repository], rule exI [of _ pre], rule exI [of _ post], rule exI [of _ ls], rule exI [of _ cs])
    unfolding Let_def effective_def [symmetric] lane_def [symmetric]
    by (intro conjI; fact claimed order cand u rep deps lanes units open_ alone apart' node fresh new)
qed simp

theorem claim_is_admitted_witness:
  "\<exists>c t. claim_ready_node demo_sha demo_world id ''w'' 1 None None demo_one 40 demo_one = Inr (Some c, t)
    \<and> meta_epoch demo_one = Some 1 \<and> cl_node c \<in> set (nodes t) \<and> (\<forall>m \<in> set (nodes demo_one). n_state m = NRunning \<longrightarrow>
        n_lease m < n_lease (cl_node c))"
proof -
  obtain c t where run: "claim_ready_node demo_sha demo_world id ''w'' 1 None None demo_one 40 demo_one = Inr (Some c, t)"
    by (rule demo_claim_run [OF demo_two_select demo_one_def demo_known(2,5)])
  from claim_is_admitted [OF demo_nodes_reachable(2) rtranclp.rtrancl_refl run] run show ?thesis
    unfolding Let_def by (elim conjE bexE exE) blast
qed

section \<open>Leases\<close>

text \<open>A node runs in the next ledger only if it ran before, or under the next lease.\<close>

lemma calm_running: "calm u t \<Longrightarrow> m \<in> set (nodes t) \<Longrightarrow> n_state m = NRunning \<Longrightarrow> m \<in> set (nodes u)"
  by (rule stems_running [OF calm_stems])

lemma accepts_running:
  assumes "accepts n s t" and m: "m \<in> set (nodes t)" "n_state m = NRunning"
  shows "m \<in> set (nodes s)"
proof -
  obtain doc ts where "calm (settled_as n doc ts s) t
      \<or> (\<exists>r v. calm (put_task (n_task n) TAccepted r None v ts (settled_as n doc ts s)) t)"
    using assms(1) unfolding accepts_def by blast
  then have "m \<in> set (nodes (settled_as n doc ts s))"
  proof
    assume "calm (settled_as n doc ts s) t"
    then show ?thesis using m by (rule calm_running)
  next
    assume "\<exists>r v. calm (put_task (n_task n) TAccepted r None v ts (settled_as n doc ts s)) t"
    then obtain r v where c: "calm (put_task (n_task n) TAccepted r None v ts (settled_as n doc ts s)) t" by blast
    show ?thesis by (rule stems_running [OF task_stems calm_running [OF c m] m(2)])
  qed
  then show ?thesis using m(2) by (rule stems_running [OF settled_stems])
qed

lemma inserted_running:
  assumes "inserted c ns s u" and "m \<in> set (nodes u)" "n_state m = NRunning"
  shows "m \<in> set (nodes s)"
  using assms by (auto simp: inserted_def new_node_row_def simp del: canonical_json.simps)

lemma step_running:
  assumes step: "node_step sha identity s t" and ok: "node_ok identity s" and m: "m \<in> set (nodes t)" "n_state m = NRunning"
  shows "m \<in> set (nodes s) \<or> n_lease m = node_counter s + 1"
proof -
  have k: "keys_ok s" "verified_ok s" using ok by (auto simp: node_ok_def)
  from step k show ?thesis
  proof (cases rule: node_cases)
    case calm
    then show ?thesis using calm_running m by blast
  next
    case created
    then obtain c ns u where "inserted c ns s u" "calm u t" unfolding creates_def by blast
    then show ?thesis using inserted_running calm_running m by blast
  next
    case (claimed z)
    then obtain worker e ts where st: "started z worker e ts s t" and z: "(z_node z, z_task z) \<in> set (claim_candidates s)"
      unfolding claims_def by blast
    note cand = candidate_member [OF z]
    have "unique_key node_key (nodes s)" using k by (simp add: keys_ok_def)
    from started_rows(3) [OF this cand(1,2) st m(1)] show ?thesis by (auto simp: claimed_node_def)
  next
    case (accepted n)
    then show ?thesis using accepts_running m by blast
  next
    case (reopened n)
    then obtain u where "reopened n s u" "calm u t" unfolding reopens_def by blast
    then show ?thesis using stems_running [OF reopened_stems] calm_running m by blast
  qed
qed

text \<open>A lease of a node that can never run again.\<close>

definition spent :: "(string \<Rightarrow> string) \<Rightarrow> string \<times> string \<Rightarrow> int \<Rightarrow> store \<Rightarrow> bool" where
  "spent identity k l s \<longleftrightarrow> node_ok identity s \<and> l \<le> node_counter s
     \<and> (\<forall>n \<in> set (nodes s). node_key n = k \<and> n_state n = NRunning \<longrightarrow> n_lease n \<noteq> l)"

lemma spent_step:
  assumes step: "node_step sha identity s t" and sp: "spent identity k l s"
  shows "spent identity k l t"
proof -
  have ok: "node_ok identity s" and le: "l \<le> node_counter s" using sp by (auto simp: spent_def)
  have "l \<le> node_counter t" using le node_step_counter [OF step ok] by simp
  moreover have "n_lease n \<noteq> l" if n: "n \<in> set (nodes t)" "node_key n = k" "n_state n = NRunning" for n
    using step_running [OF step ok n(1,3)] sp n le unfolding spent_def by fastforce
  ultimately show ?thesis using node_step_ok [OF step ok] unfolding spent_def by blast
qed

interpretation spent: invariant_machine "spent identity k l" "node_step sha identity" "spent identity k l" for sha identity k l
  by standard (assumption, fact spent_step)

lemma spent_lease:
  assumes "spent identity (k, m) l s"
  shows "\<exists>e. require_lease k m a c l s = Inl e"
proof (cases "require_lease k m a c l s")
  case (Inr nt)
  then obtain n t where r: "require_lease k m a c l s = Inr (n, t)" by (cases nt) simp
  then show ?thesis using leased_rows [OF r] assms unfolding spent_def by blast
qed simp

text \<open>
  Property C4. A lease settles at most once: after a settlement under a lease, in every later ledger, a
  second settlement under that lease is refused, with any result and with inputs read at any time, and
  a reported settlement conflict changes nothing.
\<close>

theorem settled_once:
  assumes reach: "reachable no_tasks (node_step sha identity) s"
    and settle: "settle_node sha J k m h a e l before now s = Inr (u, t)"
    and later: "(node_step sha identity)\<^sup>*\<^sup>* t s'"
  shows "(\<exists>err. settle_node sha J' k m h' a' e' l before' now' s' = Inl err)
    \<and> (\<forall>b t'. reconcile_settlement_conflict sha J' k m a' e' l er st rj now' s' = Inr (b, t') \<longrightarrow> \<not> b \<and> t' = s')"
proof -
  have ok: "node_ok identity s" using reach by (rule node.inv_reachable)
  then have k: "keys_ok s" "verified_ok s" and l: "leases_ok s" by (auto simp: node_ok_def)
  obtain n where n: "n \<in> set (nodes s)" "n_state n = NRunning" "n_lease n = l" and st: "stopped t (k, m)"
    using settle_effect [OF settle k] by metis
  have step: "node_step sha identity s t" using settle by (rule ns_settle)
  have "l \<le> node_counter s" using l n unfolding leases_ok_def by blast
  then have "l \<le> node_counter t" using node_step_counter [OF step ok] by simp
  then have "spent identity (k, m) l t" using node_step_ok [OF step ok] st unfolding spent_def stopped_def by blast
  then have "spent identity (k, m) l s'" using later by (rule spent.inv_run [rotated])
  then obtain err where err: "require_lease k m a' e' l s' = Inl err" using spent_lease by blast
  have "\<exists>err. settle_node sha J' k m h' a' e' l before' now' s' = Inl err"
    unfolding settle_node_def err by (cases "prevalidate_settlement J' k m h' a' e' l before'") simp_all
  moreover have "\<not> b \<and> t' = s'" if "reconcile_settlement_conflict sha J' k m a' e' l er st rj now' s' = Inr (b, t')" for b t'
    using that by (auto simp: reconcile_settlement_conflict_def err Let_def res_simps)
  ultimately show ?thesis by blast
qed

theorem settled_once_witness:
  "\<exists>err. settle_node demo_sha demo_judge ''t'' ''a'' (plain_result ''succeeded'' ''again'') 1 1 1 demo_ready 90 demo_ready = Inl err"
proof -
  obtain x u where u: "demo_settle ''a'' 1 50 demo_two = Inr (x, u)" "nodes demo_half = nodes u" "tasks demo_half = tasks u"
      "meta_lease demo_half = meta_lease u"
    using demo_half_run by (rule leavesE)
  have "(node_step demo_sha id)\<^sup>*\<^sup>* u demo_ready"
    using ns_other [OF u(2-4)] demo_runs(4) by (rule converse_rtranclp_into_rtranclp)
  from settled_once [OF demo_nodes_reachable(3) u(1) this] show ?thesis by blast
qed

end
