(* ===== verification/Recovery_Policy.thy ===== *)
theory Recovery_Policy
  imports Node_Specs Store_State
begin

text \<open>
  The bounded recovery of a blocked node, its pure part: \<open>node_recovery_policy.py\<close>. A policy is the
  operator's limits and authorised actions, \<open>classify_failure\<close> names the category of a failure from
  explicit evidence, and \<open>plan_recovery\<close> turns one observation into one proposal: an action, a wait,
  a question to the user, or nothing. The long chain of early returns of \<open>plan_recovery\<close> is cut into
  the definitions \<open>plan_fences\<close> to \<open>plan_category\<close>; one that does not return is None.

  Deadlines beyond the year 9999, where \<open>datetime\<close> overflows, are not modelled.
\<close>

section \<open>Policies\<close>

definition ALLOWED_ACTIONS :: "string list" where
  "ALLOWED_ACTIONS = [''observe_readiness'', ''materialize_dependencies'', ''narrow_validation'',
     ''source_only_recovery'', ''request_repair'', ''resume_node'', ''resume_owner_repairs'', ''repair_source'']"

definition VALIDATION_PROFILES :: "string list" where
  "VALIDATION_PROFILES = [''dsh-b-ipc-v1'', ''dsh-b-pairing-check-v1'', ''dsh-b-pairing-write-v1'']"

definition CATEGORIES :: "string list" where
  "CATEGORIES = [''capacity'', ''auth'', ''network'', ''environment'', ''tooling_bug'', ''validation_failure'',
     ''unknown_effects'', ''user_pause'', ''dependency'', ''unknown'']"

definition POLICY_FIELDS :: "string list" where
  "POLICY_FIELDS = [''enabled'', ''allowed_actions'', ''validation_profiles'', ''max_action_attempts'',
     ''time_budget_seconds'', ''backoff_seconds'', ''max_backoff_seconds'', ''repair_repository'',
     ''repair_allowed_scopes'', ''continuation_authorization'']"

definition control_free :: "string \<Rightarrow> bool" where
  "control_free s \<longleftrightarrow> CHR 0x00 \<notin> set s \<and> CHR 0x0D \<notin> set s \<and> CHR 0x0A \<notin> set s"

definition require_text :: "string \<Rightarrow> pyval \<Rightarrow> string res" where
  "require_text name v = (case v of
      VStr s \<Rightarrow> if blank s then Inl (ValueError (name @ '' must be a non-empty string''))
        else if \<not> control_free s then Inl (ValueError (name @ '' contains forbidden control characters''))
        else Inr s
    | _ \<Rightarrow> Inl (ValueError (name @ '' must be a non-empty string'')))"

definition read_tuple :: "string \<Rightarrow> pyval \<Rightarrow> string list res" where
  "read_tuple name v = (case v of
      VList xs \<Rightarrow> bindR (mapR (require_text (name @ '' item'')) xs) (\<lambda>values.
        if \<not> distinct values then Inl (ValueError (name @ '' must not contain duplicates'')) else Inr values)
    | _ \<Rightarrow> Inl (ValueError (name @ '' must be an array'')))"

definition bounded_int :: "string \<Rightarrow> int \<Rightarrow> int \<Rightarrow> pyval \<Rightarrow> int res" where
  "bounded_int name lo hi v = (case v of
      VInt n \<Rightarrow> if lo \<le> n \<and> n \<le> hi then Inr n else Inl (ValueError (name @ '' must be an integer between bounds''))
    | _ \<Rightarrow> Inl (ValueError (name @ '' must be an integer between bounds'')))"

text \<open>\<open>parse_continuation_authorization\<close> of \<open>continuation_authorization.py\<close>: three booleans, or nothing.\<close>

record continuation_config =
  cc_attempts :: bool
  cc_revisions :: bool
  cc_same_task :: bool

definition config_keys :: "string list" where
  "config_keys = [''allow_across_attempts'', ''allow_across_revisions'', ''same_task_only'']"

definition flag_of :: "pyval \<Rightarrow> string \<Rightarrow> bool res" where
  "flag_of v k = (case dget v k of VBool b \<Rightarrow> Inr b
     | _ \<Rightarrow> Inl (ValueError (''continuation_authorization.'' @ k @ '' must be a boolean'')))"

definition parse_continuation_authorization :: "pyval \<Rightarrow> continuation_config option res" where
  "parse_continuation_authorization v = (if v = VNone then Inr None
     else if \<not> is_dict v \<or> set (map fst (items_of v)) \<noteq> set config_keys
     then Inl (ValueError ''continuation_authorization must contain only the three flags'')
     else bindR (flag_of v ''allow_across_attempts'') (\<lambda>a.
       bindR (flag_of v ''allow_across_revisions'') (\<lambda>r.
       bindR (flag_of v ''same_task_only'') (\<lambda>t.
         if \<not> t then Inl (ValueError ''continuation_authorization.same_task_only must be true'')
         else Inr (Some \<lparr>cc_attempts = a, cc_revisions = r, cc_same_task = t\<rparr>)))))"

definition config_document :: "continuation_config \<Rightarrow> items" where
  "config_document c = [(''allow_across_attempts'', VBool (cc_attempts c)),
     (''allow_across_revisions'', VBool (cc_revisions c)), (''same_task_only'', VBool (cc_same_task c))]"

record recovery_policy =
  rp_enabled :: bool
  rp_actions :: "string list"
  rp_profiles :: "string list"
  rp_attempts :: int
  rp_budget :: int
  rp_backoff :: int
  rp_max_backoff :: int
  rp_repository :: "string option"
  rp_scopes :: "string list"
  rp_continuation :: "continuation_config option"

definition default_policy :: recovery_policy where
  "default_policy = \<lparr>rp_enabled = False, rp_actions = [''observe_readiness''], rp_profiles = [], rp_attempts = 3,
     rp_budget = 900, rp_backoff = 30, rp_max_backoff = 300, rp_repository = None, rp_scopes = [],
     rp_continuation = None\<rparr>"

definition policy_repository :: "pyval \<Rightarrow> string option res" where
  "policy_repository v = (if v = VNone then Inr None
     else bindR (require_text ''repair_repository'' v) (\<lambda>path.
       if \<not> starts_with ''/'' path then Inl (ValueError ''repair_repository must be an absolute path'')
       else Inr (Some path)))"

text \<open>\<open>from_dict\<close> with the checks of \<open>__post_init__\<close>; an absent field takes its default.\<close>

definition policy_from_dict :: "pyval \<Rightarrow> recovery_policy res" where
  "policy_from_dict raw =
    (if \<not> is_dict raw then Inl (ValueError ''recovery policy must be an object'')
     else if \<not> set (map fst (items_of raw)) \<subseteq> set POLICY_FIELDS
     then Inl (ValueError ''recovery policy has unsupported field(s)'')
     else bindR (case dget_or raw ''enabled'' (VBool False) of VBool b \<Rightarrow> Inr b
        | _ \<Rightarrow> Inl (ValueError ''enabled must be a boolean'')) (\<lambda>enabled.
     bindR (read_tuple ''allowed_actions'' (dget_or raw ''allowed_actions'' (strs [''observe_readiness'']))) (\<lambda>actions.
     bindR (read_tuple ''validation_profiles'' (dget_or raw ''validation_profiles'' (strs []))) (\<lambda>profiles.
     bindR (read_tuple ''repair_allowed_scopes'' (dget_or raw ''repair_allowed_scopes'' (strs []))) (\<lambda>scopes.
     bindR (parse_continuation_authorization (dget raw ''continuation_authorization'')) (\<lambda>continuation.
     if \<not> set actions \<subseteq> set ALLOWED_ACTIONS then Inl (ValueError ''unsupported allowed action(s)'')
     else if \<not> set profiles \<subseteq> set VALIDATION_PROFILES then Inl (ValueError ''unsupported validation profile(s)'')
     else bindR (bounded_int ''max_action_attempts'' 1 3 (dget_or raw ''max_action_attempts'' (VInt 3))) (\<lambda>attempts.
     bindR (bounded_int ''time_budget_seconds'' 1 3600 (dget_or raw ''time_budget_seconds'' (VInt 900))) (\<lambda>budget.
     bindR (bounded_int ''backoff_seconds'' 1 300 (dget_or raw ''backoff_seconds'' (VInt 30))) (\<lambda>backoff.
     bindR (bounded_int ''max_backoff_seconds'' 1 3600 (dget_or raw ''max_backoff_seconds'' (VInt 300))) (\<lambda>max_backoff.
     if max_backoff < backoff then Inl (ValueError ''max_backoff_seconds must be at least backoff_seconds'')
     else bindR (policy_repository (dget raw ''repair_repository'')) (\<lambda>repository.
     if ''request_repair'' \<in> set actions \<and> (repository = None \<or> scopes = [])
     then Inl (ValueError ''request_repair requires repair_repository and repair_allowed_scopes'')
     else Inr \<lparr>rp_enabled = enabled, rp_actions = actions, rp_profiles = profiles, rp_attempts = attempts,
       rp_budget = budget, rp_backoff = backoff, rp_max_backoff = max_backoff, rp_repository = repository,
       rp_scopes = scopes, rp_continuation = continuation\<rparr>)))))))))))"

definition policy_document :: "recovery_policy \<Rightarrow> items" where
  "policy_document p = [(''enabled'', VBool (rp_enabled p)), (''allowed_actions'', strs (rp_actions p)),
     (''validation_profiles'', strs (rp_profiles p)), (''max_action_attempts'', VInt (rp_attempts p)),
     (''time_budget_seconds'', VInt (rp_budget p)), (''backoff_seconds'', VInt (rp_backoff p)),
     (''max_backoff_seconds'', VInt (rp_max_backoff p)), (''repair_repository'', opt_str (rp_repository p)),
     (''repair_allowed_scopes'', strs (rp_scopes p))]
     @ (case rp_continuation p of None \<Rightarrow> []
        | Some c \<Rightarrow> [(''continuation_authorization'', VDict (config_document c))])"

text \<open>What \<open>__post_init__\<close> establishes of a policy.\<close>

definition policy_ok :: "recovery_policy \<Rightarrow> bool" where
  "policy_ok p \<longleftrightarrow> distinct (rp_actions p) \<and> set (rp_actions p) \<subseteq> set ALLOWED_ACTIONS
     \<and> distinct (rp_profiles p) \<and> set (rp_profiles p) \<subseteq> set VALIDATION_PROFILES
     \<and> distinct (rp_scopes p) \<and> (\<forall>s \<in> set (rp_scopes p). \<not> blank s \<and> control_free s)
     \<and> 1 \<le> rp_attempts p \<and> rp_attempts p \<le> 3 \<and> 1 \<le> rp_budget p \<and> rp_budget p \<le> 3600
     \<and> 1 \<le> rp_backoff p \<and> rp_backoff p \<le> 300 \<and> rp_backoff p \<le> rp_max_backoff p \<and> rp_max_backoff p \<le> 3600
     \<and> (case rp_repository p of None \<Rightarrow> True | Some r \<Rightarrow> \<not> blank r \<and> control_free r \<and> starts_with ''/'' r)
     \<and> (''request_repair'' \<in> set (rp_actions p) \<longrightarrow> rp_repository p \<noteq> None \<and> rp_scopes p \<noteq> [])
     \<and> (case rp_continuation p of None \<Rightarrow> True | Some c \<Rightarrow> cc_same_task c)"

section \<open>Classification\<close>

definition trimmed :: "pyval \<Rightarrow> string option" where
  "trimmed v = (case v of VStr s \<Rightarrow> if blank s then None else Some (strip s) | _ \<Rightarrow> None)"

definition source_kind :: "pyval \<Rightarrow> string option" where
  "source_kind evidence = (let source = dget evidence ''source'' in
     trimmed (if is_dict source then dget source ''kind'' else source))"

definition ORIGIN_CATEGORIES :: "(string \<times> string) list" where
  "ORIGIN_CATEGORIES = [(''capacity'', ''capacity''), (''quota'', ''capacity''), (''auth'', ''auth''),
     (''authentication'', ''auth''), (''network'', ''network''), (''transport'', ''network''),
     (''environment'', ''environment''), (''dependency'', ''dependency''), (''tooling_bug'', ''tooling_bug''),
     (''tooling-bug'', ''tooling_bug''), (''validation_failure'', ''validation_failure''),
     (''verification'', ''validation_failure''), (''unknown_effects'', ''unknown_effects''),
     (''user_pause'', ''user_pause''), (''pause'', ''user_pause''), (''cancel'', ''user_pause'')]"

definition explicit_origin_category :: "string option \<Rightarrow> string option" where
  "explicit_origin_category origin = Option.bind origin (map_of ORIGIN_CATEGORIES)"

definition READINESS_DEPENDENCY_CODES :: "string list" where
  "READINESS_DEPENDENCY_CODES = [''missing-dependency'', ''dependency-unreadable'', ''dependency-kind-mismatch'',
     ''invalid-dependency'', ''source-unresolved'', ''source-outside-worktree'', ''pnpm:linker'']"

definition READINESS_ENVIRONMENT_CODES :: "string list" where
  "READINESS_ENVIRONMENT_CODES = [''invalid-worktree'', ''missing-tool'', ''toolchain-mismatch'',
     ''source-probe-invalid'', ''probe-limit-exceeded'', ''probe-budget-exhausted'', ''probe-timeout'',
     ''probe-error'', ''probe-failed'']"

definition NETWORK_CODES :: "string list" where
  "NETWORK_CODES = [''network'', ''network-unavailable'', ''transport'', ''transport-failed'', ''transport-timeout'',
     ''authority-unavailable'', ''ssh-unreachable'']"

definition AUTH_CODES :: "string list" where
  "AUTH_CODES = [''auth'', ''authentication-required'', ''authorization-required'', ''permission-denied'']"

definition VALIDATION_CODES :: "string list" where
  "VALIDATION_CODES = [''validation-failure'', ''validation_failed'', ''check-failed'', ''assertion-failed'']"

definition TOOLING_CODES :: "string list" where
  "TOOLING_CODES = [''tooling-bug'', ''tooling_bug'', ''harness-bug'', ''runner-bug'']"

definition code_in :: "string option \<Rightarrow> string list \<Rightarrow> bool" where
  "code_in code names = (case code of None \<Rightarrow> False | Some c \<Rightarrow> c \<in> set names)"

definition classify_failure :: "pyval \<Rightarrow> string" where
  "classify_failure evidence =
    (if \<not> is_dict evidence then ''unknown''
     else let source = source_kind evidence; code = trimmed (dget evidence ''code'') in
     if source = None \<or> source = Some ''unknown'' then ''unknown''
     else if source = Some ''authority_readiness'' \<and> (code_in code READINESS_DEPENDENCY_CODES
        \<or> code_in (trimmed (dget evidence ''check_id'')) [''pnpm:linker'']) then ''dependency''
     else if source = Some ''authority_readiness'' \<and> code_in code READINESS_ENVIRONMENT_CODES then ''environment''
     else case explicit_origin_category (trimmed (dget evidence ''origin'')) of
       Some category \<Rightarrow> if code_in source [''direct_attribution'', ''authority_readiness'', ''authority_validation'']
         then category else ''unknown''
     | None \<Rightarrow> if source \<noteq> Some ''authority_validation'' then ''unknown''
         else if code_in code NETWORK_CODES then ''network''
         else if code_in code AUTH_CODES then ''auth''
         else if code_in code VALIDATION_CODES then ''validation_failure''
         else if code_in code TOOLING_CODES then ''tooling_bug''
         else if code_in code READINESS_DEPENDENCY_CODES then ''dependency''
         else ''unknown'')"

section \<open>Proposals\<close>

text \<open>
  What the standard library computes and the model does not: the digest of canonical JSON, the
  SHA-256 of a text, the length of a float's \<open>repr\<close> and the \<open>str\<close> of floats, arrays and objects.
\<close>

record runtime =
  rt_sha :: "pyval \<Rightarrow> string"
  rt_text_sha :: "string \<Rightarrow> string"
  rt_float :: "rat \<Rightarrow> nat"
  rt_repr :: "pyval \<Rightarrow> string"

definition py_str :: "runtime \<Rightarrow> pyval \<Rightarrow> string" where
  "py_str R v = (case v of VStr s \<Rightarrow> s | VNone \<Rightarrow> ''None'' | VBool b \<Rightarrow> if b then ''True'' else ''False''
     | VInt n \<Rightarrow> str_int n | _ \<Rightarrow> rt_repr R v)"

datatype recovery_state = EWaiting | EReady | ENeedsAction | EResolved | ESuspended

fun recovery_state_name :: "recovery_state \<Rightarrow> string" where
  "recovery_state_name EWaiting = ''waiting''"
| "recovery_state_name EReady = ''ready''"
| "recovery_state_name ENeedsAction = ''needs_action''"
| "recovery_state_name EResolved = ''resolved''"
| "recovery_state_name ESuspended = ''suspended''"

record proposal =
  pr_category :: string
  pr_action :: "string option"
  pr_state :: recovery_state
  pr_reason :: string
  pr_owner :: string
  pr_authorization :: bool
  pr_wakeup :: "iso_time option"

text \<open>\<open>_parse_now\<close>, \<open>datetime + timedelta\<close>, and \<open>now < due\<close>, which a naive and an aware time refuse.\<close>

definition zulu :: "string \<Rightarrow> string" where
  "zulu s = concat (map (\<lambda>c. if c = CHR ''Z'' then ''+00:00'' else [c]) s)"

definition parse_now :: "pyval \<Rightarrow> iso_time option" where
  "parse_now v = (case v of VStr s \<Rightarrow> if blank s then None else iso_read (zulu s) | _ \<Rightarrow> None)"

definition add_seconds :: "iso_time \<Rightarrow> int \<Rightarrow> iso_time" where
  "add_seconds t n = t\<lparr>iso_wall := iso_wall t + n * 1000000\<rparr>"

definition iso_before :: "iso_time \<Rightarrow> iso_time \<Rightarrow> bool option" where
  "iso_before a b = (case (iso_offset a, iso_offset b) of
      (None, None) \<Rightarrow> Some (iso_wall a < iso_wall b)
    | (Some x, Some y) \<Rightarrow> Some (iso_wall a - x < iso_wall b - y)
    | _ \<Rightarrow> None)"

definition wakeup :: "iso_time option \<Rightarrow> int \<Rightarrow> iso_time option" where
  "wakeup now n = map_option (\<lambda>t. add_seconds t n) now"

definition proposal_of :: "string \<Rightarrow> string option \<Rightarrow> recovery_state \<Rightarrow> string \<Rightarrow> string \<Rightarrow> bool \<Rightarrow> iso_time option \<Rightarrow> proposal" where
  "proposal_of c a s r owner authorization w = \<lparr>pr_category = c, pr_action = a, pr_state = s, pr_reason = r,
     pr_owner = owner, pr_authorization = authorization, pr_wakeup = w\<rparr>"

definition attempts_of :: "pyval \<Rightarrow> int" where
  "attempts_of ob = (case dget_or ob ''action_attempts'' (VInt 0) of VInt n \<Rightarrow> n | _ \<Rightarrow> 0)"

definition backoff_delay :: "recovery_policy \<Rightarrow> int \<Rightarrow> int" where
  "backoff_delay p attempts = min (rp_backoff p * 2 ^ nat (attempts - 1)) (rp_max_backoff p)"

definition ready_action :: "recovery_policy \<Rightarrow> pyval \<Rightarrow> string \<Rightarrow> string \<Rightarrow> string \<Rightarrow> proposal" where
  "ready_action p ob category action reason =
    (let attempts = attempts_of ob; now = parse_now (dget ob ''now'');
         due = (case parse_now (dget ob ''retry_due_at'') of Some t \<Rightarrow> Some t
           | None \<Rightarrow> wakeup (parse_now (dget ob ''last_action_at'')) (backoff_delay p attempts));
         ready = proposal_of category (Some action) EReady reason ''authority'' False None
     in if dget ob ''last_action'' = VStr action \<and> 0 < attempts then
          (case due of None \<Rightarrow> ready
           | Some t \<Rightarrow> if (case now of None \<Rightarrow> True | Some n \<Rightarrow> iso_before n t \<noteq> Some False)
               then proposal_of category None EWaiting ''backoff'' ''authority'' False (Some t) else ready)
        else ready)"

text \<open>The flags of an observation, and the branches every part of the plan ends in.\<close>

definition flag :: "pyval \<Rightarrow> string \<Rightarrow> bool" where
  "flag ob k \<longleftrightarrow> is_true (dget ob k)"

definition allows :: "recovery_policy \<Rightarrow> string \<Rightarrow> bool" where
  "allows p action \<longleftrightarrow> action \<in> set (rp_actions p)"

definition repair_deployed :: "pyval \<Rightarrow> bool" where
  "repair_deployed ob \<longleftrightarrow> flag ob ''repair_deployed_verified'' \<or> flag ob ''repair_deployed''"

definition repair_configured :: "recovery_policy \<Rightarrow> bool" where
  "repair_configured p \<longleftrightarrow> allows p ''request_repair'' \<and> rp_repository p \<notin> {None, Some []} \<and> rp_scopes p \<noteq> []"

definition user_question :: "string \<Rightarrow> string \<Rightarrow> bool \<Rightarrow> proposal" where
  "user_question category reason authorization = proposal_of category None ENeedsAction reason ''user'' authorization None"

definition lowered :: "pyval \<Rightarrow> string" where
  "lowered v = (case trimmed v of None \<Rightarrow> [] | Some s \<Rightarrow> lower s)"

text \<open>\<open>elapsed < budget\<close> and \<open>elapsed >= budget\<close> of an int or float; a NaN is neither.\<close>

definition elapsed_of :: "pyval \<Rightarrow> fl" where
  "elapsed_of ob = (case number_of (dget_or ob ''elapsed_seconds'' (VInt 0)) of Some x \<Rightarrow> x | None \<Rightarrow> Fin 0)"

definition fl_below :: "fl \<Rightarrow> int \<Rightarrow> bool" where
  "fl_below x n = (case x of Fin q \<Rightarrow> q < of_int n | NegInf \<Rightarrow> True | _ \<Rightarrow> False)"

definition fl_reaches :: "fl \<Rightarrow> int \<Rightarrow> bool" where
  "fl_reaches x n = (case x of Fin q \<Rightarrow> of_int n \<le> q | PosInf \<Rightarrow> True | _ \<Rightarrow> False)"

text \<open>What no action may pass: a disabled policy, the user's pause, approvals, unknown effects.\<close>

definition plan_fences :: "recovery_policy \<Rightarrow> pyval \<Rightarrow> string \<Rightarrow> string \<Rightarrow> string \<Rightarrow> proposal option" where
  "plan_fences p ob category task node =
    (if \<not> rp_enabled p
     then Some (proposal_of category None ESuspended ''policy_disabled'' ''authority'' False None)
     else if task \<in> {''paused'', ''pause'', ''cancelled'', ''canceled''} \<or> node \<in> {''paused'', ''cancelled'', ''canceled''}
     then Some (proposal_of category None ESuspended ''user_pause'' ''user'' False None)
     else if flag ob ''approval_denied''
     then Some (proposal_of category None ESuspended ''approval_denied'' ''user'' True None)
     else if flag ob ''approval_pending'' then Some (user_question category ''approval_pending'' True)
     else if node = ''indeterminate''
     then Some (proposal_of category None ESuspended ''indeterminate'' ''user'' True None)
     else if task = ''accepted'' \<or> node \<in> {''accepted'', ''succeeded'', ''completed''}
     then Some (proposal_of category None EResolved ''accepted'' ''authority'' False None)
     else if category \<in> {''auth'', ''unknown_effects''} \<or> task \<in> {''indeterminate'', ''unknown_effects''}
     then Some (user_question category (if category = ''auth'' then ''authorization_required'' else ''unknown_effects'') True)
     else None)"

definition wait_for :: "string \<Rightarrow> string \<Rightarrow> string \<Rightarrow> iso_time option \<Rightarrow> int \<Rightarrow> proposal" where
  "wait_for category reason owner now seconds = proposal_of category None EWaiting reason owner False (wakeup now seconds)"

definition repair_wait_reason :: "runtime \<Rightarrow> pyval \<Rightarrow> string" where
  "repair_wait_reason R ob = (let kind = dget ob ''repair_wait_kind'' in
     if truthy kind then py_str R kind else ''repair_deployment_wait'')"

definition repair_needs_action :: "runtime \<Rightarrow> string \<Rightarrow> string \<Rightarrow> pyval \<Rightarrow> proposal" where
  "repair_needs_action R category owner ob = proposal_of category None ENeedsAction
     (py_str R (dget_or ob ''repair_wait_kind'' (VStr ''repair_delivery_needs_decision'')))
     (py_str R (dget_or ob ''repair_wait_owner'' (VStr owner)))
     (flag ob ''repair_wait_requires_authorization'') None"

text \<open>Owner repairs that are pending, and pending with their preparation exhausted.\<close>

definition plan_owner_repairs ::
  "runtime \<Rightarrow> recovery_policy \<Rightarrow> pyval \<Rightarrow> string \<Rightarrow> int \<Rightarrow> fl \<Rightarrow> iso_time option \<Rightarrow> proposal option" where
  "plan_owner_repairs R p ob category attempts elapsed now =
    (if flag ob ''blocked_owner_repairs_pending'' \<and> flag ob ''blocked_owner_repair_preparation_exhausted'' then
       (let linked = flag ob ''repair_linked''; requested = flag ob ''repair_requested''; deployed = repair_deployed ob;
            ask = (\<lambda>reason w. Some (proposal_of ''tooling_bug'' None ENeedsAction reason ''authority'' False w)) in
        if linked \<and> \<not> deployed then
          (if dget ob ''repair_wait_state'' = VStr ''needs_action''
           then Some (repair_needs_action R ''tooling_bug'' ''repair'' ob)
           else Some (wait_for ''tooling_bug'' (repair_wait_reason R ob) ''repair'' now (rp_backoff p)))
        else if requested \<and> \<not> linked
        then Some (wait_for ''tooling_bug'' ''repair_request_pending'' ''repair'' now (rp_backoff p))
        else if deployed \<and> \<not> flag ob ''readiness_ready'' then
          (if allows p ''observe_readiness''
           then Some (ready_action p ob ''tooling_bug'' ''observe_readiness'' ''fresh_authority_readiness_required'')
           else ask ''accepted_owner_repair_readiness_unavailable'' (wakeup now (rp_backoff p)))
        else if deployed then
          (if allows p ''resume_owner_repairs''
           then Some (ready_action p ob ''tooling_bug'' ''resume_owner_repairs'' ''verified_repair_resumes_exhausted_owners'')
           else ask ''accepted_owner_repair_resume_action_unconfigured'' (wakeup now (rp_backoff p)))
        else if fl_below elapsed (rp_budget p) \<and> repair_configured p \<and> \<not> linked \<and> \<not> requested \<and> attempts < rp_attempts p
        then Some (ready_action p ob ''tooling_bug'' ''request_repair'' ''accepted_owner_repair_preparation_exhausted'')
        else ask (if allows p ''request_repair'' \<and> rp_repository p \<noteq> None \<and> rp_scopes p \<noteq> []
            then ''accepted_owner_repair_repair_budget_exhausted''
            else ''accepted_owner_repair_repair_action_unconfigured'') None)
     else if flag ob ''blocked_owner_repairs_pending''
     then Some (wait_for category ''accepted_owner_repairs_pending'' ''authority'' now (rp_backoff p))
     else None)"

text \<open>A repeated failure asks for a repair, a verified source write resumes, and the budget ends both.\<close>

definition plan_budget ::
  "recovery_policy \<Rightarrow> pyval \<Rightarrow> string \<Rightarrow> string \<Rightarrow> int \<Rightarrow> fl \<Rightarrow> proposal option" where
  "plan_budget p ob category node attempts elapsed =
    (if fl_below elapsed (rp_budget p) \<and> dget ob ''repeated_recovery_failure'' \<noteq> VNone
        \<and> category \<in> {''dependency'', ''environment'', ''network'', ''validation_failure'', ''tooling_bug''}
        \<and> \<not> flag ob ''repair_linked'' \<and> \<not> flag ob ''repair_requested'' \<and> repair_configured p \<and> attempts < rp_attempts p
     then Some (ready_action p ob category ''request_repair'' ''repeated_recovery_failure'')
     else if flag ob ''controlled_source_repair_ready'' \<and> flag ob ''readiness_ready'' \<and> node = ''blocked''
        \<and> dget ob ''node_is_verifier'' = VBool False \<and> allows p ''repair_source'' \<and> attempts < rp_attempts p
     then Some (ready_action p ob category ''repair_source'' ''controlled_source_write_verified'')
     else if rp_attempts p \<le> attempts \<or> fl_reaches elapsed (rp_budget p)
     then Some (user_question category ''budget_exhausted'' False)
     else None)"

text \<open>A linked repair is awaited, and its deployment observed afresh.\<close>

definition plan_repair :: "runtime \<Rightarrow> recovery_policy \<Rightarrow> pyval \<Rightarrow> string \<Rightarrow> iso_time option \<Rightarrow> proposal option" where
  "plan_repair R p ob category now =
    (let linked = flag ob ''repair_linked''; deployed = repair_deployed ob in
     if linked \<and> \<not> deployed \<and> dget ob ''repair_wait_state'' = VStr ''needs_action''
     then Some (repair_needs_action R category ''user'' ob)
     else if linked \<and> \<not> deployed \<and> flag ob ''repair_fresh_readiness_required'' \<and> allows p ''observe_readiness''
     then Some (ready_action p ob category ''observe_readiness'' ''fresh_authority_readiness_required'')
     else if linked \<and> \<not> deployed
     then Some (wait_for category (repair_wait_reason R ob) ''repair'' now (rp_backoff p))
     else if deployed \<and> \<not> flag ob ''readiness_ready'' then
       Some (if allows p ''observe_readiness''
         then ready_action p ob category ''observe_readiness'' ''fresh_readiness_required''
         else user_question category ''readiness_not_authorized'' True)
     else None)"

text \<open>A validation failure: recover the source once validated, validate under an allowed profile, or ask.\<close>

definition plan_validation :: "recovery_policy \<Rightarrow> pyval \<Rightarrow> string \<Rightarrow> proposal" where
  "plan_validation p ob category =
    (if flag ob ''validation_succeeded'' then
       (if allows p ''source_only_recovery''
        then ready_action p ob category ''source_only_recovery'' ''source_only_after_validation''
        else user_question category ''source_recovery_not_authorized'' True)
     else if code_in (trimmed (dget ob ''validation_profile'')) (rp_profiles p) \<and> allows p ''narrow_validation''
     then ready_action p ob category ''narrow_validation'' ''validation_authorized''
     else user_question category ''validation_authorization_required'' True)"

text \<open>What a successful readiness check makes possible.\<close>

definition plan_ready :: "recovery_policy \<Rightarrow> pyval \<Rightarrow> string \<Rightarrow> string \<Rightarrow> proposal option" where
  "plan_ready p ob category node =
    (if \<not> flag ob ''readiness_ready'' then None
     else if category = ''validation_failure'' \<and> node = ''blocked'' \<and> dget ob ''node_is_verifier'' = VBool False
        \<and> \<not> flag ob ''validation_succeeded'' \<and> allows p ''repair_source''
     then Some (ready_action p ob category ''repair_source'' ''blocked_source_repair_authorized'')
     else if category = ''validation_failure'' then
       Some (if \<not> flag ob ''implementation_ready'' then user_question category ''implementation_not_ready'' True
         else plan_validation p ob category)
     else if trimmed (dget ob ''phase'') = Some ''pre_execution''
        \<and> category \<in> {''dependency'', ''environment'', ''network'', ''tooling_bug''}
        \<and> (flag ob ''executor_not_started'' \<or> category = ''dependency'' \<and> flag ob ''only_missing_dependency'')
     then Some (if allows p ''resume_node'' then ready_action p ob category ''resume_node'' ''resume_after_readiness''
       else user_question category ''resume_not_authorized'' True)
     else if category \<in> {''dependency'', ''environment'', ''network''}
     then Some (user_question category ''readiness_already_satisfied'' True)
     else if repair_deployed ob \<and> category = ''tooling_bug'' then
       Some (if flag ob ''validation_succeeded'' \<and> allows p ''source_only_recovery''
         then ready_action p ob category ''source_only_recovery'' ''source_only_after_repair_validation''
         else if dget ob ''validation_profile'' \<in> VStr ` set (rp_profiles p) \<and> allows p ''narrow_validation''
         then ready_action p ob category ''narrow_validation'' ''repair_requires_parent_validation''
         else user_question category ''parent_validation_authorization_required'' True)
     else None)"

text \<open>The default of every category.\<close>

definition plan_category :: "recovery_policy \<Rightarrow> pyval \<Rightarrow> string \<Rightarrow> iso_time option \<Rightarrow> proposal" where
  "plan_category p ob category now =
    (if category \<in> {''dependency'', ''environment'', ''network''} then
       (let materialize = (category = ''dependency'' \<and> dget ob ''dependencies_ready'' = VBool False) in
        if materialize \<and> allows p ''materialize_dependencies''
        then ready_action p ob category ''materialize_dependencies'' ''dependency_materialization''
        else if allows p ''observe_readiness''
        then ready_action p ob category ''observe_readiness'' ''readiness_observation''
        else user_question category ''action_not_authorized'' True)
     else if category = ''validation_failure'' then
       (if \<not> flag ob ''implementation_ready'' then
          (if allows p ''observe_readiness''
           then ready_action p ob category ''observe_readiness'' ''implementation_readiness_required''
           else user_question category ''implementation_not_ready'' True)
        else plan_validation p ob category)
     else if category = ''tooling_bug'' then
       (if flag ob ''repair_requested'' then wait_for category ''repair_request_pending'' ''repair'' now (rp_backoff p)
        else if repair_configured p then ready_action p ob category ''request_repair'' ''repair_authorized''
        else user_question category ''repair_authorization_required'' True)
     else if category = ''capacity'' then wait_for category ''capacity_wait'' ''authority'' now (rp_backoff p)
     else user_question category ''unknown_evidence'' True)"

definition category_of :: "pyval \<Rightarrow> string" where
  "category_of ob = (case trimmed (dget ob ''category'') of
      Some c \<Rightarrow> if c \<in> set CATEGORIES then c else ''unknown'' | None \<Rightarrow> ''unknown'')"

definition or_else :: "'a option \<Rightarrow> 'a \<Rightarrow> 'a" where
  "or_else a b = (case a of None \<Rightarrow> b | Some x \<Rightarrow> x)"

definition plan_recovery :: "runtime \<Rightarrow> recovery_policy \<Rightarrow> pyval \<Rightarrow> proposal res" where
  "plan_recovery R p ob =
    (if \<not> is_dict ob then Inl (TypeError ''observation must be a mapping'')
     else let category = category_of ob; task = lowered (dget ob ''task_state''); node = lowered (dget ob ''node_state'');
              now = parse_now (dget ob ''now''); attempts = attempts_of ob; elapsed = elapsed_of ob
     in Inr (or_else (plan_fences p ob category task node)
       (or_else (plan_owner_repairs R p ob category attempts elapsed now)
       (or_else (plan_budget p ob category node attempts elapsed)
       (or_else (plan_repair R p ob category now)
       (or_else (plan_ready p ob category node)
         (plan_category p ob category now)))))))"

section \<open>Reading a policy back\<close>

lemma read_tuple_strs [simp]: "(\<forall>x \<in> set xs. \<not> blank x \<and> control_free x) \<Longrightarrow> distinct xs \<Longrightarrow> read_tuple name (strs xs) = Inr xs"
proof -
  assume ok: "\<forall>x \<in> set xs. \<not> blank x \<and> control_free x" and d: "distinct xs"
  have "mapR (require_text (name @ '' item'')) (map VStr xs) = Inr xs"
    using ok by (induction xs) (auto simp: require_text_def)
  then show ?thesis using d by (simp add: read_tuple_def strs_def)
qed

lemma read_tuple_Inr: "read_tuple name v = Inr xs \<Longrightarrow> distinct xs \<and> (\<forall>x \<in> set xs. \<not> blank x \<and> control_free x)"
proof -
  assume r: "read_tuple name v = Inr xs"
  have "\<forall>x \<in> set zs. \<not> blank x \<and> control_free x" if "mapR (require_text k) ys = Inr zs" for k ys zs
    using that by (induction ys arbitrary: zs) (auto simp: require_text_def split: pyval.splits if_splits sum.splits)
  then show ?thesis using r by (auto simp: read_tuple_def res_simps split: pyval.splits)
qed

lemma bounded_int_Inr [res_simps]: "bounded_int name lo hi v = Inr n \<longleftrightarrow> v = VInt n \<and> lo \<le> n \<and> n \<le> hi"
  by (auto simp: bounded_int_def split: pyval.splits)

lemma ALLOWED_texts: "x \<in> set ALLOWED_ACTIONS \<union> set VALIDATION_PROFILES \<Longrightarrow> \<not> blank x \<and> control_free x"
proof -
  have "list_all (\<lambda>x. \<not> blank x \<and> control_free x) (ALLOWED_ACTIONS @ VALIDATION_PROFILES)" by code_simp
  then show "x \<in> set ALLOWED_ACTIONS \<union> set VALIDATION_PROFILES \<Longrightarrow> \<not> blank x \<and> control_free x"
    by (auto simp: list_all_iff)
qed

lemma config_roundtrip: "cc_same_task c \<Longrightarrow> parse_continuation_authorization (VDict (config_document c)) = Inr (Some c)"
  by (simp add: parse_continuation_authorization_def config_document_def config_keys_def is_dict_def items_of_def
      flag_of_def dget_def dget_or_def)

lemma policy_fields: "is_dict (VDict (policy_document p))" "map_of (policy_document p) ''enabled'' = Some (VBool (rp_enabled p))"
  "map_of (policy_document p) ''allowed_actions'' = Some (strs (rp_actions p))"
  "map_of (policy_document p) ''validation_profiles'' = Some (strs (rp_profiles p))"
  "map_of (policy_document p) ''max_action_attempts'' = Some (VInt (rp_attempts p))"
  "map_of (policy_document p) ''time_budget_seconds'' = Some (VInt (rp_budget p))"
  "map_of (policy_document p) ''backoff_seconds'' = Some (VInt (rp_backoff p))"
  "map_of (policy_document p) ''max_backoff_seconds'' = Some (VInt (rp_max_backoff p))"
  "map_of (policy_document p) ''repair_repository'' = Some (opt_str (rp_repository p))"
  "map_of (policy_document p) ''repair_allowed_scopes'' = Some (strs (rp_scopes p))"
  "map_of (policy_document p) ''continuation_authorization'' = map_option (\<lambda>c. VDict (config_document c)) (rp_continuation p)"
  "set (map fst (policy_document p)) \<subseteq> set POLICY_FIELDS"
  by (auto simp: policy_document_def is_dict_def POLICY_FIELDS_def split: option.splits)

lemma policy_read:
  assumes ok: "policy_ok p"
  shows "policy_from_dict (VDict (policy_document p)) = Inr p"
proof -
  have texts: "\<forall>x \<in> set (rp_actions p). \<not> blank x \<and> control_free x" "\<forall>x \<in> set (rp_profiles p). \<not> blank x \<and> control_free x"
      "\<forall>x \<in> set (rp_scopes p). \<not> blank x \<and> control_free x" "distinct (rp_actions p)" "distinct (rp_profiles p)" "distinct (rp_scopes p)"
    using ok ALLOWED_texts unfolding policy_ok_def by blast+
  have repository: "policy_repository (opt_str (rp_repository p)) = Inr (rp_repository p)"
    using ok by (cases "rp_repository p") (simp_all add: policy_ok_def policy_repository_def opt_str_def require_text_def)
  have continuation: "parse_continuation_authorization (case map_option (\<lambda>c. VDict (config_document c)) (rp_continuation p) of
      None \<Rightarrow> VNone | Some x \<Rightarrow> x) = Inr (rp_continuation p)"
    using ok by (cases "rp_continuation p") (simp_all add: policy_ok_def config_roundtrip, simp add: parse_continuation_authorization_def)
  have rest: "set (rp_actions p) \<subseteq> set ALLOWED_ACTIONS" "set (rp_profiles p) \<subseteq> set VALIDATION_PROFILES"
      "1 \<le> rp_attempts p" "rp_attempts p \<le> 3" "1 \<le> rp_budget p" "rp_budget p \<le> 3600" "1 \<le> rp_backoff p" "rp_backoff p \<le> 300"
      "1 \<le> rp_max_backoff p" "rp_max_backoff p \<le> 3600" "\<not> rp_max_backoff p < rp_backoff p"
      "\<not> (''request_repair'' \<in> set (rp_actions p) \<and> (rp_repository p = None \<or> rp_scopes p = []))"
    using ok unfolding policy_ok_def by auto
  note get = dget_or_def dget_def items_of_def policy_fields option.case
  show ?thesis
    unfolding policy_from_dict_def get read_tuple_strs [OF texts(1,4)] read_tuple_strs [OF texts(2,5)] read_tuple_strs [OF texts(3,6)]
      pyval.case bindR_simps repository continuation
    using rest policy_fields(12) [of p] by (simp add: bounded_int_def policy_fields(1))
qed

lemma policy_parsed:
  assumes "policy_from_dict raw = Inr q"
  shows "policy_ok q"
proof -
  from assms obtain e a f s c n b k m r where
    a: "read_tuple ''allowed_actions'' (dget_or raw ''allowed_actions'' (strs [''observe_readiness''])) = Inr a"
      "set a \<subseteq> set ALLOWED_ACTIONS"
    and f: "read_tuple ''validation_profiles'' (dget_or raw ''validation_profiles'' (strs [])) = Inr f" "set f \<subseteq> set VALIDATION_PROFILES"
    and s: "read_tuple ''repair_allowed_scopes'' (dget_or raw ''repair_allowed_scopes'' (strs [])) = Inr s"
    and c: "parse_continuation_authorization (dget raw ''continuation_authorization'') = Inr c"
    and ints: "1 \<le> n" "n \<le> 3" "1 \<le> b" "b \<le> 3600" "1 \<le> k" "k \<le> 300" "m \<le> 3600" "\<not> m < k"
    and r: "policy_repository (dget raw ''repair_repository'') = Inr r"
      "\<not> (''request_repair'' \<in> set a \<and> (r = None \<or> s = []))"
    and q: "q = \<lparr>rp_enabled = e, rp_actions = a, rp_profiles = f, rp_attempts = n, rp_budget = b, rp_backoff = k,
       rp_max_backoff = m, rp_repository = r, rp_scopes = s, rp_continuation = c\<rparr>"
    unfolding policy_from_dict_def guard_Inr bindR_Inr bounded_int_Inr sum.inject by blast
  have "case r of None \<Rightarrow> True | Some x \<Rightarrow> \<not> blank x \<and> control_free x \<and> starts_with ''/'' x"
    using r(1) by (auto simp: policy_repository_def res_simps require_text_def split: pyval.splits if_splits)
  moreover have "case c of None \<Rightarrow> True | Some x \<Rightarrow> cc_same_task x"
    using c by (auto simp: parse_continuation_authorization_def res_simps split: if_splits)
  ultimately show ?thesis
    using a(2) f(2) ints r(2) read_tuple_Inr [OF a(1)] read_tuple_Inr [OF f(1)] read_tuple_Inr [OF s]
    unfolding q policy_ok_def by simp
qed

text \<open>
  Property C28. A policy survives its storage: the document a valid policy is written as is read back as
  that policy, and whatever the parser accepts is a valid policy.
\<close>

theorem policy_roundtrip:
  "(policy_ok p \<longrightarrow> policy_from_dict (VDict (policy_document p)) = Inr p)
   \<and> (policy_from_dict raw = Inr q \<longrightarrow> policy_ok q)"
  using policy_read policy_parsed by blast

theorem policy_roundtrip_witness:
  "policy_from_dict (VDict (policy_document default_policy)) = Inr default_policy \<and> policy_ok default_policy"
proof -
  have ok: "policy_ok default_policy" by code_simp
  show ?thesis using policy_roundtrip [of default_policy VNone default_policy] ok by simp
qed

section \<open>What a plan may propose\<close>

text \<open>A proposal is for an action exactly when it is ready, and then the policy allows the action.\<close>

definition keeps :: "recovery_policy \<Rightarrow> proposal \<Rightarrow> bool" where
  "keeps p r \<longleftrightarrow> (case pr_action r of None \<Rightarrow> pr_state r \<noteq> EReady
     | Some a \<Rightarrow> pr_state r = EReady \<and> allows p a \<and> \<not> pr_authorization r \<and> pr_wakeup r = None)"

lemma within_proposal [simp]: "keeps p (proposal_of c a st r w u k) \<longleftrightarrow> (case a of None \<Rightarrow> st \<noteq> EReady
     | Some a \<Rightarrow> st = EReady \<and> allows p a \<and> \<not> u \<and> k = None)"
  by (cases a) (simp_all add: keeps_def proposal_of_def)

lemma within_ready [simp]: "allows p a \<Longrightarrow> keeps p (ready_action p ob c a r)"
  by (simp add: ready_action_def Let_def split: option.split)

lemma within_others [simp]: "keeps p (user_question c r u)" "keeps p (wait_for c r w now n)" "keeps p (repair_needs_action R c w ob)"
  by (simp_all add: user_question_def wait_for_def repair_needs_action_def)

definition keeps_opt :: "recovery_policy \<Rightarrow> proposal option \<Rightarrow> bool" where
  "keeps_opt p v \<longleftrightarrow> (case v of None \<Rightarrow> True | Some r \<Rightarrow> keeps p r)"

lemma keeps_intros:
  "keeps_opt p None" "keeps p r \<Longrightarrow> keeps_opt p (Some r)"
  "(b \<Longrightarrow> keeps_opt p v) \<Longrightarrow> (\<not> b \<Longrightarrow> keeps_opt p w) \<Longrightarrow> keeps_opt p (if b then v else w)"
  "(b \<Longrightarrow> keeps p r) \<Longrightarrow> (\<not> b \<Longrightarrow> keeps p r') \<Longrightarrow> keeps p (if b then r else r')"
  by (simp_all add: keeps_opt_def)

lemma keeps_optD: "keeps_opt p v \<Longrightarrow> v = Some r \<Longrightarrow> keeps p r"
  by (simp add: keeps_opt_def)

lemma keeps_validation: "keeps p (plan_validation p ob c)"
  unfolding plan_validation_def by (intro keeps_intros) simp_all

lemma keeps_fences: "keeps_opt p (plan_fences p ob c t n)"
  unfolding plan_fences_def by (intro keeps_intros) (simp_all only: within_proposal within_others option.case recovery_state.distinct not_False_eq_True)

lemma keeps_owner: "keeps_opt p (plan_owner_repairs R p ob c k e now)"
  unfolding plan_owner_repairs_def Let_def repair_configured_def
  by (intro keeps_intros; (elim conjE)?; simp only: within_ready within_proposal within_others option.case recovery_state.distinct not_False_eq_True)

lemma keeps_budget: "keeps_opt p (plan_budget p ob c n k e)"
  unfolding plan_budget_def repair_configured_def
  by (intro keeps_intros; (elim conjE)?; simp only: within_ready within_proposal within_others option.case recovery_state.distinct not_False_eq_True)

lemma keeps_repair: "keeps_opt p (plan_repair R p ob c now)"
  unfolding plan_repair_def Let_def
  by (intro keeps_intros; (elim conjE)?; simp only: within_ready within_proposal within_others option.case recovery_state.distinct not_False_eq_True)

lemma keeps_ready: "keeps_opt p (plan_ready p ob c n)"
  unfolding plan_ready_def
  by (intro keeps_intros keeps_validation; (elim conjE)?; simp only: within_ready within_proposal within_others option.case recovery_state.distinct not_False_eq_True)

lemma keeps_category: "keeps p (plan_category p ob c now)"
  unfolding plan_category_def Let_def repair_configured_def
  by (intro keeps_intros keeps_validation; (elim conjE)?; simp only: within_ready within_proposal within_others option.case recovery_state.distinct not_False_eq_True)

lemma no_action [simp]: "pr_action (proposal_of c a st r w u k) = a" "pr_action (user_question c r u) = None"
  "pr_action (wait_for c r w now n) = None" "pr_action (repair_needs_action R c w ob) = None"
  by (simp_all add: proposal_of_def user_question_def wait_for_def repair_needs_action_def)

lemma if_SomeE: "(if b then v else w) = Some r \<Longrightarrow> (b \<Longrightarrow> v = Some r \<Longrightarrow> Q) \<Longrightarrow> (\<not> b \<Longrightarrow> w = Some r \<Longrightarrow> Q) \<Longrightarrow> Q"
  by (cases b) simp_all

lemma fences_stop: "plan_fences p ob c t n = Some r \<Longrightarrow> pr_action r = None"
  unfolding plan_fences_def by (elim if_SomeE) (simp_all only: option.inject option.distinct, (hypsubst, simp only: no_action)+)

lemma plan_cases:
  assumes "plan_recovery R p ob = Inr r"
  obtains (fenced) "plan_fences p ob (category_of ob) (lowered (dget ob ''task_state'')) (lowered (dget ob ''node_state'')) = Some r"
    | (owner) "plan_fences p ob (category_of ob) (lowered (dget ob ''task_state'')) (lowered (dget ob ''node_state'')) = None"
        "plan_owner_repairs R p ob (category_of ob) (attempts_of ob) (elapsed_of ob) (parse_now (dget ob ''now'')) = Some r"
    | (budget) "plan_fences p ob (category_of ob) (lowered (dget ob ''task_state'')) (lowered (dget ob ''node_state'')) = None"
        "plan_budget p ob (category_of ob) (lowered (dget ob ''node_state'')) (attempts_of ob) (elapsed_of ob) = Some r"
    | (later) "plan_fences p ob (category_of ob) (lowered (dget ob ''task_state'')) (lowered (dget ob ''node_state'')) = None"
        "plan_budget p ob (category_of ob) (lowered (dget ob ''node_state'')) (attempts_of ob) (elapsed_of ob) = None" "keeps p r"
proof -
  let ?c = "category_of ob" and ?n = "lowered (dget ob ''node_state'')" and ?now = "parse_now (dget ob ''now'')"
  let ?F = "plan_fences p ob ?c (lowered (dget ob ''task_state'')) ?n"
    and ?O = "plan_owner_repairs R p ob ?c (attempts_of ob) (elapsed_of ob) ?now"
    and ?B = "plan_budget p ob ?c ?n (attempts_of ob) (elapsed_of ob)"
    and ?L = "or_else (plan_repair R p ob ?c ?now) (or_else (plan_ready p ob ?c ?n) (plan_category p ob ?c ?now))"
  have r: "r = or_else ?F (or_else ?O (or_else ?B ?L))"
    using assms unfolding plan_recovery_def Let_def guard_Inr sum.inject by (elim conjE) (rule sym)
  have late: "keeps p ?L"
    using keeps_optD [OF keeps_repair] keeps_optD [OF keeps_ready] keeps_category unfolding or_else_def by (simp split: option.split)
  show thesis
  proof (cases ?F)
    case (Some x)
    with r fenced show thesis by (simp only: or_else_def option.case)
  next
    case F: None
    show thesis
    proof (cases ?O)
      case (Some x)
      with r F owner show thesis by (simp only: or_else_def option.case)
    next
      case O: None
      show thesis
      proof (cases ?B)
        case (Some x)
        with r F O budget show thesis by (simp only: or_else_def option.case)
      next
        case None
        with r F O late later show thesis by (simp only: or_else_def option.case)
      qed
    qed
  qed
qed

lemma fences_passed:
  assumes "plan_fences p ob c t n = None"
  shows "rp_enabled p \<and> t \<notin> {''paused'', ''pause'', ''cancelled'', ''canceled'', ''accepted'', ''indeterminate'', ''unknown_effects''}
    \<and> n \<notin> {''paused'', ''cancelled'', ''canceled'', ''indeterminate'', ''accepted'', ''succeeded'', ''completed''}
    \<and> \<not> flag ob ''approval_denied'' \<and> \<not> flag ob ''approval_pending'' \<and> c \<notin> {''auth'', ''unknown_effects''}"
  using assms unfolding plan_fences_def by (auto split: if_splits)

text \<open>
  Property C26. A plan never oversteps the policy: it proposes an action only when it says it is ready, the
  action is one the operator allowed, and no fence stands in the way. No action is proposed for a disabled
  policy, a paused, cancelled or accepted task or node, a pending or denied approval, an authentication
  failure or unknown effects.
\<close>

theorem plan_within_policy:
  assumes plan: "plan_recovery R p ob = Inr r"
  shows "(pr_state r = EReady \<longleftrightarrow> pr_action r \<noteq> None)
    \<and> (\<forall>a. pr_action r = Some a \<longrightarrow> rp_enabled p \<and> a \<in> set (rp_actions p)
        \<and> lowered (dget ob ''task_state'') \<notin> {''paused'', ''pause'', ''cancelled'', ''canceled'', ''accepted'', ''indeterminate'', ''unknown_effects''}
        \<and> lowered (dget ob ''node_state'') \<notin> {''paused'', ''cancelled'', ''canceled'', ''indeterminate'', ''accepted'', ''succeeded'', ''completed''}
        \<and> \<not> flag ob ''approval_denied'' \<and> \<not> flag ob ''approval_pending''
        \<and> category_of ob \<notin> {''auth'', ''unknown_effects''})"
proof -
  from plan have in_policy: "keeps p r"
    by (cases rule: plan_cases) (blast intro: keeps_optD keeps_fences keeps_owner keeps_budget)+
  moreover have "plan_fences p ob (category_of ob) (lowered (dget ob ''task_state'')) (lowered (dget ob ''node_state'')) = None"
    if "pr_action r = Some a" for a
    using plan
  proof (cases rule: plan_cases)
    case fenced
    then show ?thesis using that fences_stop by fastforce
  qed
  ultimately show ?thesis
    using fences_passed by (auto simp: keeps_def allows_def split: option.splits)
qed

definition demo_runtime :: runtime where
  "demo_runtime = \<lparr>rt_sha = demo_sha, rt_text_sha = (\<lambda>_. replicate 64 CHR ''0''), rt_float = (\<lambda>_. 3), rt_repr = (\<lambda>_. [])\<rparr>"

definition demo_policy :: recovery_policy where
  "demo_policy = default_policy\<lparr>rp_enabled := True\<rparr>"

definition demo_observation :: pyval where
  "demo_observation = VDict [(''category'', VStr ''network''), (''task_state'', VStr ''blocked''), (''node_state'', VStr ''blocked'')]"

definition demo_proposal :: proposal where
  "demo_proposal = proposal_of ''network'' (Some ''observe_readiness'') EReady ''readiness_observation'' ''authority'' False None"

lemma demo_plan: "plan_recovery demo_runtime demo_policy demo_observation = Inr demo_proposal"
  by code_simp

theorem plan_within_policy_witness: "rp_enabled demo_policy \<and> ''observe_readiness'' \<in> set (rp_actions demo_policy)"
  using plan_within_policy [OF demo_plan] by (simp add: demo_proposal_def proposal_of_def)























text \<open>The evidence a category rests on.\<close>

definition explained :: "pyval \<Rightarrow> string \<Rightarrow> bool" where
  "explained ob c \<longleftrightarrow> c \<in> set CATEGORIES \<and> (c \<noteq> ''unknown'' \<longrightarrow>
       source_kind ob = Some ''authority_readiness''
         \<and> (c = ''dependency'' \<and> (code_in (trimmed (dget ob ''code'')) READINESS_DEPENDENCY_CODES
                \<or> trimmed (dget ob ''check_id'') = Some ''pnpm:linker'')
            \<or> c = ''environment'' \<and> code_in (trimmed (dget ob ''code'')) READINESS_ENVIRONMENT_CODES)
     \<or> explicit_origin_category (trimmed (dget ob ''origin'')) = Some c
         \<and> code_in (source_kind ob) [''authority_readiness'', ''authority_validation'', ''direct_attribution'']
     \<or> explicit_origin_category (trimmed (dget ob ''origin'')) = None \<and> source_kind ob = Some ''authority_validation''
         \<and> (c = ''network'' \<and> code_in (trimmed (dget ob ''code'')) NETWORK_CODES
            \<or> c = ''auth'' \<and> code_in (trimmed (dget ob ''code'')) AUTH_CODES
            \<or> c = ''validation_failure'' \<and> code_in (trimmed (dget ob ''code'')) VALIDATION_CODES
            \<or> c = ''tooling_bug'' \<and> code_in (trimmed (dget ob ''code'')) TOOLING_CODES
            \<or> c = ''dependency'' \<and> code_in (trimmed (dget ob ''code'')) READINESS_DEPENDENCY_CODES))"

lemma explained_if: "(b \<Longrightarrow> explained ob c) \<Longrightarrow> (\<not> b \<Longrightarrow> explained ob d) \<Longrightarrow> explained ob (if b then c else d)"
  by simp

lemma explained_unknown: "explained ob ''unknown''"
  by (simp add: explained_def CATEGORIES_def)

lemma explained_readiness:
  "source_kind ob = Some ''authority_readiness'' \<Longrightarrow> code_in (trimmed (dget ob ''code'')) READINESS_DEPENDENCY_CODES
     \<or> code_in (trimmed (dget ob ''check_id'')) [''pnpm:linker''] \<Longrightarrow> explained ob ''dependency''"
  "source_kind ob = Some ''authority_readiness'' \<Longrightarrow> code_in (trimmed (dget ob ''code'')) READINESS_ENVIRONMENT_CODES
     \<Longrightarrow> explained ob ''environment''"
  by (auto simp: explained_def CATEGORIES_def code_in_def split: option.splits)

lemma explained_origin:
  assumes "code_in (source_kind ob) [''direct_attribution'', ''authority_readiness'', ''authority_validation'']"
    and "explicit_origin_category (trimmed (dget ob ''origin'')) = Some c"
  shows "explained ob c"
proof -
  have "set (map snd ORIGIN_CATEGORIES) \<subseteq> set CATEGORIES" by code_simp
  then have "c \<in> set CATEGORIES"
    using assms(2) by (force simp: explicit_origin_category_def bind_eq_Some_conv dest: map_of_SomeD)
  moreover have "code_in (source_kind ob) [''authority_readiness'', ''authority_validation'', ''direct_attribution'']"
    using assms(1) by (auto simp: code_in_def split: option.splits)
  ultimately show ?thesis using assms(2) unfolding explained_def by blast
qed

lemma explained_validation:
  assumes "explicit_origin_category (trimmed (dget ob ''origin'')) = None" and "source_kind ob = Some ''authority_validation''"
  shows "code_in (trimmed (dget ob ''code'')) NETWORK_CODES \<Longrightarrow> explained ob ''network''"
    "code_in (trimmed (dget ob ''code'')) AUTH_CODES \<Longrightarrow> explained ob ''auth''"
    "code_in (trimmed (dget ob ''code'')) VALIDATION_CODES \<Longrightarrow> explained ob ''validation_failure''"
    "code_in (trimmed (dget ob ''code'')) TOOLING_CODES \<Longrightarrow> explained ob ''tooling_bug''"
    "code_in (trimmed (dget ob ''code'')) READINESS_DEPENDENCY_CODES \<Longrightarrow> explained ob ''dependency''"
  using assms by (simp_all add: explained_def CATEGORIES_def)

lemma classify_explained: "explained ob (classify_failure ob)"
proof (cases "is_dict ob \<and> source_kind ob \<noteq> None \<and> source_kind ob \<noteq> Some ''unknown''")
  case False
  then show ?thesis using explained_unknown by (auto simp: classify_failure_def Let_def)
next
  case True
  show ?thesis
  proof (cases "explicit_origin_category (trimmed (dget ob ''origin''))")
    case (Some c)
    show ?thesis unfolding classify_failure_def Let_def Some option.case
      by (intro explained_if explained_unknown; (elim conjE)?;
          (rule explained_readiness explained_origin [OF _ Some]; assumption)?)
  next
    case None
    show ?thesis unfolding classify_failure_def Let_def None option.case not_not
      by (intro explained_if explained_unknown; (elim conjE)?;
          (rule explained_readiness explained_validation [OF None]; (assumption | (erule notnotD)))?)
  qed
qed

text \<open>
  Property C29. A failure is classified into a known category, from explicit evidence alone: a summary
  never matters, and without a named source the category is unknown. Any other category comes from
  one of three places. A readiness check of the authority gives dependency or environment by its code (or
  the pnpm linker check). Else an explicit origin gives the category it names, when the source is the
  authority's readiness or validation or a direct attribution. Else, for a failure without a known
  origin, a validation of the authority gives the category its code belongs to: network, auth,
  validation failure, tooling bug or dependency.
\<close>

theorem classified_explicitly:
  "classify_failure ob \<in> set CATEGORIES
   \<and> (let c = classify_failure ob; source = source_kind ob; code = trimmed (dget ob ''code'');
          origin = explicit_origin_category (trimmed (dget ob ''origin'')) in
      c \<noteq> ''unknown'' \<longrightarrow>
        (source = Some ''authority_readiness''
          \<and> (c = ''dependency'' \<and> (code_in code READINESS_DEPENDENCY_CODES
                 \<or> trimmed (dget ob ''check_id'') = Some ''pnpm:linker'')
             \<or> c = ''environment'' \<and> code_in code READINESS_ENVIRONMENT_CODES))
      \<or> (origin = Some c \<and> code_in source [''authority_readiness'', ''authority_validation'', ''direct_attribution''])
      \<or> (origin = None \<and> source = Some ''authority_validation''
          \<and> (c = ''network'' \<and> code_in code NETWORK_CODES \<or> c = ''auth'' \<and> code_in code AUTH_CODES
             \<or> c = ''validation_failure'' \<and> code_in code VALIDATION_CODES
             \<or> c = ''tooling_bug'' \<and> code_in code TOOLING_CODES
             \<or> c = ''dependency'' \<and> code_in code READINESS_DEPENDENCY_CODES)))"
  using classify_explained [of ob] unfolding explained_def Let_def by blast

theorem classified_explicitly_witness:
  "code_in (trimmed (dget (VDict [(''source'', VStr ''authority_validation''), (''code'', VStr ''transport'')]) ''code'')) NETWORK_CODES"
proof -
  have "classify_failure (VDict [(''source'', VStr ''authority_validation''), (''code'', VStr ''transport'')]) = ''network''"
    "source_kind (VDict [(''source'', VStr ''authority_validation''), (''code'', VStr ''transport'')]) = Some ''authority_validation''"
    "explicit_origin_category (trimmed (dget (VDict [(''source'', VStr ''authority_validation''), (''code'', VStr ''transport'')]) ''origin'')) = None"
    by code_simp+
  then show ?thesis
    using classified_explicitly [of "VDict [(''source'', VStr ''authority_validation''), (''code'', VStr ''transport'')]"]
    by (simp add: Let_def)
qed

end
