(* ===== verification/Continuation.thy ===== *)
theory Continuation
  imports Recovery_Policy
begin

text \<open>
  The opt-in that lets a blocked node continue without asking again: \<open>continuation_authorization.py\<close>.
  When a policy is configured the authority captures what it was granted for (task, scope, permissions,
  the policy's own limits); an action is authorised only while all of that still holds. Facts and captures
  are documents, as the code keeps them.
\<close>

section \<open>Validators\<close>

definition cont_text :: "string \<Rightarrow> pyval \<Rightarrow> string res" where
  "cont_text label v = (case v of
      VStr s \<Rightarrow> if s = [] \<or> strip s \<noteq> s \<or> CHR 0x00 \<in> set s then Inl (ValueError (label @ '' is invalid'')) else Inr s
    | _ \<Rightarrow> Inl (ValueError (label @ '' is invalid'')))"

definition is_hex :: "char \<Rightarrow> bool" where
  "is_hex c \<longleftrightarrow> c \<in> set ''0123456789abcdef''"

definition cont_digest :: "string \<Rightarrow> pyval \<Rightarrow> string res" where
  "cont_digest label v = bindR (cont_text label v) (\<lambda>s.
     if length s \<noteq> 64 \<or> \<not> list_all is_hex s then Inl (ValueError (label @ '' must be a SHA-256 digest'')) else Inr s)"

definition cont_integer :: "string \<Rightarrow> int \<Rightarrow> pyval \<Rightarrow> int res" where
  "cont_integer label least v = (case v of
      VInt n \<Rightarrow> if n < least then Inl (ValueError (label @ '' is invalid'')) else Inr n
    | _ \<Rightarrow> Inl (ValueError (label @ '' is invalid'')))"

definition cont_strings :: "string \<Rightarrow> pyval \<Rightarrow> string list res" where
  "cont_strings label v = (case v of
      VList xs \<Rightarrow> bindR (mapR (cont_text label) xs) (\<lambda>values.
        if \<not> distinct values then Inl (ValueError (label @ '' must not contain duplicates'')) else Inr values)
    | _ \<Rightarrow> Inl (ValueError (label @ '' must be an array'')))"

definition keys_are :: "string list \<Rightarrow> pyval \<Rightarrow> bool" where
  "keys_are ks v \<longleftrightarrow> is_dict v \<and> set (map fst (items_of v)) = set ks"

definition cont_attempts :: "string \<Rightarrow> pyval \<Rightarrow> items res" where
  "cont_attempts label v = (if \<not> is_dict v \<or> items_of v = [] then Inl (ValueError (label @ '' is invalid''))
     else mapR (\<lambda>(k, x). bindR (cont_text label (VStr k)) (\<lambda>key.
       bindR (cont_integer label 0 x) (\<lambda>n. Inr (key, VInt n)))) (items_of v))"

definition permission_keys :: "string list" where
  "permission_keys = [''destructive_action_permission'', ''external_write_permission'']"

definition cont_permissions :: "string \<Rightarrow> pyval \<Rightarrow> pyval res" where
  "cont_permissions label v = (if \<not> keys_are permission_keys v then Inl (ValueError (label @ '' is invalid''))
     else bindR (mapR (\<lambda>k. case dget v k of VBool b \<Rightarrow> Inr (k, VBool b)
        | _ \<Rightarrow> Inl (ValueError (label @ ''.'' @ k @ '' must be a boolean''))) permission_keys) (\<lambda>kvs. Inr (VDict kvs)))"

definition no_permissions :: pyval where
  "no_permissions = VDict [(''destructive_action_permission'', VBool False), (''external_write_permission'', VBool False)]"

definition cont_repository :: "string \<Rightarrow> pyval \<Rightarrow> string res" where
  "cont_repository label v = bindR (cont_text label v) (\<lambda>path.
     if \<not> starts_with ''/'' path then Inl (ValueError (label @ '' must be absolute'')) else Inr path)"

definition policy_scope_keys :: "string list" where
  "policy_scope_keys = [''allowed_actions'', ''validation_profiles'', ''repair_repository'', ''repair_allowed_scopes'']"

text \<open>Both branches of the code read the same four keys.\<close>

definition policy_scope :: "pyval \<Rightarrow> pyval res" where
  "policy_scope v = (if \<not> is_dict v then Inl (ValueError ''continuation policy scope is invalid'')
     else bindR (if dget v ''repair_repository'' = VNone then Inr None
         else bindR (cont_repository ''continuation repair_repository'' (dget v ''repair_repository'')) (\<lambda>r. Inr (Some r))) (\<lambda>r.
       bindR (cont_strings ''continuation allowed_actions'' (dget v ''allowed_actions'')) (\<lambda>a.
       bindR (cont_strings ''continuation validation_profiles'' (dget v ''validation_profiles'')) (\<lambda>f.
       bindR (cont_strings ''continuation repair_allowed_scopes'' (dget v ''repair_allowed_scopes'')) (\<lambda>s.
         Inr (VDict [(''allowed_actions'', strs a), (''validation_profiles'', strs f),
           (''repair_repository'', opt_str r), (''repair_allowed_scopes'', strs s)]))))))"

definition node_scope :: "string list \<Rightarrow> string list \<Rightarrow> pyval" where
  "node_scope rs ws = VDict [(''read_scopes'', strs rs), (''write_scopes'', strs ws)]"

definition scope_document :: "string \<Rightarrow> string list \<Rightarrow> string list \<Rightarrow> items \<Rightarrow> pyval" where
  "scope_document repository a f ns = VDict [(''repository'', VStr repository), (''allowed_scope'', strs a),
     (''forbidden_scope'', strs f), (''node_scopes'', VDict ns)]"

definition captured_node_scope :: "string \<Rightarrow> string \<times> pyval \<Rightarrow> (string \<times> pyval) res" where
  "captured_node_scope label kv = (case kv of (k, v) \<Rightarrow> bindR (cont_text (label @ ''.node_scopes key'') (VStr k)) (\<lambda>key.
     if \<not> keys_are [''read_scopes'', ''write_scopes''] v then Inl (ValueError (label @ ''.node_scopes is invalid''))
     else bindR (cont_strings (label @ ''.read_scopes'') (dget v ''read_scopes'')) (\<lambda>rs.
       bindR (cont_strings (label @ ''.write_scopes'') (dget v ''write_scopes'')) (\<lambda>ws. Inr (key, node_scope rs ws)))))"

definition cont_scope :: "string \<Rightarrow> pyval \<Rightarrow> pyval res" where
  "cont_scope label v =
    (if \<not> keys_are [''repository'', ''allowed_scope'', ''forbidden_scope'', ''node_scopes''] v
     then Inl (ValueError (label @ '' is invalid''))
     else bindR (cont_repository (label @ ''.repository'') (dget v ''repository'')) (\<lambda>repository.
       let ns = dget v ''node_scopes'' in
       if \<not> is_dict ns \<or> items_of ns = [] then Inl (ValueError (label @ ''.node_scopes is invalid''))
       else bindR (mapR (captured_node_scope label) (items_of ns)) (\<lambda>nodes.
       bindR (cont_strings (label @ ''.allowed_scope'') (dget v ''allowed_scope'')) (\<lambda>a.
       bindR (cont_strings (label @ ''.forbidden_scope'') (dget v ''forbidden_scope'')) (\<lambda>f.
         Inr (scope_document repository a f nodes))))))"

section \<open>The facts of a task\<close>

record continuation_facts =
  tf_task :: string
  tf_revision :: int
  tf_hash :: string
  tf_state :: string
  tf_objective :: string
  tf_scope :: pyval
  tf_permissions :: pyval
  tf_attempts :: items
  tf_states :: "(string \<times> string) list"

text \<open>One node: its id, attempt, scopes and state; ids are unique.\<close>

definition node_fact :: "pyval \<Rightarrow> (string \<times> int \<times> pyval \<times> string) res" where
  "node_fact raw = (if \<not> is_dict raw then Inl (ValueError ''continuation node record is invalid'')
     else bindR (cont_text ''continuation node_id'' (dget raw ''node_id'')) (\<lambda>k.
       bindR (cont_integer ''continuation node attempt'' 0 (dget raw ''attempt'')) (\<lambda>n.
       bindR (cont_text ''continuation node state'' (dget raw ''state'')) (\<lambda>st.
       let spec = dget raw ''spec''; source = (if is_dict spec then spec else raw) in
       bindR (cont_strings ''continuation node read_scopes'' (dget_or source ''read_scopes'' (VList []))) (\<lambda>rs.
       bindR (cont_strings ''continuation node write_scopes'' (dget_or source ''write_scopes'' (VList []))) (\<lambda>ws.
         Inr (k, n, node_scope rs ws, lower st)))))))"

fun node_facts :: "string list \<Rightarrow> pyval list \<Rightarrow> (string \<times> int \<times> pyval \<times> string) list res" where
  "node_facts seen [] = Inr []"
| "node_facts seen (raw # raws) = bindR (node_fact raw) (\<lambda>x.
     if fst x \<in> set seen then Inl (ValueError ''continuation node ids must be unique'')
     else bindR (node_facts (fst x # seen) raws) (\<lambda>xs. Inr (x # xs)))"

definition task_facts :: "runtime \<Rightarrow> pyval \<Rightarrow> continuation_facts res" where
  "task_facts R task =
    (if \<not> is_dict task then Inl (ValueError ''continuation task snapshot is invalid'')
     else bindR (cont_text ''continuation task_id'' (dget task ''task_id'')) (\<lambda>k.
     bindR (cont_integer ''continuation task revision'' 0 (dget task ''state_revision'')) (\<lambda>revision.
     bindR (cont_digest ''continuation contract hash'' (dget task ''contract_hash'')) (\<lambda>hash.
     bindR (cont_text ''continuation task state'' (dget task ''state'')) (\<lambda>st.
     let contract = dget task ''contract'' in
     if \<not> is_dict contract then Inl (ValueError ''continuation task contract is invalid'')
     else bindR (cont_text ''continuation task objective'' (dget contract ''objective'')) (\<lambda>objective.
     bindR (cont_repository ''continuation repository'' (dget contract ''repository'')) (\<lambda>repository.
     bindR (cont_strings ''continuation allowed_scope'' (dget contract ''allowed_scope'')) (\<lambda>a.
     bindR (cont_strings ''continuation forbidden_scope'' (dget contract ''forbidden_scope'')) (\<lambda>f.
     bindR (cont_permissions ''continuation task permissions''
       (VDict (map (\<lambda>p. (p, dget contract p)) permission_keys))) (\<lambda>permissions.
     case dget task ''nodes'' of VList raws \<Rightarrow> bindR (node_facts [] raws) (\<lambda>ns.
       if ns = [] then Inl (ValueError ''continuation task has no nodes'')
       else Inr \<lparr>tf_task = k, tf_revision = revision, tf_hash = hash, tf_state = lower st,
         tf_objective = rt_text_sha R objective,
         tf_scope = scope_document repository a f (map (\<lambda>(k, _, scope, _). (k, scope)) ns),
         tf_permissions = permissions, tf_attempts = map (\<lambda>(k, n, _, _). (k, VInt n)) ns,
         tf_states = map (\<lambda>(k, _, _, st). (k, st)) ns\<rparr>)
     | _ \<Rightarrow> Inl (ValueError ''continuation task nodes are invalid'')))))))))))"

section \<open>Captures\<close>

definition SAFE_ACTIONS :: "string list" where
  "SAFE_ACTIONS = [''narrow_validation'', ''source_only_recovery'']"

definition risk_boundary :: pyval where
  "risk_boundary = VDict [(''allowed_actions'', strs SAFE_ACTIONS), (''risk_level'', VStr ''low''),
     (''reversible'', VBool True), (''severe_adverse_side_effects'', VStr ''forbidden''),
     (''external_effects'', VStr ''forbidden''), (''destructive_effects'', VStr ''forbidden''),
     (''risk_source'', VStr ''authority_task_node_and_native_preview'')]"

definition rollback_conditions :: "string list" where
  "rollback_conditions = [''fresh_native_preview'', ''known_effects_or_reconcile_only'',
     ''unchanged_scope_and_permission_boundary'', ''no_external_or_destructive_permission'']"

definition capture_document :: "int \<Rightarrow> string \<Rightarrow> string \<Rightarrow> int \<Rightarrow> items \<Rightarrow> pyval \<Rightarrow> pyval \<Rightarrow> pyval \<Rightarrow> items" where
  "capture_document revision task objective task_revision attempts scope permissions limits =
    [(''version'', VInt 1), (''policy_revision'', VInt revision),
     (''goal'', VDict [(''task_id'', VStr task), (''objective_sha256'', VStr objective)]),
     (''captured_task_revision'', VInt task_revision), (''captured_nodes'', VDict attempts), (''scope'', scope),
     (''permissions'', permissions), (''policy_scope'', limits), (''risk_boundary'', risk_boundary),
     (''rollback_conditions'', strs rollback_conditions)]"

definition CAPTURE_KEYS :: "string list" where
  "CAPTURE_KEYS = [''version'', ''policy_revision'', ''goal'', ''captured_task_revision'', ''captured_nodes'', ''scope'',
     ''permissions'', ''policy_scope'', ''risk_boundary'', ''rollback_conditions'']"

definition capture_authorization :: "runtime \<Rightarrow> pyval \<Rightarrow> int \<Rightarrow> pyval \<Rightarrow> items option res" where
  "capture_authorization R policy revision task =
    bindR (parse_continuation_authorization (dget policy ''continuation_authorization'')) (\<lambda>config.
    if config = None then Inr None
    else if revision < 1 then Inl (ValueError ''continuation policy revision is invalid'')
    else bindR (task_facts R task) (\<lambda>facts.
      if \<not> py_eq (tf_permissions facts) no_permissions
      then Inl (ValueError ''continuation authorization requires no external or destructive permissions'')
      else bindR (policy_scope policy) (\<lambda>limits. Inr (Some (capture_document revision (tf_task facts) (tf_objective facts)
        (tf_revision facts) (tf_attempts facts) (tf_scope facts) (tf_permissions facts) limits)))))"

definition validate_capture :: "pyval \<Rightarrow> items res" where
  "validate_capture raw =
    (if \<not> keys_are CAPTURE_KEYS raw
     then Inl (ValueError ''continuation authorization capture has unsupported fields'')
     else if \<not> py_eq (dget raw ''version'') (VInt 1)
     then Inl (ValueError ''continuation authorization capture version is invalid'')
     else bindR (cont_integer ''continuation authorization capture revision'' 1 (dget raw ''policy_revision'')) (\<lambda>revision.
     bindR (cont_integer ''continuation authorization capture revision'' 0 (dget raw ''captured_task_revision'')) (\<lambda>task_revision.
     let goal = dget raw ''goal'' in
     if \<not> keys_are [''task_id'', ''objective_sha256''] goal then Inl (ValueError ''continuation authorization goal is invalid'')
     else bindR (cont_text ''continuation authorization goal task_id'' (dget goal ''task_id'')) (\<lambda>task.
     bindR (cont_digest ''continuation authorization objective'' (dget goal ''objective_sha256'')) (\<lambda>objective.
     bindR (cont_attempts ''continuation authorization captured_nodes'' (dget raw ''captured_nodes'')) (\<lambda>attempts.
     bindR (cont_scope ''continuation authorization scope'' (dget raw ''scope'')) (\<lambda>scope.
     bindR (cont_permissions ''continuation authorization permissions'' (dget raw ''permissions'')) (\<lambda>permissions.
     bindR (policy_scope (dget raw ''policy_scope'')) (\<lambda>limits.
     if \<not> is_dict (dget raw ''risk_boundary'') \<or> \<not> py_eq (dget raw ''risk_boundary'') risk_boundary
     then Inl (ValueError ''continuation authorization risk boundary is invalid'')
     else if \<not> py_eq (dget raw ''rollback_conditions'') (strs rollback_conditions)
     then Inl (ValueError ''continuation authorization rollback conditions are invalid'')
     else if \<not> py_eq permissions no_permissions
     then Inl (ValueError ''continuation authorization permission boundary is unsafe'')
     else Inr (capture_document revision task objective task_revision attempts scope permissions limits))))))))))"

text \<open>
  The stored policy carries the capture inside its authorization. \<open>dict_set\<close> replaces a key in place,
  as \<open>public[...] = ...\<close> does.
\<close>

definition split_stored_policy :: "pyval \<Rightarrow> (pyval \<times> continuation_config option \<times> items option) res" where
  "split_stored_policy document =
    (if \<not> is_dict document then Inl (ValueError ''stored recovery policy must be an object'')
     else let raw = dget document ''continuation_authorization'' in
     if raw = VNone then Inr (document, None, None)
     else if \<not> is_dict raw then Inl (ValueError ''stored continuation_authorization must be an object'')
     else bindR (parse_continuation_authorization (VDict (filter (\<lambda>kv. fst kv \<noteq> ''capture'') (items_of raw)))) (\<lambda>config.
     if dget raw ''capture'' = VNone then Inl (ValueError ''continuation authorization capture is absent'')
     else if \<not> is_dict (dget raw ''capture'') then Inl (ValueError ''continuation authorization capture must be an object'')
     else bindR (validate_capture (dget raw ''capture'')) (\<lambda>capture.
       Inr (VDict (dict_set ''continuation_authorization''
         (case config of None \<Rightarrow> VNone | Some c \<Rightarrow> VDict (config_document c)) (items_of document)), config, Some capture))))"

definition attach_capture :: "pyval \<Rightarrow> items option \<Rightarrow> pyval res" where
  "attach_capture policy capture =
    bindR (parse_continuation_authorization (dget policy ''continuation_authorization'')) (\<lambda>config.
    case config of
      None \<Rightarrow> if capture \<noteq> None then Inl (ValueError ''disabled continuation policy cannot retain a capture'') else Inr policy
    | Some c \<Rightarrow> (case capture of
        None \<Rightarrow> Inl (ValueError ''enabled continuation policy requires an Authority capture'')
      | Some x \<Rightarrow> bindR (validate_capture (VDict x)) (\<lambda>capture.
          Inr (VDict (dict_set ''continuation_authorization''
            (VDict (config_document c @ [(''capture'', VDict capture)])) (items_of policy))))))"

section \<open>The authorization of an action\<close>

definition binding_base ::
  "continuation_config \<Rightarrow> pyval \<Rightarrow> int \<Rightarrow> continuation_facts \<Rightarrow> string \<Rightarrow> string option \<Rightarrow> items" where
  "binding_base config capture revision facts node action =
    [(''version'', VInt 1), (''configuration'', VDict (config_document config)), (''goal'', dget capture ''goal''),
     (''policy_revision'', VInt revision), (''captured_policy_revision'', dget capture ''policy_revision''),
     (''action'', opt_str action),
     (''current'', VDict [(''task_revision'', VInt (tf_revision facts)), (''contract_hash'', VStr (tf_hash facts)),
       (''node_id'', VStr node), (''node_attempt'', dget (VDict (tf_attempts facts)) node)]),
     (''scope'', tf_scope facts), (''policy_scope'', dget capture ''policy_scope''),
     (''risk_rationale'', strs [''authority_current_task_and_node'']), (''risk_level'', VStr ''low''),
     (''reversible'', VBool True), (''severe_adverse_side_effects'', VStr ''forbidden''),
     (''rollback_conditions'', dget capture ''rollback_conditions''), (''external_effects'', VStr ''forbidden'')]"

definition current_reason ::
  "continuation_config \<Rightarrow> pyval \<Rightarrow> continuation_facts \<Rightarrow> pyval \<Rightarrow> int \<Rightarrow> string \<Rightarrow> string option \<Rightarrow> bool \<Rightarrow> bool \<Rightarrow> bool
    \<Rightarrow> string option res" where
  "current_reason config capture facts limits revision node action pending denied available =
    (let goal = dget capture ''goal''; nodes = dget capture ''captured_nodes''; current = VDict (tf_attempts facts) in
     if \<not> py_eq (VInt revision) (dget capture ''policy_revision'') then Inr (Some ''policy_revision_changed'')
     else if dget goal ''task_id'' \<noteq> VStr (tf_task facts) then Inr (Some ''goal_changed'')
     else if dget goal ''objective_sha256'' \<noteq> VStr (tf_objective facts) then Inr (Some ''goal_changed'')
     else if \<not> py_eq (tf_scope facts) (dget capture ''scope'') then Inr (Some ''scope_changed'')
     else if \<not> py_eq (tf_permissions facts) (dget capture ''permissions'') then Inr (Some ''permission_boundary_changed'')
     else bindR (policy_scope limits) (\<lambda>scope.
     if \<not> py_eq scope (dget capture ''policy_scope'') then Inr (Some ''policy_scope_changed'')
     else if \<not> py_eq (VInt (tf_revision facts)) (dget capture ''captured_task_revision'') \<and> \<not> cc_revisions config
     then Inr (Some ''task_revision_changed'')
     else if \<not> has_key node nodes \<or> \<not> has_key node current then Inr (Some ''node_outside_authorized_scope'')
     else if \<not> py_eq (dget current node) (dget nodes node) \<and> \<not> cc_attempts config then Inr (Some ''node_attempt_changed'')
     else if tf_state facts \<in> {''paused'', ''pause'', ''cancelled'', ''canceled''} then Inr (Some ''user_pause'')
     else if tf_state facts \<noteq> ''blocked'' \<or> map_of (tf_states facts) node \<noteq> Some ''blocked''
     then Inr (Some ''blocked_state_changed'')
     else if (case action of None \<Rightarrow> False | Some a \<Rightarrow> a \<notin> set SAFE_ACTIONS) then Inr (Some ''unsupported_internal_action'')
     else if denied then Inr (Some ''approval_denied'')
     else if pending then Inr (Some ''approval_pending'')
     else if \<not> available then Inr (Some ''observation_unavailable'')
     else Inr None))"

definition decision_authorization ::
  "runtime \<Rightarrow> pyval \<Rightarrow> pyval \<Rightarrow> int \<Rightarrow> pyval \<Rightarrow> pyval \<Rightarrow> pyval \<Rightarrow> bool \<Rightarrow> bool \<Rightarrow> bool \<Rightarrow> items res" where
  "decision_authorization R policy capture revision task node action pending denied available =
    bindR (parse_continuation_authorization (dget policy ''continuation_authorization'')) (\<lambda>config. case config of
      None \<Rightarrow> Inl (ValueError ''continuation authorization is not enabled'')
    | Some config \<Rightarrow> bindR (validate_capture capture) (\<lambda>captured.
      bindR (task_facts R task) (\<lambda>facts.
      bindR (cont_text ''continuation node_id'' node) (\<lambda>node.
      bindR (if action = VNone then Inr None else bindR (cont_text ''continuation action'' action) (\<lambda>a. Inr (Some a))) (\<lambda>action.
      bindR (current_reason config (VDict captured) facts policy revision node action pending denied available) (\<lambda>reason.
        let base = binding_base config (VDict captured) revision facts node action in
        Inr (base @ (case reason of
            Some r \<Rightarrow> [(''authorized'', VBool False), (''reason_kind'', VStr r)]
          | None \<Rightarrow> [(''authorized'', VBool True), (''reason_kind'', VStr ''eligible_pending_fresh_native_preview'')]))))))))"

primrec has_release_tag :: "pyval \<Rightarrow> bool" where
  "has_release_tag VNone = False"
| "has_release_tag (VBool b) = False"
| "has_release_tag (VInt n) = False"
| "has_release_tag (VFloat x) = False"
| "has_release_tag (VStr s) = False"
| "has_release_tag (VList xs) = list_ex id (map has_release_tag xs)"
| "has_release_tag (VDict kvs) = (list_ex (\<lambda>kv. fst kv = ''release_tag'') kvs
     \<or> list_ex snd (map (map_prod id has_release_tag) kvs))"

definition refused :: "items \<Rightarrow> string \<Rightarrow> items" where
  "refused context reason = dict_merge context [(''authorized'', VBool False), (''reason_kind'', VStr reason)]"

definition validation_preview :: "pyval \<Rightarrow> string \<Rightarrow> (items \<times> items) res" where
  "validation_preview preview profile =
    bindR (cont_digest ''validation preview fingerprint'' (dget preview ''fingerprint'')) (\<lambda>a.
    bindR (cont_digest ''validation preview source delta'' (dget preview ''source_delta_sha256'')) (\<lambda>b.
    bindR (cont_digest ''validation preview install manifest'' (dget preview ''install_manifest_sha256'')) (\<lambda>c.
    bindR (cont_digest ''validation preview runtime'' (dget preview ''runtime_fingerprint'')) (\<lambda>d.
      Inr ([(''validation_profile'', VStr profile), (''worktree'', dget preview ''worktree'')],
        [(''kind'', VStr ''controlled_validation''), (''validation_profile'', VStr profile), (''fingerprint'', VStr a),
         (''source_delta_sha256'', VStr b), (''install_manifest_sha256'', VStr c), (''runtime_fingerprint'', VStr d)])))))"

definition recovery_preview :: "pyval \<Rightarrow> (items \<times> items) res" where
  "recovery_preview preview =
    bindR (cont_digest ''source-only preview source delta'' (dget preview ''source_delta_sha256'')) (\<lambda>b.
    bindR (cont_digest ''source-only preview install manifest'' (dget preview ''install_manifest_sha256'')) (\<lambda>c.
    bindR (cont_digest ''source-only preview runtime'' (dget preview ''runtime_fingerprint'')) (\<lambda>d.
      Inr ([(''source_only'', VBool True), (''preserve_untracked'', VBool True)],
        [(''kind'', VStr ''source_only_recovery''), (''source_delta_sha256'', VStr b),
         (''install_manifest_sha256'', VStr c), (''runtime_fingerprint'', VStr d)]))))"

text \<open>The preview of a plan: None when the plan is out of its scope.\<close>

definition native_preview :: "items \<Rightarrow> string \<Rightarrow> pyval \<Rightarrow> (items \<times> items) option res" where
  "native_preview context action plan =
    (let preview = dget plan ''fresh_preview''; arguments = dget plan ''arguments'' in
     if action = ''narrow_validation'' then
       (case dget plan ''validation_profile'' of
          VStr profile \<Rightarrow>
            if is_dict preview \<and> is_dict arguments
              \<and> VStr profile \<in> set (case dget (dget (VDict context) ''policy_scope'') ''validation_profiles'' of VList xs \<Rightarrow> xs | _ \<Rightarrow> [])
              \<and> dget arguments ''check_id'' = VStr profile \<and> dget arguments ''dry_run'' = VBool False
              \<and> (case dget preview ''worktree'' of VStr w \<Rightarrow> starts_with ''/'' w | _ \<Rightarrow> False)
            then bindR (validation_preview preview profile) (\<lambda>x. Inr (Some x)) else Inr None
        | _ \<Rightarrow> Inr None)
     else if is_dict preview \<and> is_dict arguments \<and> flag arguments ''source_only'' \<and> dget arguments ''dry_run'' = VBool False
         \<and> flag arguments ''preserve_untracked'' \<and> flag arguments ''confirm_source_only_extraction''
         \<and> flag arguments ''confirm_preserve_unknown_ignored''
     then bindR (recovery_preview preview) (\<lambda>x. Inr (Some x)) else Inr None)"

text \<open>Why a plan is not the one that was authorised.\<close>

definition plan_mismatch :: "continuation_facts \<Rightarrow> string \<Rightarrow> string \<Rightarrow> pyval \<Rightarrow> string option" where
  "plan_mismatch facts current action plan =
    (if has_release_tag plan then Some ''external_release_scope_forbidden''
     else if dget plan ''task_id'' \<noteq> VStr (tf_task facts) then Some ''goal_changed''
     else if dget plan ''node_id'' \<noteq> VStr current
         \<or> \<not> py_eq (dget plan ''node_attempt'') (dget (VDict (tf_attempts facts)) current)
         \<or> \<not> py_eq (dget plan ''task_revision'') (VInt (tf_revision facts))
     then Some ''action_plan_identity_changed''
     else if action \<notin> set SAFE_ACTIONS then Some ''unsupported_internal_action'' else None)"

definition granted :: "items \<Rightarrow> items \<Rightarrow> items \<Rightarrow> items" where
  "granted context scope preview = dict_merge context
     [(''authorized'', VBool True), (''reason_kind'', VStr ''fresh_native_preview_authorized''),
      (''action_scope'', VDict scope), (''native_preview'', VDict preview),
      (''risk_rationale'', strs [''authority_current_task_and_node'', ''fixed_internal_action'', ''fresh_native_preview'',
        ''no_external_or_destructive_permission'']),
      (''rollback_conditions'', VList ((case dget (VDict context) ''rollback_conditions'' of VList xs \<Rightarrow> xs | _ \<Rightarrow> [])
        @ [VStr ''native_preview_fingerprint_matches_execution'']))]"

definition action_authorization ::
  "runtime \<Rightarrow> pyval \<Rightarrow> pyval \<Rightarrow> int \<Rightarrow> pyval \<Rightarrow> pyval \<Rightarrow> pyval \<Rightarrow> bool \<Rightarrow> bool \<Rightarrow> bool \<Rightarrow> items res" where
  "action_authorization R policy capture revision task node plan pending denied available =
    bindR (cont_text ''continuation action plan action'' (dget plan ''action'')) (\<lambda>action.
    bindR (decision_authorization R policy capture revision task node (VStr action) pending denied available) (\<lambda>context.
    if \<not> flag (VDict context) ''authorized'' then Inr context
    else bindR (task_facts R task) (\<lambda>facts.
    bindR (cont_text ''continuation node_id'' node) (\<lambda>current.
    case plan_mismatch facts current action plan of
      Some reason \<Rightarrow> Inr (refused context reason)
    | None \<Rightarrow> bindR (native_preview context action plan) (\<lambda>checked. case checked of
        None \<Rightarrow> Inr (refused context ''native_preview_scope_invalid'')
      | Some (scope, preview) \<Rightarrow> Inr (granted context scope preview))))))"

section \<open>What an authorization rests on\<close>

lemma dget_append: "dget (VDict (a @ b)) k = (if k \<in> set (map fst a) then dget (VDict a) k else dget (VDict b) k)"
proof (cases "map_of a k")
  case None
  then have "k \<notin> set (map fst a)" by (simp add: map_of_eq_None_iff)
  then show ?thesis using None by (simp add: dget_def dget_or_def items_of_def map_add_def)
next
  case (Some x)
  then have "k \<in> set (map fst a)" using map_of_SomeD [OF Some] by force
  then show ?thesis using Some by (simp add: dget_def dget_or_def items_of_def map_add_def)
qed

lemma refused_flag: "\<not> flag (VDict (refused context reason)) ''authorized''"
  by (simp add: refused_def dict_merge_def flag_def is_true_def)

lemma current_reason_None:
  assumes "current_reason config capture facts limits revision node action pending denied available = Inr None"
  shows "py_eq (VInt revision) (dget capture ''policy_revision'')"
    "dget (dget capture ''goal'') ''task_id'' = VStr (tf_task facts)"
    "dget (dget capture ''goal'') ''objective_sha256'' = VStr (tf_objective facts)"
    "py_eq (tf_scope facts) (dget capture ''scope'')" "py_eq (tf_permissions facts) (dget capture ''permissions'')"
    "tf_state facts = ''blocked''" "map_of (tf_states facts) node = Some ''blocked''"
    "has_key node (dget capture ''captured_nodes'')" "\<not> pending" "\<not> denied" "available"
    "\<exists>scope. policy_scope limits = Inr scope \<and> py_eq scope (dget capture ''policy_scope'')"
    "cc_revisions config \<or> py_eq (VInt (tf_revision facts)) (dget capture ''captured_task_revision'')"
    "has_key node (VDict (tf_attempts facts))"
    "cc_attempts config \<or> py_eq (dget (VDict (tf_attempts facts)) node) (dget (dget capture ''captured_nodes'') node)"
proof -
  have other: "(if b then Inr (Some r) else x) = Inr None \<longleftrightarrow> \<not> b \<and> x = Inr None" for b r and x :: "string option res"
    by simp
  note c = assms [unfolded current_reason_def Let_def other bindR_Inr not_not de_Morgan_disj]
  from c show "py_eq (VInt revision) (dget capture ''policy_revision'')"
    "dget (dget capture ''goal'') ''task_id'' = VStr (tf_task facts)"
    "dget (dget capture ''goal'') ''objective_sha256'' = VStr (tf_objective facts)"
    "py_eq (tf_scope facts) (dget capture ''scope'')" "py_eq (tf_permissions facts) (dget capture ''permissions'')"
    "tf_state facts = ''blocked''" "map_of (tf_states facts) node = Some ''blocked''"
    "has_key node (dget capture ''captured_nodes'')" "\<not> pending" "\<not> denied" "available"
    "\<exists>scope. policy_scope limits = Inr scope \<and> py_eq scope (dget capture ''policy_scope'')"
    "cc_revisions config \<or> py_eq (VInt (tf_revision facts)) (dget capture ''captured_task_revision'')"
    "has_key node (VDict (tf_attempts facts))"
    "cc_attempts config \<or> py_eq (dget (VDict (tf_attempts facts)) node) (dget (dget capture ''captured_nodes'') node)"
    by blast+
qed

lemma decision_authorized:
  assumes d: "decision_authorization R policy capture revision task node action pending denied available = Inr d"
    and yes: "flag (VDict d) ''authorized''"
  obtains config c facts n act where "parse_continuation_authorization (dget policy ''continuation_authorization'') = Inr (Some config)"
    "validate_capture capture = Inr c" "task_facts R task = Inr facts" "cont_text ''continuation node_id'' node = Inr n"
    "current_reason config (VDict c) facts policy revision n act pending denied available = Inr None"
    "dget (VDict d) ''policy_scope'' = dget (VDict c) ''policy_scope''"
proof -
  from d obtain config c facts n act reason where
    p: "parse_continuation_authorization (dget policy ''continuation_authorization'') = Inr (Some config)"
    "validate_capture capture = Inr c" "task_facts R task = Inr facts" "cont_text ''continuation node_id'' node = Inr n"
    and r: "current_reason config (VDict c) facts policy revision n act pending denied available = Inr reason"
    and d': "d = binding_base config (VDict c) revision facts n act @ (case reason of
        Some r \<Rightarrow> [(''authorized'', VBool False), (''reason_kind'', VStr r)]
      | None \<Rightarrow> [(''authorized'', VBool True), (''reason_kind'', VStr ''eligible_pending_fresh_native_preview'')])"
    unfolding decision_authorization_def Let_def by (auto simp: bindR_Inr split: option.splits)
  have "''authorized'' \<notin> set (map fst (binding_base config (VDict c) revision facts n act))"
    by (simp add: binding_base_def)
  then have "reason = None"
    using yes unfolding d' flag_def dget_append by (cases reason) (simp_all add: dget_def dget_or_def items_of_def is_true_def)
  moreover have "dget (VDict d) ''policy_scope'' = dget (VDict c) ''policy_scope''"
    unfolding d' dget_append by (simp add: binding_base_def dget_def dget_or_def items_of_def)
  ultimately show thesis using p r that by blast
qed

text \<open>What the fresh native preview of a plan must show.\<close>

definition is_digest :: "pyval \<Rightarrow> bool" where
  "is_digest v \<longleftrightarrow> (case v of VStr s \<Rightarrow> length s = 64 \<and> list_all is_hex s | _ \<Rightarrow> False)"

lemma cont_digest_Inr: "cont_digest label v = Inr s \<Longrightarrow> is_digest v"
  by (auto simp: cont_digest_def cont_text_def is_digest_def res_simps split: pyval.splits if_splits)

lemma native_preview_Some:
  assumes "native_preview context action plan = Inr (Some p)"
  shows "is_dict (dget plan ''fresh_preview'') \<and> dget (dget plan ''arguments'') ''dry_run'' = VBool False
    \<and> is_digest (dget (dget plan ''fresh_preview'') ''source_delta_sha256'')
    \<and> is_digest (dget (dget plan ''fresh_preview'') ''install_manifest_sha256'')
    \<and> is_digest (dget (dget plan ''fresh_preview'') ''runtime_fingerprint'')
    \<and> (if action = ''narrow_validation''
       then \<exists>profile profiles w. dget plan ''validation_profile'' = VStr profile
         \<and> dget (dget (VDict context) ''policy_scope'') ''validation_profiles'' = VList profiles \<and> VStr profile \<in> set profiles
         \<and> dget (dget plan ''arguments'') ''check_id'' = VStr profile
         \<and> dget (dget plan ''fresh_preview'') ''worktree'' = VStr w \<and> starts_with ''/'' w
         \<and> is_digest (dget (dget plan ''fresh_preview'') ''fingerprint'')
       else flag (dget plan ''arguments'') ''source_only'' \<and> flag (dget plan ''arguments'') ''preserve_untracked''
         \<and> flag (dget plan ''arguments'') ''confirm_source_only_extraction''
         \<and> flag (dget plan ''arguments'') ''confirm_preserve_unknown_ignored'')"
proof -
  have only: "(if b then x else Inr None) = Inr (Some p) \<longleftrightarrow> b \<and> x = Inr (Some p)"
    for b and x :: "(items \<times> items) option res" by simp
  have some: "bindR m (\<lambda>x. Inr (Some x)) = Inr (Some p) \<longleftrightarrow> m = Inr p" for m :: "(items \<times> items) res"
    by (cases m) auto
  show ?thesis
  proof (cases "action = ''narrow_validation''")
    case True
    then obtain profile where profile: "dget plan ''validation_profile'' = VStr profile"
      using assms by (auto simp: native_preview_def Let_def split: pyval.splits)
    note a = assms [unfolded native_preview_def Let_def if_P [OF True] profile pyval.case only some]
    from a have c: "is_dict (dget plan ''fresh_preview'')" "is_dict (dget plan ''arguments'')"
        "VStr profile \<in> set (case dget (dget (VDict context) ''policy_scope'') ''validation_profiles'' of VList xs \<Rightarrow> xs | _ \<Rightarrow> [])"
        "dget (dget plan ''arguments'') ''check_id'' = VStr profile" "dget (dget plan ''arguments'') ''dry_run'' = VBool False"
        "case dget (dget plan ''fresh_preview'') ''worktree'' of VStr w \<Rightarrow> starts_with ''/'' w | _ \<Rightarrow> False"
      and v: "validation_preview (dget plan ''fresh_preview'') profile = Inr p"
      by blast+
    obtain w where w: "dget (dget plan ''fresh_preview'') ''worktree'' = VStr w" "starts_with ''/'' w"
      using c(6) by (cases "dget (dget plan ''fresh_preview'') ''worktree''") auto
    obtain ps where ps: "dget (dget (VDict context) ''policy_scope'') ''validation_profiles'' = VList ps" "VStr profile \<in> set ps"
      using c(3) by (cases "dget (dget (VDict context) ''policy_scope'') ''validation_profiles''") auto
    from v have "is_digest (dget (dget plan ''fresh_preview'') ''fingerprint'')"
        "is_digest (dget (dget plan ''fresh_preview'') ''source_delta_sha256'')"
        "is_digest (dget (dget plan ''fresh_preview'') ''install_manifest_sha256'')"
        "is_digest (dget (dget plan ''fresh_preview'') ''runtime_fingerprint'')"
      unfolding validation_preview_def bindR_Inr by (blast intro: cont_digest_Inr)+
    with True profile c ps w show ?thesis by simp
  next
    case False
    note a = assms [unfolded native_preview_def Let_def if_not_P [OF False] only some]
    from a have c: "is_dict (dget plan ''fresh_preview'')" "flag (dget plan ''arguments'') ''source_only''"
        "dget (dget plan ''arguments'') ''dry_run'' = VBool False" "flag (dget plan ''arguments'') ''preserve_untracked''"
        "flag (dget plan ''arguments'') ''confirm_source_only_extraction''"
        "flag (dget plan ''arguments'') ''confirm_preserve_unknown_ignored''"
      and v: "recovery_preview (dget plan ''fresh_preview'') = Inr p"
      by blast+
    from v have "is_digest (dget (dget plan ''fresh_preview'') ''source_delta_sha256'')"
        "is_digest (dget (dget plan ''fresh_preview'') ''install_manifest_sha256'')"
        "is_digest (dget (dget plan ''fresh_preview'') ''runtime_fingerprint'')"
      unfolding recovery_preview_def bindR_Inr by (blast intro: cont_digest_Inr)+
    with False c show ?thesis by simp
  qed
qed

text \<open>
  Property C25. A continuation is authorised only inside what the operator granted: continuation enabled in
  the policy, same policy revision and limits, same task and objective, same scopes, no external write and no
  destructive action, task and node still blocked, no approval pending or denied. The task still has the
  revision, and the node the attempt, of the grant unless the configuration allows continuing across
  revisions, or across attempts. The plan is made for exactly this task, node, current attempt and
  current revision, names one of the two reversible actions and carries no release tag. Its fresh native
  preview names the source delta, the install manifest and the runtime by digest; a validation is one of the
  granted profiles with an absolute worktree and a fingerprint, an extraction has all its confirmations.
\<close>

theorem continuation_inside_grant:
  assumes a: "action_authorization R policy capture revision task node plan pending denied available = Inr d"
    and yes: "flag (VDict d) ''authorized''"
  shows "\<exists>config c facts n. parse_continuation_authorization (dget policy ''continuation_authorization'') = Inr (Some config)
    \<and> validate_capture capture = Inr c \<and> task_facts R task = Inr facts \<and> node = VStr n
    \<and> py_eq (VInt revision) (dget (VDict c) ''policy_revision'')
    \<and> (\<exists>scope. policy_scope policy = Inr scope \<and> py_eq scope (dget (VDict c) ''policy_scope''))
    \<and> dget (dget (VDict c) ''goal'') ''task_id'' = VStr (tf_task facts)
    \<and> dget (dget (VDict c) ''goal'') ''objective_sha256'' = VStr (tf_objective facts)
    \<and> py_eq (tf_scope facts) (dget (VDict c) ''scope'') \<and> py_eq (dget (VDict c) ''permissions'') no_permissions
    \<and> py_eq (tf_permissions facts) (dget (VDict c) ''permissions'')
    \<and> (cc_revisions config \<or> py_eq (VInt (tf_revision facts)) (dget (VDict c) ''captured_task_revision''))
    \<and> has_key n (dget (VDict c) ''captured_nodes'') \<and> has_key n (VDict (tf_attempts facts))
    \<and> (cc_attempts config
         \<or> py_eq (dget (VDict (tf_attempts facts)) n) (dget (dget (VDict c) ''captured_nodes'') n))
    \<and> tf_state facts = ''blocked'' \<and> map_of (tf_states facts) n = Some ''blocked''
    \<and> \<not> pending \<and> \<not> denied \<and> available
    \<and> dget plan ''task_id'' = VStr (tf_task facts) \<and> dget plan ''node_id'' = VStr n
    \<and> py_eq (dget plan ''node_attempt'') (dget (VDict (tf_attempts facts)) n)
    \<and> py_eq (dget plan ''task_revision'') (VInt (tf_revision facts))
    \<and> dget plan ''action'' \<in> VStr ` set SAFE_ACTIONS \<and> \<not> has_release_tag plan
    \<and> (let preview = dget plan ''fresh_preview''; arguments = dget plan ''arguments'' in
         is_dict preview \<and> dget arguments ''dry_run'' = VBool False
       \<and> is_digest (dget preview ''source_delta_sha256'') \<and> is_digest (dget preview ''install_manifest_sha256'')
       \<and> is_digest (dget preview ''runtime_fingerprint'')
       \<and> (if dget plan ''action'' = VStr ''narrow_validation''
          then \<exists>profile profiles w. dget plan ''validation_profile'' = VStr profile
            \<and> dget (dget (VDict c) ''policy_scope'') ''validation_profiles'' = VList profiles \<and> VStr profile \<in> set profiles
            \<and> dget arguments ''check_id'' = VStr profile
            \<and> dget preview ''worktree'' = VStr w \<and> starts_with ''/'' w \<and> is_digest (dget preview ''fingerprint'')
          else flag arguments ''source_only'' \<and> flag arguments ''preserve_untracked''
            \<and> flag arguments ''confirm_source_only_extraction'' \<and> flag arguments ''confirm_preserve_unknown_ignored''))"
proof -
  from a obtain action ctx where act: "cont_text ''continuation action plan action'' (dget plan ''action'') = Inr action"
    and ctx: "decision_authorization R policy capture revision task node (VStr action) pending denied available = Inr ctx"
    and rest: "(if \<not> flag (VDict ctx) ''authorized'' then Inr ctx
      else bindR (task_facts R task) (\<lambda>facts. bindR (cont_text ''continuation node_id'' node) (\<lambda>current.
        case plan_mismatch facts current action plan of Some reason \<Rightarrow> Inr (refused ctx reason)
        | None \<Rightarrow> bindR (native_preview ctx action plan) (\<lambda>checked. case checked of
            None \<Rightarrow> Inr (refused ctx ''native_preview_scope_invalid'')
          | Some (scope, preview) \<Rightarrow> Inr (granted ctx scope preview))))) = Inr d"
    unfolding action_authorization_def bindR_Inr by blast
  have ok: "flag (VDict ctx) ''authorized''" using rest yes by (auto split: if_splits)
  obtain config c facts n act where p: "parse_continuation_authorization (dget policy ''continuation_authorization'') = Inr (Some config)"
      "validate_capture capture = Inr c" "task_facts R task = Inr facts"
      "cont_text ''continuation node_id'' node = Inr n"
    and r: "current_reason config (VDict c) facts policy revision n act pending denied available = Inr None"
    and limits: "dget (VDict ctx) ''policy_scope'' = dget (VDict c) ''policy_scope''"
    by (rule decision_authorized [OF ctx ok])
  have same: "plan_mismatch facts n action plan = None"
    using rest yes ok refused_flag by (auto simp: p(3,4) split: option.splits)
  then have plan: "\<not> has_release_tag plan" "dget plan ''task_id'' = VStr (tf_task facts)" "dget plan ''node_id'' = VStr n"
      "py_eq (dget plan ''node_attempt'') (dget (VDict (tf_attempts facts)) n)"
      "py_eq (dget plan ''task_revision'') (VInt (tf_revision facts))" "action \<in> set SAFE_ACTIONS"
    unfolding plan_mismatch_def by (simp_all split: if_split_asm)
  obtain preview where checked: "native_preview ctx action plan = Inr (Some preview)"
    using rest yes ok refused_flag by (auto simp: p(3,4) same bindR_Inr split: option.splits)
  have texts: "v = VStr s" if "cont_text label v = Inr s" for label v s
    using that by (auto simp: cont_text_def split: pyval.splits if_splits)
  have action: "dget plan ''action'' = VStr action" by (rule texts [OF act])
  then have "dget plan ''action'' \<in> VStr ` set SAFE_ACTIONS" using plan(6) by simp
  moreover have "py_eq (dget (VDict c) ''permissions'') no_permissions"
    using p(2) by (auto simp: validate_capture_def Let_def res_simps capture_document_def dget_def dget_or_def items_of_def)
  moreover have narrow: "action = ''narrow_validation'' \<longleftrightarrow> dget plan ''action'' = VStr ''narrow_validation''"
    by (simp add: action)
  moreover note native_preview_Some [OF checked, unfolded limits narrow]
  ultimately show ?thesis
    using p texts [OF p(4)] plan(1-5) current_reason_None [OF r] unfolding Let_def
    by (intro exI [of _ config] exI [of _ c] exI [of _ facts] exI [of _ n] conjI) blast+
qed

definition demo_continuing :: recovery_policy where
  "demo_continuing = demo_policy\<lparr>rp_actions := [''observe_readiness'', ''source_only_recovery''],
     rp_continuation := Some \<lparr>cc_attempts = True, cc_revisions = False, cc_same_task = True\<rparr>\<rparr>"

definition demo_snapshot :: pyval where
  "demo_snapshot = VDict [(''task_id'', VStr ''t''), (''state'', VStr ''blocked''), (''state_revision'', VInt 3),
     (''contract_hash'', VStr (replicate 64 CHR ''a'')),
     (''contract'', VDict [(''objective'', VStr ''o''), (''repository'', VStr ''/r''), (''allowed_scope'', strs [''.'']),
        (''forbidden_scope'', strs []), (''external_write_permission'', VBool False),
        (''destructive_action_permission'', VBool False)]),
     (''nodes'', VList [VDict [(''node_id'', VStr ''n''), (''state'', VStr ''blocked''), (''attempt'', VInt 1),
        (''spec'', VDict [(''read_scopes'', strs []), (''write_scopes'', strs [''x''])])]])]"

definition demo_capture :: pyval where
  "demo_capture = (case capture_authorization demo_runtime (VDict (policy_document demo_continuing)) 2 demo_snapshot of
     Inr (Some c) \<Rightarrow> VDict c | _ \<Rightarrow> VNone)"

definition demo_plan_document :: pyval where
  "demo_plan_document = VDict [(''action'', VStr ''source_only_recovery''), (''task_id'', VStr ''t''), (''node_id'', VStr ''n''),
     (''node_attempt'', VInt 1), (''task_revision'', VInt 3),
     (''arguments'', VDict [(''source_only'', VBool True), (''dry_run'', VBool False), (''preserve_untracked'', VBool True),
        (''confirm_source_only_extraction'', VBool True), (''confirm_preserve_unknown_ignored'', VBool True)]),
     (''fresh_preview'', VDict [(''source_delta_sha256'', VStr (replicate 64 CHR ''1'')),
        (''install_manifest_sha256'', VStr (replicate 64 CHR ''2'')), (''runtime_fingerprint'', VStr (replicate 64 CHR ''3''))])]"

definition demo_continued :: "items res" where
  "demo_continued = action_authorization demo_runtime (VDict (policy_document demo_continuing)) demo_capture 2 demo_snapshot
     (VStr ''n'') demo_plan_document False False True"

lemma demo_grant: "case demo_continued of Inl _ \<Rightarrow> False | Inr d \<Rightarrow> flag (VDict d) ''authorized''"
  by code_simp

theorem continuation_inside_grant_witness:
  "\<exists>c facts. validate_capture demo_capture = Inr c \<and> task_facts demo_runtime demo_snapshot = Inr facts \<and> tf_state facts = ''blocked''"
proof -
  obtain d where d: "demo_continued = Inr d" "flag (VDict d) ''authorized''"
    using demo_grant by (auto split: sum.splits)
  show ?thesis using continuation_inside_grant [OF d(1) [unfolded demo_continued_def] d(2)] by blast
qed

end
