(* ===== verification/Recovery_Documents.thy ===== *)
theory Recovery_Documents
  imports Continuation
begin

text \<open>
  The documents \<open>node_recovery_store.py\<close> accepts (lines 2464 to 2811): bounded JSON, evidence
  references, the merge of a fresh observation into a stored one, and the normal form of an observation
  and of a decision.
\<close>

section \<open>Scalars\<close>

definition rec_text :: "string \<Rightarrow> pyval \<Rightarrow> string res" where
  "rec_text label v = (case v of
      VStr s \<Rightarrow> let text = strip s in
        if text = [] then Inl (ValueError (label @ '' must be a non-empty string''))
        else if 512 < length text \<or> \<not> control_free text then Inl (ValueError (label @ '' is invalid''))
        else Inr text
    | _ \<Rightarrow> Inl (ValueError (label @ '' must be a non-empty string'')))"

lemma strip_again: "strip (strip s) = strip s"
proof -
  let ?a = "dropWhile is_space s"
  let ?b = "dropWhile is_space (rev ?a)"
  have "dropWhile is_space (rev ?b) = rev ?b"
  proof (cases "rev ?b")
    case (Cons c cs)
    obtain pre where pre: "rev ?a = pre @ ?b" by (metis takeWhile_dropWhile_id)
    then have "?a = rev ?b @ rev pre" by (metis rev_append rev_rev_ident)
    with Cons have "hd ?a = c" "?a \<noteq> []" by (metis append_Cons list.sel(1), simp)
    then have "\<not> is_space c" using hd_dropWhile by blast
    with Cons show ?thesis by simp
  next
    case Nil
    show ?thesis unfolding Nil by simp
  qed
  then show ?thesis unfolding strip_def rev_rev_ident by (simp only: rev_rev_ident dropWhile_idem)
qed

lemma rec_text_Inr: "rec_text label v = Inr t \<longleftrightarrow> (\<exists>s. v = VStr s \<and> t = strip s \<and> t \<noteq> [] \<and> length t \<le> 512 \<and> control_free t)"
  by (auto simp: rec_text_def Let_def split: pyval.splits)

lemma rec_text_again: "rec_text label v = Inr t \<Longrightarrow> rec_text label' (VStr t) = Inr t"
  by (auto simp: rec_text_Inr strip_again)

definition at_least_one :: "string \<Rightarrow> pyval \<Rightarrow> int res" where
  "at_least_one label v = (case v of
      VInt n \<Rightarrow> if n < 1 then Inl (ValueError (label @ '' must be a positive integer'')) else Inr n
    | _ \<Rightarrow> Inl (ValueError (label @ '' must be a positive integer'')))"

definition nonnegative_int :: "string \<Rightarrow> pyval \<Rightarrow> int res" where
  "nonnegative_int label v = (case v of
      VInt n \<Rightarrow> if n < 0 then Inl (ValueError (label @ '' must be a non-negative integer'')) else Inr n
    | _ \<Rightarrow> Inl (ValueError (label @ '' must be a non-negative integer'')))"

definition lease_seconds_ok :: "int \<Rightarrow> unit res" where
  "lease_seconds_ok n = (if 1 \<le> n \<and> n \<le> 3600 then Inr ()
     else Inl (ValueError ''recovery lease_seconds must be between 1 and 3600''))"

definition fingerprint :: "string \<Rightarrow> pyval \<Rightarrow> string res" where
  "fingerprint label v = bindR (rec_text label v) (\<lambda>text.
     if length text \<noteq> 64 \<or> \<not> list_all is_hex text
     then Inl (ValueError (label @ '' must be a lowercase SHA-256 fingerprint'')) else Inr text)"

text \<open>\<open>_timestamp\<close>: an ISO text with a zone, kept to the second.\<close>

definition timestamp_of :: "string \<Rightarrow> pyval \<Rightarrow> stamp option res" where
  "timestamp_of label v = (if v = VNone then Inr None
     else bindR (rec_text label v) (\<lambda>text. case iso_read text of
       None \<Rightarrow> Inl (ValueError (label @ '' must be an ISO-8601 timestamp''))
     | Some p \<Rightarrow> (case iso_offset p of
         None \<Rightarrow> Inl (ValueError (label @ '' must include a timezone''))
       | Some off \<Rightarrow> Inr (Some (Stamp (iso_wall p div 1000000) off)))))"

section \<open>Bounded documents\<close>

definition FORBIDDEN_KEYS :: "string list" where
  "FORBIDDEN_KEYS = [''changed_paths'', ''ignored_paths'', ''raw_output'', ''stdout'', ''stderr'', ''secret'', ''token'',
     ''api_key'', ''password'', ''credential'']"

text \<open>\<open>len(json.dumps(v, ensure_ascii=False, sort_keys=True).encode())\<close>.\<close>

definition char_bytes :: "char \<Rightarrow> int" where
  "char_bytes c = (case c of Char b0 b1 b2 b3 b4 b5 b6 b7 \<Rightarrow>
     if b7 then 2
     else if \<not> b5 \<and> \<not> b6 then (if c \<in> {CHR 0x08, CHR 0x09, CHR 0x0A, CHR 0x0C, CHR 0x0D} then 2 else 6)
     else if c \<in> {CHR 0x22, CHR 0x5C} then 2 else 1)"

definition text_bytes :: "string \<Rightarrow> int" where
  "text_bytes s = 2 + sum_list (map char_bytes s)"

text \<open>Brackets around the parts and \<open>", "\<close> between them.\<close>

definition joined_bytes :: "int list \<Rightarrow> int" where
  "joined_bytes ns = (if ns = [] then 2 else sum_list (map (\<lambda>n. n + 2) ns))"

primrec json_bytes :: "runtime \<Rightarrow> pyval \<Rightarrow> int" where
  "json_bytes R VNone = 4"
| "json_bytes R (VBool b) = (if b then 4 else 5)"
| "json_bytes R (VInt n) = int (length (str_int n))"
| "json_bytes R (VFloat x) = (case x of Fin q \<Rightarrow> int (rt_float R q) | _ \<Rightarrow> 0)"
| "json_bytes R (VStr s) = text_bytes s"
| "json_bytes R (VList xs) = joined_bytes (map (json_bytes R) xs)"
| "json_bytes R (VDict kvs) = joined_bytes (map (\<lambda>(k, n). text_bytes k + 2 + n) (map (map_prod id (json_bytes R)) kvs))"

text \<open>\<open>visit\<close>: at most eight levels below the top, 128 entries, no forbidden key.\<close>

definition field_name :: "string \<Rightarrow> string \<Rightarrow> string res" where
  "field_name label k = bindR (rec_text (label @ '' key'') (VStr k)) (\<lambda>name.
     if lower name \<in> set FORBIDDEN_KEYS then Inl (ValueError (label @ '' may not persist '' @ name)) else Inr name)"

definition keyed :: "'a res \<Rightarrow> 'b res \<Rightarrow> ('a \<times> 'b) res" where
  "keyed k v = (case k of Inl e \<Rightarrow> Inl e | Inr name \<Rightarrow> (case v of Inl e \<Rightarrow> Inl e | Inr x \<Rightarrow> Inr (name, x)))"

fun visit :: "nat \<Rightarrow> string \<Rightarrow> pyval \<Rightarrow> pyval res" where
  "visit 0 label v = Inl (ValueError (label @ '' is too deeply nested''))"
| "visit (Suc d) label (VDict kvs) = (if 128 < length kvs then Inl (ValueError (label @ '' has too many fields''))
     else bindR (mapR (\<lambda>kv. keyed (field_name label (fst kv)) (visit d label (snd kv))) kvs)
       (\<lambda>rs. Inr (VDict (dict_merge [] rs))))"
| "visit (Suc d) label (VList xs) = (if 128 < length xs then Inl (ValueError (label @ '' has too many items''))
     else bindR (mapR (visit d label) xs) (\<lambda>ys. Inr (VList ys)))"
| "visit (Suc d) label VNone = Inr VNone"
| "visit (Suc d) label (VBool b) = Inr (VBool b)"
| "visit (Suc d) label (VInt n) = Inr (VInt n)"
| "visit (Suc d) label (VFloat x) = Inr (VFloat x)"
| "visit (Suc d) label (VStr s) = Inr (VStr s)"

definition bounded_document :: "runtime \<Rightarrow> string \<Rightarrow> pyval \<Rightarrow> items res" where
  "bounded_document R label v =
    (if \<not> is_dict v then Inl (ValueError (label @ '' must be an object''))
     else bindR (visit 9 label v) (\<lambda>d.
       if \<not> json_safe d then Inl (ValueError (label @ '' is not JSON-safe''))
       else if 16384 < json_bytes R d then Inl (ValueError (label @ '' exceeds the bounded persistence limit''))
       else Inr (items_of d)))"

section \<open>Evidence and observations\<close>

definition evidence_refs :: "pyval \<Rightarrow> pyval res" where
  "evidence_refs v = (case v of
      VNone \<Rightarrow> Inr (VDict [])
    | VDict kvs \<Rightarrow> if 64 < length kvs then Inl (ValueError ''evidence_refs has too many entries'')
        else bindR (mapR (\<lambda>(k, x). bindR (rec_text ''evidence_refs key'' (VStr k)) (\<lambda>key.
          bindR (rec_text ''evidence_refs value'' x) (\<lambda>ref. Inr (key, VStr ref)))) kvs) (\<lambda>rs. Inr (VDict (dict_merge [] rs)))
    | VList xs \<Rightarrow> if 64 < length xs then Inl (ValueError ''evidence_refs has too many entries'')
        else bindR (mapR (\<lambda>x. bindR (rec_text ''evidence_refs value'' x) (\<lambda>ref. Inr (VStr ref))) xs) (\<lambda>rs. Inr (VList rs))
    | _ \<Rightarrow> Inl (ValueError ''evidence_refs must be an object or array''))"

definition ref_values :: "pyval \<Rightarrow> pyval list" where
  "ref_values v = (case v of VDict kvs \<Rightarrow> map snd kvs | VList xs \<Rightarrow> xs | _ \<Rightarrow> [])"

definition merge_evidence_refs :: "pyval \<Rightarrow> pyval \<Rightarrow> pyval res" where
  "merge_evidence_refs previous incoming = bindR (evidence_refs previous) (\<lambda>old. bindR (evidence_refs incoming) (\<lambda>new.
     if is_dict old \<and> is_dict new then Inr (VDict (dict_merge (items_of old) (items_of new)))
     else let values = fold (\<lambda>x vs. if x \<in> set vs then vs else vs @ [x]) (ref_values old @ ref_values new) [] in
       if 64 < length values then Inl (ValueError ''evidence_refs has too many entries'') else Inr (VList values)))"

text \<open>What one fresh entry does to the merged observation; None leaves it as it was.\<close>

definition merge_entry :: "bool \<Rightarrow> items \<Rightarrow> string \<Rightarrow> pyval \<Rightarrow> pyval res" where
  "merge_entry reset prior k v = (let old = dget (VDict prior) k in
     if k = ''evidence_refs'' then merge_evidence_refs old v
     else if k \<in> {''readiness_ready'', ''validation_succeeded''} then
       (if v = VNone \<and> \<not> reset then Inr old
        else case v of VBool b \<Rightarrow> Inr (if reset then VBool b else VBool (truthy old \<or> b))
          | _ \<Rightarrow> Inl (ValueError (''observation.'' @ k @ '' must be a boolean'')))
     else if k \<in> {''repair_requested'', ''repair_deployed_verified'', ''repair_deployed''} then
       (case v of VBool b \<Rightarrow> Inr (VBool (truthy old \<or> b))
          | _ \<Rightarrow> Inl (ValueError (''observation.'' @ k @ '' must be a boolean'')))
     else if k = ''source_event_cursor'' then
       bindR (nonnegative_int ''stored source_event_cursor'' (dget_or (VDict prior) k (VInt 0))) (\<lambda>a.
       bindR (nonnegative_int ''observation.source_event_cursor'' v) (\<lambda>b. Inr (VInt (max a b))))
     else Inr v)"

definition immutable_keys :: "bool \<Rightarrow> string list" where
  "immutable_keys task_revision = [''task_id'', ''node_id'', ''attempt'', ''failure_fingerprint'', ''origin'']
     @ (if task_revision then [] else [''task_revision''])"

definition merge_observation :: "runtime \<Rightarrow> bool \<Rightarrow> bool \<Rightarrow> pyval \<Rightarrow> pyval \<Rightarrow> items res" where
  "merge_observation R task_revision reset previous incoming =
    bindR (bounded_document R ''stored observation'' previous) (\<lambda>prior.
    bindR (bounded_document R ''observation'' incoming) (\<lambda>fresh.
    if list_ex (\<lambda>k. has_key k (VDict fresh) \<and> \<not> py_eq (dget (VDict fresh) k) (dget (VDict prior) k)) (immutable_keys task_revision)
    then Inl (StateConflictError ''recovery observation changed an immutable field'')
    else bindR (mapR (\<lambda>(k, v). bindR (merge_entry reset prior k v) (\<lambda>x. Inr (k, x))) fresh) (\<lambda>merged.
      bounded_document R ''merged observation'' (VDict (dict_merge prior merged)))))"

record observation =
  ob_task :: string
  ob_node :: string
  ob_attempt :: int
  ob_revision :: int
  ob_fingerprint :: string
  ob_origin :: string
  ob_phase :: string
  ob_cursor :: int
  ob_refs :: pyval
  ob_document :: items

definition clock_keys :: "string list" where
  "clock_keys = [''now'', ''elapsed_seconds'', ''action_attempts'', ''last_action'', ''last_action_at'', ''retry_due_at'']"

definition observed_failure :: "runtime \<Rightarrow> pyval \<Rightarrow> observation res" where
  "observed_failure R v = bindR (bounded_document R ''observation'' v) (\<lambda>raw.
     let document = filter (\<lambda>kv. fst kv \<notin> set clock_keys) raw; d = VDict document in
     if list_ex (\<lambda>k. has_key k d \<and> \<not> is_bool (dget d k)) [''validation_succeeded'', ''repair_requested'']
     then Inl (ValueError ''observation flag must be a boolean'')
     else bindR (rec_text ''observation.task_id'' (dget d ''task_id'')) (\<lambda>task.
       bindR (rec_text ''observation.node_id'' (dget d ''node_id'')) (\<lambda>node.
       bindR (nonnegative_int ''observation.attempt'' (dget d ''attempt'')) (\<lambda>attempt.
       bindR (at_least_one ''observation.task_revision'' (dget d ''task_revision'')) (\<lambda>revision.
       bindR (fingerprint ''observation.failure_fingerprint'' (dget d ''failure_fingerprint'')) (\<lambda>fp.
       bindR (rec_text ''observation.origin'' (dget d ''origin'')) (\<lambda>origin.
       bindR (rec_text ''observation.phase'' (dget_or d ''phase'' (VStr ''observed''))) (\<lambda>phase.
       bindR (nonnegative_int ''observation.source_event_cursor'' (dget d ''source_event_cursor'')) (\<lambda>cursor.
       bindR (evidence_refs (dget d ''evidence_refs'')) (\<lambda>refs.
         Inr \<lparr>ob_task = task, ob_node = node, ob_attempt = attempt, ob_revision = revision, ob_fingerprint = fp,
           ob_origin = origin, ob_phase = phase, ob_cursor = cursor, ob_refs = refs, ob_document = document\<rparr>))))))))))"

section \<open>Decisions\<close>

definition recovery_state_of :: "string \<Rightarrow> recovery_state option" where
  "recovery_state_of s = find (\<lambda>st. recovery_state_name st = s) [EWaiting, EReady, ENeedsAction, EResolved, ESuspended]"

record decision =
  de_state :: recovery_state
  de_action :: "string option"
  de_owner :: string
  de_reason :: string
  de_category :: string
  de_authorization :: bool
  de_wakeup :: "stamp option"
  de_stage :: "string option"
  de_document :: items

definition stage_action :: "string \<Rightarrow> string" where
  "stage_action stage = hd (split_on (CHR '':'') stage)"

definition decision_stage :: "pyval \<Rightarrow> pyval \<Rightarrow> string option \<Rightarrow> string \<Rightarrow> string res" where
  "decision_stage d observation fallback action =
    (if dget d ''stage_key'' \<noteq> VNone then rec_text ''decision.stage_key'' (dget d ''stage_key'')
     else if (case fallback of None \<Rightarrow> False | Some k \<Rightarrow> stage_action k = action) then Inr (the fallback)
     else let profile = (if dget d ''validation_profile'' = VNone then dget observation ''validation_profile''
            else dget d ''validation_profile'')
       in if action \<noteq> ''narrow_validation'' then Inr action
          else if profile = VNone then Inr ''narrow_validation''
          else bindR (rec_text ''validation_profile'' profile) (\<lambda>f. Inr (''narrow_validation:'' @ f)))"

text \<open>\<open>_decision\<close>; an absent observation is \<open>VNone\<close>.\<close>

definition decision_of :: "runtime \<Rightarrow> pyval \<Rightarrow> pyval \<Rightarrow> string option \<Rightarrow> decision res" where
  "decision_of R v observation fallback = bindR (bounded_document R ''decision'' v) (\<lambda>document. let d = VDict document in
     bindR (rec_text ''decision.state'' (dget d ''state'')) (\<lambda>name.
     bindR (require (ValueError ''decision.state is unsupported'') (recovery_state_of name)) (\<lambda>st.
     bindR (if dget d ''action'' = VNone then Inr None
       else bindR (rec_text ''decision.action'' (dget d ''action'')) (\<lambda>a. Inr (Some a))) (\<lambda>action.
     bindR (rec_text ''decision.owner'' (dget d ''owner'')) (\<lambda>owner.
     bindR (rec_text ''decision.reason_kind'' (dget d ''reason_kind'')) (\<lambda>reason.
     bindR (rec_text ''decision.category'' (dget d ''category'')) (\<lambda>category.
     bindR (case dget d ''requires_authorization'' of VBool b \<Rightarrow> Inr b
       | _ \<Rightarrow> Inl (ValueError ''decision.requires_authorization must be a boolean'')) (\<lambda>authorization.
     bindR (timestamp_of ''decision.next_wakeup_at'' (dget d ''next_wakeup_at'')) (\<lambda>wake.
     bindR (case action of None \<Rightarrow> Inr None
       | Some a \<Rightarrow> bindR (decision_stage d observation fallback a) (\<lambda>k. Inr (Some k))) (\<lambda>stage.
       Inr \<lparr>de_state = st, de_action = action, de_owner = owner, de_reason = reason, de_category = category,
         de_authorization = authorization, de_wakeup = wake, de_stage = stage, de_document = document\<rparr>))))))))))"

text \<open>
  \<open>_manual_decision\<close> of a constant document. Its fields are read off directly; \<open>manual_decision_of\<close>
  shows that this is what \<open>_decision\<close> returns.
\<close>

definition manual_document :: "recovery_state \<Rightarrow> string \<Rightarrow> string \<Rightarrow> bool \<Rightarrow> stamp option \<Rightarrow> items" where
  "manual_document st reason owner authorization wake =
    [(''category'', VStr (if reason = ''unknown_effects'' then ''unknown_effects'' else ''unknown'')),
     (''state'', VStr (recovery_state_name st)), (''action'', VNone), (''owner'', VStr owner),
     (''reason_kind'', VStr reason), (''requires_authorization'', VBool authorization), (''next_wakeup_at'', opt_stamp wake)]"

definition manual_decision :: "recovery_state \<Rightarrow> string \<Rightarrow> string \<Rightarrow> bool \<Rightarrow> stamp option \<Rightarrow> decision" where
  "manual_decision st reason owner authorization wake =
    \<lparr>de_state = st, de_action = None, de_owner = owner, de_reason = reason,
     de_category = (if reason = ''unknown_effects'' then ''unknown_effects'' else ''unknown''),
     de_authorization = authorization, de_wakeup = wake, de_stage = None,
     de_document = manual_document st reason owner authorization wake\<rparr>"

definition suspended_decision :: decision where
  "suspended_decision = manual_decision ESuspended ''user_pause'' ''user'' False None"

definition unknown_effects_decision :: decision where
  "unknown_effects_decision = manual_decision ENeedsAction ''unknown_effects'' ''user'' True None"

definition budget_exhausted_decision :: decision where
  "budget_exhausted_decision = manual_decision ENeedsAction ''budget_exhausted'' ''user'' False None"

definition repair_deployed_wait_decision :: "int \<Rightarrow> stamp \<Rightarrow> decision" where
  "repair_deployed_wait_decision backoff ts =
     manual_decision EWaiting ''fresh_readiness_required'' ''authority'' False (Some (stamp_after ts backoff))"

lemma manual_texts:
  "rec_text l (VStr ''user'') = Inr ''user''" "rec_text l (VStr ''user_pause'') = Inr ''user_pause''"
  "rec_text l (VStr ''unknown_effects'') = Inr ''unknown_effects''" "rec_text l (VStr ''unknown'') = Inr ''unknown''"
  "rec_text l (VStr ''budget_exhausted'') = Inr ''budget_exhausted''" "rec_text l (VStr ''suspended'') = Inr ''suspended''"
  "rec_text l (VStr ''needs_action'') = Inr ''needs_action''"
  "recovery_state_of ''suspended'' = Some ESuspended" "recovery_state_of ''needs_action'' = Some ENeedsAction"
  by code_simp+

lemma manual_bounded:
  "bounded_document R l (VDict (manual_document ESuspended ''user_pause'' ''user'' False None))
     = Inr (manual_document ESuspended ''user_pause'' ''user'' False None)"
  "bounded_document R l (VDict (manual_document ENeedsAction ''unknown_effects'' ''user'' True None))
     = Inr (manual_document ENeedsAction ''unknown_effects'' ''user'' True None)"
  "bounded_document R l (VDict (manual_document ENeedsAction ''budget_exhausted'' ''user'' False None))
     = Inr (manual_document ENeedsAction ''budget_exhausted'' ''user'' False None)"
  by code_simp+

lemma manual_get:
  "dget (VDict (manual_document st reason owner a None)) ''state'' = VStr (recovery_state_name st)"
  "dget (VDict (manual_document st reason owner a None)) ''action'' = VNone"
  "dget (VDict (manual_document st reason owner a None)) ''owner'' = VStr owner"
  "dget (VDict (manual_document st reason owner a None)) ''reason_kind'' = VStr reason"
  "dget (VDict (manual_document st reason owner a None)) ''category''
     = VStr (if reason = ''unknown_effects'' then ''unknown_effects'' else ''unknown'')"
  "dget (VDict (manual_document st reason owner a None)) ''requires_authorization'' = VBool a"
  "dget (VDict (manual_document st reason owner a None)) ''next_wakeup_at'' = VNone"
  by (simp_all add: manual_document_def dget_def dget_or_def items_of_def opt_stamp_def)

lemma manual_decision_of:
  "decision_of R (VDict (de_document suspended_decision)) VNone None = Inr suspended_decision"
  "decision_of R (VDict (de_document unknown_effects_decision)) VNone None = Inr unknown_effects_decision"
  "decision_of R (VDict (de_document budget_exhausted_decision)) VNone None = Inr budget_exhausted_decision"
  unfolding suspended_decision_def unknown_effects_decision_def budget_exhausted_decision_def manual_decision_def decision.simps
    decision_of_def manual_bounded bindR_simps Let_def manual_get recovery_state_name.simps
  by (simp_all add: manual_texts timestamp_of_def)

section \<open>Stages\<close>

text \<open>The attempts per stage: a stored object of counters.\<close>

definition stage_attempts :: "pyval \<Rightarrow> items res" where
  "stage_attempts v = (if \<not> is_dict v then Inl (StateConflictError ''recovery stage attempts are invalid'')
     else bindR (mapR (\<lambda>(k, x). bindR (rec_text ''stage attempt key'' (VStr k)) (\<lambda>stage.
       bindR (nonnegative_int ''stage attempt count'' x) (\<lambda>n. Inr (stage, VInt n)))) (items_of v))
       (\<lambda>rs. Inr (dict_merge [] rs)))"

definition stage_count :: "items \<Rightarrow> string \<Rightarrow> int" where
  "stage_count stages stage = (case map_of stages stage of Some (VInt n) \<Rightarrow> n | _ \<Rightarrow> 0)"

definition charge_stage :: "bool \<Rightarrow> string \<Rightarrow> items \<Rightarrow> items" where
  "charge_stage dispatched stage stages =
     (if dispatched then dict_set stage (VInt (stage_count stages stage + 1)) stages else stages)"

end
