(* ===== verification/Recovery_Ledger.thy ===== *)
theory Recovery_Ledger
  imports Recovery_Documents Node_Claim
begin

text \<open>
  The tables of \<open>node_recovery_store.py\<close> beside the ledger of \<open>store.py\<close> and what its operations share:
  reading a policy, the fences of an episode, the question to the user, and the receipt of an action.
  As in the other theories an operation that raises leaves everything as it was; the clock is \<open>now\<close>.
\<close>

section \<open>Rows\<close>

record policy_row =
  np_task :: string
  np_policy :: pyval
  np_revision :: int
  np_configured :: int
  np_actor :: string
  np_created :: stamp
  np_updated :: stamp

record episode_row =
  ep_id :: string
  ep_task :: string
  ep_node :: string
  ep_attempt :: int
  ep_fingerprint :: string
  ep_task_revision :: int
  ep_policy_revision :: int
  ep_policy :: pyval
  ep_origin :: string
  ep_category :: string
  ep_phase :: string
  ep_observation :: pyval
  ep_decision :: pyval
  ep_refs :: pyval
  ep_cursor :: int
  ep_state :: recovery_state
  ep_action :: "string option"
  ep_owner :: string
  ep_permission :: bool
  ep_attempts :: int
  ep_stage :: "string option"
  ep_stages :: pyval
  ep_deadline :: stamp
  ep_wakeup :: "stamp option"
  ep_progress_at :: stamp
  ep_progress :: pyval
  ep_revision :: int
  ep_holder :: "string option"
  ep_epoch :: int
  ep_lease :: int
  ep_expires :: "stamp option"
  ep_repair_request :: "string option"
  ep_repair_task :: "string option"
  ep_deployed :: "string option"
  ep_created :: stamp
  ep_updated :: stamp

datatype action_state = ActExecuting | ActCompleted | ActUnknown

record action_row =
  ac_id :: string
  ac_episode :: string
  ac_task :: string
  ac_node :: string
  ac_attempt :: int
  ac_key :: string
  ac_stage :: string
  ac_epoch :: int
  ac_lease :: int
  ac_fingerprint :: string
  ac_input :: pyval
  ac_state :: action_state
  ac_receipt :: "pyval option"
  ac_dispatched :: bool
  ac_created :: stamp
  ac_updated :: stamp
  ac_settled :: "stamp option"

record repair_row =
  re_id :: string
  re_task :: string
  re_fingerprint :: string
  re_episode :: string
  re_request :: string
  re_repair_task :: string
  re_repair :: string
  re_verified :: "string option"
  re_evidence :: "pyval option"
  re_deployed :: "stamp option"
  re_created :: stamp
  re_updated :: stamp

record notice_row =
  no_episode :: string
  no_reason :: string
  no_cursor :: int
  no_created :: stamp

record recovery_ledger =
  ledger :: store
  policies :: "policy_row list"
  episodes :: "episode_row list"
  actions :: "action_row list"
  repairs :: "repair_row list"
  notices :: "notice_row list"
  projection :: "int option"

section \<open>Events and documents\<close>

definition recovery_event :: "string \<Rightarrow> string \<Rightarrow> string option \<Rightarrow> items \<Rightarrow> stamp \<Rightarrow> recovery_ledger \<Rightarrow> int \<times> recovery_ledger" where
  "recovery_event kind task node payload ts s = (case emit_event kind (Some task) node payload ts (ledger s) of
     (cursor, l) \<Rightarrow> (cursor, s\<lparr>ledger := l\<rparr>))"

lemma recovery_event_snd: "snd (recovery_event k t n p ts s) = s\<lparr>ledger := snd (emit_event k (Some t) n p ts (ledger s))\<rparr>"
  by (simp add: recovery_event_def emit_event_def)

definition put_episode :: "string \<Rightarrow> (episode_row \<Rightarrow> episode_row) \<Rightarrow> recovery_ledger \<Rightarrow> recovery_ledger" where
  "put_episode k f s = s\<lparr>episodes := row_put ep_id k f (episodes s)\<rparr>"

definition progress_of :: "string \<Rightarrow> int \<Rightarrow> items \<Rightarrow> pyval" where
  "progress_of kind cursor rest = canonical_json (VDict ((''kind'', VStr kind) # (''event_cursor'', VInt cursor) # rest))"

definition episode_of :: "string \<Rightarrow> recovery_ledger \<Rightarrow> episode_row res" where
  "episode_of k s = require (KeyError k) (row_get ep_id k (episodes s))"

definition task_of :: "string \<Rightarrow> recovery_ledger \<Rightarrow> task_row res" where
  "task_of k s = require (KeyError k) (row_get t_id k (tasks (ledger s)))"

definition node_of :: "string \<Rightarrow> string \<Rightarrow> recovery_ledger \<Rightarrow> node_row res" where
  "node_of k m s = require (KeyError m) (row_get node_key (k, m) (nodes (ledger s)))"

text \<open>\<open>_policy_from_document\<close>: the policy without its private capture.\<close>

definition policy_from_document :: "pyval \<Rightarrow> recovery_policy res" where
  "policy_from_document document = (case bindR (split_stored_policy document) (\<lambda>(public, _). policy_from_dict public) of
     Inl _ \<Rightarrow> Inl (StateConflictError ''recovery policy row is invalid'') | Inr p \<Rightarrow> Inr p)"

definition policy_for_task :: "string \<Rightarrow> recovery_ledger \<Rightarrow> (recovery_policy \<times> int \<times> pyval) res" where
  "policy_for_task k s = (case row_get np_task k (policies s) of
      None \<Rightarrow> Inr (default_policy, 0, VDict (policy_document default_policy))
    | Some row \<Rightarrow> bindR (policy_from_document (np_policy row)) (\<lambda>p. Inr (p, np_revision row, np_policy row)))"

text \<open>\<open>_episode_row\<close>: what an operation returns, refused when a stored document does not parse.\<close>

definition episode_view :: "recovery_ledger \<Rightarrow> episode_row \<Rightarrow> episode_row res" where
  "episode_view s e = (case bindR (split_stored_policy (ep_policy e)) (\<lambda>(public, _). bindR (policy_from_dict public)
       (\<lambda>_. stage_attempts (ep_stages e))) of
     Inl _ \<Rightarrow> Inl (StateConflictError ''recovery episode row is invalid'') | Inr _ \<Rightarrow> Inr e)"

definition episode_now :: "string \<Rightarrow> recovery_ledger \<Rightarrow> (episode_row \<times> recovery_ledger) res" where
  "episode_now k s = bindR (episode_of k s) (\<lambda>e. bindR (episode_view s e) (\<lambda>e. Inr (e, s)))"

definition task_snapshot :: "task_row \<Rightarrow> node_row list \<Rightarrow> pyval" where
  "task_snapshot t ns = VDict [(''task_id'', VStr (t_id t)), (''state'', VStr (task_state_name (t_state t))),
     (''state_revision'', VInt (t_revision t)), (''contract_hash'', VStr (t_hash t)), (''contract'', t_contract t),
     (''nodes'', VList (map (\<lambda>n. VDict [(''node_id'', VStr (n_node n)), (''state'', VStr (node_state_name (n_state n))),
        (''attempt'', VInt (n_attempt n)), (''spec'', n_spec n)]) ns))]"

definition continuation_task_snapshot :: "string \<Rightarrow> recovery_ledger \<Rightarrow> pyval res" where
  "continuation_task_snapshot k s = bindR (task_of k s) (\<lambda>t.
     let ns = sort_key n_node (filter (\<lambda>n. n_task n = k) (nodes (ledger s))) in
     if \<not> is_dict (t_contract t) then Inl (StateConflictError ''continuation task contract is invalid'')
     else if \<not> list_all (\<lambda>n. is_dict (n_spec n)) ns
     then Inl (StateConflictError ''continuation node specification is invalid'')
     else Inr (task_snapshot t ns))"

section \<open>Fences\<close>

definition user_fence :: "task_row \<Rightarrow> node_row \<Rightarrow> bool" where
  "user_fence t n \<longleftrightarrow> t_state t \<in> {TPaused, TCancelled} \<or> n_state n = NCancelled"

definition lease_is_live :: "episode_row \<Rightarrow> stamp \<Rightarrow> bool" where
  "lease_is_live e ts \<longleftrightarrow> ep_holder e \<noteq> None \<and> ep_expires e \<noteq> None \<and> \<not> stamp_due (ep_expires e) ts"

definition assert_episode_attempt :: "int \<Rightarrow> episode_row \<Rightarrow> recovery_ledger \<Rightarrow> unit res" where
  "assert_episode_attempt attempt e s =
    (if ep_attempt e \<noteq> attempt then Inl (StateConflictError ''recovery episode attempt is stale'')
     else bindR (node_of (ep_task e) (ep_node e) s) (\<lambda>n.
       if n_attempt n \<noteq> attempt then Inl (StateConflictError ''recovery node attempt changed'') else Inr ()))"

definition assert_episode_lease :: "string \<Rightarrow> int \<Rightarrow> int \<Rightarrow> stamp \<Rightarrow> episode_row \<Rightarrow> recovery_ledger \<Rightarrow> unit res" where
  "assert_episode_lease holder epoch lease ts e s = bindR (assert_active_coordinator epoch (ledger s)) (\<lambda>_.
     if ep_holder e \<noteq> Some holder \<or> ep_epoch e \<noteq> epoch \<or> ep_lease e \<noteq> lease \<or> \<not> lease_is_live e ts
     then Inl (StateConflictError ''recovery episode lease is stale'') else Inr ())"

section \<open>Decisions on an episode\<close>

definition released :: "episode_row \<Rightarrow> episode_row" where
  "released e = e\<lparr>ep_holder := None, ep_epoch := 0, ep_lease := 0, ep_expires := None\<rparr>"

definition decided :: "decision \<Rightarrow> episode_row \<Rightarrow> episode_row" where
  "decided d e = e\<lparr>ep_state := de_state d, ep_action := de_action d, ep_owner := de_owner d, ep_permission := de_authorization d,
     ep_wakeup := de_wakeup d, ep_decision := canonical_json (VDict (de_document d))\<rparr>"

text \<open>The user is asked once per episode and reason.\<close>

definition record_needs_action_notification :: "episode_row \<Rightarrow> decision \<Rightarrow> stamp \<Rightarrow> recovery_ledger \<Rightarrow> recovery_ledger" where
  "record_needs_action_notification e d ts s =
    (if de_state d \<noteq> ENeedsAction then s
     else if list_ex (\<lambda>x. no_episode x = ep_id e \<and> no_reason x = de_reason d) (notices s) then s
     else case recovery_event ''node_recovery.needs_action'' (ep_task e) (Some (ep_node e))
         [(''episode_id'', VStr (ep_id e)), (''reason_kind'', VStr (de_reason d))] ts s of
       (cursor, s1) \<Rightarrow> s1\<lparr>notices := notices s1
         @ [\<lparr>no_episode = ep_id e, no_reason = de_reason d, no_cursor = cursor, no_created = ts\<rparr>]\<rparr>)"

text \<open>\<open>_suspend_for_user_fence\<close> and \<open>_exhaust_budget\<close> write the same columns.\<close>

definition stop_episode :: "string \<Rightarrow> string \<Rightarrow> items \<Rightarrow> decision \<Rightarrow> episode_row \<Rightarrow> stamp \<Rightarrow> recovery_ledger \<Rightarrow> recovery_ledger" where
  "stop_episode phase kind extra d e ts s =
    (let revision = ep_revision e + 1 in
     case recovery_event kind (ep_task e) (Some (ep_node e))
       ([(''episode_id'', VStr (ep_id e)), (''state_revision'', VInt revision)] @ extra) ts s of
       (cursor, s1) \<Rightarrow> put_episode (ep_id e) (\<lambda>x. released (decided d x)\<lparr>ep_phase := phase, ep_revision := revision,
         ep_progress_at := ts, ep_progress := progress_of kind cursor extra, ep_updated := ts\<rparr>) s1)"

definition suspend_for_user_fence :: "episode_row \<Rightarrow> stamp \<Rightarrow> recovery_ledger \<Rightarrow> (episode_row \<times> recovery_ledger) res" where
  "suspend_for_user_fence e ts s =
    (if ep_state e = ESuspended \<and> ep_holder e = None then bindR (episode_view s e) (\<lambda>e. Inr (e, s))
     else episode_now (ep_id e) (stop_episode ''suspended'' ''node_recovery.suspended''
       [(''reason_kind'', VStr ''user_pause'')] suspended_decision e ts s))"

definition exhaust_budget :: "episode_row \<Rightarrow> stamp \<Rightarrow> recovery_ledger \<Rightarrow> (episode_row \<times> recovery_ledger) res" where
  "exhaust_budget e ts s =
    (if ep_state e = ENeedsAction \<and> ep_action e = None then bindR (episode_view s e) (\<lambda>e. Inr (e, s))
     else episode_now (ep_id e) (record_needs_action_notification e budget_exhausted_decision ts
       (stop_episode ''budget_exhausted'' ''node_recovery.budget_exhausted'' [] budget_exhausted_decision e ts s)))"

section \<open>Receipts\<close>

text \<open>The stored observation with the patch of a receipt: merged, whether it changed, references, cursor.\<close>

definition merged_receipt :: "runtime \<Rightarrow> episode_row \<Rightarrow> items \<Rightarrow> (items \<times> bool \<times> pyval \<times> int) res" where
  "merged_receipt R e receipt = (let patch = dget (VDict receipt) ''observation_patch'' in
     bindR (if patch = VNone
       then bindR (bounded_document R ''stored observation'' (ep_observation e)) (\<lambda>m. Inr (m, False))
       else if \<not> is_dict patch then Inl (ValueError ''receipt observation_patch must be an object'')
       else bindR (merge_observation R False True (ep_observation e) patch) (\<lambda>m.
         Inr (m, \<not> py_eq (VDict m) (ep_observation e)))) (\<lambda>(merged, applied).
     bindR (evidence_refs (dget (VDict merged) ''evidence_refs'')) (\<lambda>refs.
     bindR (nonnegative_int ''merged source_event_cursor'' (dget_or (VDict merged) ''source_event_cursor'' (VInt (ep_cursor e)))) (\<lambda>cursor.
       Inr (merged, applied, refs, cursor)))))"

definition preserve_action_continuation :: "runtime \<Rightarrow> decision \<Rightarrow> action_row \<Rightarrow> decision res" where
  "preserve_action_continuation R d a = (let continuation = dget (ac_input a) ''continuation_authorization'' in
     if continuation = VNone then Inr d
     else if \<not> is_dict continuation then Inl (StateConflictError ''recovery action continuation authorization is invalid'')
     else decision_of R (VDict (dict_merge (de_document d) ((''continuation_authorization'', continuation)
       # (case de_stage d of None \<Rightarrow> [] | Some k \<Rightarrow> [(''stage_key'', VStr k)])))) VNone None)"

text \<open>
  The decision after an action: a stage moves on only after a success, and a stage that used up its
  attempts ends in a question. Returned with the stage that is current then.
\<close>

definition next_plan :: "runtime \<Rightarrow> int \<Rightarrow> items \<Rightarrow> decision \<Rightarrow> bool \<Rightarrow> action_row \<Rightarrow> (decision \<times> string) res" where
  "next_plan R limit stages d advance a = (let k = de_stage d in
     if k \<noteq> None \<and> k \<noteq> Some (ac_stage a) \<and> \<not> advance
     then Inl (StateConflictError ''recovery stage may advance only after a successful action'')
     else bindR (preserve_action_continuation R
         (if k = Some (ac_stage a) \<and> limit \<le> stage_count stages (ac_stage a) then budget_exhausted_decision else d) a) (\<lambda>d'.
       Inr (d', case k of None \<Rightarrow> ac_stage a | Some x \<Rightarrow> x)))"

text \<open>What a settled or reconciled action writes to its episode.\<close>

definition settled_episode ::
  "decision \<Rightarrow> string \<Rightarrow> string \<Rightarrow> items \<Rightarrow> items \<Rightarrow> pyval \<Rightarrow> int \<Rightarrow> bool \<Rightarrow> pyval \<Rightarrow> stamp \<Rightarrow> episode_row \<Rightarrow> episode_row" where
  "settled_episode d phase stage stages merged refs cursor progressed progress ts e =
    released (decided d e)\<lparr>ep_phase := phase, ep_attempts := stage_count stages stage, ep_revision := ep_revision e + 1,
      ep_stage := Some stage, ep_stages := canonical_json (VDict stages), ep_observation := canonical_json (VDict merged),
      ep_refs := canonical_json refs, ep_cursor := cursor,
      ep_progress_at := (if progressed then ts else ep_progress_at e), ep_progress := progress, ep_updated := ts\<rparr>"

definition settled_row :: "action_state \<Rightarrow> items \<Rightarrow> bool \<Rightarrow> stamp \<Rightarrow> action_row \<Rightarrow> action_row" where
  "settled_row st receipt dispatched ts a = a\<lparr>ac_state := st, ac_receipt := Some (canonical_json (VDict receipt)),
     ac_dispatched := dispatched, ac_updated := ts, ac_settled := Some ts\<rparr>"

definition patch_keys :: "items \<Rightarrow> pyval" where
  "patch_keys receipt = strs (sort (map fst (items_of (dget (VDict receipt) ''observation_patch''))))"

definition same_receipt :: "action_row \<Rightarrow> items \<Rightarrow> bool" where
  "same_receipt a receipt \<longleftrightarrow> (case ac_receipt a of None \<Rightarrow> False | Some r \<Rightarrow> py_eq r (VDict receipt))"

definition put_action :: "string \<Rightarrow> (action_row \<Rightarrow> action_row) \<Rightarrow> recovery_ledger \<Rightarrow> recovery_ledger" where
  "put_action k f s = s\<lparr>actions := row_put ac_id k f (actions s)\<rparr>"

end
