(* ===== verification/Recovery_Ops.thy ===== *)
theory Recovery_Ops
  imports Recovery_Ledger
begin

text \<open>
  The operations of \<open>NodeRecoveryStore\<close> (\<open>node_recovery_store.py\<close> lines 175 to 1835): policies, episodes,
  the lease on an episode, the intent and the receipt of an action, repairs and the event cursor.
  The guard \<open>state_revision = ?\<close> of an \<open>UPDATE\<close> repeats the row the transaction just read.
\<close>

section \<open>Policies\<close>

definition policy_argument :: "recovery_policy + pyval \<Rightarrow> recovery_policy res" where
  "policy_argument v = (case v of Inl p \<Rightarrow> Inr p | Inr raw \<Rightarrow> policy_from_dict raw)"

definition policy_view :: "policy_row \<Rightarrow> policy_row res" where
  "policy_view row = bindR (policy_from_document (np_policy row)) (\<lambda>_. Inr row)"

definition same_policy :: "policy_row \<Rightarrow> recovery_policy \<Rightarrow> string \<Rightarrow> int \<Rightarrow> bool res" where
  "same_policy row p actor revision = (case split_stored_policy (np_policy row) of
     Inl _ \<Rightarrow> Inl (StateConflictError ''recovery policy row is invalid'')
   | Inr (public, _) \<Rightarrow> Inr (py_eq public (VDict (policy_document p)) \<and> np_actor row = actor \<and> np_configured row = revision))"

definition captured_policy :: "runtime \<Rightarrow> recovery_policy \<Rightarrow> int \<Rightarrow> pyval \<Rightarrow> (items option \<times> pyval) res" where
  "captured_policy R p revision snapshot = bindR (capture_authorization R (VDict (policy_document p)) revision snapshot) (\<lambda>capture.
     bindR (attach_capture (VDict (policy_document p)) capture) (\<lambda>document. Inr (capture, document)))"

definition configure_policy ::
  "runtime \<Rightarrow> string \<Rightarrow> recovery_policy + pyval \<Rightarrow> int \<Rightarrow> string \<Rightarrow> int \<Rightarrow> recovery_ledger \<Rightarrow> (policy_row \<times> recovery_ledger) res" where
  "configure_policy R task policy expected actor now s =
    bindR (rec_text ''task_id'' (VStr task)) (\<lambda>_.
    bindR (at_least_one ''expected_task_revision'' (VInt expected)) (\<lambda>_.
    bindR (rec_text ''actor'' (VStr actor)) (\<lambda>actor.
    bindR (policy_argument policy) (\<lambda>p.
    bindR (task_of task s) (\<lambda>t.
    if t_revision t \<noteq> expected then Inl (StateConflictError ''expected task revision'')
    else let ts = utc now; existing = row_get np_task task (policies s);
           revision = (case existing of None \<Rightarrow> 1 | Some row \<Rightarrow> np_revision row + 1) in
     bindR (case existing of None \<Rightarrow> Inr False | Some row \<Rightarrow> same_policy row p actor expected) (\<lambda>same.
     if same then bindR (require (KeyError task) existing) (\<lambda>row. bindR (policy_view row) (\<lambda>row. Inr (row, s)))
     else bindR (continuation_task_snapshot task s) (\<lambda>snapshot.
       bindR (captured_policy R p revision snapshot) (\<lambda>(capture, document).
       let row = \<lparr>np_task = task, np_policy = canonical_json document, np_revision = revision, np_configured = expected,
             np_actor = actor, np_created = (case existing of None \<Rightarrow> ts | Some r \<Rightarrow> np_created r), np_updated = ts\<rparr>;
           s1 = s\<lparr>policies := (case existing of None \<Rightarrow> policies s @ [row] | Some _ \<Rightarrow> row_put np_task task (\<lambda>_. row) (policies s))\<rparr>;
           s2 = snd (recovery_event ''node_recovery.policy_configured'' task None
             [(''policy_revision'', VInt revision), (''enabled'', VBool (rp_enabled p)),
              (''continuation_authorization'', VBool (capture \<noteq> None)), (''actor'', VStr actor),
              (''configured_task_revision'', VInt expected)] ts s1)
       in bindR (policy_view row) (\<lambda>row. Inr (row, s2))))))))))"

section \<open>Episodes\<close>

definition episode_id_of :: "runtime \<Rightarrow> observation \<Rightarrow> string" where
  "episode_id_of R ob = ''node-recovery-'' @ take 24 (canonical_hash (rt_sha R) (VDict [(''task_id'', VStr (ob_task ob)),
     (''node_id'', VStr (ob_node ob)), (''attempt'', VInt (ob_attempt ob)), (''failure_fingerprint'', VStr (ob_fingerprint ob))]))"

definition timer_decision_due :: "episode_row \<Rightarrow> stamp \<Rightarrow> bool" where
  "timer_decision_due e ts \<longleftrightarrow> ep_state e = EWaiting \<and> ep_wakeup e \<noteq> None \<and> stamp_due (ep_wakeup e) ts"

text \<open>The audit reference of a controlled repair that is new to the episode.\<close>

definition consumed_audits :: "episode_row \<Rightarrow> pyval list res" where
  "consumed_audits e = (case dget_or (ep_observation e) ''controlled_source_repair_audit_refs'' (VList []) of
      VList xs \<Rightarrow> if list_all is_str xs then Inr xs
        else Inl (StateConflictError ''recovery episode controlled repair history is invalid'')
    | _ \<Rightarrow> Inl (StateConflictError ''recovery episode controlled repair history is invalid''))"

definition new_audit :: "items \<Rightarrow> pyval list \<Rightarrow> pyval option" where
  "new_audit merged consumed = (let repair = dget (VDict merged) ''controlled_source_repair'';
       audit = (if is_dict repair then dget repair ''audit_ref'' else VNone) in
     if is_str audit \<and> audit \<notin> set consumed then Some audit else None)"

definition dependency_waits :: "string list" where
  "dependency_waits = [''accepted_owner_repairs_pending'', ''accepted_owner_repair_preparation_exhausted'',
     ''accepted_owner_repair_repair_action_unconfigured'', ''accepted_owner_repair_repair_budget_exhausted'']"

text \<open>
  Which decision an update keeps: the budget's end, the fresh one when something changed or a timer fell
  due, otherwise the stored one. The flag says the timer decided.
\<close>

definition updated_decision ::
  "runtime \<Rightarrow> episode_row \<Rightarrow> decision \<Rightarrow> items \<Rightarrow> bool \<Rightarrow> bool \<Rightarrow> stamp \<Rightarrow> stamp \<Rightarrow> (decision \<times> bool) res" where
  "updated_decision R e d merged renewed changed deadline ts =
    (if \<not> renewed \<and> dget (VDict (de_document d)) ''reason_kind'' \<notin> VStr ` set dependency_waits \<and> stamp_due (Some deadline) ts
     then Inr (budget_exhausted_decision, True)
     else if \<not> changed \<and> timer_decision_due e ts
     then Inr (d, \<not> py_eq (ep_decision e) (VDict (de_document d)))
     else if \<not> changed then bindR (decision_of R (ep_decision e) (VDict merged) (ep_stage e)) (\<lambda>d. Inr (d, False))
     else Inr (d, False))"

definition update_episode_if_material ::
  "runtime \<Rightarrow> episode_row \<Rightarrow> observation \<Rightarrow> decision \<Rightarrow> recovery_policy \<Rightarrow> int \<Rightarrow> pyval \<Rightarrow> stamp \<Rightarrow> recovery_ledger
    \<Rightarrow> (episode_row \<times> recovery_ledger) res" where
  "update_episode_if_material R e ob d p policy_revision document ts s =
    bindR (merge_observation R True False (ep_observation e) (VDict (ob_document ob))) (\<lambda>merged0.
    bindR (consumed_audits e) (\<lambda>consumed.
    let audit = new_audit merged0 consumed; renewed = (audit \<noteq> None) in
    if renewed \<and> 64 \<le> length consumed
    then Inl (StateConflictError ''recovery episode controlled repair history is full'')
    else let merged = (case audit of None \<Rightarrow> merged0
        | Some x \<Rightarrow> dict_set ''controlled_source_repair_audit_refs'' (VList (consumed @ [x])) merged0) in
    bindR (evidence_refs (dget (VDict merged) ''evidence_refs'')) (\<lambda>refs.
    let cursor = max (ep_cursor e) (ob_cursor ob);
        observed = (\<not> py_eq (ep_observation e) (VDict merged) \<or> \<not> py_eq (ep_refs e) refs);
        material = (observed \<or> ep_cursor e \<noteq> cursor \<or> ep_task_revision e \<noteq> ob_revision ob);
        repolicy = (ep_policy_revision e \<noteq> policy_revision);
        deadline = (if renewed then stamp_after ts (rp_budget p) else ep_deadline e) in
    bindR (updated_decision R e d merged renewed (material \<or> repolicy) deadline ts) (\<lambda>(d, timer).
    if \<not> material \<and> \<not> repolicy \<and> py_eq (ep_decision e) (VDict (de_document d))
    then bindR (episode_view s e) (\<lambda>e. Inr (e, s))
    else if lease_is_live e ts
    then Inl (StateConflictError ''cannot replace a materially changed leased recovery episode'')
    else bindR (stage_attempts (ep_stages e)) (\<lambda>stages.
      let stage = (case de_stage d of None \<Rightarrow> ep_stage e | Some k \<Rightarrow> Some k);
          kind = (if timer \<and> \<not> material then ''node_recovery.timer_decision_updated'' else ''node_recovery.episode_updated'') in
      case recovery_event kind (ep_task e) (Some (ep_node e))
        [(''episode_id'', VStr (ep_id e)), (''state_revision'', VInt (ep_revision e + 1)), (''category'', VStr (de_category d)),
         (''state'', VStr (recovery_state_name (de_state d))), (''action'', opt_str (de_action d)),
         (''source_event_cursor'', VInt cursor), (''timer_decision'', VBool timer)] ts s of (c, s1) \<Rightarrow>
      let s2 = put_episode (ep_id e) (\<lambda>x. (decided d x)\<lparr>ep_task_revision := ob_revision ob, ep_policy_revision := policy_revision,
            ep_policy := canonical_json document, ep_origin := ob_origin ob, ep_category := de_category d,
            ep_phase := ob_phase ob, ep_observation := canonical_json (VDict merged), ep_refs := canonical_json refs,
            ep_cursor := cursor, ep_attempts := (case stage of None \<Rightarrow> 0 | Some k \<Rightarrow> stage_count stages k), ep_stage := stage,
            ep_revision := ep_revision e + 1, ep_deadline := deadline,
            ep_progress_at := (if material then ts else ep_progress_at e),
            ep_progress := progress_of kind c [(''source_event_cursor'', VInt cursor)], ep_updated := ts\<rparr>) s1
      in episode_now (ep_id e) (record_needs_action_notification e d ts s2))))))"

definition new_episode ::
  "string \<Rightarrow> observation \<Rightarrow> decision \<Rightarrow> recovery_policy \<Rightarrow> int \<Rightarrow> pyval \<Rightarrow> int \<Rightarrow> stamp \<Rightarrow> episode_row" where
  "new_episode k ob d p policy_revision document cursor ts =
    \<lparr>ep_id = k, ep_task = ob_task ob, ep_node = ob_node ob, ep_attempt = ob_attempt ob, ep_fingerprint = ob_fingerprint ob,
     ep_task_revision = ob_revision ob, ep_policy_revision = policy_revision, ep_policy = canonical_json document,
     ep_origin = ob_origin ob, ep_category = de_category d, ep_phase = ob_phase ob,
     ep_observation = canonical_json (VDict (ob_document ob)), ep_decision = canonical_json (VDict (de_document d)),
     ep_refs = canonical_json (ob_refs ob), ep_cursor = ob_cursor ob, ep_state = de_state d, ep_action = de_action d,
     ep_owner = de_owner d, ep_permission = de_authorization d, ep_attempts = 0, ep_stage = de_stage d,
     ep_stages = canonical_json (VDict []), ep_deadline = stamp_after ts (rp_budget p), ep_wakeup = de_wakeup d,
     ep_progress_at = ts, ep_progress = progress_of ''node_recovery.episode_recorded'' cursor
       [(''source_event_cursor'', VInt (ob_cursor ob)), (''phase'', VStr (ob_phase ob))],
     ep_revision = 1, ep_holder = None, ep_epoch = 0, ep_lease = 0, ep_expires = None, ep_repair_request = None,
     ep_repair_task = None, ep_deployed = None, ep_created = ts, ep_updated = ts\<rparr>"

definition same_failure :: "observation \<Rightarrow> episode_row \<Rightarrow> bool" where
  "same_failure ob e \<longleftrightarrow> ep_task e = ob_task ob \<and> ep_node e = ob_node ob \<and> ep_attempt e = ob_attempt ob
     \<and> ep_fingerprint e = ob_fingerprint ob"

definition record_episode ::
  "runtime \<Rightarrow> pyval \<Rightarrow> pyval \<Rightarrow> int \<Rightarrow> recovery_ledger \<Rightarrow> (episode_row \<times> recovery_ledger) res" where
  "record_episode R raw decision now s =
    bindR (observed_failure R raw) (\<lambda>ob.
    bindR (decision_of R decision (VDict (ob_document ob)) None) (\<lambda>d.
    bindR (task_of (ob_task ob) s) (\<lambda>t.
    bindR (node_of (ob_task ob) (ob_node ob) s) (\<lambda>n.
    if t_revision t \<noteq> ob_revision ob then Inl (StateConflictError ''recovery observation task revision is stale'')
    else if n_attempt n \<noteq> ob_attempt ob then Inl (StateConflictError ''recovery observation node attempt is stale'')
    else bindR (policy_for_task (ob_task ob) s) (\<lambda>(p, policy_revision, document).
    let ts = utc now; k = episode_id_of R ob in
    case find (same_failure ob) (episodes s) of
      Some e \<Rightarrow> update_episode_if_material R e ob d p policy_revision document ts s
    | None \<Rightarrow> (case recovery_event ''node_recovery.episode_recorded'' (ob_task ob) (Some (ob_node ob))
          [(''episode_id'', VStr k), (''node_attempt'', VInt (ob_attempt ob)), (''failure_fingerprint'', VStr (ob_fingerprint ob)),
           (''category'', VStr (de_category d)), (''state'', VStr (recovery_state_name (de_state d))),
           (''action'', opt_str (de_action d)), (''source_event_cursor'', VInt (ob_cursor ob))] ts s of (cursor, s1) \<Rightarrow>
        let e = new_episode k ob d p policy_revision document cursor ts in
        bindR (row_add ep_id e (episodes s1)) (\<lambda>rows.
          episode_now k (record_needs_action_notification e d ts (s1\<lparr>episodes := rows\<rparr>)))))))))"

section \<open>Superseded attempts\<close>

definition unsettled :: "string \<Rightarrow> recovery_ledger \<Rightarrow> bool" where
  "unsettled k s \<longleftrightarrow> list_ex (\<lambda>a. ac_episode a = k \<and> ac_state a \<in> {ActExecuting, ActUnknown}) (actions s)"

text \<open>The first start of the node's current attempt after the episode was observed.\<close>

definition later_start :: "episode_row \<Rightarrow> node_row \<Rightarrow> recovery_ledger \<Rightarrow> int option" where
  "later_start e n s = map_option (int \<circ> fst) (find (\<lambda>(i, x). e_task x = Some (ep_task e) \<and> e_node x = Some (ep_node e)
     \<and> e_type x = ''node.started'' \<and> ep_cursor e < int i \<and> py_eq (dget (e_payload x) ''attempt'') (VInt (n_attempt n)))
     (enumerate 1 (events (ledger s))))"

definition supersede_episode ::
  "runtime \<Rightarrow> task_row \<Rightarrow> stamp \<Rightarrow> episode_row \<times> node_row \<Rightarrow> string list \<times> recovery_ledger \<Rightarrow> (string list \<times> recovery_ledger) res" where
  "supersede_episode R t ts en acc = (case (en, acc) of ((e, n), (done, s)) \<Rightarrow>
    if ep_permission e \<or> lease_is_live e ts \<or> n_state n = NCancelled \<or> unsettled (ep_id e) s then Inr (done, s)
    else case later_start e n s of None \<Rightarrow> Inr (done, s)
    | Some started \<Rightarrow>
        if \<not> is_dict (ep_observation e) then Inl (StateConflictError ''recovery episode observation is invalid'')
        else let observation = dict_merge (items_of (ep_observation e)) [(''task_revision'', VInt (t_revision t)),
            (''superseded_by_attempt'', VInt (n_attempt n)), (''superseded_start_event_cursor'', VInt started)];
          document = [(''category'', VStr (ep_category e)), (''state'', VStr ''resolved''), (''action'', VNone),
            (''reason_kind'', VStr ''attempt_superseded''), (''owner'', VStr ''authority''),
            (''requires_authorization'', VBool False), (''next_wakeup_at'', VNone)] in
        bindR (decision_of R (VDict document) (VDict observation) None) (\<lambda>d.
        case recovery_event ''node_recovery.episode_superseded'' (ep_task e) (Some (ep_node e))
          [(''episode_id'', VStr (ep_id e)), (''node_attempt'', VInt (ep_attempt e)), (''superseded_by_attempt'', VInt (n_attempt n)),
           (''started_event_cursor'', VInt started), (''state_revision'', VInt (ep_revision e + 1)),
           (''reason_kind'', VStr ''attempt_superseded'')] ts s of (c, s1) \<Rightarrow>
        Inr (done @ [ep_id e], put_episode (ep_id e) (\<lambda>x. released x\<lparr>ep_task_revision := t_revision t, ep_phase := ''attempt_superseded'',
          ep_observation := canonical_json (VDict observation), ep_decision := canonical_json (VDict (de_document d)),
          ep_cursor := max (ep_cursor e) started, ep_state := EResolved, ep_action := None, ep_owner := ''authority'',
          ep_permission := False, ep_stage := None, ep_wakeup := None, ep_revision := ep_revision e + 1, ep_progress_at := ts,
          ep_progress := progress_of ''node_recovery.episode_superseded'' c [(''started_event_cursor'', VInt started)],
          ep_updated := ts\<rparr>) s1)))"

fun supersede_episodes ::
  "runtime \<Rightarrow> task_row \<Rightarrow> stamp \<Rightarrow> (episode_row \<times> node_row) list \<Rightarrow> string list \<times> recovery_ledger \<Rightarrow> (string list \<times> recovery_ledger) res" where
  "supersede_episodes R t ts [] acc = Inr acc"
| "supersede_episodes R t ts (en # ens) acc = bindR (supersede_episode R t ts en acc) (supersede_episodes R t ts ens)"

definition superseded_rows :: "string \<Rightarrow> recovery_ledger \<Rightarrow> (episode_row \<times> node_row) list" where
  "superseded_rows k s = take 100 (sort_key (\<lambda>(e, n). (ep_node e, ep_attempt e, ep_id e)) (List.map_filter (\<lambda>e.
     case row_get node_key (ep_task e, ep_node e) (nodes (ledger s)) of
       Some n \<Rightarrow> if ep_task e = k \<and> ep_state e \<in> {EWaiting, EReady, ENeedsAction} \<and> ep_attempt e < n_attempt n
         then Some (e, n) else None
     | None \<Rightarrow> None) (episodes s)))"

definition reconcile_superseded_attempts ::
  "runtime \<Rightarrow> string \<Rightarrow> int \<Rightarrow> int \<Rightarrow> recovery_ledger \<Rightarrow> (string list \<times> recovery_ledger) res" where
  "reconcile_superseded_attempts R task epoch now s =
    bindR (rec_text ''task_id'' (VStr task)) (\<lambda>task.
    bindR (at_least_one ''coordinator_epoch'' (VInt epoch)) (\<lambda>_.
    bindR (assert_active_coordinator epoch (ledger s)) (\<lambda>_.
    bindR (task_of task s) (\<lambda>t.
    if t_state t \<in> {TPaused, TCancelled} then Inr ([], s)
    else supersede_episodes R t (utc now) (superseded_rows task s) ([], s)))))"

end
