(* ===== verification/Recovery_Actions.thy ===== *)
theory Recovery_Actions
  imports Recovery_Ops
begin

text \<open>
  The lease on an episode and the life of an action (\<open>node_recovery_store.py\<close> lines 577 to 1767): an
  episode is claimed, one action is intended under the lease before any effect, its receipt settles it,
  and an intent that a restart left without a receipt is unknown until its journal receipt is found.

  When \<open>begin_action\<close> meets the user's pause or an exhausted budget it writes the stopped episode and
  then raises, so the transaction rolls the write back: here both are plain errors.
\<close>

section \<open>Due work\<close>

text \<open>The columns are compared as text, like SQLite does.\<close>

definition due_episode :: "string option \<Rightarrow> stamp \<Rightarrow> episode_row \<Rightarrow> bool" where
  "due_episode task ts e \<longleftrightarrow> ep_state e \<in> {EReady, EWaiting} \<and> ts < ep_deadline e
     \<and> (case ep_wakeup e of None \<Rightarrow> True | Some w \<Rightarrow> w \<le> ts)
     \<and> (case task of None \<Rightarrow> True | Some k \<Rightarrow> ep_task e = k)"

definition list_due :: "runtime \<Rightarrow> pyval \<Rightarrow> int \<Rightarrow> string option \<Rightarrow> int \<Rightarrow> recovery_ledger \<Rightarrow> episode_row list res" where
  "list_due R at_time limit task now s =
    (if limit < 1 \<or> 500 < limit then Inl (ValueError ''recovery due limit must be between 1 and 500'')
     else bindR (timestamp_of ''now'' at_time) (\<lambda>given. let ts = (case given of None \<Rightarrow> utc now | Some t \<Rightarrow> t) in
       bindR (case task of None \<Rightarrow> Inr () | Some k \<Rightarrow> bindR (rec_text ''task_id'' (VStr k)) (\<lambda>_. Inr ())) (\<lambda>_.
       mapR (episode_view s) (take (nat limit) (sort_key (\<lambda>e. (case ep_wakeup e of None \<Rightarrow> ep_created e | Some w \<Rightarrow> w, ep_id e))
         (filter (due_episode task ts) (episodes s)))))))"

definition list_enabled_tasks :: "int \<Rightarrow> string option \<Rightarrow> recovery_ledger \<Rightarrow> (policy_row list \<times> string option) res" where
  "list_enabled_tasks limit cursor s =
    (if limit < 1 \<or> 100 < limit then Inl (ValueError ''recovery enabled-task limit must be between 1 and 100'')
     else bindR (case cursor of None \<Rightarrow> Inr None | Some c \<Rightarrow> bindR (rec_text ''cursor'' (VStr c)) (\<lambda>t. Inr (Some t))) (\<lambda>after.
       let rows = take (nat limit + 1) (sort_key np_task (filter (\<lambda>r. py_eq (dget (np_policy r) ''enabled'') (VInt 1)
             \<and> (case after of None \<Rightarrow> True | Some c \<Rightarrow> c < np_task r)) (policies s)));
           visible = take (nat limit) rows
       in Inr (visible, if nat limit < length rows then Some (np_task (last visible)) else None)))"

section \<open>Leases\<close>

definition recovery_lease :: "recovery_ledger \<Rightarrow> int \<times> recovery_ledger" where
  "recovery_lease s = (case next_lease_epoch (ledger s) of (lease, l) \<Rightarrow> (lease, s\<lparr>ledger := l\<rparr>))"

definition lease_payload :: "episode_row \<Rightarrow> items" where
  "lease_payload e = [(''episode_id'', VStr (ep_id e)), (''state_revision'', VInt (ep_revision e)), (''owner_id'', opt_str (ep_holder e)),
     (''coordinator_epoch'', VInt (ep_epoch e)), (''lease_epoch'', VInt (ep_lease e)), (''lease_expires_at'', opt_stamp (ep_expires e))]"

definition claimed_episode :: "string \<Rightarrow> int \<Rightarrow> int \<Rightarrow> int \<Rightarrow> stamp \<Rightarrow> episode_row \<Rightarrow> episode_row" where
  "claimed_episode holder epoch lease seconds ts e = e\<lparr>ep_phase := ''claimed'', ep_revision := ep_revision e + 1,
     ep_holder := Some holder, ep_epoch := epoch, ep_lease := lease, ep_expires := Some (stamp_after ts seconds), ep_updated := ts\<rparr>"

definition renewed_episode :: "int \<Rightarrow> stamp \<Rightarrow> episode_row \<Rightarrow> episode_row" where
  "renewed_episode seconds ts e = e\<lparr>ep_revision := ep_revision e + 1, ep_expires := Some (stamp_after ts seconds), ep_updated := ts\<rparr>"

text \<open>The arguments every fenced operation checks before its transaction.\<close>

definition fence_arguments :: "string \<Rightarrow> string \<Rightarrow> int \<Rightarrow> int \<Rightarrow> int \<Rightarrow> (string \<times> string) res" where
  "fence_arguments episode holder epoch revision attempt =
    bindR (rec_text ''episode_id'' (VStr episode)) (\<lambda>k. bindR (rec_text ''owner_id'' (VStr holder)) (\<lambda>w.
    bindR (at_least_one ''coordinator_epoch'' (VInt epoch)) (\<lambda>_. bindR (at_least_one ''expected_revision'' (VInt revision)) (\<lambda>_.
    bindR (nonnegative_int ''expected_node_attempt'' (VInt attempt)) (\<lambda>_. Inr (k, w))))))"

definition claim_episode :: "string \<Rightarrow> int \<Rightarrow> int \<Rightarrow> stamp \<Rightarrow> episode_row \<Rightarrow> recovery_ledger \<Rightarrow> (episode_row option \<times> recovery_ledger) res" where
  "claim_episode holder epoch seconds ts e s = (case recovery_lease s of (lease, s1) \<Rightarrow>
     let e' = claimed_episode holder epoch lease seconds ts e;
         s2 = put_episode (ep_id e) (claimed_episode holder epoch lease seconds ts) s1;
         s3 = snd (recovery_event ''node_recovery.episode_claimed'' (ep_task e) (Some (ep_node e)) (lease_payload e') ts s2)
     in bindR (episode_now (ep_id e) s3) (\<lambda>(x, s3). Inr (Some x, s3)))"

definition claim_due ::
  "string \<Rightarrow> string \<Rightarrow> int \<Rightarrow> int \<Rightarrow> int \<Rightarrow> int \<Rightarrow> int \<Rightarrow> recovery_ledger \<Rightarrow> (episode_row option \<times> recovery_ledger) res" where
  "claim_due episode holder epoch expected attempt seconds now s =
    bindR (fence_arguments episode holder epoch expected attempt) (\<lambda>(episode, holder).
    bindR (lease_seconds_ok seconds) (\<lambda>_.
    bindR (assert_active_coordinator epoch (ledger s)) (\<lambda>_.
    bindR (episode_of episode s) (\<lambda>e.
    if ep_revision e \<noteq> expected then Inl (StateConflictError ''recovery episode revision is stale'')
    else bindR (assert_episode_attempt attempt e s) (\<lambda>_.
    bindR (task_of (ep_task e) s) (\<lambda>t.
    bindR (node_of (ep_task e) (ep_node e) s) (\<lambda>n. let ts = utc now in
    if user_fence t n then bindR (suspend_for_user_fence e ts s) (\<lambda>(_, s'). Inr (None, s'))
    else if t_revision t \<noteq> ep_task_revision e then Inl (StateConflictError ''recovery task revision changed'')
    else bindR (policy_for_task (ep_task e) s) (\<lambda>(p, revision, _).
      if \<not> rp_enabled p \<or> revision \<noteq> ep_policy_revision e then Inr (None, s)
      else if ep_state e \<notin> {EReady, EWaiting} then Inr (None, s)
      else if stamp_due (Some (ep_deadline e)) ts then bindR (exhaust_budget e ts s) (\<lambda>(x, s'). Inr (Some x, s'))
      else if \<not> stamp_due (ep_wakeup e) ts then Inr (None, s)
      else if lease_is_live e ts then
        (if ep_holder e = Some holder \<and> ep_epoch e = epoch then bindR (episode_view s e) (\<lambda>x. Inr (Some x, s))
         else Inl (StateConflictError ''recovery episode is leased by another owner''))
      else claim_episode holder epoch seconds ts e s))))))))"

definition renew_episode ::
  "string \<Rightarrow> string \<Rightarrow> int \<Rightarrow> int \<Rightarrow> int \<Rightarrow> int \<Rightarrow> int \<Rightarrow> int \<Rightarrow> recovery_ledger \<Rightarrow> (episode_row \<times> recovery_ledger) res" where
  "renew_episode episode holder epoch lease expected attempt seconds now s =
    bindR (fence_arguments episode holder epoch expected attempt) (\<lambda>(episode, holder).
    bindR (at_least_one ''lease_epoch'' (VInt lease)) (\<lambda>_.
    bindR (lease_seconds_ok seconds) (\<lambda>_.
    bindR (episode_of episode s) (\<lambda>e.
    if ep_revision e \<noteq> expected then Inl (StateConflictError ''recovery episode revision is stale'')
    else bindR (assert_episode_attempt attempt e s) (\<lambda>_.
    bindR (task_of (ep_task e) s) (\<lambda>t.
    bindR (node_of (ep_task e) (ep_node e) s) (\<lambda>n. let ts = utc now in
    if user_fence t n then suspend_for_user_fence e ts s
    else if t_revision t \<noteq> ep_task_revision e then Inl (StateConflictError ''recovery task revision changed'')
    else bindR (assert_episode_lease holder epoch lease ts e s) (\<lambda>_.
      bindR (policy_for_task (ep_task e) s) (\<lambda>(p, revision, _).
      if \<not> rp_enabled p \<or> revision \<noteq> ep_policy_revision e
      then Inl (StateConflictError ''recovery policy changed while the episode was leased'')
      else let s1 = put_episode episode (renewed_episode seconds ts) s;
          s2 = snd (recovery_event ''node_recovery.episode_lease_renewed'' (ep_task e) (Some (ep_node e))
            (lease_payload (renewed_episode seconds ts e)) ts s1)
        in episode_now episode s2)))))))))"

section \<open>Intents\<close>

text \<open>The continuation authorization an intent needs, recomputed from the current ledger.\<close>

definition expected_continuation ::
  "runtime \<Rightarrow> pyval \<Rightarrow> int \<Rightarrow> episode_row \<Rightarrow> items \<Rightarrow> recovery_ledger \<Rightarrow> items res" where
  "expected_continuation R document revision e input s =
    bindR (split_stored_policy document) (\<lambda>(public, _, capture).
    case capture of None \<Rightarrow> Inl (ValueError ''continuation authorization capture is absent'')
    | Some c \<Rightarrow> if \<not> is_dict (ep_observation e) then Inl (ValueError ''recovery observation is invalid'')
      else bindR (continuation_task_snapshot (ep_task e) s) (\<lambda>task.
        action_authorization R public (VDict c) revision task (VStr (ep_node e))
          (VDict (filter (\<lambda>kv. fst kv \<noteq> ''continuation_authorization'') input)) False False
          (dget (ep_observation e) ''observation_available'' \<noteq> VBool False)))"

definition continuation_context ::
  "runtime \<Rightarrow> recovery_policy \<Rightarrow> pyval \<Rightarrow> int \<Rightarrow> episode_row \<Rightarrow> string \<Rightarrow> items \<Rightarrow> recovery_ledger \<Rightarrow> items option res" where
  "continuation_context R p document revision e action input s =
    (let raw = dget (VDict input) ''continuation_authorization'' in
     if rp_continuation p \<noteq> None \<and> action \<in> set SAFE_ACTIONS then
       (if \<not> is_dict raw then Inl (StateConflictError ''continuation authorization is absent from the action intent'')
        else case expected_continuation R document revision e input s of
          Inl _ \<Rightarrow> Inl (StateConflictError ''continuation authorization is invalid'')
        | Inr expected \<Rightarrow>
            if \<not> flag (VDict expected) ''authorized'' \<or> canonical_json raw \<noteq> canonical_json (VDict expected)
            then Inl (StateConflictError ''continuation authorization changed before action intent'')
            else Inr (Some expected))
     else if raw \<noteq> VNone then Inl (StateConflictError ''continuation authorization is not applicable to this action'')
     else Inr None)"

definition action_id_of :: "runtime \<Rightarrow> string \<Rightarrow> string \<Rightarrow> string \<Rightarrow> string" where
  "action_id_of R episode key fp = ''node-recovery-action-'' @ take 24 (canonical_hash (rt_sha R)
     (VDict [(''episode_id'', VStr episode), (''action_key'', VStr key), (''action_fingerprint'', VStr fp)]))"

definition new_action :: "runtime \<Rightarrow> episode_row \<Rightarrow> string \<Rightarrow> string \<Rightarrow> string \<Rightarrow> items \<Rightarrow> int \<Rightarrow> int \<Rightarrow> stamp \<Rightarrow> action_row" where
  "new_action R e key stage fp input epoch lease ts =
    \<lparr>ac_id = action_id_of R (ep_id e) key fp, ac_episode = ep_id e, ac_task = ep_task e, ac_node = ep_node e,
     ac_attempt = ep_attempt e, ac_key = key, ac_stage = stage, ac_epoch = epoch, ac_lease = lease, ac_fingerprint = fp,
     ac_input = canonical_json (VDict input), ac_state = ActExecuting, ac_receipt = None, ac_dispatched = False,
     ac_created = ts, ac_updated = ts, ac_settled = None\<rparr>"

definition intend_action ::
  "runtime \<Rightarrow> episode_row \<Rightarrow> string \<Rightarrow> action_row \<Rightarrow> items option \<Rightarrow> stamp \<Rightarrow> recovery_ledger
    \<Rightarrow> ((action_row \<times> episode_row \<times> bool) \<times> recovery_ledger) res" where
  "intend_action R e action a continuation ts s = bindR (row_add ac_id a (actions s)) (\<lambda>rows.
     case recovery_event ''node_recovery.action_intended'' (ep_task e) (Some (ep_node e))
       [(''episode_id'', VStr (ep_id e)), (''action_id'', VStr (ac_id a)), (''action_key'', VStr (ac_key a)),
        (''action'', VStr action), (''stage_key'', VStr (ac_stage a)), (''action_fingerprint'', VStr (ac_fingerprint a)),
        (''state_revision'', VInt (ep_revision e + 1))] ts (s\<lparr>actions := rows\<rparr>) of (cursor, s1) \<Rightarrow>
     let decision = dict_merge (items_of (ep_decision e))
           (case continuation of None \<Rightarrow> [] | Some c \<Rightarrow> [(''continuation_authorization'', VDict c)]);
         s2 = put_episode (ep_id e) (\<lambda>x. x\<lparr>ep_phase := ''action_intent'', ep_revision := ep_revision e + 1, ep_progress_at := ts,
           ep_progress := progress_of ''node_recovery.action_intended'' cursor [(''action_id'', VStr (ac_id a)),
             (''action_key'', VStr (ac_key a)), (''action'', VStr action), (''stage_key'', VStr (ac_stage a))],
           ep_decision := canonical_json (VDict decision), ep_updated := ts\<rparr>) s1
     in bindR (episode_now (ep_id e) s2) (\<lambda>(x, s2). Inr ((a, x, False), s2)))"

text \<open>An intent already recorded under the key or the fingerprint, if it is this one.\<close>

definition existing_intent :: "string \<Rightarrow> string \<Rightarrow> string \<Rightarrow> string \<Rightarrow> items \<Rightarrow> recovery_ledger \<Rightarrow> action_row option res" where
  "existing_intent episode key stage fp input s = (case row_get ac_key key (actions s) of
      Some a \<Rightarrow> if ac_episode a \<noteq> episode \<or> ac_fingerprint a \<noteq> fp \<or> \<not> py_eq (ac_input a) (VDict input)
        then Inl (StateConflictError ''recovery action key conflicts with existing intent'') else Inr (Some a)
    | None \<Rightarrow> (case find (\<lambda>a. ac_episode a = episode \<and> ac_fingerprint a = fp) (actions s) of
        Some a \<Rightarrow> if ac_stage a \<noteq> stage \<or> \<not> py_eq (ac_input a) (VDict input)
          then Inl (StateConflictError ''recovery action fingerprint conflicts with existing intent'') else Inr (Some a)
      | None \<Rightarrow> Inr None))"

definition awaits_approval :: "string \<Rightarrow> recovery_ledger \<Rightarrow> bool" where
  "awaits_approval task s \<longleftrightarrow> list_ex (\<lambda>y. y_task y = task \<and> y_decision y = None) (approvals (ledger s))"

text \<open>The action of the episode, authorised by the policy and at the planned stage.\<close>

definition planned_action :: "episode_row \<Rightarrow> string \<Rightarrow> recovery_policy \<Rightarrow> string res" where
  "planned_action e stage p = (case ep_action e of
      None \<Rightarrow> Inl (StateConflictError ''recovery episode has no currently authorized action'')
    | Some action \<Rightarrow> if \<not> allows p action
        then Inl (StateConflictError ''recovery episode has no currently authorized action'')
        else if ep_stage e \<noteq> Some stage
        then Inl (StateConflictError ''recovery action stage does not match the planned stage'') else Inr action)"

definition budget_left :: "episode_row \<Rightarrow> string \<Rightarrow> recovery_policy \<Rightarrow> stamp \<Rightarrow> unit res" where
  "budget_left e stage p ts = bindR (stage_attempts (ep_stages e)) (\<lambda>stages.
     if rp_attempts p \<le> stage_count stages stage \<or> stamp_due (Some (ep_deadline e)) ts
     then Inl (StateConflictError ''recovery action budget is exhausted'') else Inr ())"

definition begin_action ::
  "runtime \<Rightarrow> string \<Rightarrow> string \<Rightarrow> string \<Rightarrow> pyval \<Rightarrow> string \<Rightarrow> int \<Rightarrow> int \<Rightarrow> int \<Rightarrow> int \<Rightarrow> int \<Rightarrow> recovery_ledger
    \<Rightarrow> ((action_row \<times> episode_row \<times> bool) \<times> recovery_ledger) res" where
  "begin_action R episode key fp input holder epoch lease expected attempt now s =
    bindR (rec_text ''action_key'' (VStr key)) (\<lambda>key.
    bindR (fingerprint ''action_fingerprint'' (VStr fp)) (\<lambda>fp.
    bindR (bounded_document R ''action_input'' input) (\<lambda>input.
    bindR (rec_text ''action_input.stage_key'' (dget (VDict input) ''stage_key'')) (\<lambda>stage.
    bindR (fence_arguments episode holder epoch expected attempt) (\<lambda>(episode, holder).
    bindR (at_least_one ''lease_epoch'' (VInt lease)) (\<lambda>_.
    bindR (episode_of episode s) (\<lambda>e.
    if ep_revision e \<noteq> expected then Inl (StateConflictError ''recovery episode revision is stale'')
    else bindR (assert_episode_attempt attempt e s) (\<lambda>_.
    bindR (task_of (ep_task e) s) (\<lambda>t.
    bindR (node_of (ep_task e) (ep_node e) s) (\<lambda>n. let ts = utc now in
    if user_fence t n then Inl (StateConflictError ''user pause or cancellation prevents recovery action'')
    else if awaits_approval (ep_task e) s then Inl (StateConflictError ''pending approval prevents recovery action'')
    else if t_revision t \<noteq> ep_task_revision e then Inl (StateConflictError ''recovery task revision changed'')
    else bindR (assert_episode_lease holder epoch lease ts e s) (\<lambda>_.
    bindR (policy_for_task (ep_task e) s) (\<lambda>(p, revision, document).
    if \<not> rp_enabled p \<or> revision \<noteq> ep_policy_revision e
    then Inl (StateConflictError ''recovery policy changed while the episode was leased'')
    else bindR (planned_action e stage p) (\<lambda>action.
    bindR (continuation_context R p document revision e action input s) (\<lambda>continuation.
    bindR (budget_left e stage p ts) (\<lambda>_.
    bindR (existing_intent episode key stage fp input s) (\<lambda>existing. case existing of
      Some a \<Rightarrow> bindR (episode_view s e) (\<lambda>e. Inr ((a, e, True), s))
    | None \<Rightarrow> intend_action R e action (new_action R e key stage fp input epoch lease ts) continuation ts s))))))))))))))))"

section \<open>Receipts\<close>

text \<open>The writes of a receipt: the event, the action, the episode and the question to the user.\<close>

definition store_receipt ::
  "string \<Rightarrow> items \<Rightarrow> action_state \<Rightarrow> string \<Rightarrow> (int \<Rightarrow> items) \<Rightarrow> episode_row \<Rightarrow> action_row \<Rightarrow> items \<Rightarrow> bool \<Rightarrow> bool
    \<Rightarrow> decision \<Rightarrow> string \<Rightarrow> items \<Rightarrow> items \<times> bool \<times> pyval \<times> int \<Rightarrow> stamp \<Rightarrow> recovery_ledger
    \<Rightarrow> ((action_row \<times> episode_row \<times> bool) \<times> recovery_ledger) res" where
  "store_receipt kind payload st phase extra e a receipt dispatched progressed d stage stages m ts s =
    (case m of (merged, applied, refs, merged_cursor) \<Rightarrow>
     case recovery_event kind (ep_task e) (Some (ep_node e)) payload ts s of (cursor, s1) \<Rightarrow>
     let s2 = put_action (ac_id a) (settled_row st receipt dispatched ts) s1;
         s3 = put_episode (ep_id e) (settled_episode d phase stage stages merged refs merged_cursor (progressed \<or> applied)
           (canonical_json (VDict ((''kind'', VStr kind) # extra cursor))) ts) s2;
         s4 = record_needs_action_notification e d ts s3
     in bindR (episode_now (ep_id e) s4) (\<lambda>(x, s4). Inr ((settled_row st receipt dispatched ts a, x, False), s4)))"

text \<open>
  The part \<open>settle_action\<close> and \<open>reconcile_action_receipt\<close> have in common: the next decision, the charge
  to the stage, and the writes.
\<close>

definition settle_receipt ::
  "runtime \<Rightarrow> string \<Rightarrow> (decision \<Rightarrow> items) \<Rightarrow> action_state \<Rightarrow> string \<Rightarrow> (bool \<Rightarrow> int \<Rightarrow> items) \<Rightarrow> episode_row \<Rightarrow> action_row
    \<Rightarrow> items \<Rightarrow> pyval \<Rightarrow> bool \<Rightarrow> bool \<Rightarrow> stamp \<Rightarrow> recovery_ledger \<Rightarrow> ((action_row \<times> episode_row \<times> bool) \<times> recovery_ledger) res" where
  "settle_receipt R kind payload st phase extra e a receipt decision dispatched progressed ts s =
    bindR (merged_receipt R e receipt) (\<lambda>m.
    bindR (decision_of R decision VNone (ep_stage e)) (\<lambda>d.
    bindR (task_of (ep_task e) s) (\<lambda>t.
    bindR (node_of (ep_task e) (ep_node e) s) (\<lambda>n.
    bindR (policy_from_document (ep_policy e)) (\<lambda>p.
    bindR (stage_attempts (ep_stages e)) (\<lambda>stages0.
    let stages = charge_stage dispatched (ac_stage a) stages0;
        d1 = (if user_fence t n then suspended_decision else if st = ActUnknown then unknown_effects_decision else d);
        advance = (dispatched \<and> st = ActCompleted \<and> flag (VDict receipt) ''stage_succeeded'')
    in bindR (next_plan R (rp_attempts p) stages d1 advance a) (\<lambda>(d2, stage).
      store_receipt kind (payload d2) st phase (extra (fst (snd m))) e a receipt dispatched progressed d2 stage stages m ts s)))))))"

definition own_action :: "string \<Rightarrow> string \<Rightarrow> recovery_ledger \<Rightarrow> action_row res" where
  "own_action episode key s = (case row_get ac_key key (actions s) of
      None \<Rightarrow> Inl (StateConflictError ''recovery receipt does not match this episode intent'')
    | Some a \<Rightarrow> if ac_episode a \<noteq> episode
        then Inl (StateConflictError ''recovery receipt does not match this episode intent'') else Inr a)"

definition settle_action ::
  "runtime \<Rightarrow> string \<Rightarrow> string \<Rightarrow> string \<Rightarrow> int \<Rightarrow> int \<Rightarrow> int \<Rightarrow> int \<Rightarrow> pyval \<Rightarrow> pyval \<Rightarrow> string \<Rightarrow> bool \<Rightarrow> bool \<Rightarrow> int
    \<Rightarrow> recovery_ledger \<Rightarrow> ((action_row \<times> episode_row \<times> bool) \<times> recovery_ledger) res" where
  "settle_action R episode key holder epoch lease expected attempt receipt decision receipt_state dispatched progressed now s =
    bindR (fence_arguments episode holder epoch expected attempt) (\<lambda>(episode, holder).
    bindR (rec_text ''action_key'' (VStr key)) (\<lambda>key.
    bindR (at_least_one ''lease_epoch'' (VInt lease)) (\<lambda>_.
    bindR (require (ValueError ''recovery receipt_state must be completed or unknown'')
      (map_of [(''completed'', ActCompleted), (''unknown'', ActUnknown)] receipt_state)) (\<lambda>st.
    bindR (bounded_document R ''action receipt'' receipt) (\<lambda>receipt.
    bindR (decision_of R decision VNone None) (\<lambda>_.
    bindR (episode_of episode s) (\<lambda>e. let ts = utc now in
    if ep_revision e \<noteq> expected then Inl (StateConflictError ''recovery episode revision is stale'')
    else if ep_attempt e \<noteq> attempt then Inl (StateConflictError ''recovery episode attempt is stale'')
    else bindR (assert_episode_lease holder epoch lease ts e s) (\<lambda>_.
    bindR (own_action episode key s) (\<lambda>a.
    if ac_state a \<noteq> ActExecuting then
      (if ac_state a = st \<and> same_receipt a receipt \<and> ac_dispatched a = dispatched
       then bindR (episode_view s e) (\<lambda>e. Inr ((a, e, True), s))
       else Inl (StateConflictError ''recovery action receipt conflicts with prior settlement''))
    else settle_receipt R ''node_recovery.action_settled''
      (\<lambda>d. [(''episode_id'', VStr episode), (''action_id'', VStr (ac_id a)), (''action_key'', VStr key),
         (''stage_key'', VStr (ac_stage a)), (''receipt_state'', VStr receipt_state), (''effect_dispatched'', VBool dispatched),
         (''observation_patch_keys'', patch_keys receipt), (''state_revision'', VInt (expected + 1)),
         (''next_state'', VStr (recovery_state_name (de_state d))), (''next_action'', opt_str (de_action d))])
      st (if st = ActUnknown then ''action_unknown'' else ''action_settled'')
      (\<lambda>applied cursor. [(''event_cursor'', VInt cursor), (''action_id'', VStr (ac_id a)), (''action_key'', VStr key),
         (''receipt_state'', VStr receipt_state), (''observation_patch_applied'', VBool applied)])
      e a receipt decision dispatched progressed ts s)))))))))"

definition reconcile_action_receipt ::
  "runtime \<Rightarrow> string \<Rightarrow> string \<Rightarrow> string \<Rightarrow> int \<Rightarrow> int \<Rightarrow> int \<Rightarrow> int \<Rightarrow> int \<Rightarrow> pyval \<Rightarrow> pyval \<Rightarrow> bool \<Rightarrow> bool \<Rightarrow> int
    \<Rightarrow> recovery_ledger \<Rightarrow> ((action_row \<times> episode_row \<times> bool) \<times> recovery_ledger) res" where
  "reconcile_action_receipt R episode key fp epoch intent_epoch intent_lease expected attempt receipt decision dispatched
     progressed now s =
    bindR (rec_text ''episode_id'' (VStr episode)) (\<lambda>episode.
    bindR (rec_text ''action_key'' (VStr key)) (\<lambda>key.
    bindR (fingerprint ''action_fingerprint'' (VStr fp)) (\<lambda>fp.
    bindR (at_least_one ''coordinator_epoch'' (VInt epoch)) (\<lambda>_.
    bindR (at_least_one ''expected_intent_coordinator_epoch'' (VInt intent_epoch)) (\<lambda>_.
    bindR (at_least_one ''expected_intent_lease_epoch'' (VInt intent_lease)) (\<lambda>_.
    bindR (at_least_one ''expected_revision'' (VInt expected)) (\<lambda>_.
    bindR (nonnegative_int ''expected_node_attempt'' (VInt attempt)) (\<lambda>_.
    bindR (bounded_document R ''reconciled action receipt'' receipt) (\<lambda>receipt.
    bindR (assert_active_coordinator epoch (ledger s)) (\<lambda>_.
    bindR (episode_of episode s) (\<lambda>e. let ts = utc now in
    if ep_revision e \<noteq> expected then Inl (StateConflictError ''recovery episode revision is stale'')
    else if ep_attempt e \<noteq> attempt then Inl (StateConflictError ''recovery episode attempt is stale'')
    else bindR (own_action episode key s) (\<lambda>a.
    if ac_fingerprint a \<noteq> fp \<or> ac_epoch a \<noteq> intent_epoch \<or> ac_lease a \<noteq> intent_lease
    then Inl (StateConflictError ''reconciled receipt does not match the original fenced intent'')
    else if ac_state a = ActCompleted then
      (if same_receipt a receipt \<and> ac_dispatched a = dispatched then bindR (episode_view s e) (\<lambda>e. Inr ((a, e, True), s))
       else Inl (StateConflictError ''reconciled receipt conflicts with prior completion''))
    else if ac_state a \<noteq> ActUnknown
    then Inl (StateConflictError ''only an interrupted unknown action may be reconciled'')
    else settle_receipt R ''node_recovery.action_reconciled''
      (\<lambda>_. [(''episode_id'', VStr episode), (''action_id'', VStr (ac_id a)), (''action_key'', VStr key),
         (''previous_state'', VStr ''unknown''), (''intent_coordinator_epoch'', VInt intent_epoch),
         (''intent_lease_epoch'', VInt intent_lease), (''observation_patch_keys'', patch_keys receipt),
         (''state_revision'', VInt (expected + 1))])
      ActCompleted ''action_reconciled''
      (\<lambda>_ cursor. [(''event_cursor'', VInt cursor), (''action_id'', VStr (ac_id a)), (''previous_state'', VStr ''unknown'')])
      e a receipt decision dispatched progressed ts s))))))))))))"

section \<open>Restarts\<close>

definition interrupted_receipt :: items where
  "interrupted_receipt = [(''kind'', VStr ''recovery_interrupted''),
     (''detail'', VStr ''intent survived a restart without a durable receipt; effect is unknown'')]"

definition interrupted :: "stamp \<Rightarrow> action_row \<Rightarrow> action_row" where
  "interrupted ts x = (if ac_state x \<noteq> ActExecuting then x else x\<lparr>ac_state := ActUnknown,
     ac_receipt := Some (canonical_json (VDict interrupted_receipt)), ac_updated := ts, ac_settled := Some ts\<rparr>)"

definition interrupt_action :: "runtime \<Rightarrow> stamp \<Rightarrow> action_row \<Rightarrow> recovery_ledger \<Rightarrow> recovery_ledger res" where
  "interrupt_action R ts a s = bindR (episode_of (ac_episode a) s) (\<lambda>e.
     bindR (preserve_action_continuation R unknown_effects_decision a) (\<lambda>d.
     let s1 = put_action (ac_id a) (interrupted ts) s in
     case recovery_event ''node_recovery.action_interrupted'' (ep_task e) (Some (ep_node e))
       [(''episode_id'', VStr (ep_id e)), (''action_id'', VStr (ac_id a)), (''action_key'', VStr (ac_key a)),
        (''state_revision'', VInt (ep_revision e + 1))] ts s1 of (cursor, s2) \<Rightarrow>
     let s3 = put_episode (ep_id e) (\<lambda>x. released (decided d x)\<lparr>ep_action := None, ep_wakeup := None, ep_phase := ''interrupted_unknown'',
           ep_revision := ep_revision e + 1, ep_progress_at := ts,
           ep_progress := progress_of ''node_recovery.action_interrupted'' cursor [(''action_id'', VStr (ac_id a))],
           ep_updated := ts\<rparr>) s2
     in Inr (record_needs_action_notification e d ts s3)))"

fun interrupt_actions :: "runtime \<Rightarrow> stamp \<Rightarrow> action_row list \<Rightarrow> recovery_ledger \<Rightarrow> recovery_ledger res" where
  "interrupt_actions R ts [] s = Inr s"
| "interrupt_actions R ts (a # rest) s = bindR (interrupt_action R ts a s) (interrupt_actions R ts rest)"

definition recover_interrupted :: "runtime \<Rightarrow> int \<Rightarrow> recovery_ledger \<Rightarrow> (int \<times> recovery_ledger) res" where
  "recover_interrupted R now s =
    (let executing = sort_key (\<lambda>a. (ac_created a, ac_id a)) (filter (\<lambda>a. ac_state a = ActExecuting) (actions s))
     in bindR (interrupt_actions R (utc now) executing s) (\<lambda>s'. Inr (int (length executing), s')))"

section \<open>Repairs\<close>

definition repair_id_of :: "runtime \<Rightarrow> episode_row \<Rightarrow> string" where
  "repair_id_of R e = ''node-recovery-repair-'' @ take 24 (canonical_hash (rt_sha R)
     (VDict [(''task_id'', VStr (ep_task e)), (''failure_fingerprint'', VStr (ep_fingerprint e))]))"

definition link_repair ::
  "runtime \<Rightarrow> string \<Rightarrow> string \<Rightarrow> int \<Rightarrow> int \<Rightarrow> int \<Rightarrow> string \<Rightarrow> string \<Rightarrow> string \<Rightarrow> int \<Rightarrow> recovery_ledger
    \<Rightarrow> (episode_row \<times> recovery_ledger) res" where
  "link_repair R episode holder epoch lease expected request repair_task fp now s =
    bindR (rec_text ''episode_id'' (VStr episode)) (\<lambda>episode.
    bindR (rec_text ''owner_id'' (VStr holder)) (\<lambda>holder.
    bindR (rec_text ''repair_request_id'' (VStr request)) (\<lambda>request.
    bindR (rec_text ''repair_task_id'' (VStr repair_task)) (\<lambda>repair_task.
    bindR (fingerprint ''repair_fingerprint'' (VStr fp)) (\<lambda>fp.
    bindR (at_least_one ''coordinator_epoch'' (VInt epoch)) (\<lambda>_.
    bindR (at_least_one ''lease_epoch'' (VInt lease)) (\<lambda>_.
    bindR (at_least_one ''expected_revision'' (VInt expected)) (\<lambda>_.
    bindR (episode_of episode s) (\<lambda>e. let ts = utc now in
    if ep_revision e \<noteq> expected then Inl (StateConflictError ''recovery episode revision is stale'')
    else bindR (assert_episode_lease holder epoch lease ts e s) (\<lambda>_.
    case find (\<lambda>r. re_task r = ep_task e \<and> re_fingerprint r = ep_fingerprint e) (repairs s) of
      Some r \<Rightarrow> if re_episode r \<noteq> episode \<or> re_request r \<noteq> request \<or> re_repair_task r \<noteq> repair_task \<or> re_repair r \<noteq> fp
        then Inl (StateConflictError ''failure fingerprint already has a different repair linkage'')
        else bindR (episode_view s e) (\<lambda>e. Inr (e, s))
    | None \<Rightarrow> let r = \<lparr>re_id = repair_id_of R e, re_task = ep_task e, re_fingerprint = ep_fingerprint e, re_episode = episode,
          re_request = request, re_repair_task = repair_task, re_repair = fp, re_verified = None, re_evidence = None,
          re_deployed = None, re_created = ts, re_updated = ts\<rparr> in
        if request \<in> re_request ` set (repairs s) then Inl (IntegrityError ''UNIQUE'')
        else bindR (row_add re_id r (repairs s)) (\<lambda>rows.
        case recovery_event ''node_recovery.repair_linked'' (ep_task e) (Some (ep_node e))
          [(''episode_id'', VStr episode), (''repair_request_id'', VStr request), (''repair_task_id'', VStr repair_task),
           (''repair_fingerprint'', VStr fp), (''state_revision'', VInt (expected + 1))] ts (s\<lparr>repairs := rows\<rparr>) of (cursor, s1) \<Rightarrow>
        episode_now episode (put_episode episode (\<lambda>x. x\<lparr>ep_phase := ''repair_linked'', ep_repair_request := Some request,
          ep_repair_task := Some repair_task, ep_deployed := None, ep_revision := expected + 1, ep_progress_at := ts,
          ep_progress := progress_of ''node_recovery.repair_linked'' cursor [(''repair_request_id'', VStr request)],
          ep_updated := ts\<rparr>) s1))))))))))))"

definition forgotten_keys :: "string list" where
  "forgotten_keys = [''validated_source_delta'', ''validated_install_manifest'', ''validated_runtime_fingerprint'',
     ''validation_audit_ref'', ''last_validation_profile'', ''repair_wait_kind'', ''repair_wait_state'']"

definition redeployed_observation :: "bool \<Rightarrow> pyval \<Rightarrow> items" where
  "redeployed_observation fresh ob = dict_merge (filter (\<lambda>kv. fst kv \<notin> set forgotten_keys) (items_of ob))
     [(''repair_deployed'', VBool True), (''repair_fresh_readiness_required'', VBool False),
      (''readiness_ready'', VBool fresh), (''validated_profiles'', VList []), (''validation_succeeded'', VBool False)]"

definition mark_repair_deployed ::
  "string \<Rightarrow> int \<Rightarrow> int \<Rightarrow> string \<Rightarrow> string \<Rightarrow> pyval \<Rightarrow> string \<Rightarrow> bool \<Rightarrow> int \<Rightarrow> recovery_ledger
    \<Rightarrow> (episode_row \<times> recovery_ledger) res" where
  "mark_repair_deployed episode expected attempt verified expected_fp evidence verified_by fresh now s =
    bindR (rec_text ''episode_id'' (VStr episode)) (\<lambda>episode.
    bindR (at_least_one ''expected_revision'' (VInt expected)) (\<lambda>_.
    bindR (nonnegative_int ''expected_node_attempt'' (VInt attempt)) (\<lambda>_.
    bindR (fingerprint ''verified_deployment_fingerprint'' (VStr verified)) (\<lambda>verified.
    bindR (fingerprint ''expected_repair_fingerprint'' (VStr expected_fp)) (\<lambda>expected_fp.
    bindR (evidence_refs evidence) (\<lambda>refs.
    bindR (rec_text ''verified_by'' (VStr verified_by)) (\<lambda>verified_by.
    bindR (episode_of episode s) (\<lambda>e. let ts = utc now in
    if ep_revision e \<noteq> expected then Inl (StateConflictError ''recovery episode revision is stale'')
    else if ep_attempt e \<noteq> attempt then Inl (StateConflictError ''recovery episode attempt is stale'')
    else bindR (require (StateConflictError ''recovery episode has no repair linkage'') (row_get re_episode episode (repairs s))) (\<lambda>r.
    if re_repair r \<noteq> expected_fp then Inl (StateConflictError ''repair fingerprint does not match the parent linkage'')
    else if re_deployed r \<noteq> None then
      (if (case re_evidence r of None \<Rightarrow> False | Some x \<Rightarrow> py_eq x refs) \<and> re_verified r = Some verified
       then bindR (episode_view s e) (\<lambda>e. Inr (e, s))
       else Inl (StateConflictError ''repair deployment evidence conflicts with prior verification''))
    else bindR (task_of (ep_task e) s) (\<lambda>t.
    bindR (node_of (ep_task e) (ep_node e) s) (\<lambda>n.
    bindR (policy_from_document (ep_policy e)) (\<lambda>p.
    let paused = user_fence t n;
        d = (if paused then suspended_decision else repair_deployed_wait_decision (rp_backoff p) ts);
        deadline = (if paused then ep_deadline e else stamp_after ts (rp_budget p)) in
    case recovery_event ''node_recovery.repair_deployed'' (ep_task e) (Some (ep_node e))
      [(''episode_id'', VStr episode), (''repair_request_id'', VStr (re_request r)), (''repair_task_id'', VStr (re_repair_task r)),
       (''deployment_fingerprint'', VStr verified), (''verified_by'', VStr verified_by),
       (''state_revision'', VInt (expected + 1))] ts s of (cursor, s1) \<Rightarrow>
    let s2 = s1\<lparr>repairs := row_put re_id (re_id r) (\<lambda>x. x\<lparr>re_evidence := Some (canonical_json refs), re_verified := Some verified,
          re_deployed := Some ts, re_updated := ts\<rparr>) (repairs s1)\<rparr>
    in episode_now episode (put_episode episode (\<lambda>x. (decided d x)\<lparr>ep_phase := ''repair_deployed'', ep_revision := expected + 1,
         ep_deadline := deadline, ep_progress_at := ts,
         ep_progress := progress_of ''node_recovery.repair_deployed'' cursor [(''deployment_fingerprint'', VStr verified)],
         ep_updated := ts, ep_deployed := Some verified,
         ep_observation := canonical_json (VDict (redeployed_observation fresh (ep_observation e)))\<rparr>) s2)))))))))))))"

section \<open>The event cursor\<close>

definition read_cursor :: "recovery_ledger \<Rightarrow> int" where
  "read_cursor s = (case projection s of None \<Rightarrow> 0 | Some c \<Rightarrow> c)"

definition advance_cursor :: "int \<Rightarrow> int \<Rightarrow> recovery_ledger \<Rightarrow> (int \<times> recovery_ledger) res" where
  "advance_cursor expected cursor s =
    bindR (nonnegative_int ''expected_cursor'' (VInt expected)) (\<lambda>_.
    bindR (nonnegative_int ''event_cursor'' (VInt cursor)) (\<lambda>_.
    if cursor < expected then Inl (ValueError ''event_cursor must not move backwards'')
    else if read_cursor s \<noteq> expected then Inl (StateConflictError ''expected recovery cursor'')
    else if cursor = expected then Inr (cursor, s)
    else Inr (cursor, s\<lparr>projection := Some cursor\<rparr>)))"

end
