(* ===== verification/Recovery_Views.thy ===== *)
theory Recovery_Views
  imports Recovery_Actions
begin

text \<open>
  What is read from the recovery ledger (\<open>node_recovery_store.py\<close> lines 175 to 196, 417 to 428 and 1769
  to 2086): a policy, an episode with its actions and its repair, summaries and counts.
\<close>

text \<open>The policy in force with its private capture; no row means the disabled default.\<close>

definition get_recovery_policy :: "string \<Rightarrow> recovery_ledger \<Rightarrow> (recovery_policy \<times> items option \<times> policy_row option) res" where
  "get_recovery_policy task s = bindR (rec_text ''task_id'' (VStr task)) (\<lambda>_. bindR (task_of task s) (\<lambda>_.
     case row_get np_task task (policies s) of
       None \<Rightarrow> Inr (default_policy, None, None)
     | Some row \<Rightarrow> (case bindR (split_stored_policy (np_policy row)) (\<lambda>(public, _, capture).
            bindR (policy_from_dict public) (\<lambda>p. Inr (p, capture))) of
          Inl _ \<Rightarrow> Inl (StateConflictError ''recovery policy row is invalid'')
        | Inr (p, capture) \<Rightarrow> Inr (p, capture, Some row))))"

definition episode_actions :: "string \<Rightarrow> recovery_ledger \<Rightarrow> action_row list" where
  "episode_actions k s = sort_key (\<lambda>a. (ac_created a, ac_id a)) (filter (\<lambda>a. ac_episode a = k) (actions s))"

definition get_episode :: "string \<Rightarrow> recovery_ledger \<Rightarrow> (episode_row \<times> action_row list \<times> repair_row option) res" where
  "get_episode episode s = bindR (rec_text ''episode_id'' (VStr episode)) (\<lambda>k.
     bindR (episode_of k s) (\<lambda>e. bindR (episode_view s e) (\<lambda>e.
     Inr (e, episode_actions k s, row_get re_episode k (repairs s)))))"

text \<open>The newest episodes first; equal times by descending id.\<close>

definition list_summary :: "string option \<Rightarrow> int \<Rightarrow> recovery_ledger \<Rightarrow> episode_row list res" where
  "list_summary task limit s =
    bindR (case task of None \<Rightarrow> Inr () | Some k \<Rightarrow> bindR (rec_text ''task_id'' (VStr k)) (\<lambda>_. Inr ())) (\<lambda>_.
    if limit < 1 \<or> 500 < limit then Inl (ValueError ''recovery summary limit must be between 1 and 500'')
    else Inr (take (nat limit) (rev (sort_key (\<lambda>e. (ep_updated e, ep_id e))
      (filter (\<lambda>e. case task of None \<Rightarrow> True | Some k \<Rightarrow> ep_task e = k) (episodes s))))))"

record recovery_counts =
  rc_states :: "(recovery_state \<times> nat) list"
  rc_actions :: nat
  rc_dispatched :: nat
  rc_executing :: nat
  rc_unknown :: nat
  rc_human :: nat
  rc_cursor :: int

definition recovery_metrics :: "string option \<Rightarrow> recovery_ledger \<Rightarrow> recovery_counts res" where
  "recovery_metrics task s =
    bindR (case task of None \<Rightarrow> Inr () | Some k \<Rightarrow> bindR (rec_text ''task_id'' (VStr k)) (\<lambda>_. Inr ())) (\<lambda>_.
    let mine = (\<lambda>k. case task of None \<Rightarrow> True | Some x \<Rightarrow> k = x);
        es = filter (mine \<circ> ep_task) (episodes s); as = filter (mine \<circ> ac_task) (actions s);
        count = (\<lambda>P. length (filter P as)) in
    Inr \<lparr>rc_states = filter (\<lambda>(_, n). 0 < n) (map (\<lambda>st. (st, length (filter (\<lambda>e. ep_state e = st) es)))
           [ENeedsAction, EReady, EResolved, ESuspended, EWaiting]),
      rc_actions = length as, rc_dispatched = count ac_dispatched, rc_executing = count (\<lambda>a. ac_state a = ActExecuting),
      rc_unknown = count (\<lambda>a. ac_state a = ActUnknown),
      rc_human = length (filter (\<lambda>x. list_ex (\<lambda>e. ep_id e = no_episode x) es) (notices s)), rc_cursor = read_cursor s\<rparr>)"

end
