(* ===== verification/Recovery_Writes.thy ===== *)
theory Recovery_Writes
  imports Recovery_Actions Node_Invariant
begin

text \<open>
  What the operations of the recovery ledger do to its rows. \<open>recovery_write\<close> lists the writes its
  tables ever see, each with what it keeps; every operation is a sequence of them (the lemmas
  \<open>wrote_...\<close>), so a law of the ledger is proved once per write.
\<close>

section \<open>The life of a row\<close>

text \<open>The columns of an intent, which no write changes.\<close>

definition intent_of :: "action_row \<Rightarrow> (string \<times> string \<times> string \<times> string \<times> int) \<times> (string \<times> string \<times> int \<times> int \<times> string \<times> pyval \<times> stamp)" where
  "intent_of a = ((ac_id a, ac_episode a, ac_task a, ac_node a, ac_attempt a),
     (ac_key a, ac_stage a, ac_epoch a, ac_lease a, ac_fingerprint a, ac_input a, ac_created a))"

text \<open>An action leaves \<open>executing\<close> once and \<open>unknown\<close> once; a completed one never changes.\<close>

definition action_moves :: "action_state \<Rightarrow> action_state \<Rightarrow> bool" where
  "action_moves x y \<longleftrightarrow> x = ActExecuting \<and> y \<noteq> ActExecuting \<or> x = ActUnknown \<and> y = ActCompleted"

definition action_follows :: "action_row \<Rightarrow> action_row \<Rightarrow> bool" where
  "action_follows x y \<longleftrightarrow> y = x \<or> intent_of y = intent_of x \<and> action_moves (ac_state x) (ac_state y)"

lemma action_follows_refl: "action_follows x x"
  by (simp add: action_follows_def)

lemma action_moves_trans: "action_moves x y \<Longrightarrow> action_moves y z \<Longrightarrow> action_moves x z"
  by (auto simp: action_moves_def)

lemma action_follows_trans: "action_follows x y \<Longrightarrow> action_follows y z \<Longrightarrow> action_follows x z"
  unfolding action_follows_def by (elim disjE conjE) (simp, simp, simp, blast intro: action_moves_trans dest: trans)

lemma action_followsD:
  assumes "action_follows x y"
  shows "ac_id y = ac_id x" "ac_episode y = ac_episode x" "ac_key y = ac_key x" "ac_fingerprint y = ac_fingerprint x"
    "ac_stage y = ac_stage x" "ac_input y = ac_input x"
  using assms unfolding action_follows_def intent_of_def by (elim disjE; simp)+

lemma settled_follows:
  assumes "st \<noteq> ActExecuting" and "ac_state a = ActExecuting \<or> ac_state a = ActUnknown \<and> st = ActCompleted"
  shows "action_follows a (settled_row st receipt dispatched ts a)"
proof -
  have "intent_of (settled_row st receipt dispatched ts a) = intent_of a" by (simp add: intent_of_def settled_row_def)
  moreover have "ac_state (settled_row st receipt dispatched ts a) = st" by (simp add: settled_row_def)
  moreover have "action_moves (ac_state a) st" using assms unfolding action_moves_def by blast
  ultimately show ?thesis unfolding action_follows_def by simp
qed

definition repair_link_of :: "repair_row \<Rightarrow> string \<times> string \<times> string \<times> string \<times> string \<times> string \<times> string \<times> stamp" where
  "repair_link_of r = (re_id r, re_task r, re_fingerprint r, re_episode r, re_request r, re_repair_task r, re_repair r, re_created r)"

definition repair_follows :: "repair_row \<Rightarrow> repair_row \<Rightarrow> bool" where
  "repair_follows x y \<longleftrightarrow> repair_link_of y = repair_link_of x \<and> (re_deployed x \<noteq> None \<longrightarrow> y = x)"

lemma repair_follows_refl: "repair_follows x x"
  by (simp add: repair_follows_def)

lemma repair_follows_trans: "repair_follows x y \<Longrightarrow> repair_follows y z \<Longrightarrow> repair_follows x z"
  unfolding repair_follows_def by metis

definition failure_of :: "episode_row \<Rightarrow> string \<times> string \<times> int \<times> string" where
  "failure_of e = (ep_task e, ep_node e, ep_attempt e, ep_fingerprint e)"

text \<open>The lease of an episode is kept or given up.\<close>

definition keeps_lease :: "episode_row \<Rightarrow> episode_row \<Rightarrow> bool" where
  "keeps_lease x y \<longleftrightarrow> ep_id y = ep_id x \<and> failure_of y = failure_of x
     \<and> (ep_lease y = ep_lease x \<and> ep_holder y = ep_holder x \<or> ep_lease y = 0 \<and> ep_holder y = None)"

definition stage_named :: "action_row \<Rightarrow> bool" where
  "stage_named a \<longleftrightarrow> rec_text ''stage_key'' (VStr (ac_stage a)) = Inr (ac_stage a)"

section \<open>Writes\<close>

definition recovery_counter :: "recovery_ledger \<Rightarrow> int" where
  "recovery_counter s = node_counter (ledger s)"

inductive recovery_write :: "recovery_ledger \<Rightarrow> recovery_ledger \<Rightarrow> bool" where
  rw_ledger: "node_counter (ledger s) \<le> node_counter l \<Longrightarrow> recovery_write s (s\<lparr>ledger := l\<rparr>)"
| rw_policy: "recovery_write s (s\<lparr>policies := ps\<rparr>)"
| rw_episode: "(\<And>x. x \<in> set (episodes s) \<Longrightarrow> ep_id x = k \<Longrightarrow> keeps_lease x (f x)) \<Longrightarrow>
    (\<And>x. ep_state (f x) = ENeedsAction \<Longrightarrow> ep_state x = ENeedsAction) \<Longrightarrow> recovery_write s (put_episode k f s)"
| rw_decided: "(\<And>x. x \<in> set (episodes s) \<Longrightarrow> ep_id x = ep_id e \<Longrightarrow> keeps_lease x (f x)) \<Longrightarrow>
    (\<And>x. ep_state (f x) = de_state d) \<Longrightarrow>
    recovery_write s (record_needs_action_notification e d ts (put_episode (ep_id e) f s))"
| rw_lease: "recovery_lease s = (lease, u) \<Longrightarrow>
    (\<And>x. x \<in> set (episodes s) \<Longrightarrow> ep_id x = k \<Longrightarrow> ep_id (f x) = k \<and> failure_of (f x) = failure_of x
      \<and> ep_lease (f x) = lease \<and> ep_holder (f x) \<noteq> None \<and> ep_state (f x) = ep_state x) \<Longrightarrow>
    recovery_write s (put_episode k f u)"
| rw_new_episode: "row_add ep_id e (episodes s) = Inr rows \<Longrightarrow> find (\<lambda>x. failure_of x = failure_of e) (episodes s) = None \<Longrightarrow>
    ep_lease e = 0 \<Longrightarrow> ep_holder e = None \<Longrightarrow> ep_state e = de_state d \<Longrightarrow>
    recovery_write s (record_needs_action_notification e d ts (s\<lparr>episodes := rows\<rparr>))"
| rw_intent: "row_add ac_id a (actions s) = Inr rows \<Longrightarrow> row_get ac_key (ac_key a) (actions s) = None \<Longrightarrow>
    find (\<lambda>x. (ac_episode x, ac_fingerprint x) = (ac_episode a, ac_fingerprint a)) (actions s) = None \<Longrightarrow>
    ac_state a = ActExecuting \<Longrightarrow> ac_receipt a = None \<Longrightarrow> ac_episode a \<in> ep_id ` set (episodes s) \<Longrightarrow>
    stage_named a \<Longrightarrow> recovery_write s (s\<lparr>actions := rows\<rparr>)"
| rw_action: "(\<And>x. x \<in> set (actions s) \<Longrightarrow> ac_id x = k \<Longrightarrow> action_follows x (f x)
      \<and> (f x = x \<or> ac_receipt (f x) \<noteq> None)) \<Longrightarrow> recovery_write s (put_action k f s)"
| rw_repair: "row_add re_id r (repairs s) = Inr rows \<Longrightarrow> re_request r \<notin> re_request ` set (repairs s) \<Longrightarrow>
    find (\<lambda>x. (re_task x, re_fingerprint x) = (re_task r, re_fingerprint r)) (repairs s) = None \<Longrightarrow>
    re_deployed r = None \<Longrightarrow> recovery_write s (s\<lparr>repairs := rows\<rparr>)"
| rw_deployed: "(\<And>x. x \<in> set (repairs s) \<Longrightarrow> re_id x = k \<Longrightarrow> repair_follows x (f x)) \<Longrightarrow>
    recovery_write s (s\<lparr>repairs := row_put re_id k f (repairs s)\<rparr>)"
| rw_cursor: "read_cursor s \<le> c \<Longrightarrow> recovery_write s (s\<lparr>projection := Some c\<rparr>)"

abbreviation writes :: "recovery_ledger \<Rightarrow> recovery_ledger \<Rightarrow> bool" where
  "writes \<equiv> recovery_write\<^sup>*\<^sup>*"

lemma writes_step: "writes s u \<Longrightarrow> recovery_write u t \<Longrightarrow> writes s t"
  by (rule rtranclp.rtrancl_into_rtrancl)

text \<open>What an operation wrote when it succeeded.\<close>

definition wrote :: "recovery_ledger \<Rightarrow> ('x \<times> recovery_ledger) res \<Rightarrow> bool" where
  "wrote s m \<longleftrightarrow> (\<forall>x t. m = Inr (x, t) \<longrightarrow> writes s t)"

lemma wroteD: "wrote s m \<Longrightarrow> m = Inr (x, t) \<Longrightarrow> writes s t"
  by (simp add: wrote_def)

lemma wrote_Inl: "wrote s (Inl e)"
  by (simp add: wrote_def)

lemma wrote_Inr: "writes s t \<Longrightarrow> wrote s (Inr (x, t))"
  by (simp add: wrote_def)

lemma wrote_bind: "(\<And>x. m = Inr x \<Longrightarrow> wrote s (f x)) \<Longrightarrow> wrote s (bindR m f)"
  by (cases m) (simp_all add: wrote_def)

lemma wrote_prod: "(\<And>a b. p = (a, b) \<Longrightarrow> wrote s (f a b)) \<Longrightarrow> wrote s (case p of (a, b) \<Rightarrow> f a b)"
  by (cases p) simp

lemma wrote_if: "(b \<Longrightarrow> wrote s m) \<Longrightarrow> (\<not> b \<Longrightarrow> wrote s m') \<Longrightarrow> wrote s (if b then m else m')"
  by simp

lemma wrote_option:
  "(v = None \<Longrightarrow> wrote s m) \<Longrightarrow> (\<And>x. v = Some x \<Longrightarrow> wrote s (f x)) \<Longrightarrow> wrote s (case v of None \<Rightarrow> m | Some x \<Rightarrow> f x)"
  by (cases v) simp_all

lemma wrote_let: "wrote s (f v) \<Longrightarrow> wrote s (Let v f)"
  by simp

lemmas wrote_intros = wrote_Inl wrote_bind wrote_prod wrote_if wrote_option wrote_let

lemma wrote_now: "writes s t \<Longrightarrow> wrote s (episode_now k t)"
  by (auto simp: wrote_def episode_now_def res_simps)

lemma wrote_then: "wrote s m \<Longrightarrow> (\<And>x t. writes s t \<Longrightarrow> wrote s (f (x, t))) \<Longrightarrow> wrote s (bindR m f)"
  by (cases m) (auto simp: wrote_def)

lemma counter_emit: "node_counter (snd (emit_event k t n p ts s)) = node_counter s"
  by (simp add: emit_event_snd node_counter_def)

lemma writes_event: "writes s u \<Longrightarrow> writes s (snd (recovery_event k t n p ts u))"
  unfolding recovery_event_snd by (erule writes_step, rule rw_ledger) (simp add: counter_emit)

lemma event_rows:
  assumes "recovery_event k t n p ts s = (c, u)"
  shows "u = s\<lparr>ledger := snd (emit_event k (Some t) n p ts (ledger s))\<rparr>"
  using arg_cong [OF assms, of snd] by (simp add: recovery_event_snd)

lemma writes_recorded: "recovery_event k t n p ts u = (c, v) \<Longrightarrow> writes s u \<Longrightarrow> writes s v"
  using writes_event [of s u k t n p ts] by simp

lemma writes_quiet: "de_state d \<noteq> ENeedsAction \<Longrightarrow> record_needs_action_notification e d ts s = s"
  by (simp add: record_needs_action_notification_def)

section \<open>Episodes\<close>

lemma decided_row:
  "ep_id (decided d x) = ep_id x" "failure_of (decided d x) = failure_of x" "ep_lease (decided d x) = ep_lease x"
  "ep_holder (decided d x) = ep_holder x" "ep_state (decided d x) = de_state d"
  by (simp_all add: decided_def failure_of_def)

lemma released_row:
  "ep_id (released x) = ep_id x" "failure_of (released x) = failure_of x" "ep_lease (released x) = 0"
  "ep_holder (released x) = None" "ep_state (released x) = ep_state x"
  by (simp_all add: released_def failure_of_def)

lemma writes_stop: "writes s (record_needs_action_notification e d ts (stop_episode phase kind extra d e ts s))"
  unfolding stop_episode_def Let_def
  apply (simp split: prod.split)
  apply (intro allI impI)
  apply (rule writes_step [OF writes_recorded [OF _ rtranclp.rtrancl_refl]], assumption)
  apply (rule rw_decided)
   apply (simp_all add: keeps_lease_def failure_of_def released_def decided_def)
  done

lemma suspended_state: "de_state suspended_decision \<noteq> ENeedsAction"
  by (simp add: suspended_decision_def manual_decision_def)

lemma wrote_suspend: "wrote s (suspend_for_user_fence e ts s)"
  unfolding suspend_for_user_fence_def
  by (intro wrote_intros wrote_now wrote_Inr rtranclp.rtrancl_refl)
    (rule writes_stop [where d = suspended_decision, unfolded writes_quiet [OF suspended_state]])

lemma wrote_exhaust: "wrote s (exhaust_budget e ts s)"
  unfolding exhaust_budget_def by (intro wrote_intros wrote_now wrote_Inr rtranclp.rtrancl_refl writes_stop)

lemma wrote_configure: "wrote s (configure_policy R task policy expected actor now s)"
  unfolding configure_policy_def
  by (intro wrote_intros wrote_Inr rtranclp.rtrancl_refl writes_event writes_step [OF rtranclp.rtrancl_refl] rw_policy)

lemma wrote_update: "wrote s (update_episode_if_material R e ob d p policy_revision document ts s)"
  unfolding update_episode_if_material_def
  apply (intro wrote_intros wrote_Inr wrote_now rtranclp.rtrancl_refl)
  apply (rule writes_step [OF writes_recorded [OF _ rtranclp.rtrancl_refl]], assumption)
  apply (rule rw_decided)
   apply (simp_all add: keeps_lease_def failure_of_def decided_def)
  done

lemma event_tables:
  assumes "recovery_event k t n p ts s = (c, u)"
  shows "episodes u = episodes s" "actions u = actions s" "repairs u = repairs s" "notices u = notices s"
    "policies u = policies s" "projection u = projection s" "recovery_counter u = recovery_counter s"
  by (simp_all add: event_rows [OF assms] recovery_counter_def counter_emit)

lemma new_row:
  "ep_id (new_episode k ob d p i document c ts) = k" "ep_lease (new_episode k ob d p i document c ts) = 0"
  "ep_holder (new_episode k ob d p i document c ts) = None" "ep_state (new_episode k ob d p i document c ts) = de_state d"
  "failure_of (new_episode k ob d p i document c ts) = (ob_task ob, ob_node ob, ob_attempt ob, ob_fingerprint ob)"
  by (simp_all add: new_episode_def failure_of_def del: canonical_json.simps)

lemma same_failure_alt: "same_failure ob = (\<lambda>e. failure_of e = (ob_task ob, ob_node ob, ob_attempt ob, ob_fingerprint ob))"
  by (auto simp: same_failure_def failure_of_def)

lemma wrote_record: "wrote s (record_episode R raw decision now s)"
  unfolding record_episode_def
  apply (intro wrote_intros wrote_now wrote_update)
  apply (rule writes_step [OF writes_recorded [OF _ rtranclp.rtrancl_refl]], assumption)
  apply (rule rw_new_episode, assumption, simp_all only: event_tables new_row same_failure_alt)
  done

section \<open>Leases\<close>

lemma keeps_lease_refl: "ep_id y = ep_id x \<Longrightarrow> failure_of y = failure_of x \<Longrightarrow> ep_lease y = ep_lease x \<Longrightarrow> ep_holder y = ep_holder x
    \<Longrightarrow> keeps_lease x y"
  by (simp add: keeps_lease_def)

lemma wrote_supersede_one:
  assumes "writes s (snd acc)" shows "wrote s (supersede_episode R x ts en acc)"
  unfolding supersede_episode_def
  apply (intro wrote_intros wrote_Inr)
    apply (use assms in \<open>simp_all only: snd_conv prod.inject\<close>)
  apply (rule writes_step [OF writes_recorded], assumption, force)
  apply (rule rw_episode)
   apply (simp_all add: keeps_lease_def failure_of_def released_def)
  done

lemma wrote_supersede: "writes s (snd acc) \<Longrightarrow> wrote s (supersede_episodes R x ts ens acc)"
proof (induction ens arbitrary: acc)
  case Nil
  then show ?case by (cases acc) (simp add: wrote_Inr)
next
  case (Cons en ens)
  show ?case unfolding supersede_episodes.simps
    by (rule wrote_bind, rule Cons.IH) (metis wroteD [OF wrote_supersede_one [OF Cons.prems]] prod.collapse)
qed

lemma wrote_reconcile_superseded: "wrote s (reconcile_superseded_attempts R k epoch now s)"
  unfolding reconcile_superseded_attempts_def
  by (intro wrote_intros wrote_Inr rtranclp.rtrancl_refl wrote_supersede) (simp only: snd_conv rtranclp.rtrancl_refl)

lemma wrote_view: "wrote s m \<Longrightarrow> wrote s (bindR m (\<lambda>(x, t). Inr (Some x, t)))"
  by (cases m) (auto simp: wrote_def)

lemma wrote_claim_episode: "wrote s (claim_episode holder epoch seconds ts e s)"
  unfolding claim_episode_def Let_def
  apply (rule wrote_prod, rule wrote_view)
  apply (intro wrote_now writes_event)
  apply (rule writes_step [OF rtranclp.rtrancl_refl], erule rw_lease)
  apply (simp add: claimed_episode_def failure_of_def)
  done

lemma wrote_claim: "wrote s (claim_due episode holder epoch expected attempt seconds now s)"
  unfolding claim_due_def
  by (intro wrote_view wrote_suspend wrote_exhaust wrote_claim_episode wrote_intros wrote_Inr rtranclp.rtrancl_refl)
    (simp_all add: wroteD [OF wrote_suspend] wroteD [OF wrote_exhaust])

lemma wrote_renew: "wrote s (renew_episode episode holder epoch lease expected attempt seconds now s)"
  unfolding renew_episode_def
  apply (intro wrote_intros wrote_now wrote_suspend writes_event)
  apply (rule writes_step [OF rtranclp.rtrancl_refl], rule rw_episode)
   apply (simp_all add: keeps_lease_def failure_of_def renewed_episode_def)
  done

section \<open>Actions\<close>

lemma new_action_row:
  "ac_id (new_action R e key stage fp input epoch lease ts) = action_id_of R (ep_id e) key fp"
  "ac_episode (new_action R e key stage fp input epoch lease ts) = ep_id e"
  "ac_key (new_action R e key stage fp input epoch lease ts) = key"
  "ac_fingerprint (new_action R e key stage fp input epoch lease ts) = fp"
  "ac_stage (new_action R e key stage fp input epoch lease ts) = stage"
  "ac_state (new_action R e key stage fp input epoch lease ts) = ActExecuting"
  "ac_receipt (new_action R e key stage fp input epoch lease ts) = None"
  by (simp_all add: new_action_def)

lemma episode_row: "episode_of k s = Inr e \<Longrightarrow> ep_id e = k \<and> e \<in> set (episodes s)"
  by (auto simp: episode_of_def res_simps row_get_def find_Some_iff)

lemma no_intent:
  assumes "existing_intent episode key stage fp input s = Inr None"
  shows "row_get ac_key key (actions s) = None"
    "find (\<lambda>x. (ac_episode x, ac_fingerprint x) = (episode, fp)) (actions s) = None"
  using assms by (auto simp: existing_intent_def split: option.splits if_splits)

lemma wrote_third: "wrote s m \<Longrightarrow> wrote s (bindR m (\<lambda>(x, t). Inr (f x, t)))"
  by (cases m) (auto simp: wrote_def)

lemma wrote_intend:
  assumes "existing_intent (ep_id e) (ac_key a) stage (ac_fingerprint a) input s = Inr None"
    and "ac_episode a = ep_id e" "ac_state a = ActExecuting" "ac_receipt a = None" "e \<in> set (episodes s)" "stage_named a"
  shows "wrote s (intend_action R e action a continuation ts s)"
  unfolding intend_action_def Let_def
  apply (rule wrote_bind, rule wrote_prod, rule wrote_third, rule wrote_now)
  apply (rule writes_step [OF writes_recorded [OF _ writes_step [OF rtranclp.rtrancl_refl]]], assumption)
   apply (erule rw_intent; use assms no_intent [OF assms(1)] in \<open>simp add: assms\<close>)
  apply (rule rw_episode)
   apply (simp_all add: keeps_lease_def failure_of_def)
  done

lemma begin_success:
  assumes "begin_action R episode key fp input holder epoch lease expected attempt now s = Inr ((a, x, existing), u)"
  obtains k f doc stage w e t n p document action continuation where
    "rec_text ''action_key'' (VStr key) = Inr k" "fingerprint ''action_fingerprint'' (VStr fp) = Inr f"
    "bounded_document R ''action_input'' input = Inr doc" "rec_text ''action_input.stage_key'' (dget (VDict doc) ''stage_key'') = Inr stage"
    "fence_arguments episode holder epoch expected attempt = Inr (ep_id e, w)" "episode_of (ep_id e) s = Inr e"
    "ep_revision e = expected" "assert_episode_attempt attempt e s = Inr ()"
    "task_of (ep_task e) s = Inr t" "node_of (ep_task e) (ep_node e) s = Inr n" "\<not> user_fence t n"
    "\<not> awaits_approval (ep_task e) s" "t_revision t = ep_task_revision e" "assert_episode_lease w epoch lease (utc now) e s = Inr ()"
    "policy_for_task (ep_task e) s = Inr (p, ep_policy_revision e, document)" "rp_enabled p" "planned_action e stage p = Inr action"
    "continuation_context R p document (ep_policy_revision e) e action doc s = Inr continuation"
    "budget_left e stage p (utc now) = Inr ()"
    "existing_intent (ep_id e) k stage f doc s = Inr None
        \<and> intend_action R e action (new_action R e k stage f doc epoch lease (utc now)) continuation (utc now) s = Inr ((a, x, existing), u)
      \<or> existing_intent (ep_id e) k stage f doc s = Inr (Some a) \<and> existing \<and> u = s"
proof -
  from assms obtain k f doc stage k' w e t n p i document action continuation found and u1 u2 u3 :: unit where
    "rec_text ''action_key'' (VStr key) = Inr k" "fingerprint ''action_fingerprint'' (VStr fp) = Inr f"
    "bounded_document R ''action_input'' input = Inr doc" "rec_text ''action_input.stage_key'' (dget (VDict doc) ''stage_key'') = Inr stage"
    "fence_arguments episode holder epoch expected attempt = Inr (k', w)" and e: "episode_of k' s = Inr e"
    and "ep_revision e = expected" "assert_episode_attempt attempt e s = Inr u1"
    "task_of (ep_task e) s = Inr t" "node_of (ep_task e) (ep_node e) s = Inr n" "\<not> user_fence t n"
    "\<not> awaits_approval (ep_task e) s" "t_revision t = ep_task_revision e" "assert_episode_lease w epoch lease (utc now) e s = Inr u2"
    "policy_for_task (ep_task e) s = Inr (p, i, document)" "rp_enabled p" "i = ep_policy_revision e" "planned_action e stage p = Inr action"
    "continuation_context R p document i e action doc s = Inr continuation"
    "budget_left e stage p (utc now) = Inr u3" "existing_intent k' k stage f doc s = Inr found"
    "(case found of Some a \<Rightarrow> bindR (episode_view s e) (\<lambda>e. Inr ((a, e, True), s))
      | None \<Rightarrow> intend_action R e action (new_action R e k stage f doc epoch lease (utc now)) continuation (utc now) s)
        = Inr ((a, x, existing), u)"
    unfolding begin_action_def bindR_Inr Let_def guard_Inr split_paired_Ex prod.case de_Morgan_disj not_not by (elim exE conjE) blast
  moreover from e have "ep_id e = k'" by (simp add: episode_row)
  ultimately show thesis using that [of k f doc stage e w t n p document action continuation]
    by (cases found) (auto simp: res_simps)
qed

lemma wrote_begin: "wrote s (begin_action R episode key fp input holder epoch lease expected attempt now s)"
  unfolding wrote_def
proof (intro allI impI)
  fix r :: "action_row \<times> episode_row \<times> bool" and u
  obtain a x existing where r: "r = (a, x, existing)" by (cases r)
  assume "begin_action R episode key fp input holder epoch lease expected attempt now s = Inr (r, u)"
  then show "writes s u" unfolding r
  proof (rule begin_success)
    fix k f doc stage e action continuation
    assume e: "episode_of (ep_id e) s = Inr e" and stage: "rec_text ''action_input.stage_key'' (dget (VDict doc) ''stage_key'') = Inr stage"
      and "existing_intent (ep_id e) k stage f doc s = Inr None
        \<and> intend_action R e action (new_action R e k stage f doc epoch lease (utc now)) continuation (utc now) s = Inr ((a, x, existing), u)
      \<or> existing_intent (ep_id e) k stage f doc s = Inr (Some a) \<and> existing \<and> u = s"
    then show ?thesis
    proof (elim disjE conjE)
      assume n: "existing_intent (ep_id e) k stage f doc s = Inr None"
        and i: "intend_action R e action (new_action R e k stage f doc epoch lease (utc now)) continuation (utc now) s
          = Inr ((a, x, existing), u)"
      let ?a = "new_action R e k stage f doc epoch lease (utc now)"
      have "existing_intent (ep_id e) (ac_key ?a) stage (ac_fingerprint ?a) doc s = Inr None" using n by (simp only: new_action_row)
      moreover have "e \<in> set (episodes s)" using episode_row [OF e] by blast
      moreover have "stage_named ?a" unfolding stage_named_def new_action_row by (rule rec_text_again [OF stage])
      ultimately show ?thesis using wroteD [OF wrote_intend i] by (simp only: new_action_row simp_thms)
    qed simp
  qed
qed

lemma writes_settled:
  assumes "unique_key ac_id (actions s)" and "a \<in> set (actions s)" and "st \<noteq> ActExecuting"
    and "ac_state a = ActExecuting \<or> ac_state a = ActUnknown \<and> st = ActCompleted"
  shows "recovery_write s (put_action (ac_id a) (settled_row st receipt dispatched ts) s)"
proof (rule rw_action)
  fix x assume "x \<in> set (actions s)" "ac_id x = ac_id a"
  then have "x = a" using unique_same [OF assms(1) _ assms(2)] by blast
  then show "action_follows x (settled_row st receipt dispatched ts x)
    \<and> (settled_row st receipt dispatched ts x = x \<or> ac_receipt (settled_row st receipt dispatched ts x) \<noteq> None)"
    using settled_follows [OF assms(3,4)] by (simp add: settled_row_def)
qed

lemma wrote_store:
  assumes "unique_key ac_id (actions s)" and "a \<in> set (actions s)" and "st \<noteq> ActExecuting"
    and "ac_state a = ActExecuting \<or> ac_state a = ActUnknown \<and> st = ActCompleted"
  shows "wrote s (store_receipt kind payload st phase extra e a receipt dispatched progressed d stage stages m ts s)"
  unfolding store_receipt_def Let_def
  apply ((rule wrote_prod)+, rule wrote_third, rule wrote_now)
  apply (rule writes_step [OF writes_step [OF writes_recorded [OF _ rtranclp.rtrancl_refl] writes_settled] rw_decided], assumption)
       apply (use assms in \<open>simp_all only: event_tables\<close>)
   apply (simp_all add: settled_episode_def keeps_lease_def failure_of_def released_def decided_def del: canonical_json.simps)
  done

lemma own_row: "own_action episode key s = Inr a \<Longrightarrow> a \<in> set (actions s) \<and> ac_key a = key \<and> ac_episode a = episode"
  by (auto simp: own_action_def row_get_def find_Some_iff split: option.splits if_splits)

lemma receipt_state_codes:
  "require e (map_of [(''completed'', ActCompleted), (''unknown'', ActUnknown)] v) = Inr st \<Longrightarrow> st \<noteq> ActExecuting"
  by (auto simp: require_Inr split: if_splits)

lemma wrote_receipt:
  assumes "unique_key ac_id (actions s)" and "a \<in> set (actions s)" and "st \<noteq> ActExecuting"
    and "ac_state a = ActExecuting \<or> ac_state a = ActUnknown \<and> st = ActCompleted"
  shows "wrote s (settle_receipt R kind payload st phase extra e a receipt decision dispatched progressed ts s)"
  unfolding settle_receipt_def by (intro wrote_intros wrote_store [OF assms])

lemma wrote_settle:
  assumes "unique_key ac_id (actions s)"
  shows "wrote s (settle_action R episode key holder epoch lease expected attempt receipt decision receipt_state dispatched progressed now s)"
  unfolding settle_action_def
  by (intro wrote_intros wrote_Inr rtranclp.rtrancl_refl wrote_receipt assms)
    (simp_all only: own_row receipt_state_codes not_not simp_thms)

lemma wrote_reconcile:
  assumes "unique_key ac_id (actions s)"
  shows "wrote s (reconcile_action_receipt R episode key fp epoch intent_epoch intent_lease expected attempt receipt decision
    dispatched progressed now s)"
  unfolding reconcile_action_receipt_def
  by (intro wrote_intros wrote_Inr rtranclp.rtrancl_refl wrote_receipt assms)
    (simp_all only: own_row not_not simp_thms action_state.distinct)

lemma interrupted_row:
  "ac_state x = ActExecuting \<Longrightarrow> st \<noteq> ActExecuting \<Longrightarrow> action_follows x (x\<lparr>ac_state := st, ac_receipt := v, ac_updated := ts, ac_settled := w\<rparr>)"
  by (simp add: action_follows_def action_moves_def intent_of_def)

lemma writes_interrupt: "interrupt_action R ts a s = Inr t \<Longrightarrow> writes s t"
  unfolding interrupt_action_def Let_def bindR_Inr
  apply (elim exE conjE)
  apply (simp only: sum.inject split: prod.splits, hypsubst)
  apply (rule writes_step [OF writes_recorded [OF _ writes_step [OF rtranclp.rtrancl_refl rw_action]] rw_decided], assumption)
    apply (simp add: interrupted_def interrupted_row action_follows_refl)
   apply (simp_all add: keeps_lease_def failure_of_def released_def decided_def)
  done

lemma writes_interrupts: "interrupt_actions R ts as s = Inr t \<Longrightarrow> writes s t"
proof (induction as arbitrary: s)
  case (Cons a as)
  from Cons.prems obtain u where "interrupt_action R ts a s = Inr u" "interrupt_actions R ts as u = Inr t"
    by (auto simp: bindR_Inr)
  then show ?case using writes_interrupt Cons.IH by (meson rtranclp_trans)
qed simp

lemma wrote_interrupted: "wrote s (recover_interrupted R now s)"
  by (auto simp: wrote_def recover_interrupted_def Let_def bindR_Inr intro: writes_interrupts)

section \<open>Repairs and the cursor\<close>

lemma wrote_link: "wrote s (link_repair R episode holder epoch lease expected request repair_task fp now s)"
  unfolding link_repair_def
  apply (intro wrote_intros wrote_now wrote_Inr rtranclp.rtrancl_refl)
  apply (rule writes_step [OF writes_recorded [OF _ writes_step [OF rtranclp.rtrancl_refl rw_repair]] rw_episode], assumption+)
       apply (simp_all add: keeps_lease_def failure_of_def)
  done

lemma wrote_deployed:
  assumes "unique_key re_id (repairs s)"
  shows "wrote s (mark_repair_deployed episode expected attempt verified expected_fp evidence verified_by fresh now s)"
  unfolding mark_repair_deployed_def
  apply (intro wrote_intros wrote_now wrote_Inr rtranclp.rtrancl_refl)
  apply (rule writes_step [OF writes_step [OF writes_recorded [OF _ rtranclp.rtrancl_refl] rw_deployed] rw_episode], assumption)
  subgoal premises p for k i n v f refs w e r t m pol c u x
  proof -
    from p have "r \<in> set (repairs s)" "x \<in> set (repairs s)" "re_id x = re_id r" "re_deployed r = None"
      by (auto simp: require_Inr row_get_def find_Some_iff event_tables)
    then show ?thesis using unique_same [OF assms, of x r] by (simp add: repair_follows_def repair_link_of_def)
  qed
   apply (simp_all add: keeps_lease_def failure_of_def decided_def suspended_decision_def repair_deployed_wait_decision_def manual_decision_def split: if_splits)
  done

lemma wrote_advance: "wrote s (advance_cursor expected cursor s)"
  unfolding advance_cursor_def
  by (intro wrote_intros wrote_Inr rtranclp.rtrancl_refl writes_step [OF rtranclp.rtrancl_refl] rw_cursor) simp

end
