(* ===== verification/Recovery_Machine.thy ===== *)
theory Recovery_Machine
  imports Recovery_Writes
begin

text \<open>
  The recovery ledger as a machine: \<open>recovery_step\<close> is any interleaving of its operations with arbitrary
  arguments and with transactions of the other components, which never lower the lease counter.
  \<open>recovery_ok\<close> is what every write keeps; \<open>keeps_rows\<close> says which rows a run keeps.
\<close>

section \<open>The machine\<close>

inductive recovery_step :: "runtime \<Rightarrow> recovery_ledger \<Rightarrow> recovery_ledger \<Rightarrow> bool" for R where
  rs_configure: "configure_policy R task policy expected actor now s = Inr (row, t) \<Longrightarrow> recovery_step R s t"
| rs_record: "record_episode R raw decision now s = Inr (e, t) \<Longrightarrow> recovery_step R s t"
| rs_supersede: "reconcile_superseded_attempts R task epoch now s = Inr (done, t) \<Longrightarrow> recovery_step R s t"
| rs_claim: "claim_due episode holder epoch expected attempt seconds now s = Inr (claimed, t) \<Longrightarrow> recovery_step R s t"
| rs_renew: "renew_episode episode holder epoch lease expected attempt seconds now s = Inr (e, t) \<Longrightarrow> recovery_step R s t"
| rs_begin: "begin_action R episode key fp input holder epoch lease expected attempt now s = Inr (intent, t) \<Longrightarrow> recovery_step R s t"
| rs_settle: "settle_action R episode key holder epoch lease expected attempt receipt decision receipt_state dispatched progressed now s
    = Inr (settled, t) \<Longrightarrow> recovery_step R s t"
| rs_reconcile: "reconcile_action_receipt R episode key fp epoch intent_epoch intent_lease expected attempt receipt decision
    dispatched progressed now s = Inr (settled, t) \<Longrightarrow> recovery_step R s t"
| rs_interrupted: "recover_interrupted R now s = Inr (n, t) \<Longrightarrow> recovery_step R s t"
| rs_link: "link_repair R episode holder epoch lease expected request repair_task fp now s = Inr (e, t) \<Longrightarrow> recovery_step R s t"
| rs_deployed: "mark_repair_deployed episode expected attempt verified expected_fp evidence verified_by fresh now s = Inr (e, t)
    \<Longrightarrow> recovery_step R s t"
| rs_cursor: "advance_cursor expected cursor s = Inr (c, t) \<Longrightarrow> recovery_step R s t"
| rs_other: "node_counter (ledger s) \<le> node_counter l \<Longrightarrow> recovery_step R s (s\<lparr>ledger := l\<rparr>)"

definition no_recovery :: "recovery_ledger \<Rightarrow> bool" where
  "no_recovery s \<longleftrightarrow> episodes s = [] \<and> actions s = [] \<and> repairs s = [] \<and> notices s = [] \<and> 0 \<le> recovery_counter s"

text \<open>What every ledger satisfies.\<close>

definition intents_ok :: "recovery_ledger \<Rightarrow> bool" where
  "intents_ok s \<longleftrightarrow> unique_key ac_id (actions s) \<and> unique_key ac_key (actions s)
     \<and> unique_key (\<lambda>a. (ac_episode a, ac_fingerprint a)) (actions s)
     \<and> (\<forall>a \<in> set (actions s). ac_episode a \<in> ep_id ` set (episodes s) \<and> (ac_state a = ActExecuting \<longleftrightarrow> ac_receipt a = None)
        \<and> stage_named a)"

definition incidents_ok :: "recovery_ledger \<Rightarrow> bool" where
  "incidents_ok s \<longleftrightarrow> unique_key ep_id (episodes s) \<and> unique_key failure_of (episodes s)
     \<and> unique_key (\<lambda>x. (no_episode x, no_reason x)) (notices s)
     \<and> (\<forall>e \<in> set (episodes s). ep_state e = ENeedsAction \<longrightarrow> ep_id e \<in> no_episode ` set (notices s))"

definition recovery_leases_ok :: "recovery_ledger \<Rightarrow> bool" where
  "recovery_leases_ok s \<longleftrightarrow> (\<forall>e \<in> set (episodes s). 0 \<le> ep_lease e \<and> ep_lease e \<le> recovery_counter s \<and> (ep_holder e = None \<longleftrightarrow> ep_lease e = 0))
     \<and> (\<forall>e \<in> set (episodes s). \<forall>x \<in> set (episodes s). ep_lease e = ep_lease x \<and> ep_lease e \<noteq> 0 \<longrightarrow> ep_id e = ep_id x)"

definition repairs_ok :: "recovery_ledger \<Rightarrow> bool" where
  "repairs_ok s \<longleftrightarrow> unique_key re_id (repairs s) \<and> unique_key re_request (repairs s)
     \<and> unique_key (\<lambda>r. (re_task r, re_fingerprint r)) (repairs s)"

definition recovery_ok :: "recovery_ledger \<Rightarrow> bool" where
  "recovery_ok s \<longleftrightarrow> intents_ok s \<and> incidents_ok s \<and> recovery_leases_ok s \<and> repairs_ok s \<and> 0 \<le> recovery_counter s"

lemma step_writes:
  assumes "recovery_step R s t" and "recovery_ok s"
  shows "writes s t"
proof -
  from assms(2) have u: "unique_key ac_id (actions s)" "unique_key re_id (repairs s)"
    by (simp_all add: recovery_ok_def intents_ok_def repairs_ok_def)
  from assms(1) show ?thesis
    by cases (erule wroteD [rotated], rule wrote_configure wrote_record wrote_reconcile_superseded wrote_claim wrote_renew wrote_begin
      wrote_settle [OF u(1)] wrote_reconcile [OF u(1)] wrote_interrupted wrote_link wrote_deployed [OF u(2)] wrote_advance
      | rule writes_step [OF rtranclp.rtrancl_refl], simp, erule rw_ledger)+
qed

section \<open>The invariant\<close>

lemma put_column:
  "(\<And>x. x \<in> set t \<Longrightarrow> key x = k \<Longrightarrow> col (f x) = col x) \<Longrightarrow> map col (row_put key k f t) = map col t"
  by (simp add: row_put_def)

lemma unique_columns: "map col t = map col u \<Longrightarrow> unique_key col t \<longleftrightarrow> unique_key col u"
  by (simp add: unique_key_def)

lemma column_set: "map col t = map col u \<Longrightarrow> col ` set t = col ` set u"
  by (metis list.set_map)

lemma asked_cases:
  obtains (quiet) "record_needs_action_notification e d ts s = s"
      "de_state d = ENeedsAction \<Longrightarrow> ep_id e \<in> no_episode ` set (notices s)"
    | (asked) l row where "record_needs_action_notification e d ts s = s\<lparr>ledger := l, notices := notices s @ [row]\<rparr>"
      "node_counter l = node_counter (ledger s)" "no_episode row = ep_id e" "no_reason row = de_reason d"
      "(ep_id e, de_reason d) \<notin> (\<lambda>x. (no_episode x, no_reason x)) ` set (notices s)"
proof (cases "de_state d = ENeedsAction \<and> \<not> list_ex (\<lambda>x. no_episode x = ep_id e \<and> no_reason x = de_reason d) (notices s)")
  case False
  show ?thesis by (rule quiet) (use False in \<open>force simp: record_needs_action_notification_def list_ex_iff\<close>)+
next
  case True
  let ?v = "recovery_event ''node_recovery.needs_action'' (ep_task e) (Some (ep_node e))
         [(''episode_id'', VStr (ep_id e)), (''reason_kind'', VStr (de_reason d))] ts s"
  obtain c u where v: "?v = (c, u)" by (cases ?v)
  show ?thesis
  proof (rule asked)
    show "record_needs_action_notification e d ts s = s\<lparr>ledger := ledger u, notices := notices s
        @ [\<lparr>no_episode = ep_id e, no_reason = de_reason d, no_cursor = c, no_created = ts\<rparr>]\<rparr>"
      unfolding record_needs_action_notification_def v using True event_rows [OF v] by simp
    show "node_counter (ledger u) = node_counter (ledger s)" using event_tables(7) [OF v] by (simp add: recovery_counter_def)
    show "(ep_id e, de_reason d) \<notin> (\<lambda>x. (no_episode x, no_reason x)) ` set (notices s)" using True by (auto simp: list_ex_iff)
  qed simp_all
qed

lemma asked_tables:
  "episodes (record_needs_action_notification e d ts s) = episodes s"
  "actions (record_needs_action_notification e d ts s) = actions s"
  "repairs (record_needs_action_notification e d ts s) = repairs s"
  "projection (record_needs_action_notification e d ts s) = projection s"
  "recovery_counter (record_needs_action_notification e d ts s) = recovery_counter s"
  by (cases rule: asked_cases [of e d ts s]; simp add: recovery_counter_def)+

lemma asked_unique:
  assumes "unique_key (\<lambda>x. (no_episode x, no_reason x)) (notices s)"
  shows "unique_key (\<lambda>x. (no_episode x, no_reason x)) (notices (record_needs_action_notification e d ts s))"
  by (cases rule: asked_cases [of e d ts s]; use assms in \<open>simp add: unique_key_def\<close>)

lemma asked_notices:
  "no_episode ` set (notices s) \<subseteq> no_episode ` set (notices (record_needs_action_notification e d ts s))"
  "de_state d = ENeedsAction \<Longrightarrow> ep_id e \<in> no_episode ` set (notices (record_needs_action_notification e d ts s))"
  by (cases rule: asked_cases [of e d ts s]; force)+

lemma put_episode_tables:
  "episodes (put_episode k f s) = row_put ep_id k f (episodes s)" "actions (put_episode k f s) = actions s"
  "repairs (put_episode k f s) = repairs s" "notices (put_episode k f s) = notices s" "projection (put_episode k f s) = projection s"
  "recovery_counter (put_episode k f s) = recovery_counter s"
  by (simp_all add: put_episode_def recovery_counter_def)

lemma lease_tables:
  assumes "recovery_lease s = (lease, u)"
  shows "episodes u = episodes s" "actions u = actions s" "repairs u = repairs s" "notices u = notices s" "projection u = projection s"
    "lease = recovery_counter s + 1" "recovery_counter u = recovery_counter s + 1"
  using assms by (auto simp: recovery_lease_def next_lease_epoch_def Let_def recovery_counter_def node_counter_def)

lemma put_action_tables:
  "episodes (put_action k f s) = episodes s" "actions (put_action k f s) = row_put ac_id k f (actions s)"
  "repairs (put_action k f s) = repairs s" "notices (put_action k f s) = notices s" "projection (put_action k f s) = projection s"
  "recovery_counter (put_action k f s) = recovery_counter s"
  by (simp_all add: put_action_def recovery_counter_def)

lemmas write_tables = asked_tables put_episode_tables put_action_tables

lemma added_rows: "row_add key r t = Inr t' \<longleftrightarrow> key r \<notin> key ` set t \<and> t' = t @ [r]"
  by (auto simp: row_add_def)

text \<open>No write changes the identity of an episode.\<close>

lemma write_episode_ids:
  assumes "recovery_write s t"
  shows "ep_id ` set (episodes s) \<subseteq> ep_id ` set (episodes t)"
  using assms
proof cases
  case (rw_episode k f)
  have "map ep_id (row_put ep_id k f (episodes s)) = map ep_id (episodes s)"
    by (rule put_column) (use rw_episode(2) in \<open>simp add: keeps_lease_def\<close>)
  from column_set [OF this] show ?thesis by (simp add: rw_episode(1) write_tables)
next
  case (rw_decided e f d ts)
  have "map ep_id (row_put ep_id (ep_id e) f (episodes s)) = map ep_id (episodes s)"
    by (rule put_column) (use rw_decided(2) in \<open>simp add: keeps_lease_def\<close>)
  from column_set [OF this] show ?thesis by (simp add: rw_decided(1) write_tables)
next
  case (rw_lease lease u k f)
  have "map ep_id (row_put ep_id k f (episodes s)) = map ep_id (episodes s)"
    by (rule put_column) (use rw_lease(3) in simp)
  from column_set [OF this] show ?thesis by (simp add: rw_lease(1) write_tables lease_tables [OF rw_lease(2)])
next
  case (rw_new_episode e rows d ts)
  then show ?thesis by (auto simp: write_tables added_rows)
qed (simp_all add: write_tables)

lemma intents_kept:
  assumes "recovery_write s t" and "intents_ok s"
  shows "intents_ok t"
proof -
  from assms(2) have u: "unique_key ac_id (actions s)" "unique_key ac_key (actions s)"
      "unique_key (\<lambda>a. (ac_episode a, ac_fingerprint a)) (actions s)"
    and r: "a \<in> set (actions s) \<Longrightarrow> ac_episode a \<in> ep_id ` set (episodes s) \<and> (ac_state a = ActExecuting \<longleftrightarrow> ac_receipt a = None) \<and> stage_named a" for a
    by (simp_all add: intents_ok_def)
  note ids = write_episode_ids [OF assms(1)]
  have same: "intents_ok t" if "actions t = actions s" using u r ids unfolding intents_ok_def that by blast
  from assms(1) show ?thesis
  proof cases
    case (rw_intent a rows)
    have rows: "rows = actions s @ [a]" "ac_id a \<notin> ac_id ` set (actions s)" using rw_intent(2) by (simp_all add: added_rows)
    have "ac_key a \<notin> ac_key ` set (actions s)" using rw_intent(3) by (auto simp: row_get_def find_None_iff)
    moreover have "(ac_episode a, ac_fingerprint a) \<notin> (\<lambda>a. (ac_episode a, ac_fingerprint a)) ` set (actions s)"
      using rw_intent(4) by (auto simp: find_None_iff)
    ultimately have "unique_key ac_id rows" "unique_key ac_key rows" "unique_key (\<lambda>a. (ac_episode a, ac_fingerprint a)) rows"
      using u rows by (simp_all add: unique_key_def)
    moreover have "ac_episode b \<in> ep_id ` set (episodes s) \<and> (ac_state b = ActExecuting \<longleftrightarrow> ac_receipt b = None) \<and> stage_named b" if "b \<in> set rows" for b
      using that r rw_intent(5-8) rows(1) by auto
    ultimately show ?thesis unfolding rw_intent(1) intents_ok_def by simp
  next
    case (rw_action k f)
    have f: "action_follows x (f x)" "f x = x \<or> ac_receipt (f x) \<noteq> None" if "x \<in> set (actions s)" "ac_id x = k" for x
      using rw_action(2) [OF that] by blast+
    have cols: "map ac_id (row_put ac_id k f (actions s)) = map ac_id (actions s)"
      "map ac_key (row_put ac_id k f (actions s)) = map ac_key (actions s)"
      "map (\<lambda>a. (ac_episode a, ac_fingerprint a)) (row_put ac_id k f (actions s)) = map (\<lambda>a. (ac_episode a, ac_fingerprint a)) (actions s)"
      by (rule put_column; simp add: action_followsD [OF f(1)])+
    have rows: "ac_episode b \<in> ep_id ` set (episodes s) \<and> (ac_state b = ActExecuting \<longleftrightarrow> ac_receipt b = None) \<and> stage_named b"
      if "b \<in> set (row_put ac_id k f (actions s))" for b
    proof -
      from that obtain x where x: "x \<in> set (actions s)" "b = (if ac_id x = k then f x else x)" by (auto simp: row_put_def)
      show ?thesis
      proof (cases "ac_id x = k \<and> f x \<noteq> x")
        case True
        then have b: "b = f x" and fx: "action_follows x (f x)" "ac_receipt (f x) \<noteq> None" using f [OF x(1)] x(2) by auto
        from fx(1) True have "action_moves (ac_state x) (ac_state (f x))" unfolding action_follows_def by blast
        then have "ac_state (f x) \<noteq> ActExecuting" unfolding action_moves_def by auto
        moreover have "stage_named (f x)"
          using r [OF x(1)] unfolding stage_named_def action_followsD(5) [OF fx(1)] by blast
        ultimately show ?thesis using fx(2) unfolding b action_followsD(2) [OF fx(1)] using r [OF x(1)] by blast
      next
        case False
        then show ?thesis using r [OF x(1)] x(2) by (auto split: if_splits)
      qed
    qed
    have "unique_key ac_id (row_put ac_id k f (actions s))" "unique_key ac_key (row_put ac_id k f (actions s))"
      "unique_key (\<lambda>a. (ac_episode a, ac_fingerprint a)) (row_put ac_id k f (actions s))"
      using u unique_columns [OF cols(1)] unique_columns [OF cols(2)] unique_columns [OF cols(3)] by blast+
    then show ?thesis unfolding rw_action(1) intents_ok_def put_action_tables using rows by blast
  qed (rule same, simp add: write_tables lease_tables)+
qed

lemma put_failures:
  assumes "\<And>x. x \<in> set es \<Longrightarrow> ep_id x = k \<Longrightarrow> ep_id (f x) = ep_id x \<and> failure_of (f x) = failure_of x"
  shows "unique_key ep_id (row_put ep_id k f es) \<longleftrightarrow> unique_key ep_id es"
    "unique_key failure_of (row_put ep_id k f es) \<longleftrightarrow> unique_key failure_of es"
  by (rule unique_columns, rule put_column, simp add: assms)+

lemma put_row: "y \<in> set (row_put key k f t) \<Longrightarrow> \<exists>x \<in> set t. key x \<noteq> k \<and> y = x \<or> key x = k \<and> y = f x"
  by (auto simp: row_put_def)

lemma incidents_kept:
  assumes "recovery_write s t" and "incidents_ok s"
  shows "incidents_ok t"
proof -
  from assms(2) have u: "unique_key ep_id (episodes s)" "unique_key failure_of (episodes s)"
      "unique_key (\<lambda>x. (no_episode x, no_reason x)) (notices s)"
    and n: "\<And>e. e \<in> set (episodes s) \<Longrightarrow> ep_state e = ENeedsAction \<Longrightarrow> ep_id e \<in> no_episode ` set (notices s)"
    by (simp_all add: incidents_ok_def)
  have same: "incidents_ok t" if "episodes t = episodes s" "notices t = notices s"
    using assms(2) unfolding incidents_ok_def that .
  from assms(1) show ?thesis
  proof cases
    case (rw_episode k f)
    have f: "ep_id (f x) = ep_id x \<and> failure_of (f x) = failure_of x" if "x \<in> set (episodes s)" "ep_id x = k" for x
      using rw_episode(2) [OF that] by (simp add: keeps_lease_def)
    have "ep_id y \<in> no_episode ` set (notices s)" if "y \<in> set (row_put ep_id k f (episodes s))" "ep_state y = ENeedsAction" for y
      using put_row [OF that(1)] that(2) n rw_episode(3) f by metis
    then show ?thesis unfolding rw_episode(1) incidents_ok_def put_episode_tables
      using u put_failures [of "episodes s" k f, OF f] by blast
  next
    case (rw_decided e f d ts)
    let ?n = "set (notices (record_needs_action_notification e d ts (put_episode (ep_id e) f s)))"
    have f: "ep_id (f x) = ep_id x \<and> failure_of (f x) = failure_of x" if "x \<in> set (episodes s)" "ep_id x = ep_id e" for x
      using rw_decided(2) [OF that] by (simp add: keeps_lease_def)
    have "ep_id y \<in> no_episode ` ?n" if y: "y \<in> set (row_put ep_id (ep_id e) f (episodes s))" "ep_state y = ENeedsAction" for y
    proof -
      from put_row [OF y(1)] obtain x where x: "x \<in> set (episodes s)" "ep_id x \<noteq> ep_id e \<and> y = x \<or> ep_id x = ep_id e \<and> y = f x" by blast
      show ?thesis
      proof (cases "ep_id x = ep_id e")
        case True
        then have "ep_id y = ep_id e" "de_state d = ENeedsAction" using x f [OF x(1) True] y(2) rw_decided(3) by auto
        then show ?thesis using asked_notices(2) by metis
      next
        case False
        then have "ep_id y \<in> no_episode ` set (notices s)" using x n y(2) by auto
        then show ?thesis using asked_notices(1) [of "put_episode (ep_id e) f s"] unfolding put_episode_tables by blast
      qed
    qed
    moreover have "unique_key (\<lambda>x. (no_episode x, no_reason x)) (notices (record_needs_action_notification e d ts (put_episode (ep_id e) f s)))"
      by (rule asked_unique) (simp only: put_episode_tables u)
    ultimately show ?thesis unfolding rw_decided(1) incidents_ok_def asked_tables put_episode_tables
      using u put_failures [of "episodes s" "ep_id e" f, OF f] by blast
  next
    case (rw_lease lease v k f)
    have f: "ep_id (f x) = ep_id x \<and> failure_of (f x) = failure_of x" "ep_state (f x) = ep_state x"
      if "x \<in> set (episodes s)" "ep_id x = k" for x
      using rw_lease(3) [OF that] that by simp_all
    have "ep_id y \<in> no_episode ` set (notices s)" if "y \<in> set (row_put ep_id k f (episodes s))" "ep_state y = ENeedsAction" for y
      using put_row [OF that(1)] that(2) n f by metis
    then show ?thesis
      unfolding rw_lease(1) incidents_ok_def put_episode_tables lease_tables [OF rw_lease(2)]
      using u put_failures [of "episodes s" k f, OF f(1)] by blast
  next
    case (rw_new_episode e rows d ts)
    let ?t = "record_needs_action_notification e d ts (s\<lparr>episodes := rows\<rparr>)"
    have rows: "rows = episodes s @ [e]" "ep_id e \<notin> ep_id ` set (episodes s)" using rw_new_episode(2) by (simp_all add: added_rows)
    have "failure_of e \<notin> failure_of ` set (episodes s)" using rw_new_episode(3) by (auto simp: find_None_iff)
    then have keys: "unique_key ep_id rows" "unique_key failure_of rows" using u rows by (simp_all add: unique_key_def)
    have old: "no_episode ` set (notices s) \<subseteq> no_episode ` set (notices ?t)"
      using asked_notices(1) [of "s\<lparr>episodes := rows\<rparr>"] by simp
    have "ep_id y \<in> no_episode ` set (notices ?t)" if "y \<in> set rows" "ep_state y = ENeedsAction" for y
      using that n old rows(1) asked_notices(2) [of d e] rw_new_episode(6) by auto
    moreover have "unique_key (\<lambda>x. (no_episode x, no_reason x)) (notices ?t)" by (rule asked_unique) (simp add: u)
    moreover have "episodes ?t = rows" by (simp add: asked_tables)
    ultimately show ?thesis unfolding rw_new_episode(1) incidents_ok_def using keys by simp
  qed (rule same; simp add: write_tables)+
qed

lemma leases_kept:
  assumes "recovery_write s t" and "recovery_leases_ok s" and "incidents_ok s" and "0 \<le> recovery_counter s"
  shows "recovery_leases_ok t \<and> recovery_counter s \<le> recovery_counter t"
proof -
  from assms(2) have l: "\<And>e. e \<in> set (episodes s) \<Longrightarrow> 0 \<le> ep_lease e \<and> ep_lease e \<le> recovery_counter s \<and> (ep_holder e = None \<longleftrightarrow> ep_lease e = 0)"
    and d: "\<And>e x. e \<in> set (episodes s) \<Longrightarrow> x \<in> set (episodes s) \<Longrightarrow> ep_lease e = ep_lease x \<Longrightarrow> ep_lease e \<noteq> 0 \<Longrightarrow> ep_id e = ep_id x"
    unfolding recovery_leases_ok_def by blast+
  have u: "unique_key ep_id (episodes s)" using assms(3) by (simp add: incidents_ok_def)
  have same: ?thesis if "episodes t = episodes s" "recovery_counter s \<le> recovery_counter t"
    using that l d unfolding recovery_leases_ok_def that(1) by (meson order_trans)
  have kept: ?thesis if t: "episodes t = row_put ep_id k f (episodes s)" "recovery_counter t = recovery_counter s"
    and f: "\<And>x. x \<in> set (episodes s) \<Longrightarrow> ep_id x = k \<Longrightarrow> keeps_lease x (f x)" for k f
  proof -
    have y: "\<exists>x \<in> set (episodes s). ep_id y = ep_id x \<and> (ep_lease y = ep_lease x \<and> ep_holder y = ep_holder x \<or> ep_lease y = 0 \<and> ep_holder y = None)"
      if "y \<in> set (episodes t)" for y
      using put_row [OF that [unfolded t(1)]] f unfolding keeps_lease_def by metis
    have "0 \<le> ep_lease y \<and> ep_lease y \<le> recovery_counter t \<and> (ep_holder y = None \<longleftrightarrow> ep_lease y = 0)" if "y \<in> set (episodes t)" for y
    proof -
      from y [OF that] obtain x where x: "x \<in> set (episodes s)"
        "ep_lease y = ep_lease x \<and> ep_holder y = ep_holder x \<or> ep_lease y = 0 \<and> ep_holder y = None" by blast
      from x(2) show ?thesis
        by (elim disjE conjE) (use l [OF x(1)] t(2) assms(4) in simp_all)
    qed
    moreover have "ep_id y = ep_id z" if "y \<in> set (episodes t)" "z \<in> set (episodes t)" "ep_lease y = ep_lease z" "ep_lease y \<noteq> 0" for y z
    proof -
      have held: "\<exists>x \<in> set (episodes s). ep_id v = ep_id x \<and> ep_lease v = ep_lease x" if v: "v \<in> set (episodes t)" and n: "ep_lease v \<noteq> 0" for v
        using y [OF v] n by blast
      have yz: "y \<in> set (episodes t)" "ep_lease y \<noteq> 0" and z: "z \<in> set (episodes t)" "ep_lease z \<noteq> 0" using that by simp_all
      obtain w where w: "w \<in> set (episodes s)" "ep_id z = ep_id w" "ep_lease z = ep_lease w" using held [OF z] by blast
      obtain x where x: "x \<in> set (episodes s)" "ep_id y = ep_id x" "ep_lease y = ep_lease x" using held [OF yz] by blast
      have "ep_lease x = ep_lease w" "ep_lease x \<noteq> 0" using x(3) w(3) that(3) yz(2) by metis+
      from d [OF x(1) w(1) this] show ?thesis using x(2) w(2) by metis
    qed
    ultimately have "recovery_leases_ok t" unfolding recovery_leases_ok_def by blast
    then show ?thesis using t(2) by simp
  qed
  from assms(1) show ?thesis
  proof cases
    case (rw_ledger l)
    then show ?thesis by (intro same) (simp_all add: recovery_counter_def)
  next
    case (rw_episode k f)
    show ?thesis by (rule kept [of k f]) (simp_all add: rw_episode write_tables)
  next
    case (rw_decided e f d ts)
    show ?thesis by (rule kept [of "ep_id e" f]) (simp_all add: rw_decided write_tables)
  next
    case (rw_lease lease v k f)
    have t: "episodes t = row_put ep_id k f (episodes s)" "recovery_counter t = lease" "lease = recovery_counter s + 1"
      unfolding rw_lease(1) put_episode_tables using lease_tables [OF rw_lease(2)] by simp_all
    have y: "\<exists>x \<in> set (episodes s). ep_id y = ep_id x \<and> (ep_id x \<noteq> k \<and> y = x \<or> ep_id x = k \<and> ep_lease y = lease \<and> ep_holder y \<noteq> None)"
      if "y \<in> set (episodes t)" for y
      using put_row [OF that [unfolded t(1)]] rw_lease(3) by metis
    have "0 \<le> ep_lease y \<and> ep_lease y \<le> recovery_counter t \<and> (ep_holder y = None \<longleftrightarrow> ep_lease y = 0)" if "y \<in> set (episodes t)" for y
      using y [OF that] l t(2,3) assms(4) by fastforce
    moreover have "ep_id y = ep_id z" if "y \<in> set (episodes t)" "z \<in> set (episodes t)" "ep_lease y = ep_lease z" "ep_lease y \<noteq> 0" for y z
    proof -
      from y [OF that(1)] obtain x where
        x: "x \<in> set (episodes s)" "ep_id y = ep_id x" "ep_id x \<noteq> k \<and> y = x \<or> ep_id x = k \<and> ep_lease y = lease" by blast
      from y [OF that(2)] obtain w where
        w: "w \<in> set (episodes s)" "ep_id z = ep_id w" "ep_id w \<noteq> k \<and> z = w \<or> ep_id w = k \<and> ep_lease z = lease" by blast
      have "ep_lease x \<noteq> lease" "ep_lease w \<noteq> lease" using l [OF x(1)] l [OF w(1)] t(3) by auto
      then show ?thesis using x(2,3) w(2,3) d [OF x(1) w(1)] that(3,4) by metis
    qed
    ultimately have "recovery_leases_ok t" unfolding recovery_leases_ok_def by blast
    then show ?thesis using t(2,3) by simp
  next
    case (rw_new_episode e rows d ts)
    have rows: "rows = episodes s @ [e]" using rw_new_episode(2) by (simp add: added_rows)
    have t: "episodes t = episodes s @ [e]" "recovery_counter t = recovery_counter s"
      unfolding rw_new_episode(1) asked_tables by (simp_all add: rows recovery_counter_def)
    have e: "ep_lease e = 0" "ep_holder e = None" using rw_new_episode(4,5) by blast+
    have "0 \<le> ep_lease y \<and> ep_lease y \<le> recovery_counter t \<and> (ep_holder y = None \<longleftrightarrow> ep_lease y = 0)" if "y \<in> set (episodes t)" for y
      using that l e assms(4) unfolding t by auto
    moreover have "ep_id y = ep_id z" if "y \<in> set (episodes t)" "z \<in> set (episodes t)" "ep_lease y = ep_lease z" "ep_lease y \<noteq> 0" for y z
    proof -
      have "y \<in> set (episodes s)" "z \<in> set (episodes s)" using that e unfolding t by auto
      then show ?thesis using d that(3,4) by blast
    qed
    ultimately have "recovery_leases_ok t" unfolding recovery_leases_ok_def by blast
    then show ?thesis using t(2) by simp
  qed (rule same; (simp_all only: put_action_tables order_refl)?; simp add: recovery_counter_def)+
qed

lemma repairs_kept:
  assumes "recovery_write s t" and "repairs_ok s"
  shows "repairs_ok t"
proof -
  from assms(2) have u: "unique_key re_id (repairs s)" "unique_key re_request (repairs s)"
      "unique_key (\<lambda>r. (re_task r, re_fingerprint r)) (repairs s)"
    by (simp_all add: repairs_ok_def)
  have same: "repairs_ok t" if "repairs t = repairs s" using assms(2) unfolding repairs_ok_def that .
  from assms(1) show ?thesis
  proof cases
    case (rw_repair r rows)
    have rows: "rows = repairs s @ [r]" "re_id r \<notin> re_id ` set (repairs s)" using rw_repair(2) by (simp_all add: added_rows)
    have "(re_task r, re_fingerprint r) \<notin> (\<lambda>r. (re_task r, re_fingerprint r)) ` set (repairs s)"
      using rw_repair(4) by (auto simp: find_None_iff)
    then show ?thesis unfolding rw_repair(1) repairs_ok_def using u rows rw_repair(3) by (simp add: unique_key_def)
  next
    case (rw_deployed k f)
    have f: "repair_link_of (f x) = repair_link_of x" if "x \<in> set (repairs s)" "re_id x = k" for x
      using rw_deployed(2) [OF that] by (simp add: repair_follows_def)
    have cols: "map re_id (row_put re_id k f (repairs s)) = map re_id (repairs s)"
      "map re_request (row_put re_id k f (repairs s)) = map re_request (repairs s)"
      "map (\<lambda>r. (re_task r, re_fingerprint r)) (row_put re_id k f (repairs s)) = map (\<lambda>r. (re_task r, re_fingerprint r)) (repairs s)"
      by (rule put_column; use f in \<open>simp add: repair_link_of_def\<close>)+
    show ?thesis unfolding rw_deployed(1) repairs_ok_def
      using u unique_columns [OF cols(1)] unique_columns [OF cols(2)] unique_columns [OF cols(3)] by simp
  qed (rule same; simp add: write_tables lease_tables)+
qed

lemma write_kept: "recovery_write s t \<Longrightarrow> recovery_ok s \<Longrightarrow> recovery_ok t"
  unfolding recovery_ok_def using intents_kept incidents_kept leases_kept repairs_kept by (meson order_trans)

lemma writes_kept: "writes s t \<Longrightarrow> recovery_ok s \<Longrightarrow> recovery_ok t"
  by (induction rule: rtranclp_induct) (auto dest: write_kept)

interpretation recovery: invariant_machine no_recovery "recovery_step R" recovery_ok for R
proof unfold_locales
  fix s assume "no_recovery s"
  then show "recovery_ok s"
    by (simp add: no_recovery_def recovery_ok_def intents_ok_def incidents_ok_def recovery_leases_ok_def repairs_ok_def unique_key_def)
next
  fix s t assume "recovery_step R s t" and "recovery_ok s"
  then show "recovery_ok t" using step_writes writes_kept by blast
qed

lemma run_writes:
  assumes "(recovery_step R)\<^sup>*\<^sup>* s t" and "recovery_ok s"
  shows "writes s t"
  using assms
proof (induction rule: rtranclp_induct)
  case (step u v)
  then show ?case using step_writes [OF step.hyps(2) recovery.inv_run [OF step.hyps(1) step.prems]] by (meson rtranclp_trans)
qed simp

section \<open>What runs keep\<close>

definition keeps_rows :: "('r \<Rightarrow> 'r \<Rightarrow> bool) \<Rightarrow> 'r list \<Rightarrow> 'r list \<Rightarrow> bool" where
  "keeps_rows follows t u \<longleftrightarrow> (\<forall>x \<in> set t. \<exists>y \<in> set u. follows x y)"

locale row_history =
  fixes follows :: "'r \<Rightarrow> 'r \<Rightarrow> bool"
  assumes follows_refl: "follows x x"
    and follows_trans: "follows x y \<Longrightarrow> follows y z \<Longrightarrow> follows x z"
begin

lemma keeps_subset: "set t \<subseteq> set u \<Longrightarrow> keeps_rows follows t u"
  unfolding keeps_rows_def using follows_refl by blast

lemma keeps_trans: "keeps_rows follows t u \<Longrightarrow> keeps_rows follows u v \<Longrightarrow> keeps_rows follows t v"
  unfolding keeps_rows_def using follows_trans by blast

lemma keeps_put:
  assumes "\<And>x. x \<in> set t \<Longrightarrow> key x = k \<Longrightarrow> follows x (f x)"
  shows "keeps_rows follows t (row_put key k f t)"
  unfolding keeps_rows_def
proof
  fix x assume x: "x \<in> set t"
  then have "(if key x = k then f x else x) \<in> set (row_put key k f t)" unfolding row_put_def by simp
  moreover have "follows x (if key x = k then f x else x)" using assms x follows_refl by simp
  ultimately show "\<exists>y \<in> set (row_put key k f t). follows x y" by blast
qed

end

interpretation action_history: row_history action_follows
  by unfold_locales (rule action_follows_refl, erule action_follows_trans)

interpretation repair_history: row_history repair_follows
  by unfold_locales (rule repair_follows_refl, erule repair_follows_trans)

lemma write_actions: "recovery_write s t \<Longrightarrow> keeps_rows action_follows (actions s) (actions t)"
proof (induction rule: recovery_write.induct)
  case (rw_action s k f)
  then show ?case unfolding put_action_tables by (intro action_history.keeps_put) blast
qed (rule action_history.keeps_subset, auto simp: write_tables added_rows lease_tables)+

lemma write_repairs: "recovery_write s t \<Longrightarrow> keeps_rows repair_follows (repairs s) (repairs t)"
proof (induction rule: recovery_write.induct)
  case (rw_deployed s k f)
  then show ?case by (simp, intro repair_history.keeps_put) blast
qed (rule repair_history.keeps_subset, auto simp: write_tables added_rows lease_tables)+

lemma writes_actions: "writes s t \<Longrightarrow> keeps_rows action_follows (actions s) (actions t)"
  by (induction rule: rtranclp_induct) (blast intro: action_history.keeps_subset action_history.keeps_trans write_actions)+

lemma writes_repairs: "writes s t \<Longrightarrow> keeps_rows repair_follows (repairs s) (repairs t)"
  by (induction rule: rtranclp_induct) (blast intro: repair_history.keeps_subset repair_history.keeps_trans write_repairs)+

text \<open>A lease that was given to an episode is never given again.\<close>

definition lease_past :: "string \<Rightarrow> int \<Rightarrow> recovery_ledger \<Rightarrow> bool" where
  "lease_past k l s \<longleftrightarrow> l \<le> recovery_counter s \<and> (\<forall>e \<in> set (episodes s). ep_id e = k \<longrightarrow> ep_lease e = 0 \<or> l \<le> ep_lease e)"

lemma write_lease_past:
  assumes "recovery_write s t" and "lease_past k l s" and "recovery_ok s"
  shows "lease_past k l t"
proof -
  have c: "recovery_counter s \<le> recovery_counter t"
    using leases_kept [OF assms(1)] assms(3) unfolding recovery_ok_def by blast
  from assms(2) have p: "l \<le> recovery_counter s" "\<And>e. e \<in> set (episodes s) \<Longrightarrow> ep_id e = k \<Longrightarrow> ep_lease e = 0 \<or> l \<le> ep_lease e"
    unfolding lease_past_def by blast+
  have same: ?thesis if "episodes t = episodes s" using p c unfolding lease_past_def that by simp
  have kept: ?thesis if t: "episodes t = row_put ep_id j f (episodes s)"
    and f: "\<And>x. x \<in> set (episodes s) \<Longrightarrow> ep_id x = j \<Longrightarrow> keeps_lease x (f x)" for j f
  proof -
    have "ep_lease y = 0 \<or> l \<le> ep_lease y" if y: "y \<in> set (episodes t)" "ep_id y = k" for y
      using put_row [OF y(1) [unfolded t]] f p(2) y(2) unfolding keeps_lease_def by metis
    then show ?thesis using p(1) c unfolding lease_past_def by simp
  qed
  from assms(1) show ?thesis
  proof cases
    case (rw_episode j f)
    show ?thesis by (rule kept [of j f]) (simp_all add: rw_episode write_tables)
  next
    case (rw_decided e f d ts)
    show ?thesis by (rule kept [of "ep_id e" f]) (simp_all add: rw_decided write_tables)
  next
    case (rw_lease lease v j f)
    have t: "episodes t = row_put ep_id j f (episodes s)" "lease = recovery_counter s + 1"
      unfolding rw_lease(1) put_episode_tables using lease_tables [OF rw_lease(2)] by simp_all
    have "ep_lease y = 0 \<or> l \<le> ep_lease y" if y: "y \<in> set (episodes t)" "ep_id y = k" for y
    proof -
      from put_row [OF y(1) [unfolded t(1)]] obtain x where "x \<in> set (episodes s)" "ep_id x \<noteq> j \<and> y = x \<or> ep_id x = j \<and> y = f x" by blast
      then show ?thesis using p y(2) rw_lease(3) t(2) by fastforce
    qed
    then show ?thesis using p(1) c unfolding lease_past_def by simp
  next
    case (rw_new_episode e rows d ts)
    then have "episodes t = episodes s @ [e]" "ep_lease e = 0" by (simp_all add: asked_tables added_rows)
    then show ?thesis using p c unfolding lease_past_def by auto
  qed (rule same; simp add: write_tables)+
qed

lemma writes_lease_past: "writes s t \<Longrightarrow> lease_past k l s \<Longrightarrow> recovery_ok s \<Longrightarrow> lease_past k l t"
proof (induction rule: rtranclp_induct)
  case (step u v)
  then show ?case using write_lease_past writes_kept by blast
qed

end
