(* ===== verification/Recovery_Laws.thy ===== *)
theory Recovery_Laws
  imports Recovery_Machine
begin

text \<open>
  The properties of the recovery ledger: what an intent, a receipt, a lease and a repair mean over any
  interleaving of operations, what stands between a plan and an action, and what a restart does.
\<close>

section \<open>Intents\<close>

text \<open>
  Property C20. Whatever operations of the recovery store run, in any order and with any arguments, interleaved with
  transactions that never lower the lease counter, the ledger stays consistent: an action key and a
  fingerprint within an episode name one action, a failure has one episode, a failure fingerprint of a
  task one repair; an episode that asks for the user has its notification, and each is sent once per
  reason; an episode has an owner exactly when it has a lease, and no two hold the same lease; an action
  is executing exactly while it has no receipt.
\<close>

theorem recovery_ledger_consistent:
  assumes "reachable no_recovery (recovery_step R) s"
  shows "unique_key ac_key (actions s) \<and> unique_key (\<lambda>a. (ac_episode a, ac_fingerprint a)) (actions s)
    \<and> unique_key failure_of (episodes s) \<and> unique_key (\<lambda>r. (re_task r, re_fingerprint r)) (repairs s)
    \<and> unique_key (\<lambda>x. (no_episode x, no_reason x)) (notices s)
    \<and> (\<forall>e \<in> set (episodes s). (ep_state e = ENeedsAction \<longrightarrow> ep_id e \<in> no_episode ` set (notices s))
        \<and> (ep_holder e = None \<longleftrightarrow> ep_lease e = 0)
        \<and> (\<forall>x \<in> set (episodes s). ep_lease x = ep_lease e \<and> ep_lease e \<noteq> 0 \<longrightarrow> x = e))
    \<and> (\<forall>a \<in> set (actions s). ac_state a = ActExecuting \<longleftrightarrow> ac_receipt a = None)"
proof -
  have ok: "intents_ok s" "incidents_ok s" "recovery_leases_ok s" "repairs_ok s"
    using recovery.inv_reachable [OF assms] by (simp_all add: recovery_ok_def)
  have "x = e" if "e \<in> set (episodes s)" "x \<in> set (episodes s)" "ep_lease x = ep_lease e" "ep_lease e \<noteq> 0" for e x
  proof -
    have "ep_id e = ep_id x" using ok(3) that unfolding recovery_leases_ok_def by metis
    then show ?thesis using ok(2) that(1,2) unfolding incidents_ok_def by (metis unique_same)
  qed
  then show ?thesis using ok unfolding intents_ok_def incidents_ok_def recovery_leases_ok_def repairs_ok_def by blast
qed

lemma intend_rows:
  assumes "intend_action R e action a continuation ts s = Inr ((b, x, existing), u)"
  shows "b = a" "\<not> existing" "actions u = actions s @ [a]"
  using assms by (auto simp: intend_action_def Let_def bindR_Inr added_rows episode_now_def put_episode_tables event_tables
      split: prod.splits dest!: event_tables(2))

lemma begin_rows:
  assumes "begin_action R episode key fp input holder epoch lease expected attempt now s = Inr ((a, x, False), u)"
  shows "actions u = actions s @ [a]" "ac_state a = ActExecuting"
  using assms by (rule begin_success; use intend_rows in \<open>fastforce simp: new_action_row\<close>)+

text \<open>The intent a request meets.\<close>

lemma met_intent:
  assumes "existing_intent k key stage fp input s = Inr (Some b)"
  shows "b \<in> set (actions s)" "ac_episode b = k" "ac_fingerprint b = fp"
  using assms by (auto simp: existing_intent_def row_get_def find_Some_iff split: option.splits if_splits)

lemma met_key:
  assumes "existing_intent k key stage fp input s = Inr (Some b)" and "row_get ac_key key (actions s) = Some c"
  shows "b = c"
  using assms by (simp add: existing_intent_def split: if_splits)

text \<open>
  Property C7. An intent is recorded once. After \<open>begin_action\<close> recorded a new intent, no later call, in any later
  state of the ledger, records another under its action key or under its fingerprint in the episode: a
  call that succeeds returns the recorded intent as existing and changes nothing, so a driver that acts
  on new intents only never repeats the effect.
\<close>

theorem recovery_intent_once:
  assumes start: "reachable no_recovery (recovery_step R) s"
    and first: "begin_action R episode key fp input holder epoch lease expected attempt now s = Inr ((a, x, False), t)"
    and run: "(recovery_step R)\<^sup>*\<^sup>* t u"
    and again: "begin_action R episode' key' fp' input' holder' epoch' lease' expected' attempt' now' u = Inr ((b, y, existing), v)"
    and same: "rec_text ''action_key'' (VStr key') = Inr (ac_key a)
      \<or> rec_text ''episode_id'' (VStr episode') = Inr (ac_episode a) \<and> fingerprint ''action_fingerprint'' (VStr fp') = Inr (ac_fingerprint a)"
  shows "existing \<and> v = u \<and> intent_of b = intent_of a"
proof -
  have t: "recovery_ok t" "recovery_ok u"
    using recovery.inv_reachable [OF start] rs_begin [OF first] recovery.inv_kept recovery.inv_run [OF run] by blast+
  then have u: "unique_key ac_key (actions u)" "unique_key (\<lambda>a. (ac_episode a, ac_fingerprint a)) (actions u)"
    by (simp_all add: recovery_ok_def intents_ok_def)
  have "a \<in> set (actions t)" using begin_rows(1) [OF first] by simp
  then obtain c where c: "c \<in> set (actions u)" "action_follows a c"
    using writes_actions [OF run_writes [OF run t(1)]] unfolding keeps_rows_def by blast
  note fields = action_followsD [OF c(2)]
  from again show ?thesis
  proof (rule begin_success)
    fix k f doc stage w e action continuation
    assume k: "rec_text ''action_key'' (VStr key') = Inr k" and f: "fingerprint ''action_fingerprint'' (VStr fp') = Inr f"
      and fence: "fence_arguments episode' holder' epoch' expected' attempt' = Inr (ep_id e, w)"
      and intent: "existing_intent (ep_id e) k stage f doc u = Inr None
        \<and> intend_action R e action (new_action R e k stage f doc epoch' lease' (utc now')) continuation (utc now') u = Inr ((b, y, existing), v)
      \<or> existing_intent (ep_id e) k stage f doc u = Inr (Some b) \<and> existing \<and> v = u"
    have "rec_text ''episode_id'' (VStr episode') = Inr (ep_id e)"
      using fence by (auto simp: fence_arguments_def bindR_Inr)
    with same k f have which: "k = ac_key c \<or> (ep_id e, f) = (ac_episode c, ac_fingerprint c)" using fields by auto
    have "existing_intent (ep_id e) k stage f doc u \<noteq> Inr None"
      using which c(1) no_intent [of "ep_id e" k stage f doc u] by (auto simp: row_get_def find_None_iff)
    then have some: "existing_intent (ep_id e) k stage f doc u = Inr (Some b)" "existing" "v = u"
      using intent by blast+
    have "b = c"
    proof (cases "row_get ac_key k (actions u)")
      case None
      then have "k \<noteq> ac_key c" using c(1) by (auto simp: row_get_def find_None_iff)
      then show ?thesis using which met_intent [OF some(1)] unique_same [OF u(2) _ c(1)] by auto
    next
      case (Some d)
      then have d: "b = d" "d \<in> set (actions u)" "ac_key d = k" using met_key [OF some(1)] by (auto simp: row_get_def find_Some_iff)
      from which show ?thesis
      proof
        assume "k = ac_key c"
        then show ?thesis using d unique_same [OF u(1) _ c(1)] by blast
      next
        assume "(ep_id e, f) = (ac_episode c, ac_fingerprint c)"
        then show ?thesis using met_intent [OF some(1)] unique_same [OF u(2) _ c(1)] by auto
      qed
    qed
    then show ?thesis using some(2,3) c(2) by (auto simp: action_follows_def)
  qed
qed

text \<open>
  Property C8. What stands between a plan and an action. A new intent is recorded only for the current revision and
  attempt of the named episode, whose task and node the user did not pause or cancel, with no pending approval,
  by the coordinator in charge and the very holder of the live lease, while the policy that made the plan is
  in force and enabled; the action is the planned one, allowed by the policy, at the planned stage, with
  attempts (three at most) and time left. Where the policy grants a continuation of the action, the
  authorization recomputed from the ledger for exactly this input grants it, and the input carries that
  authorization; elsewhere the input carries none. The intent records key, fingerprint, stage, input and lease
  of the call.
\<close>

theorem recovery_action_guarded:
  assumes "begin_action R episode key fp input holder epoch lease expected attempt now s = Inr ((a, x, False), u)"
  shows "\<exists>e t n p document action doc w. e \<in> set (episodes s) \<and> rec_text ''episode_id'' (VStr episode) = Inr (ep_id e)
    \<and> ep_id e = ac_episode a \<and> ep_revision e = expected \<and> ep_attempt e = attempt
    \<and> row_get t_id (ep_task e) (tasks (ledger s)) = Some t \<and> t_state t \<notin> {TPaused, TCancelled} \<and> t_revision t = ep_task_revision e
    \<and> row_get node_key (ep_task e, ep_node e) (nodes (ledger s)) = Some n \<and> n_state n \<noteq> NCancelled \<and> n_attempt n = ep_attempt e
    \<and> (\<forall>y \<in> set (approvals (ledger s)). y_task y = ep_task e \<longrightarrow> y_decision y \<noteq> None)
    \<and> meta_epoch (ledger s) = Some epoch \<and> ep_epoch e = epoch \<and> ep_lease e = lease
    \<and> rec_text ''owner_id'' (VStr holder) = Inr w \<and> ep_holder e = Some w \<and> \<not> stamp_due (ep_expires e) (utc now)
    \<and> policy_for_task (ep_task e) s = Inr (p, ep_policy_revision e, document) \<and> rp_enabled p
    \<and> ep_action e = Some action \<and> action \<in> set (rp_actions p) \<and> ep_stage e = Some (ac_stage a)
    \<and> (\<exists>stages. stage_attempts (ep_stages e) = Inr stages \<and> stage_count stages (ac_stage a) < rp_attempts p) \<and> rp_attempts p \<le> 3
    \<and> \<not> stamp_due (Some (ep_deadline e)) (utc now)
    \<and> bounded_document R ''action_input'' input = Inr doc \<and> ac_input a = canonical_json (VDict doc)
    \<and> rec_text ''action_input.stage_key'' (dget (VDict doc) ''stage_key'') = Inr (ac_stage a)
    \<and> rec_text ''action_key'' (VStr key) = Inr (ac_key a) \<and> fingerprint ''action_fingerprint'' (VStr fp) = Inr (ac_fingerprint a)
    \<and> (if rp_continuation p \<noteq> None \<and> action \<in> set SAFE_ACTIONS
       then \<exists>c. expected_continuation R document (ep_policy_revision e) e doc s = Inr c \<and> flag (VDict c) ''authorized''
         \<and> canonical_json (dget (VDict doc) ''continuation_authorization'') = canonical_json (VDict c)
       else dget (VDict doc) ''continuation_authorization'' = VNone)
    \<and> actions u = actions s @ [a] \<and> ac_state a = ActExecuting \<and> ac_epoch a = epoch \<and> ac_lease a = lease"
  using assms
proof (rule begin_success)
  fix k f doc stage w e t n p document action continuation
  assume key: "rec_text ''action_key'' (VStr key) = Inr k" "fingerprint ''action_fingerprint'' (VStr fp) = Inr f"
    and doc: "bounded_document R ''action_input'' input = Inr doc"
      "rec_text ''action_input.stage_key'' (dget (VDict doc) ''stage_key'') = Inr stage"
    and fence: "fence_arguments episode holder epoch expected attempt = Inr (ep_id e, w)"
    and e: "episode_of (ep_id e) s = Inr e" and rev: "ep_revision e = expected" and at: "assert_episode_attempt attempt e s = Inr ()"
    and t: "task_of (ep_task e) s = Inr t" and n: "node_of (ep_task e) (ep_node e) s = Inr n" and free: "\<not> user_fence t n"
    and approved: "\<not> awaits_approval (ep_task e) s" and trev: "t_revision t = ep_task_revision e"
    and l: "assert_episode_lease w epoch lease (utc now) e s = Inr ()"
    and pol: "policy_for_task (ep_task e) s = Inr (p, ep_policy_revision e, document)" and on: "rp_enabled p"
    and planned: "planned_action e stage p = Inr action"
    and cont: "continuation_context R p document (ep_policy_revision e) e action doc s = Inr continuation"
    and left: "budget_left e stage p (utc now) = Inr ()"
    and intent: "existing_intent (ep_id e) k stage f doc s = Inr None
        \<and> intend_action R e action (new_action R e k stage f doc epoch lease (utc now)) continuation (utc now) s = Inr ((a, x, False), u)
      \<or> existing_intent (ep_id e) k stage f doc s = Inr (Some a) \<and> False \<and> u = s"
  then have a: "a = new_action R e k stage f doc epoch lease (utc now)"
    using intend_rows(1) by blast
  have row: "row_get node_key (ep_task e, ep_node e) (nodes (ledger s)) = Some n" using n by (simp add: node_of_def require_Inr)
  moreover have "n_attempt n = ep_attempt e" using at row by (auto simp: assert_episode_attempt_def node_of_def split: if_splits)
  moreover have "row_get t_id (ep_task e) (tasks (ledger s)) = Some t" using t by (simp add: task_of_def require_Inr)
  moreover have "t_state t \<notin> {TPaused, TCancelled}" "n_state n \<noteq> NCancelled" using free by (simp_all add: user_fence_def)
  moreover have "\<forall>y \<in> set (approvals (ledger s)). y_task y = ep_task e \<longrightarrow> y_decision y \<noteq> None"
    using approved by (auto simp: awaits_approval_def list_ex_iff)
  moreover have "rec_text ''episode_id'' (VStr episode) = Inr (ep_id e)" "rec_text ''owner_id'' (VStr holder) = Inr w"
    using fence by (auto simp: fence_arguments_def bindR_Inr)
  moreover have "meta_epoch (ledger s) = Some epoch" "ep_epoch e = epoch" "ep_lease e = lease" "ep_holder e = Some w"
      "\<not> stamp_due (ep_expires e) (utc now)"
    using l by (auto simp: assert_episode_lease_def assert_active_Inr bindR_Inr lease_is_live_def split: if_splits)
  moreover have "ep_action e = Some action" "action \<in> set (rp_actions p)" "ep_stage e = Some stage"
    using planned by (auto simp: planned_action_def allows_def split: option.splits if_splits)
  moreover have "\<exists>stages. stage_attempts (ep_stages e) = Inr stages \<and> stage_count stages stage < rp_attempts p"
      "\<not> stamp_due (Some (ep_deadline e)) (utc now)"
    using left by (auto simp: budget_left_def bindR_Inr split: if_splits)
  moreover have "rp_attempts p \<le> 3"
  proof -
    have "p = default_policy \<or> (\<exists>v. policy_from_dict v = Inr p)"
      using pol by (auto simp: policy_for_task_def policy_from_document_def bindR_Inr split: option.splits sum.splits)
    then show ?thesis using policy_parsed on by (auto simp: default_policy_def policy_ok_def)
  qed
  moreover have "if rp_continuation p \<noteq> None \<and> action \<in> set SAFE_ACTIONS
       then \<exists>c. expected_continuation R document (ep_policy_revision e) e doc s = Inr c \<and> flag (VDict c) ''authorized''
         \<and> canonical_json (dget (VDict doc) ''continuation_authorization'') = canonical_json (VDict c)
       else dget (VDict doc) ''continuation_authorization'' = VNone"
    using cont unfolding continuation_context_def Let_def by (auto split: if_split_asm sum.split_asm simp del: canonical_json.simps)
  moreover have "ep_attempt e = attempt" using at by (auto simp: assert_episode_attempt_def split: if_splits)
  moreover have "e \<in> set (episodes s)" using episode_row [OF e] by blast
  ultimately show ?thesis
    using rev trev pol on key doc begin_rows [OF assms] unfolding a new_action_row
    by (intro exI [of _ e] exI [of _ t] exI [of _ n] exI [of _ p] exI [of _ document] exI [of _ action] exI [of _ doc] exI [of _ w])
      (simp add: new_action_def del: canonical_json.simps)
qed

section \<open>Receipts\<close>

lemma case_view: "(case m of Inl _ \<Rightarrow> Inl c | Inr _ \<Rightarrow> Inr e) = Inr x \<longleftrightarrow> (\<exists>y. m = Inr y) \<and> x = e"
  by (cases m) auto

lemma episode_viewD: "episode_view s e = Inr x \<Longrightarrow> x = e"
  unfolding episode_view_def case_view by blast

lemma episode_nowD: "episode_now k s = Inr (x, v) \<Longrightarrow> x \<in> set (episodes s) \<and> ep_id x = k \<and> v = s"
  using episode_row episode_viewD by (fastforce simp: episode_now_def bindR_Inr)

lemma settle_success:
  assumes "settle_action R episode key holder epoch lease expected attempt receipt decision receipt_state dispatched progressed now s
    = Inr ((a, x, idempotent), t)"
  obtains w k st doc e b where "fence_arguments episode holder epoch expected attempt = Inr (ep_id e, w)"
    "rec_text ''action_key'' (VStr key) = Inr k"
    "map_of [(''completed'', ActCompleted), (''unknown'', ActUnknown)] receipt_state = Some st"
    "episode_of (ep_id e) s = Inr e" "assert_episode_lease w epoch lease (utc now) e s = Inr ()" "own_action (ep_id e) k s = Inr b"
    "ac_state b \<noteq> ActExecuting \<and> b = a \<and> ac_state a = st \<and> idempotent \<and> t = s
     \<or> ac_state b = ActExecuting \<and> (\<exists>kind payload phase extra. settle_receipt R kind payload st phase extra e b doc decision dispatched
          progressed (utc now) s = Inr ((a, x, idempotent), t))"
proof -
  from assms obtain k' w k st doc d e y b where
    fence: "fence_arguments episode holder epoch expected attempt = Inr (k', w)" and k: "rec_text ''action_key'' (VStr key) = Inr k"
    and st: "require (ValueError ''recovery receipt_state must be completed or unknown'')
        (map_of [(''completed'', ActCompleted), (''unknown'', ActUnknown)] receipt_state) = Inr st"
    and e: "episode_of k' s = Inr e" and y: "assert_episode_lease w epoch lease (utc now) e s = Inr y"
    and own: "own_action k' k s = Inr b"
    and rest: "(if ac_state b \<noteq> ActExecuting then
      (if ac_state b = st \<and> same_receipt b doc \<and> ac_dispatched b = dispatched
       then bindR (episode_view s e) (\<lambda>e. Inr ((b, e, True), s))
       else Inl (StateConflictError ''recovery action receipt conflicts with prior settlement''))
     else settle_receipt R ''node_recovery.action_settled''
      (\<lambda>d. [(''episode_id'', VStr k'), (''action_id'', VStr (ac_id b)), (''action_key'', VStr k),
         (''stage_key'', VStr (ac_stage b)), (''receipt_state'', VStr receipt_state), (''effect_dispatched'', VBool dispatched),
         (''observation_patch_keys'', patch_keys doc), (''state_revision'', VInt (expected + 1)),
         (''next_state'', VStr (recovery_state_name (de_state d))), (''next_action'', opt_str (de_action d))])
      st (if st = ActUnknown then ''action_unknown'' else ''action_settled'')
      (\<lambda>applied cursor. [(''event_cursor'', VInt cursor), (''action_id'', VStr (ac_id b)), (''action_key'', VStr k),
         (''receipt_state'', VStr receipt_state), (''observation_patch_applied'', VBool applied)])
      e b doc decision dispatched progressed (utc now) s) = Inr ((a, x, idempotent), t)"
    unfolding settle_action_def bindR_Inr Let_def guard_Inr split_paired_Ex prod.case by blast
  from e have id: "ep_id e = k'" by (simp add: episode_row)
  have y': "y = ()" by simp
  from rest have "ac_state b \<noteq> ActExecuting \<and> b = a \<and> ac_state a = st \<and> idempotent \<and> t = s
     \<or> ac_state b = ActExecuting \<and> (\<exists>kind payload phase extra. settle_receipt R kind payload st phase extra e b doc decision dispatched
          progressed (utc now) s = Inr ((a, x, idempotent), t))"
    by (cases "ac_state b = ActExecuting") (auto simp: bindR_Inr split: if_splits)
  from that [OF fence [folded id] k st [unfolded require_Inr] e [folded id] y [unfolded y'] own [folded id] this] show thesis .
qed

lemma reconcile_success:
  assumes "reconcile_action_receipt R episode key fp epoch intent_epoch intent_lease expected attempt receipt decision dispatched
    progressed now s = Inr ((a, x, idempotent), t)"
  obtains k' k doc e b where "rec_text ''episode_id'' (VStr episode) = Inr (ep_id e)" "rec_text ''action_key'' (VStr key) = Inr k"
    "meta_epoch (ledger s) = Some epoch" "episode_of (ep_id e) s = Inr e" "own_action (ep_id e) k s = Inr b"
    "ac_state b = ActCompleted \<and> b = a \<and> idempotent \<and> t = s
     \<or> ac_state b = ActUnknown \<and> (\<exists>kind payload phase extra. settle_receipt R kind payload ActCompleted phase extra e b doc decision
          dispatched progressed (utc now) s = Inr ((a, x, idempotent), t))"
proof -
  from assms obtain k' k f doc e y b where
    k': "rec_text ''episode_id'' (VStr episode) = Inr k'" and k: "rec_text ''action_key'' (VStr key) = Inr k"
    and active: "assert_active_coordinator epoch (ledger s) = Inr y"
    and e: "episode_of k' s = Inr e" and own: "own_action k' k s = Inr b"
    and rest: "(if ac_state b = ActCompleted then
      (if same_receipt b doc \<and> ac_dispatched b = dispatched then bindR (episode_view s e) (\<lambda>e. Inr ((b, e, True), s))
       else Inl (StateConflictError ''reconciled receipt conflicts with prior completion''))
     else if ac_state b \<noteq> ActUnknown
     then Inl (StateConflictError ''only an interrupted unknown action may be reconciled'')
     else settle_receipt R ''node_recovery.action_reconciled''
      (\<lambda>_. [(''episode_id'', VStr k'), (''action_id'', VStr (ac_id b)), (''action_key'', VStr k),
         (''previous_state'', VStr ''unknown''), (''intent_coordinator_epoch'', VInt intent_epoch),
         (''intent_lease_epoch'', VInt intent_lease), (''observation_patch_keys'', patch_keys doc),
         (''state_revision'', VInt (expected + 1))])
      ActCompleted ''action_reconciled''
      (\<lambda>_ cursor. [(''event_cursor'', VInt cursor), (''action_id'', VStr (ac_id b)), (''previous_state'', VStr ''unknown'')])
      e b doc decision dispatched progressed (utc now) s) = Inr ((a, x, idempotent), t)"
    unfolding reconcile_action_receipt_def bindR_Inr Let_def guard_Inr split_paired_Ex prod.case by blast
  from e have id: "ep_id e = k'" by (simp add: episode_row)
  from rest have "ac_state b = ActCompleted \<and> b = a \<and> idempotent \<and> t = s
     \<or> ac_state b = ActUnknown \<and> (\<exists>kind payload phase extra. settle_receipt R kind payload ActCompleted phase extra e b doc decision
          dispatched progressed (utc now) s = Inr ((a, x, idempotent), t))"
    by (cases "ac_state b") (auto simp: bindR_Inr split: if_splits)
  from that [OF k' [folded id] k active [unfolded assert_active_Inr] e [folded id] own [folded id] this] show thesis .
qed

lemma receipt_rows:
  assumes "settle_receipt R kind payload st phase extra e b doc decision dispatched progressed ts s = Inr ((a, x, idempotent), t)"
  obtains m d stage stages0 p d0 where "a = settled_row st doc dispatched ts b" "\<not> idempotent" "stage_attempts (ep_stages e) = Inr stages0"
    "actions t = row_put ac_id (ac_id b) (settled_row st doc dispatched ts) (actions s)"
    "next_plan R p (charge_stage dispatched (ac_stage b) stages0) d0
       (dispatched \<and> st = ActCompleted \<and> flag (VDict doc) ''stage_succeeded'') b = Inr (d, stage)"
    "\<exists>f. episodes t = row_put ep_id (ep_id e) f (episodes s)
       \<and> (\<forall>z. ep_stages (f z) = canonical_json (VDict (charge_stage dispatched (ac_stage b) stages0)) \<and> ep_stage (f z) = Some stage)"
    "x \<in> set (episodes t)" "ep_id x = ep_id e"
proof -
  from assms obtain m d0 p stages0 d stage where n: "stage_attempts (ep_stages e) = Inr stages0"
    "next_plan R p (charge_stage dispatched (ac_stage b) stages0) d0
       (dispatched \<and> st = ActCompleted \<and> flag (VDict doc) ''stage_succeeded'') b = Inr (d, stage)"
    and w: "store_receipt kind (payload d) st phase (extra (fst (snd m))) e b doc dispatched progressed d stage
      (charge_stage dispatched (ac_stage b) stages0) m ts s = Inr ((a, x, idempotent), t)"
    unfolding settle_receipt_def bindR_Inr Let_def split_paired_Ex prod.case by blast
  obtain merged applied refs c where m: "m = (merged, applied, refs, c)" by (cases m)
  let ?v = "recovery_event kind (ep_task e) (Some (ep_node e)) (payload d) ts s"
  obtain i s1 where v: "?v = (i, s1)" by (cases ?v)
  show thesis
  proof (rule that [OF _ _ n(1) _ n(2)])
    show "a = settled_row st doc dispatched ts b" "\<not> idempotent"
      using w by (auto simp: store_receipt_def m v Let_def bindR_Inr)
    show "actions t = row_put ac_id (ac_id b) (settled_row st doc dispatched ts) (actions s)"
      using w by (auto simp: store_receipt_def m v Let_def bindR_Inr episode_now_def asked_tables put_episode_tables put_action_tables
          event_tables [OF v])
    show "\<exists>f. episodes t = row_put ep_id (ep_id e) f (episodes s)
       \<and> (\<forall>z. ep_stages (f z) = canonical_json (VDict (charge_stage dispatched (ac_stage b) stages0)) \<and> ep_stage (f z) = Some stage)"
      using w unfolding store_receipt_def m v Let_def bindR_Inr prod.case episode_now_def
      by (auto simp: asked_tables put_episode_tables put_action_tables event_tables [OF v] settled_episode_def
          intro!: exI simp del: canonical_json.simps)
    show "x \<in> set (episodes t)" "ep_id x = ep_id e"
      using w episode_nowD unfolding store_receipt_def m v Let_def bindR_Inr prod.case split_paired_Ex by blast+
  qed
qed

lemma settled_row_of:
  assumes "settle_action R episode key holder epoch lease expected attempt receipt decision receipt_state dispatched progressed now s
    = Inr ((a, x, idempotent), t)"
  shows "a \<in> set (actions t) \<and> ac_state a \<noteq> ActExecuting \<and> rec_text ''action_key'' (VStr key) = Inr (ac_key a)"
  using assms
proof (rule settle_success)
  fix w k st doc e b
  assume k: "rec_text ''action_key'' (VStr key) = Inr k" and own: "own_action (ep_id e) k s = Inr b"
    and st: "map_of [(''completed'', ActCompleted), (''unknown'', ActUnknown)] receipt_state = Some st"
    and how: "ac_state b \<noteq> ActExecuting \<and> b = a \<and> ac_state a = st \<and> idempotent \<and> t = s
     \<or> ac_state b = ActExecuting \<and> (\<exists>kind payload phase extra. settle_receipt R kind payload st phase extra e b doc decision dispatched
          progressed (utc now) s = Inr ((a, x, idempotent), t))"
  have b: "b \<in> set (actions s)" "ac_key b = k" using own_row [OF own] by blast+
  have n: "st \<noteq> ActExecuting" using st by (auto split: if_splits)
  from how show ?thesis
  proof (elim disjE conjE exE)
    fix kind payload phase extra
    assume "settle_receipt R kind payload st phase extra e b doc decision dispatched progressed (utc now) s = Inr ((a, x, idempotent), t)"
    then show ?thesis
    proof (rule receipt_rows)
      assume a: "a = settled_row st doc dispatched (utc now) b"
        and rows: "actions t = row_put ac_id (ac_id b) (settled_row st doc dispatched (utc now)) (actions s)"
      have "a \<in> set (actions t)" unfolding rows a row_put_def using b(1) by (auto simp: image_iff)
      then show ?thesis using n k b(2) by (simp add: a settled_row_def)
    qed
  qed (use b n k in simp_all)
qed

text \<open>
  Property C9. An action settles once. After a settlement no later \<open>settle_action\<close> of the same key is anything but an
  idempotent replay, in any later state; if it settled as completed, neither is a reconciliation, and the
  row returned is the settled one, unchanged.
\<close>

theorem recovery_receipt_once:
  assumes start: "reachable no_recovery (recovery_step R) s"
    and first: "settle_action R episode key holder epoch lease expected attempt receipt decision receipt_state dispatched progressed now s
      = Inr ((a, x, first_idempotent), t)"
    and run: "(recovery_step R)\<^sup>*\<^sup>* t u"
    and again: "settle_action R episode' key holder' epoch' lease' expected' attempt' receipt' decision' receipt_state' dispatched'
        progressed' now' u = Inr ((b, y, idempotent), v)
      \<or> ac_state a = ActCompleted \<and> reconcile_action_receipt R episode' key fp epoch' intent_epoch intent_lease expected' attempt' receipt'
        decision' dispatched' progressed' now' u = Inr ((b, y, idempotent), v)"
  shows "idempotent \<and> v = u \<and> b \<in> set (actions u) \<and> intent_of b = intent_of a \<and> (ac_state a = ActCompleted \<longrightarrow> b = a)"
proof -
  have t: "recovery_ok t" "recovery_ok u"
    using recovery.inv_reachable [OF start] rs_settle [OF first] recovery.inv_kept recovery.inv_run [OF run] by blast+
  then have keys: "unique_key ac_key (actions u)" by (simp add: recovery_ok_def intents_ok_def)
  note a = settled_row_of [OF first]
  then obtain c where c: "c \<in> set (actions u)" "action_follows a c"
    using writes_actions [OF run_writes [OF run t(1)]] unfolding keeps_rows_def by blast
  then have settled: "ac_state c \<noteq> ActExecuting" "ac_state a = ActCompleted \<longrightarrow> c = a"
    using a by (auto simp: action_follows_def action_moves_def)
  have own: "d = c" if "rec_text ''action_key'' (VStr key) = Inr k" "own_action j k u = Inr d" for j k d
    using that a own_row [of j k u d] unique_same [OF keys _ c(1)] action_followsD(3) [OF c(2)] by auto
  have "b = c \<and> idempotent \<and> v = u"
  proof (rule disjE [OF again])
    assume "settle_action R episode' key holder' epoch' lease' expected' attempt' receipt' decision' receipt_state' dispatched'
        progressed' now' u = Inr ((b, y, idempotent), v)"
    then show ?thesis by (rule settle_success) (use own settled in blast)
  next
    assume "ac_state a = ActCompleted \<and> reconcile_action_receipt R episode' key fp epoch' intent_epoch intent_lease expected' attempt'
        receipt' decision' dispatched' progressed' now' u = Inr ((b, y, idempotent), v)"
    then have finished: "ac_state a = ActCompleted" and "reconcile_action_receipt R episode' key fp epoch' intent_epoch intent_lease expected'
        attempt' receipt' decision' dispatched' progressed' now' u = Inr ((b, y, idempotent), v)" by blast+
    from this(2) show ?thesis by (rule reconcile_success) (use own settled finished in fastforce)
  qed
  then show ?thesis using c settled(2) by (auto simp: action_follows_def)
qed

section \<open>Leases\<close>

lemma lease_row_past:
  assumes "recovery_ok s" and "e \<in> set (episodes s)"
  shows "lease_past (ep_id e) (ep_lease e) s"
proof -
  have "x = e" if "x \<in> set (episodes s)" "ep_id x = ep_id e" for x
    using assms that unique_same unfolding recovery_ok_def incidents_ok_def by metis
  then show ?thesis using assms unfolding lease_past_def recovery_ok_def recovery_leases_ok_def by blast
qed

lemma refused_lease:
  assumes "lease_past k l s" and "1 \<le> m" "m < l" and "episode_of k s = Inr e"
  shows "assert_episode_lease w epoch m ts e s \<noteq> Inr ()"
proof -
  have "ep_lease e = 0 \<or> l \<le> ep_lease e" using assms(1) episode_row [OF assms(4)] unfolding lease_past_def by blast
  then show ?thesis using assms(2,3) by (auto simp: assert_episode_lease_def bindR_Inr split: if_splits)
qed

lemma suspended_result:
  assumes "suspend_for_user_fence e ts s = Inr (x, v)"
  shows "ep_state x = ESuspended \<and> ep_holder x = None"
proof (cases "ep_state e = ESuspended \<and> ep_holder e = None")
  case True
  with assms show ?thesis by (auto simp: suspend_for_user_fence_def bindR_Inr dest: episode_viewD)
next
  case False
  let ?t = "stop_episode ''suspended'' ''node_recovery.suspended'' [(''reason_kind'', VStr ''user_pause'')] suspended_decision e ts s"
  have x: "x \<in> set (episodes ?t)" "ep_id x = ep_id e"
    using assms False episode_nowD [of "ep_id e" ?t x v] by (auto simp: suspend_for_user_fence_def)
  obtain f t where "?t = put_episode (ep_id e) f t"
    and f: "\<And>z. ep_state (f z) = de_state suspended_decision \<and> ep_holder (f z) = None"
    unfolding stop_episode_def Let_def
    by (cases "recovery_event ''node_recovery.suspended'' (ep_task e) (Some (ep_node e))
         ([(''episode_id'', VStr (ep_id e)), (''state_revision'', VInt (ep_revision e + 1))]
          @ [(''reason_kind'', VStr ''user_pause'')]) ts s") (force simp: released_row decided_row)
  with x show ?thesis using put_row by (fastforce simp: put_episode_tables suspended_decision_def manual_decision_def)
qed

text \<open>
  Property C10. A superseded lease never acts again. Once an episode is leased under some epoch, no call under an
  earlier epoch begins an action, settles one or links a repair, in any later state of the ledger. A renewal
  under it never renews: the one outcome it can have, because the code looks at the user's pause before the
  lease, is that the episode is suspended for that pause and has no owner.
\<close>

theorem recovery_lease_superseded:
  assumes start: "reachable no_recovery (recovery_step R) s" and e: "e \<in> set (episodes s)"
    and run: "(recovery_step R)\<^sup>*\<^sup>* s u" and old: "1 \<le> m" "m < ep_lease e"
    and episode: "rec_text ''episode_id'' (VStr episode) = Inr (ep_id e)"
  shows "begin_action R episode key fp input holder epoch m expected attempt now u \<noteq> Inr r1
    \<and> settle_action R episode key holder epoch m expected attempt receipt decision receipt_state dispatched progressed now u \<noteq> Inr r2
    \<and> link_repair R episode holder epoch m expected request repair_task fp now u \<noteq> Inr r3
    \<and> (renew_episode episode holder epoch m expected attempt seconds now u = Inr (x, v) \<longrightarrow> ep_state x = ESuspended \<and> ep_holder x = None
        \<and> (\<exists>z t n. episode_of (ep_id e) u = Inr z \<and> task_of (ep_task z) u = Inr t \<and> node_of (ep_task z) (ep_node z) u = Inr n
             \<and> user_fence t n))"
proof -
  have s: "recovery_ok s" using recovery.inv_reachable [OF start] .
  have past: "lease_past (ep_id e) (ep_lease e) u"
    using writes_lease_past [OF run_writes [OF run s] lease_row_past [OF s e] s] .
  have no: "\<not> (assert_episode_lease w epoch m ts z u = Inr () \<and> episode_of (ep_id e) u = Inr z)" for w ts z
    using refused_lease [OF past old] by blast
  have fence: "fence_arguments episode holder epoch expected attempt = Inr (k, w) \<Longrightarrow> k = ep_id e" for k w
    using episode by (auto simp: fence_arguments_def bindR_Inr)
  have "begin_action R episode key fp input holder epoch m expected attempt now u \<noteq> Inr r1"
  proof
    assume "begin_action R episode key fp input holder epoch m expected attempt now u = Inr r1"
    moreover obtain a x b t where "r1 = ((a, x, b), t)" by (metis prod.exhaust)
    ultimately have "begin_action R episode key fp input holder epoch m expected attempt now u = Inr ((a, x, b), t)" by simp
    then show False by (rule begin_success) (use fence no in metis)
  qed
  moreover have "settle_action R episode key holder epoch m expected attempt receipt decision receipt_state dispatched progressed now u \<noteq> Inr r2"
  proof
    assume "settle_action R episode key holder epoch m expected attempt receipt decision receipt_state dispatched progressed now u = Inr r2"
    moreover obtain a x b t where "r2 = ((a, x, b), t)" by (metis prod.exhaust)
    ultimately have "settle_action R episode key holder epoch m expected attempt receipt decision receipt_state dispatched progressed now u
      = Inr ((a, x, b), t)" by simp
    then show False by (rule settle_success) (use fence no in metis)
  qed
  moreover have "link_repair R episode holder epoch m expected request repair_task fp now u \<noteq> Inr r3"
    unfolding link_repair_def using episode no by (auto simp: bindR_Inr Let_def split: if_splits)
  moreover have "ep_state x = ESuspended \<and> ep_holder x = None
      \<and> (\<exists>z t n. episode_of (ep_id e) u = Inr z \<and> task_of (ep_task z) u = Inr t \<and> node_of (ep_task z) (ep_node z) u = Inr n
           \<and> user_fence t n)"
    if renew: "renew_episode episode holder epoch m expected attempt seconds now u = Inr (x, v)"
  proof -
    from renew episode no fence obtain z t n where z: "episode_of (ep_id e) u = Inr z" "task_of (ep_task z) u = Inr t"
        "node_of (ep_task z) (ep_node z) u = Inr n" "user_fence t n" and "suspend_for_user_fence z (utc now) u = Inr (x, v)"
      unfolding renew_episode_def by (auto simp: bindR_Inr Let_def split: if_splits)
    then show ?thesis using suspended_result [of z "utc now" u x v] by blast
  qed
  ultimately show ?thesis by blast
qed

section \<open>Repairs\<close>

text \<open>
  Property C22. A failure fingerprint of a task is linked to one repair for good: the link never changes, a deployed
  repair never changes at all, and a later \<open>link_repair\<close> of the same failure succeeds only as a replay of
  the recorded link, from its own episode, that changes nothing.
\<close>

theorem recovery_repair_linked_once:
  assumes start: "reachable no_recovery (recovery_step R) s" and r: "r \<in> set (repairs s)" and run: "(recovery_step R)\<^sup>*\<^sup>* s t"
  shows "\<exists>q \<in> set (repairs t). repair_link_of q = repair_link_of r \<and> (re_deployed r \<noteq> None \<longrightarrow> q = r)
    \<and> (\<forall>e \<in> set (episodes t). ep_task e = re_task r \<and> ep_fingerprint e = re_fingerprint r
        \<and> rec_text ''episode_id'' (VStr episode) = Inr (ep_id e)
        \<and> link_repair R episode holder epoch lease expected request repair_task fp now t = Inr (x, v) \<longrightarrow>
        v = t \<and> re_episode r = ep_id e \<and> rec_text ''repair_request_id'' (VStr request) = Inr (re_request r)
        \<and> fingerprint ''repair_fingerprint'' (VStr fp) = Inr (re_repair r))"
proof -
  have s: "recovery_ok s" using recovery.inv_reachable [OF start] .
  have t: "recovery_ok t" using recovery.inv_run [OF run s] .
  obtain q where q: "q \<in> set (repairs t)" "repair_follows r q"
    using writes_repairs [OF run_writes [OF run s]] r unfolding keeps_rows_def by blast
  have fields: "re_task q = re_task r" "re_fingerprint q = re_fingerprint r" "re_episode q = re_episode r" "re_request q = re_request r"
      "re_repair q = re_repair r"
    using q(2) by (simp_all add: repair_follows_def repair_link_of_def)
  have replay: "v = t \<and> re_episode r = ep_id e \<and> rec_text ''repair_request_id'' (VStr request) = Inr (re_request r)
        \<and> fingerprint ''repair_fingerprint'' (VStr fp) = Inr (re_repair r)"
    if e: "e \<in> set (episodes t)" "ep_task e = re_task r" "ep_fingerprint e = re_fingerprint r"
      and k: "rec_text ''episode_id'' (VStr episode) = Inr (ep_id e)"
      and l: "link_repair R episode holder epoch lease expected request repair_task fp now t = Inr (x, v)" for e
  proof -
    have "unique_key ep_id (episodes t)" using t unfolding recovery_ok_def incidents_ok_def by blast
    then have "row_get ep_id (ep_id e) (episodes t) = Some e" by (rule keyed_table.unique_row [OF keyed_rows _ e(1)])
    then have "episode_of (ep_id e) t = Inr e" by (simp add: episode_of_def)
    moreover have "find (\<lambda>r. re_task r = ep_task e \<and> re_fingerprint r = ep_fingerprint e) (repairs t) = Some q"
    proof -
      have "find (\<lambda>r. re_task r = ep_task e \<and> re_fingerprint r = ep_fingerprint e) (repairs t) \<noteq> None"
        using q(1) fields e(2,3) by (auto simp: find_None_iff)
      then obtain z where z: "find (\<lambda>r. re_task r = ep_task e \<and> re_fingerprint r = ep_fingerprint e) (repairs t) = Some z" by blast
      then have "z \<in> set (repairs t)" "(re_task z, re_fingerprint z) = (re_task q, re_fingerprint q)"
        using fields e(2,3) by (auto simp: find_Some_iff)
      moreover have "unique_key (\<lambda>r. (re_task r, re_fingerprint r)) (repairs t)" using t by (simp add: recovery_ok_def repairs_ok_def)
      ultimately have "z = q" using unique_same [OF _ _ q(1)] by blast
      with z show ?thesis by simp
    qed
    ultimately show ?thesis using l k fields unfolding link_repair_def by (auto simp: bindR_Inr Let_def split: if_splits)
  qed
  show ?thesis
    by (rule bexI [OF _ q(1)]) (use q(2) replay in \<open>auto simp: repair_follows_def\<close>)
qed

section \<open>Restarts\<close>

lemma interrupted_rows:
  "ac_id (interrupted ts x) = ac_id x" "interrupted ts (interrupted ts x) = interrupted ts x"
  "ac_state (interrupted ts x) \<noteq> ActExecuting" "ac_state x \<noteq> ActExecuting \<Longrightarrow> interrupted ts x = x"
  "intent_of (interrupted ts x) = intent_of x" "ac_dispatched (interrupted ts x) = ac_dispatched x"
  "ac_state x = ActExecuting \<Longrightarrow> ac_state (interrupted ts x) = ActUnknown"
  by (simp_all add: interrupted_def intent_of_def del: canonical_json.simps)

lemma interrupt_rows:
  assumes "interrupt_action R ts a s = Inr t"
  shows "actions t = row_put ac_id (ac_id a) (interrupted ts) (actions s)"
    "\<exists>f. episodes t = row_put ep_id (ac_episode a) f (episodes s) \<and> (\<forall>z. ep_action (f z) = None \<and> ep_holder (f z) = None \<and> ep_id (f z) = ep_id z)"
proof -
  from assms obtain e d where e: "episode_of (ac_episode a) s = Inr e" and d: "preserve_action_continuation R unknown_effects_decision a = Inr d"
    and w: "(let s1 = put_action (ac_id a) (interrupted ts) s in
     case recovery_event ''node_recovery.action_interrupted'' (ep_task e) (Some (ep_node e))
       [(''episode_id'', VStr (ep_id e)), (''action_id'', VStr (ac_id a)), (''action_key'', VStr (ac_key a)),
        (''state_revision'', VInt (ep_revision e + 1))] ts s1 of (cursor, s2) \<Rightarrow>
     let s3 = put_episode (ep_id e) (\<lambda>x. released (decided d x)\<lparr>ep_action := None, ep_wakeup := None, ep_phase := ''interrupted_unknown'',
           ep_revision := ep_revision e + 1, ep_progress_at := ts,
           ep_progress := progress_of ''node_recovery.action_interrupted'' cursor [(''action_id'', VStr (ac_id a))],
           ep_updated := ts\<rparr>) s2
     in Inr (record_needs_action_notification e d ts s3)) = (Inr t :: recovery_ledger res)"
    unfolding interrupt_action_def bindR_Inr by blast
  have id: "ep_id e = ac_episode a" using episode_row [OF e] by blast
  let ?v = "recovery_event ''node_recovery.action_interrupted'' (ep_task e) (Some (ep_node e))
       [(''episode_id'', VStr (ep_id e)), (''action_id'', VStr (ac_id a)), (''action_key'', VStr (ac_key a)),
        (''state_revision'', VInt (ep_revision e + 1))] ts (put_action (ac_id a) (interrupted ts) s)"
  obtain c u where v: "?v = (c, u)" by (cases ?v)
  from w have t: "t = record_needs_action_notification e d ts (put_episode (ep_id e) (\<lambda>x. released (decided d x)\<lparr>ep_action := None,
      ep_wakeup := None, ep_phase := ''interrupted_unknown'', ep_revision := ep_revision e + 1, ep_progress_at := ts,
      ep_progress := progress_of ''node_recovery.action_interrupted'' c [(''action_id'', VStr (ac_id a))], ep_updated := ts\<rparr>) u)"
    unfolding Let_def v by simp
  show "actions t = row_put ac_id (ac_id a) (interrupted ts) (actions s)"
    unfolding t by (simp add: asked_tables put_episode_tables put_action_tables event_tables [OF v])
  show "\<exists>f. episodes t = row_put ep_id (ac_episode a) f (episodes s) \<and> (\<forall>z. ep_action (f z) = None \<and> ep_holder (f z) = None \<and> ep_id (f z) = ep_id z)"
    unfolding t asked_tables put_episode_tables put_action_tables event_tables [OF v] id
    by (rule exI, rule conjI, rule refl) (simp add: released_def decided_def)
qed

lemma interrupt_all_rows:
  assumes "interrupt_actions R ts as s = Inr t"
  shows "actions t = map (\<lambda>x. if ac_id x \<in> ac_id ` set as then interrupted ts x else x) (actions s)"
    "\<forall>e \<in> set (episodes t). ep_id e \<in> ac_episode ` set as \<longrightarrow> ep_action e = None \<and> ep_holder e = None"
proof -
  from assms show "actions t = map (\<lambda>x. if ac_id x \<in> ac_id ` set as then interrupted ts x else x) (actions s)"
  proof (induction as arbitrary: s)
    case (Cons a as)
    then obtain u where u: "interrupt_action R ts a s = Inr u" "interrupt_actions R ts as u = Inr t" by (auto simp: bindR_Inr)
    show ?case unfolding Cons.IH [OF u(2)] interrupt_rows(1) [OF u(1)] row_put_def
      by (auto simp: interrupted_rows)
  qed simp
  have kept: "\<forall>e \<in> set (episodes t). ep_id e \<in> X \<union> ac_episode ` set as \<longrightarrow> ep_action e = None \<and> ep_holder e = None"
    if "interrupt_actions R ts as s = Inr t" "\<forall>e \<in> set (episodes s). ep_id e \<in> X \<longrightarrow> ep_action e = None \<and> ep_holder e = None" for X as s
    using that
  proof (induction as arbitrary: s X)
    case (Cons a as)
    then obtain u where u: "interrupt_action R ts a s = Inr u" "interrupt_actions R ts as u = Inr t" by (auto simp: bindR_Inr)
    obtain f where f: "episodes u = row_put ep_id (ac_episode a) f (episodes s)"
      "\<And>z. ep_action (f z) = None \<and> ep_holder (f z) = None \<and> ep_id (f z) = ep_id z"
      using interrupt_rows(2) [OF u(1)] by blast
    have "\<forall>e \<in> set (episodes u). ep_id e \<in> insert (ac_episode a) X \<longrightarrow> ep_action e = None \<and> ep_holder e = None"
      using Cons.prems(2) f(2) unfolding f(1) row_put_def by auto
    from Cons.IH [OF u(2) this] show ?case by auto
  qed simp
  show "\<forall>e \<in> set (episodes t). ep_id e \<in> ac_episode ` set as \<longrightarrow> ep_action e = None \<and> ep_holder e = None"
    using kept [OF assms, of "{}"] by simp
qed

text \<open>
  Property C21. After a restart nothing is assumed about an effect: every action that was executing becomes unknown,
  its intent and its dispatch mark untouched, every other action is left as it was, the count is exact,
  and the episodes concerned have no action planned and no owner.
\<close>

theorem restart_leaves_no_executing:
  assumes "recover_interrupted R now s = Inr (n, t)"
  shows "n = int (length (filter (\<lambda>a. ac_state a = ActExecuting) (actions s)))
    \<and> length (actions t) = length (actions s)
    \<and> (\<forall>i < length (actions s). intent_of (actions t ! i) = intent_of (actions s ! i)
        \<and> ac_dispatched (actions t ! i) = ac_dispatched (actions s ! i)
        \<and> (if ac_state (actions s ! i) = ActExecuting then ac_state (actions t ! i) = ActUnknown else actions t ! i = actions s ! i))
    \<and> (\<forall>e \<in> set (episodes t). (\<exists>a \<in> set (actions s). ac_state a = ActExecuting \<and> ac_episode a = ep_id e) \<longrightarrow>
        ep_action e = None \<and> ep_holder e = None)"
proof -
  let ?as = "sort_key (\<lambda>a. (ac_created a, ac_id a)) (filter (\<lambda>a. ac_state a = ActExecuting) (actions s))"
  from assms have n: "n = int (length ?as)" and r: "interrupt_actions R (utc now) ?as s = Inr t"
    by (auto simp: recover_interrupted_def Let_def bindR_Inr)
  note rows = interrupt_all_rows [OF r]
  have "intent_of (actions t ! i) = intent_of (actions s ! i) \<and> ac_dispatched (actions t ! i) = ac_dispatched (actions s ! i)
        \<and> (if ac_state (actions s ! i) = ActExecuting then ac_state (actions t ! i) = ActUnknown else actions t ! i = actions s ! i)"
    if "i < length (actions s)" for i
    using that unfolding rows(1) by (auto simp: interrupted_rows)
  moreover have "length (actions t) = length (actions s)" unfolding rows(1) by simp
  moreover have "ep_action e = None \<and> ep_holder e = None"
    if "e \<in> set (episodes t)" "\<exists>a \<in> set (actions s). ac_state a = ActExecuting \<and> ac_episode a = ep_id e" for e
  proof -
    have "ep_id e \<in> ac_episode ` set ?as" using that(2) by force
    then show ?thesis using rows(2) that(1) by blast
  qed
  moreover have "n = int (length (filter (\<lambda>a. ac_state a = ActExecuting) (actions s)))" using n by simp
  ultimately show ?thesis by blast
qed

section \<open>The charge of a reconciled action\<close>

definition stages_ok :: "items \<Rightarrow> bool" where
  "stages_ok st \<longleftrightarrow> distinct (map fst st) \<and> (\<forall>(k, x) \<in> set st. rec_text ''stage attempt key'' (VStr k) = Inr k \<and> (\<exists>n \<ge> 0. x = VInt n))"

lemma dict_set_set: "set (dict_set k x kvs) \<subseteq> insert (k, x) (set kvs)"
  by (induction k x kvs rule: dict_set.induct) auto

lemma dict_merge_Nil:
  "distinct (map fst (dict_merge [] kvs))" "set (dict_merge [] kvs) \<subseteq> set kvs"
proof -
  have "distinct (map fst d) \<Longrightarrow> distinct (map fst (fold (\<lambda>(k, x) d. dict_set k x d) kvs d))" for d
    by (induction kvs arbitrary: d) (auto simp: dict_set_distinct)
  then show "distinct (map fst (dict_merge [] kvs))" unfolding dict_merge_def by simp
  have "set (fold (\<lambda>(k, x) d. dict_set k x d) kvs d) \<subseteq> set kvs \<union> set d" for d
  proof (induction kvs arbitrary: d)
    case (Cons kv kvs)
    obtain k x where kv: "kv = (k, x)" by (cases kv)
    show ?case using Cons [of "dict_set k x d"] dict_set_set [of k x d] by (auto simp: kv)
  qed simp
  then show "set (dict_merge [] kvs) \<subseteq> set kvs" unfolding dict_merge_def by fastforce
qed

lemma map_of_dict_merge: "distinct (map fst kvs) \<Longrightarrow> map_of (dict_merge [] kvs) = map_of kvs"
proof -
  have "distinct (map fst kvs) \<Longrightarrow> map_of (fold (\<lambda>(k, x) d. dict_set k x d) kvs d) = map_of d ++ map_of kvs" for d
  proof (induction kvs arbitrary: d)
    case (Cons kv kvs)
    obtain k x where kv: "kv = (k, x)" by (cases kv)
    have "k \<notin> dom (map_of kvs)" using Cons.prems by (auto simp: kv dom_map_of_conv_image_fst)
    then show ?case using Cons by (auto simp: kv map_of_dict_set map_add_def fun_eq_iff split: option.splits)
  qed simp
  then show "distinct (map fst kvs) \<Longrightarrow> map_of (dict_merge [] kvs) = map_of kvs" by (simp add: dict_merge_def)
qed

lemma mapR_set: "mapR f xs = Inr ys \<Longrightarrow> y \<in> set ys \<Longrightarrow> \<exists>x \<in> set xs. f x = Inr y"
  by (induction xs arbitrary: ys) (auto split: sum.splits)

lemma stages_parsed:
  assumes "stage_attempts v = Inr st"
  shows "stages_ok st"
proof -
  from assms obtain rs where rs: "mapR (\<lambda>(k, x). bindR (rec_text ''stage attempt key'' (VStr k)) (\<lambda>stage.
       bindR (nonnegative_int ''stage attempt count'' x) (\<lambda>n. Inr (stage, VInt n)))) (items_of v) = Inr rs" and st: "st = dict_merge [] rs"
    by (auto simp: stage_attempts_def bindR_Inr split: if_splits)
  have "rec_text ''stage attempt key'' (VStr k) = Inr k \<and> (\<exists>n \<ge> 0. x = VInt n)" if "(k, x) \<in> set st" for k x
  proof -
    have "(k, x) \<in> set rs" using that dict_merge_Nil(2) st by blast
    then obtain kv where "(case kv of (k, x) \<Rightarrow> bindR (rec_text ''stage attempt key'' (VStr k)) (\<lambda>stage.
       bindR (nonnegative_int ''stage attempt count'' x) (\<lambda>n. Inr (stage, VInt n)))) = Inr (k, x)"
      using mapR_set [OF rs] by blast
    then show ?thesis
      by (auto simp: bindR_Inr nonnegative_int_def dest: rec_text_again split: prod.splits pyval.splits if_splits)
  qed
  then show ?thesis unfolding stages_ok_def using dict_merge_Nil(1) st by blast
qed

lemma stages_stored:
  assumes "stages_ok st"
  obtains st' where "stage_attempts (canonical_json (VDict st)) = Inr st'" "stages_ok st'" "map_of st' = map_of st"
proof -
  have same: "map_prod id canonical_json kv = kv" if "kv \<in> set st" for kv
    using assms that unfolding stages_ok_def by (cases kv) auto
  let ?st = "sort_key fst st"
  have c: "canonical_json (VDict st) = VDict ?st" using map_idI [of st "map_prod id canonical_json"] same by simp
  have "mapR (\<lambda>(k, x). bindR (rec_text ''stage attempt key'' (VStr k)) (\<lambda>stage.
       bindR (nonnegative_int ''stage attempt count'' x) (\<lambda>n. Inr (stage, VInt n)))) ?st = Inr (map id ?st)"
    by (rule mapR_map) (use assms in \<open>auto simp: stages_ok_def nonnegative_int_def\<close>)
  then have p: "stage_attempts (canonical_json (VDict st)) = Inr (dict_merge [] ?st)"
    unfolding c stage_attempts_def by (simp add: items_of_def is_dict_def)
  have d: "distinct (map fst ?st)" using assms unfolding stages_ok_def by (simp add: distinct_map)
  have "map_of ?st = map_of st"
  proof
    fix k
    show "map_of ?st k = map_of st k"
    proof (cases "map_of st k")
      case None
      then have "map_of ?st k = None" by (simp add: map_of_eq_None_iff)
      with None show ?thesis by simp
    next
      case (Some x)
      then have "(k, x) \<in> set ?st" using map_of_SomeD by fastforce
      with d Some show ?thesis by simp
    qed
  qed
  with that [OF p stages_parsed [OF p]] map_of_dict_merge [OF d] show thesis by simp
qed

lemma stages_charged:
  assumes "stages_ok st" and "rec_text label (VStr k) = Inr k"
  shows "stages_ok (charge_stage dispatched k st)"
    "stage_count (charge_stage dispatched k st) k = stage_count st k + (if dispatched then 1 else 0)"
proof -
  have "0 \<le> stage_count st k"
    using assms(1) map_of_SomeD [of st k] unfolding stages_ok_def stage_count_def by (fastforce split: option.splits pyval.splits)
  then show "stages_ok (charge_stage dispatched k st)"
    using assms rec_text_again [OF assms(2), of "''stage attempt key''"] dict_set_set [of k "VInt (stage_count st k + 1)" st]
    unfolding stages_ok_def charge_stage_def by (auto simp: dict_set_distinct)
  show "stage_count (charge_stage dispatched k st) k = stage_count st k + (if dispatched then 1 else 0)"
    by (simp add: charge_stage_def stage_count_def map_of_dict_set)
qed

text \<open>What a receipt adds to the stage of its action.\<close>

lemma receipt_charge:
  assumes w: "settle_receipt R kind payload st phase extra e b doc decision dispatched progressed ts s = Inr ((a, x, idempotent), t)"
    and named: "stage_named b" and before: "stage_attempts (ep_stages e) = Inr before"
  shows "\<exists>after. (\<forall>z \<in> set (episodes t). ep_id z = ep_id e \<longrightarrow> stage_attempts (ep_stages z) = Inr after)
    \<and> stage_count after (ac_stage b) = stage_count before (ac_stage b) + (if dispatched then 1 else 0)"
  using w
proof (rule receipt_rows)
  fix stages0 stage
  assume n: "stage_attempts (ep_stages e) = Inr stages0"
    and f: "\<exists>f. episodes t = row_put ep_id (ep_id e) f (episodes s)
       \<and> (\<forall>z. ep_stages (f z) = canonical_json (VDict (charge_stage dispatched (ac_stage b) stages0)) \<and> ep_stage (f z) = Some stage)"
    and x: "x \<in> set (episodes t)" "ep_id x = ep_id e"
  let ?st = "charge_stage dispatched (ac_stage b) stages0"
  have b: "stages0 = before" using n before by simp
  note charged = stages_charged [OF stages_parsed [OF before] named [unfolded stage_named_def]]
  obtain after where after: "stage_attempts (canonical_json (VDict ?st)) = Inr after" "map_of after = map_of ?st"
    using stages_stored charged(1) unfolding b by metis
  obtain f where t: "episodes t = row_put ep_id (ep_id e) f (episodes s)" and fz: "\<And>z. ep_stages (f z) = canonical_json (VDict ?st)"
    using f by blast
  have "stage_attempts (ep_stages z) = Inr after" if "z \<in> set (episodes t)" "ep_id z = ep_id e" for z
    using put_row [OF that(1) [unfolded t]] that(2) after(1) fz by (auto simp del: canonical_json.simps)
  moreover have "stage_count after (ac_stage b) = stage_count before (ac_stage b) + (if dispatched then 1 else 0)"
    using charged(2) [of dispatched] after(2) unfolding b stage_count_def by simp
  ultimately show ?thesis by blast
qed

text \<open>
  Property C24. An effect can be charged twice. If an action settles as unknown with its effect dispatched and its
  receipt is found later and reconciled, again as dispatched, the one intent takes two attempts from the
  budget of its stage. Both calls charge when the effect was dispatched and neither looks at what the
  row already charged.
\<close>

theorem reconciled_effect_charged_twice:
  assumes start: "reachable no_recovery (recovery_step R) s"
    and settled: "settle_action R episode key holder epoch lease expected attempt receipt decision ''unknown'' True progressed now s
      = Inr ((a, x, False), t)"
    and reconciled: "reconcile_action_receipt R episode key fp epoch' intent_epoch intent_lease expected' attempt' receipt' decision'
      True progressed' now' t = Inr ((b, y, False), u)"
    and e: "e \<in> set (episodes s)" "ep_id e = ac_episode a" and before: "stage_attempts (ep_stages e) = Inr before"
  shows "intent_of b = intent_of a \<and> ac_state b = ActCompleted \<and> ep_id y = ep_id e
    \<and> (\<exists>after. stage_attempts (ep_stages y) = Inr after \<and> stage_count after (ac_stage a) = stage_count before (ac_stage a) + 2)"
proof -
  have s: "recovery_ok s" using recovery.inv_reachable [OF start] .
  have t: "recovery_ok t" using recovery.inv_kept [OF rs_settle [OF settled] s] .
  note ids = s [unfolded recovery_ok_def incidents_ok_def] 
  from settled obtain w k st doc e0 b0 kind payload phase extra where
    k0: "fence_arguments episode holder epoch expected attempt = Inr (ep_id e0, w)" "rec_text ''action_key'' (VStr key) = Inr k"
    and st: "map_of [(''completed'', ActCompleted), (''unknown'', ActUnknown)] ''unknown'' = Some st"
    and e0: "episode_of (ep_id e0) s = Inr e0" and b0: "own_action (ep_id e0) k s = Inr b0"
    and w0: "settle_receipt R kind payload st phase extra e0 b0 doc decision True progressed (utc now) s = Inr ((a, x, False), t)"
    by (rule settle_success) blast
  obtain ts where a: "a = settled_row st doc True ts b0"
    using w0 by (rule receipt_rows) blast
  have b0': "b0 \<in> set (actions s)" "ac_key b0 = k" "ac_episode b0 = ep_id e0" using own_row [OF b0] by blast+
  have a': "ac_key a = k" "ac_stage a = ac_stage b0" "ac_episode a = ep_id e0" "intent_of a = intent_of b0"
    using b0' by (simp_all add: a settled_row_def intent_of_def)
  have "e = e0" using e a'(3) episode_row [OF e0] ids unique_same by metis
  have named: "stage_named b0" using s b0'(1) unfolding recovery_ok_def intents_ok_def by blast
  obtain mid where mid: "\<And>z. z \<in> set (episodes t) \<Longrightarrow> ep_id z = ep_id e0 \<Longrightarrow> stage_attempts (ep_stages z) = Inr mid"
    "stage_count mid (ac_stage b0) = stage_count before (ac_stage b0) + 1"
    using receipt_charge [OF w0 named] before \<open>e = e0\<close> by auto
  from reconciled obtain k' doc' e1 b1 kind' payload' phase' extra' where
    k1: "rec_text ''episode_id'' (VStr episode) = Inr (ep_id e1)" "rec_text ''action_key'' (VStr key) = Inr k'"
    and e1: "episode_of (ep_id e1) t = Inr e1" and b1: "own_action (ep_id e1) k' t = Inr b1"
    and w1: "settle_receipt R kind' payload' ActCompleted phase' extra' e1 b1 doc' decision' True progressed' (utc now') t = Inr ((b, y, False), u)"
    by (rule reconcile_success) blast
  have "ep_id e1 = ep_id e0" using k0(1) k1(1) by (auto simp: fence_arguments_def bindR_Inr)
  have "a \<in> set (actions t)" using settled_row_of [OF settled] by blast
  moreover have "b1 \<in> set (actions t)" "ac_key b1 = ac_key a" using own_row [OF b1] k0(2) k1(2) a'(1) by auto
  ultimately have "b1 = a" using t unique_same unfolding recovery_ok_def intents_ok_def by metis
  have "stage_named b1" using t own_row [OF b1] unfolding recovery_ok_def intents_ok_def by blast
  moreover have "stage_attempts (ep_stages e1) = Inr mid" using mid(1) episode_row [OF e1] \<open>ep_id e1 = ep_id e0\<close> by simp
  ultimately obtain after where after: "\<And>z. z \<in> set (episodes u) \<Longrightarrow> ep_id z = ep_id e1 \<Longrightarrow> stage_attempts (ep_stages z) = Inr after"
    "stage_count after (ac_stage b1) = stage_count mid (ac_stage b1) + 1"
    using receipt_charge [OF w1] by auto
  have "b = settled_row ActCompleted doc' True (utc now') b1 \<and> y \<in> set (episodes u) \<and> ep_id y = ep_id e1"
    using w1 by (rule receipt_rows) blast
  then show ?thesis
    using after mid(2) a' \<open>b1 = a\<close> \<open>ep_id e1 = ep_id e0\<close> \<open>e = e0\<close> by (simp add: settled_row_def intent_of_def)
qed

section \<open>Progress\<close>

lemma put_row_get: "row_get key k t = Some r \<Longrightarrow> (\<And>x. key x = k \<Longrightarrow> key (f x) = k) \<Longrightarrow> row_get key k (row_put key k f t) = Some (f r)"
  by (simp add: row_get_map)

text \<open>
  Property C23. Recovery is never blocked by the ledger itself: an episode that is ready or waiting, whose wakeup has
  come, whose time is not used up and which nobody holds, is claimed by the active coordinator's call
  with the current revision and attempt, provided the user did not pause and the policy that made it is in force. The
  claim returns it leased, under an epoch above every earlier one, with its plan and charges unchanged.
\<close>

theorem due_episode_claimed:
  assumes names: "rec_text ''episode_id'' (VStr episode) = Inr (ep_id e)" "rec_text ''owner_id'' (VStr holder) = Inr w"
    and numbers: "1 \<le> epoch" "1 \<le> seconds" "seconds \<le> 3600" "1 \<le> ep_revision e" "0 \<le> ep_attempt e"
    and active: "meta_epoch (ledger s) = Some epoch" and e: "row_get ep_id (ep_id e) (episodes s) = Some e" "episode_view s e = Inr e"
    and t: "row_get t_id (ep_task e) (tasks (ledger s)) = Some t" "t_state t \<notin> {TPaused, TCancelled}" "t_revision t = ep_task_revision e"
    and n: "row_get node_key (ep_task e, ep_node e) (nodes (ledger s)) = Some n" "n_state n \<noteq> NCancelled" "n_attempt n = ep_attempt e"
    and p: "policy_for_task (ep_task e) s = Inr (p, ep_policy_revision e, document)" "rp_enabled p"
    and due: "ep_state e \<in> {EReady, EWaiting}" "\<not> stamp_due (Some (ep_deadline e)) (utc now)" "stamp_due (ep_wakeup e) (utc now)"
      "\<not> lease_is_live e (utc now)"
  shows "\<exists>x u. claim_due episode holder epoch (ep_revision e) (ep_attempt e) seconds now s = Inr (Some x, u)
    \<and> row_get ep_id (ep_id e) (episodes u) = Some x \<and> ep_holder x = Some w \<and> ep_epoch x = epoch \<and> ep_lease x = recovery_counter s + 1
    \<and> lease_is_live x (utc now) \<and> ep_revision x = ep_revision e + 1 \<and> ep_action x = ep_action e \<and> ep_stages x = ep_stages e"
proof -
  obtain lease v where v: "recovery_lease s = (lease, v)" by (cases "recovery_lease s")
  let ?f = "claimed_episode w epoch lease seconds (utc now)"
  let ?u = "snd (recovery_event ''node_recovery.episode_claimed'' (ep_task e) (Some (ep_node e)) (lease_payload (?f e)) (utc now)
    (put_episode (ep_id e) ?f v))"
  have u: "episodes ?u = row_put ep_id (ep_id e) ?f (episodes s)"
    by (simp add: recovery_event_snd put_episode_tables lease_tables [OF v])
  have row: "row_get ep_id (ep_id e) (episodes ?u) = Some (?f e)"
    unfolding u by (rule put_row_get [OF e(1)]) (simp add: claimed_episode_def)
  have view: "episode_view ?u (?f e) = Inr (?f e)"
    using e(2) unfolding episode_view_def case_view by (simp add: claimed_episode_def)
  have claim: "claim_episode w epoch seconds (utc now) e s = Inr (Some (?f e), ?u)"
    unfolding claim_episode_def v Let_def prod.case episode_now_def by (simp add: episode_of_def row view)
  have fence: "fence_arguments episode holder epoch (ep_revision e) (ep_attempt e) = Inr (ep_id e, w)"
    using numbers by (simp add: fence_arguments_def names at_least_one_def nonnegative_int_def)
  have "assert_episode_attempt (ep_attempt e) e s = Inr ()" using n by (simp add: assert_episode_attempt_def node_of_def)
  moreover have "lease_seconds_ok seconds = Inr ()" using numbers by (simp add: lease_seconds_ok_def)
  moreover have "assert_active_coordinator epoch (ledger s) = Inr ()" using active by (simp add: assert_active_coordinator_def)
  moreover have "\<not> user_fence t n" using t(2) n(2) by (simp add: user_fence_def)
  ultimately have "claim_due episode holder epoch (ep_revision e) (ep_attempt e) seconds now s = Inr (Some (?f e), ?u)"
    unfolding claim_due_def fence bindR_simps prod.case Let_def
    using claim due t n p e by (simp add: episode_of_def task_of_def node_of_def)
  moreover have "lease_is_live (?f e) (utc now)"
    using numbers by (simp add: lease_is_live_def claimed_episode_def)
  ultimately show ?thesis using row lease_tables(6) [OF v] by (auto simp: claimed_episode_def)
qed

end
