(* ===== verification/Recovery_Demo.thy ===== *)
theory Recovery_Demo
  imports Recovery_Laws Node_Demo
begin

text \<open>
  A run of the recovery ledger, evaluated operation by operation: an incident is recorded, claimed, an
  action is intended, its outcome stays unknown, and its journal receipt is found later.
\<close>

section \<open>The run\<close>

text \<open>The ledger, or no ledger at all when the operation raised.\<close>

definition after :: "('x \<times> recovery_ledger) res \<Rightarrow> recovery_ledger" where
  "after r = (case r of Inl _ \<Rightarrow> \<lparr>ledger = empty_store, policies = [], episodes = [], actions = [], repairs = [], notices = [], projection = None\<rparr>
     | Inr (_, s) \<Rightarrow> s)"

definition went_well :: "('x \<times> recovery_ledger) res \<Rightarrow> bool" where
  "went_well r = (case r of Inl _ \<Rightarrow> False | Inr _ \<Rightarrow> True)"

lemma went_wellD: "went_well r \<Longrightarrow> \<exists>x. r = Inr (x, after r)"
  by (auto simp: went_well_def after_def split: sum.splits)

definition blocked_task :: task_row where
  "blocked_task = \<lparr>t_id = ''t'', t_contract = VDict [], t_hash = ''h'', t_state = TBlocked, t_revision = 3, t_priority = 0,
     t_created = utc 10, t_updated = utc 10, t_blocker = None, t_verdict = None\<rparr>"

definition blocked_node :: node_row where
  "blocked_node = \<lparr>n_task = ''t'', n_node = ''n'', n_spec = VDict [], n_state = NBlocked, n_attempt = 1, n_worker = None,
     n_worktree = None, n_executor = None, n_model = None, n_started = None, n_settled = None, n_result = None, n_recovery = None,
     n_epoch = 0, n_lease = 0, n_updated = utc 10\<rparr>"

definition demo_incident :: recovery_ledger where
  "demo_incident = \<lparr>ledger = empty_store\<lparr>meta_epoch := Some 1, meta_lease := Some 4, tasks := [blocked_task], nodes := [blocked_node]\<rparr>,
     policies = [\<lparr>np_task = ''t'', np_policy = canonical_json (VDict (policy_document demo_policy)), np_revision = 1, np_configured = 3,
       np_actor = ''a'', np_created = utc 10, np_updated = utc 10\<rparr>],
     episodes = [], actions = [], repairs = [], notices = [], projection = None\<rparr>"

definition incident_failure :: pyval where
  "incident_failure = VDict [(''task_id'', VStr ''t''), (''node_id'', VStr ''n''), (''attempt'', VInt 1), (''task_revision'', VInt 3),
     (''failure_fingerprint'', VStr (replicate 64 CHR ''a'')), (''origin'', VStr ''o''), (''source_event_cursor'', VInt 0)]"

definition demo_ready_decision :: pyval where
  "demo_ready_decision = VDict [(''category'', VStr ''network''), (''state'', VStr ''ready''), (''action'', VStr ''observe_readiness''),
     (''owner'', VStr ''authority''), (''reason_kind'', VStr ''r''), (''requires_authorization'', VBool False), (''next_wakeup_at'', VNone)]"

definition demo_recorded :: "(episode_row \<times> recovery_ledger) res" where
  "demo_recorded = record_episode demo_runtime incident_failure demo_ready_decision 20 demo_incident"

definition demo_id :: string where
  "demo_id = ''node-recovery-attempt''"

definition demo_action_input :: pyval where
  "demo_action_input = VDict [(''stage_key'', VStr ''observe_readiness'')]"

definition demo_fingerprint :: string where
  "demo_fingerprint = replicate 64 CHR ''b''"

text \<open>The ledgers the record and the intent leave, evaluated once.\<close>

definition demo_entry :: "string \<Rightarrow> int \<Rightarrow> items \<Rightarrow> event_row" where
  "demo_entry kind clock payload = \<lparr>e_type = ''node_recovery.'' @ kind, e_task = Some ''t'', e_node = Some ''n'',
     e_payload = VDict payload, e_created = utc clock\<rparr>"

definition demo_episode :: episode_row where
  "demo_episode = \<lparr>ep_id = demo_id, ep_task = ''t'', ep_node = ''n'', ep_attempt = 1, ep_fingerprint = replicate 64 CHR ''a'',
     ep_task_revision = 3, ep_policy_revision = 1, ep_policy = canonical_json (VDict (policy_document demo_policy)),
     ep_origin = ''o'', ep_category = ''network'', ep_phase = ''action_intent'', ep_observation = canonical_json incident_failure,
     ep_decision = canonical_json demo_ready_decision, ep_refs = VDict [], ep_cursor = 0, ep_state = EReady,
     ep_action = Some ''observe_readiness'', ep_owner = ''authority'', ep_permission = False, ep_attempts = 0,
     ep_stage = Some ''observe_readiness'', ep_stages = VDict [], ep_deadline = utc 920, ep_wakeup = None, ep_progress_at = utc 40,
     ep_progress = VDict [(''action'', VStr ''observe_readiness''), (''action_id'', VStr ''node-recovery-action-action_fingerprint''),
       (''action_key'', VStr ''k''), (''event_cursor'', VInt 3), (''kind'', VStr ''node_recovery.action_intended''),
       (''stage_key'', VStr ''observe_readiness'')],
     ep_revision = 3, ep_holder = Some ''w'', ep_epoch = 1, ep_lease = 5, ep_expires = Some (utc 90), ep_repair_request = None,
     ep_repair_task = None, ep_deployed = None, ep_created = utc 20, ep_updated = utc 40\<rparr>"

definition demo_action :: action_row where
  "demo_action = \<lparr>ac_id = ''node-recovery-action-action_fingerprint'', ac_episode = demo_id, ac_task = ''t'', ac_node = ''n'',
     ac_attempt = 1, ac_key = ''k'', ac_stage = ''observe_readiness'', ac_epoch = 1, ac_lease = 5, ac_fingerprint = demo_fingerprint,
     ac_input = demo_action_input, ac_state = ActExecuting, ac_receipt = None, ac_dispatched = False, ac_created = utc 40,
     ac_updated = utc 40, ac_settled = None\<rparr>"

definition demo_opening :: event_row where
  "demo_opening = demo_entry ''episode_recorded'' 20 [(''action'', VStr ''observe_readiness''), (''category'', VStr ''network''),
     (''episode_id'', VStr demo_id), (''failure_fingerprint'', VStr (replicate 64 CHR ''a'')), (''node_attempt'', VInt 1),
     (''source_event_cursor'', VInt 0), (''state'', VStr ''ready'')]"

definition demo_due :: episode_row where
  "demo_due = demo_episode\<lparr>ep_phase := ''observed'', ep_revision := 1, ep_holder := None, ep_epoch := 0, ep_lease := 0,
     ep_expires := None, ep_updated := utc 20, ep_progress_at := utc 20,
     ep_progress := VDict [(''event_cursor'', VInt 1), (''kind'', VStr ''node_recovery.episode_recorded''), (''phase'', VStr ''observed''),
       (''source_event_cursor'', VInt 0)]\<rparr>"

definition demo_open :: recovery_ledger where
  "demo_open = demo_incident\<lparr>episodes := [demo_due], ledger := (ledger demo_incident)\<lparr>events := [demo_opening]\<rparr>\<rparr>"

definition incident_intended :: recovery_ledger where
  "incident_intended = demo_incident\<lparr>episodes := [demo_episode], actions := [demo_action],
     ledger := (ledger demo_incident)\<lparr>meta_lease := Some 5, events := [
       demo_opening,
       demo_entry ''episode_claimed'' 30 [(''coordinator_epoch'', VInt 1), (''episode_id'', VStr demo_id), (''lease_epoch'', VInt 5),
         (''lease_expires_at'', VStr ''1970-01-01T00:01:30+00:00''), (''owner_id'', VStr ''w''), (''state_revision'', VInt 2)],
       demo_entry ''action_intended'' 40 [(''action'', VStr ''observe_readiness''), (''action_fingerprint'', VStr demo_fingerprint),
         (''action_id'', VStr ''node-recovery-action-action_fingerprint''), (''action_key'', VStr ''k''), (''episode_id'', VStr demo_id),
         (''stage_key'', VStr ''observe_readiness''), (''state_revision'', VInt 3)]]\<rparr>\<rparr>"

definition incident_leased :: "(episode_row option \<times> recovery_ledger) res" where
  "incident_leased = claim_due demo_id ''w'' 1 1 1 60 30 demo_open"

type_synonym intent_result = "((action_row \<times> episode_row \<times> bool) \<times> recovery_ledger) res"

definition demo_begun :: intent_result where
  "demo_begun = begin_action demo_runtime demo_id ''k'' demo_fingerprint demo_action_input ''w'' 1 5 2 1 40 (after incident_leased)"

definition demo_begun_again :: intent_result where
  "demo_begun_again = begin_action demo_runtime demo_id ''k'' demo_fingerprint demo_action_input ''w'' 1 5 3 1 42 incident_intended"

definition demo_settled_as :: "string \<Rightarrow> intent_result" where
  "demo_settled_as how = settle_action demo_runtime demo_id ''k'' ''w'' 1 5 3 1 (VDict []) demo_ready_decision how True False 45
     incident_intended"

definition demo_reconciled_after :: "string \<Rightarrow> intent_result" where
  "demo_reconciled_after how = reconcile_action_receipt demo_runtime demo_id ''k'' demo_fingerprint 1 1 5 4 1 (VDict [])
     demo_ready_decision True False 50 (after (demo_settled_as how))"

definition demo_restarted :: "(int \<times> recovery_ledger) res" where
  "demo_restarted = recover_interrupted demo_runtime 60 incident_intended"

definition demo_linked :: "int \<Rightarrow> recovery_ledger \<Rightarrow> (episode_row \<times> recovery_ledger) res" where
  "demo_linked expected s = link_repair demo_runtime demo_id ''w'' 1 5 expected ''q'' ''repair'' demo_fingerprint 35 s"

definition met :: "(action_row \<Rightarrow> episode_row \<Rightarrow> bool \<Rightarrow> bool) \<Rightarrow> intent_result \<Rightarrow> bool" where
  "met P r = (case r of Inl _ \<Rightarrow> False | Inr ((a, x, existing), _) \<Rightarrow> P a x existing)"

lemma metD: "met P r \<Longrightarrow> \<exists>a x existing. r = Inr ((a, x, existing), after r) \<and> P a x existing"
  by (auto simp: met_def after_def split: sum.splits prod.splits)

lemma demo_recorded_well: "went_well demo_recorded"
  by code_simp

lemma demo_recorded_open: "after demo_recorded = demo_open"
  by code_simp

lemma demo_leased_well: "went_well incident_leased"
  by code_simp

lemma demo_begun_met: "met (\<lambda>a x existing. \<not> existing \<and> ac_key a = ''k'' \<and> ac_episode a = demo_id) demo_begun"
  by code_simp

lemma demo_begun_intended: "after demo_begun = incident_intended"
  by code_simp

lemma demo_begun_again_met: "met (\<lambda>_ _ existing. existing) demo_begun_again"
  by code_simp

lemma demo_unknown_met: "met (\<lambda>a x existing. \<not> existing \<and> ac_episode a = demo_id) (demo_settled_as ''unknown'')"
  by code_simp

lemma demo_completed_met: "met (\<lambda>a x existing. ac_state a = ActCompleted) (demo_settled_as ''completed'')"
  by code_simp

lemma demo_reconciled_met: "met (\<lambda>_ _ existing. \<not> existing) (demo_reconciled_after ''unknown'')"
  by code_simp

lemma demo_replayed_met: "met (\<lambda>_ _ existing. existing) (demo_reconciled_after ''completed'')"
  by code_simp

lemma demo_restarted_well: "went_well demo_restarted"
  by code_simp

lemma demo_linked_well: "went_well (demo_linked 2 (after incident_leased))" "went_well (demo_linked 3 (after (demo_linked 2 (after incident_leased))))"
  by code_simp+

section \<open>The run, step by step\<close>

lemma incident_reachable:
  "reachable no_recovery (recovery_step demo_runtime) demo_open"
  "reachable no_recovery (recovery_step demo_runtime) (after incident_leased)"
  "reachable no_recovery (recovery_step demo_runtime) incident_intended"
proof -
  have "no_recovery demo_incident" by code_simp
  then have "reachable no_recovery (recovery_step demo_runtime) demo_incident" by (rule reachable_start)
  moreover obtain e where "record_episode demo_runtime incident_failure demo_ready_decision 20 demo_incident = Inr (e, demo_open)"
    using went_wellD [OF demo_recorded_well] unfolding demo_recorded_open unfolding demo_recorded_def by blast
  ultimately show r: "reachable no_recovery (recovery_step demo_runtime) demo_open"
    using reachable_step rs_record by metis
  obtain c where "claim_due demo_id ''w'' 1 1 1 60 30 demo_open = Inr (c, after incident_leased)"
    using went_wellD [OF demo_leased_well] unfolding incident_leased_def by blast
  with r show c: "reachable no_recovery (recovery_step demo_runtime) (after incident_leased)"
    using reachable_step rs_claim by metis
  obtain a x b where "begin_action demo_runtime demo_id ''k'' demo_fingerprint demo_action_input ''w'' 1 5 2 1 40 (after incident_leased)
      = Inr ((a, x, b), incident_intended)"
    using metD [OF demo_begun_met] unfolding demo_begun_intended unfolding demo_begun_def by blast
  with c show "reachable no_recovery (recovery_step demo_runtime) incident_intended"
    using reachable_step rs_begin by metis
qed

lemma demo_first_intent: "\<exists>a x. begin_action demo_runtime demo_id ''k'' demo_fingerprint demo_action_input ''w'' 1 5 2 1 40 (after incident_leased)
    = Inr ((a, x, False), incident_intended) \<and> ac_key a = ''k'' \<and> ac_episode a = demo_id"
  using metD [OF demo_begun_met] unfolding demo_begun_intended unfolding demo_begun_def by auto

lemma demo_key: "rec_text ''action_key'' (VStr ''k'') = Inr ''k''"
  by code_simp

theorem recovery_ledger_consistent_witness:
  "(ac_state demo_action = ActExecuting \<longleftrightarrow> ac_receipt demo_action = None) \<and> unique_key failure_of (episodes incident_intended)"
  using recovery_ledger_consistent [OF incident_reachable(3)] by (simp add: incident_intended_def)

theorem recovery_intent_once_witness:
  "\<exists>a x b y. begin_action demo_runtime demo_id ''k'' demo_fingerprint demo_action_input ''w'' 1 5 2 1 40 (after incident_leased)
      = Inr ((a, x, False), incident_intended)
    \<and> begin_action demo_runtime demo_id ''k'' demo_fingerprint demo_action_input ''w'' 1 5 3 1 42 incident_intended
      = Inr ((b, y, True), incident_intended) \<and> intent_of b = intent_of a"
proof -
  obtain a x where first: "begin_action demo_runtime demo_id ''k'' demo_fingerprint demo_action_input ''w'' 1 5 2 1 40 (after incident_leased)
      = Inr ((a, x, False), incident_intended)" "ac_key a = ''k''"
    using demo_first_intent by blast
  obtain b y existing v where again: "begin_action demo_runtime demo_id ''k'' demo_fingerprint demo_action_input ''w'' 1 5 3 1 42 incident_intended
      = Inr ((b, y, existing), v)" "existing"
    using metD [OF demo_begun_again_met] unfolding demo_begun_again_def by blast
  have "existing \<and> v = incident_intended \<and> intent_of b = intent_of a"
    by (rule recovery_intent_once [OF incident_reachable(2) first(1) rtranclp.rtrancl_refl again(1)]) (simp add: demo_key first(2))
  then show ?thesis using first(1) again by auto
qed

theorem recovery_action_guarded_witness:
  "\<exists>a x u. begin_action demo_runtime demo_id ''k'' demo_fingerprint demo_action_input ''w'' 1 5 2 1 40 (after incident_leased)
      = Inr ((a, x, False), u) \<and> meta_epoch (ledger (after incident_leased)) = Some 1 \<and> actions u = actions (after incident_leased) @ [a]"
proof -
  obtain a x where first: "begin_action demo_runtime demo_id ''k'' demo_fingerprint demo_action_input ''w'' 1 5 2 1 40 (after incident_leased)
      = Inr ((a, x, False), incident_intended)"
    using demo_first_intent by blast
  from recovery_action_guarded [OF first] show ?thesis using first by blast
qed

lemma demo_completed: "\<exists>a x b. settle_action demo_runtime demo_id ''k'' ''w'' 1 5 3 1 (VDict []) demo_ready_decision ''completed'' True False 45
     incident_intended = Inr ((a, x, b), after (demo_settled_as ''completed'')) \<and> ac_state a = ActCompleted"
  using metD [OF demo_completed_met] unfolding demo_settled_as_def [of "''completed''"] by auto

theorem recovery_receipt_once_witness:
  "\<exists>a y. reconcile_action_receipt demo_runtime demo_id ''k'' demo_fingerprint 1 1 5 4 1 (VDict []) demo_ready_decision True False 50
      (after (demo_settled_as ''completed'')) = Inr ((a, y, True), after (demo_settled_as ''completed''))
    \<and> ac_state a = ActCompleted"
proof -
  obtain a x b0 where first: "settle_action demo_runtime demo_id ''k'' ''w'' 1 5 3 1 (VDict []) demo_ready_decision ''completed'' True False 45
     incident_intended = Inr ((a, x, b0), after (demo_settled_as ''completed''))" and a: "ac_state a = ActCompleted"
    using demo_completed by blast
  obtain b y existing v where again: "reconcile_action_receipt demo_runtime demo_id ''k'' demo_fingerprint 1 1 5 4 1 (VDict [])
      demo_ready_decision True False 50 (after (demo_settled_as ''completed'')) = Inr ((b, y, existing), v)"
    using metD [OF demo_replayed_met] unfolding demo_reconciled_after_def by blast
  have "existing \<and> v = after (demo_settled_as ''completed'') \<and> b \<in> set (actions (after (demo_settled_as ''completed'')))
      \<and> intent_of b = intent_of a \<and> (ac_state a = ActCompleted \<longrightarrow> b = a)"
    by (rule recovery_receipt_once [OF incident_reachable(3) first rtranclp.rtrancl_refl]) (use a again in blast)
  then show ?thesis using again a by auto
qed

lemma demo_episode_name: "rec_text ''episode_id'' (VStr demo_id) = Inr demo_id"
  by code_simp

theorem recovery_lease_superseded_witness:
  "\<forall>r. begin_action demo_runtime demo_id ''k'' demo_fingerprint demo_action_input ''w'' 1 4 3 1 42 incident_intended \<noteq> Inr r"
  using recovery_lease_superseded [OF incident_reachable(3) _ rtranclp.rtrancl_refl, of demo_episode 4 demo_id] demo_episode_name
  by (simp add: incident_intended_def demo_episode_def)

theorem restart_leaves_no_executing_witness:
  "\<exists>t. recover_interrupted demo_runtime 60 incident_intended = Inr (1, t) \<and> length (actions t) = 1
    \<and> ac_state (actions t ! 0) = ActUnknown \<and> ac_dispatched (actions t ! 0) = False"
proof -
  obtain n t where r: "recover_interrupted demo_runtime 60 incident_intended = Inr (n, t)"
    using went_wellD [OF demo_restarted_well] unfolding demo_restarted_def by blast
  have "actions incident_intended = [demo_action]" "ac_state demo_action = ActExecuting" "ac_dispatched demo_action = False"
    by (simp_all add: incident_intended_def demo_action_def)
  then show ?thesis using restart_leaves_no_executing [OF r] r by auto
qed

theorem reconciled_effect_charged_twice_witness:
  "\<exists>a b x y t u. settle_action demo_runtime demo_id ''k'' ''w'' 1 5 3 1 (VDict []) demo_ready_decision ''unknown'' True False 45
      incident_intended = Inr ((a, x, False), t)
    \<and> reconcile_action_receipt demo_runtime demo_id ''k'' demo_fingerprint 1 1 5 4 1 (VDict []) demo_ready_decision True False 50 t
      = Inr ((b, y, False), u)
    \<and> (\<exists>after. stage_attempts (ep_stages y) = Inr after \<and> stage_count after (ac_stage a) = 2)"
proof -
  obtain a x where s: "settle_action demo_runtime demo_id ''k'' ''w'' 1 5 3 1 (VDict []) demo_ready_decision ''unknown'' True False 45
      incident_intended = Inr ((a, x, False), after (demo_settled_as ''unknown''))" "ac_episode a = demo_id"
    using metD [OF demo_unknown_met] unfolding demo_settled_as_def [of "''unknown''"] by auto
  obtain b y u where r: "reconcile_action_receipt demo_runtime demo_id ''k'' demo_fingerprint 1 1 5 4 1 (VDict []) demo_ready_decision
      True False 50 (after (demo_settled_as ''unknown'')) = Inr ((b, y, False), u)"
    using metD [OF demo_reconciled_met] unfolding demo_reconciled_after_def by auto
  have "demo_episode \<in> set (episodes incident_intended)" "ep_id demo_episode = ac_episode a"
    by (simp_all add: incident_intended_def demo_episode_def s(2))
  moreover have "stage_attempts (ep_stages demo_episode) = Inr []" by code_simp
  ultimately show ?thesis
    using reconciled_effect_charged_twice [OF incident_reachable(3) s(1) r] s(1) r by (fastforce simp: stage_count_def)
qed

lemma demo_due_facts:
  "ep_id demo_due = demo_id" "ep_revision demo_due = 1" "ep_attempt demo_due = 1" "ep_task demo_due = ''t''" "ep_node demo_due = ''n''"
  "ep_task_revision demo_due = 3" "ep_policy_revision demo_due = 1" "ep_state demo_due = EReady" "ep_wakeup demo_due = None"
  "ep_deadline demo_due = utc 920" "ep_holder demo_due = None" "episodes demo_open = [demo_due]" "tasks (ledger demo_open) = [blocked_task]"
  "nodes (ledger demo_open) = [blocked_node]" "meta_epoch (ledger demo_open) = Some 1"
  by (simp_all add: demo_due_def demo_episode_def demo_open_def demo_incident_def)

lemma demo_view: "episode_view demo_open demo_due = Inr demo_due"
  by code_simp

lemma demo_in_force: "\<exists>document. policy_for_task ''t'' demo_open = Inr (demo_policy, 1, document)"
proof -
  have "case policy_for_task ''t'' demo_open of Inl _ \<Rightarrow> False | Inr (p, r, _) \<Rightarrow> p = demo_policy \<and> r = 1" by code_simp
  then show ?thesis by (auto split: sum.splits)
qed

theorem due_episode_claimed_witness:
  "\<exists>x u. claim_due demo_id ''w'' 1 1 1 60 30 demo_open = Inr (Some x, u) \<and> ep_holder x = Some ''w'' \<and> ep_lease x = 5"
proof -
  obtain document where p: "policy_for_task ''t'' demo_open = Inr (demo_policy, 1, document)" using demo_in_force by blast
  have w: "rec_text ''owner_id'' (VStr ''w'') = Inr ''w''" by code_simp
  have c: "recovery_counter demo_open = 4" by (simp add: recovery_counter_def node_counter_def demo_open_def demo_incident_def)
  have t: "t_state blocked_task \<notin> {TPaused, TCancelled}" "t_revision blocked_task = 3" "n_state blocked_node \<noteq> NCancelled"
      "n_attempt blocked_node = 1" "t_id blocked_task = ''t''" "node_key blocked_node = (''t'', ''n'')" "rp_enabled demo_policy"
      "\<not> stamp_due (Some (utc 920)) (utc 30)" "stamp_due None (utc 30)"
    by (simp_all add: blocked_task_def blocked_node_def node_key_def demo_policy_def) code_simp+
  from due_episode_claimed [of demo_id demo_due "''w''" "''w''" 1 60 demo_open blocked_task blocked_node demo_policy document 30] show ?thesis
    using demo_episode_name w p c t demo_view by (fastforce simp: demo_due_facts row_get_def lease_is_live_def)
qed

theorem recovery_repair_linked_once_witness:
  "\<exists>r x u y v. demo_linked 2 (after incident_leased) = Inr (x, u) \<and> demo_linked 3 u = Inr (y, v) \<and> v = u
    \<and> repairs u = [r] \<and> re_request r = ''q''"
proof -
  let ?s = "after (demo_linked 2 (after incident_leased))"
  obtain x where x: "demo_linked 2 (after incident_leased) = Inr (x, ?s)" using went_wellD [OF demo_linked_well(1)] by blast
  obtain y where y: "demo_linked 3 ?s = Inr (y, after (demo_linked 3 ?s))" using went_wellD [OF demo_linked_well(2)] by blast
  have "case (repairs ?s, episodes ?s) of ([r], [e]) \<Rightarrow> ep_task e = re_task r \<and> ep_fingerprint e = re_fingerprint r
      \<and> ep_id e = demo_id \<and> re_request r = ''q'' | _ \<Rightarrow> False"
    by code_simp
  then obtain r e where r: "repairs ?s = [r]" "episodes ?s = [e]" "ep_task e = re_task r" "ep_fingerprint e = re_fingerprint r"
      "ep_id e = demo_id" "re_request r = ''q''"
    by (auto split: list.splits)
  have "reachable no_recovery (recovery_step demo_runtime) ?s"
    using reachable_step [OF incident_reachable(2)] rs_link x unfolding demo_linked_def by metis
  then obtain q where q: "q \<in> set (repairs ?s)" "\<forall>e \<in> set (episodes ?s). ep_task e = re_task r \<and> ep_fingerprint e = re_fingerprint r
        \<and> rec_text ''episode_id'' (VStr demo_id) = Inr (ep_id e)
        \<and> demo_linked 3 ?s = Inr (y, after (demo_linked 3 ?s)) \<longrightarrow> after (demo_linked 3 ?s) = ?s \<and> re_episode r = ep_id e
        \<and> rec_text ''repair_request_id'' (VStr ''q'') = Inr (re_request r) \<and> fingerprint ''repair_fingerprint'' (VStr demo_fingerprint) = Inr (re_repair r)"
    using recovery_repair_linked_once [where r = r and s = ?s and t = ?s, OF _ _ rtranclp.rtrancl_refl] r(1)
    unfolding demo_linked_def [of 3] by force
  then have "after (demo_linked 3 ?s) = ?s" using r y demo_episode_name by auto
  then show ?thesis using x y r by metis
qed

end
