(* ===== verification/Spec2Isabelle.thy ===== *)
theory Spec2Isabelle
  imports Planning_Machine Delivery_Laws Delivery_Once Delivery_Safety Delivery_Permission Delivery_Rollout
    Delivery_Command Delivery_Reconciler Scopes Node_Laws Continuation Recovery_Views Recovery_Demo
begin

text \<open>
  The authority ledger of codex-workbench.

  The program is a coordinator that plans, executes, verifies and delivers coding tasks. Its only
  source of truth is an SQLite ledger (\<open>src/src/codex_workbench/store.py\<close>, class
  \<open>WorkbenchStore\<close>): every worker, API call and timer reads it, writes it in one transaction and
  relies on its fences to survive crashes, replays and a second coordinator. This development models
  that ledger operation by operation and proves what the fences promise.

  The store is a record of tables, a table is the list of its rows in rowid order, and each operation
  is a function from the ledger to an error or a result with the new ledger. A raised exception is
  \<open>Inl\<close> and leaves the ledger as it was (the transaction rolls back). The clock reading of an
  operation is its argument \<open>now\<close>, the digest of \<open>canonical_hash\<close> is the argument \<open>sha\<close>,
  arbitrary in every theorem.

  Theories, in the order of the code:

  Prelude: errors and results, tables keyed by a primary key (locale \<open>keyed_table\<close>), and the laws
  of step relations over a ledger (locales \<open>invariant_machine\<close>, \<open>logged_machine\<close>, \<open>fenced_machine\<close>).
  Py_Values: the JSON values of the ledger, their truth, equality and canonical form.
  Py_Time: timestamps, their text and the order of that text.
  Store_State: the states, rows and tables; events; coordinator epochs; every table is an instance
  of \<open>keyed_table\<close>.
  Delivery_Request: the validators of \<open>delivery_lifecycle.py\<close> (stages, budgets, identities, wait
  reasons, live verification, objective requests).
  Admission: the rollout gate, its blockers and the objective lease fence.
  Planning_Ledger: planning requests and their operations. Planning_Machine (over Task_Graph):
  \<open>planning_step\<close>, any interleaving of every operation that writes planning requests, the
  materialization of a planned task included, with transactions that do not.
  Delivery_Objective: objectives, leases, dispatch intents, rollbacks, observations, safe points.
  Delivery_Receipt: \<open>record_delivery_stage_receipt\<close>: the report, the fence, the transition, the writes.
  Delivery_Authority: authorization receipts and the permission of a stage.
  Delivery_Machine: the effect of every delivery operation on the rows, \<open>delivery_step\<close> as any
  interleaving of them, and the invariant \<open>delivery_ok\<close>; it instantiates the three machine locales.
  Delivery_Laws, Delivery_Once, Delivery_Safety, Delivery_Permission: the properties of the delivery
  ledger; Delivery_Rollout: what a started rollout keeps out (over Node_Claim).
  Delivery_Command: the receipt of one GitHub delivery and the fence of the process that runs it.
  Delivery_Reconciler: the loop of \<open>DeliveryLifecycleReconciler\<close> as sequences of transactions and
  adapter calls; what adapters answer and what other processes commit meanwhile is arbitrary.
  Scopes: repository scopes of \<open>worktrees.py\<close>, their overlap and the conflicts of two nodes.
  Node_Specs: contracts, node specifications, lanes and pools of \<open>model.py\<close> with their validators.
  Task_Graph: the validation of a task graph, \<open>create_task\<close> and \<open>materialize_planning_request\<close>.
  Node_Recovery: the authorization of a retry and the decoders of a node's recovery document.
  Node_Claim: \<open>claim_ready_node\<close>; Claim_Effect: what a claim does to the rows.
  Node_Settle: \<open>settle_node\<close> with its outcomes and rollbacks, settlement conflicts and the recovery
  after a restart; Settle_Effect: what they do to the rows.
  Task_Control: transitions, priority, steering, queueing, decisions on an unknown outcome;
  Node_Effect: the calm operations, which start no node and accept none.
  Node_Machine: \<open>node_step\<close>, any interleaving of the modelled operations on tasks and nodes;
  Node_Invariant: \<open>node_ok\<close>, which every step keeps. Node_Demo: a task run from creation to
  acceptance, every ledger of the run evaluated. Node_Laws: the properties of the node ledger.

  Recovery_Policy: the policy of a blocked node's recovery, the classification of its failure and the
  plan of its next step (\<open>node_recovery_policy.py\<close>). Continuation: the authorization of a
  continuation (\<open>continuation_authorization.py\<close>).

  Recovery_Documents, Recovery_Ledger, Recovery_Ops, Recovery_Actions, Recovery_Views: the recovery
  ledger (\<open>node_recovery_store.py\<close>, class \<open>NodeRecoveryStore\<close>), in the order of the code: its
  validators; its five tables and the fences; policies and episodes; leases, intents, receipts,
  restarts and repairs; what is read from it. Its state \<open>recovery_ledger\<close> contains the store, as both
  are tables of one database. Recovery_Writes: every operation is a sequence of nine kinds of writes;
  Recovery_Machine: \<open>recovery_step\<close>, any interleaving of the operations with transactions of others
  that never lower the lease counter, and the invariant \<open>recovery_ok\<close>; Recovery_Laws: the properties;
  Recovery_Demo: an incident from its record to its reconciled receipt, evaluated.

  What the theorems show: planning requests are attempted within their limit, settle once and are
  fenced by the coordinator epoch; a delivery objective completes only with a success receipt for
  every requested stage, in order; a lease that was superseded never writes again; an external effect
  and a rollback are permitted at most once; a receipt is accepted at most once; every failure is
  charged to the budget and retried only within it; a node is claimed only when every rule of admission
  allows it, two running nodes never share files, an attempt settles once and an accepted task is
  complete; a recovery plan and a continuation stay inside what the operator granted; a recovery intent
  is recorded once, begun only behind every fence, settled once and unknown after a restart.

  Assumptions on code outside the repository: none beyond the SQLite transaction (a step is atomic)
  and the arguments \<open>now\<close> and \<open>sha\<close>. Timestamps carry whole seconds, as \<open>now_iso\<close> writes them.
  \<open>node_step\<close> contains the operations that create, queue, steer, claim, settle, decide and restart
  tasks and nodes. The store has further transactions that write those two tables, and the theorems
  over \<open>node_step\<close> do not speak of ledgers they wrote. On blocked, exhausted or indeterminate work:
  \<open>retry_blocked_node\<close> (4898), \<open>resume_blocked_worktree\<close> (6004), \<open>reconcile_archify_metadata\<close>
  (6415), \<open>rescope_legacy_task_steering\<close> (6850), \<open>schedule_blocked_consumer_owner_repairs\<close> (6929),
  \<open>resume_exhausted_blocked_owner_repairs\<close> (7364), \<open>normalize_indeterminate_scope\<close> (8020),
  \<open>queue_indeterminate_local_recovery\<close> (8588), \<open>resume_exhausted_accepted_source_repair\<close> (11408). On
  routes and worktrees: \<open>finish_worktree_quarantine\<close> (10298), \<open>record_node_route\<close> (10798),
  \<open>assign_worktree\<close> (12607) and \<open>assign_failed_attempt_recovery_worktree\<close> (12890) with the rollbacks
  of an assignment (13309, 13410, 13605). None of them sets a node running. Likewise
  \<open>planning_step\<close>, \<open>delivery_step\<close> and \<open>recovery_step\<close> range over the writers of their own tables.

  Recovery claims draw their epochs from the counter of the node leases; in \<open>node_step\<close> a transaction of
  another component leaves that counter alone, so recovery claims are interleaved with node operations
  in \<open>recovery_step\<close> only, where a node operation is one of the transactions of others.

  Not modelled: worktrees and archives, quotas, the driver of the recovery loop and its actions,
  routing, the planner and executors, the services and the installers; most of these are process
  control and I/O. What a claim or a settlement asks of the file system (aliases of scopes, isolation
  of worktrees, artifacts) is an argument of the model (records \<open>world\<close> and \<open>judge\<close>).
\<close>

end
